(* ===== verification/TV_Prelude.thy ===== *)
theory TV_Prelude
  imports Main "HOL-Library.Word" "HOL-Library.Sublist"
begin

text \<open>
  Shared vocabulary of the development.

  \<^item> The machine integers of the Rust sources: \<open>u8\<close>, \<open>u32\<close>, \<open>u64\<close> are words of that
    width, with \<open>checked_add\<close>, \<open>saturating_sub\<close> and \<open>div_ceil\<close> as the standard library
    defines them.
  \<^item> \<open>Result<T, E>\<close> is the sum type, with \<open>bind_res\<close> for the operator \<open>?\<close> and
    \<open>map_err\<close> for the method of that name.
  \<^item> A Rust \<open>String\<close> is the list of its UTF-8 bytes; \<open>utf8_chars\<close> cuts it into the
    encodings of its characters, and \<open>trim\<close>, \<open>split\<close>, \<open>split_whitespace\<close>,
    \<open>to_lowercase\<close>, \<open>parse::<u32>\<close> and the decimal \<open>Display\<close> of integers are
    defined on it.
  \<^item> Generic facts on lists, maps and these functions that several components use.
\<close>

named_theorems res_simps \<open>computation rules of the result combinators\<close>
named_theorems model_defs \<open>unfolding rules of the small definitions of a component\<close>

subsection \<open>Machine integers\<close>

type_synonym u8 = "8 word"
type_synonym u32 = "32 word"
type_synonym u64 = "64 word"

definition checked_add :: "'a::len word \<Rightarrow> 'a word \<Rightarrow> 'a word option" where
  "checked_add a b =
     (if unat a + unat b < 2 ^ LENGTH('a) then Some (a + b) else None)"

definition saturating_add :: "'a::len word \<Rightarrow> 'a word \<Rightarrow> 'a word" where
  "saturating_add a b =
     (if unat a + unat b < 2 ^ LENGTH('a) then a + b else - 1)"

definition saturating_sub :: "'a::len word \<Rightarrow> 'a word \<Rightarrow> 'a word" where
  "saturating_sub a b = (if a < b then 0 else a - b)"

definition div_ceil :: "'a::len word \<Rightarrow> 'a word \<Rightarrow> 'a word" where
  "div_ceil a b = (if a mod b > 0 then a div b + 1 else a div b)"

lemma unat_u64_less [simp]: "unat (x :: u64) < 18446744073709551616"
  using unsigned_less [of x, where 'a = nat] by simp

lemma unat_u32_less [simp]: "unat (x :: u32) < 4294967296"
  using unsigned_less [of x, where 'a = nat] by simp

lemma checked_add_SomeD:
  "checked_add a b = Some c \<Longrightarrow> unat c = unat a + unat b"
  by (auto simp: checked_add_def unat_word_ariths split: if_splits)

lemma checked_add_None_iff:
  fixes a b :: "'a::len word"
  shows "checked_add a b = None \<longleftrightarrow> 2 ^ LENGTH('a) \<le> unat a + unat b"
  by (auto simp: checked_add_def)

lemma unat_saturating_sub: "unat (saturating_sub a b) = unat a - unat b"
  by (auto simp: saturating_sub_def unat_sub word_le_nat_alt word_less_nat_alt not_less)

lemma unat_div_ceil:
  fixes a b :: "'a::len word"
  assumes "b \<noteq> 0"
  shows "unat (div_ceil a b) = (if unat a mod unat b = 0 then unat a div unat b
                                else unat a div unat b + 1)"
proof (cases "unat a mod unat b = 0")
  case True
  then have "a mod b = 0"
    by (simp add: unat_mod word_unat_eq_iff)
  then show ?thesis using True by (simp add: div_ceil_def unat_div)
next
  case False
  then have pos: "0 < a mod b"
    by (simp add: word_less_nat_alt unat_mod)
  have "unat b \<noteq> 1" using False by auto
  moreover have "unat b \<noteq> 0" using assms by (simp add: unat_eq_zero)
  ultimately have b2: "2 \<le> unat b" by arith
  have "unat a div unat b < unat a"
    using b2 False by (metis div_less_dividend gr0I less_le_trans mod_0 one_less_numeral_iff semiring_norm(76))
  also have "unat a < 2 ^ LENGTH('a)" by (rule unsigned_less)
  finally have "unat (a div b) + 1 < 2 ^ LENGTH('a)"
    using \<open>unat a div unat b < unat a\<close> unsigned_less [of a, where 'a = nat]
    unfolding unat_div by linarith
  then have "unat (a div b + 1) = unat a div unat b + 1"
    by (metis unat_1 unat_add_lem unat_div One_nat_def)
  then show ?thesis using False pos by (simp add: div_ceil_def)
qed

subsection \<open>Results\<close>

type_synonym ('e, 'a) result = "'e + 'a"

abbreviation Err :: "'e \<Rightarrow> ('e, 'a) result" where "Err \<equiv> Inl"
abbreviation Ok :: "'a \<Rightarrow> ('e, 'a) result" where "Ok \<equiv> Inr"

definition bind_res :: "('e, 'a) result \<Rightarrow> ('a \<Rightarrow> ('e, 'b) result) \<Rightarrow> ('e, 'b) result" where
  "bind_res r f = (case r of Inl e \<Rightarrow> Inl e | Inr a \<Rightarrow> f a)"

definition map_err :: "('e \<Rightarrow> 'f) \<Rightarrow> ('e, 'a) result \<Rightarrow> ('f, 'a) result" where
  "map_err h r = (case r of Inl e \<Rightarrow> Inl (h e) | Inr a \<Rightarrow> Inr a)"

definition ok_or :: "'e \<Rightarrow> 'a option \<Rightarrow> ('e, 'a) result" where
  "ok_or e x = (case x of None \<Rightarrow> Inl e | Some a \<Rightarrow> Inr a)"

definition is_ok :: "('e, 'a) result \<Rightarrow> bool" where
  "is_ok r = (case r of Inl _ \<Rightarrow> False | Inr _ \<Rightarrow> True)"

lemma bind_res_simps [simp, res_simps]:
  "bind_res (Inl e) f = Inl e"
  "bind_res (Inr a) f = f a"
  by (simp_all add: bind_res_def)

lemma map_err_simps [simp, res_simps]:
  "map_err h (Inl e) = Inl (h e)"
  "map_err h (Inr a) = Inr a"
  by (simp_all add: map_err_def)

lemma ok_or_simps [simp, res_simps]:
  "ok_or e None = Inl e"
  "ok_or e (Some a) = Inr a"
  by (simp_all add: ok_or_def)

lemma is_ok_simps [simp, res_simps]:
  "is_ok (Inl e) = False"
  "is_ok (Inr a) = True"
  by (simp_all add: is_ok_def)

lemma bind_res_Inr_iff:
  "bind_res r f = Inr b \<longleftrightarrow> (\<exists>a. r = Inr a \<and> f a = Inr b)"
  by (cases r) auto

lemma bind_res_Inl_iff:
  "bind_res r f = Inl e \<longleftrightarrow> r = Inl e \<or> (\<exists>a. r = Inr a \<and> f a = Inl e)"
  by (cases r) auto

lemma map_err_Inr_iff [simp]: "map_err h r = Inr a \<longleftrightarrow> r = Inr a"
  by (cases r) auto

lemma ok_or_Inr_iff [simp]: "ok_or e x = Inr a \<longleftrightarrow> x = Some a"
  by (cases x) auto

lemma unit_result_cases: "(r :: ('e, unit) result) \<noteq> Inr () \<longleftrightarrow> (\<exists>e. r = Inl e)"
  by (cases r) auto

subsection \<open>Strings as UTF-8 bytes\<close>

abbreviation byte_of :: "char \<Rightarrow> nat" where "byte_of c \<equiv> of_char c"

definition utf8_len :: "char \<Rightarrow> nat" where
  "utf8_len c =
     (if byte_of c < 128 then 1 else if byte_of c < 224 then 2
      else if byte_of c < 240 then 3 else 4)"

lemma utf8_len_pos [simp]: "0 < utf8_len c"
  by (simp add: utf8_len_def)

fun utf8_chars_fuel :: "nat \<Rightarrow> string \<Rightarrow> string list" where
  "utf8_chars_fuel 0 s = []"
| "utf8_chars_fuel (Suc n) [] = []"
| "utf8_chars_fuel (Suc n) (c # s) =
     (c # take (utf8_len c - 1) s) # utf8_chars_fuel n (drop (utf8_len c - 1) s)"

definition utf8_chars :: "string \<Rightarrow> string list" where
  "utf8_chars s = utf8_chars_fuel (length s) s"

lemma concat_utf8_chars_fuel: "length s \<le> n \<Longrightarrow> concat (utf8_chars_fuel n s) = s"
  by (induction n s rule: utf8_chars_fuel.induct) auto

lemma concat_utf8_chars [simp]: "concat (utf8_chars s) = s"
  by (simp add: utf8_chars_def concat_utf8_chars_fuel)

lemma utf8_chars_fuel_ascii:
  "\<lbrakk>length s \<le> n; \<forall>c \<in> set s. byte_of c < 128\<rbrakk> \<Longrightarrow> utf8_chars_fuel n s = map (\<lambda>c. [c]) s"
  by (induction n s rule: utf8_chars_fuel.induct) (auto simp: utf8_len_def)

lemma utf8_chars_ascii:
  "\<forall>c \<in> set s. byte_of c < 128 \<Longrightarrow> utf8_chars s = map (\<lambda>c. [c]) s"
  by (simp add: utf8_chars_def utf8_chars_fuel_ascii)

definition ws_chars :: "string list" where
  \<comment> \<open>the UTF-8 encodings of the characters with the Unicode property White_Space\<close>
  "ws_chars =
     [[CHR 0x09], [CHR 0x0A], [CHR 0x0B], [CHR 0x0C], [CHR 0x0D], [CHR 0x20],
      [CHR 0xC2, CHR 0x85], [CHR 0xC2, CHR 0xA0], [CHR 0xE1, CHR 0x9A, CHR 0x80],
      [CHR 0xE2, CHR 0x80, CHR 0x80], [CHR 0xE2, CHR 0x80, CHR 0x81],
      [CHR 0xE2, CHR 0x80, CHR 0x82], [CHR 0xE2, CHR 0x80, CHR 0x83],
      [CHR 0xE2, CHR 0x80, CHR 0x84], [CHR 0xE2, CHR 0x80, CHR 0x85],
      [CHR 0xE2, CHR 0x80, CHR 0x86], [CHR 0xE2, CHR 0x80, CHR 0x87],
      [CHR 0xE2, CHR 0x80, CHR 0x88], [CHR 0xE2, CHR 0x80, CHR 0x89],
      [CHR 0xE2, CHR 0x80, CHR 0x8A], [CHR 0xE2, CHR 0x80, CHR 0xA8],
      [CHR 0xE2, CHR 0x80, CHR 0xA9], [CHR 0xE2, CHR 0x80, CHR 0xAF],
      [CHR 0xE2, CHR 0x81, CHR 0x9F], [CHR 0xE3, CHR 0x80, CHR 0x80]]"

definition is_ws :: "string \<Rightarrow> bool" where
  "is_ws ch \<longleftrightarrow> ch \<in> set ws_chars"

definition trim :: "string \<Rightarrow> string" where
  "trim s = concat (rev (dropWhile is_ws (rev (dropWhile is_ws (utf8_chars s)))))"

lemma set_trim_subset: "set (trim s) \<subseteq> set s"
proof -
  have "set (rev (dropWhile is_ws (rev (dropWhile is_ws (utf8_chars s)))))
          \<subseteq> set (utf8_chars s)"
    by (auto dest!: set_dropWhileD)
  then have "set (trim s) \<subseteq> set (concat (utf8_chars s))"
    by (auto simp: trim_def simp del: concat_utf8_chars)
  then show ?thesis by simp
qed

lemma utf8_chars_Cons_ascii:
  "byte_of c < 128 \<Longrightarrow> utf8_chars (c # s) = [c] # utf8_chars s"
  by (simp add: utf8_chars_def utf8_len_def)

lemma trim_Cons_space [simp]: "trim (CHR '' '' # s) = trim s"
  by (simp add: trim_def utf8_chars_Cons_ascii is_ws_def ws_chars_def)

lemma trim_ascii:
  assumes "\<forall>c \<in> set s. byte_of c < 128 \<and> \<not> is_ws [c]"
  shows "trim s = s"
proof -
  have chars: "utf8_chars s = map (\<lambda>c. [c]) s"
    using assms by (intro utf8_chars_ascii) blast
  have keep: "dropWhile is_ws xs = xs" if "set xs \<subseteq> (\<lambda>c. [c]) ` set s" for xs
    using that assms by (cases xs) auto
  show ?thesis unfolding trim_def chars by (simp add: keep)
qed

lemma utf8_chars_all_ascii_iff:
  assumes "\<And>c. P c \<Longrightarrow> byte_of c < 128"
  shows "(\<forall>ch \<in> set (utf8_chars s). case ch of [c] \<Rightarrow> P c | _ \<Rightarrow> False) \<longleftrightarrow> (\<forall>c \<in> set s. P c)"
proof
  assume all: "\<forall>ch \<in> set (utf8_chars s). case ch of [c] \<Rightarrow> P c | _ \<Rightarrow> False"
  have "P c" if "ch \<in> set (utf8_chars s)" "c \<in> set ch" for ch c
    using all that by (cases ch rule: remdups_adj.cases) auto
  then have "\<forall>c \<in> set (concat (utf8_chars s)). P c"
    unfolding set_concat by blast
  then show "\<forall>c \<in> set s. P c" by simp
next
  assume "\<forall>c \<in> set s. P c"
  moreover from this have "utf8_chars s = map (\<lambda>c. [c]) s"
    using assms by (intro utf8_chars_ascii) blast
  ultimately show "\<forall>ch \<in> set (utf8_chars s). case ch of [c] \<Rightarrow> P c | _ \<Rightarrow> False"
    by simp
qed

fun split_on :: "char \<Rightarrow> string \<Rightarrow> string list" where
  "split_on d [] = [[]]"
| "split_on d (c # s) =
     (if c = d then [] # split_on d s
      else (case split_on d s of [] \<Rightarrow> [[c]] | p # ps \<Rightarrow> (c # p) # ps))"

lemma split_on_nonempty [simp]: "split_on d s \<noteq> []"
  by (cases s) (auto split: list.splits)

lemma split_on_no_delim: "d \<notin> set s \<Longrightarrow> split_on d s = [s]"
  by (induction s) auto

lemma split_on_parts: "p \<in> set (split_on d s) \<Longrightarrow> d \<notin> set p"
  by (induction s arbitrary: p) (auto split: list.splits if_splits)

lemma split_on_append:
  "d \<notin> set s \<Longrightarrow> split_on d (s @ d # t) = s # split_on d t"
  by (induction s) auto

fun ws_words :: "string list \<Rightarrow> string \<Rightarrow> string list" where
  "ws_words [] acc = (if acc = [] then [] else [acc])"
| "ws_words (ch # chs) acc =
     (if is_ws ch then (if acc = [] then [] else [acc]) @ ws_words chs []
      else ws_words chs (acc @ ch))"

definition split_whitespace :: "string \<Rightarrow> string list" where
  "split_whitespace s = ws_words (utf8_chars s) []"

definition lower_char :: "string \<Rightarrow> string" where
  \<comment> \<open>ASCII letters, and the Kelvin sign, whose lower case is the ASCII letter k; the other
     characters outside ASCII have no lower case that is ASCII and are kept\<close>
  "lower_char ch =
     (case ch of
        [c] \<Rightarrow> if 65 \<le> byte_of c \<and> byte_of c \<le> 90 then [char_of (byte_of c + 32)] else [c]
      | _ \<Rightarrow> if ch = [CHR 0xE2, CHR 0x84, CHR 0xAA] then ''k'' else ch)"

definition to_lowercase :: "string \<Rightarrow> string" where
  "to_lowercase s = concat (map lower_char (utf8_chars s))"

definition is_ascii_digit :: "char \<Rightarrow> bool" where
  "is_ascii_digit c \<longleftrightarrow> 48 \<le> byte_of c \<and> byte_of c \<le> 57"

definition is_ascii_alphanumeric :: "char \<Rightarrow> bool" where
  "is_ascii_alphanumeric c \<longleftrightarrow> is_ascii_digit c
     \<or> (65 \<le> byte_of c \<and> byte_of c \<le> 90) \<or> (97 \<le> byte_of c \<and> byte_of c \<le> 122)"

definition is_ascii_hexdigit :: "char \<Rightarrow> bool" where
  "is_ascii_hexdigit c \<longleftrightarrow> is_ascii_digit c
     \<or> (65 \<le> byte_of c \<and> byte_of c \<le> 70) \<or> (97 \<le> byte_of c \<and> byte_of c \<le> 102)"

definition ascii_lower :: "char \<Rightarrow> char" where
  "ascii_lower c =
     (if 65 \<le> byte_of c \<and> byte_of c \<le> 90 then char_of (byte_of c + 32) else c)"

definition eq_ignore_ascii_case :: "string \<Rightarrow> string \<Rightarrow> bool" where
  "eq_ignore_ascii_case a b \<longleftrightarrow> map ascii_lower a = map ascii_lower b"

lemma eq_ignore_ascii_case_refl [simp]: "eq_ignore_ascii_case a a"
  by (simp add: eq_ignore_ascii_case_def)

lemma eq_ignore_ascii_case_sym:
  "eq_ignore_ascii_case a b \<Longrightarrow> eq_ignore_ascii_case b a"
  by (simp add: eq_ignore_ascii_case_def)

lemma eq_ignore_ascii_case_trans:
  "\<lbrakk>eq_ignore_ascii_case a b; eq_ignore_ascii_case b c\<rbrakk> \<Longrightarrow> eq_ignore_ascii_case a c"
  by (simp add: eq_ignore_ascii_case_def)

subsection \<open>Decimal numerals\<close>

definition digit_char :: "nat \<Rightarrow> char" where
  "digit_char d = char_of (48 + d)"

fun show_nat :: "nat \<Rightarrow> string" where
  "show_nat n =
     (if n < 10 then [digit_char n] else show_nat (n div 10) @ [digit_char (n mod 10)])"

declare show_nat.simps [simp del]

definition show_int :: "int \<Rightarrow> string" where
  "show_int i = (if i < 0 then CHR ''-'' # show_nat (nat (- i)) else show_nat (nat i))"

fun digits_value :: "nat \<Rightarrow> string \<Rightarrow> nat option" where
  "digits_value acc [] = Some acc"
| "digits_value acc (c # s) =
     (if is_ascii_digit c then digits_value (10 * acc + (byte_of c - 48)) s else None)"

definition parse_unsigned :: "nat \<Rightarrow> string \<Rightarrow> nat option" where
  \<comment> \<open>\<open>str::parse\<close> at an unsigned type whose largest value is \<open>hi\<close>: an optional plus sign and
     at least one digit; a value above \<open>hi\<close> is an error\<close>
  "parse_unsigned hi s =
     (let ds = (case s of c # r \<Rightarrow> (if c = CHR ''+'' then r else s) | [] \<Rightarrow> [])
      in if ds = [] then None
         else case digits_value 0 ds of
           None \<Rightarrow> None | Some v \<Rightarrow> if v \<le> hi then Some v else None)"

definition parse_u32 :: "string \<Rightarrow> nat option" where
  "parse_u32 = parse_unsigned (2 ^ 32 - 1)"

definition parse_u64 :: "string \<Rightarrow> nat option" where
  "parse_u64 = parse_unsigned (2 ^ 64 - 1)"

definition parse_i64 :: "string \<Rightarrow> int option" where
  "parse_i64 s =
     (case s of
        [] \<Rightarrow> None
      | c # r \<Rightarrow>
          if c = CHR ''-'' then
            (if r = [] then None
             else case digits_value 0 r of
               None \<Rightarrow> None | Some v \<Rightarrow> if v \<le> 2 ^ 63 then Some (- int v) else None)
          else map_option int (parse_unsigned (2 ^ 63 - 1) s))"

lemma digits_value_append:
  "digits_value acc (s @ t) =
     (case digits_value acc s of None \<Rightarrow> None | Some v \<Rightarrow> digits_value v t)"
  by (induction s arbitrary: acc) auto

lemma byte_of_digit_char: "d < 10 \<Longrightarrow> byte_of (digit_char d) = 48 + d"
  by (simp add: digit_char_def)

lemma is_ascii_digit_digit_char: "d < 10 \<Longrightarrow> is_ascii_digit (digit_char d)"
  by (simp add: is_ascii_digit_def byte_of_digit_char)

lemma digits_value_show_nat: "digits_value 0 (show_nat n) = Some n"
proof (induction n rule: show_nat.induct)
  case (1 n)
  show ?case
  proof (cases "n < 10")
    case True
    then show ?thesis
      by (subst show_nat.simps) (simp add: is_ascii_digit_digit_char byte_of_digit_char)
  next
    case False
    with "1.IH" have "digits_value 0 (show_nat (n div 10)) = Some (n div 10)" by simp
    with False show ?thesis
      by (subst show_nat.simps)
        (simp add: digits_value_append is_ascii_digit_digit_char byte_of_digit_char)
  qed
qed

lemma show_nat_nonempty [simp]: "show_nat n \<noteq> []"
  by (subst show_nat.simps) simp

lemma show_nat_digits: "c \<in> set (show_nat n) \<Longrightarrow> is_ascii_digit c"
proof (induction n rule: show_nat.induct)
  case (1 n)
  then show ?case
    by (cases "n < 10")
      (auto simp: show_nat.simps [of n] is_ascii_digit_digit_char)
qed

lemma show_nat_inj: "show_nat m = show_nat n \<Longrightarrow> m = n"
  by (metis digits_value_show_nat option.inject)

lemma parse_unsigned_show_nat: "n \<le> hi \<Longrightarrow> parse_unsigned hi (show_nat n) = Some n"
proof -
  assume "n \<le> hi"
  obtain c r where cr: "show_nat n = c # r"
    by (cases "show_nat n") auto
  then have "is_ascii_digit c" using show_nat_digits [of c n] by simp
  then have "c \<noteq> CHR ''+''" by (auto simp: is_ascii_digit_def)
  with cr \<open>n \<le> hi\<close> show ?thesis
    using digits_value_show_nat [of n] by (simp add: parse_unsigned_def Let_def)
qed

lemma parse_unsigned_le: "parse_unsigned hi s = Some v \<Longrightarrow> v \<le> hi"
  by (auto simp: parse_unsigned_def Let_def split: list.splits if_splits option.splits)

lemma show_int_inj: "show_int i = show_int j \<Longrightarrow> i = j"
proof -
  assume eq: "show_int i = show_int j"
  have hd_digit: "hd (show_nat n) \<noteq> CHR ''-''" for n
    using show_nat_digits [of "hd (show_nat n)" n] by (auto simp: is_ascii_digit_def)
  have no_minus: "show_nat n \<noteq> CHR ''-'' # t" for n t
    using hd_digit [of n] by (metis list.sel(1))
  show ?thesis
    using eq no_minus no_minus [symmetric]
    by (auto simp: show_int_def split: if_splits dest!: show_nat_inj)
qed

subsection \<open>Lists\<close>

fun find_first :: "('a \<Rightarrow> bool) \<Rightarrow> 'a list \<Rightarrow> 'a option" where
  "find_first P [] = None"
| "find_first P (x # xs) = (if P x then Some x else find_first P xs)"

lemma find_first_SomeD: "find_first P xs = Some x \<Longrightarrow> x \<in> set xs \<and> P x"
  by (induction xs) (auto split: if_splits)

lemma find_first_None_iff: "find_first P xs = None \<longleftrightarrow> (\<forall>x \<in> set xs. \<not> P x)"
  by (induction xs) auto

end
