(* ===== verification/Core_Model.thy ===== *)
theory Core_Model
  imports TV_Prelude
begin

text \<open>
  The crate televault-core: the application error type, the status enumerations, the
  identifier rule of \<open>ids.rs\<close> and \<open>validation.rs\<close>, path safety and the \<open>PathManager\<close>,
  and the configuration model with its validation. A path is the list of its
  \<open>std::path::Component\<close>s; how a string is cut into components is the host platform's
  business and is passed as a \<open>platform\<close>, of which \<open>unix_platform\<close> is one.
\<close>

subsection \<open>error.rs\<close>

text \<open>An \<open>std::io::Error\<close> is its kind and its message; the kinds the sources compare with are
  named.\<close>

datatype io_kind =
  TimedOut | ConnectionReset | ConnectionAborted | Interrupted | WriteZero | OtherKind string

datatype io_error = IoError (io_kind: io_kind) (io_message: string)

datatype AppError =
    Io io_error
  | Config string string
  | Validation string string
  | InvalidId string string
  | NotFound string string
  | Path string
  | Conflict string string
  | InvalidState string string
  | Internal string

fun error_code :: "AppError \<Rightarrow> string" where
  "error_code (AppError.Io _) = ''IO_ERROR''"
| "error_code (AppError.Config _ _) = ''CONFIG_ERROR''"
| "error_code (AppError.Validation _ _) = ''VALIDATION_ERROR''"
| "error_code (AppError.InvalidId _ _) = ''INVALID_IDENTIFIER''"
| "error_code (AppError.NotFound _ _) = ''NOT_FOUND''"
| "error_code (AppError.Path _) = ''PATH_ERROR''"
| "error_code (AppError.Conflict _ _) = ''CONFLICT''"
| "error_code (AppError.InvalidState _ _) = ''INVALID_STATE''"
| "error_code (AppError.Internal _) = ''INTERNAL_ERROR''"

subsection \<open>models.rs\<close>

datatype BackupStatus = Idle | Scanning | BackingUp | Completed | Failed | Cancelled

fun BackupStatus_display :: "BackupStatus \<Rightarrow> string" where
  "BackupStatus_display BackupStatus.Idle = ''idle''"
| "BackupStatus_display BackupStatus.Scanning = ''scanning''"
| "BackupStatus_display BackupStatus.BackingUp = ''backing_up''"
| "BackupStatus_display BackupStatus.Completed = ''completed''"
| "BackupStatus_display BackupStatus.Failed = ''failed''"
| "BackupStatus_display BackupStatus.Cancelled = ''cancelled''"

datatype TransferStatus = Pending | Transferring | Paused | Completed | Failed | Cancelled

fun TransferStatus_display :: "TransferStatus \<Rightarrow> string" where
  "TransferStatus_display TransferStatus.Pending = ''pending''"
| "TransferStatus_display TransferStatus.Transferring = ''transferring''"
| "TransferStatus_display TransferStatus.Paused = ''paused''"
| "TransferStatus_display TransferStatus.Completed = ''completed''"
| "TransferStatus_display TransferStatus.Failed = ''failed''"
| "TransferStatus_display TransferStatus.Cancelled = ''cancelled''"

datatype TransferDirection = Upload | Download

fun TransferDirection_display :: "TransferDirection \<Rightarrow> string" where
  "TransferDirection_display TransferDirection.Upload = ''upload''"
| "TransferDirection_display TransferDirection.Download = ''download''"

datatype CompressionAlgorithm = NoCompression | Zstd

fun CompressionAlgorithm_display :: "CompressionAlgorithm \<Rightarrow> string" where
  "CompressionAlgorithm_display NoCompression = ''none''"
| "CompressionAlgorithm_display Zstd = ''zstd''"

datatype EncryptionAlgorithm = Aes256Gcm

fun EncryptionAlgorithm_display :: "EncryptionAlgorithm \<Rightarrow> string" where
  "EncryptionAlgorithm_display Aes256Gcm = ''aes256gcm''"

subsection \<open>validation.rs and ids.rs\<close>

definition validate_non_empty :: "string \<Rightarrow> string \<Rightarrow> (AppError, unit) result" where
  "validate_non_empty field v =
     (if trim v = [] then Err (AppError.Validation field ''value cannot be empty'') else Ok ())"

definition id_char_ok :: "string \<Rightarrow> bool" where
  "id_char_ok ch \<longleftrightarrow>
     (case ch of [c] \<Rightarrow> is_ascii_alphanumeric c \<or> c = CHR ''-'' \<or> c = CHR ''_'' | _ \<Rightarrow> False)"

definition validate_identifier_string :: "string \<Rightarrow> string \<Rightarrow> (AppError, unit) result" where
  "validate_identifier_string entity v =
     (let trimmed = trim v in
      if trimmed = [] then Err (AppError.InvalidId entity ''identifier cannot be empty'')
      else if length trimmed > 64 then
        Err (AppError.InvalidId entity
          (''identifier exceeds maximum length of 64 characters (length: ''
             @ show_nat (length trimmed) @ '')''))
      else case find_first (\<lambda>ch. \<not> id_char_ok ch) (utf8_chars trimmed) of
        Some ch \<Rightarrow> Err (AppError.InvalidId entity
          (''identifier contains illegal character '' @ [CHR 0x27] @ ch @ [CHR 0x27]
             @ ''; only alphanumeric, '' @ [CHR 0x27] @ ''-'' @ [CHR 0x27] @ '', and ''
             @ [CHR 0x27] @ ''_'' @ [CHR 0x27] @ '' are permitted''))
      | None \<Rightarrow> Ok ())"

text \<open>The identifiers generated by the macro \<open>define_id!\<close>: the entity name is the macro's
  argument, the stored string is the argument as given.\<close>

type_synonym ident_str = string

definition id_new :: "string \<Rightarrow> string \<Rightarrow> (AppError, ident_str) result" where
  "id_new entity s = bind_res (validate_identifier_string entity s) (\<lambda>_. Ok s)"

subsection \<open>Paths\<close>

datatype component = Prefix string | RootDir | CurDir | ParentDir | Normal string

type_synonym path = "component list"

record platform =
  pf_components :: "string \<Rightarrow> path"
  pf_is_absolute :: "path \<Rightarrow> bool"

definition unix_components :: "string \<Rightarrow> path" where
  \<comment> \<open>\<open>Path::components\<close> on Unix: repeated separators and inner dots are dropped\<close>
  "unix_components s =
     (let parts = split_on CHR ''/'' s;
          conv = (\<lambda>p. if p = ''..'' then ParentDir else Normal p);
          body = (\<lambda>ps. map conv (filter (\<lambda>p. p \<noteq> [] \<and> p \<noteq> ''.'') ps))
      in (if s \<noteq> [] \<and> hd parts = [] then RootDir # body parts
          else if hd parts = ''.'' then CurDir # body parts
          else body parts))"

definition unix_platform :: platform where
  "unix_platform = \<lparr>pf_components = unix_components,
                    pf_is_absolute = (\<lambda>p. p \<noteq> [] \<and> hd p = RootDir)\<rparr>"

fun component_check :: "component \<Rightarrow> (AppError, unit) result" where
  "component_check ParentDir =
     Err (AppError.Path (''path traversal ('' @ [CHR 0x27] @ ''..'' @ [CHR 0x27]
            @ '') is strictly prohibited''))"
| "component_check RootDir =
     Err (AppError.Path
       ''absolute prefixes or root elements are not permitted in relative paths'')"
| "component_check (Prefix _) =
     Err (AppError.Path
       ''absolute prefixes or root elements are not permitted in relative paths'')"
| "component_check _ = Ok ()"

fun components_check :: "path \<Rightarrow> (AppError, unit) result" where
  "components_check [] = Ok ()"
| "components_check (c # cs) = bind_res (component_check c) (\<lambda>_. components_check cs)"

definition validate_safe_relative_path :: "platform \<Rightarrow> path \<Rightarrow> (AppError, unit) result" where
  "validate_safe_relative_path pf p =
     (if pf_is_absolute pf p then Err (AppError.Path ''path must be relative, not absolute'')
      else components_check p)"

text \<open>\<open>Path::join\<close>: an argument that is absolute or has a prefix of its own replaces the base, one with a root keeps the
  prefix of the base only.\<close>

fun is_prefix :: "component \<Rightarrow> bool" where
  "is_prefix (Prefix _) = True"
| "is_prefix _ = False"

definition path_join :: "platform \<Rightarrow> path \<Rightarrow> path \<Rightarrow> path" where
  "path_join pf base p =
     (if pf_is_absolute pf p \<or> (p \<noteq> [] \<and> is_prefix (hd p)) then p
      else if p \<noteq> [] \<and> hd p = RootDir then takeWhile is_prefix base @ p
      else base @ p)"

subsection \<open>paths.rs\<close>

record PathManager =
  base_dir :: path

definition data_dir :: "platform \<Rightarrow> PathManager \<Rightarrow> path" where
  "data_dir pf pm = path_join pf (base_dir pm) [Normal ''data'']"

definition config_dir :: "platform \<Rightarrow> PathManager \<Rightarrow> path" where
  "config_dir pf pm = path_join pf (base_dir pm) [Normal ''config'']"

definition config_file :: "platform \<Rightarrow> PathManager \<Rightarrow> path" where
  "config_file pf pm = path_join pf (config_dir pf pm) [Normal ''televault.json'']"

definition db_dir :: "platform \<Rightarrow> PathManager \<Rightarrow> path" where
  "db_dir pf pm = path_join pf (base_dir pm) [Normal ''database'']"

definition db_file :: "platform \<Rightarrow> PathManager \<Rightarrow> path" where
  "db_file pf pm = path_join pf (db_dir pf pm) [Normal ''televault.db'']"

definition cache_dir :: "platform \<Rightarrow> PathManager \<Rightarrow> path" where
  "cache_dir pf pm = path_join pf (base_dir pm) [Normal ''cache'']"

definition logs_dir :: "platform \<Rightarrow> PathManager \<Rightarrow> path" where
  "logs_dir pf pm = path_join pf (base_dir pm) [Normal ''logs'']"

definition temp_dir :: "platform \<Rightarrow> PathManager \<Rightarrow> path" where
  "temp_dir pf pm = path_join pf (base_dir pm) [Normal ''temp'']"

definition backups_dir :: "platform \<Rightarrow> PathManager \<Rightarrow> path" where
  "backups_dir pf pm = path_join pf (base_dir pm) [Normal ''backups'']"

definition recovery_dir :: "platform \<Rightarrow> PathManager \<Rightarrow> path" where
  "recovery_dir pf pm = path_join pf (base_dir pm) [Normal ''recovery'']"

definition resolve_safe_subpath ::
  "platform \<Rightarrow> PathManager \<Rightarrow> path \<Rightarrow> (AppError, path) result" where
  "resolve_safe_subpath pf pm rel =
     bind_res (validate_safe_relative_path pf rel) (\<lambda>_. Ok (path_join pf (base_dir pm) rel))"

subsection \<open>config.rs\<close>

record GeneralConfig =
  theme :: string
  language :: string
  check_updates :: bool

record StorageConfig =
  max_cache_size_mb :: u32
  temp_retention_hours :: u32

record TransferConfig =
  chunk_size_kb :: u32
  max_concurrent_transfers :: u8
  upload_limit_kbps :: u32

record BackupPreferences =
  default_compression :: CompressionAlgorithm
  retention_days :: u32
  verify_after_backup :: bool

record AppConfig =
  general :: GeneralConfig
  storage :: StorageConfig
  transfer :: TransferConfig
  backup :: BackupPreferences

definition GeneralConfig_default :: GeneralConfig where
  "GeneralConfig_default = \<lparr>theme = ''dark'', language = ''en-US'', check_updates = True\<rparr>"

definition StorageConfig_default :: StorageConfig where
  "StorageConfig_default = \<lparr>max_cache_size_mb = 2048, temp_retention_hours = 24\<rparr>"

definition TransferConfig_default :: TransferConfig where
  "TransferConfig_default =
     \<lparr>chunk_size_kb = 4096, max_concurrent_transfers = 3, upload_limit_kbps = 0\<rparr>"

definition BackupPreferences_default :: BackupPreferences where
  "BackupPreferences_default =
     \<lparr>default_compression = Zstd, retention_days = 30, verify_after_backup = True\<rparr>"

definition AppConfig_default :: AppConfig where
  "AppConfig_default =
     \<lparr>general = GeneralConfig_default, storage = StorageConfig_default,
      transfer = TransferConfig_default, backup = BackupPreferences_default\<rparr>"

definition GeneralConfig_validate :: "GeneralConfig \<Rightarrow> (AppError, unit) result" where
  "GeneralConfig_validate g =
     (if trim (theme g) = [] then
        Err (AppError.Config ''general.theme'' ''theme cannot be empty'')
      else if trim (language g) = [] then
        Err (AppError.Config ''general.language'' ''language cannot be empty'')
      else Ok ())"

definition StorageConfig_validate :: "StorageConfig \<Rightarrow> (AppError, unit) result" where
  "StorageConfig_validate s =
     (if max_cache_size_mb s = 0 then
        Err (AppError.Config ''storage.max_cache_size_mb''
               ''cache size must be greater than zero'')
      else Ok ())"

definition TransferConfig_validate :: "TransferConfig \<Rightarrow> (AppError, unit) result" where
  "TransferConfig_validate t =
     (if chunk_size_kb t < 64 then
        Err (AppError.Config ''transfer.chunk_size_kb'' ''chunk size must be at least 64 KB'')
      else if chunk_size_kb t > 32768 then
        Err (AppError.Config ''transfer.chunk_size_kb'' ''chunk size cannot exceed 32 MB'')
      else if max_concurrent_transfers t = 0 then
        Err (AppError.Config ''transfer.max_concurrent_transfers''
               ''max concurrent transfers must be at least 1'')
      else Ok ())"

definition BackupPreferences_validate :: "BackupPreferences \<Rightarrow> (AppError, unit) result" where
  "BackupPreferences_validate b = Ok ()"

definition AppConfig_validate :: "AppConfig \<Rightarrow> (AppError, unit) result" where
  "AppConfig_validate c =
     bind_res (GeneralConfig_validate (general c)) (\<lambda>_.
     bind_res (StorageConfig_validate (storage c)) (\<lambda>_.
     bind_res (TransferConfig_validate (transfer c)) (\<lambda>_.
     bind_res (BackupPreferences_validate (backup c)) (\<lambda>_. Ok ()))))"

lemmas core_defaults [model_defs] =
  GeneralConfig_default_def StorageConfig_default_def TransferConfig_default_def
  BackupPreferences_default_def AppConfig_default_def

lemmas core_validates [model_defs] =
  GeneralConfig_validate_def StorageConfig_validate_def TransferConfig_validate_def
  BackupPreferences_validate_def AppConfig_validate_def

subsection \<open>Lemmas\<close>

lemma components_check_Inr_iff:
  "components_check p = Inr () \<longleftrightarrow>
     (\<forall>c \<in> set p. c = CurDir \<or> (\<exists>n. c = Normal n))"
proof (induction p)
  case Nil
  show ?case by simp
next
  case (Cons c p)
  then show ?case by (cases c) auto
qed

text \<open>Lexical resolution of a path: \<open>.\<close> is dropped and \<open>..\<close> undoes the component before it.\<close>

fun resolve_dots :: "path \<Rightarrow> path \<Rightarrow> path" where
  "resolve_dots acc [] = acc"
| "resolve_dots acc (CurDir # p) = resolve_dots acc p"
| "resolve_dots acc (ParentDir # p) = resolve_dots (butlast acc) p"
| "resolve_dots acc (c # p) = resolve_dots (acc @ [c]) p"

lemma resolve_dots_append: "resolve_dots acc (p @ q) = resolve_dots (resolve_dots acc p) q"
  by (induction acc p rule: resolve_dots.induct) auto

lemma resolve_dots_safe_prefix:
  "components_check p = Inr () \<Longrightarrow> prefix acc (resolve_dots acc p)"
proof (induction p arbitrary: acc)
  case Nil
  show ?case by simp
next
  case (Cons c p)
  then have rest: "components_check p = Inr ()"
    by (auto simp: bind_res_Inr_iff)
  show ?case
  proof (cases c)
    case (Normal n)
    have "prefix (acc @ [Normal n]) (resolve_dots (acc @ [Normal n]) p)"
      by (rule Cons.IH [OF rest])
    then show ?thesis using Normal by (auto dest: append_prefixD)
  qed (use Cons rest in auto)
qed

lemma id_char_ok_all:
  "find_first (\<lambda>ch. \<not> id_char_ok ch) (utf8_chars s) = None \<longleftrightarrow>
     (\<forall>c \<in> set s. is_ascii_alphanumeric c \<or> c = CHR ''-'' \<or> c = CHR ''_'')"
proof -
  have ascii: "byte_of c < 128"
    if "is_ascii_alphanumeric c \<or> c = CHR ''-'' \<or> c = CHR ''_''" for c
    using that by (auto simp: is_ascii_alphanumeric_def is_ascii_digit_def)
  show ?thesis
    unfolding find_first_None_iff id_char_ok_def not_not
    by (rule utf8_chars_all_ascii_iff) (rule ascii)
qed

lemma validate_identifier_string_ok_iff:
  "validate_identifier_string entity s = Inr () \<longleftrightarrow>
     trim s \<noteq> [] \<and> length (trim s) \<le> 64
     \<and> (\<forall>c \<in> set (trim s). is_ascii_alphanumeric c \<or> c = CHR ''-'' \<or> c = CHR ''_'')"
  unfolding validate_identifier_string_def Let_def id_char_ok_all [symmetric]
  by (auto split: option.splits)

lemma id_new_ok_iff: "id_new entity s = Inr t \<longleftrightarrow> t = s \<and> validate_identifier_string entity s = Inr ()"
  by (auto simp: id_new_def bind_res_Inr_iff)

subsection \<open>Identifiers without surrounding white space\<close>

definition plain_id :: "string \<Rightarrow> bool" where
  "plain_id s \<longleftrightarrow> (\<forall>c \<in> set s. is_ascii_alphanumeric c \<or> c = CHR ''-'' \<or> c = CHR ''_'')"

lemma plain_id_append [simp]: "plain_id (s @ t) \<longleftrightarrow> plain_id s \<and> plain_id t"
  by (auto simp: plain_id_def)

lemma plain_id_show_nat [simp]: "plain_id (show_nat n)"
  using show_nat_digits [of _ n] by (auto simp: plain_id_def is_ascii_alphanumeric_def)

lemma plain_char:
  assumes "is_ascii_alphanumeric c \<or> c = CHR ''-'' \<or> c = CHR ''_''"
  shows "byte_of c < 128" "\<not> is_ws [c]"
proof -
  show "byte_of c < 128"
    using assms by (auto simp: is_ascii_alphanumeric_def is_ascii_digit_def)
  have "c \<notin> {CHR '' '', CHR 0x09, CHR 0x0A, CHR 0x0B, CHR 0x0C, CHR 0x0D}"
    using assms by (auto simp: is_ascii_alphanumeric_def is_ascii_digit_def)
  then show "\<not> is_ws [c]" by (auto simp: is_ws_def ws_chars_def)
qed

lemma trim_plain: "plain_id s \<Longrightarrow> trim s = s"
  by (rule trim_ascii) (use plain_char in \<open>auto simp: plain_id_def\<close>)

lemma id_new_plain: "\<lbrakk>plain_id s; s \<noteq> []; length s \<le> 64\<rbrakk> \<Longrightarrow> id_new entity s = Inr s"
  by (simp add: id_new_ok_iff validate_identifier_string_ok_iff trim_plain) (simp add: plain_id_def)

subsection \<open>Properties\<close>

text \<open>A subpath that \<open>PathManager::resolve_safe_subpath\<close> returns is the base directory
  followed by the relative path, and resolving every dot and double dot in it stays below the
  base directory: no accepted path escapes.\<close>

theorem resolve_safe_subpath_confined:
  assumes "resolve_safe_subpath pf pm rel = Inr p"
  shows "p = base_dir pm @ rel
     \<and> prefix (resolve_dots [] (base_dir pm)) (resolve_dots [] p)"
proof -
  from assms have ok: "components_check rel = Inr ()" and relative: "\<not> pf_is_absolute pf rel"
    and joined: "p = path_join pf (base_dir pm) rel"
    by (auto simp: resolve_safe_subpath_def validate_safe_relative_path_def bind_res_Inr_iff
             split: if_splits)
  from ok have "\<not> (rel \<noteq> [] \<and> (is_prefix (hd rel) \<or> hd rel = RootDir))"
    by (cases rel; cases "hd rel") auto
  with joined relative have "p = base_dir pm @ rel" by (auto simp: path_join_def)
  then show ?thesis
    using resolve_dots_safe_prefix [OF ok] by (simp add: resolve_dots_append)
qed

theorem resolve_safe_subpath_confined_witness:
  "resolve_safe_subpath unix_platform \<lparr>base_dir = [RootDir, Normal ''tv'']\<rparr>
       (unix_components ''a/./b'') = Inr [RootDir, Normal ''tv'', Normal ''a'', Normal ''b'']
   \<and> prefix (resolve_dots [] [RootDir, Normal ''tv''])
        (resolve_dots [] [RootDir, Normal ''tv'', Normal ''a'', Normal ''b''])"
proof -
  have ok: "resolve_safe_subpath unix_platform \<lparr>base_dir = [RootDir, Normal ''tv'']\<rparr>
       (unix_components ''a/./b'') = Inr [RootDir, Normal ''tv'', Normal ''a'', Normal ''b'']"
    by code_simp
  show ?thesis
    using ok resolve_safe_subpath_confined [OF ok] by (auto simp only: PathManager.select_convs)
qed

text \<open>The constructor of the typed identifiers accepts a string exactly when its trimmed
  form is not empty, has at most 64 bytes and uses only ASCII letters, digits, hyphen and
  underscore; it stores the string as given.\<close>

theorem id_new_accepts_iff:
  "id_new entity s = Inr t \<longleftrightarrow>
     t = s \<and> trim s \<noteq> [] \<and> length (trim s) \<le> 64
     \<and> (\<forall>c \<in> set (trim s). is_ascii_alphanumeric c \<or> c = CHR ''-'' \<or> c = CHR ''_'')"
  by (simp add: id_new_ok_iff validate_identifier_string_ok_iff)

theorem id_new_accepts_iff_witness:
  "id_new ''Job'' ''job-1'' = Inr ''job-1''
   \<and> trim ''job-1'' \<noteq> [] \<and> length (trim ''job-1'') \<le> 64"
proof -
  have "id_new ''Job'' ''job-1'' = Inr ''job-1''" by code_simp
  then show ?thesis using id_new_accepts_iff [of "''Job''" "''job-1''" "''job-1''"] by blast
qed

text \<open>The identifier rule is checked on the trimmed string but the untrimmed string is
  stored: every accepted identifier is accepted again with a blank in front of it, and the
  stored identifier then contains the blank.\<close>

theorem id_new_stores_padding:
  assumes "id_new entity s = Inr s"
  shows "id_new entity (CHR '' '' # s) = Inr (CHR '' '' # s)"
  using assms by (simp add: id_new_ok_iff validate_identifier_string_ok_iff)

theorem id_new_stores_padding_witness:
  "id_new ''Profile'' ''p1'' = Inr ''p1'' \<and> id_new ''Profile'' '' p1'' = Inr '' p1''"
proof -
  have ok: "id_new ''Profile'' ''p1'' = Inr ''p1''" by code_simp
  show ?thesis using ok id_new_stores_padding [OF ok] by simp
qed

text \<open>A configuration validates exactly when theme and language are not blank, the cache
  size is positive, the chunk size lies between 64 KB and 32 MB and at least one transfer is
  allowed; the default configuration validates.\<close>

theorem AppConfig_validate_iff:
  "(AppConfig_validate c = Inr () \<longleftrightarrow>
      trim (theme (general c)) \<noteq> [] \<and> trim (language (general c)) \<noteq> []
      \<and> 0 < max_cache_size_mb (storage c)
      \<and> 64 \<le> chunk_size_kb (transfer c) \<and> chunk_size_kb (transfer c) \<le> 32768
      \<and> 0 < max_concurrent_transfers (transfer c))
   \<and> AppConfig_validate AppConfig_default = Inr ()"
proof -
  have "AppConfig_validate AppConfig_default = Inr ()" by code_simp
  then show ?thesis
    by (auto simp: core_validates bind_res_Inr_iff word_neq_0_conv not_less split: if_splits)
qed

end
