(* ===== verification/Path_Syntax.thy ===== *)
theory Path_Syntax
  imports Core_Model
begin

text \<open>
  What the engines rely on of \<open>std::path\<close>, as a locale over the platform record of \<open>Core_Model\<close>, and its two
  instances: the paths of Unix and those of Windows, with drive letters and UNC prefixes (a path that begins with the
  verbatim prefix is read as a UNC path).
\<close>

subsection \<open>Windows\<close>

definition backslash :: char where
  "backslash = CHR 0x5C"

definition unified :: "string \<Rightarrow> string" where
  "unified s = map (\<lambda>c. if c = CHR ''/'' then backslash else c) s"

text \<open>The prefix of a path with unified separators: its text, the parts after it, and whether a root is implied.\<close>

definition windows_prefix :: "string \<Rightarrow> (string \<times> string list \<times> bool) option" where
  "windows_prefix u =
     (case u of
        c # d # r \<Rightarrow>
          if d = CHR '':'' \<and> is_ascii_alphanumeric c \<and> \<not> is_ascii_digit c then Some ([c, d], split_on backslash r, False)
          else if c = backslash \<and> d = backslash then
            (case split_on backslash r of
               server # share # rest \<Rightarrow>
                 if server \<noteq> [] \<and> share \<noteq> [] then Some (c # d # server @ backslash # share, rest, True) else None
             | _ \<Rightarrow> None)
          else None
      | _ \<Rightarrow> None)"

definition path_parts :: "bool \<Rightarrow> string list \<Rightarrow> path" where
  "path_parts rooted parts =
     (let body = map (\<lambda>p. if p = ''..'' then ParentDir else Normal p) (filter (\<lambda>p. p \<noteq> [] \<and> p \<noteq> ''.'') parts)
      in if rooted \<or> (parts \<noteq> [] \<and> hd parts = [] \<and> tl parts \<noteq> []) then RootDir # body
         else if parts \<noteq> [] \<and> hd parts = ''.'' then CurDir # body
         else body)"

definition windows_components :: "string \<Rightarrow> path" where
  "windows_components s =
     (case windows_prefix (unified s) of
        Some (pre, parts, rooted) \<Rightarrow> Prefix pre # path_parts rooted parts
      | None \<Rightarrow> path_parts False (split_on backslash (unified s)))"

fun windows_absolute :: "path \<Rightarrow> bool" where
  "windows_absolute (Prefix _ # RootDir # _) = True"
| "windows_absolute _ = False"

definition windows_platform :: platform where
  "windows_platform = \<lparr>pf_components = windows_components, pf_is_absolute = windows_absolute\<rparr>"

subsection \<open>The rules\<close>

text \<open>The name of one file, and the names that Windows reads as a drive.\<close>

definition single_name :: "char \<Rightarrow> string \<Rightarrow> bool" where
  "single_name sep n \<longleftrightarrow> n \<noteq> [] \<and> n \<noteq> ''.'' \<and> n \<noteq> ''..'' \<and> CHR ''/'' \<notin> set n \<and> sep \<notin> set n"

definition drive_like :: "char \<Rightarrow> string \<Rightarrow> bool" where
  "drive_like sep n \<longleftrightarrow> sep = backslash \<and> (case n of _ # d # _ \<Rightarrow> d = CHR '':'' | _ \<Rightarrow> False)"

text \<open>
  \<open>sep\<close> is the main separator. The names in a path that has passed the check of its components are single names; a
  single name is a path of one component, unless it reads as a drive; an absolute path has a root.
\<close>

locale path_syntax =
  fixes pf :: platform and sep :: char
  assumes names: "\<lbrakk>components_check (pf_components pf s) = Inr (); Normal n \<in> set (pf_components pf s)\<rbrakk> \<Longrightarrow> single_name sep n"
    and single: "\<lbrakk>single_name sep n; \<not> drive_like sep n\<rbrakk> \<Longrightarrow> pf_components pf n = [Normal n]"
    and absolute: "pf_is_absolute pf p \<Longrightarrow> RootDir \<in> set p"
begin

lemma join_single: "path_join pf base [Normal n] = base @ [Normal n]"
  using absolute [of "[Normal n]"] by (auto simp: path_join_def)

end

lemma path_parts_Normal:
  "Normal n \<in> set (path_parts rooted parts) \<Longrightarrow> n \<in> set parts \<and> n \<noteq> [] \<and> n \<noteq> ''.'' \<and> n \<noteq> ''..''"
  by (auto simp: path_parts_def Let_def split: if_splits)

lemma split_on_chars: "p \<in> set (split_on d s) \<Longrightarrow> set p \<subseteq> set s"
  by (induction s arbitrary: p) (fastforce split: list.splits if_splits)+

lemma unified_chars: "p \<in> set (split_on backslash (unified s)) \<Longrightarrow> CHR ''/'' \<notin> set p \<and> backslash \<notin> set p"
proof -
  assume p: "p \<in> set (split_on backslash (unified s))"
  have "CHR ''/'' \<notin> set (unified s)" by (auto simp: unified_def backslash_def)
  then show ?thesis using split_on_parts [OF p] split_on_chars [OF p] by blast
qed

interpretation unix: path_syntax unix_platform "CHR ''/''"
proof
  show "single_name CHR ''/'' n" if "Normal n \<in> set (pf_components unix_platform s)" for s n
    using that by (auto simp: unix_platform_def unix_components_def single_name_def Let_def split: if_splits dest: split_on_parts)
  show "pf_components unix_platform n = [Normal n]" if "single_name CHR ''/'' n" for n
    using that by (simp add: unix_platform_def unix_components_def single_name_def split_on_no_delim)
  show "RootDir \<in> set p" if "pf_is_absolute unix_platform p" for p
    using that by (cases p) (simp_all add: unix_platform_def)
qed

lemma windows_absolute_rooted: "windows_absolute p \<Longrightarrow> RootDir \<in> set p"
  by (cases p rule: windows_absolute.cases) simp_all

interpretation windows: path_syntax windows_platform backslash
proof
  show "single_name backslash n" if ok: "components_check (pf_components windows_platform s) = Inr ()"
    and n: "Normal n \<in> set (pf_components windows_platform s)" for s n
  proof -
    have "windows_prefix (unified s) = None"
      using ok by (cases "windows_prefix (unified s)") (auto simp: windows_platform_def windows_components_def)
    then have "Normal n \<in> set (path_parts False (split_on backslash (unified s)))"
      using n by (simp add: windows_platform_def windows_components_def)
    then show ?thesis using path_parts_Normal unified_chars unfolding single_name_def by blast
  qed
  show "pf_components windows_platform n = [Normal n]" if n: "single_name backslash n" "\<not> drive_like backslash n" for n
  proof -
    have u: "unified n = n" using n(1) by (auto simp: unified_def single_name_def intro: map_idI)
    then have "windows_prefix (unified n) = None"
      using n by (auto simp: windows_prefix_def drive_like_def single_name_def split: list.splits)
    then show ?thesis
      using n(1) u by (simp add: windows_platform_def windows_components_def path_parts_def single_name_def split_on_no_delim)
  qed
  show "RootDir \<in> set p" if "pf_is_absolute windows_platform p" for p
    using that by (simp add: windows_platform_def windows_absolute_rooted)
qed

end
