(* ===== verification/Manifest.thy ===== *)
theory Manifest
  imports Core_Model
begin

text \<open>
  The crate televault-manifest: storage references, integrity, compression and encryption
  metadata, chunk metadata with the chunk-count calculation, and the root manifest with its
  validation loop and its JSON entry points. The JSON library serde_json is not part of the
  sources: \<open>to_json\<close> and \<open>from_json\<close> take its encoder and decoder as arguments.
\<close>

subsection \<open>error.rs\<close>

datatype ManifestError =
    Validation string string
  | UnsupportedVersion string
  | ChunkOrdering nat u32 u32
  | DuplicateChunkId string
  | SizeMismatch u64 u64
  | InvalidHash string string
  | Serialization string
  | Deserialization string

fun ManifestError_to_AppError :: "ManifestError \<Rightarrow> AppError" where
  "ManifestError_to_AppError (ManifestError.Validation field message) =
     AppError.Validation field message"
| "ManifestError_to_AppError (UnsupportedVersion v) =
     AppError.Validation ''manifest.version'' (''unsupported version: '' @ v)"
| "ManifestError_to_AppError (ChunkOrdering position expected actual) =
     AppError.Validation ''manifest.chunks.ordering''
       (''ordering violation at position '' @ show_nat position @ '': expected index ''
          @ show_nat (unat expected) @ '', got '' @ show_nat (unat actual))"
| "ManifestError_to_AppError (DuplicateChunkId i) =
     AppError.Validation ''manifest.chunks.id'' (''duplicate chunk id: '' @ i)"
| "ManifestError_to_AppError (SizeMismatch logical_size chunks_sum) =
     AppError.Validation ''manifest.size''
       (''size mismatch: logical='' @ show_nat (unat logical_size) @ '', chunks_sum=''
          @ show_nat (unat chunks_sum))"
| "ManifestError_to_AppError (InvalidHash algorithm reason) =
     AppError.Validation ''manifest.integrity''
       (''invalid hash ('' @ algorithm @ ''): '' @ reason)"
| "ManifestError_to_AppError (Serialization msg) =
     AppError.Internal (''manifest serialization failed: '' @ msg)"
| "ManifestError_to_AppError (Deserialization msg) =
     AppError.Validation ''manifest.deserialization'' (''manifest parsing failed: '' @ msg)"

subsection \<open>version.rs and types.rs\<close>

datatype ManifestVersion = V1

fun ManifestVersion_display :: "ManifestVersion \<Rightarrow> string" where
  "ManifestVersion_display V1 = ''v1''"

datatype HashAlgorithm = Sha256

fun HashAlgorithm_display :: "HashAlgorithm \<Rightarrow> string" where
  "HashAlgorithm_display Sha256 = ''sha256''"

record IntegrityMetadata =
  im_algorithm :: HashAlgorithm
  im_digest :: string

definition hex_char_ok :: "string \<Rightarrow> bool" where
  "hex_char_ok ch \<longleftrightarrow> (case ch of [c] \<Rightarrow> is_ascii_hexdigit c | _ \<Rightarrow> False)"

definition IntegrityMetadata_sha256 :: "string \<Rightarrow> IntegrityMetadata" where
  "IntegrityMetadata_sha256 digest = \<lparr>im_algorithm = Sha256, im_digest = digest\<rparr>"

definition IntegrityMetadata_validate :: "IntegrityMetadata \<Rightarrow> (ManifestError, unit) result" where
  "IntegrityMetadata_validate m =
     (case im_algorithm m of Sha256 \<Rightarrow>
        let trimmed = trim (im_digest m) in
        if length trimmed \<noteq> 64 then
          Err (InvalidHash (HashAlgorithm_display (im_algorithm m))
            (''expected 64 hexadecimal characters, got '' @ show_nat (length trimmed)
               @ '' characters''))
        else case find_first (\<lambda>ch. \<not> hex_char_ok ch) (utf8_chars trimmed) of
          Some ch \<Rightarrow> Err (InvalidHash (HashAlgorithm_display (im_algorithm m))
            (''contains invalid hexadecimal character '' @ [CHR 0x27] @ ch @ [CHR 0x27]))
        | None \<Rightarrow> Ok ())"

record CompressionMetadata =
  cm_algorithm :: CompressionAlgorithm

record KdfInfo =
  salt_hex :: string
  memory_kib :: u32
  iterations :: u32
  parallelism :: u32

definition KdfInfo_validate :: "KdfInfo \<Rightarrow> (ManifestError, unit) result" where
  "KdfInfo_validate k =
     (let trimmed = trim (salt_hex k) in
      if trimmed = [] then
        Err (ManifestError.Validation ''encryption.kdf.salt_hex'' ''salt cannot be empty'')
      else case find_first (\<lambda>ch. \<not> hex_char_ok ch) (utf8_chars trimmed) of
        Some ch \<Rightarrow> Err (ManifestError.Validation ''encryption.kdf.salt_hex''
          (''salt contains non-hex character '' @ [CHR 0x27] @ ch @ [CHR 0x27]))
      | None \<Rightarrow>
          if memory_kib k = 0 then
            Err (ManifestError.Validation ''encryption.kdf.memory_kib''
                   ''memory cost must be positive'')
          else if iterations k = 0 then
            Err (ManifestError.Validation ''encryption.kdf.iterations''
                   ''iterations must be positive'')
          else Ok ())"

record EncryptionMetadata =
  format_version :: u32
  em_algorithm :: EncryptionAlgorithm
  kdf :: "KdfInfo option"

definition EncryptionMetadata_aes256_gcm :: "KdfInfo option \<Rightarrow> EncryptionMetadata" where
  "EncryptionMetadata_aes256_gcm k =
     \<lparr>format_version = 1, em_algorithm = Aes256Gcm, kdf = k\<rparr>"

definition EncryptionMetadata_validate ::
  "EncryptionMetadata \<Rightarrow> (ManifestError, unit) result" where
  "EncryptionMetadata_validate e =
     (if format_version e \<noteq> 1 then
        Err (ManifestError.Validation ''encryption.format_version''
               (''unsupported crypto format version '' @ show_nat (unat (format_version e))))
      else case kdf e of Some k \<Rightarrow> bind_res (KdfInfo_validate k) (\<lambda>_. Ok ())
                       | None \<Rightarrow> Ok ())"

datatype StorageReference =
    Telegram (chat_id: int) (message_id: int) (tg_file_id: string)
  | LocalStaging (relative_path_of: string)
  | Pending

fun StorageReference_validate :: "StorageReference \<Rightarrow> (ManifestError, unit) result" where
  "StorageReference_validate (Telegram chat message file) =
     (if chat = 0 then
        Err (ManifestError.Validation ''storage.telegram.chat_id'' ''chat_id cannot be 0'')
      else if message \<le> 0 then
        Err (ManifestError.Validation ''storage.telegram.message_id''
               ''message_id must be positive'')
      else if trim file = [] then
        Err (ManifestError.Validation ''storage.telegram.file_id'' ''file_id cannot be empty'')
      else Ok ())"
| "StorageReference_validate (LocalStaging relative_path) =
     (if trim relative_path = [] then
        Err (ManifestError.Validation ''storage.local_staging.relative_path''
               ''relative_path cannot be empty'')
      else Ok ())"
| "StorageReference_validate StorageReference.Pending = Ok ()"

subsection \<open>chunk.rs\<close>

definition CHUNK_THRESHOLD_BYTES :: u64 where
  "CHUNK_THRESHOLD_BYTES = 2 * 1024 * 1024 * 1024"

definition TARGET_CHUNK_SIZE_BYTES :: u64 where
  "TARGET_CHUNK_SIZE_BYTES = 1800 * 1024 * 1024"

definition calculate_expected_chunk_count :: "u64 \<Rightarrow> u32" where
  "calculate_expected_chunk_count file_size =
     (if file_size < CHUNK_THRESHOLD_BYTES then 1
      else ucast (div_ceil file_size TARGET_CHUNK_SIZE_BYTES))"

record ChunkManifest =
  cmf_chunk_id :: ident_str
  cmf_index :: u32
  cmf_plaintext_size :: u64
  cmf_stored_size :: u64
  cmf_integrity :: IntegrityMetadata
  cmf_storage_reference :: StorageReference

definition ChunkManifest_validate :: "ChunkManifest \<Rightarrow> (ManifestError, unit) result" where
  "ChunkManifest_validate c =
     bind_res (IntegrityMetadata_validate (cmf_integrity c)) (\<lambda>_.
     bind_res (StorageReference_validate (cmf_storage_reference c)) (\<lambda>_. Ok ()))"

subsection \<open>manifest.rs\<close>

record LogicalFileMetadata =
  lf_file_id :: ident_str
  lf_file_name :: string
  lf_relative_path :: string
  lf_original_size :: u64
  lf_created_at :: "u64 option"
  lf_modified_at :: "u64 option"
  lf_mime_type :: "string option"

fun AppError_display :: "AppError \<Rightarrow> string" where
  "AppError_display (AppError.Io e) = ''I/O error: '' @ io_message e"
| "AppError_display (AppError.Config field message) =
     ''Configuration error in '' @ [CHR 0x27] @ field @ [CHR 0x27] @ '': '' @ message"
| "AppError_display (AppError.Validation field message) =
     ''Validation error for '' @ [CHR 0x27] @ field @ [CHR 0x27] @ '': '' @ message"
| "AppError_display (AppError.InvalidId entity reason) =
     ''Invalid '' @ entity @ '' identifier: '' @ reason"
| "AppError_display (AppError.NotFound entity i) = entity @ '' not found: '' @ i"
| "AppError_display (AppError.Path m) = ''Path error: '' @ m"
| "AppError_display (AppError.Conflict entity reason) =
     ''Conflict on '' @ entity @ '': '' @ reason"
| "AppError_display (AppError.InvalidState current expected) =
     ''Invalid state transition: current state '' @ [CHR 0x27] @ current @ [CHR 0x27]
       @ '', expected '' @ [CHR 0x27] @ expected @ [CHR 0x27]"
| "AppError_display (AppError.Internal m) = ''Internal error: '' @ m"

definition LogicalFileMetadata_validate ::
  "platform \<Rightarrow> LogicalFileMetadata \<Rightarrow> (ManifestError, unit) result" where
  "LogicalFileMetadata_validate pf f =
     (if trim (lf_file_name f) = [] then
        Err (ManifestError.Validation ''logical_file.file_name'' ''file_name cannot be empty'')
      else if trim (lf_relative_path f) = [] then
        Err (ManifestError.Validation ''logical_file.relative_path''
               ''relative_path cannot be empty'')
      else bind_res
        (map_err (\<lambda>e. ManifestError.Validation ''logical_file.relative_path''
                         (''path safety validation failed: '' @ AppError_display e))
           (validate_safe_relative_path pf (pf_components pf (lf_relative_path f))))
        (\<lambda>_. Ok ()))"

record ManifestV1 =
  manifest_version :: ManifestVersion
  manifest_id :: string
  logical_file :: LogicalFileMetadata
  encryption :: "EncryptionMetadata option"
  compression :: CompressionMetadata
  integrity :: IntegrityMetadata
  chunks :: "ChunkManifest list"

text \<open>The validation loop: \<open>idx\<close> is the enumeration index, \<open>seen\<close> the hash set of chunk
  identifiers, \<open>acc\<close> the running plaintext size.\<close>

fun validate_chunks ::
  "nat \<Rightarrow> ident_str set \<Rightarrow> u64 \<Rightarrow> ChunkManifest list \<Rightarrow> (ManifestError, u64) result" where
  "validate_chunks idx seen acc [] = Ok acc"
| "validate_chunks idx seen acc (c # cs) =
     bind_res (ChunkManifest_validate c) (\<lambda>_.
       if cmf_index c \<noteq> of_nat idx then
         Err (ChunkOrdering idx (of_nat idx) (cmf_index c))
       else if cmf_chunk_id c \<in> seen then Err (DuplicateChunkId (cmf_chunk_id c))
       else bind_res
         (ok_or (ManifestError.Validation ''chunks.plaintext_size''
                   ''integer overflow calculating chunk plaintext sum'')
            (checked_add acc (cmf_plaintext_size c)))
         (\<lambda>acc'. validate_chunks (Suc idx) (insert (cmf_chunk_id c) seen) acc' cs))"

definition ManifestV1_validate :: "platform \<Rightarrow> ManifestV1 \<Rightarrow> (ManifestError, unit) result" where
  "ManifestV1_validate pf m =
     (if manifest_version m \<noteq> V1 then
        Err (UnsupportedVersion (ManifestVersion_display (manifest_version m)))
      else if trim (manifest_id m) = [] then
        Err (ManifestError.Validation ''manifest_id'' ''manifest_id cannot be empty'')
      else
        bind_res (LogicalFileMetadata_validate pf (logical_file m)) (\<lambda>_.
        bind_res (IntegrityMetadata_validate (integrity m)) (\<lambda>_.
        bind_res (case encryption m of Some e \<Rightarrow> EncryptionMetadata_validate e
                                     | None \<Rightarrow> Ok ()) (\<lambda>_.
          if chunks m = [] then
            Err (ManifestError.Validation ''chunks''
                   ''manifest must contain at least one chunk'')
          else bind_res (validate_chunks 0 {} 0 (chunks m)) (\<lambda>plaintext_sum.
            if plaintext_sum \<noteq> lf_original_size (logical_file m) then
              Err (SizeMismatch (lf_original_size (logical_file m)) plaintext_sum)
            else Ok ())))))"

definition ManifestV1_to_json ::
  "platform \<Rightarrow> (ManifestV1 \<Rightarrow> (string, string) result) \<Rightarrow> ManifestV1
     \<Rightarrow> (ManifestError, string) result" where
  "ManifestV1_to_json pf serde_to_string m =
     bind_res (ManifestV1_validate pf m) (\<lambda>_. map_err Serialization (serde_to_string m))"

definition ManifestV1_from_json ::
  "platform \<Rightarrow> (string \<Rightarrow> (string, ManifestV1) result) \<Rightarrow> string
     \<Rightarrow> (ManifestError, ManifestV1) result" where
  "ManifestV1_from_json pf serde_from_str json =
     bind_res (map_err Deserialization (serde_from_str json)) (\<lambda>m.
     bind_res (ManifestV1_validate pf m) (\<lambda>_. Ok m))"

subsection \<open>Lemmas\<close>

definition plaintext_total :: "ChunkManifest list \<Rightarrow> nat" where
  "plaintext_total cs = sum_list (map (unat \<circ> cmf_plaintext_size) cs)"

definition indexed_from :: "nat \<Rightarrow> ChunkManifest list \<Rightarrow> bool" where
  "indexed_from k cs \<longleftrightarrow> map cmf_index cs = map of_nat [k..<k + length cs]"

lemma plaintext_total_simps [simp]:
  "plaintext_total [] = 0"
  "plaintext_total (c # cs) = unat (cmf_plaintext_size c) + plaintext_total cs"
  by (simp_all add: plaintext_total_def)

lemma indexed_from_Nil [simp]: "indexed_from k []"
  by (simp add: indexed_from_def)

lemma indexed_from_Cons [simp]:
  "indexed_from k (c # cs) \<longleftrightarrow> cmf_index c = of_nat k \<and> indexed_from (Suc k) cs"
  by (simp add: indexed_from_def upt_conv_Cons del: upt_Suc)

lemma validate_chunks_Inr_iff:
  "validate_chunks idx seen acc cs = Inr t \<longleftrightarrow>
     (\<forall>c \<in> set cs. ChunkManifest_validate c = Inr ()) \<and> indexed_from idx cs
     \<and> distinct (map cmf_chunk_id cs) \<and> set (map cmf_chunk_id cs) \<inter> seen = {}
     \<and> unat acc + plaintext_total cs < 2 ^ 64 \<and> unat t = unat acc + plaintext_total cs"
proof (induction cs arbitrary: idx seen acc)
  case Nil
  show ?case by (auto dest: word_unat_eq_iff [THEN iffD2])
next
  case (Cons c cs)
  show ?case
  proof (cases "checked_add acc (cmf_plaintext_size c)")
    case None
    then have "2 ^ 64 \<le> unat acc + unat (cmf_plaintext_size c)"
      by (simp add: checked_add_None_iff)
    then show ?thesis by (auto simp: None bind_res_Inr_iff)
  next
    case (Some s)
    then have "unat s = unat acc + unat (cmf_plaintext_size c)"
      by (rule checked_add_SomeD)
    then show ?thesis by (auto simp: Some bind_res_Inr_iff Cons.IH add.assoc)
  qed
qed

lemmas manifest_validates [model_defs] =
  IntegrityMetadata_validate_def KdfInfo_validate_def EncryptionMetadata_validate_def
  ChunkManifest_validate_def LogicalFileMetadata_validate_def ManifestV1_validate_def

lemma expected_chunk_count_large:
  assumes "\<not> file_size < CHUNK_THRESHOLD_BYTES"
    and "unat file_size \<le> (2 ^ 32 - 1) * 1887436800"
  shows "unat (calculate_expected_chunk_count file_size) =
     (if unat file_size mod 1887436800 = 0 then unat file_size div 1887436800
      else unat file_size div 1887436800 + 1)"
proof -
  let ?q = "div_ceil file_size TARGET_CHUNK_SIZE_BYTES"
  have t: "unat TARGET_CHUNK_SIZE_BYTES = 1887436800" and nz: "TARGET_CHUNK_SIZE_BYTES \<noteq> 0"
    by (simp_all add: TARGET_CHUNK_SIZE_BYTES_def)
  have q: "unat ?q = (if unat file_size mod 1887436800 = 0 then unat file_size div 1887436800
      else unat file_size div 1887436800 + 1)"
    using unat_div_ceil [OF nz, of file_size] unfolding t .
  have "unat ?q < 2 ^ 32"
  proof -
    define d r where "d = unat file_size div 1887436800" and "r = unat file_size mod 1887436800"
    have "unat file_size = 1887436800 * d + r" by (simp add: d_def r_def)
    then have "d < 2 ^ 32" and "r \<noteq> 0 \<Longrightarrow> d + 1 < 2 ^ 32"
      using assms(2) by simp_all
    then show ?thesis using q by (auto simp: d_def r_def split: if_splits)
  qed
  then have "unat (ucast ?q :: u32) = unat ?q"
    by (simp add: unsigned_ucast_eq take_bit_nat_eq_self)
  with q assms(1) show ?thesis by (simp add: calculate_expected_chunk_count_def)
qed

subsection \<open>Properties\<close>

text \<open>C28. \<open>ManifestV1::validate\<close> accepts a manifest exactly when its parts validate, it has at
  least one chunk, the chunk indices are 0, 1, ..., N-1 in list order, the chunk identifiers
  are distinct, and the plaintext sizes add up, without overflow, to the size of the logical
  file.\<close>

theorem ManifestV1_validate_iff:
  "ManifestV1_validate pf m = Inr () \<longleftrightarrow>
     trim (manifest_id m) \<noteq> []
     \<and> LogicalFileMetadata_validate pf (logical_file m) = Inr ()
     \<and> IntegrityMetadata_validate (integrity m) = Inr ()
     \<and> (\<forall>e. encryption m = Some e \<longrightarrow> EncryptionMetadata_validate e = Inr ())
     \<and> chunks m \<noteq> []
     \<and> (\<forall>c \<in> set (chunks m). ChunkManifest_validate c = Inr ())
     \<and> map cmf_index (chunks m) = map of_nat [0..<length (chunks m)]
     \<and> distinct (map cmf_chunk_id (chunks m))
     \<and> (\<Sum>c \<leftarrow> chunks m. unat (cmf_plaintext_size c)) = unat (lf_original_size (logical_file m))"
proof -
  have sum: "(\<Sum>c \<leftarrow> chunks m. unat (cmf_plaintext_size c)) = plaintext_total (chunks m)"
    by (simp add: plaintext_total_def comp_def)
  have v: "manifest_version m = V1" by (cases "manifest_version m") simp
  show ?thesis
    unfolding sum ManifestV1_validate_def v
    using validate_chunks_Inr_iff [of 0 "{}" 0 "chunks m"]
    by (auto simp: bind_res_Inr_iff indexed_from_def word_unat_eq_iff split: option.splits if_splits)
qed

definition sample_digest :: string where
  "sample_digest = replicate 64 CHR ''a''"

definition sample_manifest :: ManifestV1 where
  "sample_manifest =
     \<lparr>manifest_version = V1, manifest_id = ''m1'',
      logical_file = \<lparr>lf_file_id = ''f1'', lf_file_name = ''a.txt'', lf_relative_path = ''d/a.txt'',
        lf_original_size = 7, lf_created_at = None, lf_modified_at = None, lf_mime_type = None\<rparr>,
      encryption = None, compression = \<lparr>cm_algorithm = NoCompression\<rparr>,
      integrity = \<lparr>im_algorithm = Sha256, im_digest = sample_digest\<rparr>,
      chunks =
        [\<lparr>cmf_chunk_id = ''c0'', cmf_index = 0, cmf_plaintext_size = 5, cmf_stored_size = 5,
          cmf_integrity = \<lparr>im_algorithm = Sha256, im_digest = sample_digest\<rparr>,
          cmf_storage_reference = Telegram (- 100) 7 ''f''\<rparr>,
         \<lparr>cmf_chunk_id = ''c1'', cmf_index = 1, cmf_plaintext_size = 2, cmf_stored_size = 2,
          cmf_integrity = \<lparr>im_algorithm = Sha256, im_digest = sample_digest\<rparr>,
          cmf_storage_reference = StorageReference.Pending\<rparr>]\<rparr>"

lemma sample_digest_valid:
  "IntegrityMetadata_validate \<lparr>im_algorithm = Sha256, im_digest = sample_digest\<rparr> = Inr ()"
  by code_simp

lemma sample_path_valid:
  "trim ''a.txt'' \<noteq> [] \<and> trim ''d/a.txt'' \<noteq> [] \<and> trim ''m1'' \<noteq> [] \<and> trim ''f'' \<noteq> []
   \<and> validate_safe_relative_path unix_platform (pf_components unix_platform ''d/a.txt'') = Inr ()"
  by code_simp

lemma sample_manifest_valid: "ManifestV1_validate unix_platform sample_manifest = Inr ()"
  using sample_digest_valid sample_path_valid
  by (simp add: sample_manifest_def ManifestV1_validate_def LogicalFileMetadata_validate_def
      ChunkManifest_validate_def checked_add_def)

theorem ManifestV1_validate_iff_witness:
  "ManifestV1_validate unix_platform sample_manifest = Inr ()
   \<and> distinct (map cmf_chunk_id (chunks sample_manifest))"
  using ManifestV1_validate_iff [of unix_platform sample_manifest] sample_manifest_valid by blast

text \<open>The expected chunk count is the least number of 1800 MiB chunks that holds the file
  (one chunk below 2 GiB), for every size whose chunk count fits the 32-bit result.\<close>

theorem calculate_expected_chunk_count_tight:
  assumes "unat file_size \<le> (2 ^ 32 - 1) * 1887436800"
  shows "if file_size < CHUNK_THRESHOLD_BYTES
         then calculate_expected_chunk_count file_size = 1
         else let n = unat (calculate_expected_chunk_count file_size) in
           2 \<le> n \<and> unat file_size \<le> n * unat TARGET_CHUNK_SIZE_BYTES
           \<and> (n - 1) * unat TARGET_CHUNK_SIZE_BYTES < unat file_size"
proof (cases "file_size < CHUNK_THRESHOLD_BYTES")
  case True
  then show ?thesis by (simp add: calculate_expected_chunk_count_def)
next
  case False
  have "unat CHUNK_THRESHOLD_BYTES = 2147483648" and t: "unat TARGET_CHUNK_SIZE_BYTES = 1887436800"
    by (simp_all add: CHUNK_THRESHOLD_BYTES_def TARGET_CHUNK_SIZE_BYTES_def)
  then have big: "2147483648 \<le> unat file_size"
    using False by (simp add: word_less_nat_alt)
  define q where "q = unat file_size div 1887436800"
  have dm: "unat file_size = q * 1887436800 + unat file_size mod 1887436800"
    by (simp add: q_def)
  have "unat (calculate_expected_chunk_count file_size) =
      (if unat file_size mod 1887436800 = 0 then q else q + 1)"
    using expected_chunk_count_large [OF False assms] by (simp add: q_def)
  moreover have "unat file_size mod 1887436800 < 1887436800" by simp
  ultimately show ?thesis using big dm False t by (auto simp: Let_def)
qed

theorem calculate_expected_chunk_count_tight_witness:
  "unat (calculate_expected_chunk_count 5583457484) = 3
   \<and> unat (5583457484 :: u64) \<le> 3 * unat TARGET_CHUNK_SIZE_BYTES"
proof -
  have small: "unat (5583457484 :: u64) \<le> (2 ^ 32 - 1) * 1887436800" by simp
  have three: "unat (calculate_expected_chunk_count 5583457484) = 3"
    and ge: "\<not> (5583457484 :: u64) < CHUNK_THRESHOLD_BYTES"
    by (simp_all add: calculate_expected_chunk_count_def CHUNK_THRESHOLD_BYTES_def
        TARGET_CHUNK_SIZE_BYTES_def div_ceil_def)
  show ?thesis
    using calculate_expected_chunk_count_tight [OF small] ge three by (simp add: Let_def)
qed

end
