(* ===== verification/Storage_Model.thy ===== *)
theory Storage_Model
  imports Manifest
begin

text \<open>
  The crate televault-storage: errors, request and result types, the \<open>StorageProvider\<close> trait
  and the in-process \<open>MockStorageProvider\<close>.

  A \<open>Read\<close> source is the list of what successive \<open>read\<close> calls return: a block of bytes, or an
  error; an empty block, or the end of the list, is the end of the stream. A \<open>Write\<close> sink is
  a state and its \<open>write\<close> method; \<open>write_all\<close> is the loop of the standard library, which
  repeats an interrupted write, so its result is an option: None when it never returns. SHA-256 is not part of the sources: it is the argument
  \<open>sha\<close>, from bytes to the hexadecimal digest.

  Message numbers are unbounded integers; the 64-bit counter of the source wraps after 2^63 uploads.

  The locale \<open>storage_contract\<close> states what a provider promises to its clients; it is
  interpreted on the mock provider.
\<close>

subsection \<open>error.rs\<close>

datatype StorageError =
    Io io_error
  | InvalidReference string
  | UploadFailed string bool
  | DownloadFailed string bool
  | DeleteFailed string bool
  | VerificationFailed string
  | TempStorage string
  | ProviderUnavailable string
  | InvalidState string string
  | NotFound string
  | ChunkTooLarge u64 u64
  | Serialization string

definition show_bool :: "bool \<Rightarrow> string" where
  "show_bool b = (if b then ''true'' else ''false'')"

fun StorageError_display :: "StorageError \<Rightarrow> string" where
  "StorageError_display (StorageError.Io e) = ''Storage I/O error: '' @ io_message e"
| "StorageError_display (InvalidReference m) = ''Invalid storage reference: '' @ m"
| "StorageError_display (UploadFailed reason retryable) =
     ''Upload failed (retryable='' @ show_bool retryable @ ''): '' @ reason"
| "StorageError_display (DownloadFailed reason retryable) =
     ''Download failed (retryable='' @ show_bool retryable @ ''): '' @ reason"
| "StorageError_display (DeleteFailed reason retryable) =
     ''Delete failed (retryable='' @ show_bool retryable @ ''): '' @ reason"
| "StorageError_display (StorageError.VerificationFailed reason) =
     ''Remote verification failed: '' @ reason"
| "StorageError_display (TempStorage m) = ''Temporary storage error: '' @ m"
| "StorageError_display (ProviderUnavailable m) = ''Storage provider unavailable: '' @ m"
| "StorageError_display (StorageError.InvalidState current expected) =
     ''Invalid storage state: current '' @ [CHR 0x27] @ current @ [CHR 0x27] @ '', expected ''
       @ [CHR 0x27] @ expected @ [CHR 0x27]"
| "StorageError_display (StorageError.NotFound i) = ''Remote storage object not found: '' @ i"
| "StorageError_display (ChunkTooLarge actual limit) =
     ''Chunk payload exceeds size limit: '' @ show_nat (unat actual) @ '' > ''
       @ show_nat (unat limit)"
| "StorageError_display (StorageError.Serialization e) =
     ''Storage serialization error: '' @ e"

fun StorageError_to_AppError :: "StorageError \<Rightarrow> AppError" where
  "StorageError_to_AppError (StorageError.Io e) = AppError.Io e"
| "StorageError_to_AppError (StorageError.NotFound i) = AppError.NotFound ''StorageObject'' i"
| "StorageError_to_AppError (InvalidReference m) = AppError.Validation ''storage_reference'' m"
| "StorageError_to_AppError (StorageError.VerificationFailed reason) =
     AppError.Conflict ''StorageVerification'' reason"
| "StorageError_to_AppError (StorageError.InvalidState current expected) =
     AppError.InvalidState current expected"
| "StorageError_to_AppError (ChunkTooLarge actual limit) =
     AppError.Validation ''chunk_size''
       (''size '' @ show_nat (unat actual) @ '' exceeds maximum '' @ show_nat (unat limit))"
| "StorageError_to_AppError (UploadFailed reason _) = AppError.Internal reason"
| "StorageError_to_AppError (DownloadFailed reason _) = AppError.Internal reason"
| "StorageError_to_AppError (DeleteFailed reason _) = AppError.Internal reason"
| "StorageError_to_AppError (TempStorage m) = AppError.Internal m"
| "StorageError_to_AppError (ProviderUnavailable m) = AppError.Internal m"
| "StorageError_to_AppError (StorageError.Serialization e) = AppError.Internal e"

subsection \<open>types.rs\<close>

definition STREAM_CHUNK_BUFFER_SIZE :: nat where
  "STREAM_CHUNK_BUFFER_SIZE = 64 * 1024"

datatype StorageStatus =
  Pending | Uploading | Uploaded | Verifying | Verified | Failed | Retrying | Deleted

fun is_remotely_complete :: "StorageStatus \<Rightarrow> bool" where
  "is_remotely_complete StorageStatus.Verified = True"
| "is_remotely_complete _ = False"

fun is_in_flight :: "StorageStatus \<Rightarrow> bool" where
  "is_in_flight StorageStatus.Uploading = True"
| "is_in_flight StorageStatus.Verifying = True"
| "is_in_flight _ = False"

record RemoteObjectMetadata =
  rom_remote_id :: string
  rom_size_bytes :: u64
  rom_sha256_hash :: "string option"
  rom_storage_reference :: StorageReference
  rom_created_at :: "string option"

record UploadRequest =
  ur_file_id :: ident_str
  ur_chunk_id :: ident_str
  ur_chunk_index :: u32
  ur_total_chunks :: u32
  ur_expected_size_bytes :: u64
  ur_expected_sha256 :: "string option"
  ur_resumable :: bool

record UploadResult =
  ures_storage_reference :: StorageReference
  ures_bytes_uploaded :: u64
  ures_verified_sha256 :: "string option"
  ures_remote_status :: StorageStatus

record DownloadRequest =
  dr_file_id :: ident_str
  dr_chunk_id :: ident_str
  dr_storage_reference :: StorageReference
  dr_expected_size_bytes :: u64
  dr_expected_sha256 :: "string option"

record DownloadResult =
  dres_bytes_downloaded :: u64
  dres_verified_sha256 :: "string option"

record VerificationRequest =
  vr_storage_reference :: StorageReference
  vr_expected_size_bytes :: u64
  vr_expected_sha256 :: "string option"

subsection \<open>Streams\<close>

type_synonym bytes = "u8 list"

datatype read_event = RData bytes | RErr io_error

type_synonym reader = "read_event list"

text \<open>The loop \<open>loop { let n = reader.read(&mut buffer)?; if n == 0 { break; } ... }\<close>: the
  bytes read, or the first error.\<close>

fun read_loop :: "reader \<Rightarrow> bytes \<Rightarrow> (io_error, bytes) result" where
  "read_loop [] acc = Ok acc"
| "read_loop (RErr e # evs) acc = Err e"
| "read_loop (RData bs # evs) acc = (if bs = [] then Ok acc else read_loop evs (acc @ bs))"

definition blocks_reader :: "bytes list \<Rightarrow> reader" where
  "blocks_reader bss = map RData (filter (\<lambda>bs. bs \<noteq> []) bss)"

fun chunks_of_fuel :: "nat \<Rightarrow> nat \<Rightarrow> 'a list \<Rightarrow> 'a list list" where
  "chunks_of_fuel 0 n xs = []"
| "chunks_of_fuel (Suc k) n xs =
     (if xs = [] then [] else take n xs # chunks_of_fuel k n (drop n xs))"

definition chunks_of :: "nat \<Rightarrow> 'a list \<Rightarrow> 'a list list" where
  "chunks_of n xs = chunks_of_fuel (length xs) n xs"

text \<open>\<open>Write::write_all\<close>: writes are repeated until the buffer is empty; a write of zero bytes is
  an error, an error of kind \<open>Interrupted\<close> is ignored and the write tried again.\<close>

type_synonym 'w write_fn = "'w \<Rightarrow> bytes \<Rightarrow> 'w \<times> (io_error, nat) result"

partial_function (option) write_all ::
  "'w write_fn \<Rightarrow> 'w \<Rightarrow> bytes \<Rightarrow> ('w \<times> (io_error, unit) result) option" where
  "write_all wr w buf =
     (if buf = [] then Some (w, Inr ())
      else (case snd (wr w buf) of
        Inr n \<Rightarrow>
          if n = 0 then Some (fst (wr w buf), Inl (IoError WriteZero ''failed to write whole buffer''))
          else write_all wr (fst (wr w buf)) (drop n buf)
      | Inl e \<Rightarrow>
          if io_kind e = Interrupted then write_all wr (fst (wr w buf)) buf
          else Some (fst (wr w buf), Inl e)))"

fun write_blocks ::
  "'w write_fn \<Rightarrow> 'w \<Rightarrow> bytes list \<Rightarrow> ('w \<times> (io_error, unit) result) option" where
  "write_blocks wr w [] = Some (w, Inr ())"
| "write_blocks wr w (b # bs) =
     (case write_all wr w b of
        None \<Rightarrow> None
      | Some (w', Inl e) \<Rightarrow> Some (w', Inl e)
      | Some (w', Inr _) \<Rightarrow> write_blocks wr w' bs)"

definition vec_write :: "bytes write_fn" where
  \<comment> \<open>the sink \<open>Vec<u8>\<close>\<close>
  "vec_write w buf = (w @ buf, Inr (length buf))"

lemma write_all_vec: "write_all vec_write w buf = Some (w @ buf, Inr ())"
  by (subst write_all.simps) (simp add: vec_write_def write_all.simps)

lemma write_blocks_vec: "write_blocks vec_write w bs = Some (w @ concat bs, Inr ())"
  by (induction bs arbitrary: w) (simp_all add: write_all_vec)

lemma concat_chunks_of_fuel:
  "\<lbrakk>0 < n; length xs \<le> k\<rbrakk> \<Longrightarrow> concat (chunks_of_fuel k n xs) = xs"
proof (induction k arbitrary: xs)
  case 0
  then show ?case by simp
next
  case (Suc k)
  show ?case
  proof (cases "xs = []")
    case False
    then have "length (drop n xs) \<le> k" using Suc.prems by (cases xs) auto
    with False Suc.IH [of "drop n xs"] Suc.prems show ?thesis by simp
  qed simp
qed

lemma concat_chunks_of [simp]: "0 < n \<Longrightarrow> concat (chunks_of n xs) = xs"
  by (simp add: chunks_of_def concat_chunks_of_fuel)

lemma read_loop_blocks: "read_loop (blocks_reader bss) acc = Inr (acc @ concat bss)"
  by (induction bss arbitrary: acc) (auto simp: blocks_reader_def)

subsection \<open>mock.rs\<close>

datatype MockPayload = InMemory bytes | VirtualLarge u8

record MockStoredObject =
  mo_payload :: MockPayload
  mo_sha256_hex :: string
  mo_size_bytes :: u64
  mo_created_at :: string

record MockStorageProvider =
  objects :: "string \<rightharpoonup> MockStoredObject"
  next_message_id :: int
  target_chat_id :: int
  fail_uploads :: bool
  fail_downloads :: bool
  fail_verifications :: bool

definition MockStorageProvider_new :: MockStorageProvider where
  "MockStorageProvider_new =
     \<lparr>objects = Map.empty, next_message_id = 1000, target_chat_id = - 1001234567890,
      fail_uploads = False, fail_downloads = False, fail_verifications = False\<rparr>"

definition set_fail_uploads :: "bool \<Rightarrow> MockStorageProvider \<Rightarrow> MockStorageProvider" where
  "set_fail_uploads b s = s\<lparr>fail_uploads := b\<rparr>"

definition set_fail_downloads :: "bool \<Rightarrow> MockStorageProvider \<Rightarrow> MockStorageProvider" where
  "set_fail_downloads b s = s\<lparr>fail_downloads := b\<rparr>"

definition set_fail_verifications :: "bool \<Rightarrow> MockStorageProvider \<Rightarrow> MockStorageProvider" where
  "set_fail_verifications b s = s\<lparr>fail_verifications := b\<rparr>"

fun reference_key :: "StorageReference \<Rightarrow> (StorageError, string) result" where
  "reference_key (Telegram chat message _) = Ok (show_int chat @ '':'' @ show_int message)"
| "reference_key (LocalStaging relative_path) = Ok (''local:'' @ relative_path)"
| "reference_key StorageReference.Pending =
     Err (InvalidReference ''Cannot address a pending storage reference'')"

fun corrupt_bytes :: "bytes \<Rightarrow> bytes" where
  "corrupt_bytes (b # bs) = (Bit_Operations.xor b 0xFF) # bs"
| "corrupt_bytes [] = [0xAA]"

definition corrupt_object ::
  "(bytes \<Rightarrow> string) \<Rightarrow> MockStorageProvider \<Rightarrow> StorageReference
     \<Rightarrow> MockStorageProvider \<times> (StorageError, unit) result" where
  "corrupt_object sha s r =
     (case reference_key r of
        Inl e \<Rightarrow> (s, Err e)
      | Inr key \<Rightarrow>
          (case objects s key of
             None \<Rightarrow> (s, Err (StorageError.NotFound
                       (''Reference '' @ [CHR 0x27] @ key @ [CHR 0x27] @ '' not found'')))
           | Some obj \<Rightarrow>
               (case mo_payload obj of
                  InMemory data \<Rightarrow>
                    (s\<lparr>objects := (objects s)(key \<mapsto>
                         obj\<lparr>mo_payload := InMemory (corrupt_bytes data),
                             mo_sha256_hex := sha (corrupt_bytes data)\<rparr>)\<rparr>, Ok ())
                | VirtualLarge fill \<Rightarrow>
                    (s\<lparr>objects := (objects s)(key \<mapsto>
                         obj\<lparr>mo_payload := VirtualLarge (Bit_Operations.xor fill 0xFF),
                             mo_sha256_hex := ''corrupted_virtual_large_hash''\<rparr>)\<rparr>, Ok ()))))"

definition insert_virtual_object ::
  "MockStorageProvider \<Rightarrow> StorageReference \<Rightarrow> u64 \<Rightarrow> u8 \<Rightarrow> string
     \<Rightarrow> MockStorageProvider \<times> (StorageError, unit) result" where
  "insert_virtual_object s r sz fill hash =
     (case reference_key r of
        Inl e \<Rightarrow> (s, Err e)
      | Inr key \<Rightarrow>
          (s\<lparr>objects := (objects s)(key \<mapsto>
               \<lparr>mo_payload = VirtualLarge fill, mo_sha256_hex = hash, mo_size_bytes = sz,
                mo_created_at = ''2026-10-07T12:00:00Z''\<rparr>)\<rparr>, Ok ()))"

definition insert_in_memory_object ::
  "(bytes \<Rightarrow> string) \<Rightarrow> MockStorageProvider \<Rightarrow> StorageReference \<Rightarrow> bytes
     \<Rightarrow> MockStorageProvider \<times> (StorageError, string) result" where
  "insert_in_memory_object sha s r data =
     (case reference_key r of
        Inl e \<Rightarrow> (s, Err e)
      | Inr key \<Rightarrow>
          (s\<lparr>objects := (objects s)(key \<mapsto>
               \<lparr>mo_payload = InMemory data, mo_sha256_hex = sha data,
                mo_size_bytes = of_nat (length data),
                mo_created_at = ''2026-10-07T12:00:00Z''\<rparr>)\<rparr>, Ok (sha data)))"

definition mock_upload ::
  "(bytes \<Rightarrow> string) \<Rightarrow> MockStorageProvider \<Rightarrow> UploadRequest \<Rightarrow> reader
     \<Rightarrow> MockStorageProvider \<times> (StorageError, UploadResult) result" where
  "mock_upload sha s request rd =
     (if fail_uploads s then (s, Err (UploadFailed ''Simulated mock upload failure'' True))
      else
        let is_large_virtual = ur_expected_size_bytes request > 4 * 1024 * 1024 in
        case read_loop rd [] of
          Inl e \<Rightarrow> (s, Err (StorageError.Io e))
        | Inr data \<Rightarrow>
            let total_read = of_nat (length data) :: u64;
                sample_fill_byte = (case data of [] \<Rightarrow> 0 | b # _ \<Rightarrow> b);
                calculated_hash = sha data in
            if ur_expected_size_bytes request > 0
               \<and> total_read \<noteq> ur_expected_size_bytes request then
              (s, Err (UploadFailed
                (''Streamed size mismatch: read '' @ show_nat (unat total_read)
                   @ '' bytes, expected '' @ show_nat (unat (ur_expected_size_bytes request))
                   @ '' bytes'') False))
            else if (case ur_expected_sha256 request of
                       Some h \<Rightarrow> \<not> eq_ignore_ascii_case calculated_hash h | None \<Rightarrow> False) then
              (s, Err (StorageError.VerificationFailed
                (''Upload SHA-256 mismatch: calculated '' @ [CHR 0x27] @ calculated_hash
                   @ [CHR 0x27] @ '', expected '' @ [CHR 0x27]
                   @ the (ur_expected_sha256 request) @ [CHR 0x27])))
            else
              let msg_id = next_message_id s;
                  s1 = s\<lparr>next_message_id := msg_id + 1\<rparr>;
                  storage_ref = Telegram (target_chat_id s) msg_id
                                  (''tg_mock_file_'' @ show_int msg_id) in
              case reference_key storage_ref of
                Inl e \<Rightarrow> (s1, Err e)
              | Inr key \<Rightarrow>
                  let stored_obj =
                    \<lparr>mo_payload = (if is_large_virtual then VirtualLarge sample_fill_byte
                                   else InMemory data),
                     mo_sha256_hex = calculated_hash, mo_size_bytes = total_read,
                     mo_created_at = ''2026-10-07T12:00:00Z''\<rparr> in
                  (s1\<lparr>objects := (objects s1)(key \<mapsto> stored_obj)\<rparr>,
                   Ok \<lparr>ures_storage_reference = storage_ref, ures_bytes_uploaded = total_read,
                       ures_verified_sha256 = Some calculated_hash,
                       ures_remote_status = StorageStatus.Verified\<rparr>))"

text \<open>The blocks a download writes, in order.\<close>

definition payload_blocks :: "MockStoredObject \<Rightarrow> bytes list" where
  "payload_blocks obj =
     (case mo_payload obj of
        InMemory data \<Rightarrow> chunks_of STREAM_CHUNK_BUFFER_SIZE data
      | VirtualLarge fill \<Rightarrow>
          chunks_of STREAM_CHUNK_BUFFER_SIZE (replicate (unat (mo_size_bytes obj)) fill))"

definition mock_download ::
  "(bytes \<Rightarrow> string) \<Rightarrow> MockStorageProvider \<Rightarrow> DownloadRequest \<Rightarrow> 'w write_fn \<Rightarrow> 'w
     \<Rightarrow> ('w \<times> (StorageError, DownloadResult) result) option" where
  "mock_download sha s request wr w =
     (if fail_downloads s then
        Some (w, Err (DownloadFailed ''Simulated mock download failure'' True))
      else case reference_key (dr_storage_reference request) of
        Inl e \<Rightarrow> Some (w, Err e)
      | Inr key \<Rightarrow>
          (case objects s key of
             None \<Rightarrow> Some (w, Err (StorageError.NotFound
               (''Reference '' @ [CHR 0x27] @ key @ [CHR 0x27] @ '' not found in mock store'')))
           | Some obj \<Rightarrow>
               (case write_blocks wr w (payload_blocks obj) of
                  None \<Rightarrow> None
                | Some (w', Inl e) \<Rightarrow> Some (w', Err (StorageError.Io e))
                | Some (w', Inr _) \<Rightarrow>
                    let data = concat (payload_blocks obj); calculated_hash = sha data in
                    if (case dr_expected_sha256 request of
                          Some h \<Rightarrow> \<not> eq_ignore_ascii_case calculated_hash h | None \<Rightarrow> False) then
                      Some (w', Err (StorageError.VerificationFailed
                        (''Download SHA-256 mismatch: calculated '' @ [CHR 0x27]
                           @ calculated_hash @ [CHR 0x27] @ '', expected '' @ [CHR 0x27]
                           @ the (dr_expected_sha256 request) @ [CHR 0x27])))
                    else
                      Some (w', Ok \<lparr>dres_bytes_downloaded = of_nat (length data),
                                     dres_verified_sha256 = Some calculated_hash\<rparr>))))"

definition mock_verify ::
  "MockStorageProvider \<Rightarrow> VerificationRequest \<Rightarrow> (StorageError, bool) result" where
  "mock_verify s request =
     (if fail_verifications s then Ok False
      else bind_res (reference_key (vr_storage_reference request)) (\<lambda>key.
        case objects s key of
          None \<Rightarrow> Ok False
        | Some obj \<Rightarrow>
            if vr_expected_size_bytes request > 0
               \<and> mo_size_bytes obj \<noteq> vr_expected_size_bytes request then Ok False
            else if (case vr_expected_sha256 request of
                       Some h \<Rightarrow> \<not> eq_ignore_ascii_case (mo_sha256_hex obj) h
                     | None \<Rightarrow> False) then Ok False
            else Ok True))"

definition mock_get_metadata ::
  "MockStorageProvider \<Rightarrow> StorageReference \<Rightarrow> (StorageError, RemoteObjectMetadata) result" where
  "mock_get_metadata s r =
     bind_res (reference_key r) (\<lambda>key.
     bind_res (ok_or (StorageError.NotFound
         (''Reference '' @ [CHR 0x27] @ key @ [CHR 0x27] @ '' not found in mock store''))
       (objects s key)) (\<lambda>obj.
     Ok \<lparr>rom_remote_id = key, rom_size_bytes = mo_size_bytes obj,
         rom_sha256_hash = Some (mo_sha256_hex obj), rom_storage_reference = r,
         rom_created_at = Some (mo_created_at obj)\<rparr>))"

definition mock_delete ::
  "MockStorageProvider \<Rightarrow> StorageReference \<Rightarrow> MockStorageProvider \<times> (StorageError, unit) result" where
  "mock_delete s r =
     (case reference_key r of
        Inl e \<Rightarrow> (s, Err e)
      | Inr key \<Rightarrow> (s\<lparr>objects := (objects s)(key := None)\<rparr>, Ok ()))"

subsection \<open>The contract of a storage provider\<close>

text \<open>\<open>stored s r\<close> is the payload a provider in state \<open>s\<close> holds under the reference \<open>r\<close>,
  \<open>exact\<close> the upload requests whose payload it keeps byte for byte, \<open>up\<close> the states in which it
  serves downloads.\<close>

locale storage_contract =
  fixes put :: "'s \<Rightarrow> UploadRequest \<Rightarrow> reader \<Rightarrow> 's \<times> (StorageError, UploadResult) result"
    and get :: "'s \<Rightarrow> DownloadRequest \<Rightarrow> bytes write_fn \<Rightarrow> bytes
                  \<Rightarrow> (bytes \<times> (StorageError, DownloadResult) result) option"
    and check :: "'s \<Rightarrow> VerificationRequest \<Rightarrow> (StorageError, bool) result"
    and hash :: "bytes \<Rightarrow> string"
    and stored :: "'s \<Rightarrow> StorageReference \<Rightarrow> bytes option"
    and exact :: "UploadRequest \<Rightarrow> bool"
    and up :: "'s \<Rightarrow> bool"
    and inv :: "'s \<Rightarrow> bool"
  assumes put_inv: "\<lbrakk>inv s; put s req rd = (s', out)\<rbrakk> \<Longrightarrow> inv s'"
    and put_up: "\<lbrakk>up s; put s req rd = (s', out)\<rbrakk> \<Longrightarrow> up s'"
    and put_stored: "\<lbrakk>inv s; exact req; put s req rd = (s', Inr res)\<rbrakk> \<Longrightarrow>
          \<exists>bs. read_loop rd [] = Inr bs \<and> stored s' (ures_storage_reference res) = Some bs
               \<and> ures_verified_sha256 res = Some (hash bs)
               \<and> ures_bytes_uploaded res = of_nat (length bs)"
    and put_keeps: "\<lbrakk>inv s; put s req rd = (s', out); stored s r = Some bs\<rbrakk>
          \<Longrightarrow> stored s' r = Some bs"
    and get_stored: "\<lbrakk>inv s; up s; stored s (dr_storage_reference d) = Some bs;
          dr_expected_size_bytes d > 0 \<longrightarrow> dr_expected_size_bytes d = of_nat (length bs);
          case dr_expected_sha256 d of None \<Rightarrow> True | Some h \<Rightarrow> eq_ignore_ascii_case (hash bs) h\<rbrakk>
          \<Longrightarrow> get s d vec_write w =
              Some (w @ bs, Inr \<lparr>dres_bytes_downloaded = of_nat (length bs),
                                dres_verified_sha256 = Some (hash bs)\<rparr>)"
    and check_stored: "\<lbrakk>inv s; stored s (vr_storage_reference v) = Some bs; check s v = Inr True\<rbrakk>
          \<Longrightarrow> (vr_expected_size_bytes v > 0 \<longrightarrow> of_nat (length bs) = vr_expected_size_bytes v)
              \<and> (\<forall>h. vr_expected_sha256 v = Some h \<longrightarrow> eq_ignore_ascii_case (hash bs) h)"
begin

fun put_all :: "'s \<Rightarrow> (UploadRequest \<times> reader) list \<Rightarrow> 's" where
  "put_all s [] = s"
| "put_all s ((req, rd) # qs) = put_all (fst (put s req rd)) qs"

lemma put_all_keeps:
  "\<lbrakk>inv s; up s; stored s r = Some bs\<rbrakk> \<Longrightarrow>
     inv (put_all s qs) \<and> up (put_all s qs) \<and> stored (put_all s qs) r = Some bs"
proof (induction qs arbitrary: s)
  case Nil
  then show ?case by simp
next
  case (Cons q qs)
  obtain req rd where q: "q = (req, rd)" by (cases q)
  obtain s' res where p: "put s req rd = (s', res)" by (cases "put s req rd")
  have "inv s'" "up s'" "stored s' r = Some bs"
    using Cons.prems p by (blast intro: put_inv put_up put_keeps)+
  then show ?case using Cons.IH [of s'] by (simp add: q p)
qed

lemma upload_download:
  assumes "inv s" "up s" "exact req" "put s req rd = (s', Inr res)"
    and "n > 0 \<longrightarrow> n = ures_bytes_uploaded res"
  shows "\<exists>bs. read_loop rd [] = Inr bs \<and>
    get (put_all s' qs)
      \<lparr>dr_file_id = f, dr_chunk_id = c, dr_storage_reference = ures_storage_reference res,
       dr_expected_size_bytes = n, dr_expected_sha256 = ures_verified_sha256 res\<rparr> vec_write w =
    Some (w @ bs, Inr \<lparr>dres_bytes_downloaded = of_nat (length bs),
                      dres_verified_sha256 = Some (hash bs)\<rparr>)"
proof -
  from put_stored [OF assms(1,3,4)] obtain bs where
    bs: "read_loop rd [] = Inr bs" "stored s' (ures_storage_reference res) = Some bs"
      "ures_verified_sha256 res = Some (hash bs)" "ures_bytes_uploaded res = of_nat (length bs)" by blast
  have "inv s'" "up s'" using assms by (blast intro: put_inv put_up)+
  then have "inv (put_all s' qs) \<and> up (put_all s' qs)
      \<and> stored (put_all s' qs) (ures_storage_reference res) = Some bs"
    using bs(2) by (rule put_all_keeps)
  then show ?thesis using bs assms(5) by (intro exI [of _ bs]) (simp add: get_stored)
qed

end

subsection \<open>The mock provider keeps the contract\<close>

definition mock_stored :: "MockStorageProvider \<Rightarrow> StorageReference \<Rightarrow> bytes option" where
  "mock_stored s r =
     (case reference_key r of
        Inl _ \<Rightarrow> None
      | Inr key \<Rightarrow>
          (case objects s key of
             Some obj \<Rightarrow> (case mo_payload obj of InMemory data \<Rightarrow> Some data | _ \<Rightarrow> None)
           | None \<Rightarrow> None))"

definition mock_inv :: "(bytes \<Rightarrow> string) \<Rightarrow> MockStorageProvider \<Rightarrow> bool" where
  "mock_inv sha s \<longleftrightarrow>
     (\<forall>m \<ge> next_message_id s. objects s (show_int (target_chat_id s) @ '':'' @ show_int m) = None)
     \<and> (\<forall>key obj data. objects s key = Some obj \<and> mo_payload obj = InMemory data \<longrightarrow>
          mo_sha256_hex obj = sha data \<and> mo_size_bytes obj = of_nat (length data))"

definition mock_exact :: "UploadRequest \<Rightarrow> bool" where
  "mock_exact req \<longleftrightarrow> ur_expected_size_bytes req \<le> 4 * 1024 * 1024"

lemma mock_key_fresh:
  "\<lbrakk>mock_inv sha s; m \<ge> next_message_id s\<rbrakk>
     \<Longrightarrow> objects s (show_int (target_chat_id s) @ '':'' @ show_int m) = None"
  by (simp add: mock_inv_def)

lemma mock_inv_flags:
  "mock_inv sha (set_fail_uploads b s) = mock_inv sha s"
  "mock_inv sha (set_fail_downloads b s) = mock_inv sha s"
  "mock_inv sha (set_fail_verifications b s) = mock_inv sha s"
  by (simp_all add: mock_inv_def set_fail_uploads_def set_fail_downloads_def
      set_fail_verifications_def)

lemma mock_new_inv: "mock_inv sha MockStorageProvider_new"
  by (simp add: mock_inv_def MockStorageProvider_new_def)

text \<open>A successful upload is one new object under a fresh key; a failed one changes nothing.\<close>

definition upload_object :: "(bytes \<Rightarrow> string) \<Rightarrow> UploadRequest \<Rightarrow> bytes \<Rightarrow> MockStoredObject" where
  "upload_object sha req data =
     \<lparr>mo_payload = (if ur_expected_size_bytes req > 4 * 1024 * 1024
                    then VirtualLarge (case data of [] \<Rightarrow> 0 | b # _ \<Rightarrow> b) else InMemory data),
      mo_sha256_hex = sha data, mo_size_bytes = of_nat (length data),
      mo_created_at = ''2026-10-07T12:00:00Z''\<rparr>"

definition upload_key :: "MockStorageProvider \<Rightarrow> string" where
  "upload_key s = show_int (target_chat_id s) @ '':'' @ show_int (next_message_id s)"

lemma mock_upload_Inl: "mock_upload sha s req rd = (s', Inl e) \<Longrightarrow> s' = s"
  by (auto simp: mock_upload_def Let_def split: if_splits sum.splits option.splits)

lemma mock_upload_Inr:
  assumes "mock_upload sha s req rd = (s', Inr r)"
  shows "\<exists>data. read_loop rd [] = Inr data
    \<and> s' = s\<lparr>next_message_id := next_message_id s + 1,
             objects := (objects s)(upload_key s \<mapsto> upload_object sha req data)\<rparr>
    \<and> r = \<lparr>ures_storage_reference = Telegram (target_chat_id s) (next_message_id s)
                     (''tg_mock_file_'' @ show_int (next_message_id s)),
           ures_bytes_uploaded = of_nat (length data), ures_verified_sha256 = Some (sha data),
           ures_remote_status = StorageStatus.Verified\<rparr>"
proof -
  have nf: "\<not> fail_uploads s" using assms by (auto simp: mock_upload_def)
  obtain data where d: "read_loop rd [] = Inr data"
    using assms nf by (cases "read_loop rd []") (auto simp: mock_upload_def Let_def)
  show ?thesis
    using assms nf d
    by (simp add: mock_upload_def Let_def upload_object_def upload_key_def split: if_splits)
qed

lemma mock_upload_inv:
  assumes "mock_inv sha s" and up: "mock_upload sha s req rd = (s', out)"
  shows "mock_inv sha s'"
proof (cases out)
  case (Inl e)
  then show ?thesis using assms mock_upload_Inl by blast
next
  case (Inr r)
  then obtain data where s': "s' = s\<lparr>next_message_id := next_message_id s + 1,
      objects := (objects s)(upload_key s \<mapsto> upload_object sha req data)\<rparr>"
    using mock_upload_Inr [of sha s req rd s' r] up by blast
  have "objects s' (show_int (target_chat_id s') @ '':'' @ show_int m) = None"
    if "m \<ge> next_message_id s'" for m
  proof -
    have "show_int (target_chat_id s) @ '':'' @ show_int m \<noteq> upload_key s"
      using that by (auto simp: upload_key_def s' dest: show_int_inj)
    then show ?thesis using that mock_key_fresh [OF assms(1), of m] by (simp add: s')
  qed
  then show ?thesis
    using assms(1) by (auto simp: mock_inv_def s' upload_object_def split: if_splits)
qed

lemma mock_upload_keeps:
  assumes "mock_inv sha s" "mock_upload sha s req rd = (s', out)" "objects s key = Some obj"
  shows "objects s' key = Some obj"
proof (cases out)
  case (Inl e)
  then show ?thesis using assms mock_upload_Inl by blast
next
  case (Inr r)
  have "key \<noteq> upload_key s"
    using mock_key_fresh [OF assms(1), of "next_message_id s"] assms(3) by (auto simp: upload_key_def)
  then show ?thesis using mock_upload_Inr [of sha s req rd s' r] assms Inr by auto
qed

lemma mock_upload_stored:
  assumes "mock_exact req" "mock_upload sha s req rd = (s', Inr r)"
  shows "\<exists>bs. read_loop rd [] = Inr bs \<and> mock_stored s' (ures_storage_reference r) = Some bs
    \<and> ures_verified_sha256 r = Some (sha bs) \<and> ures_bytes_uploaded r = of_nat (length bs)"
  using mock_upload_Inr [OF assms(2)] assms(1)
  by (auto simp: mock_stored_def upload_key_def upload_object_def mock_exact_def)

lemma mock_stored_object:
  "mock_stored s r = Some bs \<longleftrightarrow>
     (\<exists>key obj. reference_key r = Inr key \<and> objects s key = Some obj
        \<and> mo_payload obj = InMemory bs)"
  by (auto simp: mock_stored_def split: sum.splits option.splits MockPayload.splits)

lemma concat_payload_blocks_InMemory:
  "mo_payload obj = InMemory bs \<Longrightarrow> concat (payload_blocks obj) = bs"
  by (simp add: payload_blocks_def STREAM_CHUNK_BUFFER_SIZE_def)

lemma mock_download_stored:
  assumes "\<not> fail_downloads s" "mock_stored s (dr_storage_reference d) = Some bs"
    "case dr_expected_sha256 d of None \<Rightarrow> True | Some h \<Rightarrow> eq_ignore_ascii_case (sha bs) h"
  shows "mock_download sha s d vec_write w =
    Some (w @ bs, Inr \<lparr>dres_bytes_downloaded = of_nat (length bs),
                      dres_verified_sha256 = Some (sha bs)\<rparr>)"
  using assms
  by (auto simp: mock_stored_object mock_download_def write_blocks_vec Let_def
      concat_payload_blocks_InMemory split: option.splits)

lemma mock_verify_stored:
  assumes "mock_inv sha s" "mock_stored s (vr_storage_reference v) = Some bs"
    "mock_verify s v = Inr True"
  shows "(vr_expected_size_bytes v > 0 \<longrightarrow> of_nat (length bs) = vr_expected_size_bytes v)
    \<and> (\<forall>h. vr_expected_sha256 v = Some h \<longrightarrow> eq_ignore_ascii_case (sha bs) h)"
proof -
  obtain key obj where k: "reference_key (vr_storage_reference v) = Inr key"
    "objects s key = Some obj" "mo_payload obj = InMemory bs"
    using assms(2) by (auto simp: mock_stored_object)
  then have "mo_sha256_hex obj = sha bs" "mo_size_bytes obj = of_nat (length bs)"
    using assms(1) by (auto simp: mock_inv_def)
  then show ?thesis
    using assms(3) k by (auto simp: mock_verify_def split: if_splits option.splits)
qed

lemma mock_upload_fail_downloads:
  "mock_upload sha s req rd = (s', out) \<Longrightarrow> fail_downloads s' = fail_downloads s"
  by (cases out) (auto dest: mock_upload_Inl mock_upload_Inr)

interpretation mock: storage_contract
  "mock_upload sha" "mock_download sha" mock_verify sha mock_stored mock_exact
  "\<lambda>s. \<not> fail_downloads s" "mock_inv sha"
  for sha :: "bytes \<Rightarrow> string"
proof
  fix s req rd s' out r bs
  assume "mock_inv sha s" "mock_upload sha s req rd = (s', out)" "mock_stored s r = Some bs"
  then show "mock_stored s' r = Some bs"
    using mock_upload_keeps by (fastforce simp: mock_stored_object)
qed (blast intro: mock_upload_inv mock_upload_stored
      | simp add: mock_upload_fail_downloads mock_download_stored
      | (rule mock_verify_stored, assumption+))+

definition mock_uploads ::
  "(bytes \<Rightarrow> string) \<Rightarrow> MockStorageProvider \<Rightarrow> (UploadRequest \<times> reader) list \<Rightarrow> MockStorageProvider" where
  "mock_uploads sha s qs = foldl (\<lambda>s (req, rd). fst (mock_upload sha s req rd)) s qs"

lemma mock_put_all: "mock.put_all sha s qs = mock_uploads sha s qs"
  by (induction qs arbitrary: s) (auto simp: mock_uploads_def)

subsection \<open>Properties\<close>

text \<open>What was uploaded can be read back: after a successful upload of a payload of at most
  4 MiB to the mock provider, and after any number of further uploads, successful or not, a
  download under the returned reference with the returned digest writes exactly the bytes the
  upload read.\<close>

theorem mock_upload_download_roundtrip:
  assumes "mock_inv sha s" "\<not> fail_downloads s" "ur_expected_size_bytes req \<le> 4 * 1024 * 1024"
    and "mock_upload sha s req rd = (s', Inr res)"
  shows "\<exists>bs. read_loop rd [] = Inr bs \<and>
    mock_download sha (mock_uploads sha s' qs)
      \<lparr>dr_file_id = f, dr_chunk_id = c, dr_storage_reference = ures_storage_reference res,
       dr_expected_size_bytes = n, dr_expected_sha256 = ures_verified_sha256 res\<rparr> vec_write w =
    Some (w @ bs, Inr \<lparr>dres_bytes_downloaded = of_nat (length bs),
                      dres_verified_sha256 = Some (sha bs)\<rparr>)"
proof -
  from mock.put_stored [OF assms(1) _ assms(4)] assms(3) obtain bs where
    bs: "read_loop rd [] = Inr bs" "mock_stored s' (ures_storage_reference res) = Some bs"
      "ures_verified_sha256 res = Some (sha bs)" by (auto simp: mock_exact_def)
  have "mock_inv sha s'" "\<not> fail_downloads s'"
    using assms(1,2,4) by (auto intro: mock.put_inv dest: mock.put_up)
  from mock.put_all_keeps [OF this bs(2)] bs show ?thesis
    unfolding mock_put_all by (intro exI [of _ bs]) (simp add: mock_download_stored)
qed

definition sample_upload :: UploadRequest where
  "sample_upload =
     \<lparr>ur_file_id = ''f'', ur_chunk_id = ''c'', ur_chunk_index = 0, ur_total_chunks = 1,
      ur_expected_size_bytes = 3, ur_expected_sha256 = None, ur_resumable = False\<rparr>"

theorem mock_upload_download_roundtrip_witness:
  "\<exists>s' res. mock_upload (\<lambda>_. ''ab'') MockStorageProvider_new sample_upload [RData [1, 2], RData [3]]
       = (s', Inr res)
   \<and> mock_download (\<lambda>_. ''ab'') (mock_uploads (\<lambda>_. ''ab'') s' [(sample_upload, [RData [9, 9, 9]])])
      \<lparr>dr_file_id = ''f'', dr_chunk_id = ''c'', dr_storage_reference = ures_storage_reference res,
       dr_expected_size_bytes = 3, dr_expected_sha256 = ures_verified_sha256 res\<rparr> vec_write []
     = Some ([1, 2, 3], Inr \<lparr>dres_bytes_downloaded = 3, dres_verified_sha256 = Some ''ab''\<rparr>)"
proof -
  let ?sha = "\<lambda>_ :: bytes. ''ab''"
  let ?rd = "[RData [1, 2], RData [3]] :: reader"
  obtain s' res where up: "mock_upload ?sha MockStorageProvider_new sample_upload ?rd = (s', Inr res)"
    by (simp add: mock_upload_def MockStorageProvider_new_def sample_upload_def Let_def)
  have "\<not> fail_downloads MockStorageProvider_new"
    "ur_expected_size_bytes sample_upload \<le> 4 * 1024 * 1024"
    by (simp_all add: MockStorageProvider_new_def sample_upload_def)
  from mock_upload_download_roundtrip [OF mock_new_inv this up, of "[(sample_upload, [RData [9, 9, 9]])]"
      "''f''" "''c''" 3 "[]"] up
  show ?thesis by auto
qed

text \<open>Every operation of the provider that the backup, transfer and repair engines call keeps
  its invariant: message numbers not yet given out address no object, and every object kept in
  memory carries the digest and the length of its bytes.\<close>

theorem mock_operations_keep_inv:
  assumes "mock_inv sha s"
  shows "mock_inv sha MockStorageProvider_new
    \<and> mock_inv sha (fst (mock_upload sha s req rd))
    \<and> mock_inv sha (fst (mock_delete s r))
    \<and> mock_inv sha (set_fail_uploads b s) \<and> mock_inv sha (set_fail_downloads b s)
    \<and> mock_inv sha (set_fail_verifications b s)"
proof (intro conjI)
  show "mock_inv sha (fst (mock_upload sha s req rd))"
    using mock_upload_inv [OF assms] by (metis prod.collapse)
  show "mock_inv sha (fst (mock_delete s r))"
    using assms by (auto simp: mock_delete_def mock_inv_def split: sum.splits)
qed (use assms in \<open>simp_all add: mock_new_inv mock_inv_flags\<close>)

theorem mock_operations_keep_inv_witness:
  "mock_inv (\<lambda>_. ''ab'')
     (fst (mock_upload (\<lambda>_. ''ab'') MockStorageProvider_new sample_upload [RData [1, 2, 3]]))"
  using mock_operations_keep_inv [OF mock_new_inv] by blast

text \<open>\<open>verify\<close> answers true exactly when the reference addresses a stored object, the size
  matches when one is expected, and the digest matches, ignoring the case of its letters, when
  one is expected; a pending reference is an error.\<close>

theorem mock_verify_true_iff:
  "mock_verify s v = Inr True \<longleftrightarrow>
     \<not> fail_verifications s
     \<and> (\<exists>key obj. reference_key (vr_storage_reference v) = Inr key \<and> objects s key = Some obj
          \<and> (vr_expected_size_bytes v = 0 \<or> mo_size_bytes obj = vr_expected_size_bytes v)
          \<and> (vr_expected_sha256 v = None
               \<or> eq_ignore_ascii_case (mo_sha256_hex obj) (the (vr_expected_sha256 v))))"
proof (cases "reference_key (vr_storage_reference v)")
  case (Inl e)
  then show ?thesis by (simp add: mock_verify_def)
next
  case (Inr key)
  then show ?thesis
    by (cases "objects s key"; cases "vr_expected_sha256 v")
      (auto simp: mock_verify_def simp flip: word_neq_0_conv)
qed

end
