(* ===== verification/Db_Error.thy ===== *)
theory Db_Error
  imports Storage_Model
begin

text \<open>
  The error type of televault-db (\<open>error.rs\<close>) with its messages, and the messages of the manifest errors it wraps.

  An error of rusqlite is seen by the code through two things: whether it is a constraint
  violation, and its text. These are the two arguments of \<open>SqliteError\<close>. An error of serde_json
  is its text.
\<close>

definition quoted :: "string \<Rightarrow> string" where
  "quoted s = [CHR 0x27] @ s @ [CHR 0x27]"

fun ManifestError_display :: "ManifestError \<Rightarrow> string" where
  "ManifestError_display (ManifestError.Validation field message) =
     ''Manifest validation error for '' @ quoted field @ '': '' @ message"
| "ManifestError_display (ManifestError.UnsupportedVersion v) = ''Unsupported manifest version: '' @ v"
| "ManifestError_display (ChunkOrdering position expected actual) =
     ''Chunk ordering error: chunk at index '' @ show_nat position @ '' has invalid index ''
       @ show_nat (unat actual) @ '' (expected '' @ show_nat (unat expected) @ '')''"
| "ManifestError_display (DuplicateChunkId i) = ''Duplicate chunk ID detected: '' @ i"
| "ManifestError_display (SizeMismatch logical_size chunks_sum) =
     ''File size mismatch: logical file size is '' @ show_nat (unat logical_size)
       @ '' bytes, but chunk plaintext sum is '' @ show_nat (unat chunks_sum) @ '' bytes''"
| "ManifestError_display (InvalidHash algorithm reason) =
     ''Invalid integrity hash for '' @ algorithm @ '': '' @ reason"
| "ManifestError_display (ManifestError.Serialization m) = ''Manifest serialization error: '' @ m"
| "ManifestError_display (Deserialization m) = ''Manifest deserialization error: '' @ m"

subsection \<open>televault-db\<close>

datatype sqlite_error = SqliteError (is_constraint: bool) (sqlite_text: string)

datatype DbError =
    Connection string
  | Migration string
  | Sql sqlite_error
  | Serialization string
  | Manifest ManifestError
  | Constraint string
  | NotFound string string
  | InvalidData string
  | Transaction string
  | LockPoisoned string

fun DbError_display :: "DbError \<Rightarrow> string" where
  "DbError_display (Connection m) = ''Database connection error: '' @ m"
| "DbError_display (Migration m) = ''Database migration error: '' @ m"
| "DbError_display (Sql e) = ''SQLite error: '' @ sqlite_text e"
| "DbError_display (DbError.Serialization m) = ''Database serialization error: '' @ m"
| "DbError_display (Manifest e) = ''Manifest error: '' @ ManifestError_display e"
| "DbError_display (Constraint m) = ''Database constraint violation: '' @ m"
| "DbError_display (DbError.NotFound entity i) =
     ''Database entity '' @ quoted entity @ '' not found: '' @ i"
| "DbError_display (InvalidData m) = ''Invalid database data: '' @ m"
| "DbError_display (Transaction m) = ''Transaction error: '' @ m"
| "DbError_display (LockPoisoned m) = ''Database lock poisoned: '' @ m"

fun DbError_to_AppError :: "DbError \<Rightarrow> AppError" where
  "DbError_to_AppError (DbError.NotFound entity i) = AppError.NotFound entity i"
| "DbError_to_AppError (Constraint m) = AppError.Conflict ''Database'' m"
| "DbError_to_AppError (InvalidData m) = AppError.Validation ''database_record'' m"
| "DbError_to_AppError (Sql e) =
     (if is_constraint e then AppError.Conflict ''Database'' (sqlite_text e)
      else AppError.Internal (DbError_display (Sql e)))"
| "DbError_to_AppError (Connection m) = AppError.Internal m"
| "DbError_to_AppError (Migration m) = AppError.Internal m"
| "DbError_to_AppError (DbError.Serialization m) = AppError.Internal m"
| "DbError_to_AppError (Manifest e) = ManifestError_to_AppError e"
| "DbError_to_AppError (Transaction m) = AppError.Internal m"
| "DbError_to_AppError (LockPoisoned m) = AppError.Internal m"

end
