(* ===== verification/Transfer_Job.thy ===== *)
theory Transfer_Job
  imports Db_Error
begin

text \<open>
  The crate televault-transfer, data and single-job operations: the error type and its
  retryability, the transfer state machine of \<open>state.rs\<close>, the retry limit, the job record of
  \<open>job.rs\<close> with its constructors, validation and database mapping, the cancelling streams of
  \<open>cancellation.rs\<close> and the throttled progress counters of \<open>progress.rs\<close>. The exponential
  backoff delay is floating point and only sleeps; it is not modelled.
\<close>

subsection \<open>error.rs\<close>

datatype TransferError =
    InvalidStateTransition string string
  | InvalidJob string
  | SourceUnavailable string
  | DestinationUnavailable string
  | Storage StorageError
  | Io io_error
  | VerificationFailed string
  | RetriesExhausted nat string
  | Cancelled
  | Database DbError
  | Concurrency string
  | Other string

fun storage_retryable :: "StorageError \<Rightarrow> bool" where
  "storage_retryable (UploadFailed _ retryable) = retryable"
| "storage_retryable (DownloadFailed _ retryable) = retryable"
| "storage_retryable (ProviderUnavailable _) = True"
| "storage_retryable _ = False"

fun is_retryable :: "TransferError \<Rightarrow> bool" where
  "is_retryable (TransferError.Storage e) = storage_retryable e"
| "is_retryable (TransferError.Io e) =
     (io_kind e \<in> {TimedOut, ConnectionReset, ConnectionAborted, Interrupted})"
| "is_retryable _ = False"

fun TransferError_display :: "TransferError \<Rightarrow> string" where
  "TransferError_display (InvalidStateTransition a b) =
     ''Invalid transfer state transition from '' @ [CHR 0x27] @ a @ [CHR 0x27] @ '' to ''
       @ [CHR 0x27] @ b @ [CHR 0x27]"
| "TransferError_display (InvalidJob m) = ''Invalid transfer job: '' @ m"
| "TransferError_display (SourceUnavailable m) = ''Transfer source unavailable: '' @ m"
| "TransferError_display (DestinationUnavailable m) = ''Transfer destination unavailable: '' @ m"
| "TransferError_display (TransferError.Storage e) =
     ''Storage provider error: '' @ StorageError_display e"
| "TransferError_display (TransferError.Io e) = ''I/O error during transfer: '' @ io_message e"
| "TransferError_display (TransferError.VerificationFailed m) = ''Verification failed: '' @ m"
| "TransferError_display (RetriesExhausted n m) =
     ''Transfer retries exhausted after '' @ show_nat n @ '' attempts. Last error: '' @ m"
| "TransferError_display TransferError.Cancelled = ''Transfer operation cancelled''"
| "TransferError_display (Database e) = ''Database error in transfer engine: '' @ DbError_display e"
| "TransferError_display (Concurrency m) = ''Transfer concurrency error: '' @ m"
| "TransferError_display (Other m) = ''Transfer error: '' @ m"

fun TransferError_to_AppError :: "TransferError \<Rightarrow> AppError" where
  "TransferError_to_AppError (InvalidStateTransition a b) = AppError.InvalidState a b"
| "TransferError_to_AppError (InvalidJob m) = AppError.Validation ''job'' m"
| "TransferError_to_AppError (SourceUnavailable m) = AppError.NotFound ''source'' m"
| "TransferError_to_AppError (DestinationUnavailable m) = AppError.NotFound ''destination'' m"
| "TransferError_to_AppError (TransferError.Storage e) = StorageError_to_AppError e"
| "TransferError_to_AppError (TransferError.Io e) = AppError.Io e"
| "TransferError_to_AppError (TransferError.VerificationFailed m) =
     AppError.Validation ''integrity'' (''Transfer verification failed: '' @ m)"
| "TransferError_to_AppError (RetriesExhausted n m) =
     AppError.Internal (''Transfer retries exhausted after '' @ show_nat n @ '' attempts: '' @ m)"
| "TransferError_to_AppError TransferError.Cancelled = AppError.Internal ''Transfer cancelled by user''"
| "TransferError_to_AppError (Database e) = DbError_to_AppError e"
| "TransferError_to_AppError (Concurrency m) = AppError.Internal m"
| "TransferError_to_AppError (Other m) = AppError.Internal m"

subsection \<open>state.rs\<close>

datatype TransferState =
  Pending | Preparing | Transferring | Verifying | Completed | Failed | Retrying | Cancelled

fun TransferState_display :: "TransferState \<Rightarrow> string" where
  "TransferState_display TransferState.Pending = ''pending''"
| "TransferState_display TransferState.Preparing = ''preparing''"
| "TransferState_display TransferState.Transferring = ''transferring''"
| "TransferState_display TransferState.Verifying = ''verifying''"
| "TransferState_display TransferState.Completed = ''completed''"
| "TransferState_display TransferState.Failed = ''failed''"
| "TransferState_display TransferState.Retrying = ''retrying''"
| "TransferState_display TransferState.Cancelled = ''cancelled''"

definition can_transition_to :: "TransferState \<Rightarrow> TransferState \<Rightarrow> bool" where
  "can_transition_to current target =
     (if current = target then True
      else case current of
        TransferState.Pending \<Rightarrow>
          target \<in> {TransferState.Preparing, TransferState.Cancelled, TransferState.Failed}
      | TransferState.Preparing \<Rightarrow>
          target \<in> {TransferState.Transferring, TransferState.Failed, TransferState.Cancelled}
      | TransferState.Transferring \<Rightarrow>
          target \<in> {TransferState.Verifying, TransferState.Completed, TransferState.Retrying,
                     TransferState.Failed, TransferState.Cancelled}
      | TransferState.Verifying \<Rightarrow>
          target \<in> {TransferState.Completed, TransferState.Retrying, TransferState.Failed,
                     TransferState.Cancelled}
      | TransferState.Retrying \<Rightarrow>
          target \<in> {TransferState.Preparing, TransferState.Transferring, TransferState.Failed,
                     TransferState.Cancelled}
      | TransferState.Completed \<Rightarrow> False
      | TransferState.Failed \<Rightarrow> False
      | TransferState.Cancelled \<Rightarrow> False)"

definition transition_to ::
  "TransferState \<Rightarrow> TransferState \<Rightarrow> (TransferError, TransferState) result" where
  "transition_to current next_state =
     (if \<not> can_transition_to current next_state then
        Err (InvalidStateTransition (TransferState_display current)
               (TransferState_display next_state))
      else Ok next_state)"

fun is_terminal :: "TransferState \<Rightarrow> bool" where
  "is_terminal TransferState.Completed = True"
| "is_terminal TransferState.Failed = True"
| "is_terminal TransferState.Cancelled = True"
| "is_terminal _ = False"

fun is_active :: "TransferState \<Rightarrow> bool" where
  "is_active TransferState.Preparing = True"
| "is_active TransferState.Transferring = True"
| "is_active TransferState.Verifying = True"
| "is_active TransferState.Retrying = True"
| "is_active _ = False"

fun to_transfer_status :: "TransferState \<Rightarrow> TransferStatus" where
  "to_transfer_status TransferState.Pending = TransferStatus.Pending"
| "to_transfer_status TransferState.Preparing = TransferStatus.Pending"
| "to_transfer_status TransferState.Transferring = TransferStatus.Transferring"
| "to_transfer_status TransferState.Verifying = TransferStatus.Transferring"
| "to_transfer_status TransferState.Retrying = TransferStatus.Paused"
| "to_transfer_status TransferState.Completed = TransferStatus.Completed"
| "to_transfer_status TransferState.Failed = TransferStatus.Failed"
| "to_transfer_status TransferState.Cancelled = TransferStatus.Cancelled"

subsection \<open>retry.rs\<close>

record RetryPolicy =
  max_retries :: nat
  initial_backoff_ms :: u64
  max_backoff_ms :: u64

definition can_retry :: "RetryPolicy \<Rightarrow> nat \<Rightarrow> bool" where
  "can_retry p attempts_so_far \<longleftrightarrow> attempts_so_far < max_retries p"

subsection \<open>job.rs\<close>

record TransferJob =
  job_id :: ident_str
  file_id :: ident_str
  chunk_id :: ident_str
  chunk_index :: u32
  total_chunks :: u32
  direction :: TransferDirection
  source_path :: "string option"
  destination_path :: "string option"
  storage_reference :: "StorageReference option"
  expected_size_bytes :: u64
  expected_sha256 :: "string option"
  state :: TransferState
  bytes_transferred :: u64
  retry_count :: nat
  job_max_retries :: nat
  error_message :: "string option"
  created_at :: string
  updated_at :: string

record UploadJobParams =
  up_job_id :: ident_str
  up_file_id :: ident_str
  up_chunk_id :: ident_str
  up_chunk_index :: u32
  up_total_chunks :: u32
  up_source_path :: "string option"
  up_expected_size_bytes :: u64
  up_expected_sha256 :: "string option"
  up_max_retries :: nat

record DownloadJobParams =
  dp_job_id :: ident_str
  dp_file_id :: ident_str
  dp_chunk_id :: ident_str
  dp_chunk_index :: u32
  dp_total_chunks :: u32
  dp_destination_path :: "string option"
  dp_storage_reference :: StorageReference
  dp_expected_size_bytes :: u64
  dp_expected_sha256 :: "string option"
  dp_max_retries :: nat

definition UploadJobParams_new ::
  "ident_str \<Rightarrow> ident_str \<Rightarrow> ident_str \<Rightarrow> u64 \<Rightarrow> UploadJobParams" where
  "UploadJobParams_new j f c n =
     \<lparr>up_job_id = j, up_file_id = f, up_chunk_id = c, up_chunk_index = 0, up_total_chunks = 1,
      up_source_path = None, up_expected_size_bytes = n, up_expected_sha256 = None,
      up_max_retries = 3\<rparr>"

definition DownloadJobParams_new ::
  "ident_str \<Rightarrow> ident_str \<Rightarrow> ident_str \<Rightarrow> StorageReference \<Rightarrow> u64 \<Rightarrow> DownloadJobParams" where
  "DownloadJobParams_new j f c r n =
     \<lparr>dp_job_id = j, dp_file_id = f, dp_chunk_id = c, dp_chunk_index = 0, dp_total_chunks = 1,
      dp_destination_path = None, dp_storage_reference = r, dp_expected_size_bytes = n,
      dp_expected_sha256 = None, dp_max_retries = 3\<rparr>"

definition TransferJob_validate :: "TransferJob \<Rightarrow> (TransferError, unit) result" where
  "TransferJob_validate j =
     (if total_chunks j = 0 then Err (InvalidJob ''total_chunks must be greater than zero'')
      else if chunk_index j \<ge> total_chunks j then
        Err (InvalidJob (''chunk_index '' @ show_nat (unat (chunk_index j))
          @ '' out of bounds for total_chunks '' @ show_nat (unat (total_chunks j))))
      else case direction j of
        TransferDirection.Download \<Rightarrow>
          if storage_reference j = None then
            Err (InvalidJob ''Download job requires a valid storage_reference'')
          else Ok ()
      | TransferDirection.Upload \<Rightarrow> Ok ())"

definition new_upload :: "UploadJobParams \<Rightarrow> (TransferError, TransferJob) result" where
  "new_upload p =
     (let job = \<lparr>job_id = up_job_id p, file_id = up_file_id p, chunk_id = up_chunk_id p,
        chunk_index = up_chunk_index p, total_chunks = up_total_chunks p,
        direction = TransferDirection.Upload, source_path = up_source_path p,
        destination_path = None, storage_reference = None,
        expected_size_bytes = up_expected_size_bytes p, expected_sha256 = up_expected_sha256 p,
        state = TransferState.Pending, bytes_transferred = 0, retry_count = 0,
        job_max_retries = up_max_retries p, error_message = None,
        created_at = ''2026-10-07T12:00:00Z'', updated_at = ''2026-10-07T12:00:00Z''\<rparr>
      in bind_res (TransferJob_validate job) (\<lambda>_. Ok job))"

definition new_download :: "DownloadJobParams \<Rightarrow> (TransferError, TransferJob) result" where
  "new_download p =
     (let job = \<lparr>job_id = dp_job_id p, file_id = dp_file_id p, chunk_id = dp_chunk_id p,
        chunk_index = dp_chunk_index p, total_chunks = dp_total_chunks p,
        direction = TransferDirection.Download, source_path = None,
        destination_path = dp_destination_path p,
        storage_reference = Some (dp_storage_reference p),
        expected_size_bytes = dp_expected_size_bytes p, expected_sha256 = dp_expected_sha256 p,
        state = TransferState.Pending, bytes_transferred = 0, retry_count = 0,
        job_max_retries = dp_max_retries p, error_message = None,
        created_at = ''2026-10-07T12:00:00Z'', updated_at = ''2026-10-07T12:00:00Z''\<rparr>
      in bind_res (TransferJob_validate job) (\<lambda>_. Ok job))"

definition transition ::
  "TransferJob \<Rightarrow> TransferState \<Rightarrow> (TransferError, TransferJob) result" where
  "transition j next_state =
     bind_res (transition_to (state j) next_state) (\<lambda>st.
       Ok (j\<lparr>state := st, updated_at := ''2026-10-07T12:00:00Z''\<rparr>))"

definition transition_ignored :: "TransferJob \<Rightarrow> TransferState \<Rightarrow> TransferJob" where
  \<comment> \<open>\<open>let _ = job.transition(next)\<close>\<close>
  "transition_ignored j next_state =
     (case transition j next_state of Inl _ \<Rightarrow> j | Inr j' \<Rightarrow> j')"

record TransferJobRecord =
  tjr_job_id :: ident_str
  tjr_file_id :: ident_str
  tjr_chunk_id :: "ident_str option"
  tjr_direction :: TransferDirection
  tjr_status :: TransferStatus
  tjr_progress :: u64
  tjr_retry_count :: nat
  tjr_error_message :: "string option"
  tjr_created_at :: string
  tjr_updated_at :: string

definition to_db_record :: "TransferJob \<Rightarrow> TransferJobRecord" where
  "to_db_record j =
     \<lparr>tjr_job_id = job_id j, tjr_file_id = file_id j, tjr_chunk_id = Some (chunk_id j),
      tjr_direction = direction j, tjr_status = to_transfer_status (state j),
      tjr_progress = bytes_transferred j, tjr_retry_count = retry_count j,
      tjr_error_message = error_message j, tjr_created_at = created_at j,
      tjr_updated_at = updated_at j\<rparr>"

record DbJobContext =
  ctx_chunk_index :: u32
  ctx_total_chunks :: u32
  ctx_expected_size_bytes :: u64
  ctx_expected_sha256 :: "string option"
  ctx_storage_reference :: "StorageReference option"
  ctx_source_path :: "string option"
  ctx_destination_path :: "string option"
  ctx_max_retries :: nat

fun state_of_status :: "TransferStatus \<Rightarrow> TransferState" where
  "state_of_status TransferStatus.Pending = TransferState.Pending"
| "state_of_status TransferStatus.Transferring = TransferState.Transferring"
| "state_of_status TransferStatus.Paused = TransferState.Retrying"
| "state_of_status TransferStatus.Completed = TransferState.Completed"
| "state_of_status TransferStatus.Failed = TransferState.Failed"
| "state_of_status TransferStatus.Cancelled = TransferState.Cancelled"

definition from_db_record ::
  "TransferJobRecord \<Rightarrow> DbJobContext \<Rightarrow> (TransferError, TransferJob) result" where
  "from_db_record r ctx =
     (let job = \<lparr>job_id = tjr_job_id r, file_id = tjr_file_id r,
        chunk_id = (case tjr_chunk_id r of Some c \<Rightarrow> c | None \<Rightarrow> ''chunk-0''),
        chunk_index = ctx_chunk_index ctx, total_chunks = ctx_total_chunks ctx,
        direction = tjr_direction r, source_path = ctx_source_path ctx,
        destination_path = ctx_destination_path ctx,
        storage_reference = ctx_storage_reference ctx,
        expected_size_bytes = ctx_expected_size_bytes ctx,
        expected_sha256 = ctx_expected_sha256 ctx, state = state_of_status (tjr_status r),
        bytes_transferred = tjr_progress r, retry_count = tjr_retry_count r,
        job_max_retries = ctx_max_retries ctx, error_message = tjr_error_message r,
        created_at = tjr_created_at r, updated_at = tjr_updated_at r\<rparr>
      in bind_res (TransferJob_validate job) (\<lambda>_. Ok job))"

subsection \<open>cancellation.rs\<close>

text \<open>The token is a shared flag that only goes from false to true, set by another thread at any
  moment. A stream wrapper reads it before every call, so what matters is the number of calls
  made before it was set: None, never.\<close>

definition cancelled_io :: io_error where
  "cancelled_io = IoError Interrupted ''Transfer cancelled''"

definition cancelling_reader :: "nat option \<Rightarrow> reader \<Rightarrow> reader" where
  "cancelling_reader cancel_at rd =
     (case cancel_at of
        None \<Rightarrow> rd
      | Some k \<Rightarrow> if k \<le> length rd then take k rd @ [RErr cancelled_io] else rd)"

record 'w cancelling =
  cw_inner :: 'w
  cw_calls :: nat

definition cancelling_write :: "nat option \<Rightarrow> 'w write_fn \<Rightarrow> 'w cancelling write_fn" where
  "cancelling_write cancel_at wr w buf =
     (let w' = w\<lparr>cw_calls := Suc (cw_calls w)\<rparr> in
      if (case cancel_at of Some k \<Rightarrow> k \<le> cw_calls w | None \<Rightarrow> False) then
        (w', Inl cancelled_io)
      else case wr (cw_inner w) buf of (i, r) \<Rightarrow> (w'\<lparr>cw_inner := i\<rparr>, r))"

subsection \<open>progress.rs\<close>

definition PROGRESS_THROTTLE_BYTE_DELTA :: nat where
  "PROGRESS_THROTTLE_BYTE_DELTA = 256 * 1024"

text \<open>The counters of \<open>ProgressReader\<close> and \<open>ProgressWriter\<close>; \<open>pg_emitted\<close> collects the byte counts
  the callback received, in order. Without a callback nothing is reported.\<close>

record progress =
  pg_callback :: bool
  pg_bytes :: nat
  pg_last :: nat
  pg_emitted :: "nat list"

definition progress_new :: "bool \<Rightarrow> progress" where
  "progress_new cb = \<lparr>pg_callback = cb, pg_bytes = 0, pg_last = 0, pg_emitted = []\<rparr>"

definition check_emit_progress :: "bool \<Rightarrow> progress \<Rightarrow> progress" where
  "check_emit_progress force p =
     (if pg_callback p then
        (if force \<or> pg_bytes p - pg_last p \<ge> PROGRESS_THROTTLE_BYTE_DELTA then
           p\<lparr>pg_last := pg_bytes p, pg_emitted := pg_emitted p @ [pg_bytes p]\<rparr>
         else p)
      else p)"

definition progress_read :: "nat \<Rightarrow> progress \<Rightarrow> progress" where
  \<comment> \<open>\<open>ProgressReader::read\<close> after the inner read returned \<open>n\<close> bytes\<close>
  "progress_read n p =
     (if n > 0 then check_emit_progress False (p\<lparr>pg_bytes := pg_bytes p + n\<rparr>)
      else check_emit_progress True p)"

definition progress_write :: "nat \<Rightarrow> progress \<Rightarrow> progress" where
  \<comment> \<open>\<open>ProgressWriter::write\<close> after the inner write accepted \<open>n\<close> bytes\<close>
  "progress_write n p =
     (if n > 0 then check_emit_progress False (p\<lparr>pg_bytes := pg_bytes p + n\<rparr>) else p)"

subsection \<open>Lemmas\<close>

lemma transition_to_Inr_iff:
  "transition_to a b = Inr c \<longleftrightarrow> c = b \<and> can_transition_to a b"
  by (auto simp: transition_to_def)

lemma transition_Inr_iff:
  "transition j st = Inr j' \<longleftrightarrow>
     can_transition_to (state j) st
     \<and> j' = j\<lparr>state := st, updated_at := ''2026-10-07T12:00:00Z''\<rparr>"
  by (auto simp: transition_def bind_res_Inr_iff transition_to_Inr_iff)

lemma transition_Inl_iff:
  "transition j st = Inl e \<longleftrightarrow>
     \<not> can_transition_to (state j) st
     \<and> e = InvalidStateTransition (TransferState_display (state j)) (TransferState_display st)"
  by (auto simp: transition_def transition_to_def)

lemma transition_ignored_fields [simp]:
  "retry_count (transition_ignored j st) = retry_count j"
  "job_id (transition_ignored j st) = job_id j"
  by (auto simp: transition_ignored_def transition_Inr_iff split: sum.splits)

lemma terminal_absorbing:
  "\<lbrakk>is_terminal a; can_transition_to a b\<rbrakk> \<Longrightarrow> b = a"
  by (cases a) (auto simp: can_transition_to_def split: if_splits)

lemma can_transition_simps [simp]:
  "can_transition_to a a"
  "can_transition_to TransferState.Pending TransferState.Preparing"
  "can_transition_to TransferState.Retrying TransferState.Preparing"
  "can_transition_to TransferState.Preparing TransferState.Transferring"
  "can_transition_to TransferState.Transferring TransferState.Verifying"
  "can_transition_to TransferState.Transferring TransferState.Retrying"
  "can_transition_to TransferState.Transferring TransferState.Completed"
  "can_transition_to TransferState.Transferring TransferState.Failed"
  "can_transition_to TransferState.Transferring TransferState.Cancelled"
  "can_transition_to TransferState.Verifying TransferState.Completed"
  "can_transition_to TransferState.Verifying TransferState.Failed"
  "can_transition_to TransferState.Verifying TransferState.Cancelled"
  "\<not> can_transition_to TransferState.Verifying TransferState.Preparing"
  by (simp_all add: can_transition_to_def)

lemma rtranclp_terminal:
  "\<lbrakk>can_transition_to\<^sup>*\<^sup>* a b; is_terminal a\<rbrakk> \<Longrightarrow> b = a"
  by (induction rule: rtranclp_induct) (auto dest: terminal_absorbing)

lemma without_transferring:
  "(\<lambda>a b. can_transition_to a b \<and> b \<noteq> TransferState.Transferring)\<^sup>*\<^sup>* TransferState.Pending b
     \<Longrightarrow> b \<in> {TransferState.Pending, TransferState.Preparing, TransferState.Failed,
               TransferState.Cancelled}"
  by (induction rule: rtranclp_induct) (auto simp: can_transition_to_def split: if_splits)

text \<open>A write to a cancelled sink is interrupted, and \<open>write_all\<close> tries again, for ever: if it
  returns at all, the buffer was empty or the token not yet set.\<close>

lemma write_all_cancelled_returns:
  assumes "write_all (cancelling_write (Some k) wr) w buf = Some r"
  shows "buf = [] \<or> cw_calls w < k"
proof -
  define cwr where "cwr = cancelling_write (Some k) wr"
  have step: "cwr w buf = (w\<lparr>cw_calls := Suc (cw_calls w)\<rparr>, Inl cancelled_io)"
    if "k \<le> cw_calls w" for w buf
    using that by (simp add: cwr_def cancelling_write_def)
  have "wr' = cwr \<longrightarrow> buf = [] \<or> cw_calls w < k"
    if "write_all wr' w buf = Some r" for wr'
  proof (rule write_all.raw_induct [where P = "\<lambda>wr' w buf r.
        wr' = cwr \<longrightarrow> buf = [] \<or> cw_calls w < k", OF _ that])
    fix f :: "'a cancelling write_fn \<Rightarrow> 'a cancelling \<Rightarrow> bytes
               \<Rightarrow> ('a cancelling \<times> (io_error, unit) result) option"
      and g w buf r
    assume IH: "\<And>g w buf r. f g w buf = Some r \<Longrightarrow> g = cwr \<longrightarrow> buf = [] \<or> cw_calls w < k"
      and eq: "(if buf = [] then Some (w, Inr ())
        else (case snd (g w buf) of
          Inl e \<Rightarrow> if io_kind e = Interrupted then f g (fst (g w buf)) buf
                    else Some (fst (g w buf), Inl e)
        | Inr n \<Rightarrow>
            if n = 0 then Some (fst (g w buf), Inl (IoError WriteZero ''failed to write whole buffer''))
            else f g (fst (g w buf)) (drop n buf))) = Some r"
    show "g = cwr \<longrightarrow> buf = [] \<or> cw_calls w < k"
    proof (intro impI disjCI)
      assume g: "g = cwr" and "\<not> cw_calls w < k"
      then have "f cwr (w\<lparr>cw_calls := Suc (cw_calls w)\<rparr>) buf = Some r \<or> buf = []"
        using eq by (auto simp: step cancelled_io_def split: if_splits)
      then show "buf = []" using IH \<open>\<not> cw_calls w < k\<close> by fastforce
    qed
  qed
  then show ?thesis using assms by (auto simp: cwr_def)
qed

lemma write_all_cancelled:
  "\<lbrakk>buf \<noteq> []; k \<le> cw_calls w\<rbrakk> \<Longrightarrow> write_all (cancelling_write (Some k) wr) w buf = None"
  using write_all_cancelled_returns [of k wr w buf]
  by (cases "write_all (cancelling_write (Some k) wr) w buf") auto

lemma write_blocks_cancelled:
  assumes "b \<noteq> []" "k \<le> cw_calls w"
  shows "write_blocks (cancelling_write (Some k) wr) w (b # bs) = None"
  using write_all_cancelled [OF assms] by simp

lemma chunks_of_Cons:
  "\<lbrakk>xs \<noteq> []; 0 < n\<rbrakk> \<Longrightarrow> \<exists>b bs. chunks_of n xs = b # bs \<and> b \<noteq> []"
  by (cases xs; cases n) (auto simp: chunks_of_def)

lemma payload_blocks_Cons:
  assumes "case mo_payload obj of InMemory d \<Rightarrow> d \<noteq> [] | VirtualLarge _ \<Rightarrow> 0 < mo_size_bytes obj"
  shows "\<exists>b bs. payload_blocks obj = b # bs \<and> b \<noteq> []"
proof -
  have pos: "0 < STREAM_CHUNK_BUFFER_SIZE" by (simp add: STREAM_CHUNK_BUFFER_SIZE_def)
  show ?thesis
    using assms chunks_of_Cons [OF _ pos]
    by (auto simp: payload_blocks_def word_less_nat_alt split: MockPayload.splits)
qed

lemma TransferJob_validate_state:
  "TransferJob_validate (j\<lparr>state := st\<rparr>) = TransferJob_validate j"
  by (auto simp: TransferJob_validate_def split: TransferDirection.splits)

lemma TransferJob_collapse:
  "\<lparr>job_id = job_id j, file_id = file_id j, chunk_id = chunk_id j,
    chunk_index = chunk_index j, total_chunks = total_chunks j, direction = direction j,
    source_path = source_path j, destination_path = destination_path j,
    storage_reference = storage_reference j, expected_size_bytes = expected_size_bytes j,
    expected_sha256 = expected_sha256 j, state = st, bytes_transferred = bytes_transferred j,
    retry_count = retry_count j, job_max_retries = job_max_retries j,
    error_message = error_message j, created_at = created_at j, updated_at = updated_at j\<rparr>
   = j\<lparr>state := st\<rparr>"
  by (cases j) simp

text \<open>Progress: what has been reported, and how often.\<close>

definition progress_ok :: "progress \<Rightarrow> bool" where
  "progress_ok p \<longleftrightarrow> pg_last p \<le> pg_bytes p
     \<and> length (pg_emitted p) * PROGRESS_THROTTLE_BYTE_DELTA \<le> pg_last p
     \<and> sorted (pg_emitted p) \<and> (\<forall>n \<in> set (pg_emitted p). n \<le> pg_last p)"

lemma progress_ok_new: "progress_ok (progress_new cb)"
  by (simp add: progress_ok_def progress_new_def)

lemma progress_read_ok:
  "\<lbrakk>progress_ok p; 0 < n\<rbrakk> \<Longrightarrow> progress_ok (progress_read n p)"
  by (auto simp: progress_ok_def progress_read_def check_emit_progress_def sorted_append)

lemma progress_reads:
  "\<lbrakk>progress_ok p; \<forall>n \<in> set ns. 0 < n\<rbrakk> \<Longrightarrow>
     progress_ok (fold progress_read ns p)
     \<and> pg_bytes (fold progress_read ns p) = pg_bytes p + sum_list ns
     \<and> pg_callback (fold progress_read ns p) = pg_callback p"
proof (induction ns arbitrary: p)
  case Nil
  then show ?case by simp
next
  case (Cons n ns)
  have "pg_bytes (progress_read n p) = pg_bytes p + n"
    "pg_callback (progress_read n p) = pg_callback p"
    using Cons.prems by (auto simp: progress_read_def check_emit_progress_def)
  then show ?case
    using Cons.IH [of "progress_read n p"] Cons.prems by (simp add: progress_read_ok)
qed

subsection \<open>Properties\<close>

text \<open>C33. The transfer state machine: a terminal state is never left, every other state can be
  failed or cancelled, and from the initial state neither completion nor verification nor a
  retry can be reached without passing through the transferring state.\<close>

theorem transfer_state_machine:
  "(can_transition_to\<^sup>*\<^sup>* a b \<and> is_terminal a \<longrightarrow> b = a)
   \<and> (\<not> is_terminal a \<longrightarrow>
        can_transition_to a TransferState.Failed \<and> can_transition_to a TransferState.Cancelled)
   \<and> ((\<lambda>a b. can_transition_to a b \<and> b \<noteq> TransferState.Transferring)\<^sup>*\<^sup>* TransferState.Pending b
        \<longrightarrow> b \<notin> {TransferState.Completed, TransferState.Verifying, TransferState.Retrying})"
proof (intro conjI impI)
  assume "\<not> is_terminal a"
  then show "can_transition_to a TransferState.Failed" "can_transition_to a TransferState.Cancelled"
    by (cases a; simp add: can_transition_to_def)+
qed (auto dest: without_transferring rtranclp_terminal)

theorem transfer_state_machine_witness:
  "can_transition_to\<^sup>*\<^sup>* TransferState.Completed TransferState.Completed
   \<and> can_transition_to TransferState.Retrying TransferState.Cancelled"
  using transfer_state_machine [of TransferState.Retrying TransferState.Retrying]
    transfer_state_machine [of TransferState.Completed TransferState.Completed]
  by simp

text \<open>C34. A cancelled download never ends. The cancelling writer answers a write after
  cancellation with an error of kind \<open>Interrupted\<close>; the standard \<open>write_all\<close>, with which the
  provider writes its blocks, repeats interrupted writes; so a download of a non-empty object
  into a cancelled sink does not return, whatever the sink underneath.\<close>

theorem cancelled_download_never_returns:
  assumes "\<not> fail_downloads s"
    and "reference_key (dr_storage_reference d) = Inr key" and "objects s key = Some obj"
    and "case mo_payload obj of InMemory b \<Rightarrow> b \<noteq> [] | VirtualLarge _ \<Rightarrow> 0 < mo_size_bytes obj"
    and "k \<le> cw_calls w"
  shows "mock_download sha s d (cancelling_write (Some k) wr) w = None"
proof -
  obtain b bs where "payload_blocks obj = b # bs" "b \<noteq> []"
    using payload_blocks_Cons [OF assms(4)] by blast
  then have "write_blocks (cancelling_write (Some k) wr) w (payload_blocks obj) = None"
    using write_blocks_cancelled assms(5) by metis
  then show ?thesis using assms(1-3) by (simp add: mock_download_def)
qed

theorem cancelled_download_never_returns_witness:
  "mock_download (\<lambda>_. ''ab'')
     (MockStorageProvider_new\<lparr>objects := [''local:x'' \<mapsto>
        \<lparr>mo_payload = InMemory [1, 2], mo_sha256_hex = ''ab'', mo_size_bytes = 2,
         mo_created_at = ''t''\<rparr>]\<rparr>)
     \<lparr>dr_file_id = ''f'', dr_chunk_id = ''c'', dr_storage_reference = LocalStaging ''x'',
      dr_expected_size_bytes = 2, dr_expected_sha256 = None\<rparr>
     (cancelling_write (Some 0) vec_write) \<lparr>cw_inner = [], cw_calls = 0\<rparr> = None"
  by (rule cancelled_download_never_returns [where key = "''local:x''" and obj =
        "\<lparr>mo_payload = InMemory [1, 2], mo_sha256_hex = ''ab'', mo_size_bytes = 2,
          mo_created_at = ''t''\<rparr>"])
    (simp_all add: MockStorageProvider_new_def)

text \<open>Writing a job to the catalog and rebuilding it from the record and its context gives
  the job back with its state coarsened (preparing becomes pending, verifying becomes
  transferring); a terminal state is kept.\<close>

theorem job_db_roundtrip:
  assumes "TransferJob_validate j = Inr ()"
  shows "from_db_record (to_db_record j)
      \<lparr>ctx_chunk_index = chunk_index j, ctx_total_chunks = total_chunks j,
       ctx_expected_size_bytes = expected_size_bytes j, ctx_expected_sha256 = expected_sha256 j,
       ctx_storage_reference = storage_reference j, ctx_source_path = source_path j,
       ctx_destination_path = destination_path j, ctx_max_retries = job_max_retries j\<rparr>
    = Inr (j\<lparr>state := state_of_status (to_transfer_status (state j))\<rparr>)
    \<and> (is_terminal (state j) \<longleftrightarrow> is_terminal (state_of_status (to_transfer_status (state j))))
    \<and> (is_terminal (state j) \<longrightarrow> state_of_status (to_transfer_status (state j)) = state j)"
proof -
  have "TransferJob_validate (j\<lparr>state := st\<rparr>) = Inr ()" for st
    using assms by (simp add: TransferJob_validate_state)
  then show ?thesis
    by (cases "state j")
      (simp_all add: from_db_record_def to_db_record_def Let_def TransferJob_collapse)
qed

definition sample_job :: TransferJob where
  "sample_job =
     \<lparr>job_id = ''j1'', file_id = ''f1'', chunk_id = ''c1'', chunk_index = 0, total_chunks = 1,
      direction = TransferDirection.Upload, source_path = None, destination_path = None,
      storage_reference = None, expected_size_bytes = 3, expected_sha256 = None,
      state = TransferState.Pending, bytes_transferred = 0, retry_count = 0, job_max_retries = 3,
      error_message = None, created_at = ''t'', updated_at = ''t''\<rparr>"

theorem job_db_roundtrip_witness:
  "from_db_record (to_db_record sample_job)
      \<lparr>ctx_chunk_index = 0, ctx_total_chunks = 1, ctx_expected_size_bytes = 3,
       ctx_expected_sha256 = None, ctx_storage_reference = None, ctx_source_path = None,
       ctx_destination_path = None, ctx_max_retries = 3\<rparr> = Inr sample_job"
  using job_db_roundtrip [of sample_job]
  by (simp add: sample_job_def TransferJob_validate_def)

text \<open>Progress reporting is throttled and complete: after reads of positive sizes the counter
  is their sum, the reported byte counts are increasing and there are at most as many of them
  as the total holds multiples of 256 KiB; the end of the stream reports the exact total.\<close>

theorem progress_throttled:
  assumes "\<forall>n \<in> set ns. 0 < n"
  shows "let p = fold progress_read ns (progress_new True) in
    pg_bytes p = sum_list ns \<and> sorted (pg_emitted p)
    \<and> length (pg_emitted p) \<le> sum_list ns div PROGRESS_THROTTLE_BYTE_DELTA
    \<and> pg_emitted (progress_read 0 p) = pg_emitted p @ [sum_list ns]"
proof -
  define p where "p = fold progress_read ns (progress_new True)"
  have p: "progress_ok p" "pg_bytes p = sum_list ns" "pg_callback p"
    using progress_reads [OF progress_ok_new assms, of True] by (simp_all add: p_def progress_new_def)
  then have "length (pg_emitted p) * PROGRESS_THROTTLE_BYTE_DELTA \<le> sum_list ns"
    by (auto simp: progress_ok_def)
  moreover have "0 < PROGRESS_THROTTLE_BYTE_DELTA" by (simp add: PROGRESS_THROTTLE_BYTE_DELTA_def)
  ultimately have "length (pg_emitted p) \<le> sum_list ns div PROGRESS_THROTTLE_BYTE_DELTA"
    by (simp add: less_eq_div_iff_mult_less_eq)
  with p show ?thesis
    by (simp add: p_def [symmetric] progress_ok_def progress_read_def check_emit_progress_def)
qed

theorem progress_throttled_witness:
  "length (pg_emitted (fold progress_read [200000, 200000, 200000] (progress_new True))) \<le> 2"
  using progress_throttled [of "[200000, 200000, 200000]"]
  by (simp add: Let_def PROGRESS_THROTTLE_BYTE_DELTA_def del: fold.simps)

end
