(* ===== verification/Transfer_Queue.thy ===== *)
theory Transfer_Queue
  imports Transfer_Job
begin

text \<open>
  \<open>queue.rs\<close>: the shared transfer queue. Its mutex makes every method one atomic step, so the
  queue is a state record and one function per method; interleavings of threads are the
  sequences of steps of \<open>queue_step\<close>. The cancellation tokens are shared flags, one per
  submitted job: \<open>tokens\<close> maps a job to its flag. A poisoned mutex (a panic inside a method) is
  not modelled.

  The locale \<open>cancellable_fifo\<close> is the interface the workers rely on: a first-in first-out
  order of the jobs that are waiting and not cancelled. It is interpreted on the model.
\<close>

subsection \<open>State and operations\<close>

record QueueInner =
  pending :: "ident_str list"
  jobs :: "ident_str \<rightharpoonup> TransferJob"
  active :: "ident_str set"
  tokens :: "ident_str \<rightharpoonup> bool"
  max_concurrency :: nat

definition TransferQueue_new :: "nat \<Rightarrow> QueueInner" where
  "TransferQueue_new max_conc =
     \<lparr>pending = [], jobs = Map.empty, active = {}, tokens = Map.empty,
      max_concurrency = max max_conc 1\<rparr>"

definition submit :: "TransferJob \<Rightarrow> QueueInner \<Rightarrow> QueueInner \<times> (TransferError, unit) result" where
  "submit job q =
     (if jobs q (job_id job) \<noteq> None then
        (q, Err (InvalidJob (''Job '' @ [CHR 0x27] @ job_id job @ [CHR 0x27]
                 @ '' is already registered in queue'')))
      else
        (q\<lparr>pending := pending q @ [job_id job],
           tokens := (tokens q)(job_id job \<mapsto> False),
           jobs := (jobs q)(job_id job \<mapsto> job)\<rparr>, Ok ()))"

definition token_cancel :: "ident_str \<Rightarrow> QueueInner \<Rightarrow> QueueInner" where
  \<comment> \<open>\<open>CancellationToken::cancel\<close> on a clone of the job's token, held outside the queue\<close>
  "token_cancel j q =
     (case tokens q j of Some _ \<Rightarrow> q\<lparr>tokens := (tokens q)(j \<mapsto> True)\<rparr> | None \<Rightarrow> q)"

definition cancel :: "ident_str \<Rightarrow> QueueInner \<Rightarrow> QueueInner" where
  "cancel j q =
     (let q1 = token_cancel j q;
          q2 = (case jobs q1 j of
                  Some job \<Rightarrow>
                    q1\<lparr>jobs := (jobs q1)(j \<mapsto> transition_ignored job TransferState.Cancelled)\<rparr>
                | None \<Rightarrow> q1)
      in q2\<lparr>pending := filter (\<lambda>i. i \<noteq> j) (pending q2)\<rparr>)"

definition get_job :: "QueueInner \<Rightarrow> ident_str \<Rightarrow> TransferJob option" where
  "get_job q j = jobs q j"

definition pending_count :: "QueueInner \<Rightarrow> nat" where
  "pending_count q = length (pending q)"

definition active_count :: "QueueInner \<Rightarrow> nat" where
  "active_count q = card (active q)"

text \<open>The loop that pops pending identifiers until one is not cancelled and has a job: the rest
  of the deque, and the job found.\<close>

fun acquire_loop ::
  "QueueInner \<Rightarrow> ident_str list \<Rightarrow> ident_str list \<times> (ident_str \<times> TransferJob) option" where
  "acquire_loop q [] = ([], None)"
| "acquire_loop q (j # js) =
     (case tokens q j of
        None \<Rightarrow> acquire_loop q js
      | Some cancelled \<Rightarrow>
          if cancelled then acquire_loop q js
          else case jobs q j of
            None \<Rightarrow> acquire_loop q js
          | Some job \<Rightarrow> (js, Some (j, job)))"

definition acquire_next_job :: "QueueInner \<Rightarrow> QueueInner \<times> TransferJob option" where
  "acquire_next_job q =
     (if card (active q) \<ge> max_concurrency q then (q, None)
      else case acquire_loop q (pending q) of
        (rest, Some (j, job)) \<Rightarrow>
          (q\<lparr>pending := rest, active := insert j (active q)\<rparr>, Some job)
      | (rest, None) \<Rightarrow> (q\<lparr>pending := rest\<rparr>, None))"

definition finish_job :: "TransferJob \<Rightarrow> QueueInner \<Rightarrow> QueueInner" where
  "finish_job job q =
     q\<lparr>active := active q - {job_id job}, jobs := (jobs q)(job_id job \<mapsto> job)\<rparr>"

definition requeue_job :: "TransferJob \<Rightarrow> QueueInner \<Rightarrow> QueueInner" where
  "requeue_job job q =
     q\<lparr>active := active q - {job_id job}, jobs := (jobs q)(job_id job \<mapsto> job),
       pending := pending q @ [job_id job]\<rparr>"

subsection \<open>Interleavings\<close>

inductive queue_step :: "QueueInner \<Rightarrow> QueueInner \<Rightarrow> bool" where
  step_submit: "queue_step q (fst (submit job q))"
| step_token: "queue_step q (token_cancel j q)"
| step_cancel: "queue_step q (cancel j q)"
| step_acquire: "queue_step q (fst (acquire_next_job q))"
| step_finish: "queue_step q (finish_job job q)"
| step_requeue: "queue_step q (requeue_job job q)"

inductive queue_reachable :: "nat \<Rightarrow> QueueInner \<Rightarrow> bool" for n where
  start: "queue_reachable n (TransferQueue_new n)"
| step: "\<lbrakk>queue_reachable n q; queue_step q q'\<rbrakk> \<Longrightarrow> queue_reachable n q'"

subsection \<open>The invariant\<close>

definition queue_inv :: "QueueInner \<Rightarrow> bool" where
  "queue_inv q \<longleftrightarrow>
     finite (active q) \<and> card (active q) \<le> max_concurrency q \<and> 1 \<le> max_concurrency q
     \<and> set (pending q) \<subseteq> dom (jobs q) \<and> active q \<subseteq> dom (jobs q)
     \<and> dom (tokens q) \<subseteq> dom (jobs q)
     \<and> (\<forall>j job. jobs q j = Some job \<longrightarrow> job_id job = j)"

lemmas queue_defs =
  submit_def token_cancel_def cancel_def acquire_next_job_def finish_job_def requeue_job_def

lemma acquire_loop_Some:
  "acquire_loop q js = (rest, Some (j, job)) \<Longrightarrow>
     tokens q j = Some False \<and> jobs q j = Some job \<and> j \<in> set js \<and> set rest \<subseteq> set js"
  by (induction js) (auto split: option.splits if_splits)

lemma acquire_loop_None: "acquire_loop q js = (rest, None) \<Longrightarrow> rest = []"
  by (induction js) (auto split: option.splits if_splits)

lemma new_inv: "queue_inv (TransferQueue_new n)"
  by (simp add: queue_inv_def TransferQueue_new_def)

lemma submit_inv: "queue_inv q \<Longrightarrow> queue_inv (fst (submit job q))"
  by (auto simp: queue_inv_def submit_def)

lemma token_cancel_inv: "queue_inv q \<Longrightarrow> queue_inv (token_cancel j q)"
  by (auto simp: queue_inv_def token_cancel_def split: option.splits)

lemma cancel_inv: "queue_inv q \<Longrightarrow> queue_inv (cancel j q)"
proof -
  assume "queue_inv q"
  then have "queue_inv (token_cancel j q)" by (rule token_cancel_inv)
  then show ?thesis
    by (auto simp: queue_inv_def cancel_def Let_def split: option.splits)
qed

lemma acquire_inv: "queue_inv q \<Longrightarrow> queue_inv (fst (acquire_next_job q))"
proof (cases "card (active q) \<ge> max_concurrency q")
  case True
  assume "queue_inv q"
  with True show ?thesis by (simp add: acquire_next_job_def)
next
  case False
  assume inv: "queue_inv q"
  obtain rest found where l: "acquire_loop q (pending q) = (rest, found)"
    by (cases "acquire_loop q (pending q)")
  show ?thesis
  proof (cases found)
    case None
    then show ?thesis
      using inv l False acquire_loop_None [of q "pending q" rest]
      by (auto simp: acquire_next_job_def queue_inv_def)
  next
    case (Some p)
    obtain j job where p: "p = (j, job)" by (cases p)
    have "card (insert j (active q)) \<le> max_concurrency q"
      using False inv by (metis Suc_leI card_insert_le_m1 diff_Suc_1 le_trans not_le queue_inv_def
          card.insert insert_absorb)
    then show ?thesis
      using inv l False Some p acquire_loop_Some [of q "pending q" rest j job]
      by (auto simp: acquire_next_job_def queue_inv_def)
  qed
qed

lemma finish_inv: "queue_inv q \<Longrightarrow> queue_inv (finish_job job q)"
  by (auto simp: queue_inv_def finish_job_def intro: le_trans [OF card_Diff1_le])

lemma requeue_inv: "queue_inv q \<Longrightarrow> queue_inv (requeue_job job q)"
  by (auto simp: queue_inv_def requeue_job_def intro: le_trans [OF card_Diff1_le])

lemmas queue_ops_inv =
  submit_inv token_cancel_inv cancel_inv acquire_inv finish_inv requeue_inv

lemma queue_step_inv: "\<lbrakk>queue_step q q'; queue_inv q\<rbrakk> \<Longrightarrow> queue_inv q'"
  by (induction rule: queue_step.induct) (auto intro: queue_ops_inv)

lemma queue_reachable_inv: "queue_reachable n q \<Longrightarrow> queue_inv q"
  by (induction rule: queue_reachable.induct) (auto intro: new_inv queue_step_inv)

lemma queue_step_max: "queue_step q q' \<Longrightarrow> max_concurrency q' = max_concurrency q"
  by (induction rule: queue_step.induct)
    (auto simp: queue_defs Let_def split: option.splits if_splits prod.splits)

lemma queue_reachable_max: "queue_reachable n q \<Longrightarrow> max_concurrency q = max n 1"
  by (induction rule: queue_reachable.induct) (auto simp: TransferQueue_new_def queue_step_max)

subsection \<open>Cancellation is final\<close>

lemma queue_step_cancelled:
  "\<lbrakk>queue_step q q'; queue_inv q; tokens q j = Some True\<rbrakk> \<Longrightarrow> tokens q' j = Some True"
proof (induction rule: queue_step.induct)
  case (step_submit q job)
  then have "jobs q j \<noteq> None" by (auto simp: queue_inv_def)
  with step_submit show ?case by (auto simp: submit_def)
qed (auto simp: queue_defs Let_def split: option.splits if_splits prod.splits)

lemma queue_steps_cancelled:
  "\<lbrakk>queue_step\<^sup>*\<^sup>* q q'; queue_inv q; tokens q j = Some True\<rbrakk>
     \<Longrightarrow> queue_inv q' \<and> tokens q' j = Some True"
  by (induction rule: rtranclp_induct) (auto intro: queue_step_inv queue_step_cancelled)

lemma acquire_job_token:
  assumes "queue_inv q" "acquire_next_job q = (q', Some job)"
  shows "tokens q (job_id job) = Some False"
proof -
  obtain j rest where "acquire_loop q (pending q) = (rest, Some (j, job))"
    using assms(2) by (auto simp: acquire_next_job_def split: if_splits prod.splits option.splits)
  then have "tokens q j = Some False" "jobs q j = Some job"
    using acquire_loop_Some by blast+
  moreover have "job_id job = j" using assms(1) calculation(2) by (auto simp: queue_inv_def)
  ultimately show ?thesis by simp
qed

subsection \<open>The queue as a cancellable first-in first-out order\<close>

locale cancellable_fifo =
  fixes waiting :: "'s \<Rightarrow> 'i list"
    and slots :: "'s \<Rightarrow> nat"
    and known :: "'s \<Rightarrow> 'i set"
    and ident :: "'j \<Rightarrow> 'i"
    and enq :: "'j \<Rightarrow> 's \<Rightarrow> 's"
    and deq :: "'s \<Rightarrow> 's \<times> 'j option"
    and drop_id :: "'i \<Rightarrow> 's \<Rightarrow> 's"
    and inv :: "'s \<Rightarrow> bool"
  assumes enq_waiting: "\<lbrakk>inv s; ident j \<notin> known s\<rbrakk> \<Longrightarrow> waiting (enq j s) = waiting s @ [ident j]"
    and enq_known: "inv s \<Longrightarrow> known (enq j s) = insert (ident j) (known s)"
    and enq_slots: "slots (enq j s) = slots s"
    and deq_first: "\<lbrakk>inv s; 0 < slots s; waiting s = i # is\<rbrakk>
          \<Longrightarrow> \<exists>s' j. deq s = (s', Some j) \<and> ident j = i \<and> waiting s' = is \<and> slots s \<le> Suc (slots s')"
    and deq_none: "\<lbrakk>inv s; slots s = 0 \<or> waiting s = []\<rbrakk> \<Longrightarrow> snd (deq s) = None"
    and drop_waiting: "inv s \<Longrightarrow> waiting (drop_id i s) = filter (\<lambda>k. k \<noteq> i) (waiting s)"
    and inv_enq: "inv s \<Longrightarrow> inv (enq j s)"
    and inv_deq: "inv s \<Longrightarrow> inv (fst (deq s))"
    and inv_drop: "inv s \<Longrightarrow> inv (drop_id i s)"
begin

fun deq_n :: "nat \<Rightarrow> 's \<Rightarrow> 's \<times> 'j list" where
  "deq_n 0 s = (s, [])"
| "deq_n (Suc n) s =
     (case deq s of
        (s', None) \<Rightarrow> (s', [])
      | (s', Some j) \<Rightarrow> (case deq_n n s' of (s'', js) \<Rightarrow> (s'', j # js)))"

lemma deq_n_in_order:
  "\<lbrakk>inv s; n \<le> slots s; n \<le> length (waiting s)\<rbrakk> \<Longrightarrow>
     map ident (snd (deq_n n s)) = take n (waiting s)"
proof (induction n arbitrary: s)
  case 0
  then show ?case by simp
next
  case (Suc n)
  then obtain i "is" where w: "waiting s = i # is" by (cases "waiting s") auto
  then obtain s' j where d: "deq s = (s', Some j)" "ident j = i" "waiting s' = is"
    "slots s \<le> Suc (slots s')"
    using deq_first [OF Suc.prems(1) _ w] Suc.prems(2) by auto
  have "inv s'" using inv_deq [OF Suc.prems(1)] d by simp
  then have "map ident (snd (deq_n n s')) = take n is"
    using Suc.IH [of s'] Suc.prems d w by simp
  then show ?case using d w by (cases "deq_n n s'") simp
qed

lemma enq_all_waiting:
  "\<lbrakk>inv s; distinct (map ident js); set (map ident js) \<inter> known s = {}\<rbrakk> \<Longrightarrow>
     waiting (fold enq js s) = waiting s @ map ident js \<and> inv (fold enq js s)
     \<and> slots (fold enq js s) = slots s"
proof (induction js arbitrary: s)
  case Nil
  then show ?case by simp
next
  case (Cons j js)
  then show ?case
    using Cons.IH [of "enq j s"] by (auto simp: enq_waiting enq_known enq_slots inv_enq)
qed

lemma fifo_order:
  assumes "inv s" "waiting s = []" "distinct (map ident js)" "set (map ident js) \<inter> known s = {}"
    and "n \<le> slots s" "n \<le> length js"
  shows "map ident (snd (deq_n n (fold enq js s))) = take n (map ident js)"
  using deq_n_in_order [of "fold enq js s" n] enq_all_waiting [OF assms(1,3,4)] assms by simp

end

definition live :: "QueueInner \<Rightarrow> ident_str \<Rightarrow> bool" where
  "live q j \<longleftrightarrow> tokens q j = Some False \<and> jobs q j \<noteq> None"

definition waiting_jobs :: "QueueInner \<Rightarrow> ident_str list" where
  "waiting_jobs q = filter (live q) (pending q)"

definition free_slots :: "QueueInner \<Rightarrow> nat" where
  "free_slots q = max_concurrency q - card (active q)"

lemma acquire_loop_live:
  "acquire_loop q js =
     (case dropWhile (\<lambda>j. \<not> live q j) js of
        [] \<Rightarrow> ([], None)
      | j # rest \<Rightarrow> (rest, Some (j, the (jobs q j))))"
proof (induction js)
  case Nil
  show ?case by simp
next
  case (Cons j js)
  show ?case
    by (cases "tokens q j"; cases "jobs q j") (use Cons in \<open>auto simp: live_def\<close>)
qed

lemma filter_dropWhile_not: "filter P (dropWhile (\<lambda>x. \<not> P x) xs) = filter P xs"
  by (induction xs) auto

lemma dropWhile_not_Nil: "filter P xs = [] \<Longrightarrow> dropWhile (\<lambda>x. \<not> P x) xs = []"
  by (simp add: dropWhile_eq_Nil_conv filter_empty_conv)

lemma live_frame [simp]: "live (q\<lparr>pending := p, active := a\<rparr>) = live q"
  by (simp add: fun_eq_iff live_def)

lemma acquire_first:
  assumes "queue_inv q" "0 < free_slots q" "waiting_jobs q = i # is"
  shows "\<exists>q' job. acquire_next_job q = (q', Some job) \<and> job_id job = i
           \<and> waiting_jobs q' = is \<and> free_slots q \<le> Suc (free_slots q')"
proof -
  let ?d = "dropWhile (\<lambda>j. \<not> live q j) (pending q)"
  have f: "filter (live q) ?d = i # is"
    using assms(3) by (simp add: waiting_jobs_def filter_dropWhile_not)
  moreover from f have ne: "?d \<noteq> []" by (metis filter.simps(1) list.distinct(1))
  moreover from ne have "live q (hd ?d)" using hd_dropWhile [of "\<lambda>j. \<not> live q j"] by blast
  ultimately obtain rest where d: "?d = i # rest" "filter (live q) rest = is" "live q i"
    by (cases ?d) auto
  then obtain job where job: "jobs q i = Some job" by (auto simp: live_def)
  have "card (insert i (active q)) \<le> Suc (card (active q))"
    by (simp add: card_insert_le_m1 card_insert_if assms)
  moreover have "job_id job = i" using assms(1) job by (auto simp: queue_inv_def)
  moreover have "\<not> max_concurrency q \<le> card (active q)" using assms(2) by (auto simp: free_slots_def)
  ultimately show ?thesis
    using d(1,2) job
    by (auto simp: acquire_next_job_def acquire_loop_live waiting_jobs_def free_slots_def)
qed

lemma acquire_none:
  assumes "free_slots q = 0 \<or> waiting_jobs q = []"
  shows "snd (acquire_next_job q) = None"
proof (cases "max_concurrency q \<le> card (active q)")
  case True
  then show ?thesis by (simp add: acquire_next_job_def)
next
  case False
  then have "filter (live q) (pending q) = []"
    using assms by (auto simp: free_slots_def waiting_jobs_def)
  then have "acquire_loop q (pending q) = ([], None)"
    unfolding acquire_loop_live by (simp only: dropWhile_not_Nil list.case)
  then show ?thesis by (simp add: acquire_next_job_def)
qed

lemma submit_waiting:
  assumes "queue_inv q" "job_id job \<notin> dom (jobs q)"
  shows "waiting_jobs (fst (submit job q)) = waiting_jobs q @ [job_id job]"
proof -
  have "live (fst (submit job q)) j = live q j" if "j \<in> set (pending q)" for j
    using that assms by (auto simp: queue_inv_def submit_def live_def)
  then have "filter (live (fst (submit job q))) (pending q) = filter (live q) (pending q)"
    by (intro filter_cong) auto
  moreover have "live (fst (submit job q)) (job_id job)"
    and "pending (fst (submit job q)) = pending q @ [job_id job]"
    using assms by (auto simp: submit_def live_def)
  ultimately show ?thesis by (simp add: waiting_jobs_def)
qed

lemma submit_frame:
  "free_slots (fst (submit job q)) = free_slots q"
  "dom (jobs (fst (submit job q))) = insert (job_id job) (dom (jobs q))"
  by (auto simp: submit_def free_slots_def)

lemma cancel_waiting:
  "waiting_jobs (cancel j q) = filter (\<lambda>k. k \<noteq> j) (waiting_jobs q)"
proof -
  have p: "pending (cancel j q) = filter (\<lambda>k. k \<noteq> j) (pending q)"
    by (auto simp: cancel_def token_cancel_def Let_def split: option.splits)
  have "live (cancel j q) k = live q k" if "k \<noteq> j" for k
    using that by (auto simp: cancel_def token_cancel_def Let_def live_def split: option.splits)
  then show ?thesis
    unfolding waiting_jobs_def p filter_filter by (intro filter_cong) auto
qed

interpretation fifo: cancellable_fifo waiting_jobs free_slots "\<lambda>q. dom (jobs q)" job_id
  "\<lambda>job q. fst (submit job q)" acquire_next_job cancel queue_inv
  by unfold_locales
    (simp_all add: submit_waiting cancel_waiting acquire_none submit_frame acquire_first
      queue_ops_inv)

fun acquire_n :: "nat \<Rightarrow> QueueInner \<Rightarrow> QueueInner \<times> TransferJob list" where
  "acquire_n 0 q = (q, [])"
| "acquire_n (Suc n) q =
     (case acquire_next_job q of
        (q', None) \<Rightarrow> (q', [])
      | (q', Some j) \<Rightarrow> (case acquire_n n q' of (q'', js) \<Rightarrow> (q'', j # js)))"

lemma fifo_deq_n: "fifo.deq_n n q = acquire_n n q"
  by (induction n arbitrary: q) (simp_all split: prod.splits option.splits)

subsection \<open>Properties\<close>

text \<open>C31. In every state the queue can reach, by any interleaving of submissions, cancellations,
  acquisitions, completions and re-queues, at most the configured number of jobs (one when
  zero was configured) is active, and every pending or active identifier names a tracked job
  recorded under its own identifier.\<close>

theorem queue_concurrency_bounded:
  assumes "queue_reachable n q"
  shows "active_count q \<le> max n 1 \<and> set (pending q) \<subseteq> dom (jobs q) \<and> active q \<subseteq> dom (jobs q)
    \<and> (\<forall>j job. get_job q j = Some job \<longrightarrow> job_id job = j)"
  using queue_reachable_inv [OF assms] queue_reachable_max [OF assms]
  by (auto simp: queue_inv_def active_count_def get_job_def)

theorem queue_concurrency_bounded_witness:
  "active_count (fst (acquire_next_job (fst (submit sample_job (TransferQueue_new 0))))) \<le> 1"
proof -
  have "queue_reachable 0 (fst (acquire_next_job (fst (submit sample_job (TransferQueue_new 0)))))"
    by (blast intro: queue_reachable.intros queue_step.intros)
  then show ?thesis using queue_concurrency_bounded by force
qed

text \<open>C32. Cancellation is final: once a submitted job has been cancelled, no later acquisition
  returns it, whatever the threads do in between, a re-queue of the same job included.\<close>

theorem cancelled_job_never_acquired:
  assumes "queue_reachable n q" "tokens q j \<noteq> None"
    and "queue_step\<^sup>*\<^sup>* (cancel j q) q'" "acquire_next_job q' = (q'', Some job)"
  shows "job_id job \<noteq> j"
proof -
  have inv: "queue_inv (cancel j q)"
    using assms(1) by (intro cancel_inv queue_reachable_inv)
  have "tokens (cancel j q) j = Some True"
    using assms(2) by (auto simp: cancel_def token_cancel_def Let_def split: option.splits)
  then have "queue_inv q'" "tokens q' j = Some True"
    using queue_steps_cancelled [OF assms(3) inv] by auto
  then show ?thesis using acquire_job_token [OF _ assms(4)] by auto
qed

theorem cancelled_job_never_acquired_witness:
  "let q = fst (submit (sample_job\<lparr>job_id := ''j2''\<rparr>) (fst (submit sample_job (TransferQueue_new 2))));
       q' = requeue_job sample_job (cancel ''j1'' q)
   in \<exists>q'' job. acquire_next_job q' = (q'', Some job) \<and> job_id job \<noteq> ''j1''"
proof -
  define q where
    "q = fst (submit (sample_job\<lparr>job_id := ''j2''\<rparr>) (fst (submit sample_job (TransferQueue_new 2))))"
  have r: "queue_reachable 2 q"
    unfolding q_def by (blast intro: queue_reachable.intros queue_step.intros)
  have t: "tokens q ''j1'' \<noteq> None"
    by (simp add: q_def submit_def sample_job_def TransferQueue_new_def)
  have s: "queue_step\<^sup>*\<^sup>* (cancel ''j1'' q) (requeue_job sample_job (cancel ''j1'' q))"
    by (blast intro: queue_step.intros)
  obtain q'' job where "acquire_next_job (requeue_job sample_job (cancel ''j1'' q)) = (q'', Some job)"
    by (simp add: q_def submit_def sample_job_def TransferQueue_new_def cancel_def token_cancel_def
        requeue_job_def acquire_next_job_def transition_ignored_def transition_def Let_def)
  with cancelled_job_never_acquired [OF r t s this] show ?thesis
    unfolding q_def Let_def by blast
qed

text \<open>Jobs leave the queue in the order in which they were submitted: after submitting jobs
  with distinct identifiers to a new queue, the first m acquisitions, for m up to the
  concurrency limit, return the first m jobs in order.\<close>

theorem queue_is_fifo:
  assumes "distinct (map job_id js)" "m \<le> max n 1" "m \<le> length js"
  shows "map job_id (snd (acquire_n m (fold (\<lambda>job q. fst (submit job q)) js (TransferQueue_new n))))
    = take m (map job_id js)"
  unfolding fifo_deq_n [symmetric]
  by (rule fifo.fifo_order [OF new_inv])
    (use assms in \<open>simp_all add: waiting_jobs_def TransferQueue_new_def free_slots_def\<close>)

theorem queue_is_fifo_witness:
  "map job_id (snd (acquire_n 2 (fold (\<lambda>job q. fst (submit job q))
      [sample_job, sample_job\<lparr>job_id := ''j0''\<rparr>, sample_job\<lparr>job_id := ''j2''\<rparr>] (TransferQueue_new 2))))
    = [''j1'', ''j0'']"
  using queue_is_fifo [of "[sample_job, sample_job\<lparr>job_id := ''j0''\<rparr>, sample_job\<lparr>job_id := ''j2''\<rparr>]" 2 2]
  by (simp add: sample_job_def del: fold.simps)

text \<open>The queue does not starve: in every reachable state an acquisition returns a job exactly
  when a slot is free and some pending job is not cancelled, and then it is the first such job.\<close>

theorem acquire_succeeds_iff:
  assumes "queue_reachable n q"
  shows "(snd (acquire_next_job q) \<noteq> None \<longleftrightarrow>
            active_count q < max_concurrency q \<and> (\<exists>j \<in> set (pending q). tokens q j = Some False))
    \<and> (\<forall>q' job. acquire_next_job q = (q', Some job) \<longrightarrow>
         job_id job = hd (filter (\<lambda>j. tokens q j = Some False) (pending q))
         \<and> active q' = insert (job_id job) (active q))"
proof -
  have inv: "queue_inv q" using assms by (rule queue_reachable_inv)
  have w: "waiting_jobs q = filter (\<lambda>j. tokens q j = Some False) (pending q)"
    using inv by (auto simp: waiting_jobs_def live_def queue_inv_def intro!: filter_cong)
  have act: "acquire_next_job q = (q', Some job) \<Longrightarrow> active q' = insert (job_id job) (active q)"
    for q' job
    using inv acquire_loop_Some
    by (fastforce simp: acquire_next_job_def queue_inv_def split: if_splits prod.splits option.splits)
  show ?thesis
  proof (cases "0 < free_slots q \<and> waiting_jobs q \<noteq> []")
    case True
    then obtain i ids where c: "waiting_jobs q = i # ids" by (cases "waiting_jobs q") auto
    have "\<exists>q' job. acquire_next_job q = (q', Some job) \<and> job_id job = i"
      using acquire_first [OF inv _ c] True by auto
    then obtain q' job where a: "acquire_next_job q = (q', Some job)" "job_id job = i"
      by auto
    have f: "filter (\<lambda>j. tokens q j = Some False) (pending q) = i # ids"
      using w c by metis
    have "i \<in> set (filter (\<lambda>j. tokens q j = Some False) (pending q))" unfolding f by simp
    then have "\<exists>j \<in> set (pending q). tokens q j = Some False" by auto
    moreover have "active_count q < max_concurrency q"
      using True by (simp add: free_slots_def active_count_def)
    ultimately show ?thesis using act [OF a(1)] a f by auto
  next
    case False
    then have "snd (acquire_next_job q) = None" by (intro acquire_none) auto
    then show ?thesis
      using False w by (auto simp: free_slots_def active_count_def filter_empty_conv)
  qed
qed

theorem acquire_succeeds_iff_witness:
  "snd (acquire_next_job (fst (submit sample_job (TransferQueue_new 1)))) \<noteq> None"
proof -
  have "queue_reachable 1 (fst (submit sample_job (TransferQueue_new 1)))"
    by (blast intro: queue_reachable.intros queue_step.intros)
  moreover have "active_count (fst (submit sample_job (TransferQueue_new 1)))
      < max_concurrency (fst (submit sample_job (TransferQueue_new 1)))"
    "\<exists>j \<in> set (pending (fst (submit sample_job (TransferQueue_new 1)))).
       tokens (fst (submit sample_job (TransferQueue_new 1))) j = Some False"
    by (simp_all add: submit_def sample_job_def TransferQueue_new_def active_count_def)
  ultimately show ?thesis using acquire_succeeds_iff by blast
qed

end
