(* ===== verification/Transfer_Engine.thy ===== *)
theory Transfer_Engine
  imports Transfer_Queue
begin

text \<open>
  \<open>worker.rs\<close> and \<open>engine.rs\<close>: the upload and download workers, the engine that runs them and
  records the job in the queue, and the retry loop for staged uploads with the life cycle of
  the staging file (\<open>TempPayloadFile\<close> of televault-storage).

  The provider is a state and its trait methods as functions. What another thread does to the
  cancellation token is given by the record \<open>cancel_obs\<close>: whether the token is seen set at the
  start, after how many stream calls it is set, and whether it is seen set after the stream.
  The file system is the set of existing paths; \<open>remove_ok\<close> tells whether removing the staging
  file succeeds.
\<close>

subsection \<open>worker.rs\<close>

record TransferProgress =
  tp_job_id :: ident_str
  tp_file_id :: ident_str
  tp_chunk_id :: ident_str
  tp_chunk_index :: u32
  tp_total_chunks :: u32
  tp_direction :: TransferDirection
  tp_bytes_transferred :: u64
  tp_total_bytes :: u64
  tp_state :: TransferState

record cancel_obs =
  at_start :: bool
  at_call :: "nat option"
  after_stream :: bool

definition never_cancelled :: cancel_obs where
  "never_cancelled = \<lparr>at_start = False, at_call = None, after_stream = False\<rparr>"

type_synonym 's put_fn = "'s \<Rightarrow> UploadRequest \<Rightarrow> reader \<Rightarrow> 's \<times> (StorageError, UploadResult) result"
type_synonym 's check_fn = "'s \<Rightarrow> VerificationRequest \<Rightarrow> (StorageError, bool) result"

record ('s, 'r) worker_out =
  wo_provider :: 's
  wo_job :: TransferJob
  wo_event :: "TransferProgress option"
  wo_result :: "(TransferError, 'r) result"

definition ret :: "'s \<Rightarrow> TransferJob \<Rightarrow> (TransferError, 'r) result \<Rightarrow> ('s, 'r) worker_out" where
  "ret s j r = \<lparr>wo_provider = s, wo_job = j, wo_event = None, wo_result = r\<rparr>"

definition final_event :: "TransferJob \<Rightarrow> u64 \<Rightarrow> TransferProgress" where
  "final_event j n =
     \<lparr>tp_job_id = job_id j, tp_file_id = file_id j, tp_chunk_id = chunk_id j,
      tp_chunk_index = chunk_index j, tp_total_chunks = total_chunks j,
      tp_direction = direction j, tp_bytes_transferred = n,
      tp_total_bytes = expected_size_bytes j, tp_state = TransferState.Completed\<rparr>"

definition upload_request :: "TransferJob \<Rightarrow> UploadRequest" where
  "upload_request j =
     \<lparr>ur_file_id = file_id j, ur_chunk_id = chunk_id j, ur_chunk_index = chunk_index j,
      ur_total_chunks = total_chunks j, ur_expected_size_bytes = expected_size_bytes j,
      ur_expected_sha256 = expected_sha256 j, ur_resumable = False\<rparr>"

definition upload_verification :: "TransferJob \<Rightarrow> UploadResult \<Rightarrow> VerificationRequest" where
  "upload_verification j res =
     \<lparr>vr_storage_reference = ures_storage_reference res,
      vr_expected_size_bytes = expected_size_bytes j,
      vr_expected_sha256 =
        (case ures_verified_sha256 res of Some h \<Rightarrow> Some h | None \<Rightarrow> expected_sha256 j)\<rparr>"

text \<open>The handling of a failed provider call, shared by both workers: cancelled, or retryable with
  attempts left, or failed for good.\<close>

definition stream_failure ::
  "RetryPolicy \<Rightarrow> cancel_obs \<Rightarrow> 's \<Rightarrow> TransferJob \<Rightarrow> StorageError \<Rightarrow> ('s, 'r) worker_out" where
  "stream_failure pol obs s job storage_err =
     (if after_stream obs then
        ret s (transition_ignored job TransferState.Cancelled) (Err TransferError.Cancelled)
      else
        let transfer_err = TransferError.Storage storage_err in
        if is_retryable transfer_err \<and> can_retry pol (retry_count job) then
          (case transition job TransferState.Retrying of
             Inl e \<Rightarrow> ret s job (Err e)
           | Inr job' \<Rightarrow>
               ret s (job'\<lparr>retry_count := Suc (retry_count job'),
                           error_message := Some (TransferError_display transfer_err)\<rparr>)
                 (Err transfer_err))
        else
          (case transition job TransferState.Failed of
             Inl e \<Rightarrow> ret s job (Err e)
           | Inr job' \<Rightarrow>
               ret s (job'\<lparr>error_message := Some (TransferError_display transfer_err)\<rparr>)
                 (Err transfer_err)))"

definition execute_upload ::
  "RetryPolicy \<Rightarrow> 's put_fn \<Rightarrow> 's check_fn \<Rightarrow> bool \<Rightarrow> cancel_obs \<Rightarrow> reader \<Rightarrow> 's \<Rightarrow> TransferJob
     \<Rightarrow> ('s, StorageReference) worker_out" where
  "execute_upload pol put check has_callback obs rd s job =
     (if at_start obs then
        ret s (transition_ignored job TransferState.Cancelled) (Err TransferError.Cancelled)
      else case transition job TransferState.Preparing of
        Inl e \<Rightarrow> ret s job (Err e)
      | Inr job1 \<Rightarrow>
          (case transition job1 TransferState.Transferring of
             Inl e \<Rightarrow> ret s job1 (Err e)
           | Inr job2 \<Rightarrow>
               (case put s (upload_request job1) (cancelling_reader (at_call obs) rd) of
                  (s1, Inl storage_err) \<Rightarrow> stream_failure pol obs s1 job2 storage_err
                | (s1, Inr upload_res) \<Rightarrow>
                    if after_stream obs then
                      ret s1 (transition_ignored job2 TransferState.Cancelled)
                        (Err TransferError.Cancelled)
                    else case transition job2 TransferState.Verifying of
                      Inl e \<Rightarrow> ret s1 job2 (Err e)
                    | Inr job3 \<Rightarrow>
                        (case check s1 (upload_verification job3 upload_res) of
                           Inl e \<Rightarrow> ret s1 job3 (Err (TransferError.Storage e))
                         | Inr verified \<Rightarrow>
                             if \<not> verified then
                               (case transition job3 TransferState.Failed of
                                  Inl e \<Rightarrow> ret s1 job3 (Err e)
                                | Inr job4 \<Rightarrow>
                                    ret s1 (job4\<lparr>error_message :=
                                        Some ''Remote verification check returned false''\<rparr>)
                                      (Err (TransferError.VerificationFailed
                                        ''Remote verification check returned false'')))
                             else
                               (case transition job3 TransferState.Completed of
                                  Inl e \<Rightarrow> ret s1 job3 (Err e)
                                | Inr job4 \<Rightarrow>
                                    let job5 = job4\<lparr>
                                      storage_reference := Some (ures_storage_reference upload_res),
                                      bytes_transferred := ures_bytes_uploaded upload_res\<rparr> in
                                    \<lparr>wo_provider = s1, wo_job = job5,
                                     wo_event = (if has_callback then
                                       Some (final_event job5 (ures_bytes_uploaded upload_res))
                                       else None),
                                     wo_result = Ok (ures_storage_reference upload_res)\<rparr>)))))"

type_synonym ('s, 'w) get_fn =
  "'s \<Rightarrow> DownloadRequest \<Rightarrow> 'w write_fn \<Rightarrow> 'w \<Rightarrow> ('w \<times> (StorageError, DownloadResult) result) option"

text \<open>A download also returns the sink; the result is None when the provider's writes never
  return.\<close>

definition execute_download ::
  "RetryPolicy \<Rightarrow> ('s, 'w cancelling) get_fn \<Rightarrow> bool \<Rightarrow> cancel_obs \<Rightarrow> 'w write_fn \<Rightarrow> 'w \<Rightarrow> 's
     \<Rightarrow> TransferJob \<Rightarrow> ('w \<times> ('s, u64) worker_out) option" where
  "execute_download pol get has_callback obs wr w s job =
     (if at_start obs then
        Some (w, ret s (transition_ignored job TransferState.Cancelled) (Err TransferError.Cancelled))
      else case storage_reference job of
        None \<Rightarrow> Some (w, ret s job (Err (InvalidJob ''Download job missing storage_reference'')))
      | Some storage_ref \<Rightarrow>
          (case transition job TransferState.Preparing of
             Inl e \<Rightarrow> Some (w, ret s job (Err e))
           | Inr job1 \<Rightarrow>
               (case transition job1 TransferState.Transferring of
                  Inl e \<Rightarrow> Some (w, ret s job1 (Err e))
                | Inr job2 \<Rightarrow>
                    (case get s \<lparr>dr_file_id = file_id job1, dr_chunk_id = chunk_id job1,
                                dr_storage_reference = storage_ref,
                                dr_expected_size_bytes = expected_size_bytes job1,
                                dr_expected_sha256 = expected_sha256 job1\<rparr>
                            (cancelling_write (at_call obs) wr) \<lparr>cw_inner = w, cw_calls = 0\<rparr> of
                       None \<Rightarrow> None
                     | Some (w', Inl storage_err) \<Rightarrow>
                         Some (cw_inner w', stream_failure pol obs s job2 storage_err)
                     | Some (w', Inr dl_res) \<Rightarrow>
                         if after_stream obs then
                           Some (cw_inner w', ret s job2 (Err TransferError.Cancelled))
                         else (case transition job2 TransferState.Completed of
                           Inl e \<Rightarrow> Some (cw_inner w', ret s job2 (Err e))
                         | Inr job3 \<Rightarrow>
                             let job4 = job3\<lparr>bytes_transferred := dres_bytes_downloaded dl_res\<rparr> in
                             Some (cw_inner w',
                               \<lparr>wo_provider = s, wo_job = job4,
                                wo_event = (if has_callback then
                                  Some (final_event job4 (dres_bytes_downloaded dl_res)) else None),
                                wo_result = Ok (dres_bytes_downloaded dl_res)\<rparr>))))))"

subsection \<open>temp.rs\<close>

record TempPayloadFile =
  tf_path :: string
  tf_active :: bool

definition TempPayloadFile_new :: "string \<Rightarrow> TempPayloadFile" where
  "TempPayloadFile_new p = \<lparr>tf_path = p, tf_active = True\<rparr>"

definition TempPayloadFile_drop :: "bool \<Rightarrow> TempPayloadFile \<Rightarrow> string set \<Rightarrow> string set" where
  "TempPayloadFile_drop remove_ok f fs =
     (if tf_active f \<and> tf_path f \<in> fs then (if remove_ok then fs - {tf_path f} else fs) else fs)"

text \<open>\<open>cleanup\<close> takes the file by value: it deactivates it, removes the file, and drops it.\<close>

definition TempPayloadFile_cleanup ::
  "bool \<Rightarrow> string \<Rightarrow> TempPayloadFile \<Rightarrow> string set \<Rightarrow> string set \<times> (StorageError, unit) result" where
  "TempPayloadFile_cleanup remove_ok io_text f fs =
     (let f' = f\<lparr>tf_active := False\<rparr>;
          (fs', r) = (if tf_path f \<in> fs then
             (if remove_ok then (fs - {tf_path f}, Ok ())
              else (fs, Err (TempStorage (''Failed to remove staging file '' @ [CHR 0x27]
                      @ tf_path f @ [CHR 0x27] @ '': '' @ io_text))))
           else (fs, Ok ()))
      in (TempPayloadFile_drop remove_ok f' fs', r))"

subsection \<open>engine.rs\<close>

record 's engine =
  en_provider :: 's
  en_queue :: QueueInner

definition upload_stream ::
  "RetryPolicy \<Rightarrow> 's put_fn \<Rightarrow> 's check_fn \<Rightarrow> bool \<Rightarrow> cancel_obs \<Rightarrow> reader \<Rightarrow> 's engine
     \<Rightarrow> TransferJob \<Rightarrow> 's engine \<times> TransferJob \<times> (TransferError, StorageReference) result" where
  "upload_stream pol put check cb obs rd en job =
     (let out = execute_upload pol put check cb obs rd (en_provider en) job in
      (en\<lparr>en_provider := wo_provider out, en_queue := finish_job (wo_job out) (en_queue en)\<rparr>,
       wo_job out, wo_result out))"

text \<open>What attempt number n of a staged upload meets: the token at the head of the loop, the
  result of opening the staging file, and the token during the attempt.\<close>

record attempt_env =
  ae_head :: bool
  ae_open :: "(io_error, reader) result"
  ae_obs :: cancel_obs

text \<open>Retries still possible before the loop must end; a job left in the verifying state cannot
  be prepared again, so one more attempt ends the loop.\<close>

definition retry_potential :: "RetryPolicy \<Rightarrow> TransferJob \<Rightarrow> nat" where
  "retry_potential pol j =
     (if state j = TransferState.Verifying then 0 else max_retries pol - retry_count j)"

lemma stream_failure_retry:
  assumes "wo_result (stream_failure pol obs s job e) = Inl err" "is_retryable err"
    and "can_retry pol (retry_count (wo_job (stream_failure pol obs s job e)))"
  shows "retry_count (wo_job (stream_failure pol obs s job e)) = Suc (retry_count job)
    \<and> state (wo_job (stream_failure pol obs s job e)) = TransferState.Retrying
    \<and> retry_count job < max_retries pol"
  using assms
  by (auto simp: stream_failure_def ret_def Let_def can_retry_def transition_Inl_iff
      transition_Inr_iff split: if_splits sum.splits)

lemma execute_upload_potential:
  assumes "wo_result (execute_upload pol put check cb obs rd s job) = Inl err" "is_retryable err"
    and "can_retry pol (retry_count (wo_job (execute_upload pol put check cb obs rd s job)))"
  shows "retry_potential pol (wo_job (execute_upload pol put check cb obs rd s job))
    < retry_potential pol job"
proof -
  have not_start: "\<not> at_start obs"
    using assms by (auto simp: execute_upload_def ret_def)
  have prep: "can_transition_to (state job) TransferState.Preparing"
    using assms not_start
    by (auto simp: execute_upload_def ret_def transition_def transition_to_def split: if_splits)
  then have nv: "state job \<noteq> TransferState.Verifying" by auto
  define job2 where "job2 = job\<lparr>state := TransferState.Transferring,
    updated_at := ''2026-10-07T12:00:00Z''\<rparr>"
  obtain s1 r where p: "put s (upload_request (job\<lparr>state := TransferState.Preparing,
      updated_at := ''2026-10-07T12:00:00Z''\<rparr>)) (cancelling_reader (at_call obs) rd) = (s1, r)"
    by fastforce
  show ?thesis
  proof (cases r)
    case (Inl e)
    then have "execute_upload pol put check cb obs rd s job = stream_failure pol obs s1 job2 e"
      using not_start prep p
      by (simp add: execute_upload_def transition_def transition_to_def job2_def)
    note eq = this
    let ?o = "execute_upload pol put check cb obs rd s job"
    have "retry_count (wo_job ?o) = Suc (retry_count job2)
      \<and> state (wo_job ?o) = TransferState.Retrying \<and> retry_count job2 < max_retries pol"
      using assms unfolding eq by (rule stream_failure_retry)
    moreover have "retry_count job2 = retry_count job" by (simp add: job2_def)
    ultimately show ?thesis
      using nv unfolding retry_potential_def by auto
  next
    case (Inr ures)
    then show ?thesis
      using assms not_start prep p nv
      by (auto simp: execute_upload_def transition_def transition_to_def ret_def retry_potential_def
          can_retry_def Let_def split: if_splits sum.splits)
  qed
qed

text \<open>The loop of \<open>execute_staged_upload\<close>: \<open>env\<close> gives what attempt number \<open>n\<close> meets. The result
  adds the number of attempts made. The staging file is removed by \<open>cleanup\<close> after a success, by
  \<open>drop\<close> on every other way out.\<close>

record 's staged_out =
  so_engine :: "'s engine"
  so_job :: TransferJob
  so_fs :: "string set"
  so_attempts :: nat
  so_result :: "(TransferError, StorageReference) result"

definition staged_fail ::
  "bool \<Rightarrow> TempPayloadFile \<Rightarrow> string set \<Rightarrow> 's engine \<Rightarrow> TransferJob \<Rightarrow> nat \<Rightarrow> TransferError
     \<Rightarrow> 's staged_out" where
  "staged_fail remove_ok f fs en job n e =
     \<lparr>so_engine = en, so_job = job, so_fs = TempPayloadFile_drop remove_ok f fs,
      so_attempts = n, so_result = Err e\<rparr>"

function staged_loop ::
  "RetryPolicy \<Rightarrow> 's put_fn \<Rightarrow> 's check_fn \<Rightarrow> bool \<Rightarrow> (nat \<Rightarrow> attempt_env) \<Rightarrow> bool \<Rightarrow> string
     \<Rightarrow> TempPayloadFile \<Rightarrow> string set \<Rightarrow> nat \<Rightarrow> 's engine \<Rightarrow> TransferJob \<Rightarrow> 's staged_out" where
  "staged_loop pol put check cb env remove_ok io_text f fs n en job =
     (if ae_head (env n) then staged_fail remove_ok f fs en job n TransferError.Cancelled
      else case ae_open (env n) of
        Inl e \<Rightarrow> staged_fail remove_ok f fs en job n (TransferError.Io e)
      | Inr rd \<Rightarrow>
          (case upload_stream pol put check cb (ae_obs (env n)) rd en job of
             (en', job', Inr storage_ref) \<Rightarrow>
               (case TempPayloadFile_cleanup remove_ok io_text f fs of
                  (fs', Inl e) \<Rightarrow>
                    \<lparr>so_engine = en', so_job = job', so_fs = fs', so_attempts = Suc n,
                     so_result = Err (TransferError.Storage e)\<rparr>
                | (fs', Inr _) \<Rightarrow>
                    \<lparr>so_engine = en', so_job = job', so_fs = fs', so_attempts = Suc n,
                     so_result = Ok storage_ref\<rparr>)
           | (en', job', Inl e) \<Rightarrow>
               if is_retryable e \<and> can_retry pol (retry_count job') then
                 staged_loop pol put check cb env remove_ok io_text f fs (Suc n) en' job'
               else staged_fail remove_ok f fs en' job' (Suc n) e))"
  by pat_completeness auto

lemma upload_stream_potential:
  assumes "upload_stream pol put check cb obs rd en job = (en', job', Inl e)"
    and "is_retryable e" and "can_retry pol (retry_count job')"
  shows "retry_potential pol job' < retry_potential pol job"
  using assms execute_upload_potential [of pol put check cb obs rd "en_provider en" job e]
  by (auto simp: upload_stream_def Let_def)

termination staged_loop
  by (relation "measure (\<lambda>(pol, put, check, cb, env, ok, io, f, fs, n, en, job).
        retry_potential pol job)")
    (auto dest!: upload_stream_potential [OF sym])

declare staged_loop.simps [simp del]

definition execute_staged_upload ::
  "RetryPolicy \<Rightarrow> 's put_fn \<Rightarrow> 's check_fn \<Rightarrow> bool \<Rightarrow> (nat \<Rightarrow> attempt_env) \<Rightarrow> bool \<Rightarrow> string
     \<Rightarrow> TempPayloadFile \<Rightarrow> string set \<Rightarrow> 's engine \<Rightarrow> TransferJob \<Rightarrow> 's staged_out" where
  "execute_staged_upload pol put check cb env remove_ok io_text f fs en job =
     staged_loop pol put check cb env remove_ok io_text f fs 0 en job"

definition download_stream ::
  "RetryPolicy \<Rightarrow> ('s, 'w cancelling) get_fn \<Rightarrow> bool \<Rightarrow> cancel_obs \<Rightarrow> 'w write_fn \<Rightarrow> 'w \<Rightarrow> 's engine
     \<Rightarrow> TransferJob \<Rightarrow> ('w \<times> 's engine \<times> TransferJob \<times> (TransferError, u64) result) option" where
  "download_stream pol get cb obs wr w en job =
     (case execute_download pol get cb obs wr w (en_provider en) job of
        None \<Rightarrow> None
      | Some (w', out) \<Rightarrow>
          Some (w', en\<lparr>en_provider := wo_provider out, en_queue := finish_job (wo_job out) (en_queue en)\<rparr>,
            wo_job out, wo_result out))"

subsection \<open>What an upload leaves behind\<close>

lemma upload_request_frame [simp]:
  "upload_request (job\<lparr>state := a, updated_at := b\<rparr>) = upload_request job"
  "upload_request (job\<lparr>state := a, updated_at := b, error_message := c\<rparr>) = upload_request job"
  "upload_request (job\<lparr>state := a, updated_at := b, retry_count := d, error_message := c\<rparr>)
    = upload_request job"
  "upload_request (job\<lparr>state := a, updated_at := b, storage_reference := r, bytes_transferred := e\<rparr>)
    = upload_request job"
  "upload_request (transition_ignored job st) = upload_request job"
  by (auto simp: upload_request_def transition_ignored_def transition_Inr_iff split: sum.splits)

lemma stream_failure_request [simp]:
  "upload_request (wo_job (stream_failure pol obs s job e)) = upload_request job"
  by (auto simp: stream_failure_def ret_def Let_def transition_Inr_iff split: sum.splits)

lemma execute_upload_request [simp]:
  "upload_request (wo_job (execute_upload pol put check cb obs rd s job)) = upload_request job"
  by (auto simp: execute_upload_def ret_def Let_def transition_Inr_iff
      split: sum.splits prod.splits)

abbreviation moved :: "TransferJob \<Rightarrow> TransferState \<Rightarrow> TransferJob" where
  "moved job st \<equiv> job\<lparr>state := st, updated_at := ''2026-10-07T12:00:00Z''\<rparr>"

lemma upload_verification_frame [simp]:
  "upload_verification (moved job st) ures = upload_verification job ures"
  by (simp add: upload_verification_def split: option.split)

lemma execute_upload_prepared:
  assumes "\<not> at_start obs" "can_transition_to (state job) TransferState.Preparing"
  shows "execute_upload pol put check cb obs rd s job =
    (case put s (upload_request job) (cancelling_reader (at_call obs) rd) of
       (s1, Inl e) \<Rightarrow> stream_failure pol obs s1 (moved job TransferState.Transferring) e
     | (s1, Inr ures) \<Rightarrow>
         if after_stream obs then
           ret s1 (moved job TransferState.Cancelled) (Err TransferError.Cancelled)
         else case check s1 (upload_verification job ures) of
           Inl e \<Rightarrow> ret s1 (moved job TransferState.Verifying) (Err (TransferError.Storage e))
         | Inr False \<Rightarrow>
             ret s1 ((moved job TransferState.Failed)
                 \<lparr>error_message := Some ''Remote verification check returned false''\<rparr>)
               (Err (TransferError.VerificationFailed ''Remote verification check returned false''))
         | Inr True \<Rightarrow>
             let job5 = (moved job TransferState.Completed)
               \<lparr>storage_reference := Some (ures_storage_reference ures),
                bytes_transferred := ures_bytes_uploaded ures\<rparr> in
             \<lparr>wo_provider = s1, wo_job = job5,
              wo_event = (if cb then Some (final_event job5 (ures_bytes_uploaded ures)) else None),
              wo_result = Ok (ures_storage_reference ures)\<rparr>)"
  using assms
  by (auto simp: execute_upload_def transition_def transition_to_def transition_ignored_def
      split: prod.splits sum.splits bool.splits)

lemma execute_upload_Inr_prepared:
  "wo_result (execute_upload pol put check cb obs rd s job) = Inr ref
   \<Longrightarrow> \<not> at_start obs \<and> can_transition_to (state job) TransferState.Preparing"
  by (auto simp: execute_upload_def ret_def transition_def transition_to_def split: if_splits)

lemma stream_failure_not_Inr [simp]:
  "wo_result (stream_failure pol obs s job e) \<noteq> Inr r"
  by (auto simp: stream_failure_def ret_def Let_def split: sum.splits)

lemma execute_upload_Inr:
  assumes "wo_result (execute_upload pol put check cb obs rd s job) = Inr ref"
  obtains s1 ures where
    "put s (upload_request job) (cancelling_reader (at_call obs) rd) = (s1, Inr ures)"
    and "ref = ures_storage_reference ures"
    and "check s1 (upload_verification job ures) = Inr True"
    and "wo_provider (execute_upload pol put check cb obs rd s job) = s1"
    and "state (wo_job (execute_upload pol put check cb obs rd s job)) = TransferState.Completed"
    and "storage_reference (wo_job (execute_upload pol put check cb obs rd s job)) = Some ref"
proof -
  note prep = execute_upload_Inr_prepared [OF assms]
  note eq = execute_upload_prepared [OF conjunct1 [OF prep] conjunct2 [OF prep]]
  show thesis
  proof (cases "put s (upload_request job) (cancelling_reader (at_call obs) rd)")
    case (Pair s1 r)
    then obtain ures where r: "r = Inr ures"
      using assms unfolding eq by (cases r) auto
    have ver: "check s1 (upload_verification job ures) = Inr True"
      using assms Pair r unfolding eq
      by (auto simp: ret_def split: if_splits sum.splits bool.splits)
    show thesis
      using that [of s1 ures] assms Pair r ver unfolding eq
      by (auto simp: ret_def Let_def split: if_splits)
  qed
qed

lemma execute_upload_provider:
  "wo_provider (execute_upload pol put check cb obs rd s job) = s
   \<or> (\<exists>out. put s (upload_request job) (cancelling_reader (at_call obs) rd)
        = (wo_provider (execute_upload pol put check cb obs rd s job), out))"
  by (auto simp: execute_upload_def ret_def Let_def transition_Inr_iff stream_failure_def
      split: sum.splits prod.splits if_splits)

lemma read_loop_cut:
  "read_loop (take k rd @ RErr e # x) acc = Inr bs \<Longrightarrow> read_loop rd acc = Inr bs"
proof (induction rd arbitrary: acc k)
  case (Cons ev rd)
  then show ?case by (cases k; cases ev) (auto split: if_splits)
qed simp

lemma read_loop_cancelling:
  "read_loop (cancelling_reader c rd) acc = Inr bs \<Longrightarrow> read_loop rd acc = Inr bs"
  by (auto simp: cancelling_reader_def dest: read_loop_cut split: option.splits if_splits)

lemma upload_stream_Inr:
  assumes "upload_stream pol put check cb obs rd en job = (en', job', Inr ref)"
  obtains ures where
    "put (en_provider en) (upload_request job) (cancelling_reader (at_call obs) rd)
       = (en_provider en', Inr ures)"
    and "ref = ures_storage_reference ures"
    and "check (en_provider en') (upload_verification job ures) = Inr True"
    and "state job' = TransferState.Completed" "storage_reference job' = Some ref"
proof -
  have *: "wo_result (execute_upload pol put check cb obs rd (en_provider en) job) = Inr ref"
    and e: "en_provider en' = wo_provider (execute_upload pol put check cb obs rd (en_provider en) job)"
    and j: "job' = wo_job (execute_upload pol put check cb obs rd (en_provider en) job)"
    using assms by (auto simp: upload_stream_def Let_def)
  show thesis
    using execute_upload_Inr [OF *] that unfolding e j by metis
qed

lemma upload_stream_frame:
  assumes "upload_stream pol put check cb obs rd en job = (en', job', r)"
  shows "upload_request job' = upload_request job"
    and "en_provider en' = en_provider en
      \<or> (\<exists>out. put (en_provider en) (upload_request job) (cancelling_reader (at_call obs) rd)
            = (en_provider en', out))"
  using assms execute_upload_provider [of pol put check cb obs rd "en_provider en" job]
  by (auto simp: upload_stream_def Let_def)

lemma cleanup_cases:
  "TempPayloadFile_cleanup ok io f fs =
     (if ok then fs - {tf_path f} else fs,
      if ok \<or> tf_path f \<notin> fs then Inr ()
      else Inl (TempStorage (''Failed to remove staging file '' @ [CHR 0x27]
                      @ tf_path f @ [CHR 0x27] @ '': '' @ io)))"
  by (auto simp: TempPayloadFile_cleanup_def TempPayloadFile_drop_def Let_def)

lemma staged_loop_upload:
  assumes "\<not> ae_head (env n)" "ae_open (env n) = Inr rd"
    and "upload_stream pol put check cb (ae_obs (env n)) rd en job = (en', job', r)"
  shows "staged_loop pol put check cb env ok io f fs n en job =
    (case r of
       Inr ref \<Rightarrow>
         \<lparr>so_engine = en', so_job = job', so_fs = fst (TempPayloadFile_cleanup ok io f fs),
          so_attempts = Suc n,
          so_result = (case snd (TempPayloadFile_cleanup ok io f fs) of
             Inl e \<Rightarrow> Err (TransferError.Storage e) | Inr _ \<Rightarrow> Ok ref)\<rparr>
     | Inl e \<Rightarrow>
         if is_retryable e \<and> can_retry pol (retry_count job') then
           staged_loop pol put check cb env ok io f fs (Suc n) en' job'
         else staged_fail ok f fs en' job' (Suc n) e)"
  using assms by (subst staged_loop.simps) (auto split: prod.splits sum.splits)

lemma staged_loop_early:
  "ae_head (env n) \<Longrightarrow> staged_loop pol put check cb env ok io f fs n en job
     = staged_fail ok f fs en job n TransferError.Cancelled"
  "\<lbrakk>\<not> ae_head (env n); ae_open (env n) = Inl e\<rbrakk> \<Longrightarrow>
     staged_loop pol put check cb env ok io f fs n en job
     = staged_fail ok f fs en job n (TransferError.Io e)"
  by (simp_all add: staged_loop.simps [of _ put])

context storage_contract
begin

lemma staged_upload_stored:
  assumes "inv (en_provider en) \<and> up (en_provider en)" "exact (upload_request job)"
    and "staged_loop pol put check cb env ok io f fs n en job = out" "so_result out = Inr ref"
  shows "\<exists>k rd bs. ae_open (env k) = Inr rd \<and> read_loop rd [] = Inr bs
    \<and> (inv (en_provider (so_engine out)) \<and> up (en_provider (so_engine out)))
    \<and> stored (en_provider (so_engine out)) ref = Some bs
    \<and> state (so_job out) = TransferState.Completed \<and> storage_reference (so_job out) = Some ref
    \<and> (expected_size_bytes job > 0 \<longrightarrow> of_nat (length bs) = expected_size_bytes job)"
  using assms
proof (induction "retry_potential pol job" arbitrary: en job n rule: less_induct)
  case less
  have head: "\<not> ae_head (env n)"
    using less.prems(3,4) by (auto simp: staged_loop_early staged_fail_def)
  then obtain rd where rd: "ae_open (env n) = Inr rd"
    using less.prems(3,4) by (cases "ae_open (env n)") (auto simp: staged_loop_early staged_fail_def)
  obtain en' job' r where up: "upload_stream pol put check cb (ae_obs (env n)) rd en job = (en', job', r)"
    by (metis prod.exhaust)
  note loop = less.prems(3) [unfolded staged_loop_upload [where env = env, OF head rd up]]
  show ?case
  proof (cases r)
    case (Inl e)
    then have again: "is_retryable e" "can_retry pol (retry_count job')"
      and next_out: "staged_loop pol put check cb env ok io f fs (Suc n) en' job' = out"
      using loop less.prems(4) by (auto simp: staged_fail_def split: if_splits)
    have "retry_potential pol job' < retry_potential pol job"
      using up again by (auto simp: Inl intro: upload_stream_potential)
    moreover have "inv (en_provider en') \<and> up (en_provider en')"
      using upload_stream_frame(2) [OF up] less.prems(1) put_inv put_up by auto
    moreover note same = upload_stream_frame(1) [OF up]
    ultimately have "\<exists>k rd bs. ae_open (env k) = Inr rd \<and> read_loop rd [] = Inr bs
      \<and> (inv (en_provider (so_engine out)) \<and> up (en_provider (so_engine out)))
    \<and> stored (en_provider (so_engine out)) ref = Some bs
      \<and> state (so_job out) = TransferState.Completed \<and> storage_reference (so_job out) = Some ref
      \<and> (expected_size_bytes job' > 0 \<longrightarrow> of_nat (length bs) = expected_size_bytes job')"
      using less.hyps [of job' en' "Suc n"] next_out less.prems(2,4) by auto
    then show ?thesis using same by (auto simp: upload_request_def)
  next
    case (Inr ref')
    then have out: "so_engine out = en'" "so_job out = job'" "ref' = ref"
      using loop less.prems(4) by (auto simp: cleanup_cases split: if_splits)
    obtain ures where put: "put (en_provider en) (upload_request job)
        (cancelling_reader (at_call (ae_obs (env n))) rd) = (en_provider en', Inr ures)"
      and ref: "ref = ures_storage_reference ures"
      and ver: "check (en_provider en') (upload_verification job ures) = Inr True"
      and fin: "state job' = TransferState.Completed" "storage_reference job' = Some ref"
      using up Inr out(3) by (auto elim: upload_stream_Inr)
    from put_stored [OF conjunct1 [OF less.prems(1)] less.prems(2) put] obtain bs where
      bs: "read_loop rd [] = Inr bs" "stored (en_provider en') ref = Some bs"
      using ref read_loop_cancelling by blast
    have inv': "inv (en_provider en') \<and> up (en_provider en')"
      using less.prems(1) put_inv [OF _ put] put_up [OF _ put] by blast
    have "expected_size_bytes job > 0 \<longrightarrow> of_nat (length bs) = expected_size_bytes job"
      using check_stored [OF conjunct1 [OF inv'] _ ver, of bs] bs ref by (auto simp: upload_verification_def)
    then show ?thesis using rd bs inv' fin out by blast
  qed
qed

end

lemma drop_active:
  "\<lbrakk>ok; tf_active f\<rbrakk> \<Longrightarrow> TempPayloadFile_drop ok f fs = fs - {tf_path f}"
  by (auto simp: TempPayloadFile_drop_def)

lemma staged_loop_bounded:
  "so_attempts (staged_loop pol put check cb env ok io f fs n en job)
     \<le> n + retry_potential pol job + 1
   \<and> (ok \<longrightarrow> tf_active f \<longrightarrow>
        so_fs (staged_loop pol put check cb env ok io f fs n en job) = fs - {tf_path f})"
proof (induction "retry_potential pol job" arbitrary: en job n rule: less_induct)
  case less
  show ?case
  proof (cases "ae_head (env n)")
    case True
    then show ?thesis by (simp add: staged_loop_early staged_fail_def drop_active)
  next
    case head: False
    show ?thesis
    proof (cases "ae_open (env n)")
      case (Inl e)
      then show ?thesis using head by (simp add: staged_loop_early staged_fail_def drop_active)
    next
      case (Inr rd)
      obtain en' job' r where
        up: "upload_stream pol put check cb (ae_obs (env n)) rd en job = (en', job', r)"
        by (metis prod.exhaust)
      note loop = staged_loop_upload [where env = env, OF head Inr up]
      show ?thesis
      proof (cases "\<exists>e. r = Inl e \<and> is_retryable e \<and> can_retry pol (retry_count job')")
        case True
        then have less_pot: "retry_potential pol job' < retry_potential pol job"
          using up upload_stream_potential by blast
        have again: "staged_loop pol put check cb env ok io f fs n en job
            = staged_loop pol put check cb env ok io f fs (Suc n) en' job'"
          using True unfolding loop by (elim exE) simp
        have "so_attempts (staged_loop pol put check cb env ok io f fs (Suc n) en' job')
            \<le> Suc n + retry_potential pol job' + 1"
          and "ok \<longrightarrow> tf_active f \<longrightarrow>
            so_fs (staged_loop pol put check cb env ok io f fs (Suc n) en' job') = fs - {tf_path f}"
          using less.hyps [OF less_pot, of "Suc n" en'] by blast+
        then show ?thesis using less_pot unfolding again by linarith
      next
        case False
        then show ?thesis
          unfolding loop
          by (cases r) (auto simp: staged_fail_def drop_active cleanup_cases)
      qed
    qed
  qed
qed

subsection \<open>Properties\<close>

text \<open>C30. A staged upload always ends, after at most one attempt more than the retries left, and
  whatever its outcome - stored, failed, cancelled - the staging file is gone when the operating
  system lets it be removed, and no other file is touched.\<close>

theorem staged_upload_ends_clean:
  "so_attempts (execute_staged_upload pol put check cb env ok io f fs en job)
     \<le> max_retries pol - retry_count job + 1
   \<and> (ok \<and> tf_active f \<longrightarrow>
        so_fs (execute_staged_upload pol put check cb env ok io f fs en job) = fs - {tf_path f})"
  using staged_loop_bounded [of pol put check cb env ok io f fs 0 en job]
  by (auto simp: execute_staged_upload_def retry_potential_def split: if_splits)

definition sample_env :: "nat \<Rightarrow> attempt_env" where
  "sample_env n = \<lparr>ae_head = False, ae_open = Ok [RData [1, 2], RData [3]], ae_obs = never_cancelled\<rparr>"

definition sample_engine :: "bool \<Rightarrow> MockStorageProvider engine" where
  "sample_engine failing = \<lparr>en_provider = set_fail_uploads failing MockStorageProvider_new,
     en_queue = TransferQueue_new 2\<rparr>"

definition sample_policy :: RetryPolicy where
  "sample_policy = \<lparr>max_retries = 3, initial_backoff_ms = 100, max_backoff_ms = 2000\<rparr>"

theorem staged_upload_ends_clean_witness:
  "so_fs (execute_staged_upload sample_policy (mock_upload (\<lambda>_. ''ab'')) mock_verify False sample_env
     True [] (TempPayloadFile_new ''p'') {''p'', ''q''} (sample_engine True) sample_job) = {''q''}"
  using staged_upload_ends_clean [of sample_policy "mock_upload (\<lambda>_. ''ab'')" mock_verify False
      sample_env True "[]" "TempPayloadFile_new ''p''" "{''p'', ''q''}" "sample_engine True" sample_job]
  by (auto simp: TempPayloadFile_new_def)

text \<open>C11. Over the mock provider, when its downloads are not set to fail and the size the job expects is at
  most 4 MiB, a staged upload that reports success has stored the file: the job is completed and
  carries the returned reference, the number of bytes is the expected one when one was given,
  and a download under the reference gives back exactly the bytes one of the attempts read from
  the staging file. Above 4 MiB the mock provider keeps the first byte only and gives back as many copies of it,
  so there the statement does not hold.\<close>

theorem staged_upload_then_download:
  assumes "mock_inv sha (en_provider en)" "\<not> fail_downloads (en_provider en)"
    and "expected_size_bytes job \<le> 4 * 1024 * 1024"
    and "execute_staged_upload pol (mock_upload sha) mock_verify cb env ok io f fs en job = out"
    and "so_result out = Inr ref"
  shows "\<exists>k rd bs. ae_open (env k) = Inr rd \<and> read_loop rd [] = Inr bs
    \<and> state (so_job out) = TransferState.Completed \<and> storage_reference (so_job out) = Some ref
    \<and> (expected_size_bytes job > 0 \<longrightarrow> of_nat (length bs) = expected_size_bytes job)
    \<and> mock_download sha (en_provider (so_engine out))
        \<lparr>dr_file_id = i, dr_chunk_id = c, dr_storage_reference = ref, dr_expected_size_bytes = m,
         dr_expected_sha256 = Some (sha bs)\<rparr> vec_write w
      = Some (w @ bs, Inr \<lparr>dres_bytes_downloaded = of_nat (length bs),
                          dres_verified_sha256 = Some (sha bs)\<rparr>)"
proof -
  have "mock_exact (upload_request job)"
    using assms(3) by (simp add: mock_exact_def upload_request_def)
  moreover have "mock_inv sha (en_provider en) \<and> \<not> fail_downloads (en_provider en)"
    using assms(1,2) by blast
  ultimately obtain k rd bs where "ae_open (env k) = Inr rd" "read_loop rd [] = Inr bs"
    and st: "mock_inv sha (en_provider (so_engine out)) \<and> \<not> fail_downloads (en_provider (so_engine out))"
      "mock_stored (en_provider (so_engine out)) ref = Some bs"
    and "state (so_job out) = TransferState.Completed" "storage_reference (so_job out) = Some ref"
      "expected_size_bytes job > 0 \<longrightarrow> of_nat (length bs) = expected_size_bytes job"
    using mock.staged_upload_stored [of sha en job pol cb env ok io f fs 0 out ref] assms(4,5)
    unfolding execute_staged_upload_def by blast
  moreover have "eq_ignore_ascii_case (sha bs) (sha bs)"
    by (simp add: eq_ignore_ascii_case_def)
  ultimately show ?thesis
    using mock_download_stored [of "en_provider (so_engine out)"
      "\<lparr>dr_file_id = i, dr_chunk_id = c, dr_storage_reference = ref, dr_expected_size_bytes = m,
        dr_expected_sha256 = Some (sha bs)\<rparr>" bs sha w]
    by auto
qed

lemmas sample_upload_defs =
  sample_engine_def sample_job_def never_cancelled_def upload_request_def
  upload_verification_def set_fail_uploads_def MockStorageProvider_new_def mock_upload_def
  mock_verify_def cancelling_reader_def

lemma sample_env_simps [simp]:
  "\<not> ae_head (sample_env n)" "ae_open (sample_env n) = Inr [RData [1, 2], RData [3]]"
  "ae_obs (sample_env n) = never_cancelled"
  by (simp_all add: sample_env_def)

lemma sample_upload_stream:
  "\<exists>en' job'. upload_stream sample_policy (mock_upload (\<lambda>_. ''ab'')) mock_verify False
     never_cancelled [RData [1, 2], RData [3]] (sample_engine False) sample_job
   = (en', job', Inr (Telegram (- 1001234567890) 1000 (''tg_mock_file_'' @ show_int 1000)))"
  by (simp add: upload_stream_def execute_upload_prepared sample_upload_defs Let_def bind_res_def)

theorem staged_upload_then_download_witness:
  "\<exists>out ref k rd bs. execute_staged_upload sample_policy (mock_upload (\<lambda>_. ''ab'')) mock_verify False
       sample_env True [] (TempPayloadFile_new ''p'') {''p''} (sample_engine False) sample_job = out
   \<and> so_result out = Inr ref \<and> ae_open (sample_env k) = Inr rd \<and> read_loop rd [] = Inr bs
   \<and> mock_download (\<lambda>_. ''ab'') (en_provider (so_engine out))
        \<lparr>dr_file_id = ''f'', dr_chunk_id = ''c'', dr_storage_reference = ref,
         dr_expected_size_bytes = 3, dr_expected_sha256 = Some ''ab''\<rparr> vec_write []
      = Some (bs, Inr \<lparr>dres_bytes_downloaded = of_nat (length bs),
                          dres_verified_sha256 = Some ''ab''\<rparr>)"
proof -
  define out where "out = execute_staged_upload sample_policy (mock_upload (\<lambda>_. ''ab'')) mock_verify
    False sample_env True [] (TempPayloadFile_new ''p'') {''p''} (sample_engine False) sample_job"
  obtain en' job' where up: "upload_stream sample_policy (mock_upload (\<lambda>_. ''ab'')) mock_verify False
     (ae_obs (sample_env 0)) [RData [1, 2], RData [3]] (sample_engine False) sample_job
     = (en', job', Inr (Telegram (- 1001234567890) 1000 (''tg_mock_file_'' @ show_int 1000)))"
    using sample_upload_stream by auto
  have "so_result out = Inr (Telegram (- 1001234567890) 1000 (''tg_mock_file_'' @ show_int 1000))"
    unfolding out_def execute_staged_upload_def
    by (subst staged_loop_upload [where env = sample_env and n = 0, OF _ _ up]) (simp_all add: cleanup_cases)
  moreover have "mock_inv (\<lambda>_. ''ab'') (en_provider (sample_engine False))"
    by (simp add: sample_engine_def mock_inv_flags mock_new_inv)
  moreover have "\<not> fail_downloads (en_provider (sample_engine False))"
    "expected_size_bytes sample_job \<le> 4 * 1024 * 1024"
    by (simp_all add: sample_upload_defs)
  ultimately show ?thesis
    using staged_upload_then_download [of "\<lambda>_. ''ab''" "sample_engine False" sample_job sample_policy
      False sample_env True "[]" "TempPayloadFile_new ''p''" "{''p''}" out _ "''f''" "''c''" 3 "[]"]
      out_def
    by (metis append_Nil)
qed

text \<open>When every attempt fails with an error that may be retried, the loop makes exactly as
  many attempts as the policy allows retries and returns that error, but the job it leaves in
  the queue is in the retrying state, with the retry counter used up, and not failed.\<close>

theorem staged_upload_exhausted:
  assumes fails: "\<forall>s req rd. \<exists>s'. put s req rd = (s', Inl e)" and "storage_retryable e"
    and calm: "\<forall>n. \<not> ae_head (env n) \<and> (\<exists>rd. ae_open (env n) = Inr rd)
                \<and> \<not> at_start (ae_obs (env n)) \<and> \<not> after_stream (ae_obs (env n))"
    and "state job \<in> {TransferState.Pending, TransferState.Retrying}"
    and "retry_count job < max_retries pol"
    and "execute_staged_upload pol put check cb env ok io f fs en job = out"
  shows "so_result out = Inl (TransferError.Storage e)
    \<and> so_attempts out = max_retries pol - retry_count job
    \<and> state (so_job out) = TransferState.Retrying \<and> retry_count (so_job out) = max_retries pol"
proof -
  have "so_result (staged_loop pol put check cb env ok io f fs n en job) = Inl (TransferError.Storage e)
    \<and> so_attempts (staged_loop pol put check cb env ok io f fs n en job)
        = n + (max_retries pol - retry_count job)
    \<and> state (so_job (staged_loop pol put check cb env ok io f fs n en job)) = TransferState.Retrying
    \<and> retry_count (so_job (staged_loop pol put check cb env ok io f fs n en job)) = max_retries pol"
    if "state job \<in> {TransferState.Pending, TransferState.Retrying}"
      and "retry_count job < max_retries pol" for n en job
    using that
  proof (induction "max_retries pol - retry_count job" arbitrary: n en job)
    case (Suc k)
    from calm obtain rd where env: "\<not> ae_head (env n)" "ae_open (env n) = Inr rd"
      "\<not> at_start (ae_obs (env n))" "\<not> after_stream (ae_obs (env n))" by blast
    from fails obtain s' where put: "put (en_provider en) (upload_request job)
        (cancelling_reader (at_call (ae_obs (env n))) rd) = (s', Inl e)" by blast
    have prep: "can_transition_to (state job) TransferState.Preparing"
      using Suc.prems(1) by auto
    obtain en' job' where up: "upload_stream pol put check cb (ae_obs (env n)) rd en job
        = (en', job', Inl (TransferError.Storage e))"
      and j: "state job' = TransferState.Retrying" "retry_count job' = Suc (retry_count job)"
      using env prep put Suc.prems(2) assms(2)
      by (simp add: upload_stream_def execute_upload_prepared stream_failure_def Let_def
          can_retry_def transition_def transition_to_def ret_def)
    note loop = staged_loop_upload [where env = env, OF env(1,2) up]
    show ?case
    proof (cases "Suc (retry_count job) < max_retries pol")
      case True
      then have *: "k = max_retries pol - retry_count job'" using Suc.hyps(2) j by simp
      have "staged_loop pol put check cb env ok io f fs n en job
          = staged_loop pol put check cb env ok io f fs (Suc n) en' job'"
        unfolding loop using True assms(2) j by (simp add: can_retry_def)
      then show ?thesis using Suc.hyps(1) [OF *, of "Suc n" en'] True j by auto
    next
      case False
      then show ?thesis
        unfolding loop using Suc.prems(2) j by (simp add: can_retry_def staged_fail_def)
    qed
  qed simp
  from this [OF assms(4,5), of 0 en] show ?thesis
    using assms(6) unfolding execute_staged_upload_def by auto
qed

theorem staged_upload_exhausted_witness:
  "\<exists>out. execute_staged_upload sample_policy
       (\<lambda>s req rd. (s, Inl (UploadFailed ''timeout'' True))) mock_verify False
       sample_env True [] (TempPayloadFile_new ''p'') {''p''} (sample_engine True) sample_job = out
     \<and> so_attempts out = 3 \<and> state (so_job out) = TransferState.Retrying"
  using staged_upload_exhausted [of "\<lambda>s req rd. (s, Inl (UploadFailed ''timeout'' True))"
      "UploadFailed ''timeout'' True" sample_env sample_job sample_policy mock_verify False True "[]"
      "TempPayloadFile_new ''p''" "{''p''}" "sample_engine True"]
  by (simp add: sample_job_def sample_policy_def never_cancelled_def)

text \<open>When the bytes are stored but the remote check reports an error that may be retried, the
  loop tries again, and the second attempt fails at once: the job is still in the verifying
  state, which cannot be prepared again. The caller gets the transition error in place of the
  storage error, and the job stays in the verifying state.\<close>

theorem staged_upload_check_error:
  assumes "\<forall>s req rd. \<exists>s' res. put s req rd = (s', Inr res)"
    and "\<forall>s v. check s v = Inl e" and "storage_retryable e"
    and calm: "\<forall>n. \<not> ae_head (env n) \<and> (\<exists>rd. ae_open (env n) = Inr rd)
                \<and> \<not> at_start (ae_obs (env n)) \<and> \<not> after_stream (ae_obs (env n))"
    and "state job = TransferState.Pending" and "retry_count job < max_retries pol"
    and "execute_staged_upload pol put check cb env ok io f fs en job = out"
  shows "so_result out = Inl (InvalidStateTransition ''verifying'' ''preparing'')
    \<and> so_attempts out = 2 \<and> state (so_job out) = TransferState.Verifying"
proof -
  from calm obtain rd rd' where env: "\<not> ae_head (env 0)" "ae_open (env 0) = Inr rd"
      "\<not> at_start (ae_obs (env 0))" "\<not> after_stream (ae_obs (env 0))"
    and env1: "\<not> ae_head (env (Suc 0))" "ae_open (env (Suc 0)) = Inr rd'"
      "\<not> at_start (ae_obs (env (Suc 0)))" by metis
  from assms(1) obtain s' res where put: "put (en_provider en) (upload_request job)
        (cancelling_reader (at_call (ae_obs (env 0))) rd) = (s', Inr res)" by blast
  obtain en' job' where up: "upload_stream pol put check cb (ae_obs (env 0)) rd en job
        = (en', job', Inl (TransferError.Storage e))"
    and j: "state job' = TransferState.Verifying" "retry_count job' = retry_count job"
    using env put assms(2,5)
    by (simp add: upload_stream_def execute_upload_prepared Let_def ret_def)
  obtain en'' where up': "upload_stream pol put check cb (ae_obs (env (Suc 0))) rd' en' job'
      = (en'', job', Inl (InvalidStateTransition ''verifying'' ''preparing''))"
    using env1 j
    by (simp add: upload_stream_def execute_upload_def transition_def transition_to_def ret_def)
  show ?thesis
    using assms(7) staged_loop_upload [where env = env, OF env(1,2) up, of ok io f fs]
      staged_loop_upload [where env = env, OF env1(1,2) up', of ok io f fs] assms(3,6) j
    by (auto simp: execute_staged_upload_def can_retry_def staged_fail_def)
qed

theorem staged_upload_check_error_witness:
  "\<exists>out. execute_staged_upload sample_policy
       (\<lambda>s req rd. (s, Inr \<lparr>ures_storage_reference = Telegram 1 2 ''x'', ures_bytes_uploaded = 3,
           ures_verified_sha256 = None, ures_remote_status = StorageStatus.Uploaded\<rparr>))
       (\<lambda>s v. Inl (ProviderUnavailable ''busy'')) False
       sample_env True [] (TempPayloadFile_new ''p'') {''p''} (sample_engine True) sample_job = out
     \<and> so_result out = Inl (InvalidStateTransition ''verifying'' ''preparing'')"
  using staged_upload_check_error [of
      "\<lambda>s req rd. (s, Inr \<lparr>ures_storage_reference = Telegram 1 2 ''x'', ures_bytes_uploaded = 3,
           ures_verified_sha256 = None, ures_remote_status = StorageStatus.Uploaded\<rparr>)"
      "\<lambda>s v. Inl (ProviderUnavailable ''busy'')" "ProviderUnavailable ''busy''"
      sample_env sample_job sample_policy False True "[]"
      "TempPayloadFile_new ''p''" "{''p''}" "sample_engine True"]
  by (simp add: sample_job_def sample_policy_def never_cancelled_def)

text \<open>The outcomes of a download. It completes exactly when the token is not set before or after
  the stream, the job names a reference and can be prepared, and the provider delivered; the job
  is then completed with the number of bytes delivered. A token seen after a successful stream
  gives the cancellation error, with the job left in the transferring state.\<close>

theorem execute_download_outcome:
  assumes "execute_download pol get cb obs wr w s job = Some (w', out)"
  shows "(wo_result out = Inr n \<longleftrightarrow>
      \<not> at_start obs \<and> \<not> after_stream obs
      \<and> can_transition_to (state job) TransferState.Preparing
      \<and> (\<exists>ref cw res. storage_reference job = Some ref \<and> dres_bytes_downloaded res = n
           \<and> get s \<lparr>dr_file_id = file_id job, dr_chunk_id = chunk_id job,
                 dr_storage_reference = ref, dr_expected_size_bytes = expected_size_bytes job,
                 dr_expected_sha256 = expected_sha256 job\<rparr>
                (cancelling_write (at_call obs) wr) \<lparr>cw_inner = w, cw_calls = 0\<rparr> = Some (cw, Inr res)))
    \<and> (wo_result out = Inr n \<longrightarrow>
         state (wo_job out) = TransferState.Completed \<and> bytes_transferred (wo_job out) = n)
    \<and> (\<not> at_start obs \<and> after_stream obs \<and> can_transition_to (state job) TransferState.Preparing
       \<and> (\<exists>ref cw res. storage_reference job = Some ref
           \<and> get s \<lparr>dr_file_id = file_id job, dr_chunk_id = chunk_id job,
                 dr_storage_reference = ref, dr_expected_size_bytes = expected_size_bytes job,
                 dr_expected_sha256 = expected_sha256 job\<rparr>
                (cancelling_write (at_call obs) wr) \<lparr>cw_inner = w, cw_calls = 0\<rparr> = Some (cw, Inr res))
       \<longrightarrow> wo_result out = Inl TransferError.Cancelled
         \<and> state (wo_job out) = TransferState.Transferring)"
proof (cases "\<not> at_start obs \<and> can_transition_to (state job) TransferState.Preparing
    \<and> storage_reference job \<noteq> None")
  case True
  then obtain ref where ref: "storage_reference job = Some ref" by blast
  let ?g = "get s \<lparr>dr_file_id = file_id job, dr_chunk_id = chunk_id job,
     dr_storage_reference = ref, dr_expected_size_bytes = expected_size_bytes job,
     dr_expected_sha256 = expected_sha256 job\<rparr>
     (cancelling_write (at_call obs) wr) \<lparr>cw_inner = w, cw_calls = 0\<rparr>"
  obtain cw r where g: "?g = Some (cw, r)"
    using assms True ref
    by (cases ?g) (auto simp: execute_download_def transition_def transition_to_def)
  then show ?thesis
    using assms True ref
    by (cases r) (auto simp: execute_download_def transition_def transition_to_def ret_def Let_def
        split: if_splits)
next
  case False
  then have "\<exists>e. wo_result out = Inl e"
    using assms
    by (auto simp: execute_download_def transition_def transition_to_def ret_def
        split: if_splits option.splits)
  then show ?thesis using False by auto
qed

definition sample_get :: "('s, 'w cancelling) get_fn" where
  "sample_get s d wr cw =
     Some (cw, Inr \<lparr>dres_bytes_downloaded = 3, dres_verified_sha256 = None\<rparr>)"

theorem execute_download_outcome_witness:
  "\<exists>w' out. execute_download sample_policy sample_get False
       \<lparr>at_start = False, at_call = None, after_stream = True\<rparr> vec_write [] ()
       (sample_job\<lparr>storage_reference := Some (Telegram 1 2 ''x'')\<rparr>) = Some (w', out)
     \<and> wo_result out = Inl TransferError.Cancelled
     \<and> state (wo_job out) = TransferState.Transferring"
proof -
  let ?job = "sample_job\<lparr>storage_reference := Some (Telegram 1 2 ''x'')\<rparr>"
  let ?obs = "\<lparr>at_start = False, at_call = None, after_stream = True\<rparr>"
  obtain w' out where e:
    "execute_download sample_policy sample_get False ?obs vec_write [] () ?job = Some (w', out)"
    by (simp add: execute_download_def sample_get_def sample_job_def transition_def
        transition_to_def)
  from execute_download_outcome [OF e] e show ?thesis
    by (simp add: sample_get_def sample_job_def)
qed

end
