(* ===== verification/Error_Types.thy ===== *)
theory Error_Types
  imports Transfer_Job
begin

text \<open>
  The error types of televault-crypto and televault-backup with their messages and
  the conversions between them and those of the other crates (\<open>error.rs\<close> of each crate).
\<close>

subsection \<open>televault-crypto\<close>

datatype CryptoError =
    AuthenticationFailed
  | KeyDerivation string
  | InvalidNonceLength nat
  | InvalidKeyLength nat nat
  | UnsupportedVersion u32
  | MalformedPayload string
  | AadMismatch string

fun CryptoError_display :: "CryptoError \<Rightarrow> string" where
  "CryptoError_display AuthenticationFailed =
     ''Authentication failed: invalid key, corrupted ciphertext, or tampered context''"
| "CryptoError_display (KeyDerivation m) = ''Key derivation failed: '' @ m"
| "CryptoError_display (InvalidNonceLength n) =
     ''Invalid nonce: expected 12 bytes, got '' @ show_nat n"
| "CryptoError_display (InvalidKeyLength expected actual) =
     ''Invalid key length: expected '' @ show_nat expected @ '' bytes, got '' @ show_nat actual"
| "CryptoError_display (CryptoError.UnsupportedVersion v) =
     ''Unsupported encrypted payload version: '' @ show_nat (unat v)"
| "CryptoError_display (MalformedPayload m) = ''Malformed encrypted payload: '' @ m"
| "CryptoError_display (AadMismatch m) = ''AAD validation failed: '' @ m"

fun CryptoError_to_AppError :: "CryptoError \<Rightarrow> AppError" where
  "CryptoError_to_AppError AuthenticationFailed = AppError.Validation ''crypto.auth''
     ''authentication failed: data was tampered with or key is incorrect''"
| "CryptoError_to_AppError (KeyDerivation m) = AppError.Internal (''kdf error: '' @ m)"
| "CryptoError_to_AppError (InvalidNonceLength n) =
     AppError.Validation ''crypto.nonce'' (''invalid nonce length: '' @ show_nat n)"
| "CryptoError_to_AppError (InvalidKeyLength expected actual) =
     AppError.Validation ''crypto.key''
       (''invalid key length: expected '' @ show_nat expected @ '', got '' @ show_nat actual)"
| "CryptoError_to_AppError (CryptoError.UnsupportedVersion v) =
     AppError.Validation ''crypto.version''
       (''unsupported crypto format version '' @ show_nat (unat v))"
| "CryptoError_to_AppError (MalformedPayload m) =
     AppError.Validation ''crypto.payload'' (''malformed payload: '' @ m)"
| "CryptoError_to_AppError (AadMismatch m) =
     AppError.Validation ''crypto.aad'' (''AAD mismatch: '' @ m)"

subsection \<open>televault-backup\<close>

datatype BackupError =
    ProfileNotFound string
  | InvalidProfile string
  | ScanError string
  | InaccessibleFile string string
  | PathError string
  | SnapshotError string
  | ManifestError string
  | CryptoError string
  | StorageError string
  | TransferError string
  | DatabaseError string
  | Io string
  | Cancelled

fun BackupError_display :: "BackupError \<Rightarrow> string" where
  "BackupError_display (BackupError.ProfileNotFound p) = ''Profile '' @ quoted p @ '' not found''"
| "BackupError_display (InvalidProfile m) = ''Invalid profile configuration: '' @ m"
| "BackupError_display (ScanError m) = ''Filesystem scan error: '' @ m"
| "BackupError_display (InaccessibleFile path reason) =
     ''Inaccessible file at '' @ quoted path @ '': '' @ reason"
| "BackupError_display (PathError m) = ''Path validation error: '' @ m"
| "BackupError_display (SnapshotError m) = ''Snapshot error: '' @ m"
| "BackupError_display (ManifestError m) = ''Manifest error: '' @ m"
| "BackupError_display (CryptoError m) = ''Cryptographic error: '' @ m"
| "BackupError_display (StorageError m) = ''Storage error: '' @ m"
| "BackupError_display (TransferError m) = ''Transfer error: '' @ m"
| "BackupError_display (DatabaseError m) = ''Database error: '' @ m"
| "BackupError_display (BackupError.Io m) = ''I/O error: '' @ m"
| "BackupError_display BackupError.Cancelled = ''Backup operation was cancelled''"

definition BackupError_of_AppError :: "AppError \<Rightarrow> BackupError" where
  "BackupError_of_AppError e = PathError (AppError_display e)"

definition BackupError_of_DbError :: "DbError \<Rightarrow> BackupError" where
  "BackupError_of_DbError e = DatabaseError (DbError_display e)"

definition BackupError_of_ManifestError :: "ManifestError \<Rightarrow> BackupError" where
  "BackupError_of_ManifestError e = ManifestError (ManifestError_display e)"

definition BackupError_of_CryptoError :: "CryptoError \<Rightarrow> BackupError" where
  "BackupError_of_CryptoError e = CryptoError (CryptoError_display e)"

definition BackupError_of_StorageError :: "StorageError \<Rightarrow> BackupError" where
  "BackupError_of_StorageError e = StorageError (StorageError_display e)"

definition BackupError_of_TransferError :: "TransferError \<Rightarrow> BackupError" where
  "BackupError_of_TransferError e =
     (case e of
        TransferError.Cancelled \<Rightarrow> BackupError.Cancelled
      | _ \<Rightarrow> TransferError (TransferError_display e))"

fun BackupError_to_AppError :: "BackupError \<Rightarrow> AppError" where
  "BackupError_to_AppError (BackupError.ProfileNotFound p) = AppError.NotFound ''Profile'' p"
| "BackupError_to_AppError (InvalidProfile m) = AppError.Validation ''profile'' m"
| "BackupError_to_AppError (ScanError m) = AppError.Internal (''Scan error: '' @ m)"
| "BackupError_to_AppError (InaccessibleFile path reason) =
     AppError.Path (''Inaccessible '' @ path @ '': '' @ reason)"
| "BackupError_to_AppError (PathError m) = AppError.Path m"
| "BackupError_to_AppError (SnapshotError m) = AppError.Internal (''Snapshot error: '' @ m)"
| "BackupError_to_AppError (ManifestError m) = AppError.Internal (''Manifest error: '' @ m)"
| "BackupError_to_AppError (CryptoError m) = AppError.Internal (''Crypto error: '' @ m)"
| "BackupError_to_AppError (StorageError m) = AppError.Internal (''Storage error: '' @ m)"
| "BackupError_to_AppError (TransferError m) = AppError.Internal (''Transfer error: '' @ m)"
| "BackupError_to_AppError (DatabaseError m) = AppError.Internal (''Database error: '' @ m)"
| "BackupError_to_AppError (BackupError.Io m) = AppError.Internal (''I/O error: '' @ m)"
| "BackupError_to_AppError BackupError.Cancelled =
     AppError.Internal ''Backup operation was cancelled''"

subsection \<open>Retention\<close>

datatype RetentionError =
    ProfileNotFound string
  | InvalidPolicy string
  | ProfileBusy string
  | SnapshotProtected string string
  | SnapshotNotFound string
  | Database string
  | Cancelled
  | Internal string

fun RetentionError_display :: "RetentionError \<Rightarrow> string" where
  "RetentionError_display (RetentionError.ProfileNotFound p) = ''Profile '' @ quoted p @ '' not found''"
| "RetentionError_display (InvalidPolicy m) = ''Invalid retention policy: '' @ m"
| "RetentionError_display (ProfileBusy p) =
     ''Profile '' @ quoted p @ '' is currently busy with an active operation''"
| "RetentionError_display (SnapshotProtected i r) =
     ''Snapshot '' @ quoted i @ '' is currently active or protected: '' @ r"
| "RetentionError_display (SnapshotNotFound i) = ''Snapshot '' @ quoted i @ '' not found in catalog''"
| "RetentionError_display (RetentionError.Database m) = ''Database error: '' @ m"
| "RetentionError_display RetentionError.Cancelled = ''Retention operation was cancelled''"
| "RetentionError_display (RetentionError.Internal m) = ''Retention internal error: '' @ m"

definition RetentionError_of_DbError :: "DbError \<Rightarrow> RetentionError" where
  "RetentionError_of_DbError e =
     (case e of
        DbError.NotFound entity i \<Rightarrow>
          if entity = ''Snapshot'' then SnapshotNotFound i
          else if entity = ''Profile'' then RetentionError.ProfileNotFound i
          else RetentionError.Database (DbError_display e)
      | _ \<Rightarrow> RetentionError.Database (DbError_display e))"

fun RetentionError_to_AppError :: "RetentionError \<Rightarrow> AppError" where
  "RetentionError_to_AppError (RetentionError.ProfileNotFound p) = AppError.NotFound ''Profile'' p"
| "RetentionError_to_AppError (SnapshotNotFound i) = AppError.NotFound ''Snapshot'' i"
| "RetentionError_to_AppError (InvalidPolicy m) = AppError.Validation ''retention_policy'' m"
| "RetentionError_to_AppError (ProfileBusy p) = AppError.Conflict ''Profile'' p"
| "RetentionError_to_AppError (SnapshotProtected i r) =
     AppError.Conflict ''Snapshot'' (''Snapshot '' @ quoted i @ '' is protected: '' @ r)"
| "RetentionError_to_AppError (RetentionError.Database m) =
     AppError.Internal (''Database error: '' @ m)"
| "RetentionError_to_AppError RetentionError.Cancelled =
     AppError.Internal ''Retention operation was cancelled''"
| "RetentionError_to_AppError (RetentionError.Internal m) = AppError.Internal m"

fun BackupError_of_RetentionError :: "RetentionError \<Rightarrow> BackupError" where
  "BackupError_of_RetentionError (RetentionError.ProfileNotFound p) = BackupError.ProfileNotFound p"
| "BackupError_of_RetentionError (SnapshotNotFound i) =
     SnapshotError (''Snapshot not found: '' @ i)"
| "BackupError_of_RetentionError (InvalidPolicy m) = InvalidProfile m"
| "BackupError_of_RetentionError (RetentionError.Database m) = DatabaseError m"
| "BackupError_of_RetentionError RetentionError.Cancelled = BackupError.Cancelled"
| "BackupError_of_RetentionError e = SnapshotError (RetentionError_display e)"

end
