(* ===== verification/Schedule_Expr.thy ===== *)
theory Schedule_Expr
  imports Error_Types
begin

text \<open>
  \<open>expression.rs\<close> of televault-scheduler, with the enumerations of \<open>types.rs\<close> and the error type
  of \<open>error.rs\<close>: parsing of schedule expressions and the calculation of the next run.

  An instant is the number of nanoseconds since 1970-01-01T00:00:00Z, an int. The calendar and
  the local time zone are chrono's: they are the parameters \<open>calendar\<close> (month, day of the month
  and weekday of a day number, and the last instant chrono can represent) and \<open>zone\<close> (the
  local wall clock of an instant, and the instants that have a given wall clock). Wall clock
  values are nanoseconds as well, counted as if in UTC. Leap seconds, and instants within some
  years of the end of chrono's range, are outside the model.

  A computation that may panic is an option: None is the panic. \<open>oc\<close> tells whether the program
  was built with overflow checks, in which case an overflowing multiplication or addition
  panics; without them it wraps.
\<close>

subsection \<open>error.rs and types.rs\<close>

datatype SchedulerError =
    Database DbError
  | Backup BackupError
  | Core AppError
  | ScheduleNotFound string
  | ProfileNotFound string
  | InvalidSchedule string
  | InvalidExpression string
  | ScheduleConflict string
  | ProfileAlreadyRunning string
  | Cancelled
  | Unavailable string
  | Internal string

fun SchedulerError_to_AppError :: "SchedulerError \<Rightarrow> AppError" where
  "SchedulerError_to_AppError (Core e) = e"
| "SchedulerError_to_AppError (SchedulerError.Database e) = DbError_to_AppError e"
| "SchedulerError_to_AppError (Backup e) = BackupError_to_AppError e"
| "SchedulerError_to_AppError SchedulerError.Cancelled =
     AppError.Internal ''Scheduler operation cancelled''"
| "SchedulerError_to_AppError (ScheduleNotFound i) = AppError.NotFound ''Schedule'' i"
| "SchedulerError_to_AppError (SchedulerError.ProfileNotFound i) = AppError.NotFound ''Profile'' i"
| "SchedulerError_to_AppError (InvalidSchedule m) = AppError.Validation ''schedule'' m"
| "SchedulerError_to_AppError (InvalidExpression m) = AppError.Validation ''expression'' m"
| "SchedulerError_to_AppError (ScheduleConflict r) = AppError.Conflict ''Schedule'' r"
| "SchedulerError_to_AppError (ProfileAlreadyRunning i) =
     AppError.Conflict ''Profile'' (''Backup already running for profile '' @ i)"
| "SchedulerError_to_AppError (Unavailable m) = AppError.Internal m"
| "SchedulerError_to_AppError (SchedulerError.Internal m) = AppError.Internal m"

datatype ScheduleType = Interval | Daily | Weekly | Cron

fun ScheduleType_display :: "ScheduleType \<Rightarrow> string" where
  "ScheduleType_display Interval = ''interval''"
| "ScheduleType_display Daily = ''daily''"
| "ScheduleType_display Weekly = ''weekly''"
| "ScheduleType_display Cron = ''cron''"

definition ScheduleType_from_str :: "string \<Rightarrow> (SchedulerError, ScheduleType) result" where
  "ScheduleType_from_str s =
     (let l = to_lowercase (trim s) in
      if l = ''interval'' then Ok Interval
      else if l = ''daily'' then Ok Daily
      else if l = ''weekly'' then Ok Weekly
      else if l = ''cron'' then Ok Cron
      else Err (InvalidSchedule (''Unknown schedule type '' @ [CHR 0x27] @ l @ [CHR 0x27]
             @ ''. Expected: interval, daily, weekly, cron'')))"

datatype TimezoneStrategy = Local | Utc

fun TimezoneStrategy_display :: "TimezoneStrategy \<Rightarrow> string" where
  "TimezoneStrategy_display Local = ''local''"
| "TimezoneStrategy_display Utc = ''utc''"

definition TimezoneStrategy_from_str ::
  "string \<Rightarrow> (SchedulerError, TimezoneStrategy) result" where
  "TimezoneStrategy_from_str s =
     (let l = to_lowercase (trim s) in
      if l = ''local'' then Ok Local
      else if l = ''utc'' then Ok Utc
      else Err (InvalidSchedule (''Unknown timezone strategy '' @ [CHR 0x27] @ l @ [CHR 0x27]
             @ ''. Expected: local, utc'')))"

subsection \<open>Panics, overflow, time\<close>

type_synonym 'a run = "(SchedulerError, 'a) result option"

definition bind_run :: "('e, 'a) result option \<Rightarrow> ('a \<Rightarrow> ('e, 'c) result option)
    \<Rightarrow> ('e, 'c) result option" where
  "bind_run r f =
     (case r of None \<Rightarrow> None | Some (Inl e) \<Rightarrow> Some (Inl e) | Some (Inr a) \<Rightarrow> f a)"

lemma bind_run_simps [simp, res_simps]:
  "bind_run None f = None"
  "bind_run (Some (Inl e)) f = Some (Inl e)"
  "bind_run (Some (Inr a)) f = f a"
  by (simp_all add: bind_run_def)

lemma bind_run_Some_Inr_iff:
  "bind_run r f = Some (Inr b) \<longleftrightarrow> (\<exists>a. r = Some (Inr a) \<and> f a = Some (Inr b))"
  by (auto simp: bind_run_def split: option.splits sum.splits)

definition i64_wrap :: "int \<Rightarrow> int" where
  "i64_wrap x = (x + 2 ^ 63) mod 2 ^ 64 - 2 ^ 63"

definition i64_mul :: "bool \<Rightarrow> int \<Rightarrow> int \<Rightarrow> int option" where
  "i64_mul oc a b =
     (if - (2 ^ 63) \<le> a * b \<and> a * b < 2 ^ 63 then Some (a * b)
      else if oc then None else Some (i64_wrap (a * b)))"

definition u32_add :: "bool \<Rightarrow> nat \<Rightarrow> nat \<Rightarrow> nat option" where
  "u32_add oc a b =
     (if a + b < 2 ^ 32 then Some (a + b)
      else if oc then None else Some ((a + b) mod 2 ^ 32))"

type_synonym instant = int

definition SECOND :: int where "SECOND = 1000000000"
definition MINUTE :: int where "MINUTE = 60 * SECOND"
definition HOUR :: int where "HOUR = 60 * MINUTE"
definition DAY :: int where "DAY = 24 * HOUR"

lemmas time_units = SECOND_def MINUTE_def HOUR_def DAY_def

datatype Weekday = Mon | Tue | Wed | Thu | Fri | Sat | Sun

fun num_days_from_sunday :: "Weekday \<Rightarrow> nat" where
  "num_days_from_sunday Sun = 0"
| "num_days_from_sunday Mon = 1"
| "num_days_from_sunday Tue = 2"
| "num_days_from_sunday Wed = 3"
| "num_days_from_sunday Thu = 4"
| "num_days_from_sunday Fri = 5"
| "num_days_from_sunday Sat = 6"

record calendar =
  cal_month :: "int \<Rightarrow> nat"
  cal_day :: "int \<Rightarrow> nat"
  cal_weekday :: "int \<Rightarrow> Weekday"
  cal_max :: instant

datatype LocalResult = Single instant | Ambiguous instant instant | NoLocal

record zone =
  to_local :: "instant \<Rightarrow> int"
  from_local :: "int \<Rightarrow> LocalResult"

definition date_naive :: "int \<Rightarrow> int" where "date_naive t = t div DAY"
definition hour_of :: "int \<Rightarrow> nat" where "hour_of t = nat (t mod DAY div HOUR)"
definition minute_of :: "int \<Rightarrow> nat" where "minute_of t = nat (t mod HOUR div MINUTE)"

definition and_time :: "int \<Rightarrow> int \<Rightarrow> int" where
  "and_time day tod = day * DAY + tod"

definition from_hms_opt :: "nat \<Rightarrow> nat \<Rightarrow> int option" where
  \<comment> \<open>\<open>NaiveTime::from_hms_opt(h, m, 0)\<close>\<close>
  "from_hms_opt h m = (if h < 24 \<and> m < 60 then Some (int h * HOUR + int m * MINUTE) else None)"

subsection \<open>Parsing\<close>

definition is_continuation :: "char \<Rightarrow> bool" where
  "is_continuation c \<longleftrightarrow> 128 \<le> byte_of c \<and> byte_of c < 192"

text \<open>\<open>s.split_at(s.len() - 1)\<close> panics when the last byte is inside a character.\<close>

definition parse_interval_seconds :: "bool \<Rightarrow> string \<Rightarrow> int run" where
  "parse_interval_seconds oc expr =
     (let s = trim expr in
      if s = [] then Some (Err (InvalidExpression ''Interval expression cannot be empty''))
      else case parse_i64 s of
        Some secs \<Rightarrow>
          if secs \<le> 0 then
            Some (Err (InvalidExpression ''Interval in seconds must be positive''))
          else Some (Ok secs)
      | None \<Rightarrow>
          if is_continuation (last s) then None
          else
            (case parse_i64 (trim (butlast s)) of
               None \<Rightarrow> Some (Err (InvalidExpression
                 (''Invalid numeric value in interval expression '' @ [CHR 0x27] @ s @ [CHR 0x27])))
             | Some val \<Rightarrow>
                 if val \<le> 0 then
                   Some (Err (InvalidExpression ''Interval value must be positive''))
                 else
                   let unit = to_lowercase [last s] in
                   if unit = ''s'' then Some (Ok val)
                   else if unit = ''m'' then map_option Ok (i64_mul oc val 60)
                   else if unit = ''h'' then map_option Ok (i64_mul oc val 3600)
                   else if unit = ''d'' then map_option Ok (i64_mul oc val 86400)
                   else Some (Err (InvalidExpression
                     (''Unknown interval unit '' @ [CHR 0x27] @ unit @ [CHR 0x27] @ '' in ''
                       @ [CHR 0x27] @ s @ [CHR 0x27] @ ''. Supported: s, m, h, d'')))))"

definition show2 :: "nat \<Rightarrow> string" where
  \<comment> \<open>the format \<open>{:02}\<close>\<close>
  "show2 n = (if n < 10 then CHR ''0'' # show_nat n else show_nat n)"

definition parse_daily_time :: "string \<Rightarrow> (SchedulerError, nat \<times> nat) result" where
  "parse_daily_time expr =
     (case split_on CHR '':'' (trim expr) of
        [a, b] \<Rightarrow>
          bind_res (ok_or (InvalidExpression
              (''Invalid hour in daily expression: '' @ [CHR 0x27] @ a @ [CHR 0x27]))
            (parse_u32 (trim a))) (\<lambda>hour.
          bind_res (ok_or (InvalidExpression
              (''Invalid minute in daily expression: '' @ [CHR 0x27] @ b @ [CHR 0x27]))
            (parse_u32 (trim b))) (\<lambda>minute.
          if hour > 23 \<or> minute > 59 then
            Err (InvalidExpression
              (''Daily time out of range: hour must be 0-23, minute 0-59 (got '' @ show2 hour
                 @ '':'' @ show2 minute @ '')''))
          else Ok (hour, minute)))
      | _ \<Rightarrow> Err (InvalidExpression
          (''Daily time must be in '' @ [CHR 0x27] @ ''HH:MM'' @ [CHR 0x27]
             @ '' 24-hour format (e.g. '' @ [CHR 0x27] @ ''02:00'' @ [CHR 0x27]
             @ ''), found: '' @ [CHR 0x27] @ expr @ [CHR 0x27])))"

definition parse_weekday :: "string \<Rightarrow> (SchedulerError, Weekday) result" where
  "parse_weekday s =
     (let l = to_lowercase (trim s) in
      if l = ''mon'' \<or> l = ''monday'' then Ok Mon
      else if l = ''tue'' \<or> l = ''tuesday'' then Ok Tue
      else if l = ''wed'' \<or> l = ''wednesday'' then Ok Wed
      else if l = ''thu'' \<or> l = ''thursday'' then Ok Thu
      else if l = ''fri'' \<or> l = ''friday'' then Ok Fri
      else if l = ''sat'' \<or> l = ''saturday'' then Ok Sat
      else if l = ''sun'' \<or> l = ''sunday'' then Ok Sun
      else Err (InvalidExpression (''Unknown weekday '' @ [CHR 0x27] @ l @ [CHR 0x27]
             @ ''. Expected Monday..Sunday or Mon..Sun'')))"

definition weekly_format_error :: "string \<Rightarrow> SchedulerError" where
  "weekly_format_error s = InvalidExpression
     (''Weekly time must be in '' @ [CHR 0x27] @ ''Weekday@HH:MM'' @ [CHR 0x27] @ '' format (e.g. ''
        @ [CHR 0x27] @ ''Sun@03:00'' @ [CHR 0x27] @ ''), found: '' @ [CHR 0x27] @ s @ [CHR 0x27])"

definition parse_weekly_time ::
  "string \<Rightarrow> (SchedulerError, Weekday \<times> nat \<times> nat) result" where
  "parse_weekly_time expr =
     (let s = trim expr in
      bind_res (if CHR ''@'' \<in> set s then Ok CHR ''@''
                else if CHR '' '' \<in> set s then Ok CHR '' ''
                else Err (weekly_format_error s)) (\<lambda>delimiter.
      case split_on delimiter s of
        [a, b] \<Rightarrow>
          bind_res (parse_weekday (trim a)) (\<lambda>weekday.
          bind_res (parse_daily_time (trim b)) (\<lambda>(hour, minute).
          Ok (weekday, hour, minute)))
      | _ \<Rightarrow> Err (weekly_format_error s)))"

subsection \<open>Cron expressions\<close>

text \<open>The loop \<open>while v <= max { values.insert(v); v += step; }\<close>. The fuel is \<open>max + 2\<close>; it never runs
  out (\<open>cron_steps_enough\<close>).\<close>

fun cron_steps :: "bool \<Rightarrow> nat \<Rightarrow> nat \<Rightarrow> nat \<Rightarrow> nat \<Rightarrow> nat set option" where
  "cron_steps oc 0 v step hi = None"
| "cron_steps oc (Suc n) v step hi =
     (if v \<le> hi then
        (case u32_add oc v step of
           None \<Rightarrow> None
         | Some v' \<Rightarrow> map_option (insert v) (cron_steps oc n v' step hi))
      else Some {})"

definition cron_item ::
  "bool \<Rightarrow> nat \<Rightarrow> nat \<Rightarrow> string \<Rightarrow> string \<Rightarrow> (nat set) run" where
  "cron_item oc lo hi field_name item0 =
     (let item = trim item0; q = [CHR 0x27];
          tail = '' in cron '' @ field_name @ '' field'';
          bounds = '' out of bounds ('' @ show_nat lo @ ''..'' @ show_nat hi @ '')'' in
      if item = ''*'' then Some (Ok {lo..hi})
      else if take 2 item = ''*/'' then
        let step_str = drop 2 item in
        (case parse_u32 step_str of
           None \<Rightarrow> Some (Err (InvalidExpression (''Invalid step '' @ q @ step_str @ q @ tail)))
         | Some step \<Rightarrow>
             if step = 0 then Some (Err (InvalidExpression (''Step cannot be 0'' @ tail)))
             else map_option Ok (cron_steps oc (hi + 2) lo step hi))
      else if CHR ''-'' \<in> set item then
        (case split_on CHR ''-'' item of
           [a, b] \<Rightarrow>
             Some (
               bind_res (ok_or (InvalidExpression (''Invalid range start '' @ q @ a @ q @ tail))
                 (parse_u32 a)) (\<lambda>start.
               bind_res (ok_or (InvalidExpression (''Invalid range end '' @ q @ b @ q @ tail))
                 (parse_u32 b)) (\<lambda>stop.
               if start > stop \<or> start < lo \<or> stop > hi then
                 Err (InvalidExpression (''Range '' @ q @ show_nat start @ ''-'' @ show_nat stop @ q
                   @ bounds @ tail))
               else Ok {start..stop})))
         | _ \<Rightarrow> Some (Err (InvalidExpression (''Invalid range '' @ q @ item @ q @ tail))))
      else
        Some (
          bind_res (ok_or (InvalidExpression (''Invalid value '' @ q @ item @ q @ tail))
            (parse_u32 item)) (\<lambda>val.
          if val < lo \<or> val > hi then
            Err (InvalidExpression (''Value '' @ q @ show_nat val @ q @ bounds @ tail))
          else Ok {val})))"

fun cron_items ::
  "bool \<Rightarrow> nat \<Rightarrow> nat \<Rightarrow> string \<Rightarrow> string list \<Rightarrow> nat set \<Rightarrow> (nat set) run" where
  "cron_items oc lo hi field_name [] values = Some (Ok values)"
| "cron_items oc lo hi field_name (item # items) values =
     bind_run (cron_item oc lo hi field_name item) (\<lambda>vs.
       cron_items oc lo hi field_name items (values \<union> vs))"

definition parse_cron_field ::
  "bool \<Rightarrow> string \<Rightarrow> nat \<Rightarrow> nat \<Rightarrow> string \<Rightarrow> (nat set) run" where
  "parse_cron_field oc field lo hi field_name =
     bind_run (cron_items oc lo hi field_name (split_on CHR '','' field) {}) (\<lambda>values.
       if values = {} then
         Some (Err (InvalidExpression (''Empty values for cron '' @ field_name @ '' field'')))
       else Some (Ok values))"

record CronMatcher =
  minutes :: "nat set"
  hours :: "nat set"
  days_of_month :: "nat set"
  months :: "nat set"
  days_of_week :: "nat set"

definition CronMatcher_parse :: "bool \<Rightarrow> string \<Rightarrow> CronMatcher run" where
  "CronMatcher_parse oc expr =
     (case split_whitespace expr of
        [p0, p1, p2, p3, p4] \<Rightarrow>
          bind_run (parse_cron_field oc p0 0 59 ''minute'') (\<lambda>mi.
          bind_run (parse_cron_field oc p1 0 23 ''hour'') (\<lambda>ho.
          bind_run (parse_cron_field oc p2 1 31 ''day-of-month'') (\<lambda>dm.
          bind_run (parse_cron_field oc p3 1 12 ''month'') (\<lambda>mo.
          bind_run (parse_cron_field oc p4 0 7 ''day-of-week'') (\<lambda>raw_dow.
          Some (Ok \<lparr>minutes = mi, hours = ho, days_of_month = dm, months = mo,
                    days_of_week = (\<lambda>d. if d = 7 then 0 else d) ` raw_dow\<rparr>))))))
      | _ \<Rightarrow> Some (Err (InvalidExpression
          (''Cron expression must contain exactly 5 space-separated fields (minute, hour, dom, month, dow), found: ''
            @ [CHR 0x27] @ expr @ [CHR 0x27]))))"

definition day_matches :: "calendar \<Rightarrow> CronMatcher \<Rightarrow> int \<Rightarrow> bool" where
  "day_matches cal m day \<longleftrightarrow>
     cal_month cal day \<in> months m \<and> cal_day cal day \<in> days_of_month m
     \<and> num_days_from_sunday (cal_weekday cal day) \<in> days_of_week m"

definition MAX_CRON_LOOKAHEAD_DAYS :: int where
  "MAX_CRON_LOOKAHEAD_DAYS = 366 * 5"

text \<open>Seconds and nanoseconds set to zero, plus one minute; in UTC this never fails.\<close>

definition next_minute :: "int \<Rightarrow> int" where
  "next_minute t = t - t mod MINUTE + MINUTE"

text \<open>\<open>dt.with_minute(0)\<close> on a wall clock.\<close>

definition with_minute_0 :: "int \<Rightarrow> int" where
  "with_minute_0 t = t - int (minute_of t) * MINUTE"

lemma units_pos [simp]:
  "0 < SECOND" "0 < MINUTE" "0 < HOUR" "0 < DAY" "MINUTE \<noteq> 0" "HOUR \<noteq> 0" "DAY \<noteq> 0"
  by (simp_all add: time_units)

lemma minute_of_bound: "int (minute_of t) * MINUTE < HOUR" "int (minute_of t) * MINUTE \<le> t mod HOUR"
proof -
  have "0 \<le> t mod HOUR div MINUTE" by (simp add: pos_imp_zdiv_nonneg_iff)
  then have e: "int (minute_of t) = t mod HOUR div MINUTE" by (simp add: minute_of_def)
  have "t mod HOUR div MINUTE * MINUTE = t mod HOUR - t mod HOUR mod MINUTE"
    by (rule minus_mod_eq_div_mult [symmetric])
  moreover have "0 \<le> t mod HOUR mod MINUTE" "t mod HOUR < HOUR" by simp_all
  ultimately show "int (minute_of t) * MINUTE < HOUR" "int (minute_of t) * MINUTE \<le> t mod HOUR"
    unfolding e by linarith+
qed

lemma with_minute_0_greater: "t < with_minute_0 (t + HOUR)"
  using minute_of_bound(1) [of "t + HOUR"] by (simp add: with_minute_0_def)

lemma next_day_greater: "t < and_time (date_naive t + 1) 0"
proof -
  have "t = date_naive t * DAY + t mod DAY" by (simp add: date_naive_def)
  moreover have "t mod DAY < DAY" by simp
  ultimately have "t < date_naive t * DAY + DAY" by linarith
  then show ?thesis by (simp add: and_time_def distrib_right)
qed

function cron_loop_utc :: "calendar \<Rightarrow> CronMatcher \<Rightarrow> int \<Rightarrow> int \<Rightarrow> int option" where
  "cron_loop_utc cal m limit current =
     (if current < limit then
        if day_matches cal m (date_naive current) \<and> hour_of current \<in> hours m
           \<and> minute_of current \<in> minutes m then Some current
        else if \<not> day_matches cal m (date_naive current) then
          cron_loop_utc cal m limit (and_time (date_naive current + 1) 0)
        else if hour_of current \<notin> hours m then
          cron_loop_utc cal m limit (with_minute_0 (current + HOUR))
        else cron_loop_utc cal m limit (current + MINUTE)
      else None)"
  by pat_completeness auto

termination cron_loop_utc
  by (relation "measure (\<lambda>(cal, m, limit, current). nat (limit - current))")
    (use next_day_greater with_minute_0_greater units_pos(2) in \<open>auto simp: zless_nat_eq_int_zless\<close>)

declare cron_loop_utc.simps [simp del]

definition find_next_utc ::
  "calendar \<Rightarrow> CronMatcher \<Rightarrow> instant \<Rightarrow> (SchedulerError, instant) result" where
  "find_next_utc cal m from_utc =
     (let start = next_minute from_utc; limit = start + MAX_CRON_LOOKAHEAD_DAYS * DAY in
      ok_or (InvalidExpression ''No matching future time found for cron expression within horizon'')
        (cron_loop_utc cal m limit start))"

text \<open>chrono's \<open>with_second\<close>, \<open>with_nanosecond\<close> and \<open>with_minute\<close> on a local time change the wall clock
  and look up the instant that has it; a wall clock that is not unique gives None.\<close>

definition with_local :: "zone \<Rightarrow> (int \<Rightarrow> int) \<Rightarrow> instant \<Rightarrow> instant option" where
  "with_local z f t = (case from_local z (f (to_local z t)) of Single dt \<Rightarrow> Some dt | _ \<Rightarrow> None)"

definition with_second_0 :: "int \<Rightarrow> int" where
  "with_second_0 t = t - t mod MINUTE div SECOND * SECOND"

definition with_nanosecond_0 :: "int \<Rightarrow> int" where
  "with_nanosecond_0 t = t - t mod SECOND"

text \<open>In local time the instant after a jump to midnight is chrono's, so nothing bounds the number
  of rounds: None is a loop that does not end, \<open>Some None\<close> the panic of \<open>with_minute(0).unwrap()\<close> at
  a wall clock that is not unique.\<close>

partial_function (option) cron_loop_local ::
  "calendar \<Rightarrow> zone \<Rightarrow> CronMatcher \<Rightarrow> instant \<Rightarrow> instant \<Rightarrow> instant option option option" where
  "cron_loop_local cal z m limit current =
     (if current < limit then
        if day_matches cal m (date_naive (to_local z current))
           \<and> hour_of (to_local z current) \<in> hours m
           \<and> minute_of (to_local z current) \<in> minutes m then Some (Some (Some current))
        else if \<not> day_matches cal m (date_naive (to_local z current)) then
          (case from_local z (and_time (date_naive (to_local z current) + 1) 0) of
             Single dt \<Rightarrow> cron_loop_local cal z m limit dt
           | Ambiguous _ _ \<Rightarrow> cron_loop_local cal z m limit (current + HOUR)
           | NoLocal \<Rightarrow> cron_loop_local cal z m limit (current + HOUR))
        else if hour_of (to_local z current) \<notin> hours m then
          (case with_local z with_minute_0 (current + HOUR) of
             Some dt \<Rightarrow> cron_loop_local cal z m limit dt
           | None \<Rightarrow> Some None)
        else cron_loop_local cal z m limit (current + MINUTE)
      else Some (Some None))"

definition find_next_local ::
  "calendar \<Rightarrow> zone \<Rightarrow> CronMatcher \<Rightarrow> instant \<Rightarrow> instant run option" where
  "find_next_local cal z m from_utc =
     (let start = (case Option.bind (with_local z with_second_0 from_utc)
                      (with_local z with_nanosecond_0) of
                     Some dt \<Rightarrow> dt | None \<Rightarrow> from_utc) + MINUTE;
          limit = start + MAX_CRON_LOOKAHEAD_DAYS * DAY in
      map_option (map_option (ok_or (InvalidExpression
        ''No matching future local time found for cron expression within horizon'')))
      (cron_loop_local cal z m limit start))"

subsection \<open>The next run\<close>

definition weekly_error :: "SchedulerError" where
  "weekly_error = InvalidSchedule ''Invalid local time for weekly schedule''"

text \<open>A daily time in local time: a wall clock that occurs twice is taken at its first
  occurrence, one that does not occur is moved by an hour.\<close>

definition daily_local :: "zone \<Rightarrow> int \<Rightarrow> (SchedulerError, instant) result" where
  "daily_local z candidate =
     (case from_local z candidate of
        Single dt \<Rightarrow> Ok dt
      | Ambiguous earliest _ \<Rightarrow> Ok earliest
      | NoLocal \<Rightarrow>
          (case from_local z (candidate + HOUR) of
             Single dt \<Rightarrow> Ok dt
           | _ \<Rightarrow> Err (InvalidSchedule ''Ambiguous DST transition'')))"

fun weekly_loop_utc ::
  "calendar \<Rightarrow> Weekday \<Rightarrow> int \<Rightarrow> instant \<Rightarrow> nat \<Rightarrow> int \<Rightarrow> instant" where
  "weekly_loop_utc cal wd tod from_utc 0 day = and_time day tod"
| "weekly_loop_utc cal wd tod from_utc (Suc n) day =
     (if cal_weekday cal day = wd \<and> and_time day tod > from_utc then and_time day tod
      else weekly_loop_utc cal wd tod from_utc n (day + 1))"

fun weekly_loop_local ::
  "calendar \<Rightarrow> zone \<Rightarrow> Weekday \<Rightarrow> int \<Rightarrow> instant \<Rightarrow> nat \<Rightarrow> int
     \<Rightarrow> (SchedulerError, instant) result" where
  "weekly_loop_local cal z wd tod from_utc 0 day =
     (case from_local z (and_time day tod) of Single dt \<Rightarrow> Ok dt | _ \<Rightarrow> Err weekly_error)"
| "weekly_loop_local cal z wd tod from_utc (Suc n) day =
     (if cal_weekday cal day = wd then
        (case from_local z (and_time day tod) of
           Single dt \<Rightarrow>
             if dt > from_utc then Ok dt
             else weekly_loop_local cal z wd tod from_utc n (day + 1)
         | _ \<Rightarrow> weekly_loop_local cal z wd tod from_utc n (day + 1))
      else weekly_loop_local cal z wd tod from_utc n (day + 1))"

definition unwrap_time :: "int option \<Rightarrow> (int \<Rightarrow> 'a option) \<Rightarrow> 'a option" where
  "unwrap_time t f = (case t of None \<Rightarrow> None | Some tod \<Rightarrow> f tod)"

definition calculate_next_run ::
  "bool \<Rightarrow> calendar \<Rightarrow> zone \<Rightarrow> ScheduleType \<Rightarrow> string \<Rightarrow> TimezoneStrategy \<Rightarrow> instant
     \<Rightarrow> instant run option" where
  "calculate_next_run oc cal z schedule_type expression timezone from_utc =
     (case schedule_type of
        Interval \<Rightarrow>
          Some (bind_run (parse_interval_seconds oc expression) (\<lambda>secs.
            if from_utc + secs * SECOND \<le> cal_max cal then Some (Ok (from_utc + secs * SECOND))
            else None))
      | Daily \<Rightarrow>
          Some (bind_run (Some (parse_daily_time expression)) (\<lambda>(target_h, target_m).
          unwrap_time (from_hms_opt target_h target_m) (\<lambda>target_time.
            (case timezone of
               Utc \<Rightarrow>
                 let target_dt = and_time (date_naive from_utc) target_time in
                 if target_dt > from_utc then Some (Ok target_dt)
                 else Some (Ok (and_time (date_naive from_utc + 1) target_time))
             | Local \<Rightarrow>
                 let from_date = date_naive (to_local z from_utc) in
                 Some (bind_res (daily_local z (and_time from_date target_time)) (\<lambda>cand.
                   if cand > from_utc then Ok cand
                   else daily_local z (and_time (from_date + 1) target_time)))))))
      | Weekly \<Rightarrow>
          Some (bind_run (Some (parse_weekly_time expression)) (\<lambda>(wd, target_h, target_m).
          unwrap_time (from_hms_opt target_h target_m) (\<lambda>target_time.
            (case timezone of
               Utc \<Rightarrow> Some (Ok (weekly_loop_utc cal wd target_time from_utc 7 (date_naive from_utc)))
             | Local \<Rightarrow> Some (weekly_loop_local cal z wd target_time from_utc 7
                 (date_naive (to_local z from_utc)))))))
      | Cron \<Rightarrow>
          (case CronMatcher_parse oc expression of
             None \<Rightarrow> Some None
           | Some (Inl e) \<Rightarrow> Some (Some (Err e))
           | Some (Inr matcher) \<Rightarrow>
               (case timezone of
                  Utc \<Rightarrow> Some (Some (find_next_utc cal matcher from_utc))
                | Local \<Rightarrow> find_next_local cal z matcher from_utc)))"

definition validate_expression :: "bool \<Rightarrow> ScheduleType \<Rightarrow> string \<Rightarrow> unit run" where
  "validate_expression oc schedule_type expr =
     (case schedule_type of
        Interval \<Rightarrow>
          bind_run (parse_interval_seconds oc expr) (\<lambda>secs.
            if secs < 60 then
              Some (Err (InvalidExpression ''Minimum interval is 60 seconds (1 minute)''))
            else Some (Ok ()))
      | Daily \<Rightarrow> bind_run (Some (parse_daily_time expr)) (\<lambda>_. Some (Ok ()))
      | Weekly \<Rightarrow> bind_run (Some (parse_weekly_time expr)) (\<lambda>_. Some (Ok ()))
      | Cron \<Rightarrow> bind_run (CronMatcher_parse oc expr) (\<lambda>_. Some (Ok ())))"

subsection \<open>Cron in UTC finds the first match\<close>

definition cron_fires :: "calendar \<Rightarrow> CronMatcher \<Rightarrow> instant \<Rightarrow> bool" where
  "cron_fires cal m t \<longleftrightarrow>
     t mod MINUTE = 0 \<and> day_matches cal m (date_naive t)
     \<and> hour_of t \<in> hours m \<and> minute_of t \<in> minutes m"

lemma div_same:
  fixes t v h :: int
  assumes "0 < h" "t \<le> v" "v < (t div h + 1) * h"
  shows "v div h = t div h"
proof -
  have "t div h \<le> v div h" using assms by (simp add: zdiv_mono1)
  moreover have "v div h < t div h + 1"
  proof (rule ccontr)
    assume "\<not> v div h < t div h + 1"
    then have "(t div h + 1) * h \<le> v div h * h" using assms(1) by (simp add: mult_right_mono)
    moreover have "v div h * h \<le> v"
      using assms(1) minus_mod_eq_div_mult [of v h] pos_mod_sign [of h v] by linarith
    ultimately show False using assms(3) by linarith
  qed
  ultimately show ?thesis by simp
qed

lemma DAY_HOUR: "DAY = HOUR * 24" and HOUR_MINUTE: "HOUR = MINUTE * 60"
  by (simp_all add: time_units)

lemma hour_of_div: "hour_of t = nat (t div HOUR mod 24)"
proof -
  have "t mod DAY div HOUR = t div HOUR mod 24"
    unfolding DAY_HOUR by (simp add: zmod_zmult2_eq)
  then show ?thesis by (simp add: hour_of_def)
qed

lemma minute_of_div: "minute_of t = nat (t div MINUTE mod 60)"
proof -
  have "t mod HOUR div MINUTE = t div MINUTE mod 60"
    unfolding HOUR_MINUTE by (simp add: zmod_zmult2_eq)
  then show ?thesis by (simp add: minute_of_def)
qed

lemma date_naive_div: "date_naive t = t div HOUR div 24"
  unfolding date_naive_def DAY_HOUR by (simp add: zdiv_zmult2_eq)

lemma same_day:
  assumes "t \<le> v" "v < and_time (date_naive t + 1) 0"
  shows "date_naive v = date_naive t"
  using div_same [of DAY t v] assms by (simp add: date_naive_def and_time_def)

lemma same_hour:
  assumes "t \<le> v" "v < (t div HOUR + 1) * HOUR"
  shows "hour_of v = hour_of t" and "date_naive v = date_naive t"
  using div_same [of HOUR t v] assms by (simp_all add: hour_of_div date_naive_div)

lemma with_minute_0_aligned:
  assumes "t mod MINUTE = 0"
  shows "with_minute_0 (t + HOUR) = (t div HOUR + 1) * HOUR"
proof -
  have "t mod HOUR mod MINUTE = 0"
    using assms unfolding HOUR_MINUTE by (simp add: mod_mod_cancel)
  then have "t mod HOUR div MINUTE * MINUTE = t mod HOUR"
    using minus_mod_eq_div_mult [of "t mod HOUR" MINUTE] by simp
  moreover have "0 \<le> t mod HOUR div MINUTE" by (simp add: pos_imp_zdiv_nonneg_iff)
  ultimately have "int (minute_of (t + HOUR)) * MINUTE = t mod HOUR"
    by (simp add: minute_of_def)
  moreover have "t = t div HOUR * HOUR + t mod HOUR" by simp
  ultimately show ?thesis
    unfolding with_minute_0_def by (simp add: distrib_right minus_mod_eq_div_mult)
qed

lemma aligned_steps:
  "and_time d 0 mod MINUTE = 0" "(k * HOUR) mod MINUTE = 0" "next_minute t mod MINUTE = 0"
proof -
  have "MINUTE dvd HOUR" "MINUTE dvd DAY" by (simp_all add: DAY_HOUR HOUR_MINUTE mult.assoc)
  then show "and_time d 0 mod MINUTE = 0" "(k * HOUR) mod MINUTE = 0"
    by (simp_all add: and_time_def)
  show "next_minute t mod MINUTE = 0"
    by (simp add: next_minute_def minus_mod_eq_mult_div)
qed

lemma aligned_in_minute:
  assumes "t mod MINUTE = 0" "v mod MINUTE = 0" "t \<le> v" "v < t + MINUTE"
  shows "v = t"
proof -
  have "t = t div MINUTE * MINUTE" "v = v div MINUTE * MINUTE"
    using assms(1,2) by (metis add.right_neutral div_mult_mod_eq)+
  moreover have "v div MINUTE = t div MINUTE"
    using assms(3,4) calculation(1) by (intro div_same) (simp_all add: distrib_right)
  ultimately show ?thesis by metis
qed

definition first_fire :: "(int \<Rightarrow> bool) \<Rightarrow> int \<Rightarrow> int \<Rightarrow> int option \<Rightarrow> bool" where
  "first_fire P lo hi r =
     (case r of
        Some u \<Rightarrow> lo \<le> u \<and> u < hi \<and> P u \<and> (\<forall>v. lo \<le> v \<and> v < u \<longrightarrow> \<not> P v)
      | None \<Rightarrow> \<forall>v. lo \<le> v \<and> v < hi \<longrightarrow> \<not> P v)"

lemma first_fire_skip:
  assumes "lo \<le> mid" "\<And>v. lo \<le> v \<Longrightarrow> v < mid \<Longrightarrow> \<not> P v" "first_fire P mid hi r"
  shows "first_fire P lo hi r"
  using assms unfolding first_fire_def by (cases r) (auto, (meson not_less order.trans)+)

lemma cron_loop_utc_first:
  "current mod MINUTE = 0 \<Longrightarrow>
     first_fire (cron_fires cal m) current limit (cron_loop_utc cal m limit current)"
proof (induction cal m limit current rule: cron_loop_utc.induct)
  case (1 cal m limit current)
  let ?day = "day_matches cal m (date_naive current)"
  let ?hit = "?day \<and> hour_of current \<in> hours m \<and> minute_of current \<in> minutes m"
  consider "limit \<le> current" | "current < limit" "?hit"
    | (day) "current < limit" "\<not> ?hit" "\<not> ?day"
    | (hour) "current < limit" "\<not> ?hit" "?day" "hour_of current \<notin> hours m"
    | (minute) "current < limit" "\<not> ?hit" "?day" "hour_of current \<in> hours m" by fastforce
  then show ?case
  proof cases
    case 1
    then show ?thesis by (auto simp: cron_loop_utc.simps [of cal m limit current] first_fire_def)
  next
    case 2
    then show ?thesis using "1.prems"
      by (auto simp: cron_loop_utc.simps [of cal m limit current] first_fire_def cron_fires_def)
  next
    case day
    have "\<not> cron_fires cal m v" if "current \<le> v" "v < and_time (date_naive current + 1) 0" for v
      using same_day [OF that] day(3) by (simp add: cron_fires_def)
    then show ?thesis
      using first_fire_skip [OF less_imp_le [OF next_day_greater]] "1.IH"(1) [OF day] aligned_steps(1) day
      by (simp add: cron_loop_utc.simps [of cal m limit current])
  next
    case hour
    note mid = with_minute_0_aligned [OF "1.prems"]
    have "\<not> cron_fires cal m v" if "current \<le> v" "v < with_minute_0 (current + HOUR)" for v
      using same_hour [OF that [unfolded mid]] hour(4) by (simp add: cron_fires_def)
    then show ?thesis
      using first_fire_skip [OF less_imp_le [OF with_minute_0_greater [of current]]]
        "1.IH"(2) [OF hour(1,2) _ hour(4)] aligned_steps(2) hour
      by (simp add: cron_loop_utc.simps [of cal m limit current] mid)
  next
    case minute
    have "\<not> cron_fires cal m v" if "current \<le> v" "v < current + MINUTE" for v
      using aligned_in_minute [OF "1.prems" _ that] minute by (auto simp: cron_fires_def)
    moreover have "(current + MINUTE) mod MINUTE = 0" using "1.prems" by simp
    ultimately show ?thesis
      using first_fire_skip [of current "current + MINUTE"] "1.IH"(3) [OF minute(1,2)] minute
      by (simp add: cron_loop_utc.simps [of cal m limit current] less_imp_le)
  qed
qed

subsection \<open>Daily and weekly schedules\<close>

fun next_weekday :: "Weekday \<Rightarrow> Weekday" where
  "next_weekday Mon = Tue" | "next_weekday Tue = Wed" | "next_weekday Wed = Thu"
| "next_weekday Thu = Fri" | "next_weekday Fri = Sat" | "next_weekday Sat = Sun"
| "next_weekday Sun = Mon"

definition weekdays_cycle :: "calendar \<Rightarrow> bool" where
  "weekdays_cycle cal \<longleftrightarrow> (\<forall>d. cal_weekday cal (d + 1) = next_weekday (cal_weekday cal d))"

lemma weekdays_add:
  "weekdays_cycle cal \<Longrightarrow> cal_weekday cal (d + int n) = (next_weekday ^^ n) (cal_weekday cal d)"
proof (induction n)
  case (Suc n)
  have "cal_weekday cal (d + int (Suc n)) = cal_weekday cal ((d + int n) + 1)"
    by (simp add: algebra_simps)
  then show ?case using Suc by (simp add: weekdays_cycle_def)
qed simp

lemma next_weekday_orbit: "\<exists>k < 7. (next_weekday ^^ k) w = w'"
proof -
  have "w' \<in> (\<lambda>k. (next_weekday ^^ k) w) ` {0, 1, 2, 3, 4, 5, 6 :: nat}"
    by (cases w; cases w') (simp_all add: eval_nat_numeral)
  then obtain k where "k \<in> {0, 1, 2, 3, 4, 5, 6 :: nat}" "w' = (next_weekday ^^ k) w" by blast
  then show ?thesis by (intro exI [of _ k]) auto
qed

lemma next_weekday_7: "(next_weekday ^^ 7) w = w"
  by (cases w) (simp_all add: eval_nat_numeral)

lemma from_hms_opt_bounds:
  "from_hms_opt h m = Some tod \<Longrightarrow> 0 \<le> tod \<and> tod < DAY"
proof -
  assume "from_hms_opt h m = Some tod"
  then have "h < 24" "m < 60" and tod: "tod = int h * HOUR + int m * MINUTE"
    by (auto simp: from_hms_opt_def split: if_splits)
  then show ?thesis by (simp add: time_units)
qed

lemma and_time_parts:
  assumes "0 \<le> tod" "tod < DAY"
  shows "date_naive (and_time d tod) = d" and "and_time d tod mod DAY = tod"
  using assms by (simp_all add: and_time_def date_naive_def)

lemma and_time_collapse: "and_time (date_naive t) (t mod DAY) = t"
  by (simp add: and_time_def date_naive_def)

lemma and_time_mono:
  assumes "0 \<le> tod" "0 \<le> tod'" "tod < DAY" "d < d'"
  shows "and_time d tod < and_time d' tod'"
proof -
  have "(d + 1) * DAY \<le> d' * DAY" using assms(4) by (simp add: mult_right_mono)
  then show ?thesis using assms by (simp add: and_time_def distrib_right)
qed

lemma later_day: "\<lbrakk>date_naive t < d; 0 \<le> tod\<rbrakk> \<Longrightarrow> t < and_time d tod"
  using and_time_mono [of "t mod DAY" tod "date_naive t" d] by (simp add: and_time_collapse)

text \<open>The first day at or after that of \<open>t\<close> whose time of day \<open>tod\<close> is after \<open>t\<close> and that the
  predicate accepts gives the first instant.\<close>

lemma first_by_days:
  assumes tod: "0 \<le> tod" "tod < DAY"
    and acc: "D (date_naive t + int i)" "t < and_time (date_naive t + int i) tod"
    and none: "\<And>j. j < i \<Longrightarrow> \<not> (D (date_naive t + int j) \<and> t < and_time (date_naive t + int j) tod)"
    and v: "t < v" "v < and_time (date_naive t + int i) tod"
  shows "\<not> (v mod DAY = tod \<and> D (date_naive v))"
proof
  assume *: "v mod DAY = tod \<and> D (date_naive v)"
  then have ve: "v = and_time (date_naive v) tod" using and_time_collapse [of v] by simp
  have "date_naive t \<le> date_naive v"
    using v(1) by (simp add: date_naive_def zdiv_mono1)
  then obtain j where j: "date_naive v = date_naive t + int j"
    by (metis zle_iff_zadd)
  have "j < i"
  proof (rule ccontr)
    assume "\<not> j < i"
    then have "(date_naive t + int i) * DAY \<le> (date_naive t + int j) * DAY"
      by (simp add: mult_right_mono)
    then have "and_time (date_naive t + int i) tod \<le> and_time (date_naive t + int j) tod"
      by (simp add: and_time_def)
    then show False using v(2) ve j by simp
  qed
  then show False using none [of j] * v(1) ve j by simp
qed

lemma weekly_loop_utc_spec:
  "\<exists>i \<le> n. weekly_loop_utc cal wd tod t n d = and_time (d + int i) tod
     \<and> (\<forall>j < i. \<not> (cal_weekday cal (d + int j) = wd \<and> t < and_time (d + int j) tod))
     \<and> (i < n \<longrightarrow> cal_weekday cal (d + int i) = wd \<and> t < and_time (d + int i) tod)"
proof (induction n arbitrary: d)
  case (Suc n)
  show ?case
  proof (cases "cal_weekday cal d = wd \<and> t < and_time d tod")
    case True
    then show ?thesis by (intro exI [of _ 0]) simp
  next
    case False
    from Suc.IH [of "d + 1"] obtain i where i: "i \<le> n"
      "weekly_loop_utc cal wd tod t n (d + 1) = and_time (d + int (Suc i)) tod"
      "\<forall>j < i. \<not> (cal_weekday cal (d + int (Suc j)) = wd \<and> t < and_time (d + int (Suc j)) tod)"
      "i < n \<longrightarrow> cal_weekday cal (d + int (Suc i)) = wd \<and> t < and_time (d + int (Suc i)) tod"
      by (auto simp: algebra_simps)
    have "\<not> (cal_weekday cal (d + int j) = wd \<and> t < and_time (d + int j) tod)" if "j < Suc i" for j
      using i(3) False that by (cases j) auto
    moreover have "weekly_loop_utc cal wd tod t (Suc n) d = and_time (d + int (Suc i)) tod"
      using i(2) False by (simp only: weekly_loop_utc.simps if_False)
    ultimately show ?thesis using i(1,4) by (intro exI [of _ "Suc i"]) simp
  qed
qed simp

lemma weekly_utc_accepted:
  assumes "weekdays_cycle cal" "0 \<le> tod"
  shows "\<exists>i. weekly_loop_utc cal wd tod t 7 (date_naive t) = and_time (date_naive t + int i) tod
     \<and> cal_weekday cal (date_naive t + int i) = wd \<and> t < and_time (date_naive t + int i) tod
     \<and> (\<forall>j < i. \<not> (cal_weekday cal (date_naive t + int j) = wd
                   \<and> t < and_time (date_naive t + int j) tod))"
proof -
  let ?d = "date_naive t"
  from weekly_loop_utc_spec [of 7 cal wd tod t ?d] obtain i where i: "i \<le> 7"
    "weekly_loop_utc cal wd tod t 7 ?d = and_time (?d + int i) tod"
    "\<forall>j < i. \<not> (cal_weekday cal (?d + int j) = wd \<and> t < and_time (?d + int j) tod)"
    "i < 7 \<longrightarrow> cal_weekday cal (?d + int i) = wd \<and> t < and_time (?d + int i) tod" by blast
  show ?thesis
  proof (cases "i < 7")
    case False
    then have i7: "i = 7" using i(1) by simp
    obtain k where k: "k < 7" "cal_weekday cal (?d + int k) = wd"
      using next_weekday_orbit [of "cal_weekday cal ?d" wd] weekdays_add [OF assms(1), of ?d] by auto
    then have "\<not> t < and_time (?d + int k) tod" using i(3) i7 by blast
    then have "k = 0" using later_day [of t "?d + int k" tod] assms(2) by (cases k) auto
    then have "cal_weekday cal (?d + int 7) = wd"
      using k(2) weekdays_add [OF assms(1), of ?d 7] next_weekday_7 by simp
    moreover have "t < and_time (?d + int 7) tod" using assms(2) by (intro later_day) simp_all
    ultimately show ?thesis using i(2,3) i7 by blast
  qed (use i in blast)
qed

subsection \<open>Properties\<close>

text \<open>When a schedule is due, in UTC.\<close>

definition utc_fires :: "bool \<Rightarrow> calendar \<Rightarrow> ScheduleType \<Rightarrow> string \<Rightarrow> instant \<Rightarrow> bool" where
  "utc_fires oc cal st expr t =
     (case st of
        Interval \<Rightarrow> False
      | Daily \<Rightarrow>
          (case parse_daily_time expr of
             Inl _ \<Rightarrow> False
           | Inr (h, m) \<Rightarrow> from_hms_opt h m = Some (t mod DAY))
      | Weekly \<Rightarrow>
          (case parse_weekly_time expr of
             Inl _ \<Rightarrow> False
           | Inr (wd, h, m) \<Rightarrow>
               from_hms_opt h m = Some (t mod DAY) \<and> cal_weekday cal (date_naive t) = wd)
      | Cron \<Rightarrow>
          (case CronMatcher_parse oc expr of
             Some (Inr m) \<Rightarrow> cron_fires cal m t
           | _ \<Rightarrow> False))"

definition first_after :: "(instant \<Rightarrow> bool) \<Rightarrow> instant \<Rightarrow> instant \<Rightarrow> bool" where
  "first_after P t u \<longleftrightarrow> t < u \<and> P u \<and> (\<forall>v. t < v \<and> v < u \<longrightarrow> \<not> P v)"

lemma next_daily_first:
  assumes "parse_daily_time expr = Inr (h, m)" "from_hms_opt h m = Some tod"
  shows "first_after (utc_fires oc cal Daily expr) t
    (if t < and_time (date_naive t) tod then and_time (date_naive t) tod
     else and_time (date_naive t + 1) tod)"
proof -
  have P: "utc_fires oc cal Daily expr v \<longleftrightarrow> v mod DAY = tod" for v
    using assms by (auto simp: utc_fires_def)
  note tod = from_hms_opt_bounds [OF assms(2)]
  let ?i = "if t < and_time (date_naive t) tod then 0 else 1 :: nat"
  have "t < and_time (date_naive t + int ?i) tod"
    using later_day [of t "date_naive t + 1" tod] tod by simp
  moreover have "\<not> v mod DAY = tod"
    if "t < v" "v < and_time (date_naive t + int ?i) tod" for v
    using first_by_days [where D = "\<lambda>_. True" and i = ?i and t = t and tod = tod and v = v]
      tod that calculation by (simp split: if_splits)
  ultimately show ?thesis
    unfolding first_after_def P using and_time_parts(2) tod by (simp split: if_splits)
qed

lemma next_weekly_first:
  assumes "parse_weekly_time expr = Inr (wd, h, m)" "from_hms_opt h m = Some tod"
    and "weekdays_cycle cal"
  shows "first_after (utc_fires oc cal Weekly expr) t
    (weekly_loop_utc cal wd tod t 7 (date_naive t))"
proof -
  have P: "utc_fires oc cal Weekly expr v \<longleftrightarrow> v mod DAY = tod \<and> cal_weekday cal (date_naive v) = wd" for v
    using assms by (auto simp: utc_fires_def)
  note tod = from_hms_opt_bounds [OF assms(2)]
  from weekly_utc_accepted [OF assms(3), of tod wd t] tod obtain i where
    i: "weekly_loop_utc cal wd tod t 7 (date_naive t) = and_time (date_naive t + int i) tod"
      "cal_weekday cal (date_naive t + int i) = wd" "t < and_time (date_naive t + int i) tod"
      "\<forall>j < i. \<not> (cal_weekday cal (date_naive t + int j) = wd \<and> t < and_time (date_naive t + int j) tod)"
    by blast
  have "\<not> (v mod DAY = tod \<and> cal_weekday cal (date_naive v) = wd)"
    if "t < v" "v < and_time (date_naive t + int i) tod" for v
    by (rule first_by_days [where D = "\<lambda>d. cal_weekday cal d = wd" and i = i and t = t])
      (use tod i that in simp_all)
  moreover have "date_naive (and_time (date_naive t + int i) tod) = date_naive t + int i"
    "and_time (date_naive t + int i) tod mod DAY = tod"
    using and_time_parts tod by simp_all
  ultimately show ?thesis
    unfolding first_after_def P i(1) using i(2,3) by simp
qed

lemma next_cron_first:
  assumes "CronMatcher_parse oc expr = Some (Inr m)" "find_next_utc cal m t = Inr u"
  shows "first_after (utc_fires oc cal Cron expr) t u"
proof -
  have P: "utc_fires oc cal Cron expr = cron_fires cal m" using assms(1) by (auto simp: utc_fires_def)
  have ff: "first_fire (cron_fires cal m) (next_minute t)
      (next_minute t + MAX_CRON_LOOKAHEAD_DAYS * DAY) (Some u)"
    using cron_loop_utc_first [OF aligned_steps(3), of cal m t
        "next_minute t + MAX_CRON_LOOKAHEAD_DAYS * DAY"] assms(2)
    by (simp add: find_next_utc_def Let_def)
  have later: "t < next_minute t" using pos_mod_bound [of MINUTE t] by (simp add: next_minute_def)
  have "next_minute t \<le> v" if "t < v" "cron_fires cal m v" for v
  proof (rule ccontr)
    assume "\<not> next_minute t \<le> v"
    then have "v < t - t mod MINUTE + MINUTE" by (simp add: next_minute_def)
    moreover have "t - t mod MINUTE \<le> v"
      using that(1) pos_mod_sign [OF units_pos(2), of t] by linarith
    moreover have "(t - t mod MINUTE) mod MINUTE = 0" by (simp add: minus_mod_eq_mult_div)
    moreover have "v mod MINUTE = 0" using that(2) by (simp add: cron_fires_def)
    ultimately have "v = t - t mod MINUTE" by (metis aligned_in_minute)
    then show False using that(1) pos_mod_sign [OF units_pos(2), of t] by linarith
  qed
  then show ?thesis using ff later unfolding first_after_def P first_fire_def
    by (auto dest: order.strict_trans2)
qed

text \<open>C7. The next run of a daily, weekly or cron schedule in UTC, whenever one is returned, is the
  first instant after the reference time at which the schedule is due: cron skips days and
  hours without missing a match, and the weekly search finds the weekday. The calendar is only
  assumed to cycle through the weekdays.\<close>

theorem next_run_utc_first:
  assumes "weekdays_cycle cal" "st \<noteq> Interval"
    and "calculate_next_run oc cal z st expr Utc t = Some (Some (Inr u))"
  shows "first_after (utc_fires oc cal st expr) t u"
proof (cases st)
  case Interval
  then show ?thesis using assms(2) by simp
next
  case Daily
  then obtain h m tod where "parse_daily_time expr = Inr (h, m)" "from_hms_opt h m = Some tod"
    "u = (if t < and_time (date_naive t) tod then and_time (date_naive t) tod
     else and_time (date_naive t + 1) tod)"
    using assms(3) by (auto simp: calculate_next_run_def bind_run_Some_Inr_iff unwrap_time_def Let_def
        split: option.splits if_splits)
  then show ?thesis using next_daily_first Daily by simp
next
  case Weekly
  then obtain wd h m tod where "parse_weekly_time expr = Inr (wd, h, m)" "from_hms_opt h m = Some tod"
    "u = weekly_loop_utc cal wd tod t 7 (date_naive t)"
    using assms(3) by (auto simp: calculate_next_run_def bind_run_Some_Inr_iff unwrap_time_def
        split: option.splits)
  then show ?thesis using next_weekly_first assms(1) Weekly by simp
next
  case Cron
  then obtain m where "CronMatcher_parse oc expr = Some (Inr m)" "find_next_utc cal m t = Inr u"
    using assms(3) by (auto simp: calculate_next_run_def split: option.splits sum.splits)
  then show ?thesis using next_cron_first Cron by simp
qed

definition sample_calendar :: calendar where
  "sample_calendar =
     \<lparr>cal_month = (\<lambda>d. 1 + nat (d div 31 mod 12)), cal_day = (\<lambda>d. 1 + nat (d mod 31)),
      cal_weekday = (\<lambda>d. [Thu, Fri, Sat, Sun, Mon, Tue, Wed] ! nat (d mod 7)),
      cal_max = 8000000000000 * 1000000000\<rparr>"

lemma sample_calendar_cycle: "weekdays_cycle sample_calendar"
proof -
  have "cal_weekday sample_calendar (d + 1) = next_weekday (cal_weekday sample_calendar d)" for d
  proof -
    define r where "r = d mod 7"
    have "(d + 1) mod 7 = (r + 1) mod 7" unfolding r_def by presburger
    moreover have "r \<in> {0, 1, 2, 3, 4, 5, 6}"
      using pos_mod_sign [of 7 d] pos_mod_bound [of 7 d] unfolding r_def by auto
    ultimately show ?thesis unfolding sample_calendar_def by (auto simp flip: r_def)
  qed
  then show ?thesis by (simp add: weekdays_cycle_def)
qed

definition sample_zone :: zone where
  \<comment> \<open>one hour ahead of UTC until 01:00 UTC on day 0, then UTC: the wall clock from 01:00 to 02:00
     occurs twice\<close>
  "sample_zone =
     \<lparr>to_local = (\<lambda>t. if t < HOUR then t + HOUR else t),
      from_local = (\<lambda>w. if w < HOUR then Single (w - HOUR)
        else if w < 2 * HOUR then Ambiguous (w - HOUR) w else Single w)\<rparr>"

lemmas parse_eval =
  trim_def utf8_chars_ascii is_ws_def ws_chars_def to_lowercase_def lower_char_def parse_u32_def
  parse_unsigned_def is_ascii_digit_def Let_def

lemma parse_sunday: "parse_weekly_time ''sun@03:00'' = Inr (Sun, 3, 0)"
  by (simp add: parse_weekly_time_def parse_daily_time_def parse_weekday_def parse_eval)

theorem next_run_utc_first_witness:
  "\<exists>u. calculate_next_run True sample_calendar sample_zone Weekly ''sun@03:00'' Utc 0
         = Some (Some (Inr u))
     \<and> first_after (utc_fires True sample_calendar Weekly ''sun@03:00'') 0 u"
proof -
  obtain u where u: "calculate_next_run True sample_calendar sample_zone Weekly ''sun@03:00'' Utc 0
      = Some (Some (Inr u))"
    by (simp add: calculate_next_run_def parse_sunday unwrap_time_def from_hms_opt_def)
  from next_run_utc_first [OF sample_calendar_cycle _ u] u show ?thesis by simp
qed

text \<open>The values of a step field.\<close>

lemma cron_steps_values:
  assumes "0 < step" "hi + step < 2 ^ 32" "hi + 1 < n + v" "0 < n"
  shows "cron_steps oc n v step hi = Some {w. v \<le> w \<and> w \<le> hi \<and> step dvd (w - v)}"
  using assms
proof (induction n arbitrary: v)
  case (Suc n)
  show ?case
  proof (cases "v \<le> hi")
    case True
    then have "u32_add oc v step = Some (v + step)" using Suc.prems(2) by (simp add: u32_add_def)
    moreover have "cron_steps oc n (v + step) step hi
        = Some {w. v + step \<le> w \<and> w \<le> hi \<and> step dvd (w - (v + step))}"
      using Suc.IH [of "v + step"] Suc.prems True by simp
    moreover have "insert v {w. v + step \<le> w \<and> w \<le> hi \<and> step dvd (w - (v + step))}
        = {w. v \<le> w \<and> w \<le> hi \<and> step dvd (w - v)}" (is "?A = ?B")
    proof (intro set_eqI iffI)
      fix w
      assume "w \<in> ?A"
      then show "w \<in> ?B"
      proof
        assume "w \<in> {w. v + step \<le> w \<and> w \<le> hi \<and> step dvd (w - (v + step))}"
        moreover from this have "w - v = (w - (v + step)) + step" by simp
        ultimately have "step dvd w - v" by (metis (no_types, lifting) dvd_add dvd_refl mem_Collect_eq)
        then show ?thesis using \<open>w \<in> {w. v + step \<le> w \<and> w \<le> hi \<and> step dvd (w - (v + step))}\<close> by simp
      qed (use True in simp)
    next
      fix w
      assume w: "w \<in> ?B"
      show "w \<in> ?A"
      proof (cases "w = v")
        case False
        then have "v + step \<le> w" using w by (auto dest: dvd_imp_le)
        moreover have "step dvd (w - v) - step" by (rule dvd_diff_nat) (use w in simp_all)
        ultimately show ?thesis using w by simp
      qed simp
    qed
    ultimately show ?thesis using True by simp
  qed auto
qed simp

lemma cron_steps_range:
  "cron_steps oc n v step hi = Some vs \<Longrightarrow> vs \<subseteq> {..hi} \<and> (oc \<longrightarrow> vs \<subseteq> {v..})"
proof (induction n arbitrary: v vs)
  case (Suc n)
  show ?case
  proof (cases "v \<le> hi")
    case True
    then obtain v' ws where *: "u32_add oc v step = Some v'" "cron_steps oc n v' step hi = Some ws"
      "vs = insert v ws"
      using Suc.prems by (auto split: option.splits)
    moreover have "oc \<longrightarrow> v \<le> v'" using *(1) by (auto simp: u32_add_def split: if_splits)
    ultimately show ?thesis using Suc.IH [of v' ws] True by force
  qed (use Suc.prems in auto)
qed simp

lemma cron_item_range:
  assumes "cron_item oc lo hi f item = Some (Inr vs)" "lo \<le> hi"
  shows "vs \<subseteq> {..hi} \<and> (oc \<longrightarrow> vs \<subseteq> {lo..})"
  using assms
  by (auto simp: cron_item_def Let_def bind_res_Inr_iff simp del: cron_steps.simps
      split: if_splits option.splits list.splits dest: cron_steps_range)

lemma cron_items_range:
  "\<lbrakk>cron_items oc lo hi f items acc = Some (Inr vs); lo \<le> hi; acc \<subseteq> {..hi} \<and> (oc \<longrightarrow> acc \<subseteq> {lo..})\<rbrakk>
   \<Longrightarrow> vs \<subseteq> {..hi} \<and> (oc \<longrightarrow> vs \<subseteq> {lo..})"
proof (induction items arbitrary: acc)
  case (Cons a items)
  then obtain ws where ws: "cron_item oc lo hi f a = Some (Inr ws)"
    "cron_items oc lo hi f items (acc \<union> ws) = Some (Inr vs)"
    by (auto simp: bind_run_Some_Inr_iff)
  then show ?case
    using Cons.IH [OF ws(2) Cons.prems(2)] cron_item_range [OF ws(1) Cons.prems(2)] Cons.prems(3)
    by blast
qed simp

lemma parse_cron_field_range:
  assumes "parse_cron_field oc field lo hi f = Some (Inr vs)" "lo \<le> hi"
  shows "vs \<noteq> {} \<and> vs \<subseteq> {..hi} \<and> (oc \<longrightarrow> vs \<subseteq> {lo..})"
  using assms cron_items_range [of oc lo hi f "split_on CHR '','' field" "{}" vs]
  by (auto simp: parse_cron_field_def bind_run_Some_Inr_iff split: if_splits)

text \<open>A cron expression that is accepted has five fields with values, all within the bounds
  of their field: minutes below 60, hours below 24, days of the month from 1 to 31, months from
  1 to 12, and days of the week below 7, Sunday written 7 included. Without overflow checks a
  step close to 2^32 can add the value 0 to the days and months, which no date has.\<close>

theorem cron_parse_in_range:
  assumes "CronMatcher_parse oc expr = Some (Inr m)"
  shows "minutes m \<noteq> {} \<and> minutes m \<subseteq> {..59} \<and> hours m \<noteq> {} \<and> hours m \<subseteq> {..23}
    \<and> days_of_month m \<noteq> {} \<and> days_of_month m \<subseteq> {..31} \<and> (oc \<longrightarrow> days_of_month m \<subseteq> {1..})
    \<and> months m \<noteq> {} \<and> months m \<subseteq> {..12} \<and> (oc \<longrightarrow> months m \<subseteq> {1..})
    \<and> days_of_week m \<noteq> {} \<and> days_of_week m \<subseteq> {..6}"
proof -
  from assms obtain p0 p1 p2 p3 p4 mi ho dm mo raw where
    f: "parse_cron_field oc p0 0 59 ''minute'' = Some (Inr mi)"
      "parse_cron_field oc p1 0 23 ''hour'' = Some (Inr ho)"
      "parse_cron_field oc p2 1 31 ''day-of-month'' = Some (Inr dm)"
      "parse_cron_field oc p3 1 12 ''month'' = Some (Inr mo)"
      "parse_cron_field oc p4 0 7 ''day-of-week'' = Some (Inr raw)"
    and m: "m = \<lparr>minutes = mi, hours = ho, days_of_month = dm, months = mo,
      days_of_week = (\<lambda>d. if d = 7 then 0 else d) ` raw\<rparr>"
    by (auto simp: CronMatcher_parse_def bind_run_Some_Inr_iff split: list.splits)
  have "raw \<noteq> {}" "raw \<subseteq> {..7}" using parse_cron_field_range [OF f(5)] by auto
  then have "(\<lambda>d. if d = 7 then 0 else d) ` raw \<noteq> {}" "(\<lambda>d. if d = 7 then 0 else d) ` raw \<subseteq> {..6}"
    by force+
  moreover note parse_cron_field_range [OF f(1)] parse_cron_field_range [OF f(2)]
    parse_cron_field_range [OF f(3)] parse_cron_field_range [OF f(4)]
  ultimately show ?thesis unfolding m by simp
qed

lemma split_whitespace_ascii:
  "\<forall>c \<in> set s. byte_of c < 128 \<Longrightarrow> split_whitespace s = ws_words (map (\<lambda>c. [c]) s) []"
  by (simp add: split_whitespace_def utf8_chars_ascii)

lemma cron_item_star: "cron_item oc lo hi f ''*'' = Some (Inr {lo..hi})"
  by (simp add: cron_item_def parse_eval)

lemma cron_two_oclock:
  "CronMatcher_parse oc ''0 2 * * *'' =
     Some (Inr \<lparr>minutes = {0}, hours = {2}, days_of_month = {1..31}, months = {1..12},
       days_of_week = (\<lambda>d. if d = 7 then 0 else d) ` {0..7}\<rparr>)"
  by (simp add: CronMatcher_parse_def parse_cron_field_def split_whitespace_ascii is_ws_def
      ws_chars_def cron_item_star) (simp add: cron_item_def parse_eval)

theorem cron_parse_in_range_witness:
  "\<exists>m. CronMatcher_parse True ''0 2 * * *'' = Some (Inr m) \<and> hours m = {2} \<and> days_of_week m \<subseteq> {..6}"
  using cron_parse_in_range [OF cron_two_oclock [of True]] cron_two_oclock by auto

text \<open>Interval expressions that validation lets through or dies on: one whose product exceeds 64
  bits is accepted with a wrong number of seconds when overflow is not checked (247 million
  centuries become 17 hours), and panics when it is; one that ends in a character outside ASCII
  always panics; and one accepted in full can still exceed what the calendar can add, so that
  the calculation of the next run panics.\<close>

theorem interval_expression_faults:
  "parse_interval_seconds False ''213503982334602d'' = Some (Inr 61184)
   \<and> validate_expression False Interval ''213503982334602d'' = Some (Inr ())
   \<and> validate_expression True Interval ''213503982334602d'' = None
   \<and> validate_expression oc Interval [CHR ''5'', CHR 0xC3, CHR 0xA9] = None
   \<and> validate_expression oc Interval ''9000000000000000000'' = Some (Inr ())
   \<and> calculate_next_run oc sample_calendar z Interval ''9000000000000000000'' tz 0 = Some None"
proof -
  have d: "parse_interval_seconds oc ''213503982334602d''
      = map_option Inr (i64_mul oc 213503982334602 86400)" for oc
    by (simp add: parse_interval_seconds_def parse_eval parse_i64_def is_continuation_def)
  have n: "parse_interval_seconds oc ''9000000000000000000'' = Some (Inr 9000000000000000000)"
    by (simp add: parse_interval_seconds_def parse_eval parse_i64_def)
  have u: "parse_interval_seconds oc [CHR ''5'', CHR 0xC3, CHR 0xA9] = None"
    by (simp add: parse_interval_seconds_def trim_def utf8_chars_def utf8_len_def is_ws_def
        ws_chars_def parse_i64_def parse_unsigned_def is_ascii_digit_def is_continuation_def Let_def)
  have "i64_mul False 213503982334602 86400 = Some 61184" "i64_mul True 213503982334602 86400 = None"
    by (simp_all add: i64_mul_def i64_wrap_def)
  then show ?thesis
    by (simp add: validate_expression_def calculate_next_run_def d n u sample_calendar_def SECOND_def)
qed

text \<open>In local time a cron schedule panics when clocks are set back. When the search stands on
  a matching day at an hour that is not selected, and the wall clock at the start of the next
  hour occurs twice, \<open>with_minute(0)\<close> has no answer and its \<open>unwrap\<close> panics.\<close>

theorem cron_local_panics_on_repeated_hour:
  assumes "Option.bind (with_local z with_second_0 t) (with_local z with_nanosecond_0) = Some dt"
    and "day_matches cal m (date_naive (to_local z (dt + MINUTE)))"
    and "hour_of (to_local z (dt + MINUTE)) \<notin> hours m"
    and "from_local z (with_minute_0 (to_local z (dt + MINUTE + HOUR))) = Ambiguous a b"
  shows "find_next_local cal z m t = Some None"
proof -
  have "cron_loop_local cal z m (dt + MINUTE + MAX_CRON_LOOKAHEAD_DAYS * DAY) (dt + MINUTE)
      = Some None"
    using assms(2,3,4)
    by (subst cron_loop_local.simps) (simp add: with_local_def MAX_CRON_LOOKAHEAD_DAYS_def)
  then show ?thesis using assms(1) by (simp add: find_next_local_def Let_def)
qed

theorem cron_local_panics_on_repeated_hour_witness:
  "calculate_next_run True sample_calendar sample_zone Cron ''0 2 * * *'' Local (- HOUR) = Some None"
proof -
  let ?m = "\<lparr>minutes = {0}, hours = {2}, days_of_month = {1..31}, months = {1..12},
       days_of_week = (\<lambda>d. if d = 7 then 0 else d) ` {0..7}\<rparr> :: CronMatcher"
  have "find_next_local sample_calendar sample_zone ?m (- HOUR) = Some None"
  proof (rule cron_local_panics_on_repeated_hour)
    show "Option.bind (with_local sample_zone with_second_0 (- HOUR))
        (with_local sample_zone with_nanosecond_0) = Some (- HOUR)"
      by (simp add: with_local_def sample_zone_def with_second_0_def with_nanosecond_0_def time_units)
    have "num_days_from_sunday Thu \<in> (\<lambda>d. if d = 7 then 0 else d) ` {0..7}"
      by (rule image_eqI [of _ _ 4]) simp_all
    then show "day_matches sample_calendar ?m (date_naive (to_local sample_zone (- HOUR + MINUTE)))"
      by (simp add: day_matches_def sample_calendar_def date_naive_def sample_zone_def time_units)
    show "hour_of (to_local sample_zone (- HOUR + MINUTE)) \<notin> hours ?m"
      by (simp add: hour_of_def sample_zone_def time_units)
    show "from_local sample_zone (with_minute_0 (to_local sample_zone (- HOUR + MINUTE + HOUR)))
        = Ambiguous 0 HOUR"
      by (simp add: with_minute_0_def minute_of_def sample_zone_def time_units)
  qed
  then show ?thesis by (simp add: calculate_next_run_def cron_two_oclock)
qed

text \<open>A weekly schedule in local time can be set to the wrong weekday. When the wall clock of
  the coming due day is not unique, that day is passed over, and the result is the time of day
  on the day a week after the reference day, whose weekday is not the one asked for.\<close>

theorem weekly_local_wrong_weekday:
  assumes "weekdays_cycle cal" "parse_weekly_time expr = Inr (wd, h, m)"
    and "from_hms_opt h m = Some tod" and "day = date_naive (to_local z t)"
    and "0 < k" "k < 7" "cal_weekday cal (day + int k) = wd"
    and "from_local z (and_time (day + int k) tod) = Ambiguous a b"
    and "from_local z (and_time (day + 7) tod) = Single u"
  shows "calculate_next_run oc cal z Weekly expr Local t = Some (Some (Inr u))
    \<and> cal_weekday cal (day + 7) \<noteq> wd"
proof -
  have orbit: "cal_weekday cal (day + int j) = (next_weekday ^^ j) (cal_weekday cal day)" for j
    by (rule weekdays_add [OF assms(1)])
  have only: "cal_weekday cal (day + int j) = wd \<longleftrightarrow> j = k" if "j < 7" for j
  proof -
    have "(next_weekday ^^ j) w = (next_weekday ^^ k) w \<longleftrightarrow> j = k" for w
    proof -
      have "j \<in> {0, 1, 2, 3, 4, 5, 6}" "k \<in> {1, 2, 3, 4, 5, 6}" using that assms(5,6) by auto
      then show ?thesis by (cases w) (auto simp: eval_nat_numeral)
    qed
    then show ?thesis using orbit assms(7) by metis
  qed
  have skip: "weekly_loop_local cal z wd tod t n (day + int (7 - n)) = Inr u" if "n \<le> 7" for n
    using that
  proof (induction n)
    case 0
    then show ?case using assms(9) by simp
  next
    case (Suc n)
    have next_day: "day + int (7 - Suc n) + 1 = day + int (7 - n)" using Suc.prems by simp
    have "weekly_loop_local cal z wd tod t (Suc n) (day + int (7 - Suc n))
        = weekly_loop_local cal z wd tod t n (day + int (7 - n))"
    proof (cases "7 - Suc n = k")
      case True
      then show ?thesis
        unfolding True next_day [unfolded True, symmetric] using assms(7,8) by simp
    next
      case False
      then have "cal_weekday cal (day + int (7 - Suc n)) \<noteq> wd" using only [of "7 - Suc n"] by simp
      then show ?thesis by (simp only: weekly_loop_local.simps next_day if_False)
    qed
    then show ?case using Suc by simp
  qed
  have "cal_weekday cal (day + 7) = cal_weekday cal day"
    using orbit [of 7] next_weekday_7 by simp
  then show ?thesis
    using skip [of 7] only [of 0] assms(2-5)
    by (auto simp: calculate_next_run_def unwrap_time_def)
qed

lemma parse_thursday: "parse_weekly_time ''thu@01:30'' = Inr (Thu, 1, 30)"
  by (simp add: parse_weekly_time_def parse_daily_time_def parse_weekday_def parse_eval)

theorem weekly_local_wrong_weekday_witness:
  "\<exists>u. calculate_next_run True sample_calendar sample_zone Weekly ''thu@01:30'' Local (- 3 * DAY)
       = Some (Some (Inr u))
     \<and> cal_weekday sample_calendar (- 3 + 7) \<noteq> Thu"
proof -
  let ?tod = "int 1 * HOUR + int 30 * MINUTE"
  have "calculate_next_run True sample_calendar sample_zone Weekly ''thu@01:30'' Local (- 3 * DAY)
      = Some (Some (Inr (4 * DAY + ?tod))) \<and> cal_weekday sample_calendar (- 3 + 7) \<noteq> Thu"
  proof (rule weekly_local_wrong_weekday [OF sample_calendar_cycle parse_thursday, where k = 3])
    show "from_hms_opt 1 30 = Some ?tod" by (simp add: from_hms_opt_def)
    show "- 3 = date_naive (to_local sample_zone (- 3 * DAY))"
      by (simp add: date_naive_def sample_zone_def time_units)
    show "cal_weekday sample_calendar (- 3 + int 3) = Thu" by (simp add: sample_calendar_def)
    show "from_local sample_zone (and_time (- 3 + int 3) ?tod) = Ambiguous (30 * MINUTE) ?tod"
      by (simp add: sample_zone_def and_time_def time_units)
    show "from_local sample_zone (and_time (- 3 + 7) ?tod) = Single (4 * DAY + ?tod)"
      by (simp add: sample_zone_def and_time_def time_units)
  qed simp_all
  then show ?thesis by blast
qed

end
