(* ===== verification/Retention_Eval.thy ===== *)
theory Retention_Eval
  imports Error_Types "HOL-Library.Char_ord" "HOL-Library.List_Lexorder" "HOL-Library.Multiset"
begin

text \<open>
  Retention policies and their evaluation: \<open>policy.rs\<close>, \<open>types.rs\<close> and \<open>evaluator.rs\<close> of
  televault-backup/src/retention.

  Strings are compared byte by byte, as Rust does: the order of \<open>List_Lexorder\<close> over the byte
  order of \<open>Char_ord\<close>. The loop of \<open>evaluate\<close> is the recursion \<open>evaluate_loop\<close> over the sorted
  candidates, with the position, the rank among completed snapshots and the two counters as
  arguments.
\<close>

subsection \<open>policy.rs\<close>

record RetentionPolicy =
  rp_profile_id :: ident_str
  keep_latest_n :: "nat option"
  keep_newer_than_secs :: "nat option"
  keep_latest_successful :: bool
  keep_latest_always :: bool
  prune_failed :: bool
  prune_empty :: bool
  rp_enabled :: bool

definition RetentionPolicy_default_for_profile :: "ident_str \<Rightarrow> RetentionPolicy" where
  "RetentionPolicy_default_for_profile p =
     \<lparr>rp_profile_id = p, keep_latest_n = Some 10, keep_newer_than_secs = Some (30 * 86400),
      keep_latest_successful = True, keep_latest_always = True, prune_failed = False,
      prune_empty = False, rp_enabled = True\<rparr>"

definition RetentionPolicy_new :: "ident_str \<Rightarrow> RetentionPolicy" where
  "RetentionPolicy_new p =
     \<lparr>rp_profile_id = p, keep_latest_n = None, keep_newer_than_secs = None,
      keep_latest_successful = True, keep_latest_always = True, prune_failed = False,
      prune_empty = False, rp_enabled = True\<rparr>"

definition RetentionPolicy_validate :: "RetentionPolicy \<Rightarrow> (RetentionError, unit) result" where
  "RetentionPolicy_validate p =
     (if keep_latest_n p = Some 0 then
        Err (InvalidPolicy ''keep_latest_n must be greater than zero'')
      else if keep_newer_than_secs p = Some 0 then
        Err (InvalidPolicy ''keep_newer_than_secs must be greater than zero'')
      else if rp_enabled p \<and> keep_latest_n p = None \<and> keep_newer_than_secs p = None
              \<and> \<not> keep_latest_successful p \<and> \<not> keep_latest_always p then
        Err (InvalidPolicy ''Policy must configure at least one preservation rule (keep_latest_n, keep_newer_than_secs, keep_latest_successful, or keep_latest_always)'')
      else Ok ())"

record RetentionPolicyRecord =
  rpr_policy_id :: string
  rpr_profile_id :: ident_str
  rpr_keep_latest_n :: "nat option"
  rpr_keep_newer_than_secs :: "nat option"
  rpr_keep_latest_successful :: bool
  rpr_keep_latest_always :: bool
  rpr_prune_failed :: bool
  rpr_prune_empty :: bool
  rpr_enabled :: bool
  rpr_created_at :: string
  rpr_updated_at :: string

definition RetentionPolicy_to_db_record ::
  "RetentionPolicy \<Rightarrow> string \<Rightarrow> string \<Rightarrow> RetentionPolicyRecord" where
  "RetentionPolicy_to_db_record p created updated =
     \<lparr>rpr_policy_id = ''retpol-'' @ rp_profile_id p, rpr_profile_id = rp_profile_id p,
      rpr_keep_latest_n = keep_latest_n p, rpr_keep_newer_than_secs = keep_newer_than_secs p,
      rpr_keep_latest_successful = keep_latest_successful p,
      rpr_keep_latest_always = keep_latest_always p, rpr_prune_failed = prune_failed p,
      rpr_prune_empty = prune_empty p, rpr_enabled = rp_enabled p,
      rpr_created_at = created, rpr_updated_at = updated\<rparr>"

definition RetentionPolicy_from_db_record :: "RetentionPolicyRecord \<Rightarrow> RetentionPolicy" where
  "RetentionPolicy_from_db_record r =
     \<lparr>rp_profile_id = rpr_profile_id r, keep_latest_n = rpr_keep_latest_n r,
      keep_newer_than_secs = rpr_keep_newer_than_secs r,
      keep_latest_successful = rpr_keep_latest_successful r,
      keep_latest_always = rpr_keep_latest_always r, prune_failed = rpr_prune_failed r,
      prune_empty = rpr_prune_empty r, rp_enabled = rpr_enabled r\<rparr>"

subsection \<open>types.rs\<close>

datatype RetentionAction = Keep | Prune

datatype RetentionReason =
    KeepLatest | KeepWithinRetentionWindow | KeepLatestSuccessful | KeepCountLimit
  | ProtectedActive | ProtectedSoleSnapshot | PruneExpired | PruneExcessSnapshot
  | PruneFailedSnapshot | PruneIncompleteSnapshot | PruneEmpty

record RetentionCandidate =
  rc_snapshot_id :: ident_str
  rc_profile_id :: ident_str
  rc_created_at :: string
  rc_status :: BackupStatus
  rc_version_count :: nat
  rc_is_active :: bool
  rc_age_secs :: nat

record RetentionDecision =
  rd_snapshot_id :: ident_str
  rd_action :: RetentionAction
  rd_reason :: RetentionReason
  rd_description :: string
  rd_snapshot_status :: BackupStatus
  rd_snapshot_created_at :: string
  rd_age_secs :: nat
  rd_version_count :: nat

record RetentionEvaluation =
  re_profile_id :: ident_str
  re_evaluated_at :: string
  re_policy :: RetentionPolicy
  re_decisions :: "RetentionDecision list"
  re_snapshots_evaluated :: nat
  re_snapshots_kept :: nat
  re_snapshots_pruned :: nat

subsection \<open>evaluator.rs\<close>

definition decide ::
  "RetentionCandidate \<Rightarrow> RetentionAction \<Rightarrow> RetentionReason \<Rightarrow> string \<Rightarrow> RetentionDecision" where
  "decide c action reason description =
     \<lparr>rd_snapshot_id = rc_snapshot_id c, rd_action = action, rd_reason = reason,
      rd_description = description, rd_snapshot_status = rc_status c,
      rd_snapshot_created_at = rc_created_at c, rd_age_secs = rc_age_secs c,
      rd_version_count = rc_version_count c\<rparr>"

definition newer_or_same :: "RetentionCandidate \<Rightarrow> RetentionCandidate \<Rightarrow> bool" where
  \<comment> \<open>\<open>a\<close> does not come after \<open>b\<close> in the order of \<open>sort_by\<close>\<close>
  "newer_or_same a b \<longleftrightarrow>
     rc_created_at b < rc_created_at a
     \<or> (rc_created_at a = rc_created_at b \<and> rc_snapshot_id b \<le> rc_snapshot_id a)"

fun insert_candidate :: "RetentionCandidate \<Rightarrow> RetentionCandidate list \<Rightarrow> RetentionCandidate list" where
  "insert_candidate c [] = [c]"
| "insert_candidate c (d # ds) =
     (if newer_or_same c d then c # d # ds else d # insert_candidate c ds)"

definition sort_candidates :: "RetentionCandidate list \<Rightarrow> RetentionCandidate list" where
  \<comment> \<open>the stable sort \<open>sort_by\<close>\<close>
  "sort_candidates cs = foldr insert_candidate cs []"

definition is_protected :: "RetentionCandidate \<Rightarrow> bool" where
  "is_protected c \<longleftrightarrow>
     rc_is_active c \<or> rc_status c = BackupStatus.Scanning \<or> rc_status c = BackupStatus.BackingUp"

definition within_age :: "RetentionPolicy \<Rightarrow> RetentionCandidate \<Rightarrow> bool" where
  "within_age p c = (case keep_newer_than_secs p of Some max_age \<Rightarrow> rc_age_secs c \<le> max_age | None \<Rightarrow> False)"

definition within_count :: "RetentionPolicy \<Rightarrow> nat \<Rightarrow> bool" where
  "within_count p rank = (case keep_latest_n p of Some n \<Rightarrow> rank \<le> n | None \<Rightarrow> False)"

text \<open>The decision for a completed snapshot that no landmark rule kept.\<close>

definition decide_completed :: "RetentionPolicy \<Rightarrow> nat \<Rightarrow> RetentionCandidate \<Rightarrow> RetentionDecision" where
  "decide_completed p rank c =
     (let age = show_nat (rc_age_secs c); rk = show_nat rank in
      if prune_empty p \<and> rc_version_count c = 0 then
        decide c Prune PruneEmpty ''Completed snapshot contains 0 associated file versions''
      else if keep_newer_than_secs p = None \<and> keep_latest_n p = None then
        decide c Keep KeepWithinRetentionWindow ''No age or count limits configured; snapshot preserved''
      else if within_age p c \<and> within_count p rank then
        decide c Keep KeepWithinRetentionWindow
          (''Within retention window (age '' @ age @ ''s) and count limit (rank #'' @ rk @ '')'')
      else if within_age p c then
        decide c Keep KeepWithinRetentionWindow
          (''Within configured age window (age '' @ age @ ''s <= limit ''
             @ show_nat (the (keep_newer_than_secs p)) @ ''s)'')
      else if within_count p rank then
        decide c Keep KeepCountLimit
          (''Within latest '' @ show_nat (the (keep_latest_n p)) @ '' snapshots limit (rank #'' @ rk @ '')'')
      else case (keep_newer_than_secs p, keep_latest_n p) of
        (Some _, Some max_n) \<Rightarrow>
          decide c Prune PruneExpired
            (''Age '' @ age @ ''s exceeds limit and rank #'' @ rk @ '' exceeds limit '' @ show_nat max_n)
      | (Some max_age, None) \<Rightarrow>
          decide c Prune PruneExpired
            (''Snapshot age '' @ age @ ''s exceeds configured limit of '' @ show_nat max_age @ ''s'')
      | (None, Some max_n) \<Rightarrow>
          decide c Prune PruneExcessSnapshot
            (''Snapshot rank #'' @ rk @ '' exceeds latest '' @ show_nat max_n @ '' limit'')
      | (None, None) \<Rightarrow>
          decide c Prune PruneExcessSnapshot
            (''Snapshot rank #'' @ rk @ '' pruned by default policy''))"

definition decide_incomplete :: "RetentionPolicy \<Rightarrow> RetentionCandidate \<Rightarrow> RetentionDecision" where
  "decide_incomplete p c =
     (let age = show_nat (rc_age_secs c); st = BackupStatus_display (rc_status c) in
      if rc_status c = BackupStatus.Failed then
        if prune_failed p then
          decide c Prune PruneFailedSnapshot ''Failed snapshot pruned by retention policy''
        else if within_age p c \<or> keep_newer_than_secs p = None then
          decide c Keep KeepWithinRetentionWindow ''Failed snapshot preserved (prune_failed is disabled)''
        else
          decide c Prune PruneFailedSnapshot
            (''Failed snapshot exceeds retention age window ('' @ age @ ''s)'')
      else
        if prune_failed p then
          decide c Prune PruneIncompleteSnapshot
            (''Incomplete snapshot ('' @ st @ '') pruned by retention policy'')
        else if within_age p c \<or> keep_newer_than_secs p = None then
          decide c Keep KeepWithinRetentionWindow
            (''Incomplete snapshot ('' @ st @ '') preserved (prune_failed is disabled)'')
        else
          decide c Prune PruneIncompleteSnapshot
            (''Incomplete snapshot ('' @ st @ '') exceeds retention age window ('' @ age @ ''s)''))"

text \<open>One round of the loop: the decision and the new rank.\<close>

definition decide_candidate ::
  "RetentionPolicy \<Rightarrow> nat \<Rightarrow> ident_str option \<Rightarrow> nat \<Rightarrow> nat \<Rightarrow> RetentionCandidate
     \<Rightarrow> RetentionDecision \<times> nat" where
  "decide_candidate p total_n latest_successful_id idx rank c =
     (if is_protected c then
        (decide c Keep ProtectedActive ''Snapshot is actively being created or in use'', rank)
      else if total_n = 1 then
        (decide c Keep ProtectedSoleSnapshot ''Sole snapshot for profile is preserved'', rank)
      else if idx = 0 \<and> keep_latest_always p then
        (decide c Keep KeepLatest ''Most recent snapshot for profile is preserved'',
         if rc_status c = BackupStatus.Completed then rank + 1 else rank)
      else if keep_latest_successful p \<and> latest_successful_id = Some (rc_snapshot_id c) then
        (decide c Keep KeepLatestSuccessful
           ''Latest successful (Completed) recovery point is preserved'', rank + 1)
      else if rc_status c = BackupStatus.Completed then
        (decide_completed p (rank + 1) c, rank + 1)
      else (decide_incomplete p c, rank))"

fun evaluate_loop ::
  "RetentionPolicy \<Rightarrow> nat \<Rightarrow> ident_str option \<Rightarrow> nat \<Rightarrow> nat \<Rightarrow> nat \<Rightarrow> nat
     \<Rightarrow> RetentionCandidate list \<Rightarrow> RetentionDecision list \<times> nat \<times> nat" where
  "evaluate_loop p total_n ls idx rank kept pruned [] = ([], kept, pruned)"
| "evaluate_loop p total_n ls idx rank kept pruned (c # cs) =
     (let (d, rank') = decide_candidate p total_n ls idx rank c;
          kept' = (if rd_action d = Keep then kept + 1 else kept);
          pruned' = (if rd_action d = Prune then pruned + 1 else pruned);
          (ds, k, q) = evaluate_loop p total_n ls (idx + 1) rank' kept' pruned' cs
      in (d # ds, k, q))"

definition evaluate ::
  "ident_str \<Rightarrow> RetentionPolicy \<Rightarrow> RetentionCandidate list \<Rightarrow> string \<Rightarrow> RetentionEvaluation" where
  "evaluate profile_id p candidates evaluated_at =
     (let cs = sort_candidates candidates; total_n = length cs in
      if total_n = 0 then
        \<lparr>re_profile_id = profile_id, re_evaluated_at = evaluated_at, re_policy = p,
         re_decisions = [], re_snapshots_evaluated = 0, re_snapshots_kept = 0,
         re_snapshots_pruned = 0\<rparr>
      else if \<not> rp_enabled p then
        \<lparr>re_profile_id = profile_id, re_evaluated_at = evaluated_at, re_policy = p,
         re_decisions = map (\<lambda>c. decide c Keep KeepWithinRetentionWindow
           ''Retention policy is disabled; keeping snapshot'') cs,
         re_snapshots_evaluated = total_n, re_snapshots_kept = total_n, re_snapshots_pruned = 0\<rparr>
      else
        let latest_successful_id =
              map_option rc_snapshot_id (find_first (\<lambda>c. rc_status c = BackupStatus.Completed) cs);
            (decisions, kept, pruned) = evaluate_loop p total_n latest_successful_id 0 0 0 0 cs in
        \<lparr>re_profile_id = profile_id, re_evaluated_at = evaluated_at, re_policy = p,
         re_decisions = decisions, re_snapshots_evaluated = total_n, re_snapshots_kept = kept,
         re_snapshots_pruned = pruned\<rparr>)"

subsection \<open>Lemmas\<close>

lemma mset_insert_candidate [simp]: "mset (insert_candidate c ds) = add_mset c (mset ds)"
  by (induction ds) auto

lemma mset_sort_candidates [simp]: "mset (sort_candidates cs) = mset cs"
  by (induction cs) (simp_all add: sort_candidates_def)

lemma set_sort_candidates [simp]: "set (sort_candidates cs) = set cs"
  by (metis mset_sort_candidates set_mset_mset)

lemma length_sort_candidates [simp]: "length (sort_candidates cs) = length cs"
  by (metis mset_sort_candidates size_mset)

lemma newer_or_same_total: "newer_or_same a b \<or> newer_or_same b a"
  by (auto simp: newer_or_same_def)

lemma newer_or_same_trans: "\<lbrakk>newer_or_same a b; newer_or_same b c\<rbrakk> \<Longrightarrow> newer_or_same a c"
  by (auto simp: newer_or_same_def intro: less_trans order_trans)

lemma sorted_insert_candidate:
  "sorted_wrt newer_or_same ds \<Longrightarrow> sorted_wrt newer_or_same (insert_candidate c ds)"
proof (induction ds)
  case (Cons d ds)
  show ?case
  proof (cases "newer_or_same c d")
    case True
    then show ?thesis using Cons.prems by (auto intro: newer_or_same_trans)
  next
    case False
    then have "newer_or_same d c" using newer_or_same_total by blast
    moreover have "set (insert_candidate c ds) = insert c (set ds)"
      by (metis mset_insert_candidate set_mset_add_mset_insert set_mset_mset)
    ultimately show ?thesis using Cons False by simp
  qed
qed simp

lemma sorted_sort_candidates: "sorted_wrt newer_or_same (sort_candidates cs)"
  by (induction cs) (simp_all add: sort_candidates_def sorted_insert_candidate)

definition ranked :: "RetentionCandidate \<Rightarrow> bool" where
  "ranked c \<longleftrightarrow> rc_status c = BackupStatus.Completed \<and> \<not> is_protected c"

lemma decide_id [simp]: "rd_snapshot_id (decide c a r s) = rc_snapshot_id c"
  and decide_action [simp]: "rd_action (decide c a r s) = a"
  by (simp_all add: decide_def)

lemma decide_completed_action:
  "rd_snapshot_id (decide_completed p rank c) = rc_snapshot_id c"
  "rd_action (decide_completed p rank c) = Prune \<longleftrightarrow>
     prune_empty p \<and> rc_version_count c = 0
     \<or> (keep_newer_than_secs p \<noteq> None \<or> keep_latest_n p \<noteq> None)
       \<and> \<not> within_age p c \<and> \<not> within_count p rank"
  by (auto simp: decide_completed_def Let_def split: option.splits)

lemma decide_incomplete_action:
  "rd_snapshot_id (decide_incomplete p c) = rc_snapshot_id c"
  "rd_action (decide_incomplete p c) = Prune \<longleftrightarrow>
     prune_failed p \<or> keep_newer_than_secs p \<noteq> None \<and> \<not> within_age p c"
  by (auto simp: decide_incomplete_def Let_def)

lemma decide_candidate_id [simp]:
  "rd_snapshot_id (fst (decide_candidate p n ls idx rank c)) = rc_snapshot_id c"
  by (simp add: decide_candidate_def decide_completed_action decide_incomplete_action)

lemma decide_candidate_rank:
  assumes "n \<noteq> 1" "ls = Some (rc_snapshot_id c) \<Longrightarrow> rc_status c = BackupStatus.Completed"
  shows "snd (decide_candidate p n ls idx rank c) = rank + (if ranked c then 1 else 0)"
  using assms by (auto simp: decide_candidate_def ranked_def)

lemma evaluate_loop_decisions:
  assumes "n \<noteq> 1" "\<And>c. \<lbrakk>c \<in> set cs; ls = Some (rc_snapshot_id c)\<rbrakk> \<Longrightarrow> rc_status c = BackupStatus.Completed"
  shows "fst (evaluate_loop p n ls idx rank kept pruned cs) =
    map (\<lambda>i. fst (decide_candidate p n ls (idx + i)
                    (rank + length (filter ranked (take i cs))) (cs ! i))) [0..<length cs]"
  using assms(2)
proof (induction cs arbitrary: idx rank kept pruned)
  case (Cons c cs)
  obtain d rank' where dc: "decide_candidate p n ls idx rank c = (d, rank')" by fastforce
  have rank': "rank' = rank + (if ranked c then 1 else 0)"
    using decide_candidate_rank [OF assms(1), of ls c p idx rank] Cons.prems dc by simp
  have "fst (evaluate_loop p n ls idx rank kept pruned (c # cs)) =
      d # fst (evaluate_loop p n ls (idx + 1) rank' (if rd_action d = Keep then kept + 1 else kept)
                 (if rd_action d = Prune then pruned + 1 else pruned) cs)"
    by (simp add: dc split: prod.split)
  also have "\<dots> = d # map (\<lambda>i. fst (decide_candidate p n ls (idx + 1 + i)
                    (rank' + length (filter ranked (take i cs))) (cs ! i))) [0..<length cs]"
    using Cons.IH Cons.prems by simp
  also have "\<dots> = map (\<lambda>i. fst (decide_candidate p n ls (idx + i)
                    (rank + length (filter ranked (take i (c # cs)))) ((c # cs) ! i)))
                   [0..<length (c # cs)]"
    unfolding rank' using dc
    by (simp add: upt_conv_Cons map_Suc_upt [symmetric] comp_def del: upt_Suc)
  finally show ?case .
qed simp

lemma evaluate_loop_counts:
  assumes "evaluate_loop p n ls idx rank kept pruned cs = (ds, k, q)"
  shows "k = kept + length (filter (\<lambda>d. rd_action d = Keep) ds)
    \<and> q = pruned + length (filter (\<lambda>d. rd_action d = Prune) ds)"
  using assms
proof (induction cs arbitrary: idx rank kept pruned ds)
  case (Cons c cs)
  obtain d rank' where dc: "decide_candidate p n ls idx rank c = (d, rank')" by fastforce
  obtain ds' where ds: "ds = d # ds'" "evaluate_loop p n ls (idx + 1) rank'
      (if rd_action d = Keep then kept + 1 else kept)
      (if rd_action d = Prune then pruned + 1 else pruned) cs = (ds', k, q)"
    using Cons.prems dc by (auto split: prod.splits)
  show ?case using Cons.IH [OF ds(2)] ds(1) by (cases "rd_action d") simp_all
qed simp

lemma find_first_prefix:
  "find_first P xs = Some x \<Longrightarrow> \<exists>i < length xs. xs ! i = x \<and> P x \<and> (\<forall>j < i. \<not> P (xs ! j))"
proof (induction xs)
  case (Cons y ys)
  show ?case
  proof (cases "P y")
    case True
    then show ?thesis using Cons.prems by (intro exI [of _ 0]) simp
  next
    case False
    then obtain i where "i < length ys" "ys ! i = x" "P x" "\<forall>j < i. \<not> P (ys ! j)"
      using Cons by auto
    then show ?thesis using False by (intro exI [of _ "Suc i"]) (auto simp: less_Suc_eq_0_disj)
  qed
qed simp

lemma first_completed_id:
  assumes "distinct (map rc_snapshot_id cs)" "i < length cs"
  shows "map_option rc_snapshot_id (find_first (\<lambda>c. rc_status c = BackupStatus.Completed) cs)
      = Some (rc_snapshot_id (cs ! i))
    \<longleftrightarrow> rc_status (cs ! i) = BackupStatus.Completed
      \<and> (\<forall>j < i. rc_status (cs ! j) \<noteq> BackupStatus.Completed)" (is "?l = _ \<longleftrightarrow> ?r")
proof (cases "find_first (\<lambda>c. rc_status c = BackupStatus.Completed) cs")
  case None
  then have "rc_status (cs ! i) \<noteq> BackupStatus.Completed"
    using assms(2) by (simp add: find_first_None_iff)
  then show ?thesis using None by simp
next
  case (Some c)
  from find_first_prefix [OF this] obtain k where k: "k < length cs" "cs ! k = c"
    "rc_status c = BackupStatus.Completed" "\<forall>j < k. rc_status (cs ! j) \<noteq> BackupStatus.Completed"
    by blast
  have "?l = Some (rc_snapshot_id (cs ! i)) \<longleftrightarrow> k = i"
    using Some k(1,2) assms nth_eq_iff_index_eq [of "map rc_snapshot_id cs" k i] by auto
  also have "k = i \<longleftrightarrow> ?r" using k by (metis linorder_neqE_nat)
  finally show ?thesis .
qed

subsection \<open>Properties\<close>

text \<open>What the documentation of the rules says of the snapshot at position \<open>i\<close> of the list sorted
  from new to old, without loop or counters.\<close>

definition to_be_pruned :: "RetentionPolicy \<Rightarrow> RetentionCandidate list \<Rightarrow> nat \<Rightarrow> bool" where
  "to_be_pruned p cs i \<longleftrightarrow>
     \<not> is_protected (cs ! i) \<and> length cs \<noteq> 1
     \<and> \<not> (i = 0 \<and> keep_latest_always p)
     \<and> \<not> (keep_latest_successful p \<and> rc_status (cs ! i) = BackupStatus.Completed
          \<and> (\<forall>j < i. rc_status (cs ! j) \<noteq> BackupStatus.Completed))
     \<and> (if rc_status (cs ! i) = BackupStatus.Completed then
          prune_empty p \<and> rc_version_count (cs ! i) = 0
          \<or> (keep_newer_than_secs p \<noteq> None \<or> keep_latest_n p \<noteq> None)
            \<and> \<not> within_age p (cs ! i)
            \<and> \<not> within_count p (length (filter ranked (take (Suc i) cs)))
        else prune_failed p \<or> keep_newer_than_secs p \<noteq> None \<and> \<not> within_age p (cs ! i))"

lemma decide_candidate_prune:
  assumes "distinct (map rc_snapshot_id cs)" "i < length cs"
    and "ls = map_option rc_snapshot_id (find_first (\<lambda>c. rc_status c = BackupStatus.Completed) cs)"
  shows "rd_action (fst (decide_candidate p (length cs) ls i (length (filter ranked (take i cs))) (cs ! i)))
      = Prune \<longleftrightarrow> to_be_pruned p cs i"
proof -
  have ls: "ls = Some (rc_snapshot_id (cs ! i)) \<longleftrightarrow> rc_status (cs ! i) = BackupStatus.Completed
      \<and> (\<forall>j < i. rc_status (cs ! j) \<noteq> BackupStatus.Completed)"
    unfolding assms(3) by (rule first_completed_id [OF assms(1,2)])
  have rank: "length (filter ranked (take (Suc i) cs)) =
      length (filter ranked (take i cs)) + (if ranked (cs ! i) then 1 else 0)"
    using assms(2) by (simp add: take_Suc_conv_app_nth)
  show ?thesis
    unfolding decide_candidate_def to_be_pruned_def rank using ls
    by (auto simp: decide_completed_action decide_incomplete_action ranked_def)
qed

lemma evaluate_enabled:
  assumes "rp_enabled p" "distinct (map rc_snapshot_id candidates)"
    and "cs = sort_candidates candidates" "i < length cs"
    and "ds = re_decisions (evaluate pid p candidates at_time)"
  shows "length ds = length cs \<and> rd_snapshot_id (ds ! i) = rc_snapshot_id (cs ! i)
    \<and> (rd_action (ds ! i) = Prune \<longleftrightarrow> to_be_pruned p cs i)"
proof -
  let ?ls = "map_option rc_snapshot_id (find_first (\<lambda>c. rc_status c = BackupStatus.Completed) cs)"
  have dist: "distinct (map rc_snapshot_id cs)"
    using assms(2,3) by (metis mset_map mset_sort_candidates mset_eq_imp_distinct_iff)
  have comp: "rc_status c = BackupStatus.Completed" if "c \<in> set cs" "?ls = Some (rc_snapshot_id c)" for c
    using first_completed_id [OF dist] that by (metis in_set_conv_nth)
  have ds: "ds = fst (evaluate_loop p (length cs) ?ls 0 0 0 0 cs)"
    using assms by (auto simp: evaluate_def Let_def split: prod.splits)
  show ?thesis
  proof (cases "length cs = 1")
    case True
    then obtain c where c: "cs = [c]" by (auto simp: length_Suc_conv)
    then show ?thesis
      using ds assms(4)
      by (auto simp: to_be_pruned_def decide_candidate_def split: prod.splits)
  next
    case False
    have all: "ds = map (\<lambda>i. fst (decide_candidate p (length cs) ?ls (0 + i)
        (0 + length (filter ranked (take i cs))) (cs ! i))) [0..<length cs]"
      unfolding ds using evaluate_loop_decisions [OF False, of cs ?ls] comp by blast
    have nth: "ds ! i = fst (decide_candidate p (length cs) ?ls i
        (length (filter ranked (take i cs))) (cs ! i))"
      and len: "length ds = length cs"
      unfolding all using assms(4) by simp_all
    show ?thesis
      unfolding len nth decide_candidate_prune [OF dist assms(4) refl] by simp
  qed
qed

text \<open>C10. The evaluation of an enabled policy follows its rules exactly: there is one decision per
  snapshot, in the order from new to old, and a snapshot is to be pruned if and only if it is
  not active, not the only one, not the newest when the newest is always kept, not the newest
  completed one when that is always kept, and is out of both the age window and the count of
  completed snapshots, or empty, or incomplete, as the policy says. The reported counts are the
  numbers of kept and pruned snapshots.\<close>

theorem evaluate_prunes_exactly:
  assumes "rp_enabled p" "distinct (map rc_snapshot_id candidates)"
    and "ev = evaluate pid p candidates at_time" "cs = sort_candidates candidates"
  shows "sorted_wrt newer_or_same cs \<and> mset cs = mset candidates
    \<and> length (re_decisions ev) = length cs
    \<and> (\<forall>i < length cs. rd_snapshot_id (re_decisions ev ! i) = rc_snapshot_id (cs ! i)
         \<and> (rd_action (re_decisions ev ! i) = Prune \<longleftrightarrow> to_be_pruned p cs i))
    \<and> re_snapshots_kept ev = length (filter (\<lambda>d. rd_action d = Keep) (re_decisions ev))
    \<and> re_snapshots_pruned ev = length (filter (\<lambda>d. rd_action d = Prune) (re_decisions ev))"
proof -
  have "length (re_decisions ev) = length cs"
  proof (cases "cs = []")
    case True
    then show ?thesis using assms by (simp add: evaluate_def)
  next
    case False
    then show ?thesis using evaluate_enabled [OF assms(1,2,4), of 0] assms(3) by simp
  qed
  moreover have "re_snapshots_kept ev = length (filter (\<lambda>d. rd_action d = Keep) (re_decisions ev))
      \<and> re_snapshots_pruned ev = length (filter (\<lambda>d. rd_action d = Prune) (re_decisions ev))"
    using assms(1,3) evaluate_loop_counts by (force simp: evaluate_def Let_def split: prod.splits)
  moreover have "sorted_wrt newer_or_same cs" "mset cs = mset candidates"
    unfolding assms(4) by (rule sorted_sort_candidates, rule mset_sort_candidates)
  ultimately show ?thesis using evaluate_enabled [OF assms(1,2,4)] assms(3) by blast
qed

definition sample_candidate :: "string \<Rightarrow> string \<Rightarrow> BackupStatus \<Rightarrow> nat \<Rightarrow> RetentionCandidate" where
  "sample_candidate i created st age =
     \<lparr>rc_snapshot_id = i, rc_profile_id = ''p'', rc_created_at = created, rc_status = st,
      rc_version_count = 1, rc_is_active = False, rc_age_secs = age\<rparr>"

definition sample_candidates :: "RetentionCandidate list" where
  "sample_candidates =
     [sample_candidate ''a'' ''1'' BackupStatus.Completed 300,
      sample_candidate ''c'' ''3'' BackupStatus.Failed 100,
      sample_candidate ''b'' ''2'' BackupStatus.Completed 200]"

definition sample_retention :: RetentionPolicy where
  "sample_retention = (RetentionPolicy_new ''p'')\<lparr>keep_latest_n := Some 1\<rparr>"

lemma sample_distinct: "distinct (map rc_snapshot_id sample_candidates)"
  by (simp add: sample_candidates_def sample_candidate_def)

lemma sample_sorted:
  "sort_candidates sample_candidates =
     [sample_candidate ''c'' ''3'' BackupStatus.Failed 100,
      sample_candidate ''b'' ''2'' BackupStatus.Completed 200,
      sample_candidate ''a'' ''1'' BackupStatus.Completed 300]"
  by code_simp

theorem evaluate_prunes_exactly_witness:
  "rd_snapshot_id (re_decisions (evaluate ''p'' sample_retention sample_candidates ''t'') ! 2) = ''a''
   \<and> rd_action (re_decisions (evaluate ''p'' sample_retention sample_candidates ''t'') ! 2) = Prune"
proof -
  let ?cs = "sort_candidates sample_candidates"
  have en: "rp_enabled sample_retention"
    by (simp add: sample_retention_def RetentionPolicy_new_def)
  have two: "2 < length ?cs" by (simp add: sample_sorted)
  have "to_be_pruned sample_retention ?cs 2"
    unfolding sample_sorted
    by (simp add: to_be_pruned_def sample_candidate_def sample_retention_def RetentionPolicy_new_def
        is_protected_def ranked_def within_age_def within_count_def numeral_2_eq_2 less_Suc_eq)
  moreover have "rc_snapshot_id (?cs ! 2) = ''a''"
    unfolding sample_sorted by (simp add: sample_candidate_def)
  moreover have "\<forall>i < length ?cs.
      rd_snapshot_id (re_decisions (evaluate ''p'' sample_retention sample_candidates ''t'') ! i)
        = rc_snapshot_id (?cs ! i)
      \<and> (rd_action (re_decisions (evaluate ''p'' sample_retention sample_candidates ''t'') ! i) = Prune
          \<longleftrightarrow> to_be_pruned sample_retention ?cs i)"
    using evaluate_prunes_exactly [OF en sample_distinct refl refl, of "''p''" "''t''"] by metis
  ultimately show ?thesis using two by metis
qed

definition pruned_ids :: "RetentionEvaluation \<Rightarrow> ident_str list" where
  "pruned_ids ev = map rd_snapshot_id (filter (\<lambda>d. rd_action d = Prune) (re_decisions ev))"

lemma newer_or_same_antisym:
  "\<lbrakk>newer_or_same a b; newer_or_same b a\<rbrakk> \<Longrightarrow> rc_snapshot_id a = rc_snapshot_id b"
  by (auto simp: newer_or_same_def)

lemma pruned_ids_spec:
  assumes "distinct (map rc_snapshot_id candidates)" "cs = sort_candidates candidates"
    and "x \<in> set (pruned_ids (evaluate pid p candidates at_time))"
  shows "\<exists>i < length cs. x = rc_snapshot_id (cs ! i) \<and> to_be_pruned p cs i"
proof -
  let ?ds = "re_decisions (evaluate pid p candidates at_time)"
  from assms(3) obtain d where d: "d \<in> set ?ds" "rd_action d = Prune" "x = rd_snapshot_id d"
    by (auto simp: pruned_ids_def)
  have en: "rp_enabled p"
    using d(1,2) by (auto simp: evaluate_def Let_def split: if_splits)
  have "cs \<noteq> []" using d(1) assms(2) by (auto simp: evaluate_def)
  then have len: "length ?ds = length cs"
    using evaluate_enabled [OF en assms(1,2), of 0] by simp
  from d(1) obtain i where "i < length cs" "?ds ! i = d" unfolding in_set_conv_nth len by blast
  then show ?thesis using evaluate_enabled [OF en assms(1,2), of i ?ds pid at_time] d by auto
qed

text \<open>No policy prunes a snapshot that is being created or in use, the newest snapshot when the
  policy keeps the newest, or the newest completed snapshot when the policy keeps the latest
  successful one: pruning never takes the last recovery point.\<close>

theorem evaluate_keeps_recovery_points:
  assumes "distinct (map rc_snapshot_id candidates)" "c \<in> set candidates"
    and "is_protected c
      \<or> keep_latest_always p \<and> (\<forall>d \<in> set candidates. newer_or_same c d)
      \<or> keep_latest_successful p \<and> rc_status c = BackupStatus.Completed
        \<and> (\<forall>d \<in> set candidates. rc_status d = BackupStatus.Completed \<longrightarrow> newer_or_same c d)"
  shows "rc_snapshot_id c \<notin> set (pruned_ids (evaluate pid p candidates at_time))"
proof
  let ?cs = "sort_candidates candidates"
  assume "rc_snapshot_id c \<in> set (pruned_ids (evaluate pid p candidates at_time))"
  from pruned_ids_spec [OF assms(1) refl this] obtain i where
    i: "i < length ?cs" "rc_snapshot_id c = rc_snapshot_id (?cs ! i)" "to_be_pruned p ?cs i" by blast
  have dist: "distinct (map rc_snapshot_id ?cs)"
    using assms(1) by (metis mset_map mset_sort_candidates mset_eq_imp_distinct_iff)
  have c: "c = ?cs ! i"
    using assms(1,2) i(1,2) nth_mem [OF i(1)] by (simp add: distinct_map inj_on_def)
  have later: "\<not> newer_or_same c (?cs ! j)" if "j < i" for j
  proof
    assume "newer_or_same c (?cs ! j)"
    moreover have "newer_or_same (?cs ! j) c"
      using sorted_sort_candidates that i(1) c by (auto simp: sorted_wrt_iff_nth_less)
    ultimately have "rc_snapshot_id (?cs ! j) = rc_snapshot_id (?cs ! i)"
      using newer_or_same_antisym c by metis
    then show False
      using dist that i(1) nth_eq_iff_index_eq [of "map rc_snapshot_id ?cs" j i] by simp
  qed
  have in_cs: "?cs ! j \<in> set candidates" if "j < i" for j
    using that i(1) by (metis less_trans nth_mem set_sort_candidates)
  from assms(3) i(3) show False
    using later in_cs unfolding to_be_pruned_def c [symmetric]
    by (metis gr_implies_not_zero neq0_conv)
qed

theorem evaluate_keeps_recovery_points_witness:
  "''b'' \<notin> set (pruned_ids (evaluate ''p'' sample_retention sample_candidates ''t''))"
proof -
  let ?c = "sample_candidate ''b'' ''2'' BackupStatus.Completed 200"
  have "rc_snapshot_id ?c \<notin> set (pruned_ids (evaluate ''p'' sample_retention sample_candidates ''t''))"
    by (rule evaluate_keeps_recovery_points [OF sample_distinct])
      (auto simp: sample_candidates_def sample_candidate_def sample_retention_def
        RetentionPolicy_new_def newer_or_same_def)
  then show ?thesis by (simp add: sample_candidate_def)
qed

text \<open>A policy stored in the catalog is read back unchanged.\<close>

lemma policy_db_roundtrip:
  "RetentionPolicy_from_db_record (RetentionPolicy_to_db_record p c u) = p"
  by (simp add: RetentionPolicy_from_db_record_def RetentionPolicy_to_db_record_def)

end
