(* ===== verification/Catalog.thy ===== *)
theory Catalog
  imports Retention_Eval
begin

text \<open>
  The catalog, \<open>db.rs\<close> and \<open>models.rs\<close> of televault-db, over the schema of its migrations.

  A table is the list of its rows in the order they were inserted. An SQL statement of the source
  is an operation on that list: \<open>INSERT\<close> appends a row after checking the primary key, the
  \<open>UNIQUE\<close> columns and the foreign keys of the schema, \<open>UPDATE\<close> maps the matching rows, \<open>DELETE\<close>
  removes them with the \<open>ON DELETE\<close> action of every referring table, \<open>ORDER BY\<close> is a stable sort
  by byte order. SQL leaves the order of rows with equal keys open; the model keeps them in table
  order, and no property below depends on it. A violated constraint is \<open>Sql\<close> with the constraint
  flag set; its text is SQLite's, the argument \<open>em\<close>. The connection mutex makes every operation
  atomic; failures of the disk and of the connection are not modelled. Identifiers in rows are
  values of the identifier types, so reading them back never fails.
\<close>

subsection \<open>models.rs\<close>

record ProfileRecord =
  pr_profile_id :: ident_str
  pr_name :: string
  pr_description :: "string option"
  pr_source_path :: string
  pr_enabled :: bool
  pr_created_at :: string
  pr_updated_at :: string

record FileRecord =
  fr_file_id :: ident_str
  fr_profile_id :: "ident_str option"
  fr_file_name :: string
  fr_relative_path :: string
  fr_original_size :: u64
  fr_mime_type :: "string option"
  fr_status :: string
  fr_logical_file_hash :: "string option"
  fr_created_at :: string
  fr_modified_at :: "string option"
  fr_created_timestamp :: string
  fr_updated_timestamp :: string

record ManifestRecord =
  mr_manifest_id :: string
  mr_file_id :: ident_str
  mr_manifest_version :: string
  mr_serialized_manifest :: string
  mr_created_at :: string
  mr_updated_at :: string

record ChunkRecord =
  cr_chunk_id :: ident_str
  cr_file_id :: ident_str
  cr_manifest_id :: string
  cr_chunk_index :: u32
  cr_plaintext_size :: u64
  cr_stored_size :: u64
  cr_integrity_hash :: string
  cr_storage_reference :: string
  cr_status :: string
  cr_created_at :: string
  cr_updated_at :: string

record SnapshotRecord =
  sr_snapshot_id :: ident_str
  sr_profile_id :: ident_str
  sr_status :: BackupStatus
  sr_metadata :: "string option"
  sr_created_at :: string

record VersionRecord =
  ver_version_id :: ident_str
  ver_file_id :: ident_str
  ver_snapshot_id :: ident_str
  ver_manifest_id :: string
  ver_status :: string
  ver_created_at :: string

record ScheduleRecord =
  scr_schedule_id :: ident_str
  scr_profile_id :: ident_str
  scr_schedule_type :: string
  scr_expression :: string
  scr_timezone :: string
  scr_enabled :: bool
  scr_next_run_at :: "string option"
  scr_last_run_at :: "string option"
  scr_last_status :: "string option"
  scr_last_error_code :: "string option"
  scr_created_at :: string
  scr_updated_at :: string

record ScheduleHistoryRecord =
  shr_history_id :: string
  shr_schedule_id :: ident_str
  shr_profile_id :: ident_str
  shr_started_at :: string
  shr_completed_at :: "string option"
  shr_status :: string
  shr_snapshot_id :: "ident_str option"
  shr_files_processed :: u64
  shr_bytes_transferred :: u64
  shr_error_code :: "string option"
  shr_error_message :: "string option"

record RetentionHistoryRecord =
  rhr_history_id :: string
  rhr_profile_id :: ident_str
  rhr_executed_at :: string
  rhr_dry_run :: bool
  rhr_snapshots_evaluated :: u32
  rhr_snapshots_kept :: u32
  rhr_snapshots_pruned :: u32
  rhr_pruned_snapshot_ids :: string
  rhr_decisions_summary :: string
  rhr_status :: string
  rhr_error_message :: "string option"

record VerificationHistoryRecord =
  vhr_history_id :: string
  vhr_profile_id :: ident_str
  vhr_target_type :: string
  vhr_target_id :: string
  vhr_level :: u32
  vhr_status :: string
  vhr_is_restore_ready :: bool
  vhr_total_files :: u32
  vhr_total_manifests :: u32
  vhr_total_chunks :: u32
  vhr_healthy_chunks :: u32
  vhr_corrupted_chunks :: u32
  vhr_missing_chunks :: u32
  vhr_ownership_violations :: u32
  vhr_duration_ms :: u64
  vhr_findings_json :: string
  vhr_verified_at :: string

record RepairHistoryRecord =
  rep_repair_id :: string
  rep_profile_id :: ident_str
  rep_snapshot_id :: "ident_str option"
  rep_file_id :: ident_str
  rep_manifest_id :: string
  rep_chunk_id :: ident_str
  rep_chunk_index :: u32
  rep_repair_type :: string
  rep_finding_code :: string
  rep_old_storage_reference :: string
  rep_new_storage_reference :: string
  rep_status :: string
  rep_bytes_processed :: u64
  rep_duration_ms :: u64
  rep_error_message :: "string option"
  rep_repaired_at :: string

record TelegramAccountRecord =
  tga_user_id :: int
  tga_first_name :: string
  tga_last_name :: "string option"
  tga_username :: "string option"
  tga_phone_redacted :: string
  tga_authenticated_at :: string
  tga_last_seen_at :: string

record TelegramChannelRecord =
  tgc_channel_id :: int
  tgc_user_id :: int
  tgc_title :: string
  tgc_is_private :: bool
  tgc_verified :: bool
  tgc_created_by_televault :: bool
  tgc_created_at :: string
  tgc_verified_at :: "string option"

record TelegramAuthStateRecord =
  tgs_current_state :: string
  tgs_active_user_id :: "int option"
  tgs_active_channel_id :: "int option"
  tgs_updated_at :: string

subsection \<open>Tables\<close>

record Database =
  t_profiles :: "ProfileRecord list"
  t_files :: "FileRecord list"
  t_manifests :: "ManifestRecord list"
  t_chunks :: "ChunkRecord list"
  t_snapshots :: "SnapshotRecord list"
  t_versions :: "VersionRecord list"
  t_jobs :: "TransferJobRecord list"
  t_schedules :: "ScheduleRecord list"
  t_sched_hist :: "ScheduleHistoryRecord list"
  t_policies :: "RetentionPolicyRecord list"
  t_ret_hist :: "RetentionHistoryRecord list"
  t_ver_hist :: "VerificationHistoryRecord list"
  t_rep_hist :: "RepairHistoryRecord list"
  t_tg_accounts :: "TelegramAccountRecord list"
  t_tg_channels :: "TelegramChannelRecord list"
  t_tg_auth :: "TelegramAuthStateRecord option"

definition open_in_memory :: Database where
  "open_in_memory =
     \<lparr>t_profiles = [], t_files = [], t_manifests = [], t_chunks = [], t_snapshots = [],
      t_versions = [], t_jobs = [], t_schedules = [], t_sched_hist = [], t_policies = [],
      t_ret_hist = [], t_ver_hist = [], t_rep_hist = [], t_tg_accounts = [], t_tg_channels = [], t_tg_auth = None\<rparr>"

type_synonym 'a exec = "Database \<Rightarrow> Database \<times> (DbError, 'a) result"

definition has_key :: "('r \<Rightarrow> 'k) \<Rightarrow> 'r list \<Rightarrow> 'k \<Rightarrow> bool" where
  "has_key key t k \<longleftrightarrow> k \<in> key ` set t"

definition gone :: "('r \<Rightarrow> bool) \<Rightarrow> ('r \<Rightarrow> 'k) \<Rightarrow> 'r list \<Rightarrow> 'k \<Rightarrow> bool" where
  \<comment> \<open>the key of a row that a delete removes\<close>
  "gone P key t i \<longleftrightarrow> (\<exists>r \<in> set t. P r \<and> key r = i)"

definition ref_ok :: "('r \<Rightarrow> 'k) \<Rightarrow> 'r list \<Rightarrow> 'k option \<Rightarrow> bool" where
  \<comment> \<open>a foreign key that may be NULL\<close>
  "ref_ok key t x = (case x of None \<Rightarrow> True | Some k \<Rightarrow> has_key key t k)"

definition update_rows :: "('r \<Rightarrow> bool) \<Rightarrow> ('r \<Rightarrow> 'r) \<Rightarrow> 'r list \<Rightarrow> 'r list" where
  "update_rows P f t = map (\<lambda>r. if P r then f r else r) t"

definition order_asc :: "('r \<Rightarrow> 'k :: linorder) \<Rightarrow> 'r list \<Rightarrow> 'r list" where
  "order_asc key t = sort_key key t"

definition order_desc :: "('r \<Rightarrow> 'k :: linorder) \<Rightarrow> 'r list \<Rightarrow> 'r list" where
  "order_desc key t = rev (sort_key key (rev t))"

definition violation :: "string \<Rightarrow> DbError" where
  "violation em = Sql (SqliteError True em)"

text \<open>A statement that may violate a constraint: it changes nothing then.\<close>

definition checked :: "bool \<Rightarrow> string \<Rightarrow> (Database \<Rightarrow> Database) \<Rightarrow> unit exec" where
  "checked ok em f db = (if ok then (f db, Ok ()) else (db, Err (violation em)))"

text \<open>An update or delete by key that reports a missing row.\<close>

definition affecting :: "bool \<Rightarrow> string \<Rightarrow> string \<Rightarrow> unit exec \<Rightarrow> unit exec" where
  "affecting found entity i stmt db =
     (if found then stmt db else (db, Err (DbError.NotFound entity i)))"

text \<open>\<open>with_transaction\<close>: an error rolls back.\<close>

definition with_transaction :: "'a exec \<Rightarrow> 'a exec" where
  "with_transaction f db =
     (case f db of (db', Inr a) \<Rightarrow> (db', Ok a) | (_, Inl e) \<Rightarrow> (db, Err e))"

definition bind_exec :: "'a exec \<Rightarrow> ('a \<Rightarrow> 'b exec) \<Rightarrow> 'b exec" where
  "bind_exec f g db = (case f db of (db', Inl e) \<Rightarrow> (db', Err e) | (db', Inr a) \<Rightarrow> g a db')"

definition return_exec :: "'a \<Rightarrow> 'a exec" where
  "return_exec a db = (db, Ok a)"

subsection \<open>Profiles\<close>

definition create_profile :: "string \<Rightarrow> ProfileRecord \<Rightarrow> unit exec" where
  "create_profile em p db =
     checked (\<not> has_key pr_profile_id (t_profiles db) (pr_profile_id p)
              \<and> \<not> has_key pr_name (t_profiles db) (pr_name p)) em
       (\<lambda>db. db\<lparr>t_profiles := t_profiles db @ [p]\<rparr>) db"

definition get_profile :: "Database \<Rightarrow> ident_str \<Rightarrow> ProfileRecord option" where
  "get_profile db i = find_first (\<lambda>p. pr_profile_id p = i) (t_profiles db)"

definition list_profiles :: "Database \<Rightarrow> ProfileRecord list" where
  "list_profiles db = order_asc pr_name (t_profiles db)"

definition update_profile :: "string \<Rightarrow> ProfileRecord \<Rightarrow> unit exec" where
  "update_profile em p db =
     affecting (has_key pr_profile_id (t_profiles db) (pr_profile_id p)) ''Profile'' (pr_profile_id p)
       (checked (\<forall>q \<in> set (t_profiles db). pr_name q = pr_name p \<longrightarrow> pr_profile_id q = pr_profile_id p) em
         (\<lambda>db. db\<lparr>t_profiles := update_rows (\<lambda>q. pr_profile_id q = pr_profile_id p)
            (\<lambda>q. q\<lparr>pr_name := pr_name p, pr_description := pr_description p,
                  pr_source_path := pr_source_path p, pr_enabled := pr_enabled p,
                  pr_updated_at := pr_updated_at p\<rparr>) (t_profiles db)\<rparr>)) db"

definition set_profile_enabled :: "ident_str \<Rightarrow> bool \<Rightarrow> unit exec" where
  "set_profile_enabled i en db =
     affecting (has_key pr_profile_id (t_profiles db) i) ''Profile'' i
       (\<lambda>db. (db\<lparr>t_profiles := update_rows (\<lambda>q. pr_profile_id q = i) (\<lambda>q. q\<lparr>pr_enabled := en\<rparr>)
          (t_profiles db)\<rparr>, Ok ())) db"

text \<open>Deleting a profile: files keep their rows without it, snapshots forbid it, schedules,
  policies and histories go with it, and the history of a schedule with the schedule.\<close>

definition delete_schedules_where :: "(ScheduleRecord \<Rightarrow> bool) \<Rightarrow> Database \<Rightarrow> Database" where
  "delete_schedules_where P db =
     db\<lparr>t_schedules := filter (\<lambda>s. \<not> P s) (t_schedules db),
        t_sched_hist := filter (\<lambda>h. \<not> gone P scr_schedule_id (t_schedules db) (shr_schedule_id h))
          (t_sched_hist db)\<rparr>"

definition delete_profile :: "string \<Rightarrow> ident_str \<Rightarrow> unit exec" where
  "delete_profile em i db =
     affecting (has_key pr_profile_id (t_profiles db) i) ''Profile'' i
       (checked (\<not> has_key sr_profile_id (t_snapshots db) i) em
         (\<lambda>db. (delete_schedules_where (\<lambda>s. scr_profile_id s = i) db)\<lparr>
            t_profiles := filter (\<lambda>p. pr_profile_id p \<noteq> i) (t_profiles db),
            t_files := update_rows (\<lambda>f. fr_profile_id f = Some i) (\<lambda>f. f\<lparr>fr_profile_id := None\<rparr>) (t_files db),
            t_policies := filter (\<lambda>p. rpr_profile_id p \<noteq> i) (t_policies db),
            t_ret_hist := filter (\<lambda>h. rhr_profile_id h \<noteq> i) (t_ret_hist db),
            t_ver_hist := filter (\<lambda>h. vhr_profile_id h \<noteq> i) (t_ver_hist db),
            t_rep_hist := filter (\<lambda>h. rep_profile_id h \<noteq> i) (t_rep_hist db)\<rparr>)) db"

subsection \<open>Files\<close>

definition same_slot :: "FileRecord \<Rightarrow> FileRecord \<Rightarrow> bool" where
  \<comment> \<open>a violation of \<open>UNIQUE(profile_id, relative_path)\<close>; NULL is distinct from NULL\<close>
  "same_slot f g \<longleftrightarrow> fr_profile_id f \<noteq> None \<and> fr_profile_id f = fr_profile_id g
     \<and> fr_relative_path f = fr_relative_path g"

definition create_file :: "string \<Rightarrow> FileRecord \<Rightarrow> unit exec" where
  "create_file em f db =
     checked (\<not> has_key fr_file_id (t_files db) (fr_file_id f)
              \<and> \<not> (\<exists>g \<in> set (t_files db). same_slot f g)
              \<and> ref_ok pr_profile_id (t_profiles db) (fr_profile_id f)) em
       (\<lambda>db. db\<lparr>t_files := t_files db @ [f]\<rparr>) db"

definition get_file :: "Database \<Rightarrow> ident_str \<Rightarrow> FileRecord option" where
  "get_file db i = find_first (\<lambda>f. fr_file_id f = i) (t_files db)"

definition list_files_by_profile :: "Database \<Rightarrow> ident_str option \<Rightarrow> FileRecord list" where
  "list_files_by_profile db profile_id =
     (case profile_id of
        Some pid \<Rightarrow> order_asc fr_relative_path (filter (\<lambda>f. fr_profile_id f = Some pid) (t_files db))
      | None \<Rightarrow> order_asc fr_file_name (t_files db))"

definition get_file_by_relative_path :: "Database \<Rightarrow> ident_str \<Rightarrow> string \<Rightarrow> FileRecord option" where
  "get_file_by_relative_path db pid path =
     find_first (\<lambda>f. fr_profile_id f = Some pid \<and> fr_relative_path f = path) (t_files db)"

definition file_update :: "FileRecord \<Rightarrow> FileRecord \<Rightarrow> FileRecord" where
  "file_update f g = g\<lparr>fr_file_name := fr_file_name f, fr_relative_path := fr_relative_path f,
     fr_original_size := fr_original_size f, fr_mime_type := fr_mime_type f,
     fr_status := fr_status f, fr_logical_file_hash := fr_logical_file_hash f,
     fr_modified_at := fr_modified_at f, fr_updated_timestamp := fr_updated_timestamp f\<rparr>"

definition update_file :: "string \<Rightarrow> FileRecord \<Rightarrow> unit exec" where
  "update_file em f db =
     affecting (has_key fr_file_id (t_files db) (fr_file_id f)) ''File'' (fr_file_id f)
       (checked (\<forall>g \<in> set (t_files db). \<forall>h \<in> set (t_files db).
            fr_file_id g = fr_file_id f \<and> same_slot (file_update f g) h \<longrightarrow> fr_file_id h = fr_file_id f) em
         (\<lambda>db. db\<lparr>t_files := update_rows (\<lambda>g. fr_file_id g = fr_file_id f) (file_update f) (t_files db)\<rparr>)) db"

definition count_files :: "Database \<Rightarrow> nat" where
  "count_files db = length (t_files db)"


text \<open>Deleting rows with the \<open>ON DELETE\<close> actions of the tables that refer to them: a chunk takes
  its repair history along and leaves its transfer jobs without a chunk; a manifest takes its
  chunks and repair history along.\<close>

definition chunk_gone :: "(ChunkRecord \<Rightarrow> bool) \<Rightarrow> Database \<Rightarrow> TransferJobRecord \<Rightarrow> bool" where
  "chunk_gone P db j =
     (case tjr_chunk_id j of None \<Rightarrow> False | Some i \<Rightarrow> gone P cr_chunk_id (t_chunks db) i)"

definition delete_chunks_where :: "(ChunkRecord \<Rightarrow> bool) \<Rightarrow> Database \<Rightarrow> Database" where
  "delete_chunks_where P db =
     db\<lparr>t_chunks := filter (\<lambda>c. \<not> P c) (t_chunks db),
        t_jobs := update_rows (chunk_gone P db) (\<lambda>j. j\<lparr>tjr_chunk_id := None\<rparr>) (t_jobs db),
        t_rep_hist := filter (\<lambda>h. \<not> gone P cr_chunk_id (t_chunks db) (rep_chunk_id h)) (t_rep_hist db)\<rparr>"

definition delete_manifests_where :: "(ManifestRecord \<Rightarrow> bool) \<Rightarrow> Database \<Rightarrow> Database" where
  "delete_manifests_where P db =
     (let db1 = delete_chunks_where (\<lambda>c. gone P mr_manifest_id (t_manifests db) (cr_manifest_id c)) db
      in db1\<lparr>t_manifests := filter (\<lambda>m. \<not> P m) (t_manifests db),
             t_rep_hist := filter (\<lambda>h. \<not> gone P mr_manifest_id (t_manifests db) (rep_manifest_id h))
               (t_rep_hist db1)\<rparr>)"

definition manifests_unused :: "Database \<Rightarrow> (ManifestRecord \<Rightarrow> bool) \<Rightarrow> bool" where
  \<comment> \<open>\<open>versions.manifest_id ON DELETE RESTRICT\<close>\<close>
  "manifests_unused db P \<longleftrightarrow>
     (\<forall>m \<in> set (t_manifests db). P m \<longrightarrow> \<not> has_key ver_manifest_id (t_versions db) (mr_manifest_id m))"

definition delete_file :: "string \<Rightarrow> ident_str \<Rightarrow> unit exec" where
  "delete_file em i db =
     affecting (has_key fr_file_id (t_files db) i) ''File'' i
       (checked (\<not> has_key ver_file_id (t_versions db) i \<and> manifests_unused db (\<lambda>m. mr_file_id m = i)) em
         (\<lambda>db. let db1 = delete_chunks_where (\<lambda>c. cr_file_id c = i)
                           (delete_manifests_where (\<lambda>m. mr_file_id m = i) db)
           in db1\<lparr>t_files := filter (\<lambda>f. fr_file_id f \<noteq> i) (t_files db1),
                  t_jobs := filter (\<lambda>j. tjr_file_id j \<noteq> i) (t_jobs db1),
                  t_rep_hist := filter (\<lambda>h. rep_file_id h \<noteq> i) (t_rep_hist db1)\<rparr>)) db"

text \<open>The text given to the FTS5 matcher: every word reduced to letters, digits, \<open>_\<close>, \<open>-\<close> and
  \<open>.\<close>, quoted and made a prefix. The Unicode test of the standard library is the argument
  \<open>alnum\<close> on an encoded character.\<close>

definition fts_char :: "(string \<Rightarrow> bool) \<Rightarrow> string \<Rightarrow> bool" where
  "fts_char alnum ch \<longleftrightarrow> alnum ch \<or> ch \<in> {''_'', ''-'', ''.''}"

fun join :: "string \<Rightarrow> string list \<Rightarrow> string" where
  "join sep [] = []"
| "join sep [x] = x"
| "join sep (x # y # xs) = x @ sep @ join sep (y # xs)"

definition sanitize_fts5_query :: "(string \<Rightarrow> bool) \<Rightarrow> string \<Rightarrow> string" where
  "sanitize_fts5_query alnum query =
     join '' '' (map (\<lambda>w. [CHR 0x22] @ w @ [CHR 0x22, CHR ''*''])
       (filter (\<lambda>w. w \<noteq> [])
         (map (\<lambda>w. concat (filter (fts_char alnum) (utf8_chars w))) (split_whitespace query))))"

subsection \<open>Manifests\<close>

definition manifest_row :: "ManifestV1 \<Rightarrow> string \<Rightarrow> ManifestRecord" where
  "manifest_row m serialized =
     (let now = (case lf_created_at (logical_file m) of
                   Some ts \<Rightarrow> show_nat (unat ts) | None \<Rightarrow> ''1970-01-01T00:00:00Z'')
      in \<lparr>mr_manifest_id = manifest_id m, mr_file_id = lf_file_id (logical_file m),
          mr_manifest_version = ManifestVersion_display (manifest_version m),
          mr_serialized_manifest = serialized, mr_created_at = now, mr_updated_at = now\<rparr>)"

definition insert_manifest :: "string \<Rightarrow> ManifestRecord \<Rightarrow> unit exec" where
  "insert_manifest em r db =
     checked (\<not> has_key mr_manifest_id (t_manifests db) (mr_manifest_id r)
              \<and> has_key fr_file_id (t_files db) (mr_file_id r)) em
       (\<lambda>db. db\<lparr>t_manifests := t_manifests db @ [r]\<rparr>) db"

definition save_manifest ::
  "platform \<Rightarrow> (ManifestV1 \<Rightarrow> (string, string) result) \<Rightarrow> string \<Rightarrow> ManifestV1 \<Rightarrow> unit exec" where
  "save_manifest pf serde_to_string em m db =
     (case ManifestV1_to_json pf serde_to_string m of
        Inl e \<Rightarrow> (db, Err (Manifest e))
      | Inr serialized \<Rightarrow>
          let r = manifest_row m serialized
          in if has_key mr_manifest_id (t_manifests db) (mr_manifest_id r)
             then (db\<lparr>t_manifests := update_rows (\<lambda>q. mr_manifest_id q = mr_manifest_id r)
                       (\<lambda>q. q\<lparr>mr_serialized_manifest := mr_serialized_manifest r,
                              mr_updated_at := mr_updated_at r\<rparr>) (t_manifests db)\<rparr>, Ok ())
             else insert_manifest em r db)"

definition create_manifest :: "string \<Rightarrow> ManifestRecord \<Rightarrow> unit exec" where
  "create_manifest em r db = insert_manifest em r db"

definition read_manifest ::
  "platform \<Rightarrow> (string \<Rightarrow> (string, ManifestV1) result) \<Rightarrow> ManifestRecord option
     \<Rightarrow> (DbError, ManifestV1 option) result" where
  "read_manifest pf serde_from_str r =
     (case r of
        None \<Rightarrow> Ok None
      | Some q \<Rightarrow> map_err (\<lambda>e. InvalidData (ManifestError_display e))
          (bind_res (ManifestV1_from_json pf serde_from_str (mr_serialized_manifest q)) (\<lambda>m. Ok (Some m))))"

definition get_manifest_record :: "Database \<Rightarrow> string \<Rightarrow> ManifestRecord option" where
  "get_manifest_record db i = find_first (\<lambda>m. mr_manifest_id m = i) (t_manifests db)"

definition get_manifest ::
  "platform \<Rightarrow> (string \<Rightarrow> (string, ManifestV1) result) \<Rightarrow> Database \<Rightarrow> string
     \<Rightarrow> (DbError, ManifestV1 option) result" where
  "get_manifest pf serde_from_str db i = read_manifest pf serde_from_str (get_manifest_record db i)"

definition first_row :: "'r list \<Rightarrow> 'r option" where
  "first_row t = (case t of [] \<Rightarrow> None | r # _ \<Rightarrow> Some r)"

definition get_manifest_by_file_id ::
  "platform \<Rightarrow> (string \<Rightarrow> (string, ManifestV1) result) \<Rightarrow> Database \<Rightarrow> ident_str
     \<Rightarrow> (DbError, ManifestV1 option) result" where
  "get_manifest_by_file_id pf serde_from_str db fid =
     read_manifest pf serde_from_str
       (first_row (order_desc mr_created_at (filter (\<lambda>m. mr_file_id m = fid) (t_manifests db))))"

definition delete_manifest :: "string \<Rightarrow> string \<Rightarrow> unit exec" where
  "delete_manifest em i db =
     affecting (has_key mr_manifest_id (t_manifests db) i) ''Manifest'' i
       (checked (manifests_unused db (\<lambda>m. mr_manifest_id m = i)) em
         (delete_manifests_where (\<lambda>m. mr_manifest_id m = i))) db"

subsection \<open>Chunks\<close>

definition create_chunk :: "string \<Rightarrow> ChunkRecord \<Rightarrow> unit exec" where
  "create_chunk em c db =
     checked (\<not> has_key cr_chunk_id (t_chunks db) (cr_chunk_id c)
              \<and> \<not> has_key (\<lambda>d. (cr_file_id d, cr_chunk_index d)) (t_chunks db) (cr_file_id c, cr_chunk_index c)
              \<and> has_key fr_file_id (t_files db) (cr_file_id c)
              \<and> has_key mr_manifest_id (t_manifests db) (cr_manifest_id c)) em
       (\<lambda>db. db\<lparr>t_chunks := t_chunks db @ [c]\<rparr>) db"

fun insert_chunks :: "string \<Rightarrow> ChunkRecord list \<Rightarrow> unit exec" where
  "insert_chunks em [] db = (db, Ok ())"
| "insert_chunks em (c # cs) db = bind_exec (create_chunk em c) (\<lambda>_. insert_chunks em cs) db"

definition create_chunks :: "string \<Rightarrow> ChunkRecord list \<Rightarrow> unit exec" where
  "create_chunks em cs = with_transaction (insert_chunks em cs)"

definition get_chunk :: "Database \<Rightarrow> ident_str \<Rightarrow> ChunkRecord option" where
  "get_chunk db i = find_first (\<lambda>c. cr_chunk_id c = i) (t_chunks db)"

definition list_chunks_by_file :: "Database \<Rightarrow> ident_str \<Rightarrow> ChunkRecord list" where
  "list_chunks_by_file db fid = order_asc cr_chunk_index (filter (\<lambda>c. cr_file_id c = fid) (t_chunks db))"

definition list_chunks_by_manifest :: "Database \<Rightarrow> string \<Rightarrow> ChunkRecord list" where
  "list_chunks_by_manifest db mid =
     order_asc cr_chunk_index (filter (\<lambda>c. cr_manifest_id c = mid) (t_chunks db))"

definition find_chunks_by_storage_reference :: "Database \<Rightarrow> string \<Rightarrow> ChunkRecord list" where
  "find_chunks_by_storage_reference db ref = filter (\<lambda>c. cr_storage_reference c = ref) (t_chunks db)"

definition update_chunk_status :: "ident_str \<Rightarrow> string \<Rightarrow> unit exec" where
  "update_chunk_status i status db =
     affecting (has_key cr_chunk_id (t_chunks db) i) ''Chunk'' i
       (\<lambda>db. (db\<lparr>t_chunks := update_rows (\<lambda>c. cr_chunk_id c = i) (\<lambda>c. c\<lparr>cr_status := status\<rparr>)
          (t_chunks db)\<rparr>, Ok ())) db"

definition count_chunks_for_file :: "Database \<Rightarrow> ident_str \<Rightarrow> nat" where
  "count_chunks_for_file db fid = length (filter (\<lambda>c. cr_file_id c = fid) (t_chunks db))"

definition delete_chunks_by_file :: "ident_str \<Rightarrow> nat exec" where
  "delete_chunks_by_file fid db =
     (delete_chunks_where (\<lambda>c. cr_file_id c = fid) db, Ok (count_chunks_for_file db fid))"


subsection \<open>Snapshots\<close>

text \<open>The column \<open>status\<close> holds the \<open>Display\<close> of the enum; these functions read it back.\<close>

definition BackupStatus_of_text :: "string \<Rightarrow> BackupStatus option" where
  "BackupStatus_of_text s =
     (if s = ''idle'' then Some BackupStatus.Idle
      else if s = ''scanning'' then Some BackupStatus.Scanning
      else if s = ''backing_up'' \<or> s = ''backingup'' then Some BackupStatus.BackingUp
      else if s = ''completed'' then Some BackupStatus.Completed
      else if s = ''failed'' then Some BackupStatus.Failed
      else if s = ''cancelled'' then Some BackupStatus.Cancelled else None)"

definition TransferDirection_of_text :: "string \<Rightarrow> TransferDirection option" where
  "TransferDirection_of_text s =
     (if s = ''upload'' then Some TransferDirection.Upload
      else if s = ''download'' then Some TransferDirection.Download else None)"

definition TransferStatus_of_text :: "string \<Rightarrow> TransferStatus option" where
  "TransferStatus_of_text s =
     (if s = ''pending'' then Some TransferStatus.Pending
      else if s = ''transferring'' then Some TransferStatus.Transferring
      else if s = ''paused'' then Some TransferStatus.Paused
      else if s = ''completed'' then Some TransferStatus.Completed
      else if s = ''failed'' then Some TransferStatus.Failed
      else if s = ''cancelled'' then Some TransferStatus.Cancelled else None)"

lemma status_text_roundtrip:
  "BackupStatus_of_text (BackupStatus_display b) = Some b"
  "TransferDirection_of_text (TransferDirection_display d) = Some d"
  "TransferStatus_of_text (TransferStatus_display t) = Some t"
  by (cases b; cases d; cases t; simp add: BackupStatus_of_text_def TransferDirection_of_text_def
        TransferStatus_of_text_def)+

definition create_snapshot :: "string \<Rightarrow> SnapshotRecord \<Rightarrow> unit exec" where
  "create_snapshot em s db =
     checked (\<not> has_key sr_snapshot_id (t_snapshots db) (sr_snapshot_id s)
              \<and> has_key pr_profile_id (t_profiles db) (sr_profile_id s)) em
       (\<lambda>db. db\<lparr>t_snapshots := t_snapshots db @ [s]\<rparr>) db"

definition get_snapshot :: "Database \<Rightarrow> ident_str \<Rightarrow> SnapshotRecord option" where
  "get_snapshot db i = find_first (\<lambda>s. sr_snapshot_id s = i) (t_snapshots db)"

definition list_snapshots_by_profile :: "Database \<Rightarrow> ident_str \<Rightarrow> SnapshotRecord list" where
  "list_snapshots_by_profile db pid =
     order_desc sr_created_at (filter (\<lambda>s. sr_profile_id s = pid) (t_snapshots db))"

definition get_latest_snapshot :: "Database \<Rightarrow> ident_str \<Rightarrow> SnapshotRecord option" where
  "get_latest_snapshot db pid = first_row (list_snapshots_by_profile db pid)"

definition list_files_by_snapshot ::
  "Database \<Rightarrow> ident_str \<Rightarrow> (FileRecord \<times> VersionRecord) list" where
  "list_files_by_snapshot db sid =
     order_asc (\<lambda>(f, v). fr_relative_path f)
       (concat (map (\<lambda>v. map (\<lambda>f. (f, v)) (filter (\<lambda>f. fr_file_id f = ver_file_id v) (t_files db)))
         (filter (\<lambda>v. ver_snapshot_id v = sid) (t_versions db))))"

definition update_snapshot_status_and_metadata ::
  "ident_str \<Rightarrow> BackupStatus \<Rightarrow> string option \<Rightarrow> unit exec" where
  "update_snapshot_status_and_metadata i status metadata db =
     affecting (has_key sr_snapshot_id (t_snapshots db) i) ''Snapshot'' i
       (\<lambda>db. (db\<lparr>t_snapshots := update_rows (\<lambda>s. sr_snapshot_id s = i)
          (\<lambda>s. s\<lparr>sr_status := status, sr_metadata := metadata\<rparr>) (t_snapshots db)\<rparr>, Ok ())) db"

definition update_snapshot_status :: "ident_str \<Rightarrow> BackupStatus \<Rightarrow> unit exec" where
  "update_snapshot_status i status = update_snapshot_status_and_metadata i status None"

subsection \<open>Versions\<close>

definition create_version :: "string \<Rightarrow> VersionRecord \<Rightarrow> unit exec" where
  "create_version em v db =
     checked (\<not> has_key ver_version_id (t_versions db) (ver_version_id v)
              \<and> has_key fr_file_id (t_files db) (ver_file_id v)
              \<and> has_key sr_snapshot_id (t_snapshots db) (ver_snapshot_id v)
              \<and> has_key mr_manifest_id (t_manifests db) (ver_manifest_id v)) em
       (\<lambda>db. db\<lparr>t_versions := t_versions db @ [v]\<rparr>) db"

definition get_version :: "Database \<Rightarrow> ident_str \<Rightarrow> VersionRecord option" where
  "get_version db i = find_first (\<lambda>v. ver_version_id v = i) (t_versions db)"

definition list_versions_by_snapshot :: "Database \<Rightarrow> ident_str \<Rightarrow> VersionRecord list" where
  "list_versions_by_snapshot db sid =
     order_asc ver_created_at (filter (\<lambda>v. ver_snapshot_id v = sid) (t_versions db))"

definition list_versions_by_file :: "Database \<Rightarrow> ident_str \<Rightarrow> VersionRecord list" where
  "list_versions_by_file db fid =
     order_desc ver_created_at (filter (\<lambda>v. ver_file_id v = fid) (t_versions db))"

definition count_versions_by_snapshot :: "Database \<Rightarrow> ident_str \<Rightarrow> nat" where
  "count_versions_by_snapshot db sid = length (filter (\<lambda>v. ver_snapshot_id v = sid) (t_versions db))"

subsection \<open>Transfer jobs\<close>

definition insert_job :: "string \<Rightarrow> TransferJobRecord \<Rightarrow> unit exec" where
  "insert_job em j db =
     checked (\<not> has_key tjr_job_id (t_jobs db) (tjr_job_id j)
              \<and> has_key fr_file_id (t_files db) (tjr_file_id j)
              \<and> ref_ok cr_chunk_id (t_chunks db) (tjr_chunk_id j)) em
       (\<lambda>db. db\<lparr>t_jobs := t_jobs db @ [j]\<rparr>) db"

definition create_transfer_job :: "string \<Rightarrow> TransferJobRecord \<Rightarrow> unit exec" where
  "create_transfer_job em j = insert_job em j"

definition update_jobs ::
  "ident_str \<Rightarrow> (TransferJobRecord \<Rightarrow> TransferJobRecord) \<Rightarrow> Database \<Rightarrow> Database" where
  "update_jobs i f db = db\<lparr>t_jobs := update_rows (\<lambda>j. tjr_job_id j = i) f (t_jobs db)\<rparr>"

definition upsert_transfer_job :: "string \<Rightarrow> TransferJobRecord \<Rightarrow> unit exec" where
  "upsert_transfer_job em j db =
     (if has_key tjr_job_id (t_jobs db) (tjr_job_id j)
      then (update_jobs (tjr_job_id j)
             (\<lambda>q. q\<lparr>tjr_status := tjr_status j, tjr_progress := tjr_progress j,
                    tjr_retry_count := tjr_retry_count j, tjr_error_message := tjr_error_message j,
                    tjr_updated_at := tjr_updated_at j\<rparr>) db, Ok ())
      else insert_job em j db)"

definition get_transfer_job :: "Database \<Rightarrow> ident_str \<Rightarrow> TransferJobRecord option" where
  "get_transfer_job db i = find_first (\<lambda>j. tjr_job_id j = i) (t_jobs db)"

definition list_transfer_jobs_by_file :: "Database \<Rightarrow> ident_str \<Rightarrow> TransferJobRecord list" where
  "list_transfer_jobs_by_file db fid =
     order_asc tjr_created_at (filter (\<lambda>j. tjr_file_id j = fid) (t_jobs db))"

definition list_transfer_jobs_by_status :: "Database \<Rightarrow> TransferStatus \<Rightarrow> TransferJobRecord list" where
  "list_transfer_jobs_by_status db status =
     order_asc tjr_created_at (filter (\<lambda>j. tjr_status j = status) (t_jobs db))"

definition list_recent_transfer_jobs :: "Database \<Rightarrow> nat \<Rightarrow> TransferJobRecord list" where
  "list_recent_transfer_jobs db limit = take limit (order_desc tjr_created_at (t_jobs db))"

definition affecting_job ::
  "ident_str \<Rightarrow> (TransferJobRecord \<Rightarrow> TransferJobRecord) \<Rightarrow> unit exec" where
  "affecting_job i f db =
     affecting (has_key tjr_job_id (t_jobs db) i) ''TransferJob'' i (\<lambda>db. (update_jobs i f db, Ok ())) db"

definition update_transfer_job_status ::
  "ident_str \<Rightarrow> TransferStatus \<Rightarrow> string option \<Rightarrow> string \<Rightarrow> unit exec" where
  "update_transfer_job_status i status err at =
     affecting_job i (\<lambda>j. j\<lparr>tjr_status := status, tjr_error_message := err, tjr_updated_at := at\<rparr>)"

definition update_transfer_job_progress :: "ident_str \<Rightarrow> u64 \<Rightarrow> string \<Rightarrow> unit exec" where
  "update_transfer_job_progress i p at =
     affecting_job i (\<lambda>j. j\<lparr>tjr_progress := p, tjr_updated_at := at\<rparr>)"

definition increment_transfer_job_retry :: "ident_str \<Rightarrow> string \<Rightarrow> unit exec" where
  \<comment> \<open>the column is an SQL integer and is read back \<open>as u32\<close>\<close>
  "increment_transfer_job_retry i at =
     affecting_job i (\<lambda>j. j\<lparr>tjr_retry_count := (tjr_retry_count j + 1) mod 2 ^ 32,
                            tjr_updated_at := at\<rparr>)"

subsection \<open>Start-up reconciliation\<close>

text \<open>SQLite's \<open>json_insert\<close> of the interruption reason and time into the metadata is the argument
  \<open>note\<close>; it fails on text that is not JSON, with message \<open>em\<close>. The clock is the argument \<open>now\<close>.\<close>

definition interruption_msg :: string where
  "interruption_msg = ''Operation interrupted by unexpected process termination''"

definition snapshot_active :: "SnapshotRecord \<Rightarrow> bool" where
  "snapshot_active s \<longleftrightarrow> sr_status s = BackupStatus.Scanning \<or> sr_status s = BackupStatus.BackingUp"

definition metadata_text :: "string option \<Rightarrow> string" where
  \<comment> \<open>\<open>COALESCE(NULLIF(metadata, ''), '{}')\<close>\<close>
  "metadata_text m = (case m of None \<Rightarrow> ''{}'' | Some t \<Rightarrow> if t = [] then ''{}'' else t)"

definition fail_snapshots :: "(string \<Rightarrow> string option) \<Rightarrow> string \<Rightarrow> nat exec" where
  "fail_snapshots note em db =
     (if \<exists>s \<in> set (t_snapshots db). snapshot_active s \<and> note (metadata_text (sr_metadata s)) = None
      then (db, Err (Sql (SqliteError False em)))
      else (db\<lparr>t_snapshots := update_rows snapshot_active
               (\<lambda>s. s\<lparr>sr_status := BackupStatus.Failed, sr_metadata := note (metadata_text (sr_metadata s))\<rparr>)
               (t_snapshots db)\<rparr>,
            Ok (length (filter snapshot_active (t_snapshots db)))))"

definition fail_jobs :: "string \<Rightarrow> nat exec" where
  "fail_jobs now db =
     (db\<lparr>t_jobs := update_rows (\<lambda>j. tjr_status j = TransferStatus.Transferring)
          (\<lambda>j. j\<lparr>tjr_status := TransferStatus.Failed, tjr_error_message := Some interruption_msg,
                 tjr_updated_at := now\<rparr>) (t_jobs db)\<rparr>,
      Ok (length (filter (\<lambda>j. tjr_status j = TransferStatus.Transferring) (t_jobs db))))"

definition reconcile_interrupted_operations ::
  "(string \<Rightarrow> string option) \<Rightarrow> string \<Rightarrow> string \<Rightarrow> (nat \<times> nat) exec" where
  "reconcile_interrupted_operations note em now =
     with_transaction (bind_exec (fail_snapshots note em) (\<lambda>n.
       bind_exec (fail_jobs now) (\<lambda>k. return_exec (n, k))))"

subsection \<open>Schedules\<close>

definition create_schedule :: "string \<Rightarrow> ScheduleRecord \<Rightarrow> unit exec" where
  "create_schedule em s db =
     checked (\<not> has_key scr_schedule_id (t_schedules db) (scr_schedule_id s)
              \<and> has_key pr_profile_id (t_profiles db) (scr_profile_id s)) em
       (\<lambda>db. db\<lparr>t_schedules := t_schedules db @ [s]\<rparr>) db"

definition get_schedule :: "Database \<Rightarrow> ident_str \<Rightarrow> ScheduleRecord option" where
  "get_schedule db i = find_first (\<lambda>s. scr_schedule_id s = i) (t_schedules db)"

definition list_schedules :: "Database \<Rightarrow> ScheduleRecord list" where
  "list_schedules db = order_asc scr_created_at (t_schedules db)"

definition list_schedules_for_profile :: "Database \<Rightarrow> ident_str \<Rightarrow> ScheduleRecord list" where
  "list_schedules_for_profile db pid =
     order_asc scr_created_at (filter (\<lambda>s. scr_profile_id s = pid) (t_schedules db))"

definition due :: "string \<Rightarrow> ScheduleRecord \<Rightarrow> bool" where
  "due max_timestamp s \<longleftrightarrow> scr_enabled s
     \<and> (case scr_next_run_at s of None \<Rightarrow> False | Some t \<Rightarrow> t \<le> max_timestamp)"

definition list_due_schedules :: "Database \<Rightarrow> string \<Rightarrow> ScheduleRecord list" where
  "list_due_schedules db max_timestamp =
     order_asc (\<lambda>s. the (scr_next_run_at s)) (filter (due max_timestamp) (t_schedules db))"

definition update_schedules ::
  "ident_str \<Rightarrow> (ScheduleRecord \<Rightarrow> ScheduleRecord) \<Rightarrow> Database \<Rightarrow> Database" where
  "update_schedules i f db = db\<lparr>t_schedules := update_rows (\<lambda>s. scr_schedule_id s = i) f (t_schedules db)\<rparr>"

definition update_schedule :: "string \<Rightarrow> ScheduleRecord \<Rightarrow> unit exec" where
  "update_schedule em s db =
     affecting (has_key scr_schedule_id (t_schedules db) (scr_schedule_id s)) ''Schedule'' (scr_schedule_id s)
       (checked (has_key pr_profile_id (t_profiles db) (scr_profile_id s)) em
         (update_schedules (scr_schedule_id s)
           (\<lambda>q. q\<lparr>scr_profile_id := scr_profile_id s, scr_schedule_type := scr_schedule_type s,
                  scr_expression := scr_expression s, scr_timezone := scr_timezone s,
                  scr_enabled := scr_enabled s, scr_next_run_at := scr_next_run_at s,
                  scr_last_run_at := scr_last_run_at s, scr_last_status := scr_last_status s,
                  scr_last_error_code := scr_last_error_code s, scr_updated_at := scr_updated_at s\<rparr>))) db"

definition update_schedule_status ::
  "string \<Rightarrow> ident_str \<Rightarrow> string option \<Rightarrow> string option \<Rightarrow> string option \<Rightarrow> string option
     \<Rightarrow> unit exec" where
  "update_schedule_status now i next_run_at last_run_at last_status last_error_code db =
     affecting (has_key scr_schedule_id (t_schedules db) i) ''Schedule'' i
       (\<lambda>db. (update_schedules i
          (\<lambda>q. q\<lparr>scr_next_run_at := next_run_at, scr_last_run_at := last_run_at,
                 scr_last_status := last_status, scr_last_error_code := last_error_code,
                 scr_updated_at := now\<rparr>) db, Ok ())) db"

definition delete_schedule :: "ident_str \<Rightarrow> bool exec" where
  "delete_schedule i db =
     (delete_schedules_where (\<lambda>s. scr_schedule_id s = i) db,
      Ok (has_key scr_schedule_id (t_schedules db) i))"

definition record_schedule_history :: "string \<Rightarrow> ScheduleHistoryRecord \<Rightarrow> unit exec" where
  "record_schedule_history em h db =
     checked (\<not> has_key shr_history_id (t_sched_hist db) (shr_history_id h)
              \<and> has_key scr_schedule_id (t_schedules db) (shr_schedule_id h)) em
       (\<lambda>db. db\<lparr>t_sched_hist := t_sched_hist db @ [h]\<rparr>) db"

definition list_schedule_history :: "Database \<Rightarrow> ident_str \<Rightarrow> nat \<Rightarrow> ScheduleHistoryRecord list" where
  "list_schedule_history db i limit =
     take limit (order_desc shr_started_at (filter (\<lambda>h. shr_schedule_id h = i) (t_sched_hist db)))"


subsection \<open>Snapshot pruning and retention\<close>

text \<open>Deleting a snapshot after its versions: the repair history forgets which snapshot it was
  for.\<close>

definition delete_snapshot_row :: "ident_str \<Rightarrow> Database \<Rightarrow> Database" where
  "delete_snapshot_row sid db =
     db\<lparr>t_snapshots := filter (\<lambda>s. sr_snapshot_id s \<noteq> sid) (t_snapshots db),
        t_rep_hist := update_rows (\<lambda>h. rep_snapshot_id h = Some sid) (\<lambda>h. h\<lparr>rep_snapshot_id := None\<rparr>)
          (t_rep_hist db)\<rparr>"

definition delete_versions_of :: "ident_str \<Rightarrow> Database \<Rightarrow> Database" where
  "delete_versions_of sid db = db\<lparr>t_versions := filter (\<lambda>v. ver_snapshot_id v \<noteq> sid) (t_versions db)\<rparr>"

definition prune_one :: "ident_str \<Rightarrow> nat exec" where
  "prune_one sid db =
     (let db1 = delete_versions_of sid db
      in if has_key sr_snapshot_id (t_snapshots db) sid
         then (delete_snapshot_row sid db1, Ok (count_versions_by_snapshot db sid))
         else (db1, Err (DbError.NotFound ''Snapshot'' sid)))"

definition delete_snapshot :: "ident_str \<Rightarrow> nat exec" where
  "delete_snapshot sid = with_transaction (prune_one sid)"

fun prune_loop :: "ident_str list \<Rightarrow> nat \<Rightarrow> nat exec" where
  "prune_loop [] n db = (db, Ok n)"
| "prune_loop (sid # sids) n db = bind_exec (prune_one sid) (\<lambda>k. prune_loop sids (n + k)) db"

definition record_retention_history :: "string \<Rightarrow> RetentionHistoryRecord \<Rightarrow> unit exec" where
  "record_retention_history em h db =
     checked (\<not> has_key rhr_history_id (t_ret_hist db) (rhr_history_id h)
              \<and> has_key pr_profile_id (t_profiles db) (rhr_profile_id h)) em
       (\<lambda>db. db\<lparr>t_ret_hist := t_ret_hist db @ [h]\<rparr>) db"

definition prune_snapshots_transactional ::
  "string \<Rightarrow> ident_str list \<Rightarrow> RetentionHistoryRecord option \<Rightarrow> nat exec" where
  "prune_snapshots_transactional em sids history =
     with_transaction (bind_exec (prune_loop sids 0) (\<lambda>n.
       case history of
         None \<Rightarrow> return_exec n
       | Some h \<Rightarrow> bind_exec (record_retention_history em h) (\<lambda>_. return_exec n)))"

definition save_retention_policy :: "string \<Rightarrow> RetentionPolicyRecord \<Rightarrow> unit exec" where
  "save_retention_policy em p db =
     (if has_key rpr_profile_id (t_policies db) (rpr_profile_id p)
      then checked (\<forall>q \<in> set (t_policies db). rpr_policy_id q = rpr_policy_id p
                      \<longrightarrow> rpr_profile_id q = rpr_profile_id p) em
        (\<lambda>db. db\<lparr>t_policies := update_rows (\<lambda>q. rpr_profile_id q = rpr_profile_id p)
           (\<lambda>q. q\<lparr>rpr_keep_latest_n := rpr_keep_latest_n p,
                  rpr_keep_newer_than_secs := rpr_keep_newer_than_secs p,
                  rpr_keep_latest_successful := rpr_keep_latest_successful p,
                  rpr_keep_latest_always := rpr_keep_latest_always p,
                  rpr_prune_failed := rpr_prune_failed p, rpr_prune_empty := rpr_prune_empty p,
                  rpr_enabled := rpr_enabled p, rpr_updated_at := rpr_updated_at p\<rparr>)
           (t_policies db)\<rparr>) db
      else checked (\<not> has_key rpr_policy_id (t_policies db) (rpr_policy_id p)
                    \<and> has_key pr_profile_id (t_profiles db) (rpr_profile_id p)) em
        (\<lambda>db. db\<lparr>t_policies := t_policies db @ [p]\<rparr>) db)"

definition get_retention_policy :: "Database \<Rightarrow> ident_str \<Rightarrow> RetentionPolicyRecord option" where
  "get_retention_policy db pid = find_first (\<lambda>p. rpr_profile_id p = pid) (t_policies db)"

definition delete_retention_policy :: "ident_str \<Rightarrow> unit exec" where
  "delete_retention_policy pid db =
     (db\<lparr>t_policies := filter (\<lambda>p. rpr_profile_id p \<noteq> pid) (t_policies db)\<rparr>, Ok ())"

definition list_retention_history :: "Database \<Rightarrow> ident_str \<Rightarrow> nat \<Rightarrow> RetentionHistoryRecord list" where
  "list_retention_history db pid limit =
     take limit (order_desc rhr_executed_at (filter (\<lambda>h. rhr_profile_id h = pid) (t_ret_hist db)))"

subsection \<open>Verification and repair history\<close>

definition record_verification_history :: "string \<Rightarrow> VerificationHistoryRecord \<Rightarrow> unit exec" where
  "record_verification_history em h db =
     checked (\<not> has_key vhr_history_id (t_ver_hist db) (vhr_history_id h)
              \<and> has_key pr_profile_id (t_profiles db) (vhr_profile_id h)) em
       (\<lambda>db. db\<lparr>t_ver_hist := t_ver_hist db @ [h]\<rparr>) db"

definition list_verification_history ::
  "Database \<Rightarrow> ident_str \<Rightarrow> nat \<Rightarrow> VerificationHistoryRecord list" where
  "list_verification_history db pid limit =
     take limit (order_desc vhr_verified_at (filter (\<lambda>h. vhr_profile_id h = pid) (t_ver_hist db)))"

definition get_verification_history :: "Database \<Rightarrow> string \<Rightarrow> VerificationHistoryRecord option" where
  "get_verification_history db i = find_first (\<lambda>h. vhr_history_id h = i) (t_ver_hist db)"

definition record_repair_history :: "string \<Rightarrow> RepairHistoryRecord \<Rightarrow> unit exec" where
  "record_repair_history em h db =
     checked (\<not> has_key rep_repair_id (t_rep_hist db) (rep_repair_id h)
              \<and> has_key pr_profile_id (t_profiles db) (rep_profile_id h)
              \<and> ref_ok sr_snapshot_id (t_snapshots db) (rep_snapshot_id h)
              \<and> has_key fr_file_id (t_files db) (rep_file_id h)
              \<and> has_key mr_manifest_id (t_manifests db) (rep_manifest_id h)
              \<and> has_key cr_chunk_id (t_chunks db) (rep_chunk_id h)) em
       (\<lambda>db. db\<lparr>t_rep_hist := t_rep_hist db @ [h]\<rparr>) db"

definition list_repair_history :: "Database \<Rightarrow> ident_str \<Rightarrow> nat \<Rightarrow> RepairHistoryRecord list" where
  "list_repair_history db pid limit =
     take limit (order_desc rep_repaired_at (filter (\<lambda>h. rep_profile_id h = pid) (t_rep_hist db)))"

definition get_repair_history :: "Database \<Rightarrow> string \<Rightarrow> RepairHistoryRecord option" where
  "get_repair_history db i = find_first (\<lambda>h. rep_repair_id h = i) (t_rep_hist db)"

definition repair_chunk_row :: "ident_str \<Rightarrow> string \<Rightarrow> string \<Rightarrow> u64 \<Rightarrow> string \<Rightarrow> unit exec" where
  "repair_chunk_row cid new_reference new_hash new_stored_size at db =
     affecting (has_key cr_chunk_id (t_chunks db) cid) ''Chunk'' cid
       (\<lambda>db. (db\<lparr>t_chunks := update_rows (\<lambda>c. cr_chunk_id c = cid)
          (\<lambda>c. c\<lparr>cr_storage_reference := new_reference, cr_integrity_hash := new_hash,
                 cr_stored_size := new_stored_size, cr_updated_at := at\<rparr>) (t_chunks db)\<rparr>, Ok ())) db"

definition repair_manifest_row ::
  "platform \<Rightarrow> (ManifestV1 \<Rightarrow> (string, string) result) \<Rightarrow> ManifestV1 \<Rightarrow> string \<Rightarrow> unit exec" where
  "repair_manifest_row pf serde_to_string m at db =
     (case ManifestV1_to_json pf serde_to_string m of
        Inl e \<Rightarrow> (db, Err (Manifest e))
      | Inr serialized \<Rightarrow>
          affecting (has_key mr_manifest_id (t_manifests db) (manifest_id m)) ''Manifest'' (manifest_id m)
            (\<lambda>db. (db\<lparr>t_manifests := update_rows (\<lambda>q. mr_manifest_id q = manifest_id m)
               (\<lambda>q. q\<lparr>mr_serialized_manifest := serialized, mr_updated_at := at\<rparr>) (t_manifests db)\<rparr>,
               Ok ())) db)"

definition atomic_apply_chunk_repair ::
  "platform \<Rightarrow> (ManifestV1 \<Rightarrow> (string, string) result) \<Rightarrow> string \<Rightarrow> ident_str \<Rightarrow> string \<Rightarrow> string \<Rightarrow> u64
     \<Rightarrow> string \<Rightarrow> ManifestV1 \<Rightarrow> RepairHistoryRecord \<Rightarrow> unit exec" where
  "atomic_apply_chunk_repair pf serde_to_string em cid new_reference new_hash new_stored_size at m h =
     with_transaction
       (bind_exec (repair_chunk_row cid new_reference new_hash new_stored_size at) (\<lambda>_.
        bind_exec (repair_manifest_row pf serde_to_string m at) (\<lambda>_. record_repair_history em h)))"

subsection \<open>Telegram account\<close>

definition save_telegram_account :: "TelegramAccountRecord \<Rightarrow> unit exec" where
  "save_telegram_account a db =
     (if has_key tga_user_id (t_tg_accounts db) (tga_user_id a)
      then (db\<lparr>t_tg_accounts := update_rows (\<lambda>q. tga_user_id q = tga_user_id a)
             (\<lambda>q. q\<lparr>tga_first_name := tga_first_name a, tga_last_name := tga_last_name a,
                    tga_username := tga_username a, tga_phone_redacted := tga_phone_redacted a,
                    tga_last_seen_at := tga_last_seen_at a\<rparr>) (t_tg_accounts db)\<rparr>, Ok ())
      else (db\<lparr>t_tg_accounts := t_tg_accounts db @ [a]\<rparr>, Ok ()))"

definition get_telegram_account :: "Database \<Rightarrow> int \<Rightarrow> TelegramAccountRecord option" where
  "get_telegram_account db i = find_first (\<lambda>a. tga_user_id a = i) (t_tg_accounts db)"

definition save_telegram_channel :: "string \<Rightarrow> TelegramChannelRecord \<Rightarrow> unit exec" where
  "save_telegram_channel em c db =
     checked (has_key tga_user_id (t_tg_accounts db) (tgc_user_id c)) em
       (\<lambda>db. if has_key tgc_channel_id (t_tg_channels db) (tgc_channel_id c)
         then db\<lparr>t_tg_channels := update_rows (\<lambda>q. tgc_channel_id q = tgc_channel_id c)
                (\<lambda>q. q\<lparr>tgc_user_id := tgc_user_id c, tgc_title := tgc_title c,
                       tgc_is_private := tgc_is_private c, tgc_verified := tgc_verified c,
                       tgc_created_by_televault := tgc_created_by_televault c,
                       tgc_verified_at := tgc_verified_at c\<rparr>) (t_tg_channels db)\<rparr>
         else db\<lparr>t_tg_channels := t_tg_channels db @ [c]\<rparr>) db"

definition get_telegram_channel :: "Database \<Rightarrow> int \<Rightarrow> TelegramChannelRecord option" where
  "get_telegram_channel db i = find_first (\<lambda>c. tgc_channel_id c = i) (t_tg_channels db)"

definition update_telegram_auth_state ::
  "string \<Rightarrow> string \<Rightarrow> string \<Rightarrow> int option \<Rightarrow> int option \<Rightarrow> unit exec" where
  "update_telegram_auth_state em now current_state user channel db =
     checked (ref_ok tga_user_id (t_tg_accounts db) user \<and> ref_ok tgc_channel_id (t_tg_channels db) channel) em
       (\<lambda>db. db\<lparr>t_tg_auth := Some \<lparr>tgs_current_state = current_state, tgs_active_user_id = user,
                 tgs_active_channel_id = channel, tgs_updated_at = now\<rparr>\<rparr>) db"

definition get_telegram_auth_state :: "Database \<Rightarrow> TelegramAuthStateRecord option" where
  "get_telegram_auth_state db = t_tg_auth db"

definition clear_telegram_auth_data :: "string \<Rightarrow> unit exec" where
  "clear_telegram_auth_data now db =
     (db\<lparr>t_tg_auth := Some \<lparr>tgs_current_state = ''authentication_required'', tgs_active_user_id = None,
           tgs_active_channel_id = None, tgs_updated_at = now\<rparr>\<rparr>, Ok ())"

end
