(* ===== verification/Catalog_Inv.thy ===== *)
theory Catalog_Inv
  imports Catalog
begin

text \<open>
  Integrity of the catalog: in every database an application can reach through the operations of
  \<open>db.rs\<close>, primary keys and \<open>UNIQUE\<close> columns are unique and every foreign key has its row.

  The constraints are stated with three predicates on tables, \<open>keyed\<close>, \<open>refs\<close> and \<open>refs_opt\<close>, whose
  behaviour under append, update and filter is proved once; the locale \<open>exec_invariant\<close> carries an
  invariant through the combinators of \<open>Catalog\<close> and is interpreted with the integrity predicate.
\<close>

subsection \<open>Constraints on tables\<close>

definition keyed :: "('r \<Rightarrow> 'k) \<Rightarrow> 'r list \<Rightarrow> bool" where
  "keyed key t \<longleftrightarrow> distinct (map key t)"

definition refs :: "('r \<Rightarrow> 'k) \<Rightarrow> 'r list \<Rightarrow> ('s \<Rightarrow> 'k) \<Rightarrow> 's list \<Rightarrow> bool" where
  "refs fk t key u \<longleftrightarrow> (\<forall>r \<in> set t. has_key key u (fk r))"

definition refs_opt :: "('r \<Rightarrow> 'k option) \<Rightarrow> 'r list \<Rightarrow> ('s \<Rightarrow> 'k) \<Rightarrow> 's list \<Rightarrow> bool" where
  "refs_opt fk t key u \<longleftrightarrow> (\<forall>r \<in> set t. ref_ok key u (fk r))"

definition slots_ok :: "FileRecord list \<Rightarrow> bool" where
  "slots_ok t \<longleftrightarrow> (\<forall>f \<in> set t. \<forall>g \<in> set t. same_slot f g \<longrightarrow> fr_file_id f = fr_file_id g)"

named_theorems table_simps \<open>constraints under append, update and filter\<close>

lemma has_key_simps [table_simps]:
  "has_key key [] x \<longleftrightarrow> False"
  "has_key key (t @ [r]) x \<longleftrightarrow> has_key key t x \<or> key r = x"
  by (auto simp: has_key_def)

lemma keyed_simps [table_simps]:
  "keyed key [] \<longleftrightarrow> True"
  "keyed key (t @ [r]) \<longleftrightarrow> keyed key t \<and> \<not> has_key key t (key r)"
  by (auto simp: keyed_def has_key_def)

lemma refs_simps [table_simps]:
  "refs fk [] key u \<longleftrightarrow> True"
  "refs fk (t @ [r]) key u \<longleftrightarrow> refs fk t key u \<and> has_key key u (fk r)"
  "refs_opt fko [] key u \<longleftrightarrow> True"
  "refs_opt fko (t @ [r]) key u \<longleftrightarrow> refs_opt fko t key u \<and> ref_ok key u (fko r)"
  by (auto simp: refs_def refs_opt_def)

lemma refs_grow [table_simps]:
  "refs fk t key u \<Longrightarrow> refs fk t key (u @ [r])"
  "refs_opt fko t key u \<Longrightarrow> refs_opt fko t key (u @ [r])"
  by (auto simp: refs_def refs_opt_def ref_ok_def table_simps split: option.splits)

lemma update_rows_image:
  "(\<And>r. P r \<Longrightarrow> g (f r) = g r) \<Longrightarrow> map g (update_rows P f t) = map g t"
  by (auto simp: update_rows_def)

lemma keyed_update [table_simps]:
  "(\<And>r. P r \<Longrightarrow> key (f r) = key r) \<Longrightarrow> keyed key (update_rows P f t) \<longleftrightarrow> keyed key t"
  by (simp add: keyed_def update_rows_image del: map_map)

lemma has_key_update [table_simps]:
  "(\<And>r. P r \<Longrightarrow> key (f r) = key r) \<Longrightarrow> has_key key (update_rows P f t) x \<longleftrightarrow> has_key key t x"
  using update_rows_image [of P key f t] by (metis has_key_def list.set_map)

lemma refs_update [table_simps]:
  "(\<And>r. P r \<Longrightarrow> key (f r) = key r) \<Longrightarrow> refs fk t key (update_rows P f u) \<longleftrightarrow> refs fk t key u"
  "(\<And>r. P r \<Longrightarrow> key (f r) = key r) \<Longrightarrow> refs_opt fko t key (update_rows P f u) \<longleftrightarrow> refs_opt fko t key u"
  by (auto simp: refs_def refs_opt_def ref_ok_def has_key_update split: option.splits)

lemma refs_update_referring [table_simps]:
  "(\<And>r. P r \<Longrightarrow> fk (g r) = fk r) \<Longrightarrow> refs fk (update_rows P g t) key u \<longleftrightarrow> refs fk t key u"
  "(\<And>r. P r \<Longrightarrow> fko (g r) = fko r) \<Longrightarrow> refs_opt fko (update_rows P g t) key u \<longleftrightarrow> refs_opt fko t key u"
  unfolding refs_def refs_opt_def update_rows_def set_map ball_simps
  by (intro ball_cong; simp)+

lemma refs_update_to:
  "refs fk t key u \<Longrightarrow> (\<And>r. P r \<Longrightarrow> has_key key u (fk (f r))) \<Longrightarrow> refs fk (update_rows P f t) key u"
  by (auto simp: refs_def update_rows_def)

lemma keyed_filter [table_simps]: "keyed key t \<Longrightarrow> keyed key (filter P t)"
  by (auto simp: keyed_def distinct_map inj_on_def)

lemma refs_filter [table_simps]:
  "refs fk t key u \<Longrightarrow> refs fk (filter P t) key u"
  "refs_opt fko t key u \<Longrightarrow> refs_opt fko (filter P t) key u"
  by (auto simp: refs_def refs_opt_def)

text \<open>The three \<open>ON DELETE\<close> actions.\<close>

lemma has_key_filter:
  "keyed key u \<Longrightarrow> has_key key (filter (\<lambda>x. \<not> P x) u) i \<longleftrightarrow> has_key key u i \<and> \<not> gone P key u i"
  unfolding keyed_def has_key_def gone_def distinct_map inj_on_def by auto

lemma refs_restrict:
  "\<lbrakk>refs fk t key u; keyed key u; \<And>r. r \<in> set t \<Longrightarrow> \<not> gone P key u (fk r)\<rbrakk>
     \<Longrightarrow> refs fk t key (filter (\<lambda>x. \<not> P x) u)"
  by (auto simp: refs_def has_key_filter)

lemma refs_cascade [table_simps]:
  "\<lbrakk>refs fk t key u; keyed key u\<rbrakk>
     \<Longrightarrow> refs fk (filter (\<lambda>r. \<not> gone P key u (fk r)) t) key (filter (\<lambda>x. \<not> P x) u)"
  by (auto simp: refs_def has_key_filter)

lemma refs_set_null:
  "\<lbrakk>refs_opt fko t key u; keyed key u; \<And>r. fko (f r) = None;
    \<And>r i. \<lbrakk>fko r = Some i; gone P key u i\<rbrakk> \<Longrightarrow> N r\<rbrakk>
     \<Longrightarrow> refs_opt fko (update_rows N f t) key (filter (\<lambda>x. \<not> P x) u)"
  by (auto simp: refs_opt_def ref_ok_def has_key_filter update_rows_def split: option.splits)

text \<open>The same by key.\<close>

lemma has_key_filter_key [table_simps]:
  "has_key key (filter (\<lambda>x. key x \<noteq> i) u) j \<longleftrightarrow> has_key key u j \<and> j \<noteq> i"
  by (auto simp: has_key_def)

lemma refs_delete_key [table_simps]:
  "\<lbrakk>refs fk t key u; \<not> has_key fk t i\<rbrakk> \<Longrightarrow> refs fk t key (filter (\<lambda>x. key x \<noteq> i) u)"
  "refs fk t key u \<Longrightarrow> refs fk (filter (\<lambda>r. fk r \<noteq> i) t) key (filter (\<lambda>x. key x \<noteq> i) u)"
  by (auto simp: refs_def has_key_filter_key) (auto simp: has_key_def)

lemma refs_set_null_key [table_simps]:
  "\<lbrakk>refs_opt fko t key u; \<And>r. fko (f r) = None\<rbrakk>
     \<Longrightarrow> refs_opt fko (update_rows (\<lambda>r. fko r = Some i) f t) key (filter (\<lambda>x. key x \<noteq> i) u)"
  by (auto simp: refs_opt_def ref_ok_def has_key_filter_key update_rows_def split: option.splits)

text \<open>A unique column that an update by key sets to a value no other row has.\<close>

lemma keyed_update_unique:
  assumes "keyed key t" and "keyed g t"
    and v: "\<forall>q \<in> set t. g q = v \<longrightarrow> key q = i" and f: "\<And>r. g (f r) = v"
  shows "keyed g (update_rows (\<lambda>q. key q = i) f t)"
proof -
  let ?h = "\<lambda>q. if key q = i then f q else q"
  have "distinct t" "inj_on key (set t)" "inj_on g (set t)"
    using assms(1,2) by (simp_all add: keyed_def distinct_map)
  moreover from this have "inj_on (g \<circ> ?h) (set t)"
    using v f by (intro inj_onI) (auto dest: inj_onD split: if_splits)
  ultimately show ?thesis
    by (simp add: keyed_def update_rows_def distinct_map [of "g \<circ> ?h"] flip: o_def)
qed

lemma same_slot_sym: "same_slot f g = same_slot g f"
  by (auto simp: same_slot_def)

lemma file_update_sel [simp]:
  "fr_file_id (file_update f g) = fr_file_id g" "fr_profile_id (file_update f g) = fr_profile_id g"
  by (simp_all add: file_update_def)

lemma slots_ok_update:
  assumes "slots_ok t"
    and "\<forall>g \<in> set t. \<forall>h \<in> set t.
           fr_file_id g = fr_file_id f \<and> same_slot (file_update f g) h \<longrightarrow> fr_file_id h = fr_file_id f"
  shows "slots_ok (update_rows (\<lambda>g. fr_file_id g = fr_file_id f) (file_update f) t)"
  unfolding slots_ok_def
proof (intro ballI impI)
  fix x' y'
  assume xy: "x' \<in> set (update_rows (\<lambda>g. fr_file_id g = fr_file_id f) (file_update f) t)"
      "y' \<in> set (update_rows (\<lambda>g. fr_file_id g = fr_file_id f) (file_update f) t)"
    and slot: "same_slot x' y'"
  have row: "(z' \<in> set t \<and> fr_file_id z' \<noteq> fr_file_id f)
      \<or> (\<exists>z \<in> set t. fr_file_id z = fr_file_id f \<and> z' = file_update f z)"
    if "z' \<in> set (update_rows (\<lambda>g. fr_file_id g = fr_file_id f) (file_update f) t)" for z'
    using that by (auto simp: update_rows_def split: if_splits)
  show "fr_file_id x' = fr_file_id y'"
    using row [OF xy(1)] row [OF xy(2)]
  proof (elim disjE conjE bexE)
    assume "x' \<in> set t" "y' \<in> set t"
    then show ?thesis using assms(1) slot unfolding slots_ok_def by blast
  next
    fix y
    assume "x' \<in> set t" "y \<in> set t" "fr_file_id y = fr_file_id f" and y': "y' = file_update f y"
    with assms(2) slot show ?thesis
      unfolding y' same_slot_sym [of x'] file_update_sel by metis
  next
    fix x
    assume "x \<in> set t" "fr_file_id x = fr_file_id f" "y' \<in> set t" and x': "x' = file_update f x"
    with assms(2) slot show ?thesis unfolding x' file_update_sel by metis
  qed simp
qed

lemma slots_ok_clear [table_simps]:
  "slots_ok t \<Longrightarrow> slots_ok (update_rows (\<lambda>f. fr_profile_id f = Some i) (fr_profile_id_update (\<lambda>_. None)) t)"
  unfolding slots_ok_def
proof (intro ballI impI)
  let ?u = "update_rows (\<lambda>f. fr_profile_id f = Some i) (fr_profile_id_update (\<lambda>_. None)) t"
  fix x y
  assume ok: "\<forall>f \<in> set t. \<forall>g \<in> set t. same_slot f g \<longrightarrow> fr_file_id f = fr_file_id g"
    and xy: "x \<in> set ?u" "y \<in> set ?u" and slot: "same_slot x y"
  have "z \<in> set ?u \<Longrightarrow> fr_profile_id z \<noteq> None \<Longrightarrow> z \<in> set t" for z
    by (auto simp: update_rows_def split: if_splits)
  with xy slot have "x \<in> set t" "y \<in> set t" by (auto simp: same_slot_def)
  with ok slot show "fr_file_id x = fr_file_id y" by blast
qed

lemma slots_ok_simps [table_simps]:
  "slots_ok []"
  "slots_ok t \<Longrightarrow> slots_ok (filter P t)"
  "\<lbrakk>slots_ok t; \<forall>g \<in> set t. \<not> same_slot f g\<rbrakk> \<Longrightarrow> slots_ok (t @ [f])"
  by (auto simp: slots_ok_def dest: same_slot_sym [THEN iffD1])

subsection \<open>Integrity\<close>

definition keys_ok :: "Database \<Rightarrow> bool" where
  "keys_ok db \<longleftrightarrow>
     keyed pr_profile_id (t_profiles db) \<and> keyed pr_name (t_profiles db)
   \<and> keyed fr_file_id (t_files db) \<and> slots_ok (t_files db)
   \<and> keyed mr_manifest_id (t_manifests db)
   \<and> keyed cr_chunk_id (t_chunks db) \<and> keyed (\<lambda>c. (cr_file_id c, cr_chunk_index c)) (t_chunks db)
   \<and> keyed sr_snapshot_id (t_snapshots db) \<and> keyed ver_version_id (t_versions db)
   \<and> keyed tjr_job_id (t_jobs db) \<and> keyed scr_schedule_id (t_schedules db)
   \<and> keyed shr_history_id (t_sched_hist db)
   \<and> keyed rpr_policy_id (t_policies db) \<and> keyed rpr_profile_id (t_policies db)
   \<and> keyed rhr_history_id (t_ret_hist db) \<and> keyed vhr_history_id (t_ver_hist db)
   \<and> keyed rep_repair_id (t_rep_hist db)
   \<and> keyed tga_user_id (t_tg_accounts db) \<and> keyed tgc_channel_id (t_tg_channels db)"

definition auth_refs ::
  "TelegramAuthStateRecord option \<Rightarrow> TelegramAccountRecord list \<Rightarrow> TelegramChannelRecord list \<Rightarrow> bool" where
  "auth_refs s accounts channels =
     (case s of None \<Rightarrow> True
      | Some a \<Rightarrow> ref_ok tga_user_id accounts (tgs_active_user_id a)
                  \<and> ref_ok tgc_channel_id channels (tgs_active_channel_id a))"

definition refs_ok :: "Database \<Rightarrow> bool" where
  "refs_ok db \<longleftrightarrow>
     refs_opt fr_profile_id (t_files db) pr_profile_id (t_profiles db)
   \<and> refs mr_file_id (t_manifests db) fr_file_id (t_files db)
   \<and> refs cr_file_id (t_chunks db) fr_file_id (t_files db)
   \<and> refs cr_manifest_id (t_chunks db) mr_manifest_id (t_manifests db)
   \<and> refs sr_profile_id (t_snapshots db) pr_profile_id (t_profiles db)
   \<and> refs ver_file_id (t_versions db) fr_file_id (t_files db)
   \<and> refs ver_snapshot_id (t_versions db) sr_snapshot_id (t_snapshots db)
   \<and> refs ver_manifest_id (t_versions db) mr_manifest_id (t_manifests db)
   \<and> refs tjr_file_id (t_jobs db) fr_file_id (t_files db)
   \<and> refs_opt tjr_chunk_id (t_jobs db) cr_chunk_id (t_chunks db)
   \<and> refs scr_profile_id (t_schedules db) pr_profile_id (t_profiles db)
   \<and> refs shr_schedule_id (t_sched_hist db) scr_schedule_id (t_schedules db)
   \<and> refs rpr_profile_id (t_policies db) pr_profile_id (t_profiles db)
   \<and> refs rhr_profile_id (t_ret_hist db) pr_profile_id (t_profiles db)
   \<and> refs vhr_profile_id (t_ver_hist db) pr_profile_id (t_profiles db)
   \<and> refs rep_profile_id (t_rep_hist db) pr_profile_id (t_profiles db)
   \<and> refs_opt rep_snapshot_id (t_rep_hist db) sr_snapshot_id (t_snapshots db)
   \<and> refs rep_file_id (t_rep_hist db) fr_file_id (t_files db)
   \<and> refs rep_manifest_id (t_rep_hist db) mr_manifest_id (t_manifests db)
   \<and> refs rep_chunk_id (t_rep_hist db) cr_chunk_id (t_chunks db)
   \<and> refs tgc_user_id (t_tg_channels db) tga_user_id (t_tg_accounts db)
   \<and> auth_refs (t_tg_auth db) (t_tg_accounts db) (t_tg_channels db)"

definition catalog_ok :: "Database \<Rightarrow> bool" where
  "catalog_ok db \<longleftrightarrow> keys_ok db \<and> refs_ok db"

lemmas catalog_ok_defs = catalog_ok_def keys_ok_def refs_ok_def

lemma open_in_memory_ok: "catalog_ok open_in_memory"
  by (simp add: catalog_ok_defs open_in_memory_def table_simps auth_refs_def)

subsection \<open>Invariants of operations\<close>

locale exec_invariant =
  fixes I :: "Database \<Rightarrow> bool"
begin

definition keeps :: "'a exec \<Rightarrow> bool" where
  "keeps f \<longleftrightarrow> (\<forall>db. I db \<longrightarrow> I (fst (f db)))"

lemma keepsI: "(\<And>db. I db \<Longrightarrow> I (fst (f db))) \<Longrightarrow> keeps f"
  by (simp add: keeps_def)

lemma checked_step: "\<lbrakk>I db; ok \<Longrightarrow> I (f db)\<rbrakk> \<Longrightarrow> I (fst (checked ok em f db))"
  by (simp add: checked_def)

lemma affecting_step: "\<lbrakk>I db; found \<Longrightarrow> I (fst (stmt db))\<rbrakk> \<Longrightarrow> I (fst (affecting found entity i stmt db))"
  by (simp add: affecting_def)

lemma keeps_return: "keeps (return_exec a)"
  by (simp add: keeps_def return_exec_def)

lemma keeps_bind: "\<lbrakk>keeps f; \<And>a. keeps (g a)\<rbrakk> \<Longrightarrow> keeps (bind_exec f g)"
  by (fastforce simp: keeps_def bind_exec_def split: prod.splits sum.splits)

lemma keeps_transaction: "keeps f \<Longrightarrow> keeps (with_transaction f)"
  by (fastforce simp: keeps_def with_transaction_def split: prod.splits sum.splits)

end

interpretation cat: exec_invariant catalog_ok .

lemmas stmt_intros = cat.keepsI cat.checked_step cat.affecting_step

lemma create_profile_keeps: "cat.keeps (create_profile em p)"
  unfolding create_profile_def
  by (intro stmt_intros) (auto simp: catalog_ok_defs table_simps)


lemma update_profile_keeps: "cat.keeps (update_profile em p)"
  unfolding update_profile_def
  by (intro stmt_intros)
    (simp_all add: catalog_ok_defs table_simps keyed_update_unique [where key = pr_profile_id])

lemma set_profile_enabled_keeps: "cat.keeps (set_profile_enabled i en)"
  unfolding set_profile_enabled_def
  by (intro stmt_intros) (auto simp: catalog_ok_defs table_simps)

lemma create_file_keeps: "cat.keeps (create_file em f)"
  unfolding create_file_def
  by (intro stmt_intros) (simp_all add: catalog_ok_defs table_simps)

lemma update_file_keeps: "cat.keeps (update_file em f)"
  unfolding update_file_def
proof (intro stmt_intros)
  fix db
  assume ok: "catalog_ok db"
    and u: "\<forall>g \<in> set (t_files db). \<forall>h \<in> set (t_files db).
      fr_file_id g = fr_file_id f \<and> same_slot (file_update f g) h \<longrightarrow> fr_file_id h = fr_file_id f"
  have "slots_ok (update_rows (\<lambda>g. fr_file_id g = fr_file_id f) (file_update f) (t_files db))"
    using ok by (intro slots_ok_update [OF _ u]) (simp add: catalog_ok_defs)
  then show "catalog_ok (db\<lparr>t_files := update_rows (\<lambda>g. fr_file_id g = fr_file_id f) (file_update f) (t_files db)\<rparr>)"
    using ok by (simp add: catalog_ok_defs table_simps)
qed assumption+

text \<open>Cascading deletes.\<close>

lemma delete_schedules_ok: "catalog_ok db \<Longrightarrow> catalog_ok (delete_schedules_where P db)"
  by (simp add: catalog_ok_defs delete_schedules_where_def table_simps)

lemma delete_profile_keeps: "cat.keeps (delete_profile em i)"
  unfolding delete_profile_def
proof (intro stmt_intros)
  fix db
  assume "catalog_ok db" and u: "\<not> has_key sr_profile_id (t_snapshots db) i"
  let ?d = "delete_schedules_where (\<lambda>s. scr_profile_id s = i) db"
  have ok: "catalog_ok ?d" using \<open>catalog_ok db\<close> by (rule delete_schedules_ok)
  show "catalog_ok (?d\<lparr>t_profiles := filter (\<lambda>p. pr_profile_id p \<noteq> i) (t_profiles db),
            t_files := update_rows (\<lambda>f. fr_profile_id f = Some i) (\<lambda>f. f\<lparr>fr_profile_id := None\<rparr>) (t_files db),
            t_policies := filter (\<lambda>p. rpr_profile_id p \<noteq> i) (t_policies db),
            t_ret_hist := filter (\<lambda>h. rhr_profile_id h \<noteq> i) (t_ret_hist db),
            t_ver_hist := filter (\<lambda>h. vhr_profile_id h \<noteq> i) (t_ver_hist db),
            t_rep_hist := filter (\<lambda>h. rep_profile_id h \<noteq> i) (t_rep_hist db)\<rparr>)"
    using ok u
    by (simp add: catalog_ok_defs table_simps delete_schedules_where_def)
qed assumption+


lemma jobs_set_null [table_simps]:
  "\<lbrakk>refs_opt tjr_chunk_id (t_jobs db) cr_chunk_id (t_chunks db); keyed cr_chunk_id (t_chunks db)\<rbrakk>
     \<Longrightarrow> refs_opt tjr_chunk_id (update_rows (chunk_gone P db) (tjr_chunk_id_update (\<lambda>_. None)) (t_jobs db))
           cr_chunk_id (filter (\<lambda>c. \<not> P c) (t_chunks db))"
  by (rule refs_set_null) (simp_all add: chunk_gone_def)

lemma delete_chunks_ok: "catalog_ok db \<Longrightarrow> catalog_ok (delete_chunks_where P db)"
  by (simp add: catalog_ok_defs delete_chunks_where_def table_simps)

lemma delete_manifests_ok:
  assumes ok: "catalog_ok db" and u: "manifests_unused db P"
  shows "catalog_ok (delete_manifests_where P db)"
proof -
  let ?d = "delete_chunks_where (\<lambda>c. gone P mr_manifest_id (t_manifests db) (cr_manifest_id c)) db"
  have d: "catalog_ok ?d" "t_manifests ?d = t_manifests db" "t_versions ?d = t_versions db"
      "t_chunks ?d = filter (\<lambda>c. \<not> gone P mr_manifest_id (t_manifests db) (cr_manifest_id c)) (t_chunks db)"
    using ok by (simp_all add: delete_chunks_ok) (simp_all add: delete_chunks_where_def)
  have "\<not> gone P mr_manifest_id (t_manifests db) (ver_manifest_id v)" if "v \<in> set (t_versions db)" for v
    using u that by (force simp: manifests_unused_def gone_def has_key_def)
  with ok have "refs ver_manifest_id (t_versions db) mr_manifest_id (filter (\<lambda>m. \<not> P m) (t_manifests db))"
    by (intro refs_restrict) (simp_all add: catalog_ok_defs)
  with d ok show ?thesis
    unfolding delete_manifests_where_def Let_def
    by (simp add: catalog_ok_defs table_simps)
qed

lemma delete_manifest_keeps: "cat.keeps (delete_manifest em i)"
  unfolding delete_manifest_def
  by (intro stmt_intros) (simp_all add: delete_manifests_ok)

lemma delete_manifests_sel [simp]:
  "t_versions (delete_manifests_where P db) = t_versions db"
  "t_files (delete_manifests_where P db) = t_files db"
  "t_manifests (delete_manifests_where P db) = filter (\<lambda>m. \<not> P m) (t_manifests db)"
  by (simp_all add: delete_manifests_where_def delete_chunks_where_def Let_def)

lemma delete_chunks_sel [simp]:
  "t_versions (delete_chunks_where Q db) = t_versions db"
  "t_files (delete_chunks_where Q db) = t_files db"
  "t_manifests (delete_chunks_where Q db) = t_manifests db"
  "t_chunks (delete_chunks_where Q db) = filter (\<lambda>c. \<not> Q c) (t_chunks db)"
  by (simp_all add: delete_chunks_where_def)

lemma delete_file_row_ok:
  assumes ok: "catalog_ok db"
    and "\<not> has_key ver_file_id (t_versions db) i" "\<not> has_key mr_file_id (t_manifests db) i"
      "\<not> has_key cr_file_id (t_chunks db) i"
  shows "catalog_ok (db\<lparr>t_files := filter (\<lambda>f. fr_file_id f \<noteq> i) (t_files db),
           t_jobs := filter (\<lambda>j. tjr_file_id j \<noteq> i) (t_jobs db),
           t_rep_hist := filter (\<lambda>h. rep_file_id h \<noteq> i) (t_rep_hist db)\<rparr>)"
  using assms by (simp add: catalog_ok_defs table_simps)

lemma delete_file_keeps: "cat.keeps (delete_file em i)"
  unfolding delete_file_def
proof (intro stmt_intros)
  fix db
  assume ok: "catalog_ok db"
    and u: "\<not> has_key ver_file_id (t_versions db) i \<and> manifests_unused db (\<lambda>m. mr_file_id m = i)"
  let ?d = "delete_chunks_where (\<lambda>c. cr_file_id c = i) (delete_manifests_where (\<lambda>m. mr_file_id m = i) db)"
  have "catalog_ok ?d" using ok u by (intro delete_chunks_ok delete_manifests_ok) simp_all
  moreover have "\<not> has_key mr_file_id (t_manifests ?d) i" "\<not> has_key cr_file_id (t_chunks ?d) i"
      "\<not> has_key ver_file_id (t_versions ?d) i"
    using u by (auto simp: has_key_def)
  ultimately show "catalog_ok (let db1 = ?d in db1\<lparr>t_files := filter (\<lambda>f. fr_file_id f \<noteq> i) (t_files db1),
           t_jobs := filter (\<lambda>j. tjr_file_id j \<noteq> i) (t_jobs db1),
           t_rep_hist := filter (\<lambda>h. rep_file_id h \<noteq> i) (t_rep_hist db1)\<rparr>)"
    unfolding Let_def by (intro delete_file_row_ok) simp_all
qed assumption+

lemma insert_manifest_keeps: "cat.keeps (insert_manifest em r)"
  unfolding insert_manifest_def
  by (intro stmt_intros) (simp_all add: catalog_ok_defs table_simps)

lemma save_manifest_keeps: "cat.keeps (save_manifest pf ser em m)"
proof (rule cat.keepsI)
  fix db
  assume ok: "catalog_ok db"
  moreover from this have "catalog_ok (fst (insert_manifest em r db))" for r
    using insert_manifest_keeps by (simp add: cat.keeps_def)
  ultimately show "catalog_ok (fst (save_manifest pf ser em m db))"
    by (simp add: save_manifest_def Let_def catalog_ok_defs table_simps split: sum.splits)
qed

lemma create_chunk_keeps: "cat.keeps (create_chunk em c)"
  unfolding create_chunk_def
  by (intro stmt_intros) (simp_all add: catalog_ok_defs table_simps)

lemma insert_chunks_keeps: "cat.keeps (insert_chunks em cs)"
proof (induction cs)
  case (Cons c cs)
  have "insert_chunks em (c # cs) = bind_exec (create_chunk em c) (\<lambda>_. insert_chunks em cs)"
    by (rule ext) simp
  with Cons show ?case by (simp add: cat.keeps_bind create_chunk_keeps)
qed (simp add: cat.keeps_def)

lemma update_chunk_status_keeps: "cat.keeps (update_chunk_status i st)"
  unfolding update_chunk_status_def
  by (intro stmt_intros) (simp_all add: catalog_ok_defs table_simps)

lemma create_snapshot_keeps: "cat.keeps (create_snapshot em s)"
  unfolding create_snapshot_def
  by (intro stmt_intros) (simp_all add: catalog_ok_defs table_simps)

lemma update_snapshot_keeps: "cat.keeps (update_snapshot_status_and_metadata i st md)"
  unfolding update_snapshot_status_and_metadata_def
  by (intro stmt_intros) (simp_all add: catalog_ok_defs table_simps)

lemma create_version_keeps: "cat.keeps (create_version em v)"
  unfolding create_version_def
  by (intro stmt_intros) (simp_all add: catalog_ok_defs table_simps)

lemma insert_job_keeps: "cat.keeps (insert_job em j)"
  unfolding insert_job_def
  by (intro stmt_intros) (simp_all add: catalog_ok_defs table_simps)


lemma update_jobs_ok:
  "\<lbrakk>catalog_ok db; \<And>j. tjr_job_id (f j) = tjr_job_id j; \<And>j. tjr_file_id (f j) = tjr_file_id j;
    \<And>j. tjr_chunk_id (f j) = tjr_chunk_id j\<rbrakk> \<Longrightarrow> catalog_ok (update_jobs i f db)"
  by (simp add: catalog_ok_defs update_jobs_def table_simps)

lemma upsert_transfer_job_keeps: "cat.keeps (upsert_transfer_job em j)"
proof (rule cat.keepsI)
  fix db
  assume ok: "catalog_ok db"
  moreover from this have "catalog_ok (fst (insert_job em j db))"
    using insert_job_keeps by (simp add: cat.keeps_def)
  ultimately show "catalog_ok (fst (upsert_transfer_job em j db))"
    by (simp add: upsert_transfer_job_def update_jobs_ok)
qed

lemma affecting_job_keeps:
  "\<lbrakk>\<And>j. tjr_job_id (f j) = tjr_job_id j; \<And>j. tjr_file_id (f j) = tjr_file_id j;
    \<And>j. tjr_chunk_id (f j) = tjr_chunk_id j\<rbrakk> \<Longrightarrow> cat.keeps (affecting_job i f)"
  unfolding affecting_job_def by (intro stmt_intros) (simp_all add: update_jobs_ok)

lemma reconcile_keeps: "cat.keeps (reconcile_interrupted_operations note em now)"
  unfolding reconcile_interrupted_operations_def
proof (intro cat.keeps_transaction cat.keeps_bind cat.keeps_return)
  show "cat.keeps (fail_snapshots note em)"
    by (simp add: cat.keeps_def fail_snapshots_def catalog_ok_defs table_simps)
  show "cat.keeps (fail_jobs now)"
    by (simp add: cat.keeps_def fail_jobs_def catalog_ok_defs table_simps)
qed

lemma create_schedule_keeps: "cat.keeps (create_schedule em s)"
  unfolding create_schedule_def
  by (intro stmt_intros) (simp_all add: catalog_ok_defs table_simps)

lemma update_schedule_keeps: "cat.keeps (update_schedule em s)"
  unfolding update_schedule_def
  by (intro stmt_intros)
    (simp_all add: catalog_ok_defs update_schedules_def table_simps refs_update_to)

lemma update_schedule_status_keeps: "cat.keeps (update_schedule_status now i n l st ec)"
  unfolding update_schedule_status_def
  by (intro stmt_intros) (simp_all add: catalog_ok_defs update_schedules_def table_simps)

lemma delete_schedule_keeps: "cat.keeps (delete_schedule i)"
  by (simp add: cat.keeps_def delete_schedule_def delete_schedules_ok)

lemma record_schedule_history_keeps: "cat.keeps (record_schedule_history em h)"
  unfolding record_schedule_history_def
  by (intro stmt_intros) (simp_all add: catalog_ok_defs table_simps)

lemma prune_one_keeps: "cat.keeps (prune_one sid)"
proof (rule cat.keepsI)
  fix db
  assume ok: "catalog_ok db"
  then have "catalog_ok (delete_versions_of sid db)"
    by (simp add: catalog_ok_defs delete_versions_of_def table_simps)
  moreover have "catalog_ok (delete_snapshot_row sid (delete_versions_of sid db))"
    using ok
    by (simp add: catalog_ok_defs delete_versions_of_def delete_snapshot_row_def table_simps)
  ultimately show "catalog_ok (fst (prune_one sid db))"
    by (simp add: prune_one_def Let_def)
qed

lemma prune_loop_keeps: "cat.keeps (prune_loop sids n)"
proof (induction sids arbitrary: n)
  case (Cons s sids)
  have "prune_loop (s # sids) n = bind_exec (prune_one s) (\<lambda>k. prune_loop sids (n + k))"
    by (rule ext) simp
  with Cons show ?case by (simp add: cat.keeps_bind prune_one_keeps)
qed (simp add: cat.keeps_def)

lemma record_retention_history_keeps: "cat.keeps (record_retention_history em h)"
  unfolding record_retention_history_def
  by (intro stmt_intros) (simp_all add: catalog_ok_defs table_simps)

lemma prune_snapshots_keeps: "cat.keeps (prune_snapshots_transactional em sids h)"
  unfolding prune_snapshots_transactional_def
  by (cases h)
    (auto intro!: cat.keeps_transaction cat.keeps_bind cat.keeps_return prune_loop_keeps
       record_retention_history_keeps)

lemma save_retention_policy_keeps: "cat.keeps (save_retention_policy em p)"
  by (rule cat.keepsI)
    (auto simp: save_retention_policy_def checked_def catalog_ok_defs table_simps)

lemma delete_retention_policy_keeps: "cat.keeps (delete_retention_policy pid)"
  by (simp add: cat.keeps_def delete_retention_policy_def catalog_ok_defs table_simps)

lemma record_verification_history_keeps: "cat.keeps (record_verification_history em h)"
  unfolding record_verification_history_def
  by (intro stmt_intros) (simp_all add: catalog_ok_defs table_simps)

lemma record_repair_history_keeps: "cat.keeps (record_repair_history em h)"
  unfolding record_repair_history_def
  by (intro stmt_intros) (simp_all add: catalog_ok_defs table_simps)

lemma atomic_apply_chunk_repair_keeps:
  "cat.keeps (atomic_apply_chunk_repair pf ser em cid ref hsh sz at m h)"
  unfolding atomic_apply_chunk_repair_def
proof (intro cat.keeps_transaction cat.keeps_bind record_repair_history_keeps)
  show "cat.keeps (repair_chunk_row cid ref hsh sz at)"
    unfolding repair_chunk_row_def
    by (intro stmt_intros) (simp_all add: catalog_ok_defs table_simps)
  show "cat.keeps (repair_manifest_row pf ser m at)"
    by (rule cat.keepsI)
      (simp add: repair_manifest_row_def affecting_def catalog_ok_defs table_simps split: sum.splits)
qed

lemma auth_refs_grow [table_simps]:
  "auth_refs s accounts channels \<Longrightarrow> auth_refs s (accounts @ [a]) channels"
  "auth_refs s accounts channels \<Longrightarrow> auth_refs s accounts (channels @ [c])"
  "(\<And>r. P r \<Longrightarrow> tga_user_id (f r) = tga_user_id r) \<Longrightarrow> auth_refs s accounts channels
     \<Longrightarrow> auth_refs s (update_rows P f accounts) channels"
  "(\<And>r. Q r \<Longrightarrow> tgc_channel_id (g r) = tgc_channel_id r) \<Longrightarrow> auth_refs s accounts channels
     \<Longrightarrow> auth_refs s accounts (update_rows Q g channels)"
  by (auto simp: auth_refs_def ref_ok_def table_simps split: option.splits)

lemma save_telegram_account_keeps: "cat.keeps (save_telegram_account a)"
  by (rule cat.keepsI) (simp add: save_telegram_account_def catalog_ok_defs table_simps)

lemma save_telegram_channel_keeps: "cat.keeps (save_telegram_channel em c)"
  unfolding save_telegram_channel_def
  by (intro stmt_intros) (simp_all add: catalog_ok_defs table_simps refs_update_to)

lemma update_telegram_auth_state_keeps: "cat.keeps (update_telegram_auth_state em now st u c)"
  unfolding update_telegram_auth_state_def
  by (intro stmt_intros) (simp_all add: catalog_ok_defs auth_refs_def)

lemma clear_telegram_auth_data_keeps: "cat.keeps (clear_telegram_auth_data now)"
  by (simp add: cat.keeps_def clear_telegram_auth_data_def catalog_ok_defs auth_refs_def ref_ok_def)

subsection \<open>Reachable databases\<close>

text \<open>One call of an operation of \<open>db.rs\<close> that writes, with any arguments and any outcome.\<close>

inductive db_step :: "Database \<Rightarrow> Database \<Rightarrow> bool" where
  "db_step db (fst (create_profile em p db))"
| "db_step db (fst (update_profile em p db))"
| "db_step db (fst (set_profile_enabled i en db))"
| "db_step db (fst (delete_profile em i db))"
| "db_step db (fst (create_file em f db))"
| "db_step db (fst (update_file em f db))"
| "db_step db (fst (delete_file em i db))"
| "db_step db (fst (save_manifest pf ser em m db))"
| "db_step db (fst (create_manifest em r db))"
| "db_step db (fst (delete_manifest em i db))"
| "db_step db (fst (create_chunk em c db))"
| "db_step db (fst (create_chunks em cs db))"
| "db_step db (fst (update_chunk_status i st db))"
| "db_step db (fst (delete_chunks_by_file i db))"
| "db_step db (fst (create_snapshot em s db))"
| "db_step db (fst (update_snapshot_status i bst db))"
| "db_step db (fst (update_snapshot_status_and_metadata i bst md db))"
| "db_step db (fst (create_version em v db))"
| "db_step db (fst (create_transfer_job em j db))"
| "db_step db (fst (upsert_transfer_job em j db))"
| "db_step db (fst (update_transfer_job_status i ts err at db))"
| "db_step db (fst (update_transfer_job_progress i n at db))"
| "db_step db (fst (increment_transfer_job_retry i at db))"
| "db_step db (fst (reconcile_interrupted_operations note em now db))"
| "db_step db (fst (create_schedule em sc db))"
| "db_step db (fst (update_schedule em sc db))"
| "db_step db (fst (update_schedule_status now i nr lr ls le db))"
| "db_step db (fst (delete_schedule i db))"
| "db_step db (fst (record_schedule_history em sh db))"
| "db_step db (fst (delete_snapshot i db))"
| "db_step db (fst (prune_snapshots_transactional em sids rh db))"
| "db_step db (fst (save_retention_policy em rp db))"
| "db_step db (fst (delete_retention_policy i db))"
| "db_step db (fst (record_retention_history em rhh db))"
| "db_step db (fst (record_verification_history em vh db))"
| "db_step db (fst (record_repair_history em rph db))"
| "db_step db (fst (atomic_apply_chunk_repair pf ser em i ref hsh sz at m rph db))"
| "db_step db (fst (save_telegram_account tga db))"
| "db_step db (fst (save_telegram_channel em tgc db))"
| "db_step db (fst (update_telegram_auth_state em now cur u ch db))"
| "db_step db (fst (clear_telegram_auth_data now db))"

inductive db_reachable :: "Database \<Rightarrow> bool" where
  opened: "db_reachable open_in_memory"
| stepped: "\<lbrakk>db_reachable db; db_step db db'\<rbrakk> \<Longrightarrow> db_reachable db'"

lemmas all_keep = create_profile_keeps update_profile_keeps set_profile_enabled_keeps
  delete_profile_keeps create_file_keeps update_file_keeps delete_file_keeps save_manifest_keeps
  insert_manifest_keeps delete_manifest_keeps create_chunk_keeps
  insert_chunks_keeps [THEN cat.keeps_transaction] update_chunk_status_keeps create_snapshot_keeps
  update_snapshot_keeps create_version_keeps insert_job_keeps upsert_transfer_job_keeps
  affecting_job_keeps reconcile_keeps create_schedule_keeps update_schedule_keeps
  update_schedule_status_keeps delete_schedule_keeps record_schedule_history_keeps
  prune_one_keeps [THEN cat.keeps_transaction] prune_snapshots_keeps save_retention_policy_keeps
  delete_retention_policy_keeps record_retention_history_keeps record_verification_history_keeps
  record_repair_history_keeps atomic_apply_chunk_repair_keeps save_telegram_account_keeps
  save_telegram_channel_keeps update_telegram_auth_state_keeps clear_telegram_auth_data_keeps

lemma keeps_step: "cat.keeps f \<Longrightarrow> catalog_ok db \<Longrightarrow> catalog_ok (fst (f db))"
  by (simp add: cat.keeps_def)

lemma db_step_ok: "db_step db db' \<Longrightarrow> catalog_ok db \<Longrightarrow> catalog_ok db'"
  by (induction rule: db_step.induct)
    (simp_all add: all_keep [THEN keeps_step] create_manifest_def create_chunks_def
       delete_chunks_by_file_def delete_chunks_ok update_snapshot_status_def create_transfer_job_def
       update_transfer_job_status_def update_transfer_job_progress_def increment_transfer_job_retry_def
       delete_snapshot_def)

text \<open>C5. Every database that can be reached from an empty one by any sequence of calls of the writing operations
  of the catalog, successful or not, is intact: primary keys and unique columns have no duplicates,
  and every foreign key refers to a row that exists, in particular every version to its file,
  snapshot and manifest.\<close>

theorem catalog_integrity: "db_reachable db \<Longrightarrow> keys_ok db \<and> refs_ok db"
proof (induction rule: db_reachable.induct)
  case opened
  then show ?case using open_in_memory_ok by (simp add: catalog_ok_def)
next
  case (stepped db db')
  then show ?case using db_step_ok by (simp add: catalog_ok_def)
qed


definition sample_profile :: ProfileRecord where
  "sample_profile = \<lparr>pr_profile_id = ''p1'', pr_name = ''docs'', pr_description = None,
     pr_source_path = ''/d'', pr_enabled = True, pr_created_at = ''1'', pr_updated_at = ''1''\<rparr>"

definition sample_file :: FileRecord where
  "sample_file = \<lparr>fr_file_id = ''f1'', fr_profile_id = Some ''p1'', fr_file_name = ''a'',
     fr_relative_path = ''a'', fr_original_size = 3, fr_mime_type = None, fr_status = ''active'',
     fr_logical_file_hash = None, fr_created_at = ''1'', fr_modified_at = None,
     fr_created_timestamp = ''1'', fr_updated_timestamp = ''1''\<rparr>"

definition sample_snapshot :: "ident_str \<Rightarrow> BackupStatus \<Rightarrow> SnapshotRecord" where
  "sample_snapshot i st = \<lparr>sr_snapshot_id = i, sr_profile_id = ''p1'', sr_status = st,
     sr_metadata = None, sr_created_at = ''1''\<rparr>"

definition sample_db :: Database where
  "sample_db =
     fst (create_snapshot ''e'' (sample_snapshot ''s2'' BackupStatus.BackingUp)
     (fst (create_snapshot ''e'' (sample_snapshot ''s1'' BackupStatus.Completed)
     (fst (create_file ''e'' sample_file
     (fst (create_profile ''e'' sample_profile open_in_memory)))))))"

lemma sample_db_rows:
  "sample_db = open_in_memory\<lparr>t_profiles := [sample_profile], t_files := [sample_file],
     t_snapshots := [sample_snapshot ''s1'' BackupStatus.Completed,
                     sample_snapshot ''s2'' BackupStatus.BackingUp]\<rparr>"
  by (simp add: sample_db_def create_snapshot_def create_file_def create_profile_def checked_def
        has_key_def ref_ok_def open_in_memory_def sample_profile_def sample_file_def sample_snapshot_def)

theorem catalog_integrity_witness:
  "db_reachable sample_db \<and> keys_ok sample_db \<and> refs_ok sample_db
   \<and> length (t_files sample_db) = 1 \<and> length (t_snapshots sample_db) = 2"
proof -
  have r: "db_reachable sample_db"
    unfolding sample_db_def
    by (rule stepped [OF stepped [OF stepped [OF stepped [OF opened db_step.intros(1)]
          db_step.intros(5)] db_step.intros(15)] db_step.intros(15)])
  then show ?thesis using catalog_integrity [OF r] by (simp add: sample_db_rows)
qed

subsection \<open>Pruning\<close>

text \<open>What pruning a list of snapshots has to leave: everything but their rows and versions; a
  repair record of a pruned snapshot loses its reference to it.\<close>

definition pruned :: "ident_str list \<Rightarrow> Database \<Rightarrow> Database" where
  "pruned sids db =
     db\<lparr>t_snapshots := filter (\<lambda>s. sr_snapshot_id s \<notin> set sids) (t_snapshots db),
        t_versions := filter (\<lambda>v. ver_snapshot_id v \<notin> set sids) (t_versions db),
        t_rep_hist := update_rows (\<lambda>h. rep_snapshot_id h \<in> Some ` set sids)
          (\<lambda>h. h\<lparr>rep_snapshot_id := None\<rparr>) (t_rep_hist db)\<rparr>"

definition versions_in :: "ident_str list \<Rightarrow> Database \<Rightarrow> nat" where
  "versions_in sids db = length (filter (\<lambda>v. ver_snapshot_id v \<in> set sids) (t_versions db))"

definition prunable :: "ident_str list \<Rightarrow> RetentionHistoryRecord option \<Rightarrow> Database \<Rightarrow> bool" where
  "prunable sids history db \<longleftrightarrow>
     distinct sids \<and> (\<forall>s \<in> set sids. has_key sr_snapshot_id (t_snapshots db) s)
   \<and> (case history of None \<Rightarrow> True
      | Some h \<Rightarrow> \<not> has_key rhr_history_id (t_ret_hist db) (rhr_history_id h)
                  \<and> has_key pr_profile_id (t_profiles db) (rhr_profile_id h))"

lemma prune_row_pruned: "delete_snapshot_row s (delete_versions_of s db) = pruned [s] db"
  by (simp add: delete_snapshot_row_def delete_versions_of_def pruned_def)

lemma pruned_Nil [simp]: "pruned [] db = db" "versions_in [] db = 0"
  by (simp_all add: pruned_def versions_in_def update_rows_def)

lemma pruned_pruned: "pruned sids (pruned [s] db) = pruned (s # sids) db"
  by (auto simp: pruned_def update_rows_def image_iff intro!: filter_cong
        split: if_splits)

lemma versions_in_pruned: "versions_in sids (pruned [s] db) + versions_in [s] db = versions_in (s # sids) db"
proof -
  have "length (filter (\<lambda>v. ver_snapshot_id v \<in> set sids) (filter (\<lambda>v. ver_snapshot_id v \<noteq> s) vs))
      + length (filter (\<lambda>v. ver_snapshot_id v = s) vs)
      = length (filter (\<lambda>v. ver_snapshot_id v = s \<or> ver_snapshot_id v \<in> set sids) vs)" for vs
    by (induction vs) auto
  then show ?thesis by (simp add: versions_in_def pruned_def)
qed

lemma prune_loop_correct:
  "case prune_loop sids n db of
     (db', Inr k) \<Rightarrow> prunable sids None db \<and> db' = pruned sids db \<and> k = n + versions_in sids db
   | (db', Inl e) \<Rightarrow> \<not> prunable sids None db"
proof (induction sids arbitrary: n db)
  case Nil
  then show ?case by (simp add: prunable_def)
next
  case (Cons s sids)
  have step: "prunable (s # sids) None db \<longleftrightarrow>
      has_key sr_snapshot_id (t_snapshots db) s \<and> prunable sids None (pruned [s] db)"
    by (auto simp: prunable_def pruned_def has_key_filter_key)
  have "prune_loop (s # sids) n db = (if has_key sr_snapshot_id (t_snapshots db) s
      then prune_loop sids (n + versions_in [s] db) (pruned [s] db)
      else (delete_versions_of s db, Inl (DbError.NotFound ''Snapshot'' s)))"
    by (simp add: bind_exec_def prune_one_def Let_def prune_row_pruned count_versions_by_snapshot_def
          versions_in_def)
  then show ?case
    using Cons.IH [of "pruned [s] db" "n + versions_in [s] db"] versions_in_pruned [of sids s db]
    by (auto simp: step pruned_pruned split: prod.splits sum.splits)
qed

lemma prune_transaction_cases:
  "case prune_snapshots_transactional em sids history db of
     (db', Inr n) \<Rightarrow> prunable sids history db \<and> n = versions_in sids db
        \<and> db' = (pruned sids db)\<lparr>t_ret_hist := t_ret_hist db @ (case history of None \<Rightarrow> [] | Some h \<Rightarrow> [h])\<rparr>
   | (db', Inl e) \<Rightarrow> db' = db \<and> \<not> prunable sids history db"
  using prune_loop_correct [of sids db 0]
  by (auto simp: prune_snapshots_transactional_def with_transaction_def bind_exec_def return_exec_def
        record_retention_history_def checked_def prunable_def pruned_def
        split: prod.splits sum.splits option.splits if_splits)


text \<open>C35. Pruning is all or nothing. It succeeds exactly when the identifiers are distinct, each
  has a snapshot row, and the audit record, if one is given, is new and of an existing profile; then
  exactly these snapshots and their versions are gone, files, manifests, chunks and everything else are as before,
  the audit record is written, and the count of removed versions is returned. In every other case the
  catalog is unchanged.\<close>

theorem prune_all_or_nothing:
  "case prune_snapshots_transactional em sids history db of
     (db', Inr n) \<Rightarrow> prunable sids history db \<and> n = versions_in sids db
        \<and> db' = (pruned sids db)\<lparr>t_ret_hist := t_ret_hist db @ (case history of None \<Rightarrow> [] | Some h \<Rightarrow> [h])\<rparr>
   | (db', Inl e) \<Rightarrow> db' = db \<and> \<not> prunable sids history db"
  by (rule prune_transaction_cases)

subsection \<open>Repair\<close>

definition repair_applied ::
  "ident_str \<Rightarrow> string \<Rightarrow> string \<Rightarrow> u64 \<Rightarrow> string \<Rightarrow> string \<Rightarrow> string \<Rightarrow> RepairHistoryRecord \<Rightarrow> Database \<Rightarrow> Database" where
  "repair_applied cid ref hsh sz at mid serialized h db =
     db\<lparr>t_chunks := update_rows (\<lambda>c. cr_chunk_id c = cid)
          (\<lambda>c. c\<lparr>cr_storage_reference := ref, cr_integrity_hash := hsh, cr_stored_size := sz,
                 cr_updated_at := at\<rparr>) (t_chunks db),
        t_manifests := update_rows (\<lambda>q. mr_manifest_id q = mid)
          (\<lambda>q. q\<lparr>mr_serialized_manifest := serialized, mr_updated_at := at\<rparr>) (t_manifests db),
        t_rep_hist := t_rep_hist db @ [h]\<rparr>"

lemma atomic_repair_cases:
  "case atomic_apply_chunk_repair pf ser em cid ref hsh sz at m h db of
     (db', Inl e) \<Rightarrow> db' = db
   | (db', Inr _) \<Rightarrow> has_key cr_chunk_id (t_chunks db) cid
       \<and> has_key mr_manifest_id (t_manifests db) (manifest_id m)
       \<and> (\<exists>serialized. ManifestV1_to_json pf ser m = Inr serialized
            \<and> db' = repair_applied cid ref hsh sz at (manifest_id m) serialized h db)"
  by (auto simp: atomic_apply_chunk_repair_def with_transaction_def bind_exec_def repair_chunk_row_def
        repair_manifest_row_def affecting_def record_repair_history_def checked_def repair_applied_def
        split: prod.splits sum.splits if_splits)

lemma find_first_update_rows:
  "has_key key t i \<Longrightarrow> (\<And>r. key r = i \<Longrightarrow> key (f r) = i) \<Longrightarrow>
     find_first (\<lambda>r. key r = i) (update_rows (\<lambda>r. key r = i) f t)
       = map_option f (find_first (\<lambda>r. key r = i) t)"
  by (induction t) (auto simp: has_key_def update_rows_def)

lemma find_first_update_other:
  "j \<noteq> i \<Longrightarrow> (\<And>r. key r = i \<Longrightarrow> key (f r) = i) \<Longrightarrow>
     find_first (\<lambda>r. key r = j) (update_rows (\<lambda>r. key r = i) f t) = find_first (\<lambda>r. key r = j) t"
  by (induction t) (auto simp: update_rows_def)

lemma find_first_has_key: "has_key key t i \<longleftrightarrow> (\<exists>r. find_first (\<lambda>r. key r = i) t = Some r)"
  by (induction t) (auto simp: has_key_def)

lemma repaired_reads_back:
  assumes serde_roundtrip: "\<And>x j. ser x = Inr j \<Longrightarrow> des j = Inr x"
  shows "case atomic_apply_chunk_repair pf ser em cid ref hsh sz at m h db of
     (db', Inl e) \<Rightarrow> db' = db
   | (db', Inr _) \<Rightarrow>
       get_manifest pf des db' (manifest_id m) = Inr (Some m)
     \<and> get_chunk db' cid = map_option (\<lambda>c. c\<lparr>cr_storage_reference := ref, cr_integrity_hash := hsh,
           cr_stored_size := sz, cr_updated_at := at\<rparr>) (get_chunk db cid)
     \<and> get_chunk db cid \<noteq> None \<and> (\<forall>j. j = cid \<or> get_chunk db' j = get_chunk db j)
     \<and> t_rep_hist db' = t_rep_hist db @ [h]"
proof (cases "atomic_apply_chunk_repair pf ser em cid ref hsh sz at m h db")
  case (Pair db' r)
  note cs = atomic_repair_cases [where pf = pf and ser = ser and em = em and cid = cid and ref = ref
      and hsh = hsh and sz = sz and at = at and m = m and h = h and db = db, unfolded Pair]
  show ?thesis
  proof (cases r)
    case (Inl e)
    with cs Pair show ?thesis by simp
  next
    case (Inr u)
    with cs obtain j where j: "ManifestV1_to_json pf ser m = Inr j"
        and db': "db' = repair_applied cid ref hsh sz at (manifest_id m) j h db"
        and keys: "has_key cr_chunk_id (t_chunks db) cid"
          "has_key mr_manifest_id (t_manifests db) (manifest_id m)"
      by auto
    have "ManifestV1_from_json pf des j = Inr m"
      using j serde_roundtrip
      by (auto simp: ManifestV1_to_json_def ManifestV1_from_json_def bind_res_Inr_iff)
    moreover obtain q where "find_first (\<lambda>q. mr_manifest_id q = manifest_id m) (t_manifests db) = Some q"
      using keys(2) find_first_has_key by metis
    ultimately have "get_manifest pf des db' (manifest_id m) = Inr (Some m)"
      using keys(2)
      by (simp add: db' get_manifest_def get_manifest_record_def repair_applied_def read_manifest_def
            find_first_update_rows)
    moreover have "get_chunk db cid \<noteq> None"
      using keys(1) by (simp add: get_chunk_def find_first_has_key)
    moreover have "get_chunk db' i = get_chunk db i" if "i \<noteq> cid" for i
      using that by (simp add: db' get_chunk_def repair_applied_def find_first_update_other)
    then have "\<forall>j. j = cid \<or> get_chunk db' j = get_chunk db j" by blast
    moreover have "get_chunk db' cid = map_option (\<lambda>c. c\<lparr>cr_storage_reference := ref,
        cr_integrity_hash := hsh, cr_stored_size := sz, cr_updated_at := at\<rparr>) (get_chunk db cid)"
      using keys(1) by (simp add: db' get_chunk_def repair_applied_def find_first_update_rows)
    ultimately show ?thesis
      using Pair Inr by (simp add: db' repair_applied_def)
  qed
qed

text \<open>Swapping the remote object of a chunk is all or nothing. After a failure, at whichever of the three
  statements, the catalog is as before. After a success the chunk has the new storage reference, hash and
  size, its other columns and every other chunk are as before, the manifest reads back as the one given
  when serde_json reads back what it wrote, and the audit record is stored.\<close>

theorem repair_all_or_nothing:
  assumes serde_roundtrip: "\<And>x j. ser x = Inr j \<Longrightarrow> des j = Inr x"
  shows "case atomic_apply_chunk_repair pf ser em cid ref hsh sz at m h db of
     (db', Inl e) \<Rightarrow> db' = db
   | (db', Inr _) \<Rightarrow>
       get_manifest pf des db' (manifest_id m) = Inr (Some m)
     \<and> get_chunk db' cid = map_option (\<lambda>c. c\<lparr>cr_storage_reference := ref, cr_integrity_hash := hsh,
           cr_stored_size := sz, cr_updated_at := at\<rparr>) (get_chunk db cid)
     \<and> get_chunk db cid \<noteq> None \<and> (\<forall>j. j = cid \<or> get_chunk db' j = get_chunk db j)
     \<and> t_rep_hist db' = t_rep_hist db @ [h]"
  using assms by (rule repaired_reads_back)

definition repair_sample_db :: Database where
  "repair_sample_db = sample_db\<lparr>
     t_manifests := [\<lparr>mr_manifest_id = manifest_id sample_manifest, mr_file_id = ''f1'',
       mr_manifest_version = ''v1'', mr_serialized_manifest = ''old'', mr_created_at = ''1'', mr_updated_at = ''1''\<rparr>],
     t_chunks := [\<lparr>cr_chunk_id = ''c1'', cr_file_id = ''f1'', cr_manifest_id = manifest_id sample_manifest,
       cr_chunk_index = 0, cr_plaintext_size = 3, cr_stored_size = 3, cr_integrity_hash = ''h'',
       cr_storage_reference = ''r'', cr_status = ''stored'', cr_created_at = ''1'', cr_updated_at = ''1''\<rparr>]\<rparr>"

definition repair_sample_history :: RepairHistoryRecord where
  "repair_sample_history = \<lparr>rep_repair_id = ''x'', rep_profile_id = ''p1'', rep_snapshot_id = None,
     rep_file_id = ''f1'', rep_manifest_id = manifest_id sample_manifest, rep_chunk_id = ''c1'',
     rep_chunk_index = 0, rep_repair_type = ''t'', rep_finding_code = ''m'', rep_old_storage_reference = ''r'',
     rep_new_storage_reference = ''r2'', rep_status = ''ok'', rep_bytes_processed = 3, rep_duration_ms = 1,
     rep_error_message = None, rep_repaired_at = ''2''\<rparr>"

theorem repair_all_or_nothing_witness:
  "\<exists>db'. atomic_apply_chunk_repair unix_platform
        (\<lambda>x. if x = sample_manifest then Inr ''{}'' else Inl ''e'') ''em'' ''c1'' ''r2'' ''h2'' 4 ''2''
        sample_manifest repair_sample_history repair_sample_db = (db', Inr ())
    \<and> get_manifest unix_platform (\<lambda>j. if j = ''{}'' then Inr sample_manifest else Inl ''e'') db'
         (manifest_id sample_manifest) = Inr (Some sample_manifest)
    \<and> map_option cr_storage_reference (get_chunk db' ''c1'') = Some ''r2''"
proof -
  let ?ser = "\<lambda>x. if x = sample_manifest then Inr ''{}'' else Inl ''e'' :: string + string"
  let ?des = "\<lambda>j. if j = ''{}'' then Inr sample_manifest else Inl ''e'' :: string + ManifestV1"
  let ?run = "atomic_apply_chunk_repair unix_platform ?ser ''em'' ''c1'' ''r2'' ''h2'' 4 ''2''
        sample_manifest repair_sample_history repair_sample_db"
  have rt: "?ser x = Inr j \<Longrightarrow> ?des j = Inr x" for x j
    by (auto split: if_splits)
  have "snd ?run = Inr ()"
    by (simp add: atomic_apply_chunk_repair_def with_transaction_def bind_exec_def repair_chunk_row_def
        repair_manifest_row_def affecting_def record_repair_history_def checked_def has_key_def ref_ok_def
        update_rows_def ManifestV1_to_json_def sample_manifest_valid repair_sample_db_def
        repair_sample_history_def sample_db_rows open_in_memory_def sample_profile_def sample_file_def)
  then obtain db' where run: "?run = (db', Inr ())" by (metis prod.collapse)
  show ?thesis
    using repair_all_or_nothing [where ser = ?ser and des = ?des and pf = unix_platform and em = "''em''"
        and cid = "''c1''" and ref = "''r2''" and hsh = "''h2''" and sz = 4 and at = "''2''"
        and m = sample_manifest and h = repair_sample_history and db = repair_sample_db, OF rt] run
    by auto
qed

subsection \<open>Reconciliation\<close>

lemma update_rows_idle: "(\<And>r. r \<in> set t \<Longrightarrow> \<not> P r) \<Longrightarrow> update_rows P f t = t"
  by (auto simp: update_rows_def intro: map_idI)

lemma fail_snapshots_Ok:
  assumes "fail_snapshots note em db = (db', Inr n)"
  shows "(\<forall>s \<in> set (t_snapshots db'). \<not> snapshot_active s)
    \<and> {s \<in> set (t_snapshots db). \<not> snapshot_active s} \<subseteq> set (t_snapshots db')
    \<and> map sr_snapshot_id (t_snapshots db') = map sr_snapshot_id (t_snapshots db)
    \<and> n = length (filter snapshot_active (t_snapshots db))
    \<and> db' = db\<lparr>t_snapshots := t_snapshots db'\<rparr>"
  using assms
  by (auto simp: fail_snapshots_def update_rows_def snapshot_active_def split: if_splits)

lemma fail_jobs_Ok:
  assumes "fail_jobs now db = (db', Inr k)"
  shows "(\<forall>j \<in> set (t_jobs db'). tjr_status j \<noteq> TransferStatus.Transferring)
    \<and> {j \<in> set (t_jobs db). tjr_status j \<noteq> TransferStatus.Transferring} \<subseteq> set (t_jobs db')
    \<and> map tjr_job_id (t_jobs db') = map tjr_job_id (t_jobs db)
    \<and> k = length (filter (\<lambda>j. tjr_status j = TransferStatus.Transferring) (t_jobs db))
    \<and> db' = db\<lparr>t_jobs := t_jobs db'\<rparr>"
  using assms by (auto simp: fail_jobs_def update_rows_def)

lemma reconcile_idle:
  assumes "\<forall>s \<in> set (t_snapshots db). \<not> snapshot_active s"
    and "\<forall>j \<in> set (t_jobs db). tjr_status j \<noteq> TransferStatus.Transferring"
  shows "reconcile_interrupted_operations note em now db = (db, Inr (0, 0))"
proof -
  have "filter snapshot_active (t_snapshots db) = []"
    "filter (\<lambda>j. tjr_status j = TransferStatus.Transferring) (t_jobs db) = []"
    using assms by (auto simp: filter_empty_conv)
  moreover have "update_rows snapshot_active f (t_snapshots db) = t_snapshots db" for f
    using assms(1) by (intro update_rows_idle) blast
  moreover have "update_rows (\<lambda>j. tjr_status j = TransferStatus.Transferring) f (t_jobs db) = t_jobs db" for f
    using assms(2) by (intro update_rows_idle) blast
  ultimately show ?thesis
    using assms(1)
    by (simp add: reconcile_interrupted_operations_def with_transaction_def bind_exec_def
          return_exec_def fail_snapshots_def fail_jobs_def)
qed

text \<open>Reconciliation at start-up. It fails only when an interrupted snapshot carries metadata that is not
  JSON, and then changes nothing. Otherwise no snapshot is left scanning or backing up and no transfer job
  transferring, it reports how many there were, every other row and table is kept with its key, and a second
  run finds nothing to do.\<close>

theorem reconcile_recovers:
  "case reconcile_interrupted_operations note em now db of
     (db', Inl e) \<Rightarrow> db' = db
       \<and> (\<exists>s \<in> set (t_snapshots db). snapshot_active s \<and> note (metadata_text (sr_metadata s)) = None)
   | (db', Inr (n, k)) \<Rightarrow>
         filter snapshot_active (t_snapshots db') = []
       \<and> list_transfer_jobs_by_status db' TransferStatus.Transferring = []
       \<and> n = length (filter snapshot_active (t_snapshots db))
       \<and> k = length (list_transfer_jobs_by_status db TransferStatus.Transferring)
       \<and> {s \<in> set (t_snapshots db). \<not> snapshot_active s} \<subseteq> set (t_snapshots db')
       \<and> {j \<in> set (t_jobs db). tjr_status j \<noteq> TransferStatus.Transferring} \<subseteq> set (t_jobs db')
       \<and> map sr_snapshot_id (t_snapshots db') = map sr_snapshot_id (t_snapshots db)
       \<and> map tjr_job_id (t_jobs db') = map tjr_job_id (t_jobs db)
       \<and> db' = db\<lparr>t_snapshots := t_snapshots db', t_jobs := t_jobs db'\<rparr>
       \<and> reconcile_interrupted_operations note' em' now' db' = (db', Inr (0, 0))"
proof (cases "fail_snapshots note em db")
  case (Pair d1 r)
  show ?thesis
  proof (cases r)
    case (Inl e)
    then show ?thesis
      using Pair
      by (auto simp: reconcile_interrupted_operations_def with_transaction_def bind_exec_def
            fail_snapshots_def split: if_splits)
  next
    case (Inr n)
    obtain d2 k where jobs: "fail_jobs now d1 = (d2, Inr k)" by (simp add: fail_jobs_def)
    have run: "reconcile_interrupted_operations note em now db = (d2, Inr (n, k))"
      using Pair Inr jobs
      by (simp add: reconcile_interrupted_operations_def with_transaction_def bind_exec_def return_exec_def)
    note a = fail_snapshots_Ok [OF Pair [unfolded Inr]] and b = fail_jobs_Ok [OF jobs]
    have ab: "t_snapshots d2 = t_snapshots d1" "t_jobs d1 = t_jobs db"
        "d2 = db\<lparr>t_snapshots := t_snapshots d2, t_jobs := t_jobs d2\<rparr>"
      using Pair Inr jobs by (auto simp: fail_snapshots_def fail_jobs_def split: if_splits)
    have "reconcile_interrupted_operations note' em' now' d2 = (d2, Inr (0, 0))"
      using a b ab by (intro reconcile_idle) auto
    then show ?thesis
      using a b ab Pair Inr
      by (auto simp: run list_transfer_jobs_by_status_def order_asc_def filter_empty_conv)
  qed
qed

end
