(* ===== verification/Retention_Engine.thy ===== *)
theory Retention_Engine
  imports Catalog_Inv
begin

text \<open>
  The retention engine (\<open>retention/engine.rs\<close> of televault-backup): it reads the snapshots of a
  profile from the catalog, asks the evaluator which of them to prune, and prunes them in one
  transaction with an audit record, or, in a dry run, only records what it would have done.

  The record \<open>retention_env\<close> holds what the engine takes from chrono, serde_json and the clock: the
  parser of timestamps (nanoseconds since the epoch), the printer of an instant, the JSON texts of a
  list of identifiers and of the decisions, the stamp that makes a history identifier, and the text
  of a constraint violation of SQLite.
\<close>

record retention_env =
  rv_parse :: "string \<Rightarrow> int option"
  rv_rfc3339 :: "int \<Rightarrow> string"
  rv_ids_json :: "ident_str list \<Rightarrow> string"
  rv_decisions_json :: "RetentionDecision list \<Rightarrow> string"
  rv_stamp :: string
  rv_em :: string

record RetentionResult =
  rr_profile_id :: ident_str
  rr_executed_at :: string
  rr_dry_run :: bool
  rr_evaluation :: RetentionEvaluation
  rr_pruned_snapshots :: "ident_str list"
  rr_pruned_versions_count :: nat
  rr_success :: bool
  rr_error_message :: "string option"

definition engine_get_policy :: "Database \<Rightarrow> ident_str \<Rightarrow> RetentionPolicy" where
  "engine_get_policy db pid =
     (case get_retention_policy db pid of
        Some rec \<Rightarrow> RetentionPolicy_from_db_record rec
      | None \<Rightarrow> RetentionPolicy_default_for_profile pid)"

definition engine_save_policy ::
  "retention_env \<Rightarrow> RetentionPolicy \<Rightarrow> int \<Rightarrow> Database \<Rightarrow> Database \<times> (RetentionError, unit) result" where
  "engine_save_policy env p now db =
     (case RetentionPolicy_validate p of
        Inl e \<Rightarrow> (db, Err e)
      | Inr _ \<Rightarrow>
          if get_profile db (rp_profile_id p) = None
          then (db, Err (RetentionError.ProfileNotFound (rp_profile_id p)))
          else let t = rv_rfc3339 env now;
                   (db', r) = save_retention_policy (rv_em env) (RetentionPolicy_to_db_record p t t) db
               in (db', map_err RetentionError_of_DbError r))"

definition engine_delete_policy ::
  "ident_str \<Rightarrow> Database \<Rightarrow> Database \<times> (RetentionError, unit) result" where
  "engine_delete_policy pid db =
     (let (db', r) = delete_retention_policy pid db in (db', map_err RetentionError_of_DbError r))"

definition parse_snapshot_age_secs :: "retention_env \<Rightarrow> string \<Rightarrow> int \<Rightarrow> nat" where
  "parse_snapshot_age_secs env created now =
     (case rv_parse env created of
        Some t \<Rightarrow> if t \<le> now then nat ((now - t) div 1000000000) else 0
      | None \<Rightarrow> 0)"

definition candidate_of ::
  "retention_env \<Rightarrow> ident_str set \<Rightarrow> int \<Rightarrow> Database \<Rightarrow> SnapshotRecord \<Rightarrow> RetentionCandidate" where
  "candidate_of env active now db s =
     \<lparr>rc_snapshot_id = sr_snapshot_id s, rc_profile_id = sr_profile_id s,
      rc_created_at = sr_created_at s, rc_status = sr_status s,
      rc_version_count = count_versions_by_snapshot db (sr_snapshot_id s),
      rc_is_active = (sr_snapshot_id s \<in> active \<or> sr_status s = BackupStatus.Scanning
        \<or> sr_status s = BackupStatus.BackingUp),
      rc_age_secs = parse_snapshot_age_secs env (sr_created_at s) now\<rparr>"

definition candidates_of ::
  "retention_env \<Rightarrow> ident_str set \<Rightarrow> int \<Rightarrow> Database \<Rightarrow> ident_str \<Rightarrow> RetentionCandidate list" where
  "candidates_of env active now db pid =
     map (candidate_of env active now db) (list_snapshots_by_profile db pid)"

definition evaluate_retention ::
  "retention_env \<Rightarrow> Database \<Rightarrow> ident_str \<Rightarrow> RetentionPolicy option \<Rightarrow> ident_str set \<Rightarrow> int
     \<Rightarrow> (RetentionError, RetentionEvaluation) result" where
  "evaluate_retention env db pid custom_policy active now =
     bind_res
       (case custom_policy of
          Some p \<Rightarrow> bind_res (RetentionPolicy_validate p) (\<lambda>_. Ok p)
        | None \<Rightarrow> Ok (engine_get_policy db pid))
       (\<lambda>p. Ok (evaluate pid p (candidates_of env active now db pid) (rv_rfc3339 env now)))"

text \<open>The second look at every decision before anything is removed.\<close>

fun approved_for_pruning ::
  "ident_str set \<Rightarrow> RetentionDecision list \<Rightarrow> (RetentionError, ident_str list) result" where
  "approved_for_pruning active [] = Ok []"
| "approved_for_pruning active (d # ds) =
     (if rd_action d = Prune then
        if rd_snapshot_id d \<in> active \<or> rd_snapshot_status d = BackupStatus.Scanning
           \<or> rd_snapshot_status d = BackupStatus.BackingUp
        then Err (SnapshotProtected (rd_snapshot_id d) ''Snapshot became active during evaluation'')
        else bind_res (approved_for_pruning active ds) (\<lambda>is. Ok (rd_snapshot_id d # is))
      else approved_for_pruning active ds)"

definition history_record ::
  "retention_env \<Rightarrow> ident_str \<Rightarrow> string \<Rightarrow> bool \<Rightarrow> RetentionEvaluation \<Rightarrow> string \<Rightarrow> nat \<Rightarrow> string
     \<Rightarrow> RetentionHistoryRecord" where
  "history_record env pid executed_at dry_run ev hid n ids =
     \<lparr>rhr_history_id = hid, rhr_profile_id = pid, rhr_executed_at = executed_at, rhr_dry_run = dry_run,
      rhr_snapshots_evaluated = of_nat (re_snapshots_evaluated ev),
      rhr_snapshots_kept = of_nat (re_snapshots_kept ev), rhr_snapshots_pruned = of_nat n,
      rhr_pruned_snapshot_ids = ids, rhr_decisions_summary = rv_decisions_json env (re_decisions ev),
      rhr_status = ''completed'', rhr_error_message = None\<rparr>"

definition retention_result ::
  "ident_str \<Rightarrow> string \<Rightarrow> bool \<Rightarrow> RetentionEvaluation \<Rightarrow> ident_str list \<Rightarrow> nat \<Rightarrow> RetentionResult" where
  "retention_result pid executed_at dry_run ev ids n =
     \<lparr>rr_profile_id = pid, rr_executed_at = executed_at, rr_dry_run = dry_run, rr_evaluation = ev,
      rr_pruned_snapshots = ids, rr_pruned_versions_count = n, rr_success = True,
      rr_error_message = None\<rparr>"

definition execute_retention ::
  "retention_env \<Rightarrow> ident_str \<Rightarrow> RetentionPolicy option \<Rightarrow> ident_str set \<Rightarrow> bool \<Rightarrow> int
     \<Rightarrow> Database \<Rightarrow> Database \<times> (RetentionError, RetentionResult) result" where
  "execute_retention env pid custom_policy active dry_run now db =
     (if get_profile db pid = None then (db, Err (RetentionError.ProfileNotFound pid))
      else case evaluate_retention env db pid custom_policy active now of
        Inl e \<Rightarrow> (db, Err e)
      | Inr ev \<Rightarrow>
          let executed_at = rv_rfc3339 env now in
          if dry_run then
            let ids = map rd_snapshot_id (filter (\<lambda>d. rd_action d = Prune) (re_decisions ev));
                h = history_record env pid executed_at True ev (''rethist-dry-'' @ rv_stamp env)
                      (re_snapshots_pruned ev) (rv_ids_json env ids);
                (db', _) = record_retention_history (rv_em env) h db
            in (db', Ok (retention_result pid executed_at True ev [] 0))
          else case approved_for_pruning active (re_decisions ev) of
            Inl e \<Rightarrow> (db, Err e)
          | Inr ids \<Rightarrow>
              if ids = [] then
                let h = history_record env pid executed_at False ev (''rethist-'' @ rv_stamp env) 0 ''[]'';
                    (db', r) = record_retention_history (rv_em env) h db
                in (db', bind_res (map_err RetentionError_of_DbError r)
                     (\<lambda>_. Ok (retention_result pid executed_at False ev [] 0)))
              else
                let h = history_record env pid executed_at False ev (''rethist-'' @ rv_stamp env)
                          (length ids) (rv_ids_json env ids);
                    (db', r) = prune_snapshots_transactional (rv_em env) ids (Some h) db
                in (db', bind_res (map_err RetentionError_of_DbError r)
                     (\<lambda>n. Ok (retention_result pid executed_at False ev ids n))))"


subsection \<open>Lemmas\<close>

lemma decide_candidate_sound:
  "rd_snapshot_id (fst (decide_candidate p n ls i rank c)) = rc_snapshot_id c"
  "rd_snapshot_status (fst (decide_candidate p n ls i rank c)) = rc_status c"
  "rd_action (fst (decide_candidate p n ls i rank c)) = Prune \<Longrightarrow> \<not> is_protected c"
  by (simp_all add: decide_candidate_def decide_completed_def decide_incomplete_def decide_def Let_def
        split: option.split if_split_asm)

lemma evaluate_loop_ids:
  "map rd_snapshot_id (fst (evaluate_loop p n ls i rank k q cs)) = map rc_snapshot_id cs"
  by (induction cs arbitrary: i rank k q) (simp_all add: Let_def case_prod_unfold decide_candidate_sound)

lemma evaluate_loop_sound:
  "d \<in> set (fst (evaluate_loop p n ls i rank k q cs)) \<Longrightarrow> rd_action d = Prune \<Longrightarrow>
     \<exists>c \<in> set cs. rd_snapshot_id d = rc_snapshot_id c \<and> rd_snapshot_status d = rc_status c \<and> \<not> is_protected c"
proof (induction cs arbitrary: i rank k q)
  case (Cons c cs)
  let ?e = "fst (decide_candidate p n ls i rank c)"
  have "d = ?e \<or> (\<exists>i' rank' k' q'. d \<in> set (fst (evaluate_loop p n ls i' rank' k' q' cs)))"
    using Cons.prems(1) by (auto simp: Let_def case_prod_unfold)
  then show ?case
  proof
    assume "d = ?e"
    then show ?thesis using Cons.prems(2) decide_candidate_sound [of p n ls i rank c] by auto
  next
    assume "\<exists>i' rank' k' q'. d \<in> set (fst (evaluate_loop p n ls i' rank' k' q' cs))"
    with Cons.IH Cons.prems(2) show ?thesis by (metis list.set_intros(2))
  qed
qed simp

lemma evaluate_ids:
  "map rd_snapshot_id (re_decisions (evaluate pid p cs t)) = map rc_snapshot_id (sort_candidates cs)"
  by (simp add: evaluate_def Let_def case_prod_unfold evaluate_loop_ids)

lemma evaluate_sound:
  assumes "d \<in> set (re_decisions (evaluate pid p cs t))" "rd_action d = Prune"
  shows "\<exists>c \<in> set cs. rd_snapshot_id d = rc_snapshot_id c \<and> rd_snapshot_status d = rc_status c \<and> \<not> is_protected c"
proof -
  let ?cs = "sort_candidates cs"
  let ?ls = "map_option rc_snapshot_id (find_first (\<lambda>c. rc_status c = BackupStatus.Completed) ?cs)"
  have "d \<in> set (fst (evaluate_loop p (length ?cs) ?ls 0 0 0 0 ?cs))"
    using assms by (auto simp: evaluate_def Let_def case_prod_unfold decide_def split: if_splits)
  from evaluate_loop_sound [OF this assms(2)] show ?thesis by simp
qed

lemma approved_all:
  assumes "\<And>d. \<lbrakk>d \<in> set ds; rd_action d = Prune\<rbrakk> \<Longrightarrow>
     rd_snapshot_id d \<notin> active \<and> rd_snapshot_status d \<notin> {BackupStatus.Scanning, BackupStatus.BackingUp}"
  shows "approved_for_pruning active ds = Inr (map rd_snapshot_id (filter (\<lambda>d. rd_action d = Prune) ds))"
  using assms by (induction ds) auto

lemma set_list_snapshots: "set (list_snapshots_by_profile db pid) = {s \<in> set (t_snapshots db). sr_profile_id s = pid}"
  by (auto simp: list_snapshots_by_profile_def order_desc_def)

lemma distinct_candidates:
  assumes "keyed sr_snapshot_id (t_snapshots db)"
  shows "distinct (map rc_snapshot_id (candidates_of env active now db pid))"
proof -
  have "mset (list_snapshots_by_profile db pid) = mset (filter (\<lambda>s. sr_profile_id s = pid) (t_snapshots db))"
    by (simp add: list_snapshots_by_profile_def order_desc_def)
  moreover have "distinct (map sr_snapshot_id (filter (\<lambda>s. sr_profile_id s = pid) (t_snapshots db)))"
    using keyed_filter [OF assms] by (simp add: keyed_def)
  moreover have "map rc_snapshot_id (candidates_of env active now db pid)
      = map sr_snapshot_id (list_snapshots_by_profile db pid)"
    by (simp add: candidates_of_def candidate_of_def)
  ultimately show ?thesis by (metis mset_eq_imp_distinct_iff mset_map)
qed


lemma evaluation_sound:
  assumes keys: "keyed sr_snapshot_id (t_snapshots db)"
    and ev: "evaluate_retention env db pid custom active now = Inr ev"
  shows "approved_for_pruning active (re_decisions ev) = Inr (pruned_ids ev)"
    and "distinct (pruned_ids ev)"
    and "set (pruned_ids ev) \<subseteq> {i. \<exists>s \<in> set (t_snapshots db). sr_snapshot_id s = i \<and> sr_profile_id s = pid
           \<and> i \<notin> active \<and> \<not> snapshot_active s}"
proof -
  let ?cs = "candidates_of env active now db pid"
  from ev obtain p where ev': "ev = evaluate pid p ?cs (rv_rfc3339 env now)"
    by (auto simp: evaluate_retention_def bind_res_Inr_iff split: option.splits)
  have sound: "\<exists>s \<in> set (t_snapshots db). rd_snapshot_id d = sr_snapshot_id s \<and> rd_snapshot_status d = sr_status s
      \<and> sr_profile_id s = pid \<and> sr_snapshot_id s \<notin> active \<and> \<not> snapshot_active s"
    if d: "d \<in> set (re_decisions ev)" "rd_action d = Prune" for d
    using evaluate_sound [OF d(1) [unfolded ev'] d(2)]
    by (force simp: candidates_of_def candidate_of_def set_list_snapshots is_protected_def snapshot_active_def)
  show "approved_for_pruning active (re_decisions ev) = Inr (pruned_ids ev)"
    unfolding pruned_ids_def
    by (rule approved_all) (use sound in \<open>force simp: snapshot_active_def\<close>)
  have "distinct (map rd_snapshot_id (re_decisions ev))"
    using distinct_candidates [OF keys, of env active now pid]
    unfolding ev' evaluate_ids by (metis mset_eq_imp_distinct_iff mset_map mset_sort_candidates)
  then show "distinct (pruned_ids ev)"
    by (auto simp: pruned_ids_def distinct_map intro: inj_on_subset)
  show "set (pruned_ids ev) \<subseteq> {i. \<exists>s \<in> set (t_snapshots db). sr_snapshot_id s = i \<and> sr_profile_id s = pid
           \<and> i \<notin> active \<and> \<not> snapshot_active s}"
    using sound by (force simp: pruned_ids_def)
qed

lemma get_profile_has_key: "get_profile db pid \<noteq> None \<longleftrightarrow> has_key pr_profile_id (t_profiles db) pid"
  by (simp add: get_profile_def find_first_has_key)

text \<open>C13. Executing retention on a catalog with unique snapshot identifiers. What is removed is exactly what
  the evaluation decided: snapshots of this profile, none of them active or being written, with their
  versions, and one audit record is added; it fails only when the profile is missing or the audit
  identifier is taken, and then nothing has changed. A dry run removes nothing and adds at most an audit
  record.\<close>

theorem execute_retention_exact:
  assumes keys: "keyed sr_snapshot_id (t_snapshots db)"
    and ev: "evaluate_retention env db pid custom active now = Inr ev"
  shows "(case execute_retention env pid custom active False now db of
       (db', Inl e) \<Rightarrow> db' = db
         \<and> (get_profile db pid = None \<or> has_key rhr_history_id (t_ret_hist db) (''rethist-'' @ rv_stamp env))
     | (db', Inr res) \<Rightarrow> rr_pruned_snapshots res = pruned_ids ev
         \<and> rr_pruned_versions_count res = versions_in (pruned_ids ev) db
         \<and> (\<exists>h. db' = (pruned (pruned_ids ev) db)\<lparr>t_ret_hist := t_ret_hist db @ [h]\<rparr>))
   \<and> set (pruned_ids ev) \<subseteq> {i. \<exists>s \<in> set (t_snapshots db). sr_snapshot_id s = i \<and> sr_profile_id s = pid
           \<and> i \<notin> active \<and> \<not> snapshot_active s}
   \<and> (\<exists>hs. fst (execute_retention env pid custom active True now db) = db\<lparr>t_ret_hist := t_ret_hist db @ hs\<rparr>)"
proof (intro conjI)
  note s = evaluation_sound [OF keys ev]
  show "set (pruned_ids ev) \<subseteq> {i. \<exists>s \<in> set (t_snapshots db). sr_snapshot_id s = i \<and> sr_profile_id s = pid
           \<and> i \<notin> active \<and> \<not> snapshot_active s}"
    by (rule s(3))
  have keep: "\<exists>hs. db = db\<lparr>t_ret_hist := t_ret_hist db @ hs\<rparr>"
    by (intro exI [of _ "[]"]) simp
  have dry: "\<exists>hs. fst (record_retention_history (rv_em env) h db) = db\<lparr>t_ret_hist := t_ret_hist db @ hs\<rparr>" for h
    using keep by (simp add: record_retention_history_def checked_def) blast
  show "\<exists>hs. fst (execute_retention env pid custom active True now db) = db\<lparr>t_ret_hist := t_ret_hist db @ hs\<rparr>"
    using keep dry by (simp add: execute_retention_def ev Let_def case_prod_unfold)
  have "set (pruned_ids ev) \<subseteq> sr_snapshot_id ` set (t_snapshots db)" using s(3) by blast
  then have ok: "prunable (pruned_ids ev) (Some h) db \<longleftrightarrow>
      \<not> has_key rhr_history_id (t_ret_hist db) (rhr_history_id h)
      \<and> has_key pr_profile_id (t_profiles db) (rhr_profile_id h)" for h
    using s(2) by (auto simp: prunable_def has_key_def)
  have hist: "rhr_history_id (history_record env pid t dry ev hid n is) = hid"
      "rhr_profile_id (history_record env pid t dry ev hid n is) = pid" for t dry hid n "is"
    by (simp_all add: history_record_def)
  show "case execute_retention env pid custom active False now db of
       (db', Inl e) \<Rightarrow> db' = db
         \<and> (get_profile db pid = None \<or> has_key rhr_history_id (t_ret_hist db) (''rethist-'' @ rv_stamp env))
     | (db', Inr res) \<Rightarrow> rr_pruned_snapshots res = pruned_ids ev
         \<and> rr_pruned_versions_count res = versions_in (pruned_ids ev) db
         \<and> (\<exists>h. db' = (pruned (pruned_ids ev) db)\<lparr>t_ret_hist := t_ret_hist db @ [h]\<rparr>)"
  proof (cases "get_profile db pid = None")
    case True
    then show ?thesis by (simp add: execute_retention_def)
  next
    case False
    then have key: "has_key pr_profile_id (t_profiles db) pid" by (simp only: get_profile_has_key)
    show ?thesis
    proof (cases "pruned_ids ev = []")
      case True
      then show ?thesis
        using False key s(1)
        by (auto simp: execute_retention_def ev Let_def record_retention_history_def checked_def hist
              retention_result_def)
    next
      case nonempty: False
      let ?h = "history_record env pid (rv_rfc3339 env now) False ev (''rethist-'' @ rv_stamp env)
          (length (pruned_ids ev)) (rv_ids_json env (pruned_ids ev))"
      show ?thesis
        using False nonempty key s(1) ok [of ?h]
          prune_transaction_cases [where em = "rv_em env" and sids = "pruned_ids ev" and history = "Some ?h" and db = db]
        by (auto simp: execute_retention_def ev Let_def hist retention_result_def
              split: prod.splits sum.splits)
    qed
  qed
qed


definition sample_env :: retention_env where
  "sample_env = \<lparr>rv_parse = (\<lambda>_. None), rv_rfc3339 = (\<lambda>_. ''t''), rv_ids_json = concat,
     rv_decisions_json = (\<lambda>_. ''[]''), rv_stamp = ''1'', rv_em = ''e''\<rparr>"

definition retention_sample_db :: Database where
  "retention_sample_db = sample_db\<lparr>t_snapshots :=
     [sample_snapshot ''s1'' BackupStatus.Completed, sample_snapshot ''s0'' BackupStatus.Failed]\<rparr>"

definition sample_pruning :: RetentionPolicy where
  "sample_pruning = (RetentionPolicy_new ''p1'')\<lparr>prune_failed := True\<rparr>"

theorem execute_retention_exact_witness:
  "\<exists>db' res. execute_retention sample_env ''p1'' (Some sample_pruning) {} False 0 retention_sample_db = (db', Inr res)
     \<and> rr_pruned_snapshots res = [''s0''] \<and> map sr_snapshot_id (t_snapshots db') = [''s1'']"
proof -
  let ?run = "execute_retention sample_env ''p1'' (Some sample_pruning) {} False 0 retention_sample_db"
  let ?ev = "evaluate ''p1'' sample_pruning (candidates_of sample_env {} 0 retention_sample_db ''p1'') ''t''"
  have keys: "keyed sr_snapshot_id (t_snapshots retention_sample_db)"
    by (simp add: keyed_def retention_sample_db_def sample_snapshot_def)
  have ev: "evaluate_retention sample_env retention_sample_db ''p1'' (Some sample_pruning) {} 0 = Inr ?ev"
    by (simp add: evaluate_retention_def sample_env_def sample_pruning_def RetentionPolicy_validate_def
          RetentionPolicy_new_def)
  have "list_snapshots_by_profile retention_sample_db ''p1'' =
      [sample_snapshot ''s1'' BackupStatus.Completed, sample_snapshot ''s0'' BackupStatus.Failed]"
    by (simp add: list_snapshots_by_profile_def retention_sample_db_def sample_snapshot_def order_desc_def)
  then have ids: "pruned_ids ?ev = [''s0'']"
    by (simp add: candidates_of_def candidate_of_def sample_snapshot_def parse_snapshot_age_secs_def
          sample_env_def evaluate_def sort_candidates_def newer_or_same_def sample_pruning_def
          RetentionPolicy_new_def decide_candidate_def is_protected_def decide_completed_def
          decide_incomplete_def pruned_ids_def)
  have no: "get_profile retention_sample_db ''p1'' \<noteq> None"
      "\<not> has_key rhr_history_id (t_ret_hist retention_sample_db) hid" for hid
    by (simp_all add: retention_sample_db_def sample_db_rows get_profile_def open_in_memory_def
          sample_profile_def has_key_def)
  obtain db' r where run: "?run = (db', r)" by fastforce
  show ?thesis
  proof (cases r)
    case (Inl e)
    then show ?thesis using execute_retention_exact [OF keys ev] no by (simp add: run)
  next
    case (Inr res)
    have "map sr_snapshot_id (t_snapshots (pruned [''s0''] retention_sample_db)) = [''s1'']"
      by (simp add: pruned_def retention_sample_db_def sample_snapshot_def)
    then show ?thesis using execute_retention_exact [OF keys ev] Inr by (auto simp: run ids)
  qed
qed

end
