(* ===== verification/Crypto_Model.thy ===== *)
theory Crypto_Model
  imports Storage_Model Error_Types
begin

text \<open>
  televault-crypto: keys, nonces and salts, the binding context of a chunk (\<open>aad.rs\<close>), the
  encrypted payload (\<open>payload.rs\<close>), encryption and decryption (\<open>cipher.rs\<close>), the parameters of the
  key derivation (\<open>kdf.rs\<close>) and the encryption policy (\<open>policy.rs\<close>).

  AES-256-GCM of the crate aes-gcm and Argon2id of the crate argon2 are parameters: \<open>seal\<close> and
  \<open>open_sealed\<close> take key, nonce, associated data and text; random bytes are arguments. Byte arrays of
  fixed length are lists; \<open>from_slice\<close> checks the length. Zeroization of key memory has no
  counterpart.
\<close>

subsection \<open>Keys\<close>

datatype SecretKey = SecretKey (key_bytes: bytes)
datatype Salt = Salt (salt_bytes: bytes)
datatype Nonce = Nonce (nonce_bytes: bytes)

definition SecretKey_from_slice :: "bytes \<Rightarrow> (CryptoError, SecretKey) result" where
  "SecretKey_from_slice bs =
     (if length bs \<noteq> 32 then Err (InvalidKeyLength 32 (length bs)) else Ok (SecretKey bs))"

definition Salt_from_slice :: "bytes \<Rightarrow> (CryptoError, Salt) result" where
  "Salt_from_slice bs =
     (if length bs \<noteq> 32
      then Err (MalformedPayload (''invalid salt length: expected 32 bytes, got '' @ show_nat (length bs)))
      else Ok (Salt bs))"

definition Nonce_from_slice :: "bytes \<Rightarrow> (CryptoError, Nonce) result" where
  "Nonce_from_slice bs =
     (if length bs \<noteq> 12 then Err (InvalidNonceLength (length bs)) else Ok (Nonce bs))"

definition SecretKey_debug :: "SecretKey \<Rightarrow> string" where
  "SecretKey_debug k = ''SecretKey([REDACTED])''"

subsection \<open>Key derivation\<close>

record KdfParams =
  kp_memory_kib :: u32
  kp_iterations :: u32
  kp_parallelism :: u32

definition KdfParams_default :: KdfParams where
  "KdfParams_default = \<lparr>kp_memory_kib = 64 * 1024, kp_iterations = 3, kp_parallelism = 2\<rparr>"

definition KdfParams_validate :: "KdfParams \<Rightarrow> (CryptoError, unit) result" where
  "KdfParams_validate p =
     (if kp_memory_kib p < 1024 then Err (KeyDerivation ''memory cost must be at least 1024 KiB'')
      else if kp_iterations p < 1 then Err (KeyDerivation ''iterations must be at least 1'')
      else if kp_parallelism p < 1 then Err (KeyDerivation ''parallelism must be at least 1'')
      else Ok ())"

text \<open>\<open>argon2_params\<close> and \<open>argon2\<close> stand for the crate: the check of the parameters and the hash into
  32 bytes, with the text of their errors.\<close>

definition derive_key ::
  "(KdfParams \<Rightarrow> (string, unit) result) \<Rightarrow> (KdfParams \<Rightarrow> string \<Rightarrow> bytes \<Rightarrow> (string, bytes) result)
     \<Rightarrow> string \<Rightarrow> Salt \<Rightarrow> KdfParams \<Rightarrow> (CryptoError, SecretKey) result" where
  "derive_key argon2_params argon2 password salt p =
     bind_res (KdfParams_validate p) (\<lambda>_.
     bind_res (map_err (\<lambda>e. KeyDerivation (''invalid argon2 params: '' @ e)) (argon2_params p)) (\<lambda>_.
     bind_res (map_err (\<lambda>e. KeyDerivation (''derivation failed: '' @ e)) (argon2 p password (salt_bytes salt)))
       (\<lambda>bs. Ok (SecretKey bs))))"

subsection \<open>The binding context of a chunk\<close>

record ChunkAad =
  aad_file_id :: ident_str
  aad_chunk_index :: u32
  aad_total_chunks :: u32
  aad_format_version :: u32

definition ChunkAad_new :: "ident_str \<Rightarrow> u32 \<Rightarrow> u32 \<Rightarrow> ChunkAad" where
  "ChunkAad_new fid index n =
     \<lparr>aad_file_id = fid, aad_chunk_index = index, aad_total_chunks = n, aad_format_version = 1\<rparr>"

definition as_bytes :: "string \<Rightarrow> bytes" where
  "as_bytes s = map (\<lambda>c. of_nat (byte_of c)) s"

definition le_bytes :: "nat \<Rightarrow> nat \<Rightarrow> bytes" where
  \<comment> \<open>\<open>to_le_bytes\<close> of an unsigned integer of \<open>k\<close> bytes\<close>
  "le_bytes k n = map (\<lambda>i. of_nat (n div 256 ^ i mod 256)) [0..<k]"

definition aad_magic :: bytes where
  "aad_magic = as_bytes ''TELEVAULT-CHUNK-v1'' @ [0]"

definition to_aad_bytes :: "ChunkAad \<Rightarrow> bytes" where
  "to_aad_bytes a =
     aad_magic @ le_bytes 2 (length (aad_file_id a) mod 2 ^ 16) @ as_bytes (aad_file_id a)
       @ le_bytes 4 (unat (aad_chunk_index a)) @ le_bytes 4 (unat (aad_total_chunks a))
       @ le_bytes 4 (unat (aad_format_version a))"

subsection \<open>Encrypted payloads\<close>

record KdfMetadata =
  km_salt :: Salt
  km_params :: KdfParams

record EncryptedPayload =
  ep_format_version :: u32
  ep_algorithm :: EncryptionAlgorithm
  ep_nonce :: Nonce
  ep_ciphertext :: bytes
  ep_kdf_metadata :: "KdfMetadata option"

definition EncryptedPayload_new :: "Nonce \<Rightarrow> bytes \<Rightarrow> KdfMetadata option \<Rightarrow> EncryptedPayload" where
  "EncryptedPayload_new nonce c km =
     \<lparr>ep_format_version = 1, ep_algorithm = Aes256Gcm, ep_nonce = nonce, ep_ciphertext = c,
      ep_kdf_metadata = km\<rparr>"

definition validate_header :: "EncryptedPayload \<Rightarrow> (CryptoError, unit) result" where
  "validate_header p =
     (if ep_format_version p \<noteq> 1 then Err (CryptoError.UnsupportedVersion (ep_format_version p))
      else if length (ep_ciphertext p) < 16
      then Err (MalformedPayload ''ciphertext too short (must be at least 16 bytes for auth tag)'')
      else Ok ())"

type_synonym aead_fn = "bytes \<Rightarrow> bytes \<Rightarrow> bytes \<Rightarrow> bytes \<Rightarrow> bytes option"

definition encrypt_raw ::
  "aead_fn \<Rightarrow> Nonce \<Rightarrow> SecretKey \<Rightarrow> bytes \<Rightarrow> bytes option \<Rightarrow> KdfMetadata option
     \<Rightarrow> (CryptoError, EncryptedPayload) result" where
  \<comment> \<open>the key has 32 bytes by its type, so the cipher is always built\<close>
  "encrypt_raw seal nonce key plaintext aad km =
     (let a = (case aad of None \<Rightarrow> [] | Some a \<Rightarrow> a)
      in case seal (key_bytes key) (nonce_bytes nonce) a plaintext of
           None \<Rightarrow> Err AuthenticationFailed
         | Some c \<Rightarrow> Ok (EncryptedPayload_new nonce c km))"

definition decrypt_raw ::
  "aead_fn \<Rightarrow> SecretKey \<Rightarrow> EncryptedPayload \<Rightarrow> bytes option \<Rightarrow> (CryptoError, bytes) result" where
  "decrypt_raw open_sealed key payload aad =
     bind_res (validate_header payload) (\<lambda>_.
       let a = (case aad of None \<Rightarrow> [] | Some a \<Rightarrow> a)
       in ok_or AuthenticationFailed
            (open_sealed (key_bytes key) (nonce_bytes (ep_nonce payload)) a (ep_ciphertext payload)))"

definition encrypt_chunk ::
  "aead_fn \<Rightarrow> Nonce \<Rightarrow> SecretKey \<Rightarrow> bytes \<Rightarrow> ChunkAad \<Rightarrow> KdfMetadata option
     \<Rightarrow> (CryptoError, EncryptedPayload) result" where
  "encrypt_chunk seal nonce key bs aad km = encrypt_raw seal nonce key bs (Some (to_aad_bytes aad)) km"

definition decrypt_chunk ::
  "aead_fn \<Rightarrow> SecretKey \<Rightarrow> EncryptedPayload \<Rightarrow> ChunkAad \<Rightarrow> (CryptoError, bytes) result" where
  "decrypt_chunk open_sealed key payload aad = decrypt_raw open_sealed key payload (Some (to_aad_bytes aad))"

subsection \<open>Policy\<close>

datatype EncryptionPolicy = Enabled SecretKey | Disabled

fun EncryptionPolicy_is_enabled :: "EncryptionPolicy \<Rightarrow> bool" where
  "EncryptionPolicy_is_enabled (Enabled _) = True"
| "EncryptionPolicy_is_enabled Disabled = False"

fun EncryptionPolicy_key :: "EncryptionPolicy \<Rightarrow> SecretKey option" where
  "EncryptionPolicy_key (Enabled k) = Some k"
| "EncryptionPolicy_key Disabled = None"

subsection \<open>Lemmas\<close>

lemma length_le_bytes [simp]: "length (le_bytes k n) = k"
  by (simp add: le_bytes_def)

lemma le_bytes_inj: "le_bytes k m = le_bytes k n \<Longrightarrow> m mod 256 ^ k = n mod 256 ^ k"
proof (induction k)
  case (Suc k)
  have split: "le_bytes (Suc k) x = le_bytes k x @ [of_nat (x div 256 ^ k mod 256)]" for x
    by (simp add: le_bytes_def)
  from Suc.prems have *: "le_bytes k m = le_bytes k n"
    and w: "of_nat (m div 256 ^ k mod 256) = (of_nat (n div 256 ^ k mod 256) :: u8)"
    by (simp_all add: split)
  have digit: "unat (of_nat (x mod 256) :: u8) = x mod 256" for x
    by (simp add: unat_of_nat)
  from w have "m div 256 ^ k mod 256 = n div 256 ^ k mod 256"
    using digit by metis
  moreover have "x mod 256 ^ Suc k = 256 ^ k * (x div 256 ^ k mod 256) + x mod 256 ^ k" for x :: nat
    using mod_mult2_eq [of x "256 ^ k" 256] by (simp add: mult.commute)
  ultimately show ?case using Suc.IH [OF *] by simp
qed simp

lemma le_bytes_u32: "le_bytes 4 (unat (a :: u32)) = le_bytes 4 (unat b) \<longleftrightarrow> a = b"
proof
  assume "le_bytes 4 (unat a) = le_bytes 4 (unat b)"
  then have "unat a mod 256 ^ 4 = unat b mod 256 ^ 4" by (rule le_bytes_inj)
  then show "a = b" by (simp add: word_unat_eq_iff)
qed simp

lemma length_as_bytes [simp]: "length (as_bytes s) = length s"
  by (simp add: as_bytes_def)

lemma as_bytes_inj: "as_bytes s = as_bytes t \<longleftrightarrow> s = t"
proof
  have "inj (\<lambda>c. of_nat (byte_of c) :: u8)"
  proof (rule injI)
    fix c d
    assume "(of_nat (byte_of c) :: u8) = of_nat (byte_of d)"
    then have "unat (of_nat (byte_of c) :: u8) = unat (of_nat (byte_of d) :: u8)" by simp
    then have "(byte_of c :: nat) = byte_of d" by (simp add: unat_of_nat)
    then show "c = d" by simp
  qed
  moreover assume "as_bytes s = as_bytes t"
  ultimately show "s = t" by (simp add: as_bytes_def inj_map_eq_map)
qed simp

text \<open>C29. The associated data of a chunk determine its place: two contexts have the same bytes only
  when file, index, number of chunks and format version agree, also for identifiers so long that the
  16-bit length field wraps. A sealed chunk is therefore bound to one position of one file.\<close>

theorem to_aad_bytes_inj: "to_aad_bytes a = to_aad_bytes b \<longleftrightarrow> a = b"
proof
  assume eq: "to_aad_bytes a = to_aad_bytes b"
  have len: "length (aad_file_id a) = length (aad_file_id b)"
    using arg_cong [OF eq, of length] by (simp add: to_aad_bytes_def)
  have "aad_file_id a = aad_file_id b" "aad_chunk_index a = aad_chunk_index b"
    "aad_total_chunks a = aad_total_chunks b" "aad_format_version a = aad_format_version b"
    using eq len by (simp_all add: to_aad_bytes_def as_bytes_inj le_bytes_u32)
  then show "a = b" by simp
qed simp

lemma decrypt_encrypt_chunk:
  assumes aead: "\<And>k n a m c. seal k n a m = Some c \<Longrightarrow> open_sealed k n a c = Some m \<and> 16 \<le> length c"
    and "encrypt_chunk seal nonce key m aad km = Inr p"
  shows "decrypt_chunk open_sealed key p aad = Inr m"
  using assms
  by (auto simp: encrypt_chunk_def encrypt_raw_def decrypt_chunk_def decrypt_raw_def validate_header_def
        EncryptedPayload_new_def Let_def not_less split: option.splits)

end
