(* ===== verification/Backup_Change.thy ===== *)
theory Backup_Change
  imports Catalog_Inv Crypto_Model
begin

text \<open>
  What a backup is planned from (televault-backup): the profile and its path filters (\<open>profile.rs\<close>),
  the directory scanner (\<open>scanner.rs\<close>), the change detector (\<open>change_detector.rs\<close>), the plan
  (\<open>plan.rs\<close>) and the snapshot manager (\<open>snapshot.rs\<close>).

  The file system the scanner walks is a tree, with the failures \<open>read_dir\<close> and \<open>metadata\<close> can report
  at its nodes; a directory without cycles of symbolic links. A path of the host is its text, its
  segments joined by a slash. The hash in \<open>deterministic_file_id\<close> is the parameter \<open>sha\<close>.
\<close>

subsection \<open>profile.rs\<close>

record ProfileConfig =
  pc_include_patterns :: "string list"
  pc_exclude_patterns :: "string list"
  pc_compression_algorithm :: CompressionAlgorithm
  pc_max_chunk_size_bytes :: u64

record BackupProfile =
  bp_profile_id :: ident_str
  bp_name :: string
  bp_description :: "string option"
  bp_source_path :: string
  bp_enabled :: bool
  bp_include_patterns :: "string list"
  bp_exclude_patterns :: "string list"
  bp_encryption_policy :: EncryptionPolicy
  bp_compression_algorithm :: CompressionAlgorithm
  bp_max_chunk_size_bytes :: u64
  bp_created_at :: string
  bp_updated_at :: string

definition BackupProfile_new :: "ident_str \<Rightarrow> string \<Rightarrow> string \<Rightarrow> BackupProfile" where
  "BackupProfile_new pid name src =
     \<lparr>bp_profile_id = pid, bp_name = name, bp_description = None, bp_source_path = src, bp_enabled = True,
      bp_include_patterns = [],
      bp_exclude_patterns = [''*.tmp'', ''*.temp'', ''node_modules/*'', ''.git/*''],
      bp_encryption_policy = Disabled, bp_compression_algorithm = NoCompression,
      bp_max_chunk_size_bytes = TARGET_CHUNK_SIZE_BYTES,
      bp_created_at = ''2026-10-07T12:00:00Z'', bp_updated_at = ''2026-10-07T12:00:00Z''\<rparr>"

definition BackupProfile_validate :: "BackupProfile \<Rightarrow> (BackupError, unit) result" where
  "BackupProfile_validate p =
     (if trim (bp_name p) = [] then Err (InvalidProfile ''Profile name cannot be empty'')
      else if bp_source_path p = [] then Err (InvalidProfile ''Source path cannot be empty'')
      else if bp_max_chunk_size_bytes p = 0
      then Err (InvalidProfile ''max_chunk_size_bytes must be greater than zero'')
      else Ok ())"

definition backslash_to_slash :: "string \<Rightarrow> string" where
  "backslash_to_slash s = map (\<lambda>c. if c = CHR 0x5C then CHR ''/'' else c) s"

definition matches_pattern :: "string \<Rightarrow> string \<Rightarrow> bool" where
  "matches_pattern p pattern =
     (let pat = backslash_to_slash pattern in
      if pat = ''*'' then True
      else if pat \<noteq> [] \<and> hd pat = CHR ''*'' then suffix (tl pat) p
      else if pat \<noteq> [] \<and> last pat = CHR ''*'' then prefix (butlast pat) p
      else p = pat)"

definition is_path_included :: "BackupProfile \<Rightarrow> string \<Rightarrow> bool" where
  "is_path_included p relative =
     (let normalized = backslash_to_slash relative in
      if \<exists>pat \<in> set (bp_exclude_patterns p). matches_pattern normalized pat then False
      else if bp_include_patterns p \<noteq> [] then \<exists>pat \<in> set (bp_include_patterns p). matches_pattern normalized pat
      else True)"

definition BackupProfile_to_db_record :: "BackupProfile \<Rightarrow> ProfileRecord" where
  "BackupProfile_to_db_record p =
     \<lparr>pr_profile_id = bp_profile_id p, pr_name = bp_name p, pr_description = bp_description p,
      pr_source_path = bp_source_path p, pr_enabled = bp_enabled p, pr_created_at = bp_created_at p,
      pr_updated_at = bp_updated_at p\<rparr>"

definition BackupProfile_from_db_record ::
  "ProfileRecord \<Rightarrow> ProfileConfig option \<Rightarrow> EncryptionPolicy \<Rightarrow> BackupProfile" where
  "BackupProfile_from_db_record r config enc =
     (let cfg = (case config of Some c \<Rightarrow> c
        | None \<Rightarrow> \<lparr>pc_include_patterns = [], pc_exclude_patterns = [],
            pc_compression_algorithm = NoCompression, pc_max_chunk_size_bytes = 0\<rparr>)
      in \<lparr>bp_profile_id = pr_profile_id r, bp_name = pr_name r, bp_description = pr_description r,
          bp_source_path = pr_source_path r, bp_enabled = pr_enabled r,
          bp_include_patterns = pc_include_patterns cfg, bp_exclude_patterns = pc_exclude_patterns cfg,
          bp_encryption_policy = enc, bp_compression_algorithm = pc_compression_algorithm cfg,
          bp_max_chunk_size_bytes = (if pc_max_chunk_size_bytes cfg > 0 then pc_max_chunk_size_bytes cfg
             else TARGET_CHUNK_SIZE_BYTES),
          bp_created_at = pr_created_at r, bp_updated_at = pr_updated_at r\<rparr>)"

subsection \<open>scanner.rs\<close>

record ScannedFile =
  sf_relative_path :: string
  sf_absolute_path :: string
  sf_file_name :: string
  sf_size_bytes :: u64
  sf_modified_at_epoch_ms :: u64
  sf_modified_at :: string
  sf_is_accessible :: bool

record ScanResult =
  scan_files :: "ScannedFile list"
  scan_inaccessible :: "(string \<times> string) list"
  scan_total_bytes :: u64
  scan_total_count :: nat

text \<open>The entries of a directory: an entry that cannot be read, one whose metadata cannot be read, a
  directory, a directory that cannot be listed, a file with size, modification time after the epoch
  and readability, or something else.\<close>

datatype fs_entry =
    BadEntry string
  | NoMetadata string string
  | Directory string "fs_entry list"
  | Unlistable string string
  | RegularFile string u64 "u64 option" bool
  | OtherEntry string

definition scanned_file :: "string \<Rightarrow> string \<Rightarrow> string \<Rightarrow> u64 \<Rightarrow> u64 option \<Rightarrow> bool \<Rightarrow> ScannedFile" where
  "scanned_file relative absolute name sz mtime acc =
     \<lparr>sf_relative_path = relative, sf_absolute_path = absolute, sf_file_name = name, sf_size_bytes = sz,
      sf_modified_at_epoch_ms = (case mtime of Some ms \<Rightarrow> ms | None \<Rightarrow> 0),
      sf_modified_at = (case mtime of Some ms \<Rightarrow> ''epoch-ms:'' @ show_nat (unat ms)
         | None \<Rightarrow> ''1970-01-01T00:00:00Z''),
      sf_is_accessible = acc\<rparr>"

definition dir_path :: "string \<Rightarrow> string \<Rightarrow> string" where
  "dir_path root dir = (if dir = [] then root else root @ ''/'' @ butlast dir)"

text \<open>\<open>dir\<close> is the path of the directory below the root with a trailing slash, or empty.\<close>

fun crawl_entry :: "platform \<Rightarrow> BackupProfile \<Rightarrow> string \<Rightarrow> string \<Rightarrow> fs_entry
    \<Rightarrow> ScannedFile list \<times> (string \<times> string) list"
  and crawl_dir :: "platform \<Rightarrow> BackupProfile \<Rightarrow> string \<Rightarrow> string \<Rightarrow> fs_entry list
    \<Rightarrow> ScannedFile list \<times> (string \<times> string) list" where
  "crawl_entry pf p root dir (BadEntry err) = ([], [(dir_path root dir, err)])"
| "crawl_entry pf p root dir (NoMetadata name err) = ([], [(root @ ''/'' @ dir @ name, err)])"
| "crawl_entry pf p root dir (Unlistable name err) = ([], [(root @ ''/'' @ dir @ name, err)])"
| "crawl_entry pf p root dir (Directory name es) = crawl_dir pf p root (dir @ name @ ''/'') es"
| "crawl_entry pf p root dir (OtherEntry name) = ([], [])"
| "crawl_entry pf p root dir (RegularFile name sz mtime acc) =
     (let absolute = root @ ''/'' @ dir @ name; relative = backslash_to_slash (dir @ name) in
      case validate_safe_relative_path pf (pf_components pf relative) of
        Inl e \<Rightarrow> ([], [(absolute, ''Unsafe relative path: '' @ AppError_display e)])
      | Inr _ \<Rightarrow>
          if \<not> is_path_included p relative then ([], [])
          else ([scanned_file relative absolute name sz mtime acc], []))"
| "crawl_dir pf p root dir [] = ([], [])"
| "crawl_dir pf p root dir (e # es) =
     (let (fs, bad) = crawl_entry pf p root dir e; (fs', bad') = crawl_dir pf p root dir es
      in (fs @ fs', bad @ bad'))"

text \<open>The source root: absent, not a directory, or a directory (that may fail to be listed).\<close>

datatype scan_root = NoSuchRoot | NotADirectory | UnlistableRoot string | RootDirectory "fs_entry list"

definition scan_result :: "ScannedFile list \<Rightarrow> (string \<times> string) list \<Rightarrow> ScanResult" where
  "scan_result fs bad =
     (let files = sort_key sf_relative_path fs
      in \<lparr>scan_files = files, scan_inaccessible = bad,
          scan_total_bytes = sum_list (map sf_size_bytes files), scan_total_count = length files\<rparr>)"

definition scan_directory ::
  "platform \<Rightarrow> scan_root \<Rightarrow> string \<Rightarrow> BackupProfile \<Rightarrow> (BackupError, ScanResult) result" where
  "scan_directory pf source root p =
     (case source of
        NoSuchRoot \<Rightarrow> Err (ScanError (''Source directory does not exist: '' @ root))
      | NotADirectory \<Rightarrow> Err (ScanError (''Source path is not a directory: '' @ root))
      | UnlistableRoot err \<Rightarrow> Ok (scan_result [] [(root, err)])
      | RootDirectory es \<Rightarrow> (let (fs, bad) = crawl_dir pf p root [] es in Ok (scan_result fs bad)))"

subsection \<open>change_detector.rs\<close>

datatype ChangeKind = New | Modified | Unchanged | Deleted

record FileChange =
  fc_kind :: ChangeKind
  fc_file_id :: ident_str
  fc_relative_path :: string
  fc_scanned :: "ScannedFile option"
  fc_previous_file :: "FileRecord option"
  fc_previous_version :: "VersionRecord option"

record ChangeSet =
  changes :: "FileChange list"

definition of_kind :: "ChangeKind \<Rightarrow> ChangeSet \<Rightarrow> FileChange list" where
  "of_kind k cs = filter (\<lambda>c. fc_kind c = k) (changes cs)"

definition new_files :: "ChangeSet \<Rightarrow> FileChange list" where "new_files = of_kind New"
definition modified_files :: "ChangeSet \<Rightarrow> FileChange list" where "modified_files = of_kind Modified"
definition unchanged_files :: "ChangeSet \<Rightarrow> FileChange list" where "unchanged_files = of_kind Unchanged"
definition deleted_files :: "ChangeSet \<Rightarrow> FileChange list" where "deleted_files = of_kind Deleted"

definition has_mutations :: "ChangeSet \<Rightarrow> bool" where
  "has_mutations cs \<longleftrightarrow> (\<exists>c \<in> set (changes cs). fc_kind c \<noteq> Unchanged)"

definition to_transfer :: "ChangeSet \<Rightarrow> FileChange list" where
  "to_transfer cs = filter (\<lambda>c. fc_kind c = New \<or> fc_kind c = Modified) (changes cs)"

definition count_transfers_needed :: "ChangeSet \<Rightarrow> nat" where
  "count_transfers_needed cs = length (to_transfer cs)"

definition scanned_bytes :: "FileChange list \<Rightarrow> u64" where
  "scanned_bytes cs = sum_list (map sf_size_bytes (List.map_filter fc_scanned cs))"

definition total_transfer_bytes :: "ChangeSet \<Rightarrow> u64" where
  "total_transfer_bytes cs = scanned_bytes (to_transfer cs)"

definition total_reused_bytes :: "ChangeSet \<Rightarrow> u64" where
  "total_reused_bytes cs = scanned_bytes (unchanged_files cs)"

definition deterministic_file_id :: "(bytes \<Rightarrow> string) \<Rightarrow> string \<Rightarrow> ident_str" where
  "deterministic_file_id sha p =
     (case id_new ''FileId'' (''file-'' @ take 16 (sha (as_bytes p))) of
        Inr i \<Rightarrow> i | Inl _ \<Rightarrow> ''file-default'')"

definition prev_by_path :: "(FileRecord \<times> VersionRecord) list \<Rightarrow> string \<rightharpoonup> FileRecord \<times> VersionRecord" where
  \<comment> \<open>the hash map filled in order: the last record of a path wins\<close>
  "prev_by_path recs = map_of (rev (map (\<lambda>r. (fr_relative_path (fst r), r)) recs))"

definition classify ::
  "(bytes \<Rightarrow> string) \<Rightarrow> (FileRecord \<times> VersionRecord) list \<Rightarrow> ScannedFile \<Rightarrow> FileChange" where
  "classify sha recs s =
     (case prev_by_path recs (sf_relative_path s) of
        Some (f, v) \<Rightarrow>
          \<lparr>fc_kind = (if sf_size_bytes s = fr_original_size f \<and> fr_modified_at f = Some (sf_modified_at s)
             then Unchanged else Modified),
           fc_file_id = fr_file_id f, fc_relative_path = sf_relative_path s, fc_scanned = Some s,
           fc_previous_file = Some f, fc_previous_version = Some v\<rparr>
      | None \<Rightarrow>
          \<lparr>fc_kind = New, fc_file_id = deterministic_file_id sha (sf_relative_path s),
           fc_relative_path = sf_relative_path s, fc_scanned = Some s,
           fc_previous_file = None, fc_previous_version = None\<rparr>)"

definition deletion :: "FileRecord \<times> VersionRecord \<Rightarrow> FileChange" where
  "deletion r = (case r of (f, v) \<Rightarrow>
     \<lparr>fc_kind = Deleted, fc_file_id = fr_file_id f, fc_relative_path = fr_relative_path f,
      fc_scanned = None, fc_previous_file = Some f, fc_previous_version = Some v\<rparr>)"

definition detect_changes ::
  "(bytes \<Rightarrow> string) \<Rightarrow> ScannedFile list \<Rightarrow> (FileRecord \<times> VersionRecord) list \<Rightarrow> ChangeSet" where
  "detect_changes sha scanned recs =
     (let seen = sf_relative_path ` set scanned;
          cs = map (classify sha recs) scanned
               @ map deletion (filter (\<lambda>r. fr_relative_path (fst r) \<notin> seen) recs)
      in \<lparr>changes = sort_key fc_relative_path cs\<rparr>)"

subsection \<open>plan.rs\<close>

record BackupPlan =
  pl_profile :: BackupProfile
  pl_snapshot_id :: ident_str
  pl_change_set :: ChangeSet
  pl_files_to_transfer :: nat
  pl_bytes_to_transfer :: u64
  pl_unchanged_files_reused :: nat
  pl_unchanged_bytes_reused :: u64

definition BackupPlan_new :: "BackupProfile \<Rightarrow> ident_str \<Rightarrow> ChangeSet \<Rightarrow> BackupPlan" where
  "BackupPlan_new p sid cs =
     \<lparr>pl_profile = p, pl_snapshot_id = sid, pl_change_set = cs,
      pl_files_to_transfer = count_transfers_needed cs, pl_bytes_to_transfer = total_transfer_bytes cs,
      pl_unchanged_files_reused = length (unchanged_files cs),
      pl_unchanged_bytes_reused = total_reused_bytes cs\<rparr>"

record BackupSummary =
  bs_snapshot_id :: ident_str
  bs_profile_id :: ident_str
  bs_new_files :: nat
  bs_modified_files :: nat
  bs_unchanged_files :: nat
  bs_deleted_files :: nat
  bs_transferred_chunks :: nat
  bs_transferred_bytes :: u64
  bs_reused_bytes :: u64
  bs_status :: BackupStatus
  bs_elapsed_ms :: u64
  bs_error_message :: "string option"

subsection \<open>snapshot.rs\<close>

definition manager_create_snapshot ::
  "string \<Rightarrow> ident_str \<Rightarrow> ident_str \<Rightarrow> BackupStatus \<Rightarrow> Database
     \<Rightarrow> Database \<times> (BackupError, SnapshotRecord) result" where
  "manager_create_snapshot em pid sid status db =
     (let r = \<lparr>sr_snapshot_id = sid, sr_profile_id = pid, sr_status = status, sr_metadata = None,
               sr_created_at = ''2026-10-07T12:00:00Z''\<rparr>;
          (db', res) = create_snapshot em r db
      in (db', bind_res (map_err BackupError_of_DbError res) (\<lambda>_. Ok r)))"

definition manager_update_status ::
  "ident_str \<Rightarrow> BackupStatus \<Rightarrow> string option \<Rightarrow> Database \<Rightarrow> Database \<times> (BackupError, unit) result" where
  "manager_update_status sid status metadata db =
     (let (db', res) = update_snapshot_status_and_metadata sid status metadata db
      in (db', map_err BackupError_of_DbError res))"

definition diff_against_latest_snapshot ::
  "(bytes \<Rightarrow> string) \<Rightarrow> Database \<Rightarrow> ident_str \<Rightarrow> ScannedFile list \<Rightarrow> ChangeSet" where
  "diff_against_latest_snapshot sha db pid scanned =
     (let previous = (case get_latest_snapshot db pid of
        Some s \<Rightarrow> list_files_by_snapshot db (sr_snapshot_id s) | None \<Rightarrow> [])
      in detect_changes sha scanned previous)"

definition compare_snapshots :: "(bytes \<Rightarrow> string) \<Rightarrow> Database \<Rightarrow> ident_str \<Rightarrow> ident_str \<Rightarrow> ChangeSet" where
  "compare_snapshots sha db earlier later =
     detect_changes sha
       (map (\<lambda>(f, v). \<lparr>sf_relative_path = fr_relative_path f, sf_absolute_path = [],
          sf_file_name = fr_file_name f, sf_size_bytes = fr_original_size f, sf_modified_at_epoch_ms = 0,
          sf_modified_at = (case fr_modified_at f of Some m \<Rightarrow> m | None \<Rightarrow> []), sf_is_accessible = True\<rparr>)
         (list_files_by_snapshot db later))
       (list_files_by_snapshot db earlier)"

subsection \<open>Change detection\<close>

lemma prev_by_path_None: "prev_by_path recs p = None \<longleftrightarrow> p \<notin> (\<lambda>r. fr_relative_path (fst r)) ` set recs"
  by (force simp: prev_by_path_def map_of_eq_None_iff image_image)

lemma prev_by_path_Some:
  "prev_by_path recs p = Some r \<Longrightarrow> r \<in> set recs \<and> fr_relative_path (fst r) = p"
  by (force simp: prev_by_path_def dest!: map_of_SomeD)

lemma prev_by_path_unique:
  assumes "distinct (map (\<lambda>r. fr_relative_path (fst r)) recs)" "r \<in> set recs"
  shows "prev_by_path recs (fr_relative_path (fst r)) = Some r"
proof -
  have "distinct (map fst (rev (map (\<lambda>r. (fr_relative_path (fst r), r)) recs)))"
    using assms(1) by (simp add: rev_map [symmetric] comp_def)
  then show ?thesis using assms(2) by (auto simp: prev_by_path_def)
qed

lemma classify_path [simp]: "fc_relative_path (classify sha recs s) = sf_relative_path s"
  by (auto simp: classify_def split: option.splits prod.splits)

lemma deletion_sel [simp]:
  "fc_relative_path (deletion r) = fr_relative_path (fst r)" "fc_kind (deletion r) = Deleted"
  by (auto simp: deletion_def split: prod.splits)

lemma classify_kind:
  "fc_kind (classify sha recs s) \<noteq> Deleted"
  "fc_kind (classify sha recs s) = New \<longleftrightarrow> prev_by_path recs (sf_relative_path s) = None"
  "fc_kind (classify sha recs s) = Unchanged \<longleftrightarrow> (\<exists>f v. prev_by_path recs (sf_relative_path s) = Some (f, v)
     \<and> sf_size_bytes s = fr_original_size f \<and> fr_modified_at f = Some (sf_modified_at s))"
  by (auto simp: classify_def split: option.splits prod.splits)

lemma set_changes:
  "set (changes (detect_changes sha scanned recs)) =
     classify sha recs ` set scanned
     \<union> deletion ` {r \<in> set recs. fr_relative_path (fst r) \<notin> sf_relative_path ` set scanned}"
  by (auto simp: detect_changes_def Let_def)

lemma detect_changes_paths:
  "mset (map fc_relative_path (changes (detect_changes sha scanned recs))) =
     mset (map sf_relative_path scanned
       @ map (\<lambda>r. fr_relative_path (fst r)) (filter (\<lambda>r. fr_relative_path (fst r) \<notin> sf_relative_path ` set scanned) recs))"
proof -
  let ?cs = "map (classify sha recs) scanned
     @ map deletion (filter (\<lambda>r. fr_relative_path (fst r) \<notin> sf_relative_path ` set scanned) recs)"
  have "mset (changes (detect_changes sha scanned recs)) = mset ?cs"
    by (simp add: detect_changes_def Let_def)
  then have "mset (map fc_relative_path (changes (detect_changes sha scanned recs))) = mset (map fc_relative_path ?cs)"
    by (simp only: mset_map)
  also have "map fc_relative_path ?cs = map sf_relative_path scanned
      @ map (\<lambda>r. fr_relative_path (fst r)) (filter (\<lambda>r. fr_relative_path (fst r) \<notin> sf_relative_path ` set scanned) recs)"
    by (simp add: comp_def)
  finally show ?thesis .
qed

text \<open>C12. The change set of a scan against the records of a snapshot, each without two entries for a path:
  exactly one change for every path of either side, in increasing order of paths. A change is new when
  the path has no record, deleted when it was not scanned, unchanged when the record has the scanned
  size and modification time, and modified in every other case.\<close>

theorem detect_changes_exact:
  assumes scan: "distinct (map sf_relative_path scanned)"
    and recs: "distinct (map (\<lambda>r. fr_relative_path (fst r)) recs)"
    and cs: "cs = changes (detect_changes sha scanned recs)" and c: "c \<in> set cs"
  shows "sorted_wrt (<) (map fc_relative_path cs)
    \<and> fc_relative_path ` set cs = sf_relative_path ` set scanned \<union> (\<lambda>r. fr_relative_path (fst r)) ` set recs
    \<and> (fc_kind c = New \<longleftrightarrow> fc_relative_path c \<notin> (\<lambda>r. fr_relative_path (fst r)) ` set recs)
    \<and> (fc_kind c = Deleted \<longleftrightarrow> fc_relative_path c \<notin> sf_relative_path ` set scanned)
    \<and> (fc_kind c = Unchanged \<longleftrightarrow> (\<exists>s \<in> set scanned. \<exists>(f, v) \<in> set recs.
         sf_relative_path s = fc_relative_path c \<and> fr_relative_path f = fc_relative_path c
         \<and> sf_size_bytes s = fr_original_size f \<and> fr_modified_at f = Some (sf_modified_at s)))"
proof -
  have srt: "sorted (map fc_relative_path cs)"
    by (simp add: cs detect_changes_def Let_def)
  have "distinct (map sf_relative_path scanned
      @ map (\<lambda>r. fr_relative_path (fst r)) (filter (\<lambda>r. fr_relative_path (fst r) \<notin> sf_relative_path ` set scanned) recs))"
    unfolding distinct_append using scan distinct_map_filter [OF recs] by (auto simp: image_iff)
  then have dist: "distinct (map fc_relative_path cs)"
    using detect_changes_paths [of sha scanned recs] unfolding cs by (metis mset_eq_imp_distinct_iff)
  have paths: "fc_relative_path ` set cs = sf_relative_path ` set scanned \<union> (\<lambda>r. fr_relative_path (fst r)) ` set recs"
    using arg_cong [OF detect_changes_paths [of sha scanned recs], of set_mset] by (auto simp: cs)
  have "(fc_kind c = New \<longleftrightarrow> fc_relative_path c \<notin> (\<lambda>r. fr_relative_path (fst r)) ` set recs)
    \<and> (fc_kind c = Deleted \<longleftrightarrow> fc_relative_path c \<notin> sf_relative_path ` set scanned)
    \<and> (fc_kind c = Unchanged \<longleftrightarrow> (\<exists>s \<in> set scanned. \<exists>(f, v) \<in> set recs.
         sf_relative_path s = fc_relative_path c \<and> fr_relative_path f = fc_relative_path c
         \<and> sf_size_bytes s = fr_original_size f \<and> fr_modified_at f = Some (sf_modified_at s)))"
    using c unfolding cs set_changes
  proof
    assume "c \<in> deletion ` {r \<in> set recs. fr_relative_path (fst r) \<notin> sf_relative_path ` set scanned}"
    then show ?thesis by (auto simp: image_iff)
  next
    assume "c \<in> classify sha recs ` set scanned"
    then obtain s where s: "s \<in> set scanned" "c = classify sha recs s" by blast
    have "fc_kind c = Unchanged \<longleftrightarrow> (\<exists>s' \<in> set scanned. \<exists>(f, v) \<in> set recs.
         sf_relative_path s' = fc_relative_path c \<and> fr_relative_path f = fc_relative_path c
         \<and> sf_size_bytes s' = fr_original_size f \<and> fr_modified_at f = Some (sf_modified_at s'))"
    proof
      assume "fc_kind c = Unchanged"
      then show "\<exists>s' \<in> set scanned. \<exists>(f, v) \<in> set recs.
         sf_relative_path s' = fc_relative_path c \<and> fr_relative_path f = fc_relative_path c
         \<and> sf_size_bytes s' = fr_original_size f \<and> fr_modified_at f = Some (sf_modified_at s')"
        using s prev_by_path_Some by (fastforce simp: classify_kind)
    next
      assume "\<exists>s' \<in> set scanned. \<exists>(f, v) \<in> set recs.
         sf_relative_path s' = fc_relative_path c \<and> fr_relative_path f = fc_relative_path c
         \<and> sf_size_bytes s' = fr_original_size f \<and> fr_modified_at f = Some (sf_modified_at s')"
      then obtain s' f v where o: "s' \<in> set scanned" "(f, v) \<in> set recs" "sf_relative_path s' = sf_relative_path s"
          "fr_relative_path f = sf_relative_path s" "sf_size_bytes s' = fr_original_size f"
          "fr_modified_at f = Some (sf_modified_at s')"
        using s(2) by auto
      have "s' = s" using scan s(1) o(1,3) by (simp add: distinct_map inj_on_def)
      then show "fc_kind c = Unchanged"
        using prev_by_path_unique [OF recs o(2)] o s(2) by (auto simp: classify_kind)
    qed
    then show ?thesis using s by (auto simp: classify_kind prev_by_path_None)
  qed
  moreover have "sorted_wrt (<) (map fc_relative_path cs)"
    using srt dist by (simp add: strict_sorted_iff)
  ultimately show ?thesis using paths by blast
qed

definition sample_scan :: "string \<Rightarrow> u64 \<Rightarrow> ScannedFile" where
  "sample_scan p n = scanned_file p p p n (Some 5) True"

definition sample_record :: "string \<Rightarrow> u64 \<Rightarrow> FileRecord \<times> VersionRecord" where
  "sample_record p n = (sample_file\<lparr>fr_file_id := p, fr_relative_path := p, fr_original_size := n,
       fr_modified_at := Some (sf_modified_at (sample_scan p n))\<rparr>,
     \<lparr>ver_version_id = ''v'', ver_file_id = p, ver_snapshot_id = ''s1'', ver_manifest_id = ''m'',
      ver_status = ''active'', ver_created_at = ''1''\<rparr>)"

theorem detect_changes_exact_witness:
  "map fc_kind (changes (detect_changes (\<lambda>_. []) [sample_scan ''a'' 1, sample_scan ''b'' 2]
       [sample_record ''b'' 2, sample_record ''c'' 3])) = [New, Unchanged, Deleted]"
proof -
  let ?scan = "[sample_scan ''a'' 1, sample_scan ''b'' 2]"
  let ?recs = "[sample_record ''b'' 2, sample_record ''c'' 3]"
  let ?cs = "changes (detect_changes (\<lambda>_. []) ?scan ?recs)"
  have d: "distinct (map sf_relative_path ?scan)" "distinct (map (\<lambda>r. fr_relative_path (fst r)) ?recs)"
    by (simp_all add: sample_scan_def scanned_file_def sample_record_def)
  note ex = detect_changes_exact [OF d refl]
  have paths: "sf_relative_path ` set ?scan = {''a'', ''b''}"
      "(\<lambda>r. fr_relative_path (fst r)) ` set ?recs = {''b'', ''c''}"
    by (simp_all add: sample_scan_def scanned_file_def sample_record_def)
  let ?a = "classify (\<lambda>_. []) ?recs (sample_scan ''a'' 1)"
  let ?b = "classify (\<lambda>_. []) ?recs (sample_scan ''b'' 2)"
  let ?c = "deletion (sample_record ''c'' 3)"
  have cs: "?cs = [?a, ?b, ?c]"
    by (simp add: detect_changes_def sample_scan_def scanned_file_def sample_record_def)
  have "fc_relative_path ?a = ''a''" "fc_relative_path ?c = ''c''"
    by (simp_all add: sample_scan_def scanned_file_def sample_record_def)
  moreover have "?a \<in> set ?cs" "?c \<in> set ?cs" unfolding cs by simp_all
  ultimately have "fc_kind ?a = New" "fc_kind ?c = Deleted"
    using ex [of ?a] ex [of ?c] unfolding paths by simp_all
  moreover have "fc_kind ?b = Unchanged"
    by (simp add: classify_kind prev_by_path_def sample_scan_def scanned_file_def sample_record_def)
  ultimately show ?thesis unfolding cs by simp
qed

end
