(* ===== verification/Backup_Pipeline.thy ===== *)
theory Backup_Pipeline
  imports Backup_Change Transfer_Engine
begin

text \<open>
  The payload pipeline (\<open>pipeline.rs\<close> of televault-backup): a file is read in pieces of the chunk
  size, every piece is staged, in clear or sealed with the context of its position, and the manifest
  is built from the pieces.

  \<open>rd\<close> is the reader, given the length of the buffer slice it may fill; what it delivers beyond the
  slice is cut. The record \<open>stage_env\<close> says what staging a chunk meets: the staging file or the
  error of creating it, the errors of opening, writing (at an offset) and flushing it, and the random
  nonce. SHA-256, AES-256-GCM and serde_json are the parameters \<open>sha\<close>, \<open>seal\<close> and \<open>payload_json\<close>.
\<close>

type_synonym 'r read_fn = "'r \<Rightarrow> nat \<Rightarrow> 'r \<times> (io_error, bytes) result"

record ProcessingOptions =
  po_encryption_policy :: EncryptionPolicy
  po_compression_algorithm :: CompressionAlgorithm

record stage_env =
  se_create :: "(StorageError, string) result"
  se_open :: "(io_error, unit) result"
  se_write :: "nat \<Rightarrow> io_error option"
  se_flush :: "(io_error, unit) result"
  se_nonce :: Nonce

text \<open>\<open>pch_content\<close> is what the staging file holds.\<close>

record ProcessedChunk =
  pch_chunk_id :: ident_str
  pch_chunk_index :: u32
  pch_total_chunks :: u32
  pch_plaintext_size :: u64
  pch_stored_size :: u64
  pch_plaintext_sha256 :: string
  pch_stored_sha256 :: string
  pch_staging_file :: TempPayloadFile
  pch_content :: bytes

record ProcessedFile =
  pfl_file_id :: ident_str
  pfl_total_size :: u64
  pfl_chunks :: "ProcessedChunk list"
  pfl_logical_file_hash :: string
  pfl_manifest :: ManifestV1

definition BackupError_of_io :: "io_error \<Rightarrow> BackupError" where
  "BackupError_of_io e = BackupError.Io (io_message e)"

text \<open>The read loop of one chunk; \<open>wfail\<close> is the error the staging writer meets at an offset.\<close>

function read_chunk ::
  "'r read_fn \<Rightarrow> (nat \<Rightarrow> io_error option) \<Rightarrow> nat \<Rightarrow> 'r \<Rightarrow> bytes \<Rightarrow> 'r \<times> (io_error, bytes) result" where
  "read_chunk rd wfail expected r acc =
     (if length acc < expected then
        let to_read = min (expected - length acc) STREAM_CHUNK_BUFFER_SIZE in
        case rd r to_read of
          (r', Inl e) \<Rightarrow> (r', Err e)
        | (r', Inr bs) \<Rightarrow>
            let got = take to_read bs in
            if got = [] then (r', Ok acc)
            else (case wfail (length acc) of
                Some e \<Rightarrow> (r', Err e)
              | None \<Rightarrow> read_chunk rd wfail expected r' (acc @ got))
      else (r, Ok acc))"
  by pat_completeness auto

termination read_chunk
  by (relation "measure (\<lambda>(rd, wfail, expected, r, acc). expected - length acc)")
    (auto simp: Let_def STREAM_CHUNK_BUFFER_SIZE_def min_def not_less length_greater_0_conv [symmetric]
        simp del: length_greater_0_conv)

declare read_chunk.simps [simp del]

definition expected_chunk_bytes :: "u64 \<Rightarrow> u32 \<Rightarrow> u32 \<Rightarrow> u64" where
  "expected_chunk_bytes total_size n idx =
     (if n = 1 then total_size
      else if idx = n - 1 then total_size - ucast idx * TARGET_CHUNK_SIZE_BYTES
      else TARGET_CHUNK_SIZE_BYTES)"

text \<open>Reading and staging one chunk: the reader, the plaintext and the staged bytes.\<close>

definition stage_chunk ::
  "(bytes \<Rightarrow> string) \<Rightarrow> aead_fn \<Rightarrow> (EncryptedPayload \<Rightarrow> (string, bytes) result) \<Rightarrow> 'r read_fn \<Rightarrow> stage_env
     \<Rightarrow> EncryptionPolicy \<Rightarrow> ident_str \<Rightarrow> u32 \<Rightarrow> u32 \<Rightarrow> nat \<Rightarrow> 'r
     \<Rightarrow> 'r \<times> (BackupError, bytes \<times> bytes) result" where
  "stage_chunk sha seal payload_json rd env policy fid idx n expected r =
     (case policy of
        Disabled \<Rightarrow>
          (case se_open env of
             Inl e \<Rightarrow> (r, Err (BackupError_of_io e))
           | Inr _ \<Rightarrow>
               (case read_chunk rd (se_write env) expected r [] of
                  (r', Inl e) \<Rightarrow> (r', Err (BackupError_of_io e))
                | (r', Inr bs) \<Rightarrow>
                    (r', bind_res (map_err BackupError_of_io (se_flush env)) (\<lambda>_. Ok (bs, bs)))))
      | Enabled key \<Rightarrow>
          (case read_chunk rd (\<lambda>_. None) expected r [] of
             (r', Inl e) \<Rightarrow> (r', Err (BackupError_of_io e))
           | (r', Inr bs) \<Rightarrow>
               (r', bind_res (map_err (\<lambda>e. CryptoError (CryptoError_display e))
                     (encrypt_chunk seal (se_nonce env) key bs (ChunkAad_new fid idx n) None)) (\<lambda>ep.
                   bind_res (map_err CryptoError (payload_json ep)) (\<lambda>stored.
                   bind_res (map_err BackupError_of_io (se_open env)) (\<lambda>_.
                   bind_res (case se_write env 0 of Some e \<Rightarrow> Err (BackupError_of_io e) | None \<Rightarrow> Ok ()) (\<lambda>_.
                   bind_res (map_err BackupError_of_io (se_flush env)) (\<lambda>_. Ok (bs, stored)))))))))"

fun process_chunks ::
  "(bytes \<Rightarrow> string) \<Rightarrow> aead_fn \<Rightarrow> (EncryptedPayload \<Rightarrow> (string, bytes) result) \<Rightarrow> 'r read_fn
     \<Rightarrow> (nat \<Rightarrow> stage_env) \<Rightarrow> EncryptionPolicy \<Rightarrow> ident_str \<Rightarrow> u64 \<Rightarrow> u32 \<Rightarrow> nat list \<Rightarrow> 'r
     \<Rightarrow> (BackupError, (ProcessedChunk \<times> bytes) list) result" where
  "process_chunks sha seal payload_json rd env policy fid total_size n [] r = Ok []"
| "process_chunks sha seal payload_json rd env policy fid total_size n (i # is) r =
     bind_res (map_err (\<lambda>e. ManifestError (AppError_display e))
       (id_new ''ChunkId'' (fid @ ''-chk-'' @ show_nat i))) (\<lambda>cid.
     bind_res (map_err (\<lambda>e. StorageError (StorageError_display e)) (se_create (env i))) (\<lambda>staging.
       let idx = of_nat i;
           (r', res) = stage_chunk sha seal payload_json rd (env i) policy fid idx n
             (unat (expected_chunk_bytes total_size n idx)) r
       in bind_res res (\<lambda>(bs, stored).
          bind_res (process_chunks sha seal payload_json rd env policy fid total_size n is r') (\<lambda>rest.
            Ok ((\<lparr>pch_chunk_id = cid, pch_chunk_index = idx, pch_total_chunks = n,
                  pch_plaintext_size = of_nat (length bs), pch_stored_size = of_nat (length stored),
                  pch_plaintext_sha256 = sha bs, pch_stored_sha256 = sha stored,
                  pch_staging_file = TempPayloadFile_new staging, pch_content = stored\<rparr>, bs) # rest)))))"

definition chunk_manifest_of :: "ProcessedChunk \<Rightarrow> ChunkManifest" where
  "chunk_manifest_of c =
     \<lparr>cmf_chunk_id = pch_chunk_id c, cmf_index = pch_chunk_index c,
      cmf_plaintext_size = pch_plaintext_size c, cmf_stored_size = pch_stored_size c,
      cmf_integrity = IntegrityMetadata_sha256 (pch_stored_sha256 c),
      cmf_storage_reference = StorageReference.Pending\<rparr>"

definition path_file_name :: "platform \<Rightarrow> string \<Rightarrow> string" where
  "path_file_name pf s =
     (case rev (pf_components pf s) of Normal n # _ \<Rightarrow> n | _ \<Rightarrow> s)"

definition build_manifest ::
  "platform \<Rightarrow> ProcessingOptions \<Rightarrow> ident_str \<Rightarrow> string \<Rightarrow> u64 \<Rightarrow> string \<Rightarrow> ProcessedChunk list \<Rightarrow> ManifestV1" where
  "build_manifest pf opts fid rel total_read file_hash cs =
     \<lparr>manifest_version = V1, manifest_id = ''man-'' @ fid @ ''-'' @ take 16 file_hash,
      logical_file = \<lparr>lf_file_id = fid, lf_file_name = path_file_name pf rel, lf_relative_path = rel,
        lf_original_size = total_read, lf_created_at = None, lf_modified_at = None, lf_mime_type = None\<rparr>,
      encryption = (case po_encryption_policy opts of
         Enabled _ \<Rightarrow> Some (EncryptionMetadata_aes256_gcm None) | Disabled \<Rightarrow> None),
      compression = \<lparr>cm_algorithm = po_compression_algorithm opts\<rparr>,
      integrity = IntegrityMetadata_sha256 file_hash,
      chunks = map chunk_manifest_of cs\<rparr>"

definition process_file ::
  "platform \<Rightarrow> (bytes \<Rightarrow> string) \<Rightarrow> aead_fn \<Rightarrow> (EncryptedPayload \<Rightarrow> (string, bytes) result) \<Rightarrow> 'r read_fn
     \<Rightarrow> (nat \<Rightarrow> stage_env) \<Rightarrow> ident_str \<Rightarrow> string \<Rightarrow> 'r \<Rightarrow> u64 \<Rightarrow> ProcessingOptions
     \<Rightarrow> (BackupError, ProcessedFile) result" where
  "process_file pf sha seal payload_json rd env fid rel r total_size opts =
     (let n = calculate_expected_chunk_count total_size in
      bind_res (process_chunks sha seal payload_json rd env (po_encryption_policy opts) fid total_size n
                  [0..<unat n] r) (\<lambda>cs.
        let data = concat (map snd cs); total_read = of_nat (length data); file_hash = sha data
        in Ok \<lparr>pfl_file_id = fid, pfl_total_size = total_read, pfl_chunks = map fst cs,
               pfl_logical_file_hash = file_hash,
               pfl_manifest = build_manifest pf opts fid rel total_read file_hash (map fst cs)\<rparr>))"

subsection \<open>Reading\<close>

lemma read_chunk_full: "\<not> length acc < expected \<Longrightarrow> read_chunk rd wfail expected r acc = (r, Inr acc)"
  by (subst read_chunk.simps) simp

lemma read_chunk_step:
  assumes "length acc < expected" "n = min (expected - length acc) STREAM_CHUNK_BUFFER_SIZE"
  shows "rd r n = (r', Inl e) \<Longrightarrow> read_chunk rd wfail expected r acc = (r', Inl e)"
    and "\<lbrakk>rd r n = (r', Inr bs); take n bs = []\<rbrakk> \<Longrightarrow> read_chunk rd wfail expected r acc = (r', Inr acc)"
    and "\<lbrakk>rd r n = (r', Inr bs); take n bs \<noteq> []\<rbrakk> \<Longrightarrow> read_chunk rd wfail expected r acc =
      (case wfail (length acc) of Some e \<Rightarrow> (r', Inl e)
       | None \<Rightarrow> read_chunk rd wfail expected r' (acc @ take n bs))"
  using assms(1) unfolding assms(2)
  by (subst read_chunk.simps, simp add: Let_def del: take_eq_Nil split: option.splits)+

text \<open>A source of bytes: what is left, and that a read of a non-empty slice delivers a non-empty
  prefix of it, as long as something is left.\<close>

locale byte_source =
  fixes rd :: "'r read_fn" and left :: "'r \<Rightarrow> bytes"
  assumes read_some: "0 < n \<Longrightarrow> \<exists>r' k. rd r n = (r', Inr (take k (left r))) \<and> left r' = drop k (left r)
    \<and> k \<le> n \<and> (0 < k \<or> left r = [])"
begin

lemma read_chunk_exact:
  "\<exists>r'. read_chunk rd (\<lambda>_. None) expected r acc = (r', Inr (acc @ take (expected - length acc) (left r)))
     \<and> left r' = drop (expected - length acc) (left r)"
proof (induction "expected - length acc" arbitrary: r acc rule: less_induct)
  case less
  show ?case
  proof (cases "length acc < expected")
    case False
    then show ?thesis by (simp add: read_chunk_full)
  next
    case True
    let ?n = "min (expected - length acc) STREAM_CHUNK_BUFFER_SIZE"
    have "0 < ?n" using True by (simp add: STREAM_CHUNK_BUFFER_SIZE_def)
    then obtain r' k where rk: "rd r ?n = (r', Inr (take k (left r)))" "left r' = drop k (left r)"
        "k \<le> ?n" "0 < k \<or> left r = []"
      using read_some by blast
    have cut: "take ?n (take k (left r)) = take k (left r)" using rk(3) by simp
    show ?thesis
    proof (cases "take k (left r) = []")
      case True
      then have "left r = []" using rk(4) by auto
      then show ?thesis
        using read_chunk_step(2) [of acc expected ?n rd r] \<open>length acc < expected\<close> rk by simp
    next
      case False
      let ?acc = "acc @ take k (left r)"
      have k: "k \<le> expected - length acc" "0 < length (take k (left r))"
        using rk(3) False by auto
      then have "expected - length ?acc < expected - length acc"
        unfolding length_append using True by arith
      from less [OF this, of r'] obtain r'' where
        IH: "read_chunk rd (\<lambda>_. None) expected r' ?acc
            = (r'', Inr (?acc @ take (expected - length ?acc) (left r')))"
          "left r'' = drop (expected - length ?acc) (left r')" by blast
      have step: "read_chunk rd (\<lambda>_. None) expected r acc = read_chunk rd (\<lambda>_. None) expected r' ?acc"
        using read_chunk_step(3) [where rd = rd and r = r and r' = r' and n = ?n and bs = "take k (left r)"
              and acc = acc and expected = expected and wfail = "\<lambda>_. None", OF True refl rk(1)] False
        unfolding cut by simp
      let ?m = "min k (length (left r))"
      have m: "length ?acc = length acc + ?m" "take k (left r) = take ?m (left r)"
          "drop k (left r) = drop ?m (left r)" "?m \<le> expected - length acc"
        using k(1) by (auto simp: min_def)
      have sum: "?m + (expected - (length acc + ?m)) = expected - length acc"
        using m(4) by arith
      have "take k (left r) @ take (expected - length ?acc) (left r') = take (expected - length acc) (left r)"
        unfolding m(1) unfolding rk(2) m(2) m(3)
        using take_add [of ?m "expected - (length acc + ?m)" "left r"] unfolding sum by (rule sym)
      moreover have "drop (expected - length ?acc) (left r') = drop (expected - length acc) (left r)"
        unfolding rk(2) m(1) m(3) drop_drop using sum by (simp only: add.commute)
      ultimately show ?thesis using IH step by simp
    qed
  qed
qed

end

definition slice_read :: "bytes read_fn" where
  \<comment> \<open>\<open>Read\<close> for a byte slice\<close>
  "slice_read bs n = (drop n bs, Inr (take n bs))"

interpretation slice: byte_source slice_read "\<lambda>bs. bs"
  by unfold_locales (auto simp: slice_read_def)

lemma read_chunk_wfail:
  "read_chunk rd wfl expected r acc = (r', Inr bs) \<Longrightarrow> read_chunk rd (\<lambda>_. None) expected r acc = (r', Inr bs)"
proof (induction "expected - length acc" arbitrary: r acc rule: less_induct)
  case less
  show ?case
  proof (cases "length acc < expected")
    case False
    with less.prems show ?thesis by (simp add: read_chunk_full)
  next
    case True
    let ?n = "min (expected - length acc) STREAM_CHUNK_BUFFER_SIZE"
    obtain s q where sq: "rd r ?n = (s, q)" by fastforce
    note step = read_chunk_step [OF True refl, of rd r s]
    show ?thesis
    proof (cases q)
      case (Inl e)
      with less.prems sq step(1) show ?thesis by simp
    next
      case (Inr b)
      show ?thesis
      proof (cases "take ?n b = []")
        case True
        from sq Inr have "rd r ?n = (s, Inr b)" by simp
        from step(2) [OF this True] less.prems show ?thesis by simp
      next
        case False
        from sq Inr have "rd r ?n = (s, Inr b)" by simp
        note go = step(3) [OF this False]
        from less.prems have rec: "read_chunk rd wfl expected s (acc @ take ?n b) = (r', Inr bs)"
          unfolding go by (simp split: option.splits)
        have "expected - length (acc @ take ?n b) < expected - length acc"
          using True False unfolding length_append length_greater_0_conv [symmetric] by arith
        from less.hyps [OF this rec] show ?thesis unfolding go by simp
      qed
    qed
  qed
qed

text \<open>What a staging file holds for a plaintext: the plaintext, or the JSON of a payload sealed for the
  position of the chunk.\<close>

definition staged_for ::
  "aead_fn \<Rightarrow> (EncryptedPayload \<Rightarrow> (string, bytes) result) \<Rightarrow> EncryptionPolicy \<Rightarrow> ident_str \<Rightarrow> u32 \<Rightarrow> u32
     \<Rightarrow> bytes \<Rightarrow> bytes \<Rightarrow> bool" where
  "staged_for seal payload_json policy fid idx n bs stored =
     (case policy of
        Disabled \<Rightarrow> stored = bs
      | Enabled key \<Rightarrow> (\<exists>nonce ep. encrypt_chunk seal nonce key bs (ChunkAad_new fid idx n) None = Inr ep
          \<and> payload_json ep = Inr stored))"

lemma stage_chunk_Ok:
  assumes "stage_chunk sha seal pj rd env policy fid idx n expected r = (r', Inr (bs, stored))"
  shows "read_chunk rd (\<lambda>_. None) expected r [] = (r', Inr bs) \<and> staged_for seal pj policy fid idx n bs stored"
  using assms
  by (cases policy)
    (auto simp: stage_chunk_def staged_for_def bind_res_Inr_iff dest: read_chunk_wfail
       split: sum.splits prod.splits)

definition chunk_of ::
  "(bytes \<Rightarrow> string) \<Rightarrow> ident_str \<Rightarrow> u32 \<Rightarrow> nat \<Rightarrow> ProcessedChunk \<Rightarrow> bytes \<Rightarrow> bool" where
  "chunk_of sha fid n i c bs \<longleftrightarrow>
     pch_chunk_id c = fid @ ''-chk-'' @ show_nat i \<and> pch_chunk_index c = of_nat i \<and> pch_total_chunks c = n
   \<and> pch_plaintext_size c = of_nat (length bs) \<and> pch_stored_size c = of_nat (length (pch_content c))
   \<and> pch_plaintext_sha256 c = sha bs \<and> pch_stored_sha256 c = sha (pch_content c)"

text \<open>The pieces of a list of given lengths.\<close>

fun pieces :: "nat list \<Rightarrow> 'a list \<Rightarrow> 'a list list" where
  "pieces [] xs = []"
| "pieces (k # ks) xs = take k xs # pieces ks (drop k xs)"

lemma concat_pieces: "concat (pieces ks xs) = take (sum_list ks) xs"
  by (induction ks arbitrary: xs) (simp_all add: take_add)

lemma id_new_Inr: "id_new entity s = Inr i \<Longrightarrow> i = s"
  by (auto simp: id_new_def bind_res_Inr_iff)

lemma process_chunks_Ok:
  assumes "process_chunks sha seal pj slice_read env policy fid total_size n is data = Inr cs"
  shows "map snd cs = pieces (map (\<lambda>i. unat (expected_chunk_bytes total_size n (of_nat i))) is) data
    \<and> list_all2 (\<lambda>i (c, bs). chunk_of sha fid n i c bs
        \<and> staged_for seal pj policy fid (of_nat i) n bs (pch_content c)) is cs"
  using assms
proof (induction "is" arbitrary: data cs)
  case (Cons i "is")
  let ?e = "unat (expected_chunk_bytes total_size n (of_nat i))"
  obtain r' res where run: "stage_chunk sha seal pj slice_read (env i) policy fid (of_nat i) n ?e data = (r', res)"
    by fastforce
  from Cons.prems obtain cid staging bs stored rest where
    cid: "id_new ''ChunkId'' (fid @ ''-chk-'' @ show_nat i) = Inr cid" and res: "res = Inr (bs, stored)"
    and rest: "process_chunks sha seal pj slice_read env policy fid total_size n is r' = Inr rest"
    and cs: "cs = (\<lparr>pch_chunk_id = cid, pch_chunk_index = of_nat i, pch_total_chunks = n,
                  pch_plaintext_size = of_nat (length bs), pch_stored_size = of_nat (length stored),
                  pch_plaintext_sha256 = sha bs, pch_stored_sha256 = sha stored,
                  pch_staging_file = TempPayloadFile_new staging, pch_content = stored\<rparr>, bs) # rest"
    by (auto simp: bind_res_Inr_iff Let_def run simp del: append_Cons)
  note st = run [unfolded res]
  have "bs = take ?e data" "r' = drop ?e data"
    using stage_chunk_Ok [OF st] slice.read_chunk_exact [of ?e data "[]"] by auto
  with Cons.IH [OF rest] stage_chunk_Ok [OF st] show ?case
    unfolding cs using id_new_Inr [OF cid] by (simp add: chunk_of_def)
qed simp


subsection \<open>The chunks make up the file\<close>

lemma expected_chunk_count_bounds:
  assumes "\<not> sz < CHUNK_THRESHOLD_BYTES" "unat sz \<le> (2 ^ 32 - 1) * 1887436800"
  defines "n \<equiv> unat (calculate_expected_chunk_count sz)"
  shows "2 \<le> n" "(n - 1) * 1887436800 < unat sz" "unat sz \<le> n * 1887436800"
proof -
  have big: "2147483648 \<le> unat sz"
    using assms(1) by (simp add: word_less_nat_alt CHUNK_THRESHOLD_BYTES_def)
  define q r where "q = unat sz div 1887436800" and "r = unat sz mod 1887436800"
  have dm: "unat sz = q * 1887436800 + r" "r < 1887436800" by (simp_all add: q_def r_def)
  have "n = (if r = 0 then q else q + 1)"
    using expected_chunk_count_large [OF assms(1,2)] unfolding n_def q_def r_def .
  then show "2 \<le> n" "(n - 1) * 1887436800 < unat sz" "unat sz \<le> n * 1887436800"
    using dm big by (auto split: if_splits)
qed

lemma expected_chunk_bytes_sum:
  assumes "unat sz \<le> (2 ^ 32 - 1) * 1887436800"
  defines "n \<equiv> calculate_expected_chunk_count sz"
  shows "sum_list (map (\<lambda>i. unat (expected_chunk_bytes sz n (of_nat i))) [0..<unat n]) = unat sz"
proof (cases "sz < CHUNK_THRESHOLD_BYTES")
  case True
  then have "n = 1" by (simp add: n_def calculate_expected_chunk_count_def)
  then show ?thesis by (simp add: expected_chunk_bytes_def)
next
  case False
  note b = expected_chunk_count_bounds [OF False assms(1), folded n_def]
  obtain m where m: "unat n = Suc m" "0 < m" using b(1) by (cases "unat n") auto
  have T: "unat TARGET_CHUNK_SIZE_BYTES = 1887436800" by (simp add: TARGET_CHUNK_SIZE_BYTES_def)
  have lt: "m < 2 ^ 32" using m(1) unsigned_less [of n, where ?'a = nat] by simp
  have "n = of_nat (Suc m)" unfolding m(1) [symmetric] by simp
  then have pred: "n - 1 = of_nat m" by simp
  have n1: "n \<noteq> 1" using m by auto
  have inner: "unat (expected_chunk_bytes sz n (of_nat i)) = 1887436800" if "i < m" for i
  proof -
    have "(of_nat i :: u32) \<noteq> of_nat m"
      using that lt by (simp add: word_unat_eq_iff unat_of_nat)
    then show ?thesis using n1 by (simp add: expected_chunk_bytes_def pred T)
  qed
  have "unat (ucast (of_nat m :: u32) :: u64) = m"
    using lt by (simp add: unat_of_nat unsigned_ucast_eq take_bit_nat_eq_self)
  then have prod: "unat ((ucast (of_nat m :: u32) :: u64) * TARGET_CHUNK_SIZE_BYTES) = m * 1887436800"
    using b(2) m assms(1) by (subst unat_mult_lem [THEN iffD1]) (simp_all add: T)
  then have last: "unat (expected_chunk_bytes sz n (of_nat m)) = unat sz - m * 1887436800"
    using n1 b(2) m by (simp add: expected_chunk_bytes_def pred unat_sub word_le_nat_alt)
  have "map (\<lambda>i. unat (expected_chunk_bytes sz n (of_nat i))) [0..<m] = replicate m 1887436800"
    using inner by (auto intro!: nth_equalityI)
  then have "sum_list (map (\<lambda>i. unat (expected_chunk_bytes sz n (of_nat i))) [0..<m]) = m * 1887436800"
    by (simp add: sum_list_replicate)
  then show ?thesis using last b(2) m by simp
qed

lemma process_file_Ok:
  assumes run: "process_file pf sha seal pj slice_read env fid rel data sz opts = Inr f"
    and sz: "unat sz = length data" "length data \<le> (2 ^ 32 - 1) * 1887436800"
  defines "n \<equiv> calculate_expected_chunk_count sz"
  shows "\<exists>cs. concat (map snd cs) = data \<and> length cs = unat n \<and> pfl_chunks f = map fst cs
    \<and> pfl_total_size f = sz \<and> pfl_logical_file_hash f = sha data
    \<and> pfl_manifest f = build_manifest pf opts fid rel sz (sha data) (map fst cs)
    \<and> (\<forall>i < length cs. chunk_of sha fid n i (fst (cs ! i)) (snd (cs ! i))
         \<and> staged_for seal pj (po_encryption_policy opts) fid (of_nat i) n (snd (cs ! i)) (pch_content (fst (cs ! i))))"
proof -
  from run obtain cs where
    pc: "process_chunks sha seal pj slice_read env (po_encryption_policy opts) fid sz n [0..<unat n] data = Inr cs"
    and f: "f = (let data = concat (map snd cs); total_read = of_nat (length data); file_hash = sha data
        in \<lparr>pfl_file_id = fid, pfl_total_size = total_read, pfl_chunks = map fst cs,
               pfl_logical_file_hash = file_hash,
               pfl_manifest = build_manifest pf opts fid rel total_read file_hash (map fst cs)\<rparr>)"
    by (auto simp: process_file_def n_def [symmetric] bind_res_Inr_iff Let_def)
  note ok = process_chunks_Ok [OF pc]
  have data: "concat (map snd cs) = data"
    using ok expected_chunk_bytes_sum [of sz, folded n_def] sz by (simp add: concat_pieces)
  have len: "of_nat (length data) = sz" unfolding sz(1) [symmetric] by simp
  have all: "list_all2 (\<lambda>i (c, bs). chunk_of sha fid n i c bs
        \<and> staged_for seal pj (po_encryption_policy opts) fid (of_nat i) n bs (pch_content c)) [0..<unat n] cs"
    using ok by blast
  then have "length cs = unat n" by (auto dest: list_all2_lengthD)
  then show ?thesis
    using all by (intro exI [of _ cs])
      (auto simp: f data len list_all2_conv_all_nth Let_def split_beta)
qed

end
