(* ===== verification/Restore_Pipeline.thy ===== *)
theory Restore_Pipeline
  imports Backup_Pipeline
begin

text \<open>
  Restoring a file (\<open>restore/collision.rs\<close>, \<open>restore/pipeline.rs\<close>, \<open>restore/types.rs\<close> of
  televault-backup and the restore half of its \<open>error.rs\<close>): the checks on the manifest, the choice of
  the destination, the download, authentication and decryption of every chunk, the check of the whole
  file and its move to the destination.

  The destination file system is a record of file contents and directories; symbolic links and
  changes by other processes are left out. What every file operation meets is given by the records
  \<open>chunk_env\<close> and \<open>restore_env\<close>: \<open>None\<close> for success, or the error. A write that fails leaves none of its
  bytes, where the system may leave some: the content is hashed afterwards in either case. As in the other theories the result of
  a download is None when the provider never returns.
\<close>

subsection \<open>error.rs\<close>

datatype RestoreError =
    Manifest ManifestError
  | Database DbError
  | Storage StorageError
  | Transfer TransferError
  | Crypto CryptoError
  | IncompleteBackup string
  | MissingChunk string u32
  | PendingChunk string u32
  | RemoteObjectUnavailable StorageReference
  | DecryptionFailed string string
  | DecompressionFailed string string
  | IntegrityMismatch string string string
  | SizeMismatch string u64 u64
  | ChunkIntegrityMismatch string string string
  | EncryptionMismatch string
  | DestinationConflict string
  | UnsafePath string string
  | FileNotFound string
  | VersionNotFound string
  | SnapshotNotFound string
  | Io string
  | Cancelled

text \<open>\<open>dbg\<close> is the derived \<open>Debug\<close> rendering of a storage reference.\<close>

fun RestoreError_display :: "(StorageReference \<Rightarrow> string) \<Rightarrow> RestoreError \<Rightarrow> string" where
  "RestoreError_display dbg (RestoreError.Manifest e) = ''Manifest error: '' @ ManifestError_display e"
| "RestoreError_display dbg (RestoreError.Database e) = ''Database error: '' @ DbError_display e"
| "RestoreError_display dbg (RestoreError.Storage e) = ''Storage error: '' @ StorageError_display e"
| "RestoreError_display dbg (RestoreError.Transfer e) = ''Transfer error: '' @ TransferError_display e"
| "RestoreError_display dbg (RestoreError.Crypto e) = ''Cryptographic error: '' @ CryptoError_display e"
| "RestoreError_display dbg (IncompleteBackup reason) = ''Incomplete backup: '' @ reason"
| "RestoreError_display dbg (MissingChunk c i) =
     ''Missing chunk in manifest: chunk_id='' @ c @ '', index='' @ show_nat (unat i)"
| "RestoreError_display dbg (PendingChunk c i) =
     ''Pending chunk reference in manifest: chunk_id='' @ c @ '', index='' @ show_nat (unat i)"
| "RestoreError_display dbg (RemoteObjectUnavailable r) = ''Remote object unavailable: '' @ dbg r"
| "RestoreError_display dbg (DecryptionFailed c reason) =
     ''Decryption failed for chunk '' @ c @ '': '' @ reason"
| "RestoreError_display dbg (DecompressionFailed c reason) =
     ''Decompression failed for chunk '' @ c @ '': '' @ reason"
| "RestoreError_display dbg (RestoreError.IntegrityMismatch f expected actual) =
     ''Integrity mismatch for file '' @ quoted f @ '': expected '' @ expected @ '', actual '' @ actual"
| "RestoreError_display dbg (RestoreError.SizeMismatch f expected actual) =
     ''Size mismatch for file '' @ quoted f @ '': expected '' @ show_nat (unat expected)
       @ '' bytes, actual '' @ show_nat (unat actual) @ '' bytes''"
| "RestoreError_display dbg (ChunkIntegrityMismatch c expected actual) =
     ''Chunk integrity mismatch for chunk '' @ quoted c @ '': expected '' @ expected
       @ '', actual '' @ actual"
| "RestoreError_display dbg (EncryptionMismatch reason) = ''Encryption policy mismatch: '' @ reason"
| "RestoreError_display dbg (DestinationConflict p) =
     ''Destination conflict for '' @ quoted p @ '': file already exists''"
| "RestoreError_display dbg (UnsafePath p reason) =
     ''Unsafe destination path '' @ quoted p @ '': '' @ reason"
| "RestoreError_display dbg (FileNotFound i) = ''File '' @ quoted i @ '' not found in catalog''"
| "RestoreError_display dbg (VersionNotFound i) = ''Version '' @ quoted i @ '' not found in catalog''"
| "RestoreError_display dbg (RestoreError.SnapshotNotFound i) =
     ''Snapshot '' @ quoted i @ '' not found in catalog''"
| "RestoreError_display dbg (RestoreError.Io m) = ''I/O error: '' @ m"
| "RestoreError_display dbg RestoreError.Cancelled = ''Restore operation was cancelled''"

definition RestoreError_of_io :: "io_error \<Rightarrow> RestoreError" where
  "RestoreError_of_io e = RestoreError.Io (io_message e)"

definition BackupError_of_RestoreError ::
  "(StorageReference \<Rightarrow> string) \<Rightarrow> RestoreError \<Rightarrow> BackupError" where
  "BackupError_of_RestoreError dbg e =
     (if e = RestoreError.Cancelled then BackupError.Cancelled
      else BackupError.StorageError (RestoreError_display dbg e))"

fun RestoreError_to_AppError :: "(StorageReference \<Rightarrow> string) \<Rightarrow> RestoreError \<Rightarrow> AppError" where
  "RestoreError_to_AppError dbg (FileNotFound m) = AppError.NotFound ''File'' m"
| "RestoreError_to_AppError dbg (VersionNotFound m) = AppError.NotFound ''Version'' m"
| "RestoreError_to_AppError dbg (RestoreError.SnapshotNotFound m) = AppError.NotFound ''Snapshot'' m"
| "RestoreError_to_AppError dbg (UnsafePath _ reason) = AppError.Path reason"
| "RestoreError_to_AppError dbg RestoreError.Cancelled =
     AppError.Internal ''Restore operation was cancelled''"
| "RestoreError_to_AppError dbg e = AppError.Internal (RestoreError_display dbg e)"

subsection \<open>The local file system\<close>

record local_fs =
  fs_files :: "path \<rightharpoonup> bytes"
  fs_dirs :: "path set"

definition fs_exists :: "local_fs \<Rightarrow> path \<Rightarrow> bool" where
  "fs_exists fs p \<longleftrightarrow> fs_files fs p \<noteq> None \<or> p \<in> fs_dirs fs"

definition path_parent :: "path \<Rightarrow> path option" where
  "path_parent p =
     (case rev p of Normal _ # _ \<Rightarrow> Some (butlast p) | CurDir # _ \<Rightarrow> Some (butlast p)
      | ParentDir # _ \<Rightarrow> Some (butlast p) | _ \<Rightarrow> None)"

definition file_name_of :: "path \<Rightarrow> string option" where
  "file_name_of p = (case rev p of Normal n # _ \<Rightarrow> Some n | _ \<Rightarrow> None)"

definition rsplit_at_dot :: "string \<Rightarrow> string \<times> string option" where
  \<comment> \<open>a leading dot does not start an extension\<close>
  "rsplit_at_dot n =
     (if CHR ''.'' \<in> set n then
        let ext = rev (takeWhile (\<lambda>c. c \<noteq> CHR ''.'') (rev n)); stem = take (length n - Suc (length ext)) n
        in if stem = [] then (n, None) else (stem, Some ext)
      else (n, None))"

subsection \<open>collision.rs\<close>

datatype CollisionPolicy = Overwrite | Skip | KeepBoth

datatype CollisionResolution = Apply path | SkipRestore

definition alternate_name :: "string \<Rightarrow> string option \<Rightarrow> string \<Rightarrow> string" where
  "alternate_name stem ext tag =
     (case ext of Some e \<Rightarrow> stem @ '' ('' @ tag @ '').'' @ e | None \<Rightarrow> stem @ '' ('' @ tag @ '')'')"

function alternate_loop :: "local_fs \<Rightarrow> (string \<Rightarrow> path) \<Rightarrow> nat \<Rightarrow> path option" where
  "alternate_loop fs candidate i =
     (if i \<le> 10000 then
        (if \<not> fs_exists fs (candidate (show_nat i)) then Some (candidate (show_nat i))
         else alternate_loop fs candidate (Suc i))
      else None)"
  by pat_completeness auto

termination alternate_loop
  by (relation "measure (\<lambda>(fs, candidate, i). 10001 - i)") auto

declare alternate_loop.simps [simp del]

text \<open>\<open>ts\<close> is the time in nanoseconds the fallback name uses.\<close>

definition alternate_candidate :: "platform \<Rightarrow> path \<Rightarrow> string \<Rightarrow> path" where
  "alternate_candidate pf target tag =
     (let parent = (case path_parent target of Some p \<Rightarrow> p | None \<Rightarrow> [CurDir]);
          (stem, ext) = (case file_name_of target of Some n \<Rightarrow> rsplit_at_dot n | None \<Rightarrow> (''restored'', None))
      in path_join pf parent (pf_components pf (alternate_name stem ext tag)))"

definition generate_alternate_path :: "platform \<Rightarrow> nat \<Rightarrow> local_fs \<Rightarrow> path \<Rightarrow> path" where
  "generate_alternate_path pf ts fs target =
     (case alternate_loop fs (alternate_candidate pf target) 1 of
        Some p \<Rightarrow> p
      | None \<Rightarrow> alternate_candidate pf target (''collision_'' @ show_nat ts))"

definition resolve_collision ::
  "platform \<Rightarrow> nat \<Rightarrow> local_fs \<Rightarrow> path \<Rightarrow> CollisionPolicy \<Rightarrow> CollisionResolution" where
  "resolve_collision pf ts fs target policy =
     (if \<not> fs_exists fs target then Apply target
      else case policy of
        Overwrite \<Rightarrow> Apply target
      | CollisionPolicy.Skip \<Rightarrow> SkipRestore
      | KeepBoth \<Rightarrow> Apply (generate_alternate_path pf ts fs target))"


subsection \<open>types.rs\<close>

datatype FileRestoreOutcome =
    Restored | Skipped | Overwritten | KeptBoth | OutcomeCancelled | OutcomeFailed

record RestoreResult =
  rr_file_id :: ident_str
  rr_relative_path :: string
  rr_target_path :: path
  rr_outcome :: FileRestoreOutcome
  rr_bytes_restored :: u64
  rr_verified_sha256 :: "string option"
  rr_elapsed_ms :: u64
  rr_error :: "string option"

subsection \<open>pipeline.rs\<close>

definition RESTORE_STREAM_BUFFER_SIZE :: nat where
  "RESTORE_STREAM_BUFFER_SIZE = 64 * 1024"

record chunk_env =
  ce_cancelled :: bool
  ce_create :: "(StorageError, string) result"
  ce_open :: "io_error option"
  ce_write :: "nat \<Rightarrow> io_error option"
  ce_obs :: cancel_obs
  ce_flush :: "io_error option"
  ce_hash :: "io_error option"
  ce_payload_open :: "io_error option"
  ce_read :: "nat \<Rightarrow> io_error option"
  ce_staging_write :: "nat \<Rightarrow> (nat \<times> io_error) option"
  ce_remove_ok :: bool
  ce_remove_text :: string

record restore_env =
  rv_create :: "(StorageError, string) result"
  rv_open :: "io_error option"
  rv_chunk :: "nat \<Rightarrow> chunk_env"
  rv_flush :: "io_error option"
  rv_cancelled :: bool
  rv_mkdir :: "io_error option"
  rv_rename :: bool
  rv_src_open :: "io_error option"
  rv_dst_create :: "io_error option"
  rv_copy_read :: "nat \<Rightarrow> io_error option"
  rv_copy_write :: "nat \<Rightarrow> (nat \<times> io_error) option"
  rv_dst_flush :: "io_error option"
  rv_remove_ok :: bool
  rv_remove_text :: string
  rv_nanos :: nat
  rv_elapsed_ms :: u64

definition io_ok :: "io_error option \<Rightarrow> (RestoreError, unit) result" where
  "io_ok x = (case x of Some e \<Rightarrow> Err (RestoreError_of_io e) | None \<Rightarrow> Ok ())"

text \<open>\<open>Write\<close> for a file; the write at an offset may fail.\<close>

definition file_write :: "(nat \<Rightarrow> io_error option) \<Rightarrow> bytes write_fn" where
  "file_write wfail w buf =
     (case wfail (length w) of Some e \<Rightarrow> (w, Inl e) | None \<Rightarrow> (w @ buf, Inr (length buf)))"

text \<open>The loop that copies a file in blocks: a read may fail at an offset of the source, a write at an
  offset of the destination, after some bytes of the block.\<close>

fun copy_blocks ::
  "(nat \<Rightarrow> io_error option) \<Rightarrow> (nat \<Rightarrow> (nat \<times> io_error) option) \<Rightarrow> bytes \<Rightarrow> nat \<Rightarrow> bytes list
     \<Rightarrow> bytes \<times> (io_error, unit) result" where
  "copy_blocks rf wfl w off [] = (w, case rf off of Some e \<Rightarrow> Err e | None \<Rightarrow> Ok ())"
| "copy_blocks rf wfl w off (b # bs) =
     (case rf off of
        Some e \<Rightarrow> (w, Err e)
      | None \<Rightarrow>
          (case wfl (length w) of
             Some (k, e) \<Rightarrow> (w @ take k b, Err e)
           | None \<Rightarrow> copy_blocks rf wfl (w @ b) (off + length b) bs))"

fun check_references :: "nat \<Rightarrow> ChunkManifest list \<Rightarrow> (RestoreError, unit) result" where
  "check_references pos [] = Ok ()"
| "check_references pos (c # cs) =
     (if cmf_storage_reference c = StorageReference.Pending
      then Err (PendingChunk (cmf_chunk_id c) (cmf_index c))
      else if cmf_index c \<noteq> of_nat pos then Err (MissingChunk (cmf_chunk_id c) (of_nat pos))
      else check_references (Suc pos) cs)"

definition validate_manifest_for_restore :: "platform \<Rightarrow> ManifestV1 \<Rightarrow> (RestoreError, unit) result" where
  "validate_manifest_for_restore pf m =
     bind_res (map_err RestoreError.Manifest (ManifestV1_validate pf m)) (\<lambda>_.
       if manifest_version m \<noteq> V1 then
         Err (IncompleteBackup (''Unsupported manifest version: '' @ ManifestVersion_display (manifest_version m)))
       else
       let rel = lf_relative_path (logical_file m); original = lf_original_size (logical_file m);
           expected = unat (calculate_expected_chunk_count original)
       in bind_res (map_err (\<lambda>e. UnsafePath rel (AppError_display e))
            (validate_safe_relative_path pf (pf_components pf rel))) (\<lambda>_.
          if CHUNK_THRESHOLD_BYTES \<le> original \<and> length (chunks m) \<noteq> expected then
            Err (IncompleteBackup (''Chunk count mismatch: manifest has '' @ show_nat (length (chunks m))
              @ '' chunks, but original size '' @ show_nat (unat original) @ '' requires ''
              @ show_nat expected @ '' chunks''))
          else check_references 0 (chunks m)))"

text \<open>Downloading one chunk to its temporary file and checking its size and hash.\<close>

definition fetch_chunk ::
  "(bytes \<Rightarrow> string) \<Rightarrow> RetryPolicy \<Rightarrow> ('s, bytes cancelling) get_fn \<Rightarrow> bool \<Rightarrow> ident_str \<Rightarrow> u32 \<Rightarrow> chunk_env
     \<Rightarrow> ChunkManifest \<Rightarrow> 's engine \<Rightarrow> ('s engine \<times> (RestoreError, bytes) result) option" where
  "fetch_chunk sha pol get cb fid n env c en =
     (case id_new ''JobId'' (''restore-dl-'' @ cmf_chunk_id c) of
        Inl e \<Rightarrow> Some (en, Err (RestoreError.Transfer (InvalidJob (AppError_display e))))
      | Inr jid \<Rightarrow>
          (case new_download ((DownloadJobParams_new jid fid (cmf_chunk_id c) (cmf_storage_reference c)
                  (cmf_stored_size c))
                \<lparr>dp_chunk_index := cmf_index c, dp_total_chunks := n,
                 dp_expected_sha256 := Some (im_digest (cmf_integrity c))\<rparr>) of
             Inl e \<Rightarrow> Some (en, Err (RestoreError.Transfer e))
           | Inr job \<Rightarrow>
               (case ce_open env of
                  Some e \<Rightarrow> Some (en, Err (RestoreError_of_io e))
                | None \<Rightarrow>
                    (case download_stream pol get cb (ce_obs env) (file_write (ce_write env)) [] en job of
                       None \<Rightarrow> None
                     | Some (stored, en', _, Inl e) \<Rightarrow> Some (en', Err (RestoreError.Transfer e))
                     | Some (stored, en', _, Inr downloaded) \<Rightarrow>
                         Some (en',
                           bind_res (io_ok (ce_flush env)) (\<lambda>_.
                             if downloaded \<noteq> cmf_stored_size c then
                               Err (RestoreError.SizeMismatch fid (cmf_stored_size c) downloaded)
                             else bind_res (io_ok (ce_hash env)) (\<lambda>_.
                               if \<not> eq_ignore_ascii_case (sha stored) (im_digest (cmf_integrity c)) then
                                 Err (ChunkIntegrityMismatch (cmf_chunk_id c) (im_digest (cmf_integrity c))
                                        (sha stored))
                               else Ok stored)))))))"

text \<open>Appending the plaintext of a chunk to the staging file, whose content is \<open>acc\<close>.\<close>

definition decode_chunk ::
  "aead_fn \<Rightarrow> (bytes \<Rightarrow> (string, EncryptedPayload) result) \<Rightarrow> EncryptionPolicy \<Rightarrow> ident_str \<Rightarrow> u32
     \<Rightarrow> chunk_env \<Rightarrow> ChunkManifest \<Rightarrow> bytes \<Rightarrow> bytes \<Rightarrow> (RestoreError, bytes) result" where
  "decode_chunk open_sealed parse policy fid n env c stored acc =
     bind_res (io_ok (ce_payload_open env)) (\<lambda>_.
       case policy of
         Enabled key \<Rightarrow>
           bind_res (map_err (\<lambda>e. DecryptionFailed (cmf_chunk_id c)
               (''Failed to parse encrypted chunk payload JSON: '' @ e)) (parse stored)) (\<lambda>payload.
           bind_res (map_err (\<lambda>e. DecryptionFailed (cmf_chunk_id c) (CryptoError_display e))
               (decrypt_chunk open_sealed key payload (ChunkAad_new fid (cmf_index c) n))) (\<lambda>bs.
             if of_nat (length bs) \<noteq> cmf_plaintext_size c then
               Err (RestoreError.SizeMismatch fid (cmf_plaintext_size c) (of_nat (length bs)))
             else case ce_staging_write env (length acc) of
               Some (_, e) \<Rightarrow> Err (RestoreError_of_io e)
             | None \<Rightarrow> Ok (acc @ bs)))
       | Disabled \<Rightarrow>
           (case copy_blocks (ce_read env) (ce_staging_write env) acc 0
                   (chunks_of RESTORE_STREAM_BUFFER_SIZE stored) of
              (_, Inl e) \<Rightarrow> Err (RestoreError_of_io e)
            | (acc', Inr _) \<Rightarrow>
                if of_nat (length stored) \<noteq> cmf_plaintext_size c then
                  Err (RestoreError.SizeMismatch fid (cmf_plaintext_size c) (of_nat (length stored)))
                else Ok acc'))"

text \<open>\<open>tmp\<close> are the staging files on disk.\<close>

definition restore_chunk ::
  "(bytes \<Rightarrow> string) \<Rightarrow> aead_fn \<Rightarrow> (bytes \<Rightarrow> (string, EncryptedPayload) result) \<Rightarrow> RetryPolicy
     \<Rightarrow> ('s, bytes cancelling) get_fn \<Rightarrow> bool \<Rightarrow> EncryptionPolicy \<Rightarrow> ident_str \<Rightarrow> u32 \<Rightarrow> chunk_env
     \<Rightarrow> ChunkManifest \<Rightarrow> bytes \<Rightarrow> string set \<Rightarrow> 's engine
     \<Rightarrow> ('s engine \<times> string set \<times> (RestoreError, bytes) result) option" where
  "restore_chunk sha open_sealed parse pol get cb policy fid n env c acc tmp en =
     (case ce_create env of
        Inl e \<Rightarrow> Some (en, tmp, Err (RestoreError.Storage e))
      | Inr p \<Rightarrow>
          let f = TempPayloadFile_new p; tmp1 = insert p tmp in
          (case fetch_chunk sha pol get cb fid n env c en of
             None \<Rightarrow> None
           | Some (en', fetched) \<Rightarrow>
               (case bind_res fetched (\<lambda>stored. decode_chunk open_sealed parse policy fid n env c stored acc) of
                  Inl e \<Rightarrow> Some (en', TempPayloadFile_drop (ce_remove_ok env) f tmp1, Err e)
                | Inr acc' \<Rightarrow>
                    (case TempPayloadFile_cleanup (ce_remove_ok env) (ce_remove_text env) f tmp1 of
                       (tmp2, Inl e) \<Rightarrow> Some (en', tmp2, Err (RestoreError.Storage e))
                     | (tmp2, Inr _) \<Rightarrow> Some (en', tmp2, Ok acc')))))"

fun restore_chunks ::
  "(bytes \<Rightarrow> string) \<Rightarrow> aead_fn \<Rightarrow> (bytes \<Rightarrow> (string, EncryptedPayload) result) \<Rightarrow> RetryPolicy
     \<Rightarrow> ('s, bytes cancelling) get_fn \<Rightarrow> bool \<Rightarrow> EncryptionPolicy \<Rightarrow> ident_str \<Rightarrow> u32 \<Rightarrow> (nat \<Rightarrow> chunk_env)
     \<Rightarrow> nat \<Rightarrow> ChunkManifest list \<Rightarrow> bytes \<Rightarrow> string set \<Rightarrow> 's engine
     \<Rightarrow> ('s engine \<times> string set \<times> (RestoreError, bytes) result) option" where
  "restore_chunks sha open_sealed parse pol get cb policy fid n env i [] acc tmp en = Some (en, tmp, Ok acc)"
| "restore_chunks sha open_sealed parse pol get cb policy fid n env i (c # cs) acc tmp en =
     (if ce_cancelled (env i) then Some (en, tmp, Err RestoreError.Cancelled)
      else case restore_chunk sha open_sealed parse pol get cb policy fid n (env i) c acc tmp en of
        None \<Rightarrow> None
      | Some (en', tmp', Inl e) \<Rightarrow> Some (en', tmp', Err e)
      | Some (en', tmp', Inr acc') \<Rightarrow>
          restore_chunks sha open_sealed parse pol get cb policy fid n env (Suc i) cs acc' tmp' en')"

text \<open>The checks on the whole file before it is moved: its hash, or the error.\<close>

definition check_restored ::
  "(bytes \<Rightarrow> string) \<Rightarrow> restore_env \<Rightarrow> ManifestV1 \<Rightarrow> bytes \<Rightarrow> (RestoreError, string) result" where
  "check_restored sha env m data =
     bind_res (io_ok (rv_flush env)) (\<lambda>_.
       let fid = lf_file_id (logical_file m); original = lf_original_size (logical_file m);
           calculated = sha data; expected = im_digest (integrity m)
       in if of_nat (length data) \<noteq> original then
            Err (RestoreError.SizeMismatch fid original (of_nat (length data)))
          else if expected \<noteq> [] \<and> \<not> eq_ignore_ascii_case calculated expected then
            Err (RestoreError.IntegrityMismatch fid expected calculated)
          else if rv_cancelled env then Err RestoreError.Cancelled
          else Ok calculated)"

definition write_file :: "path \<Rightarrow> bytes \<Rightarrow> local_fs \<Rightarrow> local_fs" where
  "write_file p bs fs = fs\<lparr>fs_files := (fs_files fs)(p \<mapsto> bs)\<rparr>"

definition create_dir_all :: "path \<Rightarrow> local_fs \<Rightarrow> local_fs" where
  "create_dir_all p fs = fs\<lparr>fs_dirs := fs_dirs fs \<union> set (map (\<lambda>k. take k p) [1..<Suc (length p)])\<rparr>"

text \<open>Moving the verified staging file \<open>f\<close> with content \<open>data\<close> to its destination; when the rename
  fails, it is copied.\<close>

definition finalize_file ::
  "restore_env \<Rightarrow> path \<Rightarrow> bytes \<Rightarrow> TempPayloadFile \<Rightarrow> local_fs \<Rightarrow> string set
     \<Rightarrow> local_fs \<times> string set \<times> (RestoreError, unit) result" where
  "finalize_file env final data f fs tmp =
     (let dropped = TempPayloadFile_drop (rv_remove_ok env) f tmp in
      case (case path_parent final of
              Some parent \<Rightarrow> bind_res (io_ok (rv_mkdir env)) (\<lambda>_. Ok (create_dir_all parent fs))
            | None \<Rightarrow> Ok fs) of
        Inl e \<Rightarrow> (fs, dropped, Err e)
      | Inr fs1 \<Rightarrow>
          if rv_rename env then (write_file final data fs1, tmp - {tf_path f}, Ok ())
          else case rv_src_open env of
            Some e \<Rightarrow> (fs1, dropped, Err (RestoreError_of_io e))
          | None \<Rightarrow>
              (case rv_dst_create env of
                 Some e \<Rightarrow> (fs1, dropped, Err (RestoreError_of_io e))
               | None \<Rightarrow>
                   (case copy_blocks (rv_copy_read env) (rv_copy_write env) [] 0
                           (chunks_of RESTORE_STREAM_BUFFER_SIZE data) of
                      (w, Inl e) \<Rightarrow> (write_file final w fs1, dropped, Err (RestoreError_of_io e))
                    | (w, Inr _) \<Rightarrow>
                        (case rv_dst_flush env of
                           Some e \<Rightarrow> (write_file final w fs1, dropped, Err (RestoreError_of_io e))
                         | None \<Rightarrow> (write_file final w fs1,
                             fst (TempPayloadFile_cleanup (rv_remove_ok env) (rv_remove_text env) f tmp),
                             Ok ())))))"

record 's restore_out =
  ro_engine :: "'s engine"
  ro_fs :: local_fs
  ro_tmp :: "string set"
  ro_result :: "(RestoreError, RestoreResult) result"

definition restore_outcome :: "bool \<Rightarrow> CollisionPolicy \<Rightarrow> FileRestoreOutcome" where
  "restore_outcome existed collision =
     (if \<not> existed then Restored else if collision = Overwrite then Overwritten else KeptBoth)"

definition restored ::
  "'s engine \<Rightarrow> local_fs \<Rightarrow> string set \<Rightarrow> (RestoreError, RestoreResult) result \<Rightarrow> 's restore_out option" where
  "restored en fs tmp r = Some \<lparr>ro_engine = en, ro_fs = fs, ro_tmp = tmp, ro_result = r\<rparr>"

text \<open>From the creation of the staging file to the result, for the chosen destination \<open>final\<close>.\<close>

definition restore_to ::
  "(bytes \<Rightarrow> string) \<Rightarrow> aead_fn \<Rightarrow> (bytes \<Rightarrow> (string, EncryptedPayload) result) \<Rightarrow> RetryPolicy
     \<Rightarrow> ('s, bytes cancelling) get_fn \<Rightarrow> bool \<Rightarrow> restore_env \<Rightarrow> ManifestV1 \<Rightarrow> path \<Rightarrow> FileRestoreOutcome
     \<Rightarrow> EncryptionPolicy \<Rightarrow> local_fs \<Rightarrow> string set \<Rightarrow> 's engine \<Rightarrow> 's restore_out option" where
  "restore_to sha open_sealed parse pol get cb env m final outcome policy fs tmp en =
     (case rv_create env of
        Inl e \<Rightarrow> restored en fs tmp (Err (RestoreError.Storage e))
      | Inr p \<Rightarrow>
          let f = TempPayloadFile_new p; tmp1 = insert p tmp;
              fail = (\<lambda>en tmp e. restored en fs (TempPayloadFile_drop (rv_remove_ok env) f tmp) (Err e))
          in case rv_open env of
            Some e \<Rightarrow> fail en tmp1 (RestoreError_of_io e)
          | None \<Rightarrow>
              (case restore_chunks sha open_sealed parse pol get cb policy (lf_file_id (logical_file m))
                      (of_nat (length (chunks m))) (rv_chunk env) 0 (sort_key cmf_index (chunks m))
                      [] tmp1 en of
                 None \<Rightarrow> None
               | Some (en', tmp2, Inl e) \<Rightarrow> fail en' tmp2 e
               | Some (en', tmp2, Inr data) \<Rightarrow>
                   (case check_restored sha env m data of
                      Inl e \<Rightarrow> fail en' tmp2 e
                    | Inr calculated \<Rightarrow>
                        (case finalize_file env final data f fs tmp2 of
                           (fs', tmp3, Inl e) \<Rightarrow> restored en' fs' tmp3 (Err e)
                         | (fs', tmp3, Inr _) \<Rightarrow>
                             restored en' fs' tmp3 (Ok \<lparr>rr_file_id = lf_file_id (logical_file m),
                               rr_relative_path = lf_relative_path (logical_file m),
                               rr_target_path = final, rr_outcome = outcome,
                               rr_bytes_restored = of_nat (length data),
                               rr_verified_sha256 = Some calculated,
                               rr_elapsed_ms = rv_elapsed_ms env, rr_error = None\<rparr>)))))"

definition restore_file ::
  "platform \<Rightarrow> (bytes \<Rightarrow> string) \<Rightarrow> aead_fn \<Rightarrow> (bytes \<Rightarrow> (string, EncryptedPayload) result) \<Rightarrow> RetryPolicy
     \<Rightarrow> ('s, bytes cancelling) get_fn \<Rightarrow> bool \<Rightarrow> restore_env \<Rightarrow> ManifestV1 \<Rightarrow> path \<Rightarrow> CollisionPolicy
     \<Rightarrow> EncryptionPolicy \<Rightarrow> local_fs \<Rightarrow> string set \<Rightarrow> 's engine \<Rightarrow> 's restore_out option" where
  "restore_file pf sha open_sealed parse pol get cb env m target collision policy fs tmp en =
     (case validate_manifest_for_restore pf m of
        Inl e \<Rightarrow> restored en fs tmp (Err e)
      | Inr _ \<Rightarrow>
          if encryption m \<noteq> None \<and> \<not> EncryptionPolicy_is_enabled policy then
            restored en fs tmp (Err (EncryptionMismatch
              ''Manifest is encrypted but encryption policy is disabled (missing decryption key)''))
          else
          (case resolve_collision pf (rv_nanos env) fs target collision of
             SkipRestore \<Rightarrow>
               restored en fs tmp (Ok \<lparr>rr_file_id = lf_file_id (logical_file m),
                 rr_relative_path = lf_relative_path (logical_file m), rr_target_path = target,
                 rr_outcome = Skipped, rr_bytes_restored = 0, rr_verified_sha256 = None,
                 rr_elapsed_ms = rv_elapsed_ms env, rr_error = None\<rparr>)
           | Apply final \<Rightarrow>
               restore_to sha open_sealed parse pol get cb env m final
                 (restore_outcome (fs_exists fs target) collision) policy fs tmp en))"

subsection \<open>Lemmas\<close>

lemma copy_blocks_Ok:
  "copy_blocks rf wfl w off bs = (w', Inr u) \<Longrightarrow> w' = w @ concat bs"
  by (induction bs arbitrary: w off) (fastforce split: option.splits prod.splits)+

lemma copy_blocks_prefix:
  "copy_blocks rf wfl w off bs = (w', r) \<Longrightarrow> prefix w' (w @ concat bs)"
proof (induction bs arbitrary: w off)
  case (Cons b bs)
  have cut: "prefix (w @ take k b) (w @ b @ concat bs)" for k
    by (simp add: take_is_prefix prefix_prefix)
  show ?case
  proof (cases "rf off")
    case None
    then show ?thesis
      using Cons.prems Cons.IH [of "w @ b" "off + length b"] cut
      by (cases "wfl (length w)") auto
  next
    case (Some e)
    with Cons.prems show ?thesis by simp
  qed
qed simp

lemma copy_blocks_calm: "copy_blocks (\<lambda>_. None) (\<lambda>_. None) w off bs = (w @ concat bs, Inr ())"
  by (induction bs arbitrary: w off) simp_all

lemma concat_restore_blocks [simp]: "concat (chunks_of RESTORE_STREAM_BUFFER_SIZE bs) = bs"
  by (simp add: RESTORE_STREAM_BUFFER_SIZE_def)

lemma check_restored_Inr:
  "check_restored sha env m data = Inr h \<Longrightarrow> h = sha data
     \<and> of_nat (length data) = lf_original_size (logical_file m)
     \<and> (im_digest (integrity m) \<noteq> [] \<longrightarrow> eq_ignore_ascii_case (sha data) (im_digest (integrity m)))"
  by (auto simp: check_restored_def bind_res_Inr_iff Let_def split: if_splits)

lemma temp_file_simps [simp]:
  "tf_path (TempPayloadFile_new p) = p" "tf_active (TempPayloadFile_new p)"
  by (simp_all add: TempPayloadFile_new_def)

lemma temp_drop: "TempPayloadFile_drop True (TempPayloadFile_new p) fs = fs - {p}"
  by (auto simp: TempPayloadFile_drop_def)

lemma temp_cleanup: "TempPayloadFile_cleanup True io (TempPayloadFile_new p) fs = (fs - {p}, Inr ())"
  by (auto simp: TempPayloadFile_cleanup_def TempPayloadFile_drop_def Let_def)

lemma create_dir_all_files [simp]: "fs_files (create_dir_all p fs) = fs_files fs"
  by (simp add: create_dir_all_def)

lemma write_file_files [simp]: "fs_files (write_file p bs fs) = (fs_files fs)(p \<mapsto> bs)"
  by (simp add: write_file_def)

lemma finalize_file_Inr:
  assumes "finalize_file env final data f fs tmp = (fs', tmp', Inr u)"
  shows "fs_files fs' = (fs_files fs)(final \<mapsto> data)"
  using assms
  by (auto simp: finalize_file_def Let_def bind_res_Inr_iff dest!: copy_blocks_Ok
      split: sum.splits option.splits if_splits prod.splits)

lemma finalize_file_Inl:
  assumes "finalize_file env final data f fs tmp = (fs', tmp', Inl e)"
  shows "fs_files fs' = fs_files fs
    \<or> \<not> rv_rename env \<and> (\<exists>w. prefix w data \<and> fs_files fs' = (fs_files fs)(final \<mapsto> w))"
  using assms
  by (auto simp: finalize_file_def Let_def bind_res_Inr_iff dest!: copy_blocks_prefix
      split: sum.splits option.splits if_splits prod.splits)

lemma finalize_file_tmp:
  assumes "finalize_file env final data (TempPayloadFile_new p) fs tmp = (fs', tmp', r)" "rv_remove_ok env"
  shows "tmp' = tmp - {p}"
  using assms
  by (auto simp: finalize_file_def Let_def temp_drop temp_cleanup
      split: sum.splits option.splits if_splits prod.splits)

lemma restore_chunk_tmp:
  assumes "restore_chunk sha os parse pol get cb policy fid n env c acc tmp en = Some (en', tmp', r)"
    and "ce_remove_ok env"
  shows "tmp' \<subseteq> tmp"
  using assms
  by (auto simp: restore_chunk_def Let_def temp_drop temp_cleanup split: sum.splits option.splits prod.splits)

lemma restore_chunks_tmp:
  assumes "restore_chunks sha os parse pol get cb policy fid n env i cs acc tmp en = Some (en', tmp', r)"
    and "\<And>i. ce_remove_ok (env i)"
  shows "tmp' \<subseteq> tmp"
  using assms(1)
proof (induction cs arbitrary: i acc tmp en)
  case (Cons c cs)
  show ?case
  proof (cases "ce_cancelled (env i)")
    case False
    then obtain en1 tmp1 r1 where
      one: "restore_chunk sha os parse pol get cb policy fid n (env i) c acc tmp en = Some (en1, tmp1, r1)"
      using Cons.prems by (auto split: option.splits)
    have "tmp1 \<subseteq> tmp" using one assms(2) by (rule restore_chunk_tmp)
    moreover have "tmp' \<subseteq> tmp1" using Cons False one by (cases r1) auto
    ultimately show ?thesis by blast
  qed (use Cons.prems in simp)
qed simp

lemma validated_digest:
  assumes "validate_manifest_for_restore pf m = Inr u"
  shows "im_digest (integrity m) \<noteq> []"
proof
  assume "im_digest (integrity m) = []"
  then have "IntegrityMetadata_validate (integrity m) \<noteq> Inr ()"
    by (cases "im_algorithm (integrity m)") (simp add: IntegrityMetadata_validate_def trim_def utf8_chars_def)
  with assms show False
    by (simp add: validate_manifest_for_restore_def bind_res_Inr_iff ManifestV1_validate_def split: if_splits)
qed


text \<open>What the destination may become: nothing changes, or the chosen path gets a verified content.\<close>

definition verified_content :: "(bytes \<Rightarrow> string) \<Rightarrow> ManifestV1 \<Rightarrow> bytes \<Rightarrow> bool" where
  "verified_content sha m data \<longleftrightarrow> of_nat (length data) = lf_original_size (logical_file m)
     \<and> eq_ignore_ascii_case (sha data) (im_digest (integrity m))"

lemma alternate_loop_free: "alternate_loop fs candidate i = Some p \<Longrightarrow> \<not> fs_exists fs p"
proof (induction fs candidate i rule: alternate_loop.induct)
  case (1 fs candidate i)
  from 1(2) show ?case
    by (subst (asm) alternate_loop.simps) (auto split: if_splits dest: 1(1))
qed

lemma resolve_collision_Apply:
  assumes "resolve_collision pf ts fs target collision = Apply final"
  shows "collision = Overwrite \<or> \<not> fs_exists fs final
    \<or> final = alternate_candidate pf target (''collision_'' @ show_nat ts)"
  using assms
  by (auto simp: resolve_collision_def generate_alternate_path_def dest: alternate_loop_free
      split: if_splits CollisionPolicy.splits option.splits)

lemma restored_Some [simp]:
  "restored en fs tmp r = Some out \<longleftrightarrow> out = \<lparr>ro_engine = en, ro_fs = fs, ro_tmp = tmp, ro_result = r\<rparr>"
  by (auto simp: restored_def)

lemma restore_to_run:
  assumes "restore_to sha os parse pol get cb env m final outcome policy fs tmp en = Some out"
  obtains
    (unchanged) e where "ro_result out = Inl e" "ro_fs out = fs"
  | (moved) en' tmp2 p data fin where
      "restore_chunks sha os parse pol get cb policy (lf_file_id (logical_file m)) (of_nat (length (chunks m)))
         (rv_chunk env) 0 (sort_key cmf_index (chunks m)) [] (insert p tmp) en = Some (en', tmp2, Inr data)"
      "check_restored sha env m data = Inr (sha data)"
      "finalize_file env final data (TempPayloadFile_new p) fs tmp2 = (ro_fs out, ro_tmp out, fin)"
      "case fin of Inl e \<Rightarrow> ro_result out = Inl e
       | Inr _ \<Rightarrow> (\<exists>r. ro_result out = Inr r \<and> rr_target_path r = final \<and> rr_outcome r = outcome
           \<and> rr_bytes_restored r = of_nat (length data) \<and> rr_verified_sha256 r = Some (sha data))"
proof (cases "rv_create env")
  case (Inl e)
  then show ?thesis using assms unchanged by (auto simp: restore_to_def)
next
  case (Inr p)
  show ?thesis
  proof (cases "rv_open env")
    case (Some e)
    then show ?thesis using assms unchanged Inr by (auto simp: restore_to_def Let_def)
  next
    case None
    note run = assms [unfolded restore_to_def Let_def, simplified Inr None sum.case option.case]
    from run obtain en' tmp2 res where
      loop: "restore_chunks sha os parse pol get cb policy (lf_file_id (logical_file m))
        (of_nat (length (chunks m))) (rv_chunk env) 0 (sort_key cmf_index (chunks m)) []
        (insert p tmp) en = Some (en', tmp2, res)"
      by (auto split: option.splits)
    show ?thesis
    proof (cases "\<exists>data. res = Inr data \<and> check_restored sha env m data = Inr (sha data)")
      case True
      then obtain data where data: "res = Inr data" "check_restored sha env m data = Inr (sha data)" by blast
      show ?thesis
        using run loop data moved [where ?p = p and ?data = data]
        by (auto split: sum.splits prod.splits)
    next
      case False
      then show ?thesis
        using run loop unchanged check_restored_Inr [of sha env m] by (auto split: sum.splits)
    qed
  qed
qed

lemma restore_file_run:
  assumes "restore_file pf sha os parse pol get cb env m target collision policy fs tmp en = Some out"
  obtains
    (unchanged) e where "ro_result out = Inl e" "ro_fs out = fs" "ro_tmp out = tmp"
  | (skipped) r where "ro_result out = Inr r" "rr_outcome r = Skipped" "ro_fs out = fs" "ro_tmp out = tmp"
  | (going) final where
      "validate_manifest_for_restore pf m = Inr ()"
      "resolve_collision pf (rv_nanos env) fs target collision = Apply final"
      "restore_to sha os parse pol get cb env m final
         (restore_outcome (fs_exists fs target) collision) policy fs tmp en = Some out"
  using assms by (auto simp: restore_file_def split: sum.splits if_splits CollisionResolution.splits)


lemma restore_to_tmp:
  assumes "restore_to sha os parse pol get cb env m final outcome policy fs tmp en = Some out"
    and ok: "rv_remove_ok env" "\<And>i. ce_remove_ok (rv_chunk env i)"
  shows "ro_tmp out \<subseteq> tmp"
proof (cases "rv_create env")
  case (Inr p)
  have sub: "x \<in> tmp"
    if "restore_chunks sha os parse pol get cb policy fid n (rv_chunk env) 0 cs [] (insert p tmp) en = Some (en', tmp2, r)"
      "x \<in> tmp2" "x \<noteq> p" for fid n cs en' tmp2 r x
    using restore_chunks_tmp [OF that(1) ok(2)] that(2,3) by blast
  from assms(1) Inr ok(1) show ?thesis
    by (auto simp: restore_to_def Let_def temp_drop split: option.splits sum.splits prod.splits
        dest!: finalize_file_tmp intro: sub)
qed (use assms in \<open>auto simp: restore_to_def\<close>)

subsection \<open>Properties\<close>

text \<open>C3. Restoring a file changes the destination in one of three ways only. A restore that reports
  success wrote, at the path it reports and nowhere else, a content of the size and with the hash of
  the manifest, or skipped and wrote nothing; only with the overwrite policy (or after 10000 taken
  names) may that path have existed. A restore that fails leaves every file as it was, except when the
  staging file could not be renamed: then the chosen path may hold a prefix of the verified content.
  The staging directory gains no file, as long as files can be removed.\<close>

theorem restore_file_safe:
  assumes "restore_file pf sha open_sealed parse pol get cb env m target collision policy fs tmp en = Some out"
  shows "(case ro_result out of
      Inr r \<Rightarrow>
        rr_outcome r = Skipped \<and> ro_fs out = fs
        \<or> (\<exists>data. fs_files (ro_fs out) = (fs_files fs)(rr_target_path r \<mapsto> data) \<and> verified_content sha m data
            \<and> rr_bytes_restored r = lf_original_size (logical_file m) \<and> rr_verified_sha256 r = Some (sha data)
            \<and> (collision = Overwrite \<or> \<not> fs_exists fs (rr_target_path r)
               \<or> rr_target_path r = alternate_candidate pf target (''collision_'' @ show_nat (rv_nanos env))))
    | Inl e \<Rightarrow>
        fs_files (ro_fs out) = fs_files fs
        \<or> \<not> rv_rename env \<and> (\<exists>final w data. resolve_collision pf (rv_nanos env) fs target collision = Apply final
            \<and> verified_content sha m data \<and> prefix w data \<and> fs_files (ro_fs out) = (fs_files fs)(final \<mapsto> w)))
   \<and> (rv_remove_ok env \<and> (\<forall>i. ce_remove_ok (rv_chunk env i)) \<longrightarrow> ro_tmp out \<subseteq> tmp)"
  using assms
proof (cases rule: restore_file_run)
  case (going final)
  note chosen = resolve_collision_Apply [OF going(2)]
  have tmp: "rv_remove_ok env \<and> (\<forall>i. ce_remove_ok (rv_chunk env i)) \<longrightarrow> ro_tmp out \<subseteq> tmp"
    using restore_to_tmp [OF going(3)] by blast
  from going(3) show ?thesis
  proof (cases rule: restore_to_run)
    case (unchanged e)
    with tmp show ?thesis by simp
  next
    case (moved en' tmp2 p data fin)
    have ok: "verified_content sha m data"
      using check_restored_Inr [OF moved(2)] validated_digest [OF going(1)] by (simp add: verified_content_def)
    show ?thesis
    proof (cases fin)
      case (Inl e)
      have "fs_files (ro_fs out) = fs_files fs
          \<or> \<not> rv_rename env \<and> (\<exists>w. prefix w data \<and> fs_files (ro_fs out) = (fs_files fs)(final \<mapsto> w))"
        using moved(3) unfolding Inl by (rule finalize_file_Inl)
      with moved(4) Inl ok tmp going(2) show ?thesis by auto
    next
      case (Inr u)
      with moved(4) obtain r where r: "ro_result out = Inr r" "rr_target_path r = final"
        "rr_bytes_restored r = of_nat (length data)" "rr_verified_sha256 r = Some (sha data)" by auto
      have "fs_files (ro_fs out) = (fs_files fs)(final \<mapsto> data)"
        using moved(3) unfolding Inr by (rule finalize_file_Inr)
      with r ok tmp chosen show ?thesis by (auto simp: verified_content_def)
    qed
  qed
qed auto

definition sample_chunk_env :: chunk_env where
  "sample_chunk_env = \<lparr>ce_cancelled = False, ce_create = Inr ''c'', ce_open = None, ce_write = (\<lambda>_. None),
     ce_obs = never_cancelled, ce_flush = None, ce_hash = None, ce_payload_open = None,
     ce_read = (\<lambda>_. None), ce_staging_write = (\<lambda>_. None), ce_remove_ok = True, ce_remove_text = []\<rparr>"

definition sample_restore_env :: restore_env where
  "sample_restore_env = \<lparr>rv_create = Inr ''s'', rv_open = None, rv_chunk = (\<lambda>_. sample_chunk_env),
     rv_flush = None, rv_cancelled = False, rv_mkdir = None, rv_rename = True, rv_src_open = None,
     rv_dst_create = None, rv_copy_read = (\<lambda>_. None), rv_copy_write = (\<lambda>_. None), rv_dst_flush = None,
     rv_remove_ok = True, rv_remove_text = [], rv_nanos = 0, rv_elapsed_ms = 0\<rparr>"

definition sample_restorable :: ManifestV1 where
  "sample_restorable = sample_manifest\<lparr>chunks :=
     map (\<lambda>c. c\<lparr>cmf_storage_reference := Telegram (- 100) 7 ''f''\<rparr>) (chunks sample_manifest)\<rparr>"

lemma sample_restorable_valid: "validate_manifest_for_restore unix_platform sample_restorable = Inr ()"
  using sample_digest_valid sample_path_valid
  by (simp add: sample_restorable_def sample_manifest_def validate_manifest_for_restore_def ManifestV1_validate_def
      LogicalFileMetadata_validate_def ChunkManifest_validate_def checked_add_def CHUNK_THRESHOLD_BYTES_def)

definition sample_disk :: local_fs where
  "sample_disk = \<lparr>fs_files = [[Normal ''a.txt''] \<mapsto> [1, 2]], fs_dirs = {}\<rparr>"

theorem restore_file_safe_witness:
  "\<exists>out e. restore_file unix_platform (\<lambda>_. sample_digest) (\<lambda>_ _ _ _. None) (\<lambda>_. Inl []) sample_policy
       (mock_download (\<lambda>_. sample_digest)) False sample_restore_env sample_restorable [Normal ''a.txt''] Overwrite
       Disabled sample_disk {} (sample_engine False) = Some out
   \<and> ro_result out = Inl e \<and> fs_files (ro_fs out) [Normal ''a.txt''] = Some [1, 2] \<and> ro_tmp out = {}"
proof -
  have jid: "id_new ''JobId'' ''restore-dl-c0'' = Inr ''restore-dl-c0''" by code_simp
  have "\<exists>out e. restore_file unix_platform (\<lambda>_. sample_digest) (\<lambda>_ _ _ _. None) (\<lambda>_. Inl []) sample_policy
       (mock_download (\<lambda>_. sample_digest)) False sample_restore_env sample_restorable [Normal ''a.txt''] Overwrite
       Disabled sample_disk {} (sample_engine False) = Some out \<and> ro_result out = Inl e"
    by (simp add: restore_file_def sample_restorable_valid)
      (simp add: sample_restorable_def sample_manifest_def sample_disk_def resolve_collision_def fs_exists_def
        restore_to_def sample_restore_env_def sample_chunk_env_def restore_chunk_def fetch_chunk_def jid
        new_download_def DownloadJobParams_new_def TransferJob_validate_def download_stream_def
        execute_download_def never_cancelled_def transition_def transition_to_def mock_download_def
        sample_engine_def set_fail_uploads_def MockStorageProvider_new_def stream_failure_def ret_def Let_def restored_def)
  then obtain out e where run: "restore_file unix_platform (\<lambda>_. sample_digest) (\<lambda>_ _ _ _. None) (\<lambda>_. Inl [])
       sample_policy (mock_download (\<lambda>_. sample_digest)) False sample_restore_env sample_restorable
       [Normal ''a.txt''] Overwrite Disabled sample_disk {} (sample_engine False) = Some out" "ro_result out = Inl e"
    by blast
  have "rv_rename sample_restore_env" "rv_remove_ok sample_restore_env"
      "\<forall>i. ce_remove_ok (rv_chunk sample_restore_env i)" "fs_files sample_disk [Normal ''a.txt''] = Some [1, 2]"
    by (simp_all add: sample_restore_env_def sample_chunk_env_def sample_disk_def)
  with restore_file_safe [OF run(1)] run show ?thesis by auto
qed

end
