(* ===== verification/Restore_Roundtrip.thy ===== *)
theory Restore_Roundtrip
  imports Restore_Pipeline
begin

text \<open>
  Backup and restore together: what the payload pipeline made of a file, stored chunk by chunk with a
  provider, is given back by the restore pipeline byte for byte. The environment is calm: no file
  operation fails and nobody cancels.
\<close>

subsection \<open>A calm restore\<close>

definition calm_chunk :: "chunk_env \<Rightarrow> bool" where
  "calm_chunk env \<longleftrightarrow> \<not> ce_cancelled env \<and> is_ok (ce_create env) \<and> ce_open env = None
     \<and> ce_write env = (\<lambda>_. None) \<and> ce_obs env = never_cancelled \<and> ce_flush env = None
     \<and> ce_hash env = None \<and> ce_payload_open env = None \<and> ce_read env = (\<lambda>_. None)
     \<and> ce_staging_write env = (\<lambda>_. None) \<and> ce_remove_ok env"

definition calm_restore :: "restore_env \<Rightarrow> bool" where
  "calm_restore env \<longleftrightarrow> is_ok (rv_create env) \<and> rv_open env = None \<and> (\<forall>i. calm_chunk (rv_chunk env i))
     \<and> rv_flush env = None \<and> \<not> rv_cancelled env \<and> rv_mkdir env = None \<and> rv_rename env"

lemma is_ok_iff: "is_ok r \<longleftrightarrow> (\<exists>a. r = Inr a)"
  by (cases r) auto

lemma write_all_file:
  "write_all (cancelling_write None (file_write (\<lambda>_. None))) \<lparr>cw_inner = a, cw_calls = n\<rparr> buf
     = Some (\<lparr>cw_inner = a @ buf, cw_calls = (if buf = [] then n else Suc n)\<rparr>, Inr ())"
  by (subst write_all.simps) (simp add: cancelling_write_def file_write_def write_all.simps)

lemma write_blocks_file:
  "\<exists>k. write_blocks (cancelling_write None (file_write (\<lambda>_. None))) \<lparr>cw_inner = a, cw_calls = n\<rparr> bs
     = Some (\<lparr>cw_inner = a @ concat bs, cw_calls = k\<rparr>, Inr ())"
proof (induction bs arbitrary: a n)
  case (Cons b bs)
  from Cons.IH [of "a @ b"] show ?case by (simp add: write_all_file)
qed simp

lemma mock_download_file:
  assumes "mock_stored s (dr_storage_reference d) = Some bs" "\<not> fail_downloads s"
    and "dr_expected_sha256 d = Some (sha bs)"
  shows "\<exists>k. mock_download sha s d (cancelling_write None (file_write (\<lambda>_. None))) \<lparr>cw_inner = [], cw_calls = 0\<rparr>
     = Some (\<lparr>cw_inner = bs, cw_calls = k\<rparr>,
         Inr \<lparr>dres_bytes_downloaded = of_nat (length bs), dres_verified_sha256 = Some (sha bs)\<rparr>)"
proof -
  obtain key obj where obj: "reference_key (dr_storage_reference d) = Inr key" "objects s key = Some obj"
      "mo_payload obj = InMemory bs"
    using assms(1) by (auto simp: mock_stored_def split: sum.splits option.splits MockPayload.splits)
  have cat: "concat (payload_blocks obj) = bs"
    using obj(3) by (rule concat_payload_blocks_InMemory)
  obtain k where "write_blocks (cancelling_write None (file_write (\<lambda>_. None))) \<lparr>cw_inner = [], cw_calls = 0\<rparr>
      (payload_blocks obj) = Some (\<lparr>cw_inner = bs, cw_calls = k\<rparr>, Inr ())"
    using write_blocks_file [of "[]" 0 "payload_blocks obj"] cat by auto
  then show ?thesis
    using assms obj cat by (auto simp: mock_download_def Let_def)
qed


lemma fetch_chunk_calm:
  assumes calm: "calm_chunk env" and up: "\<not> fail_downloads (en_provider en)"
    and stored: "mock_stored (en_provider en) (cmf_storage_reference c) = Some bs"
    and c: "cmf_stored_size c = of_nat (length bs)" "im_digest (cmf_integrity c) = sha bs"
      "plain_id (cmf_chunk_id c)" "length (cmf_chunk_id c) \<le> 53" "cmf_index c < n"
  shows "\<exists>en'. fetch_chunk sha pol (mock_download sha) cb fid n env c en = Some (en', Inr bs)
    \<and> en_provider en' = en_provider en"
proof -
  have jid: "id_new ''JobId'' (''restore-dl-'' @ cmf_chunk_id c) = Inr (''restore-dl-'' @ cmf_chunk_id c)"
    using c(3,4) by (intro id_new_plain) (auto simp: plain_id_def is_ascii_alphanumeric_def)
  have n: "n \<noteq> 0" using c(5) by auto
  let ?d = "\<lparr>dr_file_id = fid, dr_chunk_id = cmf_chunk_id c, dr_storage_reference = cmf_storage_reference c,
     dr_expected_size_bytes = cmf_stored_size c, dr_expected_sha256 = Some (sha bs)\<rparr>"
  obtain k where dl: "mock_download sha (en_provider en) ?d (cancelling_write None (file_write (\<lambda>_. None)))
      \<lparr>cw_inner = [], cw_calls = 0\<rparr> = Some (\<lparr>cw_inner = bs, cw_calls = k\<rparr>,
         Inr \<lparr>dres_bytes_downloaded = of_nat (length bs), dres_verified_sha256 = Some (sha bs)\<rparr>)"
    using mock_download_file [of "en_provider en" ?d bs sha] stored up by auto
  show ?thesis
    using calm c n
    by (simp add: fetch_chunk_def jid [simplified] new_download_def DownloadJobParams_new_def TransferJob_validate_def
        calm_chunk_def never_cancelled_def download_stream_def execute_download_def transition_def
        transition_to_def dl [unfolded c(1)] Let_def io_ok_def)
qed


lemma decode_chunk_calm:
  assumes calm: "calm_chunk env" and st: "staged_for seal pj policy fid (cmf_index c) n bs stored"
    and size: "cmf_plaintext_size c = of_nat (length bs)"
    and aead: "\<And>k n a m c. seal k n a m = Some c \<Longrightarrow> open_sealed k n a c = Some m \<and> 16 \<le> length c"
    and json: "\<And>p b. pj p = Inr b \<Longrightarrow> parse b = Inr p"
  shows "decode_chunk open_sealed parse policy fid n env c stored acc = Inr (acc @ bs)"
proof (cases policy)
  case (Enabled key)
  with st obtain nonce p where p: "encrypt_chunk seal nonce key bs (ChunkAad_new fid (cmf_index c) n) None = Inr p"
      "pj p = Inr stored"
    by (auto simp: staged_for_def)
  have "decrypt_chunk open_sealed key p (ChunkAad_new fid (cmf_index c) n) = Inr bs"
    using aead p(1) by (rule decrypt_encrypt_chunk)
  with Enabled calm size json [OF p(2)] show ?thesis
    by (simp add: decode_chunk_def calm_chunk_def io_ok_def)
next
  case Disabled
  with calm st size show ?thesis
    by (simp add: decode_chunk_def calm_chunk_def io_ok_def staged_for_def copy_blocks_calm)
qed

lemma restore_chunks_each:
  assumes one: "\<And>c bs i acc tmp en. \<lbrakk>(c, bs) \<in> set ps; P en\<rbrakk> \<Longrightarrow>
      \<exists>en' tmp'. restore_chunk sha os parse pol get cb policy fid n (env i) c acc tmp en = Some (en', tmp', Inr (acc @ bs)) \<and> P en'"
    and calm: "\<And>i. \<not> ce_cancelled (env i)" and "P en"
  shows "\<exists>en' tmp'. restore_chunks sha os parse pol get cb policy fid n env i (map fst ps) acc tmp en
    = Some (en', tmp', Inr (acc @ concat (map snd ps))) \<and> P en'"
  using one \<open>P en\<close>
proof (induction ps arbitrary: i acc tmp en)
  case (Cons p ps)
  obtain c bs where p: "p = (c, bs)" by (cases p)
  obtain en1 tmp1 where "restore_chunk sha os parse pol get cb policy fid n (env i) c acc tmp en
      = Some (en1, tmp1, Inr (acc @ bs))" "P en1"
    using Cons.prems p by (metis list.set_intros(1))
  moreover have "\<exists>en' tmp'. restore_chunks sha os parse pol get cb policy fid n env (Suc i) (map fst ps) (acc @ bs)
      tmp1 en1 = Some (en', tmp', Inr ((acc @ bs) @ concat (map snd ps))) \<and> P en'"
    using Cons.prems(1) \<open>P en1\<close> by (intro Cons.IH) auto
  ultimately show ?case using calm p by simp
qed simp

definition chunk_name :: "ident_str \<Rightarrow> nat \<Rightarrow> string" where
  "chunk_name fid i = fid @ ''-chk-'' @ show_nat i"

lemma plain_chunk_name: "plain_id fid \<Longrightarrow> plain_id (chunk_name fid i)"
proof -
  have "plain_id ''-chk-''" by (auto simp: plain_id_def is_ascii_alphanumeric_def)
  then show "plain_id fid \<Longrightarrow> plain_id (chunk_name fid i)"
    unfolding chunk_name_def plain_id_append by simp
qed

text \<open>A chunk of a manifest whose content the provider holds.\<close>

definition kept_chunk ::
  "(bytes \<Rightarrow> string) \<Rightarrow> MockStorageProvider \<Rightarrow> aead_fn \<Rightarrow> (EncryptedPayload \<Rightarrow> (string, bytes) result)
     \<Rightarrow> EncryptionPolicy \<Rightarrow> ident_str \<Rightarrow> u32 \<Rightarrow> ChunkManifest \<Rightarrow> bytes \<Rightarrow> bool" where
  "kept_chunk sha s seal pj policy fid n c bs \<longleftrightarrow>
     (\<exists>stored. mock_stored s (cmf_storage_reference c) = Some stored
        \<and> staged_for seal pj policy fid (cmf_index c) n bs stored
        \<and> cmf_stored_size c = of_nat (length stored) \<and> im_digest (cmf_integrity c) = sha stored
        \<and> cmf_plaintext_size c = of_nat (length bs)
        \<and> plain_id (cmf_chunk_id c) \<and> length (cmf_chunk_id c) \<le> 53 \<and> cmf_index c < n)"

lemma restore_chunk_calm:
  assumes calm: "calm_chunk env" and en: "\<not> fail_downloads s" "en_provider en = s"
    and kept: "kept_chunk sha s seal pj policy fid n c bs"
    and aead: "\<And>k n a m c. seal k n a m = Some c \<Longrightarrow> open_sealed k n a c = Some m \<and> 16 \<le> length c"
    and json: "\<And>p b. pj p = Inr b \<Longrightarrow> parse b = Inr p"
  shows "\<exists>en' tmp'. restore_chunk sha open_sealed parse pol (mock_download sha) cb policy fid n env c acc tmp en
    = Some (en', tmp', Inr (acc @ bs)) \<and> en_provider en' = s"
proof -
  from kept obtain stored where k: "mock_stored (en_provider en) (cmf_storage_reference c) = Some stored"
      "staged_for seal pj policy fid (cmf_index c) n bs stored" "cmf_stored_size c = of_nat (length stored)"
      "im_digest (cmf_integrity c) = sha stored" "cmf_plaintext_size c = of_nat (length bs)"
      "plain_id (cmf_chunk_id c)" "length (cmf_chunk_id c) \<le> 53" "cmf_index c < n"
    unfolding en(2) kept_chunk_def by blast
  obtain en' where f: "fetch_chunk sha pol (mock_download sha) cb fid n env c en = Some (en', Inr stored)"
      "en_provider en' = s"
    using fetch_chunk_calm [OF calm _ k(1,3) _ k(6,7,8), of sha] k(4) en by blast
  have "decode_chunk open_sealed parse policy fid n env c stored acc = Inr (acc @ bs)"
    using decode_chunk_calm [OF calm k(2,5)] aead json by blast
  then show ?thesis
    using f calm by (auto simp: restore_chunk_def Let_def calm_chunk_def is_ok_iff temp_cleanup)
qed


subsection \<open>The manifest of a backup passes the checks of a restore\<close>

definition sha256_hex :: "(bytes \<Rightarrow> string) \<Rightarrow> bool" where
  \<comment> \<open>a digest prints as 64 hexadecimal digits\<close>
  "sha256_hex sha \<longleftrightarrow> (\<forall>bs. length (sha bs) = 64 \<and> list_all is_ascii_hexdigit (sha bs))"

lemma hexdigit_plain: "is_ascii_hexdigit c \<Longrightarrow> is_ascii_alphanumeric c"
  by (auto simp: is_ascii_hexdigit_def is_ascii_alphanumeric_def is_ascii_digit_def)

lemma sha256_hex_plain: "sha256_hex sha \<Longrightarrow> plain_id (sha bs)"
  using hexdigit_plain by (auto simp: sha256_hex_def plain_id_def list_all_iff)

lemma sha256_hex_valid:
  assumes "sha256_hex sha"
  shows "IntegrityMetadata_validate (IntegrityMetadata_sha256 (sha bs)) = Inr ()"
proof -
  have "utf8_chars (sha bs) = map (\<lambda>c. [c]) (sha bs)"
    using sha256_hex_plain [OF assms, of bs] plain_char(1) by (auto simp: plain_id_def intro!: utf8_chars_ascii)
  moreover have "\<not> \<not> hex_char_ok [c]" if "c \<in> set (sha bs)" for c
    using that assms by (auto simp: sha256_hex_def list_all_iff hex_char_ok_def)
  ultimately have "find_first (\<lambda>ch. \<not> hex_char_ok ch) (utf8_chars (sha bs)) = None"
    by (auto simp: find_first_None_iff)
  then show ?thesis
    using assms
    by (simp add: IntegrityMetadata_validate_def IntegrityMetadata_sha256_def
        trim_plain [OF sha256_hex_plain [OF assms]] sha256_hex_def)
qed

lemma check_references_ok:
  "check_references pos cs = Inr () \<longleftrightarrow>
     (\<forall>c \<in> set cs. cmf_storage_reference c \<noteq> StorageReference.Pending) \<and> indexed_from pos cs"
  by (induction cs arbitrary: pos) auto

text \<open>The manifest with the references the uploads gave.\<close>

definition with_references :: "ManifestV1 \<Rightarrow> StorageReference list \<Rightarrow> ManifestV1" where
  "with_references m rfs = m\<lparr>chunks := map2 (\<lambda>c r. c\<lparr>cmf_storage_reference := r\<rparr>) (chunks m) rfs\<rparr>"

definition bound_chunk :: "ProcessedChunk \<Rightarrow> StorageReference \<Rightarrow> ChunkManifest" where
  "bound_chunk c r = (chunk_manifest_of c)\<lparr>cmf_storage_reference := r\<rparr>"

lemma with_references_simps [simp]:
  "manifest_version (with_references m rfs) = manifest_version m"
  "manifest_id (with_references m rfs) = manifest_id m"
  "logical_file (with_references m rfs) = logical_file m"
  "encryption (with_references m rfs) = encryption m"
  "integrity (with_references m rfs) = integrity m"
  by (simp_all add: with_references_def)

lemma chunks_with_references:
  assumes "length rfs = length cs"
  shows "chunks (with_references (build_manifest pf opts fid rel sz h cs) rfs)
    = map (\<lambda>i. bound_chunk (cs ! i) (rfs ! i)) [0..<length cs]"
  using assms
  by (auto simp: with_references_def build_manifest_def bound_chunk_def intro!: nth_equalityI)

lemma plaintext_total_map:
  "plaintext_total (map g xs) = (\<Sum>x \<leftarrow> xs. unat (cmf_plaintext_size (g x)))"
  by (simp add: plaintext_total_def comp_def)

lemma sum_piece_lengths:
  "(\<Sum>i \<leftarrow> [0..<length cs]. length (snd (cs ! i))) = length (concat (map snd cs))"
proof -
  have "map (\<lambda>i. length (snd (cs ! i))) [0..<length cs] = map (\<lambda>x. length (snd x)) cs"
    by (auto intro!: nth_equalityI)
  then show ?thesis by (simp add: length_concat comp_def)
qed

lemma piece_length: "i < length cs \<Longrightarrow> length (snd (cs ! i)) \<le> length (concat (map snd cs))"
  unfolding length_concat
  by (rule member_le_sum_list) (simp_all add: comp_def)

lemma backup_manifest_valid:
  assumes sha: "sha256_hex sha" and rfs: "length rfs = length cs"
      "list_all (\<lambda>r. StorageReference_validate r = Inr () \<and> r \<noteq> StorageReference.Pending) rfs"
    and cs: "\<And>i. i < length cs \<Longrightarrow> chunk_of sha fid n i (fst (cs ! i)) (snd (cs ! i))"
    and size: "length (concat (map snd cs)) = unat sz" "n = calculate_expected_chunk_count sz"
      "length cs = unat n" "0 < unat n"
    and fid: "plain_id fid"
    and m: "m = with_references (build_manifest pf opts fid rel sz (sha data) (map fst cs)) rfs"
    and lf: "LogicalFileMetadata_validate pf (logical_file m) = Inr ()"
  shows "validate_manifest_for_restore pf m = Inr ()"
proof -
  let ?c = "\<lambda>i. bound_chunk (fst (cs ! i)) (rfs ! i)"
  have chunks: "chunks m = map ?c [0..<length cs]"
    using chunks_with_references [of rfs "map fst cs"] rfs(1) unfolding m by simp
  have small: "length (snd (cs ! i)) < 18446744073709551616" if "i < length cs" for i
    using piece_length [OF that] unfolding size(1) by (rule le_less_trans) (rule unat_u64_less)
  have each: "cmf_chunk_id (?c i) = fid @ ''-chk-'' @ show_nat i" "cmf_index (?c i) = of_nat i"
      "ChunkManifest_validate (?c i) = Inr ()" "cmf_storage_reference (?c i) \<noteq> StorageReference.Pending"
      "unat (cmf_plaintext_size (?c i)) = length (snd (cs ! i))"
    if "i < length cs" for i
    using cs [OF that] that rfs sha256_hex_valid [OF sha] small [OF that]
    by (auto simp: bound_chunk_def chunk_manifest_of_def chunk_of_def ChunkManifest_validate_def
        list_all_length unat_of_nat)
  have dist: "distinct (map cmf_chunk_id (chunks m))"
    using each(1) show_nat_inj by (auto simp: chunks distinct_map inj_on_def)
  have idx: "indexed_from 0 (chunks m)"
    using each(2) by (auto simp: chunks indexed_from_def)
  have total: "plaintext_total (chunks m) = unat sz"
    unfolding chunks plaintext_total_map size(1) [symmetric] sum_piece_lengths [symmetric]
    using each(5) by (intro arg_cong [of _ _ sum_list] map_cong) auto
  have vc: "validate_chunks 0 {} 0 (chunks m) = Inr sz"
    unfolding validate_chunks_Inr_iff using dist idx total each(3) unat_u64_less [of sz] by (auto simp: chunks)
  have plain: "plain_id (manifest_id m)"
    using fid sha256_hex_plain [OF sha, of data]
    by (auto simp: m build_manifest_def plain_id_def is_ascii_alphanumeric_def dest: in_set_takeD)
  have parts: "manifest_version m = V1" "lf_original_size (logical_file m) = sz" "chunks m \<noteq> []"
      "trim (manifest_id m) \<noteq> []" "IntegrityMetadata_validate (integrity m) = Inr ()"
      "(case encryption m of Some e \<Rightarrow> EncryptionMetadata_validate e | None \<Rightarrow> Inr ()) = Inr ()"
    using size(3,4) trim_plain [OF plain] sha256_hex_valid [OF sha]
    by (auto simp: chunks, auto simp: m build_manifest_def EncryptionMetadata_validate_def
        EncryptionMetadata_aes256_gcm_def split: EncryptionPolicy.splits)
  have valid: "ManifestV1_validate pf m = Inr ()"
    using lf vc parts by (simp add: ManifestV1_validate_def)
  have safe: "validate_safe_relative_path pf (pf_components pf (lf_relative_path (logical_file m))) = Inr ()"
    using lf by (auto simp: LogicalFileMetadata_validate_def bind_res_Inr_iff split: if_splits)
  have refs_ok: "check_references 0 (chunks m) = Inr ()"
    unfolding check_references_ok using idx each(4) by (auto simp: chunks)
  show ?thesis
    using valid safe refs_ok size(2,3) parts(1,2) by (simp add: validate_manifest_for_restore_def Let_def chunks)
qed


lemma mock_stored_Pending: "mock_stored s StorageReference.Pending = None"
  by (simp add: mock_stored_def)

lemma restore_to_calm:
  assumes calm: "calm_restore env" and en: "\<not> fail_downloads (en_provider en)"
    and sorted: "sort_key cmf_index (chunks m) = chunks m"
    and ps: "chunks m = map fst ps" "concat (map snd ps) = data"
    and kept: "\<And>c bs. (c, bs) \<in> set ps \<Longrightarrow> kept_chunk sha (en_provider en) seal pj policy
        (lf_file_id (logical_file m)) (of_nat (length (chunks m))) c bs"
    and m: "of_nat (length data) = lf_original_size (logical_file m)" "im_digest (integrity m) = sha data"
    and aead: "\<And>k n a m c. seal k n a m = Some c \<Longrightarrow> open_sealed k n a c = Some m \<and> 16 \<le> length c"
    and json: "\<And>p b. pj p = Inr b \<Longrightarrow> parse b = Inr p"
  shows "\<exists>out r. restore_to sha open_sealed parse pol (mock_download sha) cb env m final outcome policy fs tmp en = Some out
    \<and> ro_result out = Inr r \<and> rr_target_path r = final \<and> rr_outcome r = outcome
    \<and> fs_files (ro_fs out) = (fs_files fs)(final \<mapsto> data)"
proof -
  obtain p where p: "rv_create env = Inr p" using calm by (auto simp: calm_restore_def is_ok_iff)
  let ?fid = "lf_file_id (logical_file m)" and ?n = "of_nat (length (chunks m)) :: u32"
  have chunk: "calm_chunk (rv_chunk env i)" for i using calm by (simp add: calm_restore_def)
  have "\<exists>en' tmp'. restore_chunks sha open_sealed parse pol (mock_download sha) cb policy ?fid ?n (rv_chunk env) 0
      (map fst ps) [] (insert p tmp) en = Some (en', tmp', Inr ([] @ concat (map snd ps)))
      \<and> en_provider en' = en_provider en"
  proof (rule restore_chunks_each)
    fix c bs i acc tmp and en1 :: "MockStorageProvider engine"
    assume "(c, bs) \<in> set ps" "en_provider en1 = en_provider en"
    then show "\<exists>en' tmp'. restore_chunk sha open_sealed parse pol (mock_download sha) cb policy ?fid ?n (rv_chunk env i)
        c acc tmp en1 = Some (en', tmp', Inr (acc @ bs)) \<and> en_provider en' = en_provider en"
      using restore_chunk_calm [OF chunk en _ kept] aead json by blast
  qed (use chunk in \<open>simp_all add: calm_chunk_def\<close>)
  then obtain en' tmp' where run: "restore_chunks sha open_sealed parse pol (mock_download sha) cb policy ?fid ?n
      (rv_chunk env) 0 (sort_key cmf_index (chunks m)) [] (insert p tmp) en = Some (en', tmp', Inr data)"
    unfolding sorted unfolding ps by auto
  have chk: "check_restored sha env m data = Inr (sha data)"
    using calm m by (simp add: check_restored_def calm_restore_def io_ok_def)
  obtain fs' tmp3 where fin: "finalize_file env final data (TempPayloadFile_new p) fs tmp' = (fs', tmp3, Inr ())"
    using calm by (cases "path_parent final") (auto simp: finalize_file_def Let_def calm_restore_def io_ok_def)
  have "rv_open env = None" using calm by (simp add: calm_restore_def)
  with p run chk fin finalize_file_Inr [OF fin] show ?thesis
    by (simp add: restore_to_def Let_def restored_def)
qed

subsection \<open>Properties\<close>

text \<open>C1. Backing a file up and restoring it gives the file back. The payload pipeline cut the data into
  chunks, sealed them when the profile asks for it, and built the manifest; when the provider holds the
  staged content of every chunk under the reference written to the manifest, the restore with the same
  policy, in a calm environment and to a path that is free or may be overwritten, passes every check and
  writes exactly the data. The hypotheses on the libraries: a SHA-256 digest prints as 64 hexadecimal
  digits, AES-GCM opens what it sealed with the same key, nonce and associated data, JSON parsing
  inverts printing.\<close>

theorem backup_restore_roundtrip:
  assumes backup: "process_file pf sha seal pj slice_read penv fid rel data sz opts = Inr f"
    and size: "unat sz = length data" "length data \<le> (2 ^ 32 - 1) * 1887436800"
    and m: "m = with_references (pfl_manifest f) rfs" "length rfs = length (pfl_chunks f)"
    and kept: "\<And>i. i < length rfs \<Longrightarrow> StorageReference_validate (rfs ! i) = Inr ()
        \<and> mock_stored (en_provider en) (rfs ! i) = Some (pch_content (pfl_chunks f ! i))"
    and ids: "plain_id fid" "\<And>c. c \<in> set (pfl_chunks f) \<Longrightarrow> length (pch_chunk_id c) \<le> 53"
    and lf: "LogicalFileMetadata_validate pf (logical_file (pfl_manifest f)) = Inr ()"
    and env: "calm_restore renv" "\<not> fail_downloads (en_provider en)"
    and target: "\<not> fs_exists fs target \<or> collision = Overwrite"
    and sha: "sha256_hex sha"
    and aead: "\<And>k n a m c. seal k n a m = Some c \<Longrightarrow> open_sealed k n a c = Some m \<and> 16 \<le> length c"
    and json: "\<And>p b. pj p = Inr b \<Longrightarrow> parse b = Inr p"
  shows "\<exists>out r. restore_file pf sha open_sealed parse pol (mock_download sha) cb renv m target collision
      (po_encryption_policy opts) fs tmp en = Some out
    \<and> ro_result out = Inr r \<and> rr_target_path r = target
    \<and> fs_files (ro_fs out) = (fs_files fs)(target \<mapsto> data)"
proof -
  let ?n = "calculate_expected_chunk_count sz" and ?policy = "po_encryption_policy opts"
  obtain cs where data: "concat (map snd cs) = data" and len: "length cs = unat ?n"
    and f: "pfl_chunks f = map fst cs"
      "pfl_manifest f = build_manifest pf opts fid rel sz (sha data) (map fst cs)"
    and each: "\<And>i. i < length cs \<Longrightarrow> chunk_of sha fid ?n i (fst (cs ! i)) (snd (cs ! i))
         \<and> staged_for seal pj ?policy fid (of_nat i) ?n (snd (cs ! i)) (pch_content (fst (cs ! i)))"
    using process_file_Ok [OF backup size] by blast
  have rfs: "length rfs = length cs" using m(2) f(1) by simp
  let ?c = "\<lambda>i. bound_chunk (fst (cs ! i)) (rfs ! i)"
  have chunks: "chunks m = map ?c [0..<length cs]"
    using chunks_with_references [of rfs "map fst cs"] rfs unfolding m(1) f(2) by simp
  have frame: "lf_file_id (logical_file m) = fid" "lf_original_size (logical_file m) = sz"
      "im_digest (integrity m) = sha data" "encryption m \<noteq> None \<longleftrightarrow> EncryptionPolicy_is_enabled ?policy"
    by (auto simp: m(1) f(2) build_manifest_def IntegrityMetadata_sha256_def split: EncryptionPolicy.splits)
  have idx: "cmf_index (?c i) = of_nat i" if "i < length cs" for i
    using each [OF that] by (simp add: bound_chunk_def chunk_manifest_of_def chunk_of_def)
  have small: "length cs < 4294967296" unfolding len by (rule unat_u32_less)
  have unat: "unat (of_nat i :: u32) = i" if "i < length cs" for i
    using less_trans [OF that small] by (simp add: unat_of_nat)
  have sorted: "sort_key cmf_index (chunks m) = chunks m"
    by (rule sort_key_id_if_sorted)
      (auto simp: chunks sorted_iff_nth_mono idx word_le_nat_alt unat)
  have valid: "validate_manifest_for_restore pf m = Inr ()"
  proof (rule backup_manifest_valid [OF sha rfs _ _ _ refl len _ ids(1)])
    show "list_all (\<lambda>r. StorageReference_validate r = Inr () \<and> r \<noteq> StorageReference.Pending) rfs"
      using kept mock_stored_Pending by (fastforce simp: list_all_length)
    show "0 < unat ?n"
      using expected_chunk_count_bounds(1) [of sz] size
      by (cases "sz < CHUNK_THRESHOLD_BYTES") (auto simp: calculate_expected_chunk_count_def)
  qed (use each data size lf m(1) f(2) in auto)
  have "\<exists>out r. restore_to sha open_sealed parse pol (mock_download sha) cb renv m target
      (restore_outcome (fs_exists fs target) collision) ?policy fs tmp en = Some out
    \<and> ro_result out = Inr r \<and> rr_target_path r = target
    \<and> rr_outcome r = restore_outcome (fs_exists fs target) collision
    \<and> fs_files (ro_fs out) = (fs_files fs)(target \<mapsto> data)"
  proof (rule restore_to_calm [OF env sorted, where ps = "map (\<lambda>i. (?c i, snd (cs ! i))) [0..<length cs]"])
    show "concat (map snd (map (\<lambda>i. (?c i, snd (cs ! i))) [0..<length cs])) = data"
      unfolding data [symmetric] by (rule arg_cong [of _ _ concat]) (auto intro!: nth_equalityI)
    fix c bs
    assume "(c, bs) \<in> set (map (\<lambda>i. (?c i, snd (cs ! i))) [0..<length cs])"
    then obtain i where i: "i < length cs" "c = ?c i" "bs = snd (cs ! i)" by auto
    have "pch_chunk_id (fst (cs ! i)) = chunk_name fid i"
      using each [OF i(1)] by (simp add: chunk_of_def chunk_name_def)
    then have id: "length (pch_chunk_id (fst (cs ! i))) \<le> 53" "plain_id (pch_chunk_id (fst (cs ! i)))"
      using ids(2) [of "fst (cs ! i)"] i(1) f(1) plain_chunk_name [OF ids(1)] by auto
    show "kept_chunk sha (en_provider en) seal pj ?policy (lf_file_id (logical_file m))
        (of_nat (length (chunks m))) c bs"
      using kept [of i] i rfs f(1) unat [OF i(1)] len each [OF i(1)] id
      by (simp add: kept_chunk_def bound_chunk_def chunk_manifest_of_def chunk_of_def frame chunks
          IntegrityMetadata_sha256_def word_less_nat_alt)
  qed (use chunks frame size aead json in \<open>auto simp flip: size(1)\<close>)
  then show ?thesis
    using valid frame(4) target
    by (auto simp: restore_file_def resolve_collision_def split: CollisionPolicy.splits)
qed


definition sample_seal :: aead_fn where
  "sample_seal k n a m = Some (m @ replicate 16 0)"

definition sample_open :: aead_fn where
  "sample_open k n a c = (if 16 \<le> length c then Some (take (length c - 16) c) else None)"

definition sample_options :: ProcessingOptions where
  "sample_options = \<lparr>po_encryption_policy = Enabled (SecretKey (replicate 32 5)),
     po_compression_algorithm = NoCompression\<rparr>"

definition sample_payload :: EncryptedPayload where
  "sample_payload = EncryptedPayload_new (Nonce (replicate 12 9)) ([1, 2, 3] @ replicate 16 0) None"

definition sample_json :: "EncryptedPayload \<Rightarrow> (string, bytes) result" where
  "sample_json p = (if p = sample_payload then Inr [7, 7] else Inl ''e'')"

definition sample_parse :: "bytes \<Rightarrow> (string, EncryptedPayload) result" where
  "sample_parse b = Inr sample_payload"

definition sample_stage :: stage_env where
  "sample_stage = \<lparr>se_create = Inr ''stage'', se_open = Inr (), se_write = (\<lambda>_. None), se_flush = Inr (),
     se_nonce = Nonce (replicate 12 9)\<rparr>"

definition sample_ref :: StorageReference where
  "sample_ref = Telegram (- 100) 7 ''f''"

definition sample_vault :: "MockStorageProvider engine" where
  "sample_vault = (sample_engine False)\<lparr>en_provider :=
     fst (insert_in_memory_object (\<lambda>_. sample_digest) MockStorageProvider_new sample_ref [7, 7])\<rparr>"

lemma sample_calm: "calm_restore sample_restore_env"
  by (simp add: sample_restore_env_def calm_restore_def calm_chunk_def sample_chunk_env_def)

lemma sample_digest_hex: "sha256_hex (\<lambda>_. sample_digest)"
  by (auto simp: sha256_hex_def sample_digest_def is_ascii_hexdigit_def list_all_iff)

lemma sample_read: "read_chunk slice_read wfl 3 [1, 2, 3] [] = ([], Inr [1, 2, 3]) \<or> wfl 0 \<noteq> None"
  by (subst read_chunk.simps) (auto simp: slice_read_def STREAM_CHUNK_BUFFER_SIZE_def read_chunk_full)

lemma sample_backup:
  "\<exists>f c. process_file unix_platform (\<lambda>_. sample_digest) sample_seal sample_json slice_read (\<lambda>_. sample_stage)
     ''file-0a'' ''d/a.txt'' [1, 2, 3] 3 sample_options = Inr f
   \<and> pfl_chunks f = [c] \<and> pch_content c = [7, 7] \<and> pch_chunk_id c = ''file-0a-chk-0''
   \<and> logical_file (pfl_manifest f) = \<lparr>lf_file_id = ''file-0a'', lf_file_name = path_file_name unix_platform ''d/a.txt'',
        lf_relative_path = ''d/a.txt'', lf_original_size = 3, lf_created_at = None, lf_modified_at = None,
        lf_mime_type = None\<rparr>"
proof -
  have n: "calculate_expected_chunk_count 3 = 1"
    by (simp add: calculate_expected_chunk_count_def CHUNK_THRESHOLD_BYTES_def)
  have rd: "read_chunk slice_read (\<lambda>_. None) 3 [1, 2, 3] [] = ([], Inr [1, 2, 3])"
    using sample_read [of "\<lambda>_. None"] by simp
  have cid: "id_new ''ChunkId'' (''file-0a-chk-'' @ show_nat 0) = Inr ''file-0a-chk-0''"
    by code_simp
  have enc: "encrypt_chunk sample_seal (Nonce (replicate 12 9)) (SecretKey (replicate 32 5)) [1, 2, 3] a None
      = Inr sample_payload" for a
    by (simp add: encrypt_chunk_def encrypt_raw_def sample_seal_def sample_payload_def)
  have st: "stage_chunk sha sample_seal sample_json slice_read sample_stage (Enabled (SecretKey (replicate 32 5)))
      fid idx n 3 [1, 2, 3] = ([], Inr ([1, 2, 3], [7, 7]))" for sha fid idx n
    by (simp add: stage_chunk_def rd sample_stage_def enc sample_json_def)
  show ?thesis
    using cid
    by (simp add: process_file_def n expected_chunk_bytes_def sample_options_def st build_manifest_def)
      (simp add: sample_stage_def)
qed

lemma sample_target: "LogicalFileMetadata_validate unix_platform \<lparr>lf_file_id = ''file-0a'',
    lf_file_name = path_file_name unix_platform ''d/a.txt'', lf_relative_path = ''d/a.txt'', lf_original_size = 3,
    lf_created_at = None, lf_modified_at = None, lf_mime_type = None\<rparr> = Inr ()"
  by code_simp

theorem backup_restore_roundtrip_witness:
  "\<exists>f out r. process_file unix_platform (\<lambda>_. sample_digest) sample_seal sample_json slice_read (\<lambda>_. sample_stage)
     ''file-0a'' ''d/a.txt'' [1, 2, 3] 3 sample_options = Inr f
   \<and> restore_file unix_platform (\<lambda>_. sample_digest) sample_open sample_parse sample_policy
       (mock_download (\<lambda>_. sample_digest)) False sample_restore_env (with_references (pfl_manifest f) [sample_ref])
       [Normal ''out''] CollisionPolicy.Skip (po_encryption_policy sample_options)
       \<lparr>fs_files = Map.empty, fs_dirs = {}\<rparr> {} sample_vault = Some out
   \<and> ro_result out = Inr r \<and> fs_files (ro_fs out) [Normal ''out''] = Some [1, 2, 3]"
proof -
  obtain f c where f: "process_file unix_platform (\<lambda>_. sample_digest) sample_seal sample_json slice_read
      (\<lambda>_. sample_stage) ''file-0a'' ''d/a.txt'' [1, 2, 3] 3 sample_options = Inr f"
    "pfl_chunks f = [c]" "pch_content c = [7, 7]" "pch_chunk_id c = ''file-0a-chk-0''"
    "LogicalFileMetadata_validate unix_platform (logical_file (pfl_manifest f)) = Inr ()"
    using sample_backup sample_target by metis
  have kept: "StorageReference_validate sample_ref = Inr ()"
      "mock_stored (en_provider sample_vault) sample_ref = Some [7, 7]"
      "\<not> fail_downloads (en_provider sample_vault)"
    using sample_path_valid by (simp_all add: sample_ref_def sample_vault_def insert_in_memory_object_def
        mock_stored_def MockStorageProvider_new_def)
  have aead: "sample_seal k n a m = Some c \<Longrightarrow> sample_open k n a c = Some m \<and> 16 \<le> length c" for k n a m c
    by (auto simp: sample_seal_def sample_open_def)
  have json: "sample_json p = Inr b \<Longrightarrow> sample_parse b = Inr p" for p b
    by (auto simp: sample_json_def sample_parse_def split: if_splits)
  have "plain_id ''file-0a''" by (auto simp: plain_id_def is_ascii_alphanumeric_def is_ascii_digit_def)
  then show ?thesis
    using backup_restore_roundtrip [OF f(1) _ _ refl _ _ _ _ f(5) sample_calm kept(3) _ sample_digest_hex aead json,
        where rfs = "[sample_ref]" and fs = "\<lparr>fs_files = Map.empty, fs_dirs = {}\<rparr>" and target = "[Normal ''out'']"
          and collision = CollisionPolicy.Skip and tmp = "{}" and pol = sample_policy and cb = False] f kept
    by (fastforce simp: fs_exists_def)
qed

end
