(* ===== verification/Backup_Engine.thy ===== *)
theory Backup_Engine
  imports Restore_Roundtrip
begin

text \<open>
  The backup engine (\<open>engine.rs\<close> of televault-backup): planning a backup from a scan, and executing the
  plan over the catalog and the transfer engine. An operation takes and returns both; an error leaves
  what was done so far, as the code does. The record \<open>backup_env\<close> holds the library parameters, the
  provider, and what the run meets: the cancellation flag at every look, the opened files, staging,
  upload attempts and the stamps of identifiers.
\<close>

record 's backup_state =
  bst_db :: Database
  bst_engine :: "'s engine"

record ('s, 'r) backup_env =
  be_platform :: platform
  be_sha :: "bytes \<Rightarrow> string"
  be_seal :: aead_fn
  be_payload_json :: "EncryptedPayload \<Rightarrow> (string, bytes) result"
  be_manifest_json :: "ManifestV1 \<Rightarrow> (string, string) result"
  be_summary_json :: "BackupSummary \<Rightarrow> (string, string) result"
  be_debug :: "StorageReference \<Rightarrow> string"
  be_constraint_text :: string
  be_retry :: RetryPolicy
  be_put :: "'s put_fn"
  be_check :: "'s check_fn"
  be_callback :: bool
  be_cancelled_start :: bool
  be_cancelled_unchanged :: "nat \<Rightarrow> bool"
  be_cancelled_file :: "nat \<Rightarrow> bool"
  be_cancelled_chunk :: "nat \<Rightarrow> nat \<Rightarrow> bool"
  be_open :: "nat \<Rightarrow> string \<Rightarrow> (io_error, 'r) result"
  be_read :: "'r read_fn"
  be_stage :: "nat \<Rightarrow> nat \<Rightarrow> stage_env"
  be_attempt_cancelled :: "nat \<Rightarrow> nat \<Rightarrow> nat \<Rightarrow> bool"
  be_attempt_open :: "nat \<Rightarrow> nat \<Rightarrow> nat \<Rightarrow> io_error option"
  be_attempt_obs :: "nat \<Rightarrow> nat \<Rightarrow> nat \<Rightarrow> cancel_obs"
  be_remove_ok :: bool
  be_remove_text :: string
  be_stamp_unchanged :: "nat \<Rightarrow> string"
  be_stamp_file :: "nat \<Rightarrow> string"
  be_elapsed_ms :: u64

type_synonym ('s, 'a) backup_op = "'s backup_state \<Rightarrow> 's backup_state \<times> (BackupError, 'a) result"

definition bind_op :: "('s, 'a) backup_op \<Rightarrow> ('a \<Rightarrow> ('s, 'b) backup_op) \<Rightarrow> ('s, 'b) backup_op" where
  "bind_op f g st = (case f st of (st', Inl e) \<Rightarrow> (st', Err e) | (st', Inr a) \<Rightarrow> g a st')"

definition pure_op :: "(BackupError, 'a) result \<Rightarrow> ('s, 'a) backup_op" where
  "pure_op r st = (st, r)"

definition db_op :: "'a exec \<Rightarrow> ('s, 'a) backup_op" where
  "db_op f st = (let (db', r) = f (bst_db st) in (st\<lparr>bst_db := db'\<rparr>, map_err BackupError_of_DbError r))"

definition fail_snapshot :: "ident_str \<Rightarrow> string \<Rightarrow> ('s, unit) backup_op" where
  "fail_snapshot sid reason st =
     (let (db', r) = manager_update_status sid BackupStatus.Failed
            (Some ([CHR 0x7B, CHR 0x22] @ ''error'' @ [CHR 0x22, CHR '':'', CHR 0x22] @ reason
                    @ [CHR 0x22, CHR 0x7D])) (bst_db st)
      in (st\<lparr>bst_db := db'\<rparr>, r))"

definition cancelled_run :: "ident_str \<Rightarrow> ('s, 'a) backup_op" where
  "cancelled_run sid = bind_op (fail_snapshot sid ''Backup cancelled'') (\<lambda>_. pure_op (Err BackupError.Cancelled))"

definition version_record :: "ident_str \<Rightarrow> ident_str \<Rightarrow> ident_str \<Rightarrow> string \<Rightarrow> VersionRecord" where
  "version_record vid fid sid mid =
     \<lparr>ver_version_id = vid, ver_file_id = fid, ver_snapshot_id = sid, ver_manifest_id = mid,
      ver_status = ''active'', ver_created_at = ''2026-10-07T12:00:00Z''\<rparr>"

definition bind_version ::
  "('s, 'r) backup_env \<Rightarrow> string \<Rightarrow> ident_str \<Rightarrow> ident_str \<Rightarrow> string \<Rightarrow> ('s, unit) backup_op" where
  "bind_version env stamp fid sid mid =
     bind_op (pure_op (map_err (\<lambda>e. SnapshotError (AppError_display e)) (id_new ''VersionId'' (''ver-'' @ stamp))))
       (\<lambda>vid. db_op (create_version (be_constraint_text env) (version_record vid fid sid mid)))"

subsection \<open>Planning\<close>

definition plan_backup ::
  "(bytes \<Rightarrow> string) \<Rightarrow> platform \<Rightarrow> scan_root \<Rightarrow> string \<Rightarrow> Database \<Rightarrow> BackupProfile \<Rightarrow> (BackupError, BackupPlan) result" where
  "plan_backup sha pf root stamp db profile =
     bind_res (BackupProfile_validate profile) (\<lambda>_.
     bind_res (scan_directory pf root (bp_source_path profile) profile) (\<lambda>scan.
     bind_res (map_err (\<lambda>e. SnapshotError (AppError_display e)) (id_new ''SnapshotId'' (''snap-'' @ stamp))) (\<lambda>sid.
       Ok (BackupPlan_new profile sid
             (diff_against_latest_snapshot sha db (bp_profile_id profile) (scan_files scan))))))"


subsection \<open>Executing a plan\<close>

text \<open>The reads of attempt \<open>k\<close> deliver the content of the staging file.\<close>

definition staged_attempts :: "('s, 'r) backup_env \<Rightarrow> nat \<Rightarrow> nat \<Rightarrow> bytes \<Rightarrow> nat \<Rightarrow> attempt_env" where
  "staged_attempts env i j content k =
     \<lparr>ae_head = be_attempt_cancelled env i j k,
      ae_open = (case be_attempt_open env i j k of
         Some e \<Rightarrow> Err e | None \<Rightarrow> Ok (blocks_reader (chunks_of STREAM_CHUNK_BUFFER_SIZE content))),
      ae_obs = be_attempt_obs env i j k\<rparr>"

definition upload_staged ::
  "('s, 'r) backup_env \<Rightarrow> nat \<Rightarrow> nat \<Rightarrow> ProcessedChunk \<Rightarrow> TransferJob \<Rightarrow> ('s, StorageReference) backup_op" where
  "upload_staged env i j c job st =
     (let out = execute_staged_upload (be_retry env) (be_put env) (be_check env) (be_callback env)
            (staged_attempts env i j (pch_content c)) (be_remove_ok env) (be_remove_text env)
            (pch_staging_file c) {tf_path (pch_staging_file c)} (bst_engine st) job
      in (st\<lparr>bst_engine := so_engine out\<rparr>, map_err BackupError_of_TransferError (so_result out)))"

definition upload_job :: "ident_str \<Rightarrow> ident_str \<Rightarrow> ProcessedChunk \<Rightarrow> (BackupError, TransferJob) result" where
  "upload_job jid fid c =
     map_err BackupError_of_TransferError (new_upload
       ((UploadJobParams_new jid fid (pch_chunk_id c) (pch_stored_size c))
        \<lparr>up_chunk_index := pch_chunk_index c, up_total_chunks := pch_total_chunks c,
         up_source_path := Some (tf_path (pch_staging_file c)),
         up_expected_sha256 := Some (pch_stored_sha256 c)\<rparr>))"

definition set_reference :: "u32 \<Rightarrow> StorageReference \<Rightarrow> ManifestV1 \<Rightarrow> ManifestV1" where
  "set_reference idx r m =
     (if unat idx < length (chunks m) then
        m\<lparr>chunks := (chunks m)[unat idx := (chunks m ! unat idx)\<lparr>cmf_storage_reference := r\<rparr>]\<rparr>
      else m)"

definition chunk_record :: "(StorageReference \<Rightarrow> string) \<Rightarrow> ident_str \<Rightarrow> string \<Rightarrow> ProcessedChunk \<Rightarrow> StorageReference \<Rightarrow> ChunkRecord" where
  "chunk_record dbg fid mid c r =
     \<lparr>cr_chunk_id = pch_chunk_id c, cr_file_id = fid, cr_manifest_id = mid, cr_chunk_index = pch_chunk_index c,
      cr_plaintext_size = pch_plaintext_size c, cr_stored_size = pch_stored_size c,
      cr_integrity_hash = pch_stored_sha256 c, cr_storage_reference = dbg r, cr_status = ''verified'',
      cr_created_at = ''2026-10-07T12:00:00Z'', cr_updated_at = ''2026-10-07T12:00:00Z''\<rparr>"

definition sync_job_to_db :: "string \<Rightarrow> ident_str \<Rightarrow> ('s, unit) backup_op" where
  "sync_job_to_db em jid st =
     (case jobs (en_queue (bst_engine st)) jid of
        Some job \<Rightarrow> db_op (upsert_transfer_job em (to_db_record job)) st
      | None \<Rightarrow> (st, Ok ()))"

definition ignore_op :: "('s, 'a) backup_op \<Rightarrow> ('s, unit) backup_op" where
  "ignore_op f st = (fst (f st), Ok ())"

text \<open>The transfer loop over the chunks of a file: \<open>n\<close> chunks and \<open>b\<close> bytes were transferred so far.\<close>

fun transfer_chunks ::
  "('s, 'r) backup_env \<Rightarrow> ident_str \<Rightarrow> ident_str \<Rightarrow> nat \<Rightarrow> nat \<Rightarrow> ProcessedChunk list \<Rightarrow> ManifestV1 \<Rightarrow> nat \<Rightarrow> u64
     \<Rightarrow> ('s, ManifestV1 \<times> nat \<times> u64) backup_op" where
  "transfer_chunks env sid fid i j [] m n b = pure_op (Ok (m, n, b))"
| "transfer_chunks env sid fid i j (c # cs) m n b =
     (if be_cancelled_chunk env i j then cancelled_run sid
      else
        bind_op (pure_op (map_err (\<lambda>e. TransferError (AppError_display e))
          (id_new ''JobId'' (''job-'' @ pch_chunk_id c)))) (\<lambda>jid.
        bind_op (pure_op (upload_job jid fid c)) (\<lambda>job.
        bind_op (upload_staged env i j c job) (\<lambda>r.
        bind_op (db_op (create_chunk (be_constraint_text env)
          (chunk_record (be_debug env) fid (manifest_id m) c r))) (\<lambda>_.
        bind_op (ignore_op (sync_job_to_db (be_constraint_text env) jid)) (\<lambda>_.
          transfer_chunks env sid fid i (Suc j) cs (set_reference (pch_chunk_index c) r m)
            (Suc n) (b + pch_stored_size c)))))))"

definition file_record :: "ident_str \<Rightarrow> FileChange \<Rightarrow> ScannedFile \<Rightarrow> string \<Rightarrow> FileRecord" where
  "file_record pid c s h =
     \<lparr>fr_file_id = fc_file_id c, fr_profile_id = Some pid, fr_file_name = sf_file_name s,
      fr_relative_path = sf_relative_path s, fr_original_size = sf_size_bytes s, fr_mime_type = None,
      fr_status = ''backed_up'', fr_logical_file_hash = Some h, fr_created_at = ''2026-10-07T12:00:00Z'',
      fr_modified_at = Some (sf_modified_at s), fr_created_timestamp = ''2026-10-07T12:00:00Z'',
      fr_updated_timestamp = ''2026-10-07T12:00:00Z''\<rparr>"

definition record_file :: "string \<Rightarrow> ChangeKind \<Rightarrow> FileRecord \<Rightarrow> ('s, unit) backup_op" where
  "record_file em kind f =
     (if kind = New then db_op (create_file em f)
      else bind_op (db_op (update_file em f)) (\<lambda>_.
           bind_op (db_op (delete_chunks_by_file (fr_file_id f))) (\<lambda>_. pure_op (Ok ()))))"

text \<open>One new or modified file, number \<open>i\<close> of the loop.\<close>

definition backup_file ::
  "('s, 'r) backup_env \<Rightarrow> BackupPlan \<Rightarrow> nat \<Rightarrow> FileChange \<Rightarrow> nat \<Rightarrow> u64 \<Rightarrow> ('s, nat \<times> u64) backup_op" where
  "backup_file env plan i c n b =
     (let sid = pl_snapshot_id plan; em = be_constraint_text env;
          opts = \<lparr>po_encryption_policy = bp_encryption_policy (pl_profile plan),
                  po_compression_algorithm = bp_compression_algorithm (pl_profile plan)\<rparr>
      in if be_cancelled_file env i then cancelled_run sid
      else
        bind_op (pure_op (ok_or (ScanError (''Missing scan data for '' @ fc_relative_path c)) (fc_scanned c))) (\<lambda>s.
        bind_op (pure_op (map_err (\<lambda>e. InaccessibleFile (sf_absolute_path s) (io_message e))
          (be_open env i (sf_absolute_path s)))) (\<lambda>src.
        bind_op (pure_op (process_file (be_platform env) (be_sha env) (be_seal env) (be_payload_json env)
          (be_read env) (be_stage env i) (fc_file_id c) (fc_relative_path c) src (sf_size_bytes s) opts)) (\<lambda>pf.
        bind_op (record_file em (fc_kind c)
          (file_record (bp_profile_id (pl_profile plan)) c s (pfl_logical_file_hash pf))) (\<lambda>_.
        bind_op (db_op (save_manifest (be_platform env) (be_manifest_json env) em (pfl_manifest pf))) (\<lambda>_.
        bind_op (transfer_chunks env sid (fc_file_id c) i 0 (pfl_chunks pf) (pfl_manifest pf) n b) (\<lambda>(m, n', b').
        bind_op (db_op (save_manifest (be_platform env) (be_manifest_json env) em m)) (\<lambda>_.
        bind_op (bind_version env (be_stamp_file env i) (fc_file_id c) sid (manifest_id m)) (\<lambda>_.
          pure_op (Ok (n', b')))))))))))"

fun backup_files ::
  "('s, 'r) backup_env \<Rightarrow> BackupPlan \<Rightarrow> nat \<Rightarrow> FileChange list \<Rightarrow> nat \<Rightarrow> u64 \<Rightarrow> ('s, nat \<times> u64) backup_op" where
  "backup_files env plan i [] n b = pure_op (Ok (n, b))"
| "backup_files env plan i (c # cs) n b =
     bind_op (backup_file env plan i c n b) (\<lambda>(n', b'). backup_files env plan (Suc i) cs n' b')"

fun link_unchanged ::
  "('s, 'r) backup_env \<Rightarrow> ident_str \<Rightarrow> nat \<Rightarrow> FileChange list \<Rightarrow> ('s, unit) backup_op" where
  "link_unchanged env sid i [] = pure_op (Ok ())"
| "link_unchanged env sid i (c # cs) =
     (if be_cancelled_unchanged env i then cancelled_run sid
      else bind_op (case fc_previous_version c of
             Some v \<Rightarrow> bind_version env (be_stamp_unchanged env i) (fc_file_id c) sid (ver_manifest_id v)
           | None \<Rightarrow> pure_op (Ok ())) (\<lambda>_. link_unchanged env sid (Suc i) cs))"

fun mark_deleted :: "string \<Rightarrow> FileChange list \<Rightarrow> ('s, unit) backup_op" where
  "mark_deleted em [] = pure_op (Ok ())"
| "mark_deleted em (c # cs) =
     bind_op (case fc_previous_file c of
         Some f \<Rightarrow> ignore_op (db_op (update_file em (f\<lparr>fr_status := ''deleted''\<rparr>)))
       | None \<Rightarrow> pure_op (Ok ())) (\<lambda>_. mark_deleted em cs)"

definition backup_summary :: "('s, 'r) backup_env \<Rightarrow> BackupPlan \<Rightarrow> nat \<Rightarrow> u64 \<Rightarrow> BackupSummary" where
  "backup_summary env plan n b =
     (let cs = pl_change_set plan in
      \<lparr>bs_snapshot_id = pl_snapshot_id plan, bs_profile_id = bp_profile_id (pl_profile plan),
       bs_new_files = length (new_files cs), bs_modified_files = length (modified_files cs),
       bs_unchanged_files = length (unchanged_files cs), bs_deleted_files = length (deleted_files cs),
       bs_transferred_chunks = n, bs_transferred_bytes = b, bs_reused_bytes = total_reused_bytes cs,
       bs_status = BackupStatus.Completed, bs_elapsed_ms = be_elapsed_ms env, bs_error_message = None\<rparr>)"

definition complete_snapshot :: "('s, 'r) backup_env \<Rightarrow> BackupSummary \<Rightarrow> ('s, BackupSummary) backup_op" where
  "complete_snapshot env s st =
     (let meta = (case be_summary_json env s of Inr j \<Rightarrow> j | Inl _ \<Rightarrow> []);
          (db', r) = manager_update_status (bs_snapshot_id s) BackupStatus.Completed (Some meta) (bst_db st)
      in (st\<lparr>bst_db := db'\<rparr>, bind_res r (\<lambda>_. Ok s)))"

definition execute_backup_inner :: "('s, 'r) backup_env \<Rightarrow> BackupPlan \<Rightarrow> ('s, BackupSummary) backup_op" where
  "execute_backup_inner env plan =
     bind_op (link_unchanged env (pl_snapshot_id plan) 0 (unchanged_files (pl_change_set plan))) (\<lambda>_.
     bind_op (backup_files env plan 0 (to_transfer (pl_change_set plan)) 0 0) (\<lambda>(n, b).
     bind_op (mark_deleted (be_constraint_text env) (deleted_files (pl_change_set plan))) (\<lambda>_.
       complete_snapshot env (backup_summary env plan n b))))"

definition execute_backup :: "('s, 'r) backup_env \<Rightarrow> BackupPlan \<Rightarrow> ('s, BackupSummary) backup_op" where
  "execute_backup env plan st =
     (if be_cancelled_start env then (st, Err BackupError.Cancelled)
      else
        let (db1, created) = manager_create_snapshot (be_constraint_text env) (bp_profile_id (pl_profile plan))
              (pl_snapshot_id plan) BackupStatus.BackingUp (bst_db st)
        in case created of
          Inl e \<Rightarrow> (st\<lparr>bst_db := db1\<rparr>, Err e)
        | Inr _ \<Rightarrow>
            (case execute_backup_inner env plan (st\<lparr>bst_db := db1\<rparr>) of
               (st', Inr summary) \<Rightarrow> (st', Ok summary)
             | (st', Inl e) \<Rightarrow> (fst (fail_snapshot (pl_snapshot_id plan) (BackupError_display e) st'), Err e)))"

definition execute_profile_backup ::
  "('s, 'r) backup_env \<Rightarrow> scan_root \<Rightarrow> string \<Rightarrow> BackupProfile \<Rightarrow> ('s, BackupSummary) backup_op" where
  "execute_profile_backup env root stamp profile st =
     (case plan_backup (be_sha env) (be_platform env) root stamp (bst_db st) profile of
        Inl e \<Rightarrow> (st, Err e)
      | Inr plan \<Rightarrow> execute_backup env plan st)"


subsection \<open>What a run never undoes\<close>

text \<open>A relation between the catalogs before and after that the operations of a run respect.\<close>

locale catalog_order =
  fixes R :: "Database \<Rightarrow> Database \<Rightarrow> bool"
  assumes R_refl: "R db db" and R_trans: "\<lbrakk>R a b; R b c\<rbrakk> \<Longrightarrow> R a c"
begin

definition obeys :: "('s, 'a) backup_op \<Rightarrow> bool" where
  "obeys f \<longleftrightarrow> (\<forall>st. R (bst_db st) (bst_db (fst (f st))))"

lemma obeys_pure: "obeys (pure_op r)"
  by (simp add: obeys_def pure_op_def R_refl)

lemma obeys_db: "(\<And>db. R db (fst (f db))) \<Longrightarrow> obeys (db_op f)"
  by (simp add: obeys_def db_op_def split_beta)

lemma obeys_bind:
  assumes "obeys f" "\<And>a. obeys (g a)"
  shows "obeys (bind_op f g)"
  unfolding obeys_def
proof
  fix st
  obtain st' r where f: "f st = (st', r)" by fastforce
  have "R (bst_db st) (bst_db st')" using assms(1) f by (metis fst_conv obeys_def)
  then show "R (bst_db st) (bst_db (fst (bind_op f g st)))"
    using assms(2) f by (cases r) (auto simp: bind_op_def obeys_def intro: R_trans)
qed

lemma obeys_ignore: "obeys f \<Longrightarrow> obeys (ignore_op f)"
  by (simp add: obeys_def ignore_op_def)

lemma obeys_engine: "(\<And>st. bst_db (fst (f st)) = bst_db st) \<Longrightarrow> obeys f"
  by (simp add: obeys_def R_refl)

lemma obeysD: "\<lbrakk>obeys f; f st = (st', r)\<rbrakk> \<Longrightarrow> R (bst_db st) (bst_db st')"
  by (metis fst_conv obeys_def)

lemmas obeys_intros = obeys_pure obeys_bind obeys_ignore obeys_db

end

text \<open>Such a relation that the statements of the catalog used by a run respect is respected by the run.\<close>

locale catalog_run = catalog_order +
  assumes R_create_version: "R db (fst (create_version em v db))"
    and R_create_file: "R db (fst (create_file em f db))"
    and R_update_file: "R db (fst (update_file em f db))"
    and R_delete_chunks: "R db (fst (delete_chunks_by_file i db))"
    and R_save_manifest: "R db (fst (save_manifest pf ser em m db))"
    and R_create_chunk: "R db (fst (create_chunk em c db))"
    and R_upsert_job: "R db (fst (upsert_transfer_job em j db))"
    and R_update_snapshot: "R db (fst (update_snapshot_status_and_metadata i bst md db))"
begin

lemmas R_statements = R_create_version R_create_file R_update_file R_delete_chunks R_save_manifest
  R_create_chunk R_upsert_job R_update_snapshot

lemma fail_snapshot_obeys: "obeys (fail_snapshot sid reason)"
  by (simp add: obeys_def fail_snapshot_def manager_update_status_def split_beta Let_def R_statements)

lemma sync_job_obeys: "obeys (sync_job_to_db em jid)"
  by (auto simp: obeys_def sync_job_to_db_def db_op_def split_beta Let_def R_statements R_refl
      split: option.splits)

lemma upload_staged_obeys: "obeys (upload_staged env i j c job)"
  by (rule obeys_engine) (simp add: upload_staged_def Let_def)

lemma complete_snapshot_obeys: "obeys (complete_snapshot env s)"
  by (simp add: obeys_def complete_snapshot_def manager_update_status_def split_beta Let_def R_statements)

lemmas run_obeys = obeys_intros R_statements fail_snapshot_obeys sync_job_obeys
  upload_staged_obeys complete_snapshot_obeys

lemma cancelled_run_obeys: "obeys (cancelled_run sid)"
  unfolding cancelled_run_def by (intro run_obeys)

lemma bind_version_obeys: "obeys (bind_version env stamp fid sid mid)"
  unfolding bind_version_def by (intro run_obeys)

lemma transfer_chunks_obeys: "obeys (transfer_chunks env sid fid i j cs m n b)"
  by (induction cs arbitrary: j m n b) (auto intro!: run_obeys cancelled_run_obeys)

lemma record_file_obeys: "obeys (record_file em kind f)"
  by (auto simp: record_file_def intro!: run_obeys)

lemma backup_file_obeys: "obeys (backup_file env plan i c n b)"
  unfolding backup_file_def Let_def
  by (auto intro!: run_obeys cancelled_run_obeys record_file_obeys transfer_chunks_obeys
      bind_version_obeys split: prod.split)

lemma backup_files_obeys: "obeys (backup_files env plan i cs n b)"
  by (induction cs arbitrary: i n b) (auto intro!: run_obeys backup_file_obeys split: prod.split)

lemma link_unchanged_obeys: "obeys (link_unchanged env sid i cs)"
  by (induction cs arbitrary: i)
    (auto intro!: run_obeys cancelled_run_obeys bind_version_obeys split: option.split)

lemma mark_deleted_obeys: "obeys (mark_deleted em cs)"
  by (induction cs) (auto intro!: run_obeys split: option.split)

lemma execute_backup_inner_obeys: "obeys (execute_backup_inner env plan)"
  unfolding execute_backup_inner_def
  by (auto intro!: run_obeys link_unchanged_obeys backup_files_obeys mark_deleted_obeys split: prod.split)

end

definition extends :: "Database \<Rightarrow> Database \<Rightarrow> bool" where
  "extends db db' \<longleftrightarrow> (catalog_ok db \<longrightarrow> catalog_ok db') \<and> set (t_versions db) \<subseteq> set (t_versions db')
     \<and> map (\<lambda>s. (sr_snapshot_id s, sr_profile_id s)) (t_snapshots db')
       = map (\<lambda>s. (sr_snapshot_id s, sr_profile_id s)) (t_snapshots db)"

lemma extends_keeps:
  assumes "cat.keeps f" "set (t_versions db) \<subseteq> set (t_versions (fst (f db)))"
    "map (\<lambda>s. (sr_snapshot_id s, sr_profile_id s)) (t_snapshots (fst (f db)))
       = map (\<lambda>s. (sr_snapshot_id s, sr_profile_id s)) (t_snapshots db)"
  shows "extends db (fst (f db))"
  using assms by (simp add: extends_def cat.keeps_def)

lemma extends_statements:
  "extends db (fst (create_version em v db))" "extends db (fst (create_file em f db))"
  "extends db (fst (update_file em f db))" "extends db (fst (delete_chunks_by_file i db))"
  "extends db (fst (save_manifest pf ser em m db))" "extends db (fst (create_chunk em c db))"
  "extends db (fst (upsert_transfer_job em j db))"
  "extends db (fst (update_snapshot_status_and_metadata i bst md db))"
  subgoal by (rule extends_keeps [OF create_version_keeps]) (auto simp: create_version_def checked_def)
  subgoal by (rule extends_keeps [OF create_file_keeps]) (auto simp: create_file_def checked_def)
  subgoal by (rule extends_keeps [OF update_file_keeps]) (auto simp: update_file_def affecting_def checked_def)
  subgoal by (auto simp: extends_def delete_chunks_by_file_def delete_chunks_ok) (simp_all add: delete_chunks_where_def)
  subgoal by (rule extends_keeps [OF save_manifest_keeps])
      (auto simp: save_manifest_def insert_manifest_def checked_def Let_def split: sum.splits)
  subgoal by (rule extends_keeps [OF create_chunk_keeps]) (auto simp: create_chunk_def checked_def)
  subgoal by (rule extends_keeps [OF upsert_transfer_job_keeps])
      (auto simp: upsert_transfer_job_def insert_job_def checked_def update_jobs_def)
  subgoal by (rule extends_keeps [OF update_snapshot_keeps])
      (auto simp: update_snapshot_status_and_metadata_def affecting_def update_rows_def)
  done

interpretation ext: catalog_run extends
proof
  show "extends db db" for db by (simp add: extends_def)
  show "extends a c" if "extends a b" "extends b c" for a b c using that by (auto simp: extends_def)
qed (rule extends_statements)+

subsection \<open>A completed run\<close>

lemma bind_op_Ok:
  assumes "bind_op f g st = (st', Inr b)"
  obtains a st1 where "f st = (st1, Inr a)" "g a st1 = (st', Inr b)"
  using assms by (auto simp: bind_op_def split: prod.splits sum.splits)

lemma pure_op_Ok: "pure_op r st = (st', Inr a) \<longleftrightarrow> st' = st \<and> r = Inr a"
  by (auto simp: pure_op_def)

lemma cancelled_run_Ok: "cancelled_run sid st \<noteq> (st', Inr a)"
  by (auto simp: cancelled_run_def pure_op_def elim: bind_op_Ok)

definition has_version :: "ident_str \<Rightarrow> ident_str \<Rightarrow> Database \<Rightarrow> bool" where
  "has_version fid sid db \<longleftrightarrow> (\<exists>v \<in> set (t_versions db). ver_file_id v = fid \<and> ver_snapshot_id v = sid)"

definition has_version_of :: "ident_str \<Rightarrow> ident_str \<Rightarrow> string \<Rightarrow> Database \<Rightarrow> bool" where
  "has_version_of fid sid mid db \<longleftrightarrow>
     (\<exists>v \<in> set (t_versions db). ver_file_id v = fid \<and> ver_snapshot_id v = sid \<and> ver_manifest_id v = mid)"

lemma has_version_extends:
  "\<lbrakk>has_version_of fid sid mid db; extends db db'\<rbrakk> \<Longrightarrow> has_version_of fid sid mid db'"
  "\<lbrakk>has_version fid sid db; extends db db'\<rbrakk> \<Longrightarrow> has_version fid sid db'"
  by (auto simp: has_version_of_def has_version_def extends_def)

lemma bind_version_Ok:
  assumes "bind_version env stamp fid sid mid st = (st', Inr u)"
  shows "has_version_of fid sid mid (bst_db st')"
  using assms
  by (auto simp: bind_version_def bind_op_def pure_op_def db_op_def create_version_def checked_def has_version_of_def
      version_record_def Let_def split: sum.splits if_splits)

lemma link_unchanged_Ok:
  assumes "link_unchanged env sid i cs st = (st', Inr u)" "c \<in> set cs" "fc_previous_version c = Some v"
  shows "has_version_of (fc_file_id c) sid (ver_manifest_id v) (bst_db st')"
  using assms(1,2)
proof (induction cs arbitrary: i st)
  case (Cons d cs)
  from Cons.prems(1) obtain st1 a where
    one: "(case fc_previous_version d of
             Some v \<Rightarrow> bind_version env (be_stamp_unchanged env i) (fc_file_id d) sid (ver_manifest_id v)
           | None \<Rightarrow> pure_op (Ok ())) st = (st1, Inr a)"
    and rest: "link_unchanged env sid (Suc i) cs st1 = (st', Inr u)"
    by (auto simp: cancelled_run_Ok split: if_splits elim: bind_op_Ok)
  show ?case
  proof (cases "c = d")
    case True
    with one assms(3) have "has_version_of (fc_file_id c) sid (ver_manifest_id v) (bst_db st1)"
      by (auto dest: bind_version_Ok)
    then show ?thesis by (rule has_version_extends) (rule ext.obeysD [OF ext.link_unchanged_obeys rest])
  qed (use Cons rest in auto)
qed simp

lemma backup_file_Ok:
  assumes "backup_file env plan i c n b st = (st', Inr r)"
  shows "has_version (fc_file_id c) (pl_snapshot_id plan) (bst_db st')"
  using assms
  by (auto simp: backup_file_def Let_def cancelled_run_Ok pure_op_Ok has_version_def has_version_of_def
      split: if_splits elim!: bind_op_Ok dest!: bind_version_Ok)

lemma backup_files_Ok:
  assumes "backup_files env plan i cs n b st = (st', Inr r)" "c \<in> set cs"
  shows "has_version (fc_file_id c) (pl_snapshot_id plan) (bst_db st')"
  using assms
proof (induction cs arbitrary: i n b st)
  case (Cons d cs)
  from Cons.prems(1) obtain st1 n' b' where
    one: "backup_file env plan i d n b st = (st1, Inr (n', b'))"
    and rest: "backup_files env plan (Suc i) cs n' b' st1 = (st', Inr r)"
    by (auto elim!: bind_op_Ok)
  show ?case
  proof (cases "c = d")
    case True
    with backup_file_Ok [OF one] have "has_version (fc_file_id c) (pl_snapshot_id plan) (bst_db st1)" by simp
    then show ?thesis by (rule has_version_extends) (rule ext.obeysD [OF ext.backup_files_obeys rest])
  qed (use Cons rest in auto)
qed simp

lemma complete_snapshot_same: "complete_snapshot env s st = (st', Inr s') \<Longrightarrow> s' = s"
  by (auto simp: complete_snapshot_def Let_def bind_res_Inr_iff split: prod.splits)

lemma execute_backup_inner_Ok:
  assumes "execute_backup_inner env plan st = (st', Inr s)"
  shows "(\<forall>c \<in> set (to_transfer (pl_change_set plan)). has_version (fc_file_id c) (pl_snapshot_id plan) (bst_db st'))
    \<and> (\<forall>c \<in> set (unchanged_files (pl_change_set plan)). \<forall>v. fc_previous_version c = Some v \<longrightarrow>
         has_version_of (fc_file_id c) (pl_snapshot_id plan) (ver_manifest_id v) (bst_db st'))
    \<and> (\<exists>st3 n b. complete_snapshot env (backup_summary env plan n b) st3 = (st', Inr s)
         \<and> s = backup_summary env plan n b)"
proof -
  from assms obtain st1 u st2 n b st3 w where
    run: "link_unchanged env (pl_snapshot_id plan) 0 (unchanged_files (pl_change_set plan)) st = (st1, Inr u)"
      "backup_files env plan 0 (to_transfer (pl_change_set plan)) 0 0 st1 = (st2, Inr (n, b))"
      "mark_deleted (be_constraint_text env) (deleted_files (pl_change_set plan)) st2 = (st3, Inr w)"
      "complete_snapshot env (backup_summary env plan n b) st3 = (st', Inr s)"
    by (auto simp: execute_backup_inner_def elim!: bind_op_Ok)
  have b: "extends (bst_db st2) (bst_db st')"
    using ext.R_trans ext.obeysD [OF ext.mark_deleted_obeys run(3)] ext.obeysD [OF ext.complete_snapshot_obeys run(4)] by blast
  have a: "extends (bst_db st1) (bst_db st')"
    using ext.R_trans ext.obeysD [OF ext.backup_files_obeys run(2)] b by blast
  show ?thesis
    using run(4) complete_snapshot_same [OF run(4)] link_unchanged_Ok [OF run(1)] backup_files_Ok [OF run(2)]
      has_version_extends a b by blast
qed


lemma update_status_row:
  assumes "manager_update_status sid status md db = (db', res)" "has_key sr_snapshot_id (t_snapshots db) sid"
  shows "\<exists>row. get_snapshot db' sid = Some row \<and> sr_status row = status"
proof -
  from assms(2) obtain old where old: "find_first (\<lambda>s. sr_snapshot_id s = sid) (t_snapshots db) = Some old"
    by (auto simp: find_first_has_key)
  have "find_first (\<lambda>s. sr_snapshot_id s = sid) (update_rows (\<lambda>s. sr_snapshot_id s = sid)
      (\<lambda>s. s\<lparr>sr_status := status, sr_metadata := md\<rparr>) (t_snapshots db)) = Some (old\<lparr>sr_status := status, sr_metadata := md\<rparr>)"
    using find_first_update_rows [where f = "\<lambda>s. s\<lparr>sr_status := status, sr_metadata := md\<rparr>", OF assms(2)] old by simp
  then show ?thesis
    using assms
    by (auto simp: manager_update_status_def update_snapshot_status_and_metadata_def affecting_def get_snapshot_def)
qed

lemma fail_snapshot_row:
  assumes "has_key sr_snapshot_id (t_snapshots (bst_db st)) sid"
  shows "\<exists>row. get_snapshot (bst_db (fst (fail_snapshot sid reason st))) sid = Some row
    \<and> sr_status row = BackupStatus.Failed"
  unfolding fail_snapshot_def Let_def split_beta
  by (simp, rule update_status_row [OF prod.collapse [symmetric] assms])

lemma complete_snapshot_row:
  assumes "complete_snapshot env s st = (st', Inr s')"
  shows "\<exists>row. get_snapshot (bst_db st') (bs_snapshot_id s) = Some row \<and> sr_status row = BackupStatus.Completed"
proof -
  obtain md db' res where up: "manager_update_status (bs_snapshot_id s) BackupStatus.Completed md (bst_db st) = (db', res)"
      "st' = st\<lparr>bst_db := db'\<rparr>" "res = Inr ()"
    using assms by (auto simp: complete_snapshot_def Let_def bind_res_Inr_iff split: prod.splits)
  then have "has_key sr_snapshot_id (t_snapshots (bst_db st)) (bs_snapshot_id s)"
    by (auto simp: manager_update_status_def update_snapshot_status_and_metadata_def affecting_def split: if_splits)
  with update_status_row [OF up(1)] up(2) show ?thesis by simp
qed

lemma extends_has_snapshot:
  "extends db db' \<Longrightarrow> has_key sr_snapshot_id (t_snapshots db') sid \<longleftrightarrow> has_key sr_snapshot_id (t_snapshots db) sid"
  unfolding extends_def has_key_def by (metis (no_types, lifting) fst_conv image_cong image_image list.set_map)

lemma create_snapshot_cases:
  assumes "manager_create_snapshot em pid sid status db = (db1, created)"
  shows "case created of Inl _ \<Rightarrow> db1 = db
    | Inr _ \<Rightarrow> has_key sr_snapshot_id (t_snapshots db1) sid \<and> t_versions db1 = t_versions db
        \<and> (catalog_ok db \<longrightarrow> catalog_ok db1)"
proof -
  let ?r = "\<lparr>sr_snapshot_id = sid, sr_profile_id = pid, sr_status = status, sr_metadata = None,
    sr_created_at = ''2026-10-07T12:00:00Z''\<rparr>"
  have "catalog_ok db \<longrightarrow> catalog_ok (fst (create_snapshot em ?r db))"
    using create_snapshot_keeps [of em ?r] by (simp add: cat.keeps_def)
  with assms show ?thesis
    by (auto simp: manager_create_snapshot_def create_snapshot_def checked_def has_key_def Let_def split: if_splits)
qed

lemma execute_backup_outcome:
  assumes ok: "catalog_ok (bst_db st)" and run: "execute_backup env plan st = (st', r)"
  shows "catalog_ok (bst_db st') \<and> set (t_versions (bst_db st)) \<subseteq> set (t_versions (bst_db st'))
    \<and> (case r of
         Inr s \<Rightarrow> bs_snapshot_id s = pl_snapshot_id plan \<and>
           (\<exists>row. get_snapshot (bst_db st') (pl_snapshot_id plan) = Some row \<and> sr_status row = BackupStatus.Completed)
           \<and> (\<forall>c \<in> set (to_transfer (pl_change_set plan)).
                has_version (fc_file_id c) (pl_snapshot_id plan) (bst_db st'))
           \<and> (\<forall>c \<in> set (unchanged_files (pl_change_set plan)). \<forall>v. fc_previous_version c = Some v \<longrightarrow>
                has_version_of (fc_file_id c) (pl_snapshot_id plan) (ver_manifest_id v) (bst_db st'))
       | Inl e \<Rightarrow>
           bst_db st' = bst_db st
           \<or> (\<exists>row. get_snapshot (bst_db st') (pl_snapshot_id plan) = Some row \<and> sr_status row = BackupStatus.Failed))"
proof (cases "be_cancelled_start env")
  case True
  then show ?thesis using run ok by (auto simp: execute_backup_def)
next
  case False
  let ?sid = "pl_snapshot_id plan"
  obtain db1 created where c: "manager_create_snapshot (be_constraint_text env) (bp_profile_id (pl_profile plan))
      ?sid BackupStatus.BackingUp (bst_db st) = (db1, created)" by fastforce
  note created = create_snapshot_cases [OF c]
  show ?thesis
  proof (cases created)
    case (Inl e)
    then show ?thesis using run ok False c created by (auto simp: execute_backup_def Let_def)
  next
    case (Inr u)
    obtain st1 res where inner: "execute_backup_inner env plan (st\<lparr>bst_db := db1\<rparr>) = (st1, res)" by fastforce
    have start: "has_key sr_snapshot_id (t_snapshots db1) ?sid" "t_versions db1 = t_versions (bst_db st)" "catalog_ok db1"
      using created ok Inr by auto
    have ext: "extends db1 (bst_db st1)"
      using ext.obeysD [OF ext.execute_backup_inner_obeys inner] by simp
    show ?thesis
    proof (cases res)
      case (Inl e)
      let ?st2 = "fst (fail_snapshot ?sid (BackupError_display e) st1)"
      have st': "st' = ?st2" "r = Inl e"
        using run False c inner Inl \<open>created = Inr u\<close> by (auto simp: execute_backup_def Let_def)
      have "extends (bst_db st1) (bst_db ?st2)" using ext.fail_snapshot_obeys by (auto simp: ext.obeys_def)
      then have "extends db1 (bst_db ?st2)" using ext ext.R_trans by blast
      moreover have "\<exists>row. get_snapshot (bst_db ?st2) ?sid = Some row \<and> sr_status row = BackupStatus.Failed"
        using ext start(1) by (intro fail_snapshot_row) (simp add: extends_has_snapshot)
      ultimately show ?thesis using start st' by (simp add: extends_def)
    next
      case (Inr s)
      have st': "st' = st1" "r = Inr s"
        using run False c inner Inr \<open>created = Inr u\<close> by (auto simp: execute_backup_def Let_def)
      note complete = execute_backup_inner_Ok [OF inner [unfolded Inr]]
      then obtain st3 n b where cs: "complete_snapshot env (backup_summary env plan n b) st3 = (st1, Inr s)"
        and s: "s = backup_summary env plan n b" by blast
      from complete_snapshot_row [OF cs] have
        "\<exists>row. get_snapshot (bst_db st1) ?sid = Some row \<and> sr_status row = BackupStatus.Completed"
        by (simp add: backup_summary_def Let_def)
      moreover have "bs_snapshot_id s = ?sid" using s by (simp add: backup_summary_def Let_def)
      ultimately show ?thesis using st' complete start ext by (simp add: extends_def)
    qed
  qed
qed

subsection \<open>Properties\<close>

text \<open>C2. Executing a backup keeps the catalog well-formed, removes no version, and never leaves its
  snapshot open: when it reports success the snapshot is completed and holds a version of every new and
  modified file, and for every unchanged file one bound to the previous manifest; when it reports an
  error either nothing was written or the snapshot is marked as failed.\<close>

theorem execute_backup_closes_snapshot:
  assumes ok: "catalog_ok (bst_db st)" and run: "execute_backup env plan st = (st', r)"
  shows "catalog_ok (bst_db st') \<and> set (t_versions (bst_db st)) \<subseteq> set (t_versions (bst_db st'))
    \<and> (case r of
         Inr s \<Rightarrow>
           (\<exists>row. get_snapshot (bst_db st') (pl_snapshot_id plan) = Some row \<and> sr_status row = BackupStatus.Completed)
           \<and> (\<forall>c \<in> set (to_transfer (pl_change_set plan)).
                has_version (fc_file_id c) (pl_snapshot_id plan) (bst_db st'))
           \<and> (\<forall>c \<in> set (unchanged_files (pl_change_set plan)). \<forall>v. fc_previous_version c = Some v \<longrightarrow>
                has_version_of (fc_file_id c) (pl_snapshot_id plan) (ver_manifest_id v) (bst_db st'))
       | Inl e \<Rightarrow>
           bst_db st' = bst_db st
           \<or> (\<exists>row. get_snapshot (bst_db st') (pl_snapshot_id plan) = Some row \<and> sr_status row = BackupStatus.Failed))"
  using execute_backup_outcome [OF assms] by (auto split: sum.splits)


definition sample_run :: "(MockStorageProvider, bytes) backup_env" where
  "sample_run =
     \<lparr>be_platform = unix_platform, be_sha = (\<lambda>_. sample_digest), be_seal = sample_seal,
      be_payload_json = sample_json, be_manifest_json = (\<lambda>_. Inr ''m''), be_summary_json = (\<lambda>_. Inr ''s''),
      be_debug = (\<lambda>_. ''r''), be_constraint_text = ''e'', be_retry = sample_policy,
      be_put = mock_upload (\<lambda>_. sample_digest), be_check = mock_verify, be_callback = False,
      be_cancelled_start = False, be_cancelled_unchanged = (\<lambda>_. False), be_cancelled_file = (\<lambda>_. False),
      be_cancelled_chunk = (\<lambda>_ _. False), be_open = (\<lambda>_ _. Inr []), be_read = slice_read,
      be_stage = (\<lambda>_ _. sample_stage), be_attempt_cancelled = (\<lambda>_ _ _. False), be_attempt_open = (\<lambda>_ _ _. None),
      be_attempt_obs = (\<lambda>_ _ _. never_cancelled), be_remove_ok = True, be_remove_text = [],
      be_stamp_unchanged = (\<lambda>_. ''1''), be_stamp_file = (\<lambda>_. ''2''), be_elapsed_ms = 0\<rparr>"

definition sample_change :: FileChange where
  "sample_change = \<lparr>fc_kind = Unchanged, fc_file_id = ''f1'', fc_relative_path = ''a'', fc_scanned = None,
     fc_previous_file = None,
     fc_previous_version = Some (version_record ''v0'' ''f1'' ''s1'' (manifest_id sample_manifest))\<rparr>"

definition sample_plan :: BackupPlan where
  "sample_plan = BackupPlan_new (BackupProfile_new ''p1'' ''n'' ''/'') ''s3'' \<lparr>changes = [sample_change]\<rparr>"

definition sample_state :: "MockStorageProvider backup_state" where
  "sample_state = \<lparr>bst_db = repair_sample_db, bst_engine = sample_engine False\<rparr>"

lemma sample_state_ok: "catalog_ok (bst_db sample_state)"
  by (simp add: sample_state_def repair_sample_db_def sample_db_rows open_in_memory_def sample_profile_def
      sample_file_def sample_snapshot_def catalog_ok_defs table_simps keyed_def refs_def has_key_def slots_ok_def same_slot_def
      refs_opt_def ref_ok_def auth_refs_def)

theorem execute_backup_closes_snapshot_witness:
  "\<exists>st' s row. execute_backup sample_run sample_plan sample_state = (st', Inr s)
   \<and> get_snapshot (bst_db st') ''s3'' = Some row \<and> sr_status row = BackupStatus.Completed
   \<and> has_version_of ''f1'' ''s3'' ''m1'' (bst_db st')"
proof -
  have vid: "id_new ''VersionId'' ''ver-1'' = Inr ''ver-1''" by code_simp
  have sets: "to_transfer (pl_change_set sample_plan) = []" "deleted_files (pl_change_set sample_plan) = []"
      "unchanged_files (pl_change_set sample_plan) = [sample_change]" "pl_snapshot_id sample_plan = ''s3''"
      "bp_profile_id (pl_profile sample_plan) = ''p1''"
    by (simp_all add: sample_plan_def BackupPlan_new_def BackupProfile_new_def to_transfer_def deleted_files_def
        unchanged_files_def of_kind_def sample_change_def)
  have "\<exists>st' s. execute_backup sample_run sample_plan sample_state = (st', Inr s)"
    by (simp add: execute_backup_def execute_backup_inner_def sets sample_run_def sample_state_def
        sample_change_def version_record_def bind_version_def bind_op_def pure_op_def db_op_def vid
        manager_create_snapshot_def create_snapshot_def create_version_def checked_def has_key_def
        repair_sample_db_def sample_db_rows open_in_memory_def sample_profile_def sample_file_def sample_snapshot_def
        complete_snapshot_def manager_update_status_def update_snapshot_status_and_metadata_def affecting_def
        backup_summary_def update_rows_def Let_def)
  then obtain st' s where run: "execute_backup sample_run sample_plan sample_state = (st', Inr s)" by blast
  have "fc_previous_version sample_change = Some (version_record ''v0'' ''f1'' ''s1'' ''m1'')" "fc_file_id sample_change = ''f1''"
    by (simp_all add: sample_change_def sample_manifest_def)
  then show ?thesis
    using execute_backup_closes_snapshot [OF sample_state_ok run] run
    by (simp add: sets version_record_def)
qed

text \<open>A new file whose identifier, a hash of the relative path alone, is already in the catalog cannot be
  backed up: whatever the environment, the loop stops with an error there.\<close>

lemma new_file_conflict:
  assumes "fc_kind c = New" "has_key fr_file_id (t_files (bst_db st)) (fc_file_id c)"
  shows "\<exists>st' e. backup_file env plan i c n b st = (st', Inl e)"
proof -
  obtain st' r where run: "backup_file env plan i c n b st = (st', r)" by fastforce
  show ?thesis
  proof (cases r)
    case (Inr a)
    with run have False
      using assms
      by (auto simp: backup_file_def Let_def cancelled_run_Ok pure_op_Ok record_file_def db_op_def create_file_def
          checked_def file_record_def split: if_splits elim!: bind_op_Ok)
    then show ?thesis ..
  qed (use run in simp)
qed

end
