(* ===== verification/Schedule_Service.thy ===== *)
theory Schedule_Service
  imports Schedule_Expr Backup_Engine
begin

text \<open>
  The schedule service of televault-scheduler (\<open>guard.rs\<close>, \<open>types.rs\<close>, \<open>service.rs\<close>): the registry
  that keeps two runs of a profile apart, the schedule operations over the catalog, the execution of
  one scheduled backup and the body of the service loop.

  An operation of the service returns its state and an outcome, None being a panic; an execution may
  also not return, since the search for the next run in local time may not. The chrono library (text
  of a time stamp, its parsing) is the record \<open>sched_lib\<close>; the readings of the clock and what a backup
  meets are the records \<open>exec_env\<close> and \<open>tick_env\<close>. A run is one step here: other writers of the
  catalog are steps before or after it.
\<close>

subsection \<open>guard.rs\<close>

record ExecutionGuard =
  eg_active :: "ident_str set"
  eg_poisoned :: "string option"

record ProfileGuard =
  pg_profile_id :: ident_str

definition ExecutionGuard_new :: ExecutionGuard where
  "ExecutionGuard_new = \<lparr>eg_active = {}, eg_poisoned = None\<rparr>"

definition try_acquire ::
  "ident_str \<Rightarrow> ExecutionGuard \<Rightarrow> ExecutionGuard \<times> (SchedulerError, ProfileGuard) result" where
  "try_acquire pid g =
     (case eg_poisoned g of
        Some m \<Rightarrow> (g, Err (SchedulerError.Internal (''Execution guard lock poisoned: '' @ m)))
      | None \<Rightarrow>
          if pid \<in> eg_active g then (g, Err (ProfileAlreadyRunning pid))
          else (g\<lparr>eg_active := insert pid (eg_active g)\<rparr>, Ok \<lparr>pg_profile_id = pid\<rparr>))"

definition drop_guard :: "ProfileGuard \<Rightarrow> ExecutionGuard \<Rightarrow> ExecutionGuard" where
  "drop_guard h g =
     (case eg_poisoned g of
        Some _ \<Rightarrow> g
      | None \<Rightarrow> g\<lparr>eg_active := eg_active g - {pg_profile_id h}\<rparr>)"

definition is_running :: "ident_str \<Rightarrow> ExecutionGuard \<Rightarrow> bool" where
  "is_running pid g = (case eg_poisoned g of Some _ \<Rightarrow> False | None \<Rightarrow> pid \<in> eg_active g)"

definition active_profiles :: "ExecutionGuard \<Rightarrow> ident_str set" where
  "active_profiles g = (case eg_poisoned g of Some _ \<Rightarrow> {} | None \<Rightarrow> eg_active g)"

text \<open>Threads that share the registry: guards are taken, refused, dropped, and the lock may be
  poisoned by a thread that panics while it holds it.\<close>

inductive guard_step ::
  "ExecutionGuard \<times> ProfileGuard list \<Rightarrow> ExecutionGuard \<times> ProfileGuard list \<Rightarrow> bool" where
  taken: "try_acquire pid g = (g', Inr h) \<Longrightarrow> guard_step (g, hs) (g', h # hs)"
| refused: "try_acquire pid g = (g', Inl e) \<Longrightarrow> guard_step (g, hs) (g', hs)"
| dropped: "h \<in> set hs \<Longrightarrow> guard_step (g, hs) (drop_guard h g, remove1 h hs)"
| poisoned: "guard_step (g, hs) (g\<lparr>eg_poisoned := Some m\<rparr>, hs)"

inductive guard_reachable :: "ExecutionGuard \<times> ProfileGuard list \<Rightarrow> bool" where
  fresh: "guard_reachable (ExecutionGuard_new, [])"
| after: "\<lbrakk>guard_reachable s; guard_step s s'\<rbrakk> \<Longrightarrow> guard_reachable s'"

definition guards_ok :: "ExecutionGuard \<times> ProfileGuard list \<Rightarrow> bool" where
  "guards_ok = (\<lambda>(g, hs). distinct (map pg_profile_id hs) \<and> pg_profile_id ` set hs \<subseteq> eg_active g
     \<and> (eg_poisoned g = None \<longrightarrow> pg_profile_id ` set hs = eg_active g))"

lemma pg_eq: "pg_profile_id h = pg_profile_id h' \<longleftrightarrow> h = (h' :: ProfileGuard)"
  by (cases h, cases h') auto

lemma guard_step_ok: "guard_step s s' \<Longrightarrow> guards_ok s \<Longrightarrow> guards_ok s'"
proof (induction rule: guard_step.induct)
  case (dropped h hs g)
  then have "distinct hs" by (auto simp: guards_ok_def distinct_map)
  have "pg_profile_id ` (set hs - {h}) = pg_profile_id ` set hs - {pg_profile_id h}" by (auto simp: pg_eq)
  moreover have "distinct (map pg_profile_id (remove1 h hs))"
    using \<open>distinct hs\<close> by (auto simp: distinct_map inj_on_def pg_eq distinct_remove1)
  ultimately show ?case
    using dropped \<open>distinct hs\<close> by (auto simp: guards_ok_def drop_guard_def pg_eq split: option.splits)
qed (auto simp: guards_ok_def try_acquire_def split: option.splits if_splits)

lemma guard_reachable_ok: "guard_reachable s \<Longrightarrow> guards_ok s"
proof (induction rule: guard_reachable.induct)
  case fresh
  show ?case by (simp add: guards_ok_def ExecutionGuard_new_def)
qed (rule guard_step_ok)

subsection \<open>types.rs\<close>

datatype MissedSchedulePolicy = RunOnceIfMissed | SkipToNext

datatype SchedulerServiceStatus = Running | Stopped | Paused

fun SchedulerServiceStatus_display :: "SchedulerServiceStatus \<Rightarrow> string" where
  "SchedulerServiceStatus_display Running = ''running''"
| "SchedulerServiceStatus_display Stopped = ''stopped''"
| "SchedulerServiceStatus_display Paused = ''paused''"

record Schedule =
  sch_schedule_id :: ident_str
  sch_profile_id :: ident_str
  sch_schedule_type :: ScheduleType
  sch_expression :: string
  sch_timezone :: TimezoneStrategy
  sch_enabled :: bool
  sch_next_run_at :: "instant option"
  sch_last_run_at :: "instant option"
  sch_last_status :: "string option"
  sch_last_error_code :: "string option"
  sch_created_at :: instant
  sch_updated_at :: instant

record CreateScheduleParams =
  csp_schedule_id :: "ident_str option"
  csp_profile_id :: ident_str
  csp_schedule_type :: ScheduleType
  csp_expression :: string
  csp_timezone :: "TimezoneStrategy option"
  csp_enabled :: "bool option"

record UpdateScheduleParams =
  usp_schedule_id :: ident_str
  usp_schedule_type :: "ScheduleType option"
  usp_expression :: "string option"
  usp_timezone :: "TimezoneStrategy option"
  usp_enabled :: "bool option"

subsection \<open>State and parameters of the service\<close>

record 's SchedulerService =
  svc_backup :: "'s backup_state"
  svc_guard :: ExecutionGuard
  svc_notified :: bool
  svc_cancelled :: bool
  svc_status :: SchedulerServiceStatus
  svc_task :: bool

abbreviation svc_db :: "'s SchedulerService \<Rightarrow> Database" where
  "svc_db st \<equiv> bst_db (svc_backup st)"

record sched_lib =
  sl_overflow_checks :: bool
  sl_calendar :: calendar
  sl_zone :: zone
  sl_to_rfc3339 :: "instant \<Rightarrow> string"
  sl_parse_rfc3339 :: "string \<Rightarrow> instant option"
  sl_constraint_text :: string

type_synonym ('s, 'a) service_op = "'s SchedulerService \<Rightarrow> 's SchedulerService \<times> 'a run"

text \<open>The new service; \<open>notify_one\<close> leaves at most one permit.\<close>

definition SchedulerService_new :: "'s backup_state \<Rightarrow> 's SchedulerService" where
  "SchedulerService_new bst =
     \<lparr>svc_backup = bst, svc_guard = ExecutionGuard_new, svc_notified = False, svc_cancelled = False,
      svc_status = Stopped, svc_task = False\<rparr>"

definition notify_one :: "'s SchedulerService \<Rightarrow> 's SchedulerService" where
  "notify_one st = st\<lparr>svc_notified := True\<rparr>"

definition start_service :: "'s SchedulerService \<Rightarrow> 's SchedulerService \<times> (SchedulerError, unit) result" where
  "start_service st =
     (if svc_status st = Running then (st, Ok ())
      else (st\<lparr>svc_status := Running, svc_task := True\<rparr>, Ok ()))"

text \<open>Stopping cancels the token and waits for the task, which ends at its next look at the token.\<close>

definition stop_service :: "'s SchedulerService \<Rightarrow> 's SchedulerService \<times> (SchedulerError, unit) result" where
  "stop_service st =
     (let st1 = notify_one (st\<lparr>svc_status := Stopped, svc_cancelled := True\<rparr>)
      in (st1\<lparr>svc_task := False\<rparr>, Ok ()))"

definition put_db :: "Database \<Rightarrow> 's SchedulerService \<Rightarrow> 's SchedulerService" where
  "put_db db st = st\<lparr>svc_backup := (svc_backup st)\<lparr>bst_db := db\<rparr>\<rparr>"

text \<open>A statement whose result is thrown away (\<open>let _ =\<close>).\<close>

definition quiet :: "'a exec \<Rightarrow> 's SchedulerService \<Rightarrow> 's SchedulerService" where
  "quiet f st = put_db (fst (f (svc_db st))) st"

subsection \<open>Schedules\<close>

definition record_to_domain :: "sched_lib \<Rightarrow> instant \<Rightarrow> ScheduleRecord \<Rightarrow> (SchedulerError, Schedule) result" where
  "record_to_domain lib fallback r =
     bind_res (ScheduleType_from_str (scr_schedule_type r)) (\<lambda>ty.
     bind_res (TimezoneStrategy_from_str (scr_timezone r)) (\<lambda>tz.
     let or_now = (\<lambda>s. case sl_parse_rfc3339 lib s of Some t \<Rightarrow> t | None \<Rightarrow> fallback) in
     Ok \<lparr>sch_schedule_id = scr_schedule_id r, sch_profile_id = scr_profile_id r, sch_schedule_type = ty,
         sch_expression = scr_expression r, sch_timezone = tz, sch_enabled = scr_enabled r,
         sch_next_run_at = Option.bind (scr_next_run_at r) (sl_parse_rfc3339 lib),
         sch_last_run_at = Option.bind (scr_last_run_at r) (sl_parse_rfc3339 lib),
         sch_last_status = scr_last_status r, sch_last_error_code = scr_last_error_code r,
         sch_created_at = or_now (scr_created_at r), sch_updated_at = or_now (scr_updated_at r)\<rparr>))"

definition service_get_schedule ::
  "sched_lib \<Rightarrow> instant \<Rightarrow> ident_str \<Rightarrow> 's SchedulerService \<Rightarrow> (SchedulerError, Schedule) result" where
  "service_get_schedule lib fallback i st =
     bind_res (ok_or (ScheduleNotFound i) (get_schedule (svc_db st) i)) (record_to_domain lib fallback)"

fun records_to_domain :: "sched_lib \<Rightarrow> instant \<Rightarrow> ScheduleRecord list \<Rightarrow> (SchedulerError, Schedule list) result" where
  "records_to_domain lib fallback [] = Ok []"
| "records_to_domain lib fallback (r # rs) =
     bind_res (record_to_domain lib fallback r) (\<lambda>s.
     bind_res (records_to_domain lib fallback rs) (\<lambda>ss. Ok (s # ss)))"

definition service_list_schedules ::
  "sched_lib \<Rightarrow> instant \<Rightarrow> 's SchedulerService \<Rightarrow> (SchedulerError, Schedule list) result" where
  "service_list_schedules lib fallback st = records_to_domain lib fallback (list_schedules (svc_db st))"

definition service_list_schedules_for_profile ::
  "sched_lib \<Rightarrow> instant \<Rightarrow> ident_str \<Rightarrow> 's SchedulerService \<Rightarrow> (SchedulerError, Schedule list) result" where
  "service_list_schedules_for_profile lib fallback pid st =
     records_to_domain lib fallback (list_schedules_for_profile (svc_db st) pid)"

definition next_run_of :: "sched_lib \<Rightarrow> Schedule \<Rightarrow> instant \<Rightarrow> instant run option" where
  "next_run_of lib s from_utc =
     calculate_next_run (sl_overflow_checks lib) (sl_calendar lib) (sl_zone lib)
       (sch_schedule_type s) (sch_expression s) (sch_timezone s) from_utc"

text \<open>Continue with the next run; the search may not return, panic or report an error.\<close>

definition with_next ::
  "instant run option \<Rightarrow> (instant \<Rightarrow> 's SchedulerService \<Rightarrow> ('s SchedulerService \<times> 'a run) option)
     \<Rightarrow> 's SchedulerService \<Rightarrow> ('s SchedulerService \<times> 'a run) option" where
  "with_next r f st =
     (case r of
        None \<Rightarrow> None
      | Some None \<Rightarrow> Some (st, None)
      | Some (Some (Inl e)) \<Rightarrow> Some (st, Some (Err e))
      | Some (Some (Inr t)) \<Rightarrow> f t st)"

definition schedule_record :: "sched_lib \<Rightarrow> instant \<Rightarrow> Schedule \<Rightarrow> ScheduleRecord" where
  "schedule_record lib now s =
     \<lparr>scr_schedule_id = sch_schedule_id s, scr_profile_id = sch_profile_id s,
      scr_schedule_type = ScheduleType_display (sch_schedule_type s), scr_expression = sch_expression s,
      scr_timezone = TimezoneStrategy_display (sch_timezone s), scr_enabled = sch_enabled s,
      scr_next_run_at = map_option (sl_to_rfc3339 lib) (sch_next_run_at s),
      scr_last_run_at = map_option (sl_to_rfc3339 lib) (sch_last_run_at s),
      scr_last_status = sch_last_status s, scr_last_error_code = sch_last_error_code s,
      scr_created_at = sl_to_rfc3339 lib (sch_created_at s), scr_updated_at = sl_to_rfc3339 lib now\<rparr>"

definition store_schedule ::
  "sched_lib \<Rightarrow> instant \<Rightarrow> instant \<Rightarrow> (string \<Rightarrow> ScheduleRecord \<Rightarrow> unit exec) \<Rightarrow> Schedule
     \<Rightarrow> ('s, Schedule) service_op" where
  "store_schedule lib fallback now stmt s st =
     (case stmt (sl_constraint_text lib) (schedule_record lib now s) (svc_db st) of
        (db', Inl e) \<Rightarrow> (put_db db' st, Some (Err (SchedulerError.Database e)))
      | (db', Inr _) \<Rightarrow>
          let st' = notify_one (put_db db' st)
          in (st', Some (service_get_schedule lib fallback (sch_schedule_id s) st')))"

definition planned_next ::
  "sched_lib \<Rightarrow> Schedule \<Rightarrow> instant \<Rightarrow> (instant option \<Rightarrow> 's SchedulerService \<Rightarrow> ('s SchedulerService \<times> 'a run) option)
     \<Rightarrow> 's SchedulerService \<Rightarrow> ('s SchedulerService \<times> 'a run) option" where
  "planned_next lib s now f st =
     (if sch_enabled s then with_next (next_run_of lib s now) (\<lambda>t. f (Some t)) st else f None st)"

definition service_create_schedule ::
  "sched_lib \<Rightarrow> instant \<Rightarrow> instant \<Rightarrow> string \<Rightarrow> CreateScheduleParams \<Rightarrow> 's SchedulerService
     \<Rightarrow> ('s SchedulerService \<times> Schedule run) option" where
  "service_create_schedule lib now fallback stamp p st =
     (case validate_expression (sl_overflow_checks lib) (csp_schedule_type p) (csp_expression p) of
        None \<Rightarrow> Some (st, None)
      | Some (Inl e) \<Rightarrow> Some (st, Some (Err e))
      | Some (Inr _) \<Rightarrow>
          if get_profile (svc_db st) (csp_profile_id p) = None
          then Some (st, Some (Err (SchedulerError.ProfileNotFound (csp_profile_id p))))
          else
            (case (case csp_schedule_id p of Some i \<Rightarrow> Ok i | None \<Rightarrow> id_new ''ScheduleId'' (''sched-'' @ stamp)) of
               Inl _ \<Rightarrow> Some (st, None)
             | Inr i \<Rightarrow>
                 let s = \<lparr>sch_schedule_id = i, sch_profile_id = csp_profile_id p,
                          sch_schedule_type = csp_schedule_type p, sch_expression = csp_expression p,
                          sch_timezone = (case csp_timezone p of Some tz \<Rightarrow> tz | None \<Rightarrow> Local),
                          sch_enabled = (case csp_enabled p of Some b \<Rightarrow> b | None \<Rightarrow> True),
                          sch_next_run_at = None, sch_last_run_at = None,
                          sch_last_status = Some ''idle'', sch_last_error_code = None,
                          sch_created_at = now, sch_updated_at = now\<rparr>
                 in planned_next lib s now (\<lambda>t st.
                      Some (store_schedule lib fallback now create_schedule (s\<lparr>sch_next_run_at := t\<rparr>) st)) st))"

definition apply_update :: "UpdateScheduleParams \<Rightarrow> Schedule \<Rightarrow> Schedule" where
  "apply_update p s =
     s\<lparr>sch_schedule_type := (case usp_schedule_type p of Some ty \<Rightarrow> ty | None \<Rightarrow> sch_schedule_type s),
       sch_expression := (case usp_expression p of Some e \<Rightarrow> e | None \<Rightarrow> sch_expression s),
       sch_timezone := (case usp_timezone p of Some tz \<Rightarrow> tz | None \<Rightarrow> sch_timezone s),
       sch_enabled := (case usp_enabled p of Some b \<Rightarrow> b | None \<Rightarrow> sch_enabled s)\<rparr>"

definition changed_timing :: "UpdateScheduleParams \<Rightarrow> Schedule \<Rightarrow> bool" where
  "changed_timing p s \<longleftrightarrow> usp_schedule_type p \<noteq> None \<or> usp_expression p \<noteq> None \<or> usp_timezone p \<noteq> None
     \<or> (case usp_enabled p of Some b \<Rightarrow> sch_enabled s \<noteq> b | None \<Rightarrow> False)"

definition service_update_schedule ::
  "sched_lib \<Rightarrow> instant \<Rightarrow> instant \<Rightarrow> UpdateScheduleParams \<Rightarrow> 's SchedulerService
     \<Rightarrow> ('s SchedulerService \<times> Schedule run) option" where
  "service_update_schedule lib now fallback p st =
     (case service_get_schedule lib fallback (usp_schedule_id p) st of
        Inl e \<Rightarrow> Some (st, Some (Err e))
      | Inr old \<Rightarrow>
          let s = apply_update p old in
          (case validate_expression (sl_overflow_checks lib) (sch_schedule_type s) (sch_expression s) of
             None \<Rightarrow> Some (st, None)
           | Some (Inl e) \<Rightarrow> Some (st, Some (Err e))
           | Some (Inr _) \<Rightarrow>
               (if changed_timing p old then
                  planned_next lib s now (\<lambda>t st.
                    Some (store_schedule lib fallback now update_schedule (s\<lparr>sch_next_run_at := t\<rparr>) st)) st
                else Some (store_schedule lib fallback now update_schedule s st))))"

definition service_delete_schedule :: "ident_str \<Rightarrow> ('s, bool) service_op" where
  "service_delete_schedule i st =
     (case delete_schedule i (svc_db st) of
        (db', Inl e) \<Rightarrow> (put_db db' st, Some (Err (SchedulerError.Database e)))
      | (db', Inr deleted) \<Rightarrow>
          (if deleted then notify_one (put_db db' st) else put_db db' st, Some (Ok deleted)))"

definition enable_schedule ::
  "sched_lib \<Rightarrow> instant \<Rightarrow> instant \<Rightarrow> ident_str \<Rightarrow> 's SchedulerService \<Rightarrow> ('s SchedulerService \<times> Schedule run) option" where
  "enable_schedule lib now fallback i =
     service_update_schedule lib now fallback
       \<lparr>usp_schedule_id = i, usp_schedule_type = None, usp_expression = None, usp_timezone = None,
        usp_enabled = Some True\<rparr>"

definition disable_schedule ::
  "sched_lib \<Rightarrow> instant \<Rightarrow> instant \<Rightarrow> ident_str \<Rightarrow> 's SchedulerService \<Rightarrow> ('s SchedulerService \<times> Schedule run) option" where
  "disable_schedule lib now fallback i =
     service_update_schedule lib now fallback
       \<lparr>usp_schedule_id = i, usp_schedule_type = None, usp_expression = None, usp_timezone = None,
        usp_enabled = Some False\<rparr>"

definition get_history :: "ident_str \<Rightarrow> nat \<Rightarrow> 's SchedulerService \<Rightarrow> ScheduleHistoryRecord list" where
  "get_history i limit st = list_schedule_history (svc_db st) i limit"

subsection \<open>Execution of one schedule\<close>

text \<open>What an execution meets: the readings of the clock at its start, at its end and for the next
  run, the stamps of its identifiers, the directory tree and the environment of the backup.\<close>

record ('s, 'r) exec_env =
  xe_now :: instant
  xe_completed :: instant
  xe_next_from :: instant
  xe_history_stamp :: string
  xe_plan_stamp :: string
  xe_db_now :: string
  xe_root :: scan_root
  xe_backup :: "('s, 'r) backup_env"

definition set_status ::
  "('s, 'r) exec_env \<Rightarrow> Schedule \<Rightarrow> string option \<Rightarrow> string option \<Rightarrow> string \<Rightarrow> string option
     \<Rightarrow> 's SchedulerService \<Rightarrow> 's SchedulerService" where
  "set_status env s nxt lst status code =
     quiet (update_schedule_status (xe_db_now env) (sch_schedule_id s) nxt lst (Some status) code)"

definition history_record :: "sched_lib \<Rightarrow> ('s, 'r) exec_env \<Rightarrow> Schedule \<Rightarrow> (BackupError, BackupSummary) result \<Rightarrow> ScheduleHistoryRecord" where
  "history_record lib env s result =
     \<lparr>shr_history_id = ''hist-'' @ xe_history_stamp env, shr_schedule_id = sch_schedule_id s,
      shr_profile_id = sch_profile_id s, shr_started_at = sl_to_rfc3339 lib (xe_now env),
      shr_completed_at = Some (sl_to_rfc3339 lib (xe_completed env)),
      shr_status = (case result of Inr _ \<Rightarrow> ''completed'' | Inl _ \<Rightarrow> ''failed''),
      shr_snapshot_id = (case result of Inr m \<Rightarrow> Some (bs_snapshot_id m) | Inl _ \<Rightarrow> None),
      shr_files_processed = (case result of
         Inr m \<Rightarrow> of_nat (bs_new_files m + bs_modified_files m + bs_unchanged_files m) | Inl _ \<Rightarrow> 0),
      shr_bytes_transferred = (case result of Inr m \<Rightarrow> bs_transferred_bytes m | Inl _ \<Rightarrow> 0),
      shr_error_code = (case result of Inr _ \<Rightarrow> None | Inl _ \<Rightarrow> Some ''BACKUP_FAILED''),
      shr_error_message = (case result of Inr _ \<Rightarrow> None | Inl e \<Rightarrow> Some (BackupError_display e))\<rparr>"

definition record_outcome ::
  "sched_lib \<Rightarrow> ('s, 'r) exec_env \<Rightarrow> Schedule \<Rightarrow> (BackupError, BackupSummary) result \<Rightarrow> instant
     \<Rightarrow> 's SchedulerService \<Rightarrow> ('s SchedulerService \<times> ident_str option run) option" where
  "record_outcome lib env s result next_run st =
     (let st1 = quiet (record_schedule_history (sl_constraint_text lib) (history_record lib env s result)) st;
          nxt = Some (sl_to_rfc3339 lib next_run);
          lst = Some (sl_to_rfc3339 lib (xe_completed env))
      in case result of
        Inr m \<Rightarrow> Some (set_status env s nxt lst ''completed'' None st1, Some (Ok (Some (bs_snapshot_id m))))
      | Inl e \<Rightarrow> Some (set_status env s nxt lst ''failed'' (Some ''BACKUP_FAILED'') st1,
                    Some (Err (SchedulerError.Backup e))))"

definition scheduled_run ::
  "sched_lib \<Rightarrow> ('s, 'r) exec_env \<Rightarrow> Schedule \<Rightarrow> ProfileRecord \<Rightarrow> 's SchedulerService
     \<Rightarrow> ('s SchedulerService \<times> ident_str option run) option" where
  "scheduled_run lib env s p st =
     (let profile = BackupProfile_from_db_record p None EncryptionPolicy.Disabled;
          benv = (xe_backup env)\<lparr>be_cancelled_start := svc_cancelled st \<or> be_cancelled_start (xe_backup env)\<rparr>;
          (bst, result) = execute_profile_backup benv (xe_root env) (xe_plan_stamp env) profile (svc_backup st)
      in with_next (next_run_of lib s (xe_next_from env)) (record_outcome lib env s result)
           (st\<lparr>svc_backup := bst\<rparr>))"

text \<open>The guard of a run is dropped whenever the run is left, by a return, an error or a panic.\<close>

definition release ::
  "ProfileGuard \<Rightarrow> ('s SchedulerService \<times> 'a run) option \<Rightarrow> ('s SchedulerService \<times> 'a run) option" where
  "release h = map_option (\<lambda>(st, r). (st\<lparr>svc_guard := drop_guard h (svc_guard st)\<rparr>, r))"

definition execute_single_scheduled_backup ::
  "sched_lib \<Rightarrow> ('s, 'r) exec_env \<Rightarrow> Schedule \<Rightarrow> 's SchedulerService
     \<Rightarrow> ('s SchedulerService \<times> ident_str option run) option" where
  "execute_single_scheduled_backup lib env s st =
     (let started = sl_to_rfc3339 lib (xe_now env) in
      case get_profile (svc_db st) (sch_profile_id s) of
        None \<Rightarrow>
          Some (set_status env s None (Some started) ''invalid_profile'' (Some ''PROFILE_NOT_FOUND'') st,
                Some (Err (SchedulerError.ProfileNotFound (sch_profile_id s))))
      | Some p \<Rightarrow>
          if \<not> pr_enabled p then
            with_next (next_run_of lib s (xe_now env)) (\<lambda>t st.
              Some (set_status env s (Some (sl_to_rfc3339 lib t)) (Some started) ''skipped_profile_disabled'' None st,
                    Some (Ok None))) st
          else
            (case try_acquire (sch_profile_id s) (svc_guard st) of
               (g, Inl _) \<Rightarrow>
                 with_next (next_run_of lib s (xe_now env)) (\<lambda>t st.
                   Some (set_status env s (Some (sl_to_rfc3339 lib t))
                           (map_option (sl_to_rfc3339 lib) (sch_last_run_at s)) ''skipped_busy'' None st,
                         Some (Ok None))) (st\<lparr>svc_guard := g\<rparr>)
             | (g, Inr h) \<Rightarrow> release h (scheduled_run lib env s p (st\<lparr>svc_guard := g\<rparr>))))"

definition trigger_schedule_now ::
  "sched_lib \<Rightarrow> instant \<Rightarrow> ('s, 'r) exec_env \<Rightarrow> ident_str \<Rightarrow> 's SchedulerService
     \<Rightarrow> ('s SchedulerService \<times> ident_str option run) option" where
  "trigger_schedule_now lib fallback env i st =
     (case service_get_schedule lib fallback i st of
        Inl e \<Rightarrow> Some (st, Some (Err e))
      | Inr s \<Rightarrow>
          (case execute_single_scheduled_backup lib env s st of
             Some (st', Some (Inr sid)) \<Rightarrow> Some (notify_one st', Some (Ok sid))
           | r \<Rightarrow> r))"

subsection \<open>The service loop\<close>

record ('s, 'r) tick_env =
  tk_now :: instant
  tk_fallback :: instant
  tk_cancelled :: "nat \<Rightarrow> bool"
  tk_exec :: "nat \<Rightarrow> ('s, 'r) exec_env"

text \<open>The due schedules in turn: the state, and whether an execution panicked and took the task with it.\<close>

fun run_due ::
  "sched_lib \<Rightarrow> ('s, 'r) tick_env \<Rightarrow> nat \<Rightarrow> ScheduleRecord list \<Rightarrow> 's SchedulerService
     \<Rightarrow> ('s SchedulerService \<times> bool) option" where
  "run_due lib env k [] st = Some (st, False)"
| "run_due lib env k (r # rs) st =
     (if svc_cancelled st \<or> tk_cancelled env k then Some (st, False)
      else case record_to_domain lib (tk_fallback env) r of
        Inl _ \<Rightarrow> run_due lib env (Suc k) rs st
      | Inr s \<Rightarrow>
          (case execute_single_scheduled_backup lib (tk_exec env k) s st of
             None \<Rightarrow> None
           | Some (st', None) \<Rightarrow> Some (st', True)
           | Some (st', Some _) \<Rightarrow> run_due lib env (Suc k) rs st'))"

definition future_runs :: "sched_lib \<Rightarrow> instant \<Rightarrow> ScheduleRecord list \<Rightarrow> instant list" where
  "future_runs lib now rs =
     List.map_filter (\<lambda>r.
       if scr_enabled r then
         case Option.bind (scr_next_run_at r) (sl_parse_rfc3339 lib) of
           Some t \<Rightarrow> if now < t then Some t else None
         | None \<Rightarrow> None
       else None) rs"

fun earliest_future :: "instant option \<Rightarrow> instant list \<Rightarrow> instant option" where
  "earliest_future acc [] = acc"
| "earliest_future acc (t # ts) =
     earliest_future (case acc of Some prev \<Rightarrow> Some (min prev t) | None \<Rightarrow> Some t) ts"

definition sleep_seconds :: "sched_lib \<Rightarrow> instant \<Rightarrow> ScheduleRecord list \<Rightarrow> int" where
  "sleep_seconds lib now rs =
     (case earliest_future None (future_runs lib now rs) of
        Some t \<Rightarrow> min (max ((t - now) div SECOND) 1) 60
      | None \<Rightarrow> 60)"

datatype tick_result = LoopEnded | Idle | Panicked | Slept int

definition scheduler_tick ::
  "sched_lib \<Rightarrow> ('s, 'r) tick_env \<Rightarrow> 's SchedulerService \<Rightarrow> ('s SchedulerService \<times> tick_result) option" where
  "scheduler_tick lib env st =
     (if svc_cancelled st then Some (st, LoopEnded)
      else if svc_status st \<noteq> Running then Some (st\<lparr>svc_notified := False\<rparr>, Idle)
      else
        (case run_due lib env 0 (list_due_schedules (svc_db st) (sl_to_rfc3339 lib (tk_now env))) st of
           None \<Rightarrow> None
         | Some (st', True) \<Rightarrow> Some (st', Panicked)
         | Some (st', False) \<Rightarrow>
             Some (st'\<lparr>svc_notified := False\<rparr>, Slept (sleep_seconds lib (tk_now env) (list_schedules (svc_db st'))))))"

subsection \<open>Runs leave the schedules and the registry alone\<close>

definition same_schedules :: "Database \<Rightarrow> Database \<Rightarrow> bool" where
  "same_schedules a b \<longleftrightarrow> t_schedules b = t_schedules a \<and> t_sched_hist b = t_sched_hist a
     \<and> t_profiles b = t_profiles a"

lemma same_schedules_statements:
  "same_schedules db (fst (create_version em v db))" "same_schedules db (fst (create_file em f db))"
  "same_schedules db (fst (update_file em f db))" "same_schedules db (fst (delete_chunks_by_file i db))"
  "same_schedules db (fst (save_manifest pf ser em m db))" "same_schedules db (fst (create_chunk em c db))"
  "same_schedules db (fst (upsert_transfer_job em j db))"
  "same_schedules db (fst (update_snapshot_status_and_metadata i bst md db))"
  "same_schedules db (fst (create_snapshot em sr db))"
  by (auto simp: same_schedules_def create_version_def create_file_def update_file_def delete_chunks_by_file_def
      delete_chunks_where_def save_manifest_def insert_manifest_def create_chunk_def upsert_transfer_job_def
      insert_job_def update_jobs_def update_snapshot_status_and_metadata_def create_snapshot_def
      checked_def affecting_def Let_def split: sum.splits)

interpretation sched: catalog_run same_schedules
proof
  show "same_schedules db db" for db by (simp add: same_schedules_def)
  show "same_schedules a c" if "same_schedules a b" "same_schedules b c" for a b c
    using that by (simp add: same_schedules_def)
qed (rule same_schedules_statements)+

lemma execute_profile_backup_obeys: "sched.obeys (execute_profile_backup env root stamp profile)"
proof -
  have "same_schedules (bst_db st) (bst_db (fst (execute_backup env plan st)))" for st plan
  proof -
    let ?db1 = "fst (manager_create_snapshot (be_constraint_text env) (bp_profile_id (pl_profile plan))
              (pl_snapshot_id plan) BackupStatus.BackingUp (bst_db st))"
    have created: "same_schedules (bst_db st) ?db1"
      by (simp add: manager_create_snapshot_def split_beta Let_def same_schedules_statements)
    obtain st1 r where inner: "execute_backup_inner env plan (st\<lparr>bst_db := ?db1\<rparr>) = (st1, r)" by fastforce
    have "same_schedules (bst_db st) (bst_db st1)"
      using sched.R_trans [OF created] sched.obeysD [OF sched.execute_backup_inner_obeys inner] by simp
    moreover have "same_schedules (bst_db st1) (bst_db (fst (fail_snapshot sid reason st1)))" for sid reason
      using sched.fail_snapshot_obeys by (auto simp: sched.obeys_def)
    ultimately show ?thesis
      using created inner
      by (auto simp: execute_backup_def Let_def sched.R_refl split_beta intro: sched.R_trans split: sum.splits)
  qed
  then show ?thesis
    by (auto simp: sched.obeys_def execute_profile_backup_def sched.R_refl split: sum.splits)
qed

lemma execute_profile_backup_Ok:
  assumes "catalog_ok (bst_db st)" "execute_profile_backup env root stamp profile st = (st', r)"
  shows "catalog_ok (bst_db st')
    \<and> (case r of Inl _ \<Rightarrow> True
       | Inr m \<Rightarrow> \<exists>row. get_snapshot (bst_db st') (bs_snapshot_id m) = Some row \<and> sr_status row = BackupStatus.Completed)"
proof (cases "plan_backup (be_sha env) (be_platform env) root stamp (bst_db st) profile")
  case (Inr plan)
  then have "execute_backup env plan st = (st', r)" using assms(2) by (simp add: execute_profile_backup_def)
  from execute_backup_outcome [OF assms(1) this] show ?thesis by (cases r) auto
qed (use assms in \<open>auto simp: execute_profile_backup_def\<close>)

lemma quiet_simps [simp]:
  "svc_guard (quiet f st) = svc_guard st" "svc_status (quiet f st) = svc_status st"
  "svc_cancelled (quiet f st) = svc_cancelled st" "svc_db (quiet f st) = fst (f (svc_db st))"
  by (simp_all add: quiet_def put_db_def)

lemma quiet_keeps: "\<lbrakk>cat.keeps f; catalog_ok (svc_db st)\<rbrakk> \<Longrightarrow> catalog_ok (svc_db (quiet f st))"
  by (simp add: cat.keeps_def)

lemma set_status_simps [simp]:
  "svc_guard (set_status env s n l c e st) = svc_guard st" "svc_status (set_status env s n l c e st) = svc_status st"
  by (simp_all add: set_status_def)

lemma set_status_keeps: "catalog_ok (svc_db st) \<Longrightarrow> catalog_ok (svc_db (set_status env s n l c e st))"
  unfolding set_status_def by (rule quiet_keeps [OF update_schedule_status_keeps])

lemma record_outcome_frame:
  "record_outcome lib env s result t st = Some (st', r) \<Longrightarrow>
     svc_guard st' = svc_guard st \<and> svc_status st' = svc_status st
     \<and> (catalog_ok (svc_db st) \<longrightarrow> catalog_ok (svc_db st'))"
  unfolding record_outcome_def Let_def
  using quiet_keeps [OF record_schedule_history_keeps]
  by (auto split: sum.splits simp del: quiet_simps(4) intro!: set_status_keeps)

lemma scheduled_run_frame:
  assumes "scheduled_run lib env s p st = Some (st', r)"
  shows "svc_guard st' = svc_guard st \<and> svc_status st' = svc_status st
    \<and> (catalog_ok (svc_db st) \<longrightarrow> catalog_ok (svc_db st'))"
proof -
  obtain bst result where run: "execute_profile_backup
      ((xe_backup env)\<lparr>be_cancelled_start := svc_cancelled st \<or> be_cancelled_start (xe_backup env)\<rparr>) (xe_root env)
      (xe_plan_stamp env) (BackupProfile_from_db_record p None EncryptionPolicy.Disabled) (svc_backup st) = (bst, result)"
    by fastforce
  have "catalog_ok (svc_db st) \<longrightarrow> catalog_ok (bst_db bst)" using execute_profile_backup_Ok [OF _ run] by blast
  with assms run show ?thesis
    by (auto simp: scheduled_run_def Let_def with_next_def dest!: record_outcome_frame
        split: option.splits sum.splits)
qed

text \<open>Whatever way an execution ends, the registry is as before and the catalog stays well-formed.\<close>

lemma execute_single_frame:
  assumes "execute_single_scheduled_backup lib env s st = Some (st', r)"
  shows "svc_guard st' = svc_guard st \<and> svc_status st' = svc_status st
    \<and> (catalog_ok (svc_db st) \<longrightarrow> catalog_ok (svc_db st'))"
proof (cases "get_profile (svc_db st) (sch_profile_id s)")
  case None
  with assms show ?thesis
    by (auto simp: execute_single_scheduled_backup_def intro!: set_status_keeps)
next
  case (Some p)
  show ?thesis
  proof (cases "pr_enabled p")
    case False
    with Some assms show ?thesis
      by (auto simp: execute_single_scheduled_backup_def with_next_def split: option.splits sum.splits
          intro!: set_status_keeps)
  next
    case True
    show ?thesis
    proof (cases "snd (try_acquire (sch_profile_id s) (svc_guard st))")
      case (Inl e)
      then have "try_acquire (sch_profile_id s) (svc_guard st) = (svc_guard st, Inl e)"
        by (auto simp: try_acquire_def split: option.splits if_splits)
      with Some True assms show ?thesis
        by (auto simp: execute_single_scheduled_backup_def with_next_def split: option.splits sum.splits
            intro!: set_status_keeps)
    next
      case (Inr h)
      then have acq: "try_acquire (sch_profile_id s) (svc_guard st)
          = ((svc_guard st)\<lparr>eg_active := insert (sch_profile_id s) (eg_active (svc_guard st))\<rparr>, Inr h)"
        "eg_poisoned (svc_guard st) = None" "sch_profile_id s \<notin> eg_active (svc_guard st)" "pg_profile_id h = sch_profile_id s"
        by (auto simp: try_acquire_def split: option.splits if_splits)
      with Some True assms obtain st1 where
        run: "scheduled_run lib env s p (st\<lparr>svc_guard := (svc_guard st)\<lparr>eg_active := insert (sch_profile_id s)
                (eg_active (svc_guard st))\<rparr>\<rparr>) = Some (st1, r)"
        and st': "st' = st1\<lparr>svc_guard := drop_guard h (svc_guard st1)\<rparr>"
        by (auto simp: execute_single_scheduled_backup_def release_def)
      with scheduled_run_frame [OF run] acq show ?thesis by (simp add: drop_guard_def)
    qed
  qed
qed

subsection \<open>Outcomes of a scheduled run\<close>

lemma set_status_row:
  assumes "get_schedule (svc_db st) (sch_schedule_id s) = Some old"
  shows "get_schedule (svc_db (set_status env s n l c e st)) (sch_schedule_id s)
    = Some (old\<lparr>scr_next_run_at := n, scr_last_run_at := l, scr_last_status := Some c, scr_last_error_code := e,
                scr_updated_at := xe_db_now env\<rparr>)"
proof -
  have "has_key scr_schedule_id (t_schedules (svc_db st)) (sch_schedule_id s)"
    using assms by (auto simp: get_schedule_def find_first_has_key)
  moreover note find_first_update_rows [OF this]
  ultimately show ?thesis
    using assms
    by (simp add: set_status_def update_schedule_status_def affecting_def update_schedules_def get_schedule_def)
qed

lemma quiet_history:
  assumes "\<not> has_key shr_history_id (t_sched_hist (svc_db st)) (shr_history_id h)"
    "has_key scr_schedule_id (t_schedules (svc_db st)) (shr_schedule_id h)"
  shows "svc_db (quiet (record_schedule_history em h) st)
    = (svc_db st)\<lparr>t_sched_hist := t_sched_hist (svc_db st) @ [h]\<rparr>"
  using assms by (simp add: record_schedule_history_def checked_def)

lemma set_status_frame:
  "t_sched_hist (svc_db (set_status env s n l c e st)) = t_sched_hist (svc_db st)"
  "t_snapshots (svc_db (set_status env s n l c e st)) = t_snapshots (svc_db st)"
  by (simp_all add: set_status_def update_schedule_status_def affecting_def update_schedules_def)

definition outcome_status :: "(BackupError, BackupSummary) result \<Rightarrow> string" where
  "outcome_status r = (case r of Inr _ \<Rightarrow> ''completed'' | Inl _ \<Rightarrow> ''failed'')"

lemma record_outcome_effect:
  assumes "get_schedule (svc_db st) (sch_schedule_id s) = Some old"
    and "\<not> has_key shr_history_id (t_sched_hist (svc_db st)) (''hist-'' @ xe_history_stamp env)"
  obtains st' row where "record_outcome lib env s result t st
      = Some (st', Some (case result of Inr m \<Rightarrow> Ok (Some (bs_snapshot_id m)) | Inl e \<Rightarrow> Err (SchedulerError.Backup e)))"
    "get_schedule (svc_db st') (sch_schedule_id s) = Some row"
    "scr_next_run_at row = Some (sl_to_rfc3339 lib t)"
    "scr_last_run_at row = Some (sl_to_rfc3339 lib (xe_completed env))"
    "scr_last_status row = Some (outcome_status result)"
    "t_sched_hist (svc_db st') = t_sched_hist (svc_db st) @ [history_record lib env s result]"
    "t_snapshots (svc_db st') = t_snapshots (svc_db st)"
proof -
  let ?h = "history_record lib env s result"
  let ?st1 = "quiet (record_schedule_history (sl_constraint_text lib) ?h) st"
  have "has_key scr_schedule_id (t_schedules (svc_db st)) (sch_schedule_id s)"
    using assms(1) by (auto simp: get_schedule_def find_first_has_key)
  then have hist: "svc_db ?st1 = (svc_db st)\<lparr>t_sched_hist := t_sched_hist (svc_db st) @ [?h]\<rparr>"
    using assms(2) by (intro quiet_history) (simp_all add: history_record_def)
  then have row: "get_schedule (svc_db ?st1) (sch_schedule_id s) = Some old" using assms(1) by (simp add: get_schedule_def)
  let ?st2 = "set_status env s (Some (sl_to_rfc3339 lib t)) (Some (sl_to_rfc3339 lib (xe_completed env)))
        (outcome_status result) (case result of Inr _ \<Rightarrow> None | Inl _ \<Rightarrow> Some ''BACKUP_FAILED'') ?st1"
  have tables: "t_sched_hist (svc_db ?st2) = t_sched_hist (svc_db st) @ [?h]" "t_snapshots (svc_db ?st2) = t_snapshots (svc_db st)"
    unfolding set_status_frame hist by simp_all
  have "record_outcome lib env s result t st
      = Some (?st2, Some (case result of Inr m \<Rightarrow> Ok (Some (bs_snapshot_id m)) | Inl e \<Rightarrow> Err (SchedulerError.Backup e)))"
    by (cases result) (simp_all add: record_outcome_def outcome_status_def Let_def)
  from that [OF this set_status_row [OF row] _ _ _ tables] show thesis by simp
qed

subsection \<open>Properties\<close>

text \<open>C17. However threads take and drop their guards, and even if one of them poisons the lock, no two
  live guards belong to the same profile; while the lock is sound the profiles reported as running are
  exactly those with a live guard.\<close>

theorem one_run_per_profile:
  assumes "guard_reachable (g, hs)"
  shows "distinct (map pg_profile_id hs)
    \<and> (eg_poisoned g = None \<longrightarrow> (is_running pid g \<longleftrightarrow> (\<exists>h \<in> set hs. pg_profile_id h = pid)))"
  using guard_reachable_ok [OF assms] by (force simp: guards_ok_def is_running_def)

theorem one_run_per_profile_witness:
  "\<exists>g hs. guard_reachable (g, hs) \<and> length hs = 2 \<and> is_running ''p1'' g \<and> \<not> is_running ''p3'' g
     \<and> try_acquire ''p1'' g = (g, Inl (ProfileAlreadyRunning ''p1''))"
proof -
  define g1 where "g1 = \<lparr>eg_active = {''p1''}, eg_poisoned = None\<rparr>"
  define g2 where "g2 = \<lparr>eg_active = {''p2'', ''p1''}, eg_poisoned = None\<rparr>"
  let ?hs = "[\<lparr>pg_profile_id = ''p2''\<rparr>, \<lparr>pg_profile_id = ''p1''\<rparr>]"
  have "try_acquire ''p1'' ExecutionGuard_new = (g1, Inr \<lparr>pg_profile_id = ''p1''\<rparr>)"
    "try_acquire ''p2'' g1 = (g2, Inr \<lparr>pg_profile_id = ''p2''\<rparr>)"
    by (simp_all add: try_acquire_def ExecutionGuard_new_def g1_def g2_def)
  then have reach: "guard_reachable (g2, ?hs)"
    by (meson guard_reachable.intros guard_step.taken)
  have "eg_poisoned g2 = None" by (simp add: g2_def)
  then have "is_running ''p1'' g2 \<and> \<not> is_running ''p3'' g2"
    using one_run_per_profile [OF reach, of "''p1''"] one_run_per_profile [OF reach, of "''p3''"] by simp
  moreover have "try_acquire ''p1'' g2 = (g2, Inl (ProfileAlreadyRunning ''p1''))"
    by (simp add: try_acquire_def g2_def)
  ultimately show ?thesis using reach by fastforce
qed



definition sample_lib :: sched_lib where
  "sample_lib = \<lparr>sl_overflow_checks = True, sl_calendar = sample_calendar, sl_zone = sample_zone,
     sl_to_rfc3339 = (\<lambda>t. show_nat (nat t)), sl_parse_rfc3339 = (\<lambda>_. None), sl_constraint_text = ''e''\<rparr>"

definition sample_schedule :: Schedule where
  "sample_schedule = \<lparr>sch_schedule_id = ''sched-1'', sch_profile_id = ''p1'', sch_schedule_type = Weekly,
     sch_expression = ''sun@03:00'', sch_timezone = Utc, sch_enabled = True, sch_next_run_at = None,
     sch_last_run_at = None, sch_last_status = None, sch_last_error_code = None, sch_created_at = 0, sch_updated_at = 0\<rparr>"

definition sample_exec :: "(MockStorageProvider, bytes) exec_env" where
  "sample_exec = \<lparr>xe_now = 0, xe_completed = 0, xe_next_from = 0, xe_history_stamp = ''1'', xe_plan_stamp = ''1'',
     xe_db_now = ''n'', xe_root = NoSuchRoot, xe_backup = sample_run\<rparr>"

definition sample_service :: "MockStorageProvider SchedulerService" where
  "sample_service = SchedulerService_new
     (sample_state\<lparr>bst_db := fst (create_schedule ''e'' (schedule_record sample_lib 0 sample_schedule) (bst_db sample_state))\<rparr>)"

lemma sample_service_db:
  "catalog_ok (svc_db sample_service)" "\<exists>row. get_schedule (svc_db sample_service) ''sched-1'' = Some row"
  "\<exists>p. get_profile (svc_db sample_service) ''p1'' = Some p \<and> pr_enabled p" "t_sched_hist (svc_db sample_service) = []"
proof -
  have "catalog_ok (fst (create_schedule ''e'' (schedule_record sample_lib 0 sample_schedule) (bst_db sample_state)))"
    using create_schedule_keeps sample_state_ok by (simp add: cat.keeps_def)
  then show "catalog_ok (svc_db sample_service)" by (simp add: sample_service_def SchedulerService_new_def)
  have db: "svc_db sample_service = (bst_db sample_state)\<lparr>t_schedules := [schedule_record sample_lib 0 sample_schedule]\<rparr>"
    by (simp add: sample_service_def SchedulerService_new_def create_schedule_def checked_def has_key_def sample_state_def
        repair_sample_db_def sample_db_rows open_in_memory_def sample_profile_def schedule_record_def sample_schedule_def)
  show "\<exists>row. get_schedule (svc_db sample_service) ''sched-1'' = Some row"
    "\<exists>p. get_profile (svc_db sample_service) ''p1'' = Some p \<and> pr_enabled p" "t_sched_hist (svc_db sample_service) = []"
    by (simp_all add: db get_schedule_def get_profile_def schedule_record_def sample_schedule_def sample_state_def
        repair_sample_db_def sample_db_rows open_in_memory_def sample_profile_def)
qed


lemma earliest_future_bound:
  "earliest_future acc ts = Some t \<Longrightarrow> (\<forall>u \<in> set ts. t \<le> u) \<and> (\<forall>u. acc = Some u \<longrightarrow> t \<le> u)
     \<and> (t \<in> set ts \<or> acc = Some t)"
proof (induction ts arbitrary: acc)
  case (Cons a ts)
  then show ?case by (cases acc) (fastforce simp: min_def split: if_splits)+
qed simp

lemma earliest_future_None: "earliest_future acc ts = None \<longleftrightarrow> acc = None \<and> ts = []"
  by (induction ts arbitrary: acc) (auto split: option.splits)

lemma future_runs_iff:
  "t \<in> set (future_runs lib now rs) \<longleftrightarrow>
     (\<exists>r \<in> set rs. scr_enabled r \<and> now < t \<and> Option.bind (scr_next_run_at r) (sl_parse_rfc3339 lib) = Some t)"
  by (induction rs) (auto simp: future_runs_def map_filter_simps split: if_splits option.splits)

text \<open>Between two passes the service sleeps at least one and at most sixty seconds, and never past the
  next run of an enabled schedule by a second or more.\<close>

theorem sleep_not_past_next_run:
  assumes "r \<in> set rs" "scr_enabled r" "Option.bind (scr_next_run_at r) (sl_parse_rfc3339 lib) = Some t" "now < t"
  shows "1 \<le> sleep_seconds lib now rs \<and> sleep_seconds lib now rs \<le> 60
    \<and> now + sleep_seconds lib now rs * SECOND < t + SECOND"
proof -
  have t: "t \<in> set (future_runs lib now rs)" using assms by (auto simp: future_runs_iff)
  then obtain u where u: "earliest_future None (future_runs lib now rs) = Some u"
    by (cases "earliest_future None (future_runs lib now rs)") (auto simp: earliest_future_None)
  from earliest_future_bound [OF this] t have "u \<le> t" "now < u" by (auto simp: future_runs_iff)
  moreover have "SECOND * ((u - now) div SECOND) \<le> u - now" by (simp add: SECOND_def)
  ultimately show ?thesis using u by (auto simp: sleep_seconds_def min_def max_def SECOND_def)
qed

theorem sleep_not_past_next_run_witness:
  "\<exists>rs. sleep_seconds (sample_lib\<lparr>sl_parse_rfc3339 := (\<lambda>s. Some (int (length s) * SECOND))\<rparr>) 0 rs = 3"
proof -
  let ?lib = "sample_lib\<lparr>sl_parse_rfc3339 := (\<lambda>s. Some (int (length s) * SECOND))\<rparr>"
  let ?r = "schedule_record sample_lib 0 sample_schedule"
  have "1 \<le> sleep_seconds ?lib 0 [?r\<lparr>scr_next_run_at := Some ''abc''\<rparr>]"
    using sleep_not_past_next_run [of "?r\<lparr>scr_next_run_at := Some ''abc''\<rparr>" "[?r\<lparr>scr_next_run_at := Some ''abc''\<rparr>]" ?lib
        "3 * SECOND" 0]
    by (simp add: schedule_record_def sample_schedule_def SECOND_def)
  then have "sleep_seconds ?lib 0 [?r\<lparr>scr_next_run_at := Some ''abc''\<rparr>] = 3"
    by (simp add: sleep_seconds_def future_runs_def map_filter_simps schedule_record_def sample_schedule_def SECOND_def)
  then show ?thesis by blast
qed

text \<open>A service that was stopped cannot run again: after a restart it says it runs, but its loop ends at the
  first look at the token, which stays cancelled.\<close>

lemma restart_is_dead:
  "let st' = fst (start_service (fst (stop_service st)))
   in svc_status st' = Running \<and> scheduler_tick lib env st' = Some (st', LoopEnded)"
  by (simp add: start_service_def stop_service_def notify_one_def scheduler_tick_def Let_def)

end
