(* ===== verification/Restore_Engine.thy ===== *)
theory Restore_Engine
  imports Backup_Engine Path_Syntax
begin

text \<open>
  The restore engine (\<open>restore/mod.rs\<close> and the requests of \<open>restore/types.rs\<close>): which manifest a request
  means, where its file goes, and the restore of a whole snapshot. The catalog is read only; the files,
  the staging directory and the transfer engine are the record \<open>restore_world\<close>, the libraries and the
  provider the record \<open>restore_lib\<close>. As in the pipeline, None stands for a download that never returns.
\<close>

subsection \<open>Requests\<close>

record RestoreRequest =
  rq_file_id :: ident_str
  rq_version_id :: "ident_str option"
  rq_manifest_id :: "string option"
  rq_destination_path :: string
  rq_collision_policy :: CollisionPolicy
  rq_verify_integrity :: bool
  rq_encryption_policy :: EncryptionPolicy

definition RestoreRequest_new :: "ident_str \<Rightarrow> string \<Rightarrow> RestoreRequest" where
  "RestoreRequest_new fid dest =
     \<lparr>rq_file_id = fid, rq_version_id = None, rq_manifest_id = None, rq_destination_path = dest,
      rq_collision_policy = Overwrite, rq_verify_integrity = True, rq_encryption_policy = EncryptionPolicy.Disabled\<rparr>"

definition with_version :: "ident_str \<Rightarrow> RestoreRequest \<Rightarrow> RestoreRequest" where
  "with_version v r = r\<lparr>rq_version_id := Some v\<rparr>"

definition request_with_collision_policy :: "CollisionPolicy \<Rightarrow> RestoreRequest \<Rightarrow> RestoreRequest" where
  "request_with_collision_policy p r = r\<lparr>rq_collision_policy := p\<rparr>"

definition request_with_encryption_policy :: "EncryptionPolicy \<Rightarrow> RestoreRequest \<Rightarrow> RestoreRequest" where
  "request_with_encryption_policy p r = r\<lparr>rq_encryption_policy := p\<rparr>"

record SnapshotRestoreRequest =
  sq_snapshot_id :: ident_str
  sq_destination_dir :: string
  sq_collision_policy :: CollisionPolicy
  sq_verify_integrity :: bool
  sq_encryption_policy :: EncryptionPolicy

definition SnapshotRestoreRequest_new :: "ident_str \<Rightarrow> string \<Rightarrow> SnapshotRestoreRequest" where
  "SnapshotRestoreRequest_new sid dest =
     \<lparr>sq_snapshot_id = sid, sq_destination_dir = dest, sq_collision_policy = Overwrite, sq_verify_integrity = True,
      sq_encryption_policy = EncryptionPolicy.Disabled\<rparr>"

definition snapshot_with_collision_policy :: "CollisionPolicy \<Rightarrow> SnapshotRestoreRequest \<Rightarrow> SnapshotRestoreRequest" where
  "snapshot_with_collision_policy p r = r\<lparr>sq_collision_policy := p\<rparr>"

definition snapshot_with_encryption_policy :: "EncryptionPolicy \<Rightarrow> SnapshotRestoreRequest \<Rightarrow> SnapshotRestoreRequest" where
  "snapshot_with_encryption_policy p r = r\<lparr>sq_encryption_policy := p\<rparr>"

record SnapshotRestoreResult =
  srr_snapshot_id :: ident_str
  srr_total_files :: nat
  srr_restored_files :: nat
  srr_skipped_files :: nat
  srr_overwritten_files :: nat
  srr_kept_both_files :: nat
  srr_failed_files :: nat
  srr_total_bytes_restored :: u64
  srr_elapsed_ms :: u64
  srr_file_results :: "RestoreResult list"

subsection \<open>The engine\<close>

record 's restore_world =
  rw_fs :: local_fs
  rw_tmp :: "string set"
  rw_engine :: "'s engine"

record 's restore_lib =
  rl_platform :: platform
  rl_separator :: char
  rl_sha :: "bytes \<Rightarrow> string"
  rl_open_sealed :: aead_fn
  rl_parse :: "bytes \<Rightarrow> (string, EncryptedPayload) result"
  rl_serde :: "string \<Rightarrow> (string, ManifestV1) result"
  rl_debug :: "StorageReference \<Rightarrow> string"
  rl_retry :: RetryPolicy
  rl_get :: "('s, bytes cancelling) get_fn"
  rl_callback :: bool

type_synonym ('s, 'a) restore_op = "'s restore_world \<Rightarrow> ('s restore_world \<times> (RestoreError, 'a) result) option"

text \<open>\<open>Path::join\<close>, and the components of the result: a dot is kept only where a path starts with it.\<close>

definition join_path :: "platform \<Rightarrow> path \<Rightarrow> path \<Rightarrow> path" where
  "join_path pf base p =
     (if base = [] then p else path_join pf base (filter (\<lambda>c. c \<noteq> CurDir) p))"

definition resolve_target_path :: "'s restore_lib \<Rightarrow> local_fs \<Rightarrow> string \<Rightarrow> ManifestV1 \<Rightarrow> path" where
  "resolve_target_path lib fs dest m =
     (let p = pf_components (rl_platform lib) dest in
      if p \<in> fs_dirs fs \<or> suffix [rl_separator lib] dest \<or> suffix ''/'' dest
      then join_path (rl_platform lib) p (pf_components (rl_platform lib) (lf_file_name (logical_file m)))
      else p)"

definition run_pipeline ::
  "'s restore_lib \<Rightarrow> restore_env \<Rightarrow> ManifestV1 \<Rightarrow> path \<Rightarrow> CollisionPolicy \<Rightarrow> EncryptionPolicy
     \<Rightarrow> ('s, RestoreResult) restore_op" where
  "run_pipeline lib env m target collision policy w =
     map_option (\<lambda>out. (\<lparr>rw_fs = ro_fs out, rw_tmp = ro_tmp out, rw_engine = ro_engine out\<rparr>, ro_result out))
       (restore_file (rl_platform lib) (rl_sha lib) (rl_open_sealed lib) (rl_parse lib) (rl_retry lib) (rl_get lib)
          (rl_callback lib) env m target collision policy (rw_fs w) (rw_tmp w) (rw_engine w))"

definition manifest_or ::
  "'s restore_lib \<Rightarrow> Database \<Rightarrow> string \<Rightarrow> string \<Rightarrow> (RestoreError, ManifestV1) result" where
  "manifest_or lib db mid reason =
     bind_res (map_err RestoreError.Database (get_manifest (rl_platform lib) (rl_serde lib) db mid))
       (ok_or (IncompleteBackup reason))"

definition resolve_manifest :: "'s restore_lib \<Rightarrow> Database \<Rightarrow> RestoreRequest \<Rightarrow> (RestoreError, ManifestV1) result" where
  "resolve_manifest lib db r =
     (case rq_manifest_id r of
        Some mid \<Rightarrow> manifest_or lib db mid (''Manifest ID '' @ [CHR 0x27] @ mid @ [CHR 0x27] @ '' not found in catalog'')
      | None \<Rightarrow>
          (case rq_version_id r of
             Some vid \<Rightarrow>
               bind_res (ok_or (VersionNotFound vid) (get_version db vid)) (\<lambda>v.
                 manifest_or lib db (ver_manifest_id v)
                   (''Manifest '' @ [CHR 0x27] @ ver_manifest_id v @ [CHR 0x27] @ '' for version not found''))
           | None \<Rightarrow>
               bind_res (ok_or (RestoreError.FileNotFound (rq_file_id r)) (first_row (list_versions_by_file db (rq_file_id r)))) (\<lambda>v.
                 manifest_or lib db (ver_manifest_id v)
                   (''Manifest '' @ [CHR 0x27] @ ver_manifest_id v @ [CHR 0x27] @ '' for latest version not found''))))"

definition engine_restore_file ::
  "'s restore_lib \<Rightarrow> bool \<Rightarrow> restore_env \<Rightarrow> Database \<Rightarrow> RestoreRequest \<Rightarrow> ('s, RestoreResult) restore_op" where
  "engine_restore_file lib cancelled env db r w =
     (if cancelled then Some (w, Err RestoreError.Cancelled)
      else case resolve_manifest lib db r of
        Inl e \<Rightarrow> Some (w, Err e)
      | Inr m \<Rightarrow>
          run_pipeline lib env m (resolve_target_path lib (rw_fs w) (rq_destination_path r) m)
            (rq_collision_policy r) (rq_encryption_policy r) w)"

definition restore_manifest ::
  "'s restore_lib \<Rightarrow> restore_env \<Rightarrow> ManifestV1 \<Rightarrow> string \<Rightarrow> CollisionPolicy \<Rightarrow> EncryptionPolicy
     \<Rightarrow> ('s, RestoreResult) restore_op" where
  "restore_manifest lib env m dest collision policy w =
     run_pipeline lib env m (resolve_target_path lib (rw_fs w) dest m) collision policy w"

subsection \<open>Restoring a snapshot\<close>

definition failed_result :: "ident_str \<Rightarrow> string \<Rightarrow> path \<Rightarrow> string \<Rightarrow> RestoreResult" where
  "failed_result fid rel target msg =
     \<lparr>rr_file_id = fid, rr_relative_path = rel, rr_target_path = target, rr_outcome = OutcomeFailed,
      rr_bytes_restored = 0, rr_verified_sha256 = None, rr_elapsed_ms = 0, rr_error = Some msg\<rparr>"

text \<open>The counters of the loop are the result under construction; a file adds one to the counter of its
  outcome and its result to the list.\<close>

definition add_result :: "RestoreResult \<Rightarrow> SnapshotRestoreResult \<Rightarrow> SnapshotRestoreResult" where
  "add_result r a =
     (let a' = a\<lparr>srr_total_bytes_restored := srr_total_bytes_restored a + rr_bytes_restored r,
                 srr_file_results := srr_file_results a @ [r]\<rparr>
      in case rr_outcome r of
        Restored \<Rightarrow> a'\<lparr>srr_restored_files := Suc (srr_restored_files a)\<rparr>
      | Skipped \<Rightarrow> a'\<lparr>srr_skipped_files := Suc (srr_skipped_files a)\<rparr>
      | Overwritten \<Rightarrow> a'\<lparr>srr_overwritten_files := Suc (srr_overwritten_files a)\<rparr>
      | KeptBoth \<Rightarrow> a'\<lparr>srr_kept_both_files := Suc (srr_kept_both_files a)\<rparr>
      | OutcomeCancelled \<Rightarrow> a'
      | OutcomeFailed \<Rightarrow> a'\<lparr>srr_failed_files := Suc (srr_failed_files a)\<rparr>)"

fun restore_versions ::
  "'s restore_lib \<Rightarrow> (nat \<Rightarrow> bool) \<Rightarrow> (nat \<Rightarrow> restore_env) \<Rightarrow> Database \<Rightarrow> SnapshotRestoreRequest \<Rightarrow> nat
     \<Rightarrow> (FileRecord \<times> VersionRecord) list \<Rightarrow> SnapshotRestoreResult \<Rightarrow> ('s, SnapshotRestoreResult) restore_op" where
  "restore_versions lib cancelled env db q k [] a w = Some (w, Ok a)"
| "restore_versions lib cancelled env db q k ((f, v) # fvs) a w =
     (if cancelled k then Some (w, Err RestoreError.Cancelled)
      else case get_manifest (rl_platform lib) (rl_serde lib) db (ver_manifest_id v) of
        Inl e \<Rightarrow> Some (w, Err (RestoreError.Database e))
      | Inr None \<Rightarrow>
          restore_versions lib cancelled env db q (Suc k) fvs
            (add_result (failed_result (fr_file_id f) (fr_relative_path f) []
               (''Manifest '' @ [CHR 0x27] @ ver_manifest_id v @ [CHR 0x27] @ '' not found in database'')) a) w
      | Inr (Some m) \<Rightarrow>
          let target = join_path (rl_platform lib) (pf_components (rl_platform lib) (sq_destination_dir q))
                         (pf_components (rl_platform lib) (lf_relative_path (logical_file m)))
          in (case run_pipeline lib (env k) m target (sq_collision_policy q) (sq_encryption_policy q) w of
                None \<Rightarrow> None
              | Some (w', Inr r) \<Rightarrow>
                  if rr_outcome r = OutcomeCancelled then Some (w', Err RestoreError.Cancelled)
                  else restore_versions lib cancelled env db q (Suc k) fvs (add_result r a) w'
              | Some (w', Inl e) \<Rightarrow>
                  restore_versions lib cancelled env db q (Suc k) fvs
                    (add_result (failed_result (lf_file_id (logical_file m)) (lf_relative_path (logical_file m)) target
                       (RestoreError_display (rl_debug lib) e)) a) w'))"

definition restore_snapshot ::
  "'s restore_lib \<Rightarrow> bool \<Rightarrow> (nat \<Rightarrow> bool) \<Rightarrow> (nat \<Rightarrow> restore_env) \<Rightarrow> u64 \<Rightarrow> Database \<Rightarrow> SnapshotRestoreRequest
     \<Rightarrow> ('s, SnapshotRestoreResult) restore_op" where
  "restore_snapshot lib cancelled_start cancelled env elapsed db q w =
     (if cancelled_start then Some (w, Err RestoreError.Cancelled)
      else
        let fvs = list_files_by_snapshot db (sq_snapshot_id q) in
        if fvs = [] \<and> get_snapshot db (sq_snapshot_id q) = None
        then Some (w, Err (RestoreError.SnapshotNotFound (sq_snapshot_id q)))
        else
          restore_versions lib cancelled env db q 0 fvs
            \<lparr>srr_snapshot_id = sq_snapshot_id q, srr_total_files = length fvs, srr_restored_files = 0,
             srr_skipped_files = 0, srr_overwritten_files = 0, srr_kept_both_files = 0, srr_failed_files = 0,
             srr_total_bytes_restored = 0, srr_elapsed_ms = elapsed, srr_file_results = []\<rparr> w)"

subsection \<open>Where files go\<close>

text \<open>A path below a directory: the directory followed by names, none with a separator in it.\<close>

definition below :: "char \<Rightarrow> path \<Rightarrow> path \<Rightarrow> bool" where
  "below sep dest p \<longleftrightarrow> (\<exists>q. p = dest @ q \<and> (\<forall>c \<in> set q. \<exists>n. c = Normal n \<and> single_name sep n))"

lemma components_check_parts:
  "components_check p = Inr () \<Longrightarrow> c \<in> set p \<Longrightarrow> c = CurDir \<or> (\<exists>n. c = Normal n)"
proof (induction p)
  case (Cons d p)
  then show ?case by (cases d) (auto simp: bind_res_Inr_iff)
qed simp

lemma rsplit_at_dot_chars: "rsplit_at_dot n = (stem, ext) \<Longrightarrow>
    set stem \<subseteq> set n \<and> (\<forall>e. ext = Some e \<longrightarrow> set e \<subseteq> set n)"
  by (auto simp: rsplit_at_dot_def Let_def split: if_splits dest!: in_set_takeD set_takeWhileD)

lemma rsplit_at_dot_prefix: "rsplit_at_dot n = (stem, ext) \<Longrightarrow> \<exists>k. stem = take k n"
  by (auto simp: rsplit_at_dot_def Let_def intro: exI [of _ "length n"] split: if_splits)

text \<open>The names made to keep both of two files.\<close>

lemma alternate_name_single:
  assumes "rsplit_at_dot n = (stem, ext)" "single_name sep n" "CHR ''/'' \<notin> set tag" "sep \<notin> set tag"
    "sep \<notin> set '' ().''"
  shows "single_name sep (alternate_name stem ext tag)"
proof -
  let ?name = "alternate_name stem ext tag"
  have "?name \<noteq> []" "?name \<noteq> ''.''" "?name \<noteq> ''..''"
    by (cases stem; cases "tl stem"; auto simp: alternate_name_def split: option.splits)+
  moreover have "CHR ''/'' \<notin> set ?name" "sep \<notin> set ?name"
    using rsplit_at_dot_chars [OF assms(1)] assms(2-5)
    by (auto simp: alternate_name_def single_name_def split: option.splits)
  ultimately show ?thesis by (simp add: single_name_def)
qed

lemma alternate_name_drive:
  assumes "rsplit_at_dot n = (stem, ext)" "\<not> drive_like sep n"
  shows "\<not> drive_like sep (alternate_name stem ext tag)"
proof -
  from rsplit_at_dot_prefix [OF assms(1)] obtain k where stem: "stem = take k n" by blast
  show ?thesis
    using assms(2) by (cases k; cases "k - 1"; cases n; cases "tl n")
      (auto simp: drive_like_def stem alternate_name_def split: option.splits)
qed

text \<open>Whether the relative path of a manifest names something below the directory it is joined to, by a name that can
  stand alone.\<close>

definition names_a_file :: "platform \<Rightarrow> char \<Rightarrow> ManifestV1 \<Rightarrow> bool" where
  "names_a_file pf sep m \<longleftrightarrow>
     (case rev (filter (\<lambda>c. c \<noteq> CurDir) (pf_components pf (lf_relative_path (logical_file m)))) of
        Normal n # _ \<Rightarrow> \<not> drive_like sep n
      | _ \<Rightarrow> False)"

lemma alternate_loop_candidate: "alternate_loop fs cand i = Some p \<Longrightarrow> \<exists>k. p = cand (show_nat k)"
proof (induction fs cand i rule: alternate_loop.induct)
  case (1 fs cand i)
  from 1(2) show ?case by (subst (asm) alternate_loop.simps) (auto split: if_splits dest: 1(1))
qed

lemma restore_file_changes:
  assumes "restore_file pf sha os parse pol get cb env m target collision policy fs tmp en = Some out"
    "fs_files (ro_fs out) \<noteq> fs_files fs"
  shows "\<exists>final w. validate_manifest_for_restore pf m = Inr ()
    \<and> resolve_collision pf (rv_nanos env) fs target collision = Apply final
    \<and> fs_files (ro_fs out) = (fs_files fs)(final \<mapsto> w)"
  using assms(1)
proof (cases rule: restore_file_run)
  case (going final)
  from going(3) show ?thesis
  proof (cases rule: restore_to_run)
    case (moved en' tmp2 p data fin)
    then show ?thesis
      using going(1,2) assms(2) by (cases fin) (fastforce dest: finalize_file_Inr finalize_file_Inl)+
  qed (use assms(2) in simp)
qed (use assms(2) in simp_all)

context path_syntax
begin

lemma join_below:
  assumes "validate_safe_relative_path pf (pf_components pf rel) = Inr ()" "dest \<noteq> []"
  shows "join_path pf dest (pf_components pf rel) = dest @ filter (\<lambda>c. c \<noteq> CurDir) (pf_components pf rel)"
    and "below sep dest (join_path pf dest (pf_components pf rel))"
proof -
  let ?q = "filter (\<lambda>c. c \<noteq> CurDir) (pf_components pf rel)"
  have ok: "components_check (pf_components pf rel) = Inr ()"
    using assms(1) by (auto simp: validate_safe_relative_path_def split: if_splits)
  have q: "\<exists>n. c = Normal n \<and> single_name sep n" if "c \<in> set ?q" for c
    using components_check_parts [OF ok, of c] names [OF ok] that by auto
  then have "RootDir \<notin> set ?q" by blast
  moreover from this have "\<not> pf_is_absolute pf ?q" using absolute by blast
  moreover have "\<not> is_prefix (hd ?q)" if "?q \<noteq> []" using q [OF hd_in_set [OF that]] by auto
  ultimately show join: "join_path pf dest (pf_components pf rel) = dest @ ?q"
    using assms(2) hd_in_set [of ?q] by (auto simp: join_path_def path_join_def)
  from q show "below sep dest (join_path pf dest (pf_components pf rel))" unfolding join below_def by blast
qed

lemma alternate_below:
  assumes "below sep dest (dest @ q @ [Normal n])" "\<not> drive_like sep n" "CHR ''/'' \<notin> set tag" "sep \<notin> set tag" "sep \<notin> set '' ().''"
  shows "below sep dest (alternate_candidate pf (dest @ q @ [Normal n]) tag)"
proof -
  obtain stem ext where split: "rsplit_at_dot n = (stem, ext)" by fastforce
  let ?name = "alternate_name stem ext tag"
  have n: "single_name sep n" and q: "\<forall>c \<in> set q. \<exists>n. c = Normal n \<and> single_name sep n"
    using assms(1) by (auto simp: below_def)
  have name: "single_name sep ?name" by (rule alternate_name_single [OF split n assms(3-5)])
  then have "pf_components pf ?name = [Normal ?name]" using single alternate_name_drive [OF split assms(2)] by blast
  then have "alternate_candidate pf (dest @ q @ [Normal n]) tag = dest @ q @ [Normal ?name]"
    using split by (simp add: alternate_candidate_def path_parent_def file_name_of_def join_single butlast_append)
  then show ?thesis using q name by (auto simp: below_def)
qed

lemma collision_below:
  assumes "resolve_collision pf ts fs target policy = Apply final" "below sep dest target" "sep \<notin> set ''() .collision_''"
    "\<not> is_ascii_digit sep" "policy = KeepBoth \<Longrightarrow> \<exists>q n. target = dest @ q @ [Normal n] \<and> \<not> drive_like sep n"
  shows "below sep dest final"
proof (cases "policy = KeepBoth")
  case True
  then obtain q n where target: "target = dest @ q @ [Normal n]" "\<not> drive_like sep n" using assms(5) by blast
  have digits: "CHR ''/'' \<notin> set (show_nat k)" "sep \<notin> set (show_nat k)" for k
    using show_nat_digits [of "CHR ''/''" k] show_nat_digits [of sep k] assms(4) by (auto simp: is_ascii_digit_def)
  have sep: "sep \<notin> set '' ().''" using assms(3) by simp
  have alt: "below sep dest (alternate_candidate pf target tag)" if "CHR ''/'' \<notin> set tag" "sep \<notin> set tag" for tag
    using alternate_below [OF _ target(2) that sep] assms(2) unfolding target(1) by blast
  have "below sep dest (alternate_candidate pf target (''collision_'' @ show_nat ts))"
    by (rule alt) (use digits assms(3) in simp_all)
  moreover have "below sep dest (alternate_candidate pf target (show_nat k))" for k by (rule alt) (rule digits)+
  ultimately show ?thesis
    using assms(1,2) by (auto simp: resolve_collision_def generate_alternate_path_def dest!: alternate_loop_candidate
        split: if_splits CollisionPolicy.splits option.splits)
qed (use assms(1,2) in \<open>auto simp: resolve_collision_def split: if_splits CollisionPolicy.splits\<close>)

lemma run_pipeline_below:
  assumes "run_pipeline lib env m target collision policy w = Some (w', r)"
    and lib: "rl_platform lib = pf" "dest \<noteq> []"
    and target: "target = join_path pf dest (pf_components pf (lf_relative_path (logical_file m)))"
    and sep: "sep \<notin> set ''() .collision_''" "\<not> is_ascii_digit sep"
    and named: "collision = KeepBoth \<Longrightarrow> names_a_file pf sep m"
    and changed: "fs_files (rw_fs w') p \<noteq> fs_files (rw_fs w) p"
  shows "below sep dest p"
proof -
  from assms(1) obtain out where run: "restore_file pf (rl_sha lib) (rl_open_sealed lib) (rl_parse lib)
      (rl_retry lib) (rl_get lib) (rl_callback lib) env m target collision policy (rw_fs w) (rw_tmp w) (rw_engine w) = Some out"
    and w': "rw_fs w' = ro_fs out"
    by (auto simp: run_pipeline_def lib(1))
  with changed have "fs_files (ro_fs out) \<noteq> fs_files (rw_fs w)" by auto
  from restore_file_changes [OF run this] obtain final c where
    f: "validate_manifest_for_restore pf m = Inr ()"
      "resolve_collision pf (rv_nanos env) (rw_fs w) target collision = Apply final"
      "fs_files (ro_fs out) = (fs_files (rw_fs w))(final \<mapsto> c)" by blast
  let ?rel = "pf_components pf (lf_relative_path (logical_file m))"
  from f(1) have safe: "validate_safe_relative_path pf ?rel = Inr ()"
    by (auto simp: validate_manifest_for_restore_def bind_res_Inr_iff Let_def split: if_splits)
  note join = join_below [OF safe lib(2), folded target]
  have "\<exists>q n. target = dest @ q @ [Normal n] \<and> \<not> drive_like sep n" if "collision = KeepBoth"
    using named [OF that] join(1)
    by (cases "filter (\<lambda>c. c \<noteq> CurDir) ?rel" rule: rev_cases) (auto simp: names_a_file_def split: component.splits)
  then have "below sep dest final" by (rule collision_below [OF f(2) join(2) sep])
  moreover have "p = final" using changed w' f(3) by (auto split: if_splits)
  ultimately show ?thesis by simp
qed

end

definition counted :: "SnapshotRestoreResult \<Rightarrow> nat" where
  "counted a = srr_restored_files a + srr_skipped_files a + srr_overwritten_files a + srr_kept_both_files a + srr_failed_files a"

lemma add_result_counted:
  "rr_outcome r \<noteq> OutcomeCancelled \<Longrightarrow> counted (add_result r a) = Suc (counted a)"
  "length (srr_file_results (add_result r a)) = Suc (length (srr_file_results a))"
  "srr_total_files (add_result r a) = srr_total_files a"
  by (auto simp: counted_def add_result_def Let_def split: FileRestoreOutcome.split)

lemma failed_result_outcome [simp]: "rr_outcome (failed_result i rel p msg) = OutcomeFailed"
  by (simp add: failed_result_def)

lemma restore_versions_counts:
  "restore_versions lib cancelled env db q k fvs a w = Some (w', Inr s) \<Longrightarrow>
     counted s = counted a + length fvs \<and> length (srr_file_results s) = length (srr_file_results a) + length fvs
     \<and> srr_total_files s = srr_total_files a"
  by (induction lib cancelled env db q k fvs a w rule: restore_versions.induct)
    (auto simp: add_result_counted Let_def split: if_splits sum.splits option.splits)

context path_syntax
begin

lemma restore_versions_below:
  assumes "restore_versions lib cancelled env db q k fvs a w = Some (w', r)"
    and "rl_platform lib = pf" "pf_components pf (sq_destination_dir q) \<noteq> []"
    and "sep \<notin> set ''() .collision_''" "\<not> is_ascii_digit sep"
    and "\<And>mid m. \<lbrakk>sq_collision_policy q = KeepBoth; get_manifest pf (rl_serde lib) db mid = Inr (Some m)\<rbrakk>
           \<Longrightarrow> names_a_file pf sep m"
    and "fs_files (rw_fs w') p \<noteq> fs_files (rw_fs w) p"
  shows "below sep (pf_components pf (sq_destination_dir q)) p"
  using assms
proof (induction lib cancelled env db q k fvs a w rule: restore_versions.induct)
  case (2 lib cancelled env db q k f v fvs a w)
  note lib = "2.prems"(2) and changed = "2.prems"(7)
  show ?case
  proof (cases "cancelled k \<or> (\<exists>e. get_manifest pf (rl_serde lib) db (ver_manifest_id v) = Inl e)")
    case True
    then show ?thesis using "2.prems"(1) changed lib by (auto split: if_splits)
  next
    case False
    then obtain mo where mo: "get_manifest pf (rl_serde lib) db (ver_manifest_id v) = Inr mo"
      by (cases "get_manifest pf (rl_serde lib) db (ver_manifest_id v)") auto
    show ?thesis
    proof (cases mo)
      case None
      then show ?thesis using "2.IH"(1) "2.prems" mo False lib by simp
    next
      case (Some m)
      let ?target = "join_path pf (pf_components pf (sq_destination_dir q))
        (pf_components pf (lf_relative_path (logical_file m)))"
      from "2.prems"(1) mo Some False obtain w1 res where
        run: "run_pipeline lib (env k) m ?target (sq_collision_policy q) (sq_encryption_policy q) w = Some (w1, res)"
        by (auto simp: lib Let_def split: option.splits)
      show ?thesis
      proof (cases "fs_files (rw_fs w1) p = fs_files (rw_fs w) p")
        case new: False
        then show ?thesis using run_pipeline_below [OF run lib "2.prems"(3) refl "2.prems"(4,5)] "2.prems"(6) mo Some by blast
      next
        case same: True
        then have "fs_files (rw_fs w') p \<noteq> fs_files (rw_fs w1) p" using changed by simp
        then show ?thesis
          using "2.IH"(2,3) "2.prems"(1-6) run mo Some False lib by (cases res) (auto simp: Let_def split: if_splits)
      qed
    qed
  qed
qed simp

end

subsection \<open>Properties\<close>

text \<open>C8. Restoring a snapshot, however it ends, changes no file outside the destination directory. This holds on every
  platform whose paths follow \<open>path_syntax\<close>, those of Windows and of Unix among them, with the separator of that platform, for a
  destination that is not the empty path. When both of two files are to be kept, a new name is made from the name of the
  target: then every stored manifest has to name something below the directory, by a name that does not read as a drive.
  When the run returns a result, every file of the snapshot was counted once and has its entry.\<close>

theorem restore_snapshot_confined:
  assumes "restore_snapshot lib cancelled_start cancelled env elapsed db q w = Some (w', r)"
    and "path_syntax (rl_platform lib) (rl_separator lib)" "rl_separator lib \<in> {CHR ''/'', backslash}"
    and "pf_components (rl_platform lib) (sq_destination_dir q) \<noteq> []"
    and "\<And>mid m. \<lbrakk>sq_collision_policy q = KeepBoth; get_manifest (rl_platform lib) (rl_serde lib) db mid = Inr (Some m)\<rbrakk>
           \<Longrightarrow> names_a_file (rl_platform lib) (rl_separator lib) m"
  shows "(\<forall>p. fs_files (rw_fs w') p \<noteq> fs_files (rw_fs w) p \<longrightarrow>
       below (rl_separator lib) (pf_components (rl_platform lib) (sq_destination_dir q)) p)
    \<and> (case r of Inl _ \<Rightarrow> True
       | Inr s \<Rightarrow> srr_total_files s = length (list_files_by_snapshot db (sq_snapshot_id q))
           \<and> counted s = srr_total_files s \<and> length (srr_file_results s) = srr_total_files s)"
proof -
  let ?fvs = "list_files_by_snapshot db (sq_snapshot_id q)"
  have sep: "rl_separator lib \<notin> set ''() .collision_''" "\<not> is_ascii_digit (rl_separator lib)"
    using assms(3) by (auto simp: backslash_def is_ascii_digit_def)
  have "w' = w \<and> (\<exists>e. r = Inl e) \<or> (\<exists>a. restore_versions lib cancelled env db q 0 ?fvs a w = Some (w', r)
      \<and> counted a = 0 \<and> srr_file_results a = [] \<and> srr_total_files a = length ?fvs)"
    using assms(1) by (auto simp: restore_snapshot_def Let_def counted_def split: if_splits)
  then show ?thesis
  proof
    assume "\<exists>a. restore_versions lib cancelled env db q 0 ?fvs a w = Some (w', r)
      \<and> counted a = 0 \<and> srr_file_results a = [] \<and> srr_total_files a = length ?fvs"
    then obtain a where run: "restore_versions lib cancelled env db q 0 ?fvs a w = Some (w', r)"
      and a: "counted a = 0" "srr_file_results a = []" "srr_total_files a = length ?fvs"
      by blast
    show ?thesis
      using path_syntax.restore_versions_below [OF assms(2) run refl assms(4) sep assms(5)]
        restore_versions_counts [where w' = w'] run a
      by (auto split: sum.splits)
  qed auto
qed

definition sample_restore_lib :: "MockStorageProvider restore_lib" where
  "sample_restore_lib =
     \<lparr>rl_platform = windows_platform, rl_separator = backslash, rl_sha = (\<lambda>_. sample_digest),
      rl_open_sealed = (\<lambda>_ _ _ _. None), rl_parse = (\<lambda>_. Inl []), rl_serde = (\<lambda>_. Inl ''e''), rl_debug = (\<lambda>_. ''r''),
      rl_retry = sample_policy, rl_get = mock_download (\<lambda>_. sample_digest), rl_callback = False\<rparr>"

definition sample_snapshot_db :: Database where
  "sample_snapshot_db = open_in_memory\<lparr>t_files := [sample_file], t_snapshots := [sample_snapshot ''s1'' BackupStatus.Completed],
     t_versions := [version_record ''v1'' ''f1'' ''s1'' ''m9'']\<rparr>"

theorem restore_snapshot_confined_witness:
  "\<exists>w' s. restore_snapshot sample_restore_lib False (\<lambda>_. False) (\<lambda>_. sample_restore_env) 0 sample_snapshot_db
       (SnapshotRestoreRequest_new ''s1'' ''C:/d'') \<lparr>rw_fs = sample_disk, rw_tmp = {}, rw_engine = sample_engine False\<rparr>
       = Some (w', Inr s)
     \<and> srr_failed_files s = 1 \<and> counted s = 1"
proof -
  let ?w = "\<lparr>rw_fs = sample_disk, rw_tmp = {}, rw_engine = sample_engine False\<rparr>"
  let ?q = "SnapshotRestoreRequest_new ''s1'' ''C:/d''"
  have files: "list_files_by_snapshot sample_snapshot_db ''s1'' = [(sample_file, version_record ''v1'' ''f1'' ''s1'' ''m9'')]"
    by (simp add: list_files_by_snapshot_def sample_snapshot_db_def open_in_memory_def sample_file_def version_record_def
        order_asc_def)
  have none: "get_manifest (rl_platform sample_restore_lib) (rl_serde sample_restore_lib) sample_snapshot_db ''m9'' = Inr None"
    by (simp add: get_manifest_def read_manifest_def get_manifest_record_def sample_snapshot_db_def open_in_memory_def)
  have ver: "ver_manifest_id (version_record ''v1'' ''f1'' ''s1'' ''m9'') = ''m9''" by (simp add: version_record_def)
  have "\<exists>w' s. restore_snapshot sample_restore_lib False (\<lambda>_. False) (\<lambda>_. sample_restore_env) 0 sample_snapshot_db ?q ?w
      = Some (w', Inr s) \<and> srr_failed_files s = 1"
    by (simp add: restore_snapshot_def SnapshotRestoreRequest_new_def files none Let_def ver add_result_def failed_result_def)
  then obtain w' s where run: "restore_snapshot sample_restore_lib False (\<lambda>_. False) (\<lambda>_. sample_restore_env) 0
      sample_snapshot_db ?q ?w = Some (w', Inr s)" "srr_failed_files s = 1" by blast
  have "windows_components ''C:/d'' = [Prefix ''C:'', RootDir, Normal ''d'']" by code_simp
  then show ?thesis
    using restore_snapshot_confined [OF run(1)] run files windows.path_syntax_axioms
    by (simp add: sample_restore_lib_def SnapshotRestoreRequest_new_def windows_platform_def)
qed

text \<open>The file name of a manifest is joined to a destination directory as it is: one with parent components
  leaves the directory.\<close>

lemma file_name_escapes:
  assumes "rl_platform lib = unix_platform" "lf_file_name (logical_file m) = ''../x''"
  shows "resolve_dots [] (resolve_target_path lib fs ''/home/user/'' m) = [RootDir, Normal ''home'', Normal ''x'']"
proof -
  have "unix_components ''/home/user/'' = [RootDir, Normal ''home'', Normal ''user'']"
    "unix_components ''../x'' = [ParentDir, Normal ''x'']" "suffix ''/'' ''/home/user/''"
    by code_simp+
  then show ?thesis using assms by (simp add: resolve_target_path_def Let_def unix_platform_def join_path_def path_join_def)
qed

text \<open>On Windows a name that reads as a drive passes the checks of a manifest when it is not the first of its path, but
  the name made from it to keep both files leaves the directory.\<close>

lemma drive_name_escapes:
  "validate_safe_relative_path windows_platform (windows_components ''a/d:x'') = Inr ()"
  "alternate_candidate windows_platform (windows_components ''C:/out/a/d:x'') ''1'' = [Prefix ''d:'', Normal ''x (1)'']"
  by code_simp+

end
