(* ===== verification/Integrity.thy ===== *)
theory Integrity
  imports Storage_Model
begin

text \<open>
  The crate televault-integrity: the vocabulary of verification reports (\<open>types.rs\<close>), the errors
  (\<open>error.rs\<close>) and the hashing streams (\<open>hasher.rs\<close>). A hasher is the bytes it was fed; the digest is
  the argument \<open>sha\<close>. The identifier and the time stamp of a finding are read from the clock when it is
  made; here a list of findings is stamped in order, by \<open>stamped\<close>, the readings being the argument.
\<close>

subsection \<open>types.rs\<close>

datatype VerificationLevel = MetadataOnly | RemoteAvailability | RemoteIntegrity | RestoreReadiness

fun level_number :: "VerificationLevel \<Rightarrow> u32" where
  "level_number MetadataOnly = 1"
| "level_number RemoteAvailability = 2"
| "level_number RemoteIntegrity = 3"
| "level_number RestoreReadiness = 4"

fun VerificationLevel_display :: "VerificationLevel \<Rightarrow> string" where
  "VerificationLevel_display MetadataOnly = ''metadata_only''"
| "VerificationLevel_display RemoteAvailability = ''remote_availability''"
| "VerificationLevel_display RemoteIntegrity = ''remote_integrity''"
| "VerificationLevel_display RestoreReadiness = ''restore_readiness''"

datatype VerificationStatus = Healthy | Warning | Corrupted | Failed

fun VerificationStatus_display :: "VerificationStatus \<Rightarrow> string" where
  "VerificationStatus_display VerificationStatus.Healthy = ''healthy''"
| "VerificationStatus_display VerificationStatus.Warning = ''warning''"
| "VerificationStatus_display VerificationStatus.Corrupted = ''corrupted''"
| "VerificationStatus_display VerificationStatus.Failed = ''failed''"

datatype VerificationSeverity = Info | Warning | Error | Critical

fun VerificationSeverity_display :: "VerificationSeverity \<Rightarrow> string" where
  "VerificationSeverity_display VerificationSeverity.Info = ''info''"
| "VerificationSeverity_display VerificationSeverity.Warning = ''warning''"
| "VerificationSeverity_display VerificationSeverity.Error = ''error''"
| "VerificationSeverity_display VerificationSeverity.Critical = ''critical''"

datatype RestoreImpact = NoImpact | Degraded | Fatal

fun RestoreImpact_display :: "RestoreImpact \<Rightarrow> string" where
  "RestoreImpact_display NoImpact = ''none''"
| "RestoreImpact_display Degraded = ''degraded''"
| "RestoreImpact_display Fatal = ''fatal''"

datatype VerificationIssueCode =
    ManifestNotFound
  | ManifestInvalid
  | UnsupportedVersion
  | SnapshotNotFound
  | ProfileNotFound
  | FileNotFound
  | ChunkCountMismatch
  | ChunkIndexDiscontinuous
  | DuplicateChunkIndex
  | ChunkSizeMismatch
  | PendingStorageAllocation
  | InvalidLogicalFileSize
  | InvalidRelativePath
  | ProfileMismatch
  | SnapshotOwnershipViolation
  | FileOwnershipViolation
  | ManifestOwnershipViolation
  | ChunkOwnershipViolation
  | RemoteReferenceOwnershipViolation
  | CrossProfileReference
  | ConfirmedMissing
  | RemoteUnavailable
  | RemoteMetadataMismatch
  | InvalidTelegramReference
  | WrongChatId
  | WrongMessageId
  | WrongFileId
  | ChunkHashMismatch
  | WholeFileHashMismatch
  | StoredHashMismatch
  | PayloadCorrupted
  | AuthenticationFailed
  | InvalidAad
  | DecryptionFailed
  | DecompressionFailed
  | Cancelled
  | Timeout
  | InternalError

fun VerificationIssueCode_display :: "VerificationIssueCode \<Rightarrow> string" where
  "VerificationIssueCode_display VerificationIssueCode.ManifestNotFound = ''ManifestNotFound''"
| "VerificationIssueCode_display VerificationIssueCode.ManifestInvalid = ''ManifestInvalid''"
| "VerificationIssueCode_display VerificationIssueCode.UnsupportedVersion = ''UnsupportedVersion''"
| "VerificationIssueCode_display VerificationIssueCode.SnapshotNotFound = ''SnapshotNotFound''"
| "VerificationIssueCode_display VerificationIssueCode.ProfileNotFound = ''ProfileNotFound''"
| "VerificationIssueCode_display VerificationIssueCode.FileNotFound = ''FileNotFound''"
| "VerificationIssueCode_display VerificationIssueCode.ChunkCountMismatch = ''ChunkCountMismatch''"
| "VerificationIssueCode_display VerificationIssueCode.ChunkIndexDiscontinuous = ''ChunkIndexDiscontinuous''"
| "VerificationIssueCode_display VerificationIssueCode.DuplicateChunkIndex = ''DuplicateChunkIndex''"
| "VerificationIssueCode_display VerificationIssueCode.ChunkSizeMismatch = ''ChunkSizeMismatch''"
| "VerificationIssueCode_display VerificationIssueCode.PendingStorageAllocation = ''PendingStorageAllocation''"
| "VerificationIssueCode_display VerificationIssueCode.InvalidLogicalFileSize = ''InvalidLogicalFileSize''"
| "VerificationIssueCode_display VerificationIssueCode.InvalidRelativePath = ''InvalidRelativePath''"
| "VerificationIssueCode_display VerificationIssueCode.ProfileMismatch = ''ProfileMismatch''"
| "VerificationIssueCode_display VerificationIssueCode.SnapshotOwnershipViolation = ''SnapshotOwnershipViolation''"
| "VerificationIssueCode_display VerificationIssueCode.FileOwnershipViolation = ''FileOwnershipViolation''"
| "VerificationIssueCode_display VerificationIssueCode.ManifestOwnershipViolation = ''ManifestOwnershipViolation''"
| "VerificationIssueCode_display VerificationIssueCode.ChunkOwnershipViolation = ''ChunkOwnershipViolation''"
| "VerificationIssueCode_display VerificationIssueCode.RemoteReferenceOwnershipViolation = ''RemoteReferenceOwnershipViolation''"
| "VerificationIssueCode_display VerificationIssueCode.CrossProfileReference = ''CrossProfileReference''"
| "VerificationIssueCode_display VerificationIssueCode.ConfirmedMissing = ''ConfirmedMissing''"
| "VerificationIssueCode_display VerificationIssueCode.RemoteUnavailable = ''RemoteUnavailable''"
| "VerificationIssueCode_display VerificationIssueCode.RemoteMetadataMismatch = ''RemoteMetadataMismatch''"
| "VerificationIssueCode_display VerificationIssueCode.InvalidTelegramReference = ''InvalidTelegramReference''"
| "VerificationIssueCode_display VerificationIssueCode.WrongChatId = ''WrongChatId''"
| "VerificationIssueCode_display VerificationIssueCode.WrongMessageId = ''WrongMessageId''"
| "VerificationIssueCode_display VerificationIssueCode.WrongFileId = ''WrongFileId''"
| "VerificationIssueCode_display VerificationIssueCode.ChunkHashMismatch = ''ChunkHashMismatch''"
| "VerificationIssueCode_display VerificationIssueCode.WholeFileHashMismatch = ''WholeFileHashMismatch''"
| "VerificationIssueCode_display VerificationIssueCode.StoredHashMismatch = ''StoredHashMismatch''"
| "VerificationIssueCode_display VerificationIssueCode.PayloadCorrupted = ''PayloadCorrupted''"
| "VerificationIssueCode_display VerificationIssueCode.AuthenticationFailed = ''AuthenticationFailed''"
| "VerificationIssueCode_display VerificationIssueCode.InvalidAad = ''InvalidAad''"
| "VerificationIssueCode_display VerificationIssueCode.DecryptionFailed = ''DecryptionFailed''"
| "VerificationIssueCode_display VerificationIssueCode.DecompressionFailed = ''DecompressionFailed''"
| "VerificationIssueCode_display VerificationIssueCode.Cancelled = ''Cancelled''"
| "VerificationIssueCode_display VerificationIssueCode.Timeout = ''Timeout''"
| "VerificationIssueCode_display VerificationIssueCode.InternalError = ''InternalError''"

record VerificationFinding =
  vf_finding_id :: string
  vf_profile_id :: "ident_str option"
  vf_snapshot_id :: "ident_str option"
  vf_file_id :: "ident_str option"
  vf_manifest_id :: "ident_str option"
  vf_chunk_id :: "ident_str option"
  vf_chunk_index :: "u32 option"
  vf_level :: VerificationLevel
  vf_severity :: VerificationSeverity
  vf_code :: VerificationIssueCode
  vf_description :: string
  vf_restore_impact :: RestoreImpact
  vf_timestamp :: string

definition VerificationFinding_new ::
  "VerificationLevel \<Rightarrow> VerificationSeverity \<Rightarrow> VerificationIssueCode \<Rightarrow> string \<Rightarrow> RestoreImpact \<Rightarrow> VerificationFinding" where
  "VerificationFinding_new level severity code description impact =
     \<lparr>vf_finding_id = [], vf_profile_id = None, vf_snapshot_id = None, vf_file_id = None, vf_manifest_id = None,
      vf_chunk_id = None, vf_chunk_index = None, vf_level = level, vf_severity = severity, vf_code = code,
      vf_description = description, vf_restore_impact = impact, vf_timestamp = []\<rparr>"

definition finding_with_profile :: "ident_str \<Rightarrow> VerificationFinding \<Rightarrow> VerificationFinding" where
  "finding_with_profile i f = f\<lparr>vf_profile_id := Some i\<rparr>"

definition finding_with_snapshot :: "ident_str \<Rightarrow> VerificationFinding \<Rightarrow> VerificationFinding" where
  "finding_with_snapshot i f = f\<lparr>vf_snapshot_id := Some i\<rparr>"

definition finding_with_file :: "ident_str \<Rightarrow> VerificationFinding \<Rightarrow> VerificationFinding" where
  "finding_with_file i f = f\<lparr>vf_file_id := Some i\<rparr>"

definition finding_with_manifest :: "ident_str \<Rightarrow> VerificationFinding \<Rightarrow> VerificationFinding" where
  "finding_with_manifest i f = f\<lparr>vf_manifest_id := Some i\<rparr>"

definition finding_with_chunk :: "ident_str \<Rightarrow> u32 \<Rightarrow> VerificationFinding \<Rightarrow> VerificationFinding" where
  "finding_with_chunk i idx f = f\<lparr>vf_chunk_id := Some i, vf_chunk_index := Some idx\<rparr>"

text \<open>The clock readings of the findings of a list: nanoseconds and time stamp, as text.\<close>

definition stamped :: "(nat \<Rightarrow> string \<times> string) \<Rightarrow> VerificationFinding list \<Rightarrow> VerificationFinding list" where
  "stamped clock fs = map (\<lambda>(i, f). f\<lparr>vf_finding_id := ''find-'' @ fst (clock i), vf_timestamp := snd (clock i)\<rparr>)
     (enumerate 0 fs)"

record VerificationSummary =
  vs_total_files :: u32
  vs_total_manifests :: u32
  vs_total_chunks :: u32
  vs_healthy_chunks :: u32
  vs_corrupted_chunks :: u32
  vs_missing_chunks :: u32
  vs_ownership_violations :: u32
  vs_is_restore_ready :: bool
  vs_status :: VerificationStatus
  vs_duration_ms :: u64

definition VerificationSummary_default :: VerificationSummary where
  "VerificationSummary_default =
     \<lparr>vs_total_files = 0, vs_total_manifests = 0, vs_total_chunks = 0, vs_healthy_chunks = 0, vs_corrupted_chunks = 0,
      vs_missing_chunks = 0, vs_ownership_violations = 0, vs_is_restore_ready = True,
      vs_status = VerificationStatus.Healthy, vs_duration_ms = 0\<rparr>"

record VerificationResult =
  vres_target_type :: string
  vres_target_id :: string
  vres_profile_id :: ident_str
  vres_level :: VerificationLevel
  vres_status :: VerificationStatus
  vres_is_restore_ready :: bool
  vres_findings :: "VerificationFinding list"
  vres_summary :: VerificationSummary
  vres_verified_at :: string

record VerificationOptions =
  vo_level :: VerificationLevel
  vo_full_hash_check :: bool
  vo_decrypt_check :: bool
  vo_timeout_secs :: "u64 option"

definition VerificationOptions_default :: VerificationOptions where
  "VerificationOptions_default =
     \<lparr>vo_level = RemoteAvailability, vo_full_hash_check = False, vo_decrypt_check = False, vo_timeout_secs = Some 300\<rparr>"

definition metadata_only :: VerificationOptions where
  "metadata_only =
     \<lparr>vo_level = MetadataOnly, vo_full_hash_check = False, vo_decrypt_check = False, vo_timeout_secs = Some 30\<rparr>"

definition remote_availability :: VerificationOptions where
  "remote_availability =
     \<lparr>vo_level = RemoteAvailability, vo_full_hash_check = False, vo_decrypt_check = False, vo_timeout_secs = Some 120\<rparr>"

definition full_integrity :: VerificationOptions where
  "full_integrity =
     \<lparr>vo_level = RemoteIntegrity, vo_full_hash_check = True, vo_decrypt_check = True, vo_timeout_secs = Some 600\<rparr>"

definition restore_readiness :: VerificationOptions where
  "restore_readiness =
     \<lparr>vo_level = RestoreReadiness, vo_full_hash_check = True, vo_decrypt_check = True, vo_timeout_secs = Some 600\<rparr>"

subsection \<open>error.rs\<close>

datatype IntegrityError =
    Io io_error
  | HashMismatch string string
  | SizeMismatch u64 u64
  | Cancelled
  | Serialization string
  | Internal string

definition quoted :: "string \<Rightarrow> string" where
  "quoted s = [CHR 0x27] @ s @ [CHR 0x27]"

fun IntegrityError_to_AppError :: "IntegrityError \<Rightarrow> AppError" where
  "IntegrityError_to_AppError (IntegrityError.Io e) = AppError.Io e"
| "IntegrityError_to_AppError (IntegrityError.HashMismatch expected calculated) =
     AppError.Validation ''integrity_hash'' (''expected '' @ quoted expected @ '', found '' @ quoted calculated)"
| "IntegrityError_to_AppError (IntegrityError.SizeMismatch expected actual) =
     AppError.Validation ''integrity_size''
       (''expected '' @ show_nat (unat expected) @ '' bytes, found '' @ show_nat (unat actual) @ '' bytes'')"
| "IntegrityError_to_AppError IntegrityError.Cancelled =
     AppError.Validation ''verification'' ''Verification was cancelled by user''"
| "IntegrityError_to_AppError (IntegrityError.Serialization e) = AppError.Validation ''serialization'' e"
| "IntegrityError_to_AppError (IntegrityError.Internal m) = AppError.Internal m"

subsection \<open>hasher.rs\<close>

record NullHashWriter =
  nhw_fed :: bytes
  nhw_bytes_written :: u64

definition NullHashWriter_new :: NullHashWriter where
  "NullHashWriter_new = \<lparr>nhw_fed = [], nhw_bytes_written = 0\<rparr>"

definition NullHashWriter_write :: "NullHashWriter write_fn" where
  "NullHashWriter_write w buf =
     (w\<lparr>nhw_fed := nhw_fed w @ buf, nhw_bytes_written := nhw_bytes_written w + of_nat (length buf)\<rparr>, Inr (length buf))"

definition NullHashWriter_finalize :: "(bytes \<Rightarrow> string) \<Rightarrow> NullHashWriter \<Rightarrow> string \<times> u64" where
  "NullHashWriter_finalize sha w = (sha (nhw_fed w), nhw_bytes_written w)"

record 'w HashWriter =
  hw_inner :: 'w
  hw_fed :: bytes
  hw_bytes_written :: u64

definition HashWriter_new :: "'w \<Rightarrow> 'w HashWriter" where
  "HashWriter_new w = \<lparr>hw_inner = w, hw_fed = [], hw_bytes_written = 0\<rparr>"

definition HashWriter_write :: "'w write_fn \<Rightarrow> 'w HashWriter write_fn" where
  "HashWriter_write wr w buf =
     (case wr (hw_inner w) buf of
        (i, Inl e) \<Rightarrow> (w\<lparr>hw_inner := i\<rparr>, Inl e)
      | (i, Inr n) \<Rightarrow>
          (w\<lparr>hw_inner := i, hw_fed := hw_fed w @ take n buf, hw_bytes_written := hw_bytes_written w + of_nat n\<rparr>, Inr n))"

definition HashWriter_finalize :: "(bytes \<Rightarrow> string) \<Rightarrow> 'w HashWriter \<Rightarrow> 'w \<times> string \<times> u64" where
  "HashWriter_finalize sha w = (hw_inner w, sha (hw_fed w), hw_bytes_written w)"

definition hash_reader :: "(bytes \<Rightarrow> string) \<Rightarrow> reader \<Rightarrow> (IntegrityError, string \<times> u64) result" where
  "hash_reader sha rd =
     (case read_loop rd [] of
        Inl e \<Rightarrow> Err (IntegrityError.Io e)
      | Inr bs \<Rightarrow> Ok (sha bs, of_nat (length bs)))"

definition verify_reader ::
  "(bytes \<Rightarrow> string) \<Rightarrow> reader \<Rightarrow> string \<Rightarrow> u64 option \<Rightarrow> (IntegrityError, unit) result" where
  "verify_reader sha rd expected_sha256 expected_size =
     bind_res (hash_reader sha rd) (\<lambda>(calculated, total).
       case expected_size of
         Some expected \<Rightarrow>
           if total \<noteq> expected then Err (IntegrityError.SizeMismatch expected total)
           else if \<not> eq_ignore_ascii_case calculated expected_sha256
           then Err (IntegrityError.HashMismatch expected_sha256 calculated) else Ok ()
       | None \<Rightarrow>
           if \<not> eq_ignore_ascii_case calculated expected_sha256
           then Err (IntegrityError.HashMismatch expected_sha256 calculated) else Ok ())"

lemma stamped_fields:
  "map vf_code (stamped clock fs) = map vf_code fs" "map vf_severity (stamped clock fs) = map vf_severity fs"
  "map vf_restore_impact (stamped clock fs) = map vf_restore_impact fs" "length (stamped clock fs) = length fs"
  by (simp_all add: stamped_def split_beta comp_def list_eq_iff_nth_eq nth_enumerate_eq)

lemma NullHashWriter_blocks:
  "write_blocks NullHashWriter_write w bs
     = Some (w\<lparr>nhw_fed := nhw_fed w @ concat bs, nhw_bytes_written := nhw_bytes_written w + of_nat (length (concat bs))\<rparr>, Inr ())"
proof -
  have one: "write_all NullHashWriter_write w b
      = Some (w\<lparr>nhw_fed := nhw_fed w @ b, nhw_bytes_written := nhw_bytes_written w + of_nat (length b)\<rparr>, Inr ())" for w b
    by (subst write_all.simps) (simp add: NullHashWriter_write_def write_all.simps)
  show ?thesis by (induction bs arbitrary: w) (simp_all add: one add.assoc)
qed

end
