(* ===== verification/Verify_Engine.thy ===== *)
theory Verify_Engine
  imports Backup_Engine Integrity
begin

text \<open>
  Verification of backups (\<open>verification/ownership.rs\<close> and \<open>verification/engine.rs\<close> of televault-backup): the
  ownership checks over the catalog and the four levels of a verification run for a manifest, a file, a
  snapshot and a profile. A run reads the catalog and the provider and writes only its history rows.

  The provider's queries and downloads, serde and SHA-256 are the record \<open>verify_lib\<close>; the cancellation
  flag at every look and the readings of the clock are the record \<open>verify_env\<close>. None stands for a
  download that never returns. The sum of declared chunk sizes wraps, as in a build without overflow
  checks.
\<close>

subsection \<open>ownership.rs\<close>

definition meta_issue :: "VerificationSeverity \<Rightarrow> VerificationIssueCode \<Rightarrow> string \<Rightarrow> VerificationFinding" where
  "meta_issue sev code description = VerificationFinding_new MetadataOnly sev code description Fatal"

definition validate_profile :: "Database \<Rightarrow> ident_str \<Rightarrow> (VerificationFinding, ProfileRecord) result" where
  "validate_profile db pid =
     ok_or (finding_with_profile pid (meta_issue VerificationSeverity.Critical VerificationIssueCode.ProfileNotFound
         (''Scoped profile '' @ quoted pid @ '' does not exist in local catalog'')))
       (get_profile db pid)"

definition validate_snapshot :: "Database \<Rightarrow> ident_str \<Rightarrow> ident_str \<Rightarrow> (VerificationFinding, SnapshotRecord) result" where
  "validate_snapshot db pid sid =
     (case get_snapshot db sid of
        None \<Rightarrow> Err (finding_with_snapshot sid (finding_with_profile pid
          (meta_issue VerificationSeverity.Critical VerificationIssueCode.SnapshotNotFound
            (''Snapshot '' @ quoted sid @ '' not found in catalog''))))
      | Some snap \<Rightarrow>
          if sr_profile_id snap \<noteq> pid then
            Err (finding_with_snapshot sid (finding_with_profile pid
              (meta_issue VerificationSeverity.Critical VerificationIssueCode.SnapshotOwnershipViolation
                (''Snapshot '' @ quoted sid @ '' belongs to profile '' @ quoted (sr_profile_id snap)
                   @ '', not expected profile '' @ quoted pid))))
          else Ok snap)"

definition validate_file :: "Database \<Rightarrow> ident_str \<Rightarrow> ident_str \<Rightarrow> (VerificationFinding, FileRecord) result" where
  "validate_file db pid fid =
     (case get_file db fid of
        None \<Rightarrow> Err (finding_with_file fid (finding_with_profile pid
          (meta_issue VerificationSeverity.Critical VerificationIssueCode.FileNotFound
            (''Logical file '' @ quoted fid @ '' not found in catalog''))))
      | Some f \<Rightarrow>
          (case fr_profile_id f of
             Some owner \<Rightarrow>
               if owner \<noteq> pid then
                 Err (finding_with_file fid (finding_with_profile pid
                   (meta_issue VerificationSeverity.Critical VerificationIssueCode.FileOwnershipViolation
                     (''File '' @ quoted fid @ '' belongs to profile '' @ quoted owner
                        @ '', not expected profile '' @ quoted pid))))
               else Ok f
           | None \<Rightarrow> Ok f))"

definition chunk_issue ::
  "ident_str \<Rightarrow> ident_str \<Rightarrow> ChunkManifest \<Rightarrow> VerificationFinding \<Rightarrow> VerificationFinding" where
  "chunk_issue pid fid c f =
     finding_with_chunk (cmf_chunk_id c) (cmf_index c) (finding_with_file fid (finding_with_profile pid f))"

definition reference_findings ::
  "(StorageReference \<Rightarrow> (string, string) result) \<Rightarrow> Database \<Rightarrow> ident_str \<Rightarrow> ident_str \<Rightarrow> ChunkManifest
     \<Rightarrow> VerificationFinding list" where
  "reference_findings to_json db pid fid c =
     (case cmf_storage_reference c of
        StorageReference.Pending \<Rightarrow>
          [chunk_issue pid fid c (meta_issue VerificationSeverity.Error VerificationIssueCode.PendingStorageAllocation
             (''Chunk '' @ quoted (cmf_chunk_id c) @ '' (index '' @ show_nat (unat (cmf_index c))
                @ '') is in Pending storage state''))]
      | Telegram chat message file \<Rightarrow>
          (if message \<le> 0 then
             [chunk_issue pid fid c (VerificationFinding_new RemoteAvailability VerificationSeverity.Critical
                VerificationIssueCode.WrongMessageId
                (''Chunk '' @ quoted (cmf_chunk_id c) @ '' has invalid non-positive Telegram message ID ''
                   @ show_int message) Fatal)]
           else [])
          @ (if trim file = [] then
               [chunk_issue pid fid c (VerificationFinding_new RemoteAvailability VerificationSeverity.Critical
                  VerificationIssueCode.WrongFileId
                  (''Chunk '' @ quoted (cmf_chunk_id c) @ '' has empty Telegram file ID'') Fatal)]
             else [])
          @ (let ref_str = (case to_json (cmf_storage_reference c) of Inr s \<Rightarrow> s | Inl _ \<Rightarrow> [])
             in map (\<lambda>other. chunk_issue pid fid c
                    (meta_issue VerificationSeverity.Critical VerificationIssueCode.RemoteReferenceOwnershipViolation
                      (''Remote reference '' @ quoted ref_str @ '' is already assigned to chunk ''
                         @ quoted (cr_chunk_id other) @ '' (file '' @ quoted (cr_file_id other)
                         @ ''), illegal reuse detected'')))
                  (filter (\<lambda>other. cr_chunk_id other \<noteq> cmf_chunk_id c) (find_chunks_by_storage_reference db ref_str)))
      | LocalStaging rel \<Rightarrow>
          (if sublist ''..'' rel \<or> prefix ''/'' rel then
             [chunk_issue pid fid c (meta_issue VerificationSeverity.Critical VerificationIssueCode.InvalidRelativePath
                (''Chunk '' @ quoted (cmf_chunk_id c) @ '' has unsafe local staging path '' @ quoted rel))]
           else []))"

definition chunk_row_findings :: "Database \<Rightarrow> ident_str \<Rightarrow> ident_str \<Rightarrow> ChunkManifest \<Rightarrow> VerificationFinding list" where
  "chunk_row_findings db pid fid c =
     (case get_chunk db (cmf_chunk_id c) of
        Some r \<Rightarrow>
          if cr_file_id r \<noteq> fid then
            [chunk_issue pid fid c (meta_issue VerificationSeverity.Critical VerificationIssueCode.ChunkOwnershipViolation
               (''Chunk '' @ quoted (cmf_chunk_id c) @ '' belongs to file '' @ quoted (cr_file_id r)
                  @ '' in DB, but manifest declares file '' @ quoted fid))]
          else []
      | None \<Rightarrow> [])"

definition validate_manifest_ownership_chain ::
  "(StorageReference \<Rightarrow> (string, string) result) \<Rightarrow> Database \<Rightarrow> ident_str \<Rightarrow> ManifestV1 \<Rightarrow> ident_str option
     \<Rightarrow> ident_str option \<Rightarrow> VerificationFinding list" where
  "validate_manifest_ownership_chain to_json db pid m expected_file expected_snapshot =
     (let fid = lf_file_id (logical_file m) in
      (case expected_file of
         Some expected \<Rightarrow>
           if expected \<noteq> fid then
             [finding_with_file fid (finding_with_profile pid
                (meta_issue VerificationSeverity.Critical VerificationIssueCode.ManifestOwnershipViolation
                  (''Manifest '' @ quoted (manifest_id m) @ '' declares file_id '' @ quoted fid
                     @ '', but expected file_id '' @ quoted expected)))]
           else []
       | None \<Rightarrow> [])
      @ (case validate_file db pid fid of
           Inl f \<Rightarrow> [f]
         | Inr r \<Rightarrow>
             (case fr_profile_id r of
                Some owner \<Rightarrow>
                  if owner \<noteq> pid then
                    [finding_with_file fid (finding_with_profile pid
                       (meta_issue VerificationSeverity.Critical VerificationIssueCode.CrossProfileReference
                         (''File '' @ quoted fid @ '' is owned by profile '' @ quoted owner
                            @ '', cross-profile access prohibited'')))]
                  else []
              | None \<Rightarrow> []))
      @ (case expected_snapshot of
           Some sid \<Rightarrow> (case validate_snapshot db pid sid of Inl f \<Rightarrow> [f] | Inr _ \<Rightarrow> [])
         | None \<Rightarrow> [])
      @ concat (map (\<lambda>c. reference_findings to_json db pid fid c @ chunk_row_findings db pid fid c) (chunks m)))"

subsection \<open>Parameters of the engine\<close>

record 's verify_lib =
  vl_platform :: platform
  vl_sha :: "bytes \<Rightarrow> string"
  vl_serde :: "string \<Rightarrow> (string, ManifestV1) result"
  vl_reference_json :: "StorageReference \<Rightarrow> (string, string) result"
  vl_findings_json :: "VerificationFinding list \<Rightarrow> (string, string) result"
  vl_metadata :: "'s \<Rightarrow> StorageReference \<Rightarrow> (StorageError, RemoteObjectMetadata) result"
  vl_get :: "('s, NullHashWriter cancelling) get_fn"
  vl_constraint_text :: string

record verify_env =
  vn_cancel_start :: bool
  vn_cancel_local :: bool
  vn_cancel_query :: "nat \<Rightarrow> bool"
  vn_cancel_remote :: bool
  vn_cancel_stream :: "nat \<Rightarrow> bool"
  vn_write_cancelled :: "nat \<Rightarrow> nat option"
  vn_cancel_error :: "nat \<Rightarrow> bool"
  vn_clock :: "nat \<Rightarrow> string \<times> string"
  vn_elapsed_ms :: u64
  vn_history_nanos :: string
  vn_verified_at :: string

subsection \<open>Synthesis and history\<close>

definition corruption_codes :: "VerificationIssueCode list" where
  "corruption_codes =
     [VerificationIssueCode.ChunkHashMismatch, VerificationIssueCode.StoredHashMismatch,
      VerificationIssueCode.PayloadCorrupted, VerificationIssueCode.AuthenticationFailed,
      VerificationIssueCode.DecryptionFailed, VerificationIssueCode.WholeFileHashMismatch]"

definition ownership_codes :: "VerificationIssueCode list" where
  "ownership_codes =
     [VerificationIssueCode.ProfileMismatch, VerificationIssueCode.SnapshotOwnershipViolation,
      VerificationIssueCode.FileOwnershipViolation, VerificationIssueCode.ManifestOwnershipViolation,
      VerificationIssueCode.ChunkOwnershipViolation, VerificationIssueCode.RemoteReferenceOwnershipViolation,
      VerificationIssueCode.CrossProfileReference]"

definition count_codes :: "VerificationIssueCode list \<Rightarrow> VerificationFinding list \<Rightarrow> u32" where
  "count_codes cs fs = of_nat (length (filter (\<lambda>f. vf_code f \<in> set cs) fs))"

definition synthesize_result ::
  "string \<Rightarrow> string \<Rightarrow> ident_str \<Rightarrow> VerificationLevel \<Rightarrow> VerificationFinding list \<Rightarrow> u32 \<Rightarrow> u32 \<Rightarrow> u32 \<Rightarrow> u64 \<Rightarrow> string
     \<Rightarrow> VerificationResult" where
  "synthesize_result target_type target_id pid level findings n_files n_manifests n_chunks duration now =
     (let corrupted = count_codes corruption_codes findings;
          missing = count_codes [VerificationIssueCode.ConfirmedMissing] findings;
          violations = count_codes ownership_codes findings;
          has_cancelled = (\<exists>f \<in> set findings. vf_code f = VerificationIssueCode.Cancelled);
          has_fatal = (\<exists>f \<in> set findings. vf_restore_impact f = Fatal \<or> vf_severity f = VerificationSeverity.Critical);
          has_error = (\<exists>f \<in> set findings. vf_severity f = VerificationSeverity.Error);
          has_warning = (\<exists>f \<in> set findings. vf_restore_impact f = Degraded \<or> vf_severity f = VerificationSeverity.Warning);
          ready = (\<not> has_fatal \<and> \<not> has_cancelled \<and> corrupted = 0 \<and> missing = 0 \<and> violations = 0);
          status = (if has_cancelled then VerificationStatus.Failed
                    else if 0 < corrupted \<or> 0 < missing then VerificationStatus.Corrupted
                    else if has_fatal \<or> has_error then VerificationStatus.Failed
                    else if has_warning then VerificationStatus.Warning
                    else VerificationStatus.Healthy)
      in \<lparr>vres_target_type = target_type, vres_target_id = target_id, vres_profile_id = pid, vres_level = level,
          vres_status = status, vres_is_restore_ready = ready, vres_findings = findings,
          vres_summary = \<lparr>vs_total_files = n_files, vs_total_manifests = n_manifests,
            vs_total_chunks = n_chunks,
            vs_healthy_chunks = saturating_sub (saturating_sub n_chunks corrupted) missing,
            vs_corrupted_chunks = corrupted, vs_missing_chunks = missing, vs_ownership_violations = violations,
            vs_is_restore_ready = ready, vs_status = status, vs_duration_ms = duration\<rparr>,
          vres_verified_at = now\<rparr>)"

definition history_row ::
  "(VerificationFinding list \<Rightarrow> (string, string) result) \<Rightarrow> string \<Rightarrow> VerificationResult \<Rightarrow> VerificationHistoryRecord" where
  "history_row to_json nanos r =
     (let s = vres_summary r in
      \<lparr>vhr_history_id = ''vh-'' @ nanos, vhr_profile_id = vres_profile_id r, vhr_target_type = vres_target_type r,
       vhr_target_id = vres_target_id r, vhr_level = level_number (vres_level r),
       vhr_status = VerificationStatus_display (vres_status r), vhr_is_restore_ready = vres_is_restore_ready r,
       vhr_total_files = vs_total_files s, vhr_total_manifests = vs_total_manifests s,
       vhr_total_chunks = vs_total_chunks s, vhr_healthy_chunks = vs_healthy_chunks s,
       vhr_corrupted_chunks = vs_corrupted_chunks s, vhr_missing_chunks = vs_missing_chunks s,
       vhr_ownership_violations = vs_ownership_violations s, vhr_duration_ms = vs_duration_ms s,
       vhr_findings_json = (case to_json (vres_findings r) of Inr j \<Rightarrow> j | Inl _ \<Rightarrow> ''[]''),
       vhr_verified_at = vres_verified_at r\<rparr>)"

definition persist_history :: "'s verify_lib \<Rightarrow> string \<Rightarrow> VerificationResult \<Rightarrow> Database \<Rightarrow> Database" where
  "persist_history lib nanos r db =
     fst (record_verification_history (vl_constraint_text lib) (history_row (vl_findings_json lib) nanos r) db)"

definition create_cancelled_finding :: "ident_str \<Rightarrow> VerificationLevel \<Rightarrow> VerificationFinding" where
  "create_cancelled_finding pid level =
     finding_with_profile pid (VerificationFinding_new level VerificationSeverity.Warning VerificationIssueCode.Cancelled
       ''Verification was cancelled cooperatively by user request'' Fatal)"

subsection \<open>Level 1: the manifest\<close>

definition file_issue :: "ident_str \<Rightarrow> ManifestV1 \<Rightarrow> VerificationFinding \<Rightarrow> VerificationFinding" where
  "file_issue pid m f = finding_with_file (lf_file_id (logical_file m)) (finding_with_profile pid f)"

definition expected_chunk_size :: "ManifestV1 \<Rightarrow> nat \<Rightarrow> u64" where
  "expected_chunk_size m i =
     (if length (chunks m) = 1 then lf_original_size (logical_file m)
      else if i < length (chunks m) - 1 then TARGET_CHUNK_SIZE_BYTES
      else saturating_sub (lf_original_size (logical_file m)) (of_nat i * TARGET_CHUNK_SIZE_BYTES))"

definition position_findings :: "ident_str \<Rightarrow> ManifestV1 \<Rightarrow> nat \<Rightarrow> ChunkManifest \<Rightarrow> VerificationFinding list" where
  "position_findings pid m i c =
     (let fid = lf_file_id (logical_file m) in
      (if cmf_index c \<noteq> of_nat i then
         [chunk_issue pid fid c (meta_issue VerificationSeverity.Critical VerificationIssueCode.ChunkIndexDiscontinuous
            (''Chunk index mismatch at position '' @ show_nat i @ '': expected index '' @ show_nat i
               @ '', declared '' @ show_nat (unat (cmf_index c))))]
       else [])
      @ (if cmf_plaintext_size c \<noteq> expected_chunk_size m i then
           [chunk_issue pid fid c (meta_issue VerificationSeverity.Critical VerificationIssueCode.ChunkSizeMismatch
              (''Chunk '' @ cmf_chunk_id c @ '' (index '' @ show_nat i @ '') declared plaintext size ''
                 @ show_nat (unat (cmf_plaintext_size c)) @ '' bytes, expected ''
                 @ show_nat (unat (expected_chunk_size m i)) @ '' bytes''))]
         else []))"

definition local_findings :: "'s verify_lib \<Rightarrow> Database \<Rightarrow> ident_str \<Rightarrow> ManifestV1 \<Rightarrow> VerificationFinding list" where
  "local_findings lib db pid m =
     (let expected = calculate_expected_chunk_count (lf_original_size (logical_file m));
          declared = sum_list (map cmf_plaintext_size (chunks m))
      in validate_manifest_ownership_chain (vl_reference_json lib) db pid m None None
       @ (case ManifestV1_validate (vl_platform lib) m of
            Inl e \<Rightarrow> [file_issue pid m (meta_issue VerificationSeverity.Critical VerificationIssueCode.ManifestInvalid
              (''Manifest validation error: '' @ ManifestError_display e))]
          | Inr _ \<Rightarrow> [])
       @ (if of_nat (length (chunks m)) \<noteq> expected then
            [file_issue pid m (meta_issue VerificationSeverity.Critical VerificationIssueCode.ChunkCountMismatch
               (''Manifest has '' @ show_nat (length (chunks m)) @ '' chunks, but original size ''
                  @ show_nat (unat (lf_original_size (logical_file m))) @ '' bytes requires ''
                  @ show_nat (unat expected) @ '' chunks''))]
          else [])
       @ concat (map (\<lambda>(i, c). position_findings pid m i c) (enumerate 0 (chunks m)))
       @ (if declared \<noteq> lf_original_size (logical_file m) then
            [file_issue pid m (meta_issue VerificationSeverity.Critical VerificationIssueCode.InvalidLogicalFileSize
               (''Sum of chunk plaintext sizes ('' @ show_nat (unat declared)
                  @ '' bytes) does not equal logical file original size (''
                  @ show_nat (unat (lf_original_size (logical_file m))) @ '')''))]
          else []))"

subsection \<open>Level 2: remote availability\<close>

definition query_findings ::
  "'s verify_lib \<Rightarrow> 's \<Rightarrow> ident_str \<Rightarrow> ident_str \<Rightarrow> ChunkManifest \<Rightarrow> VerificationFinding list" where
  "query_findings lib s pid fid c =
     (if cmf_storage_reference c = StorageReference.Pending then []
      else case vl_metadata lib s (cmf_storage_reference c) of
        Inr meta \<Rightarrow>
          if 0 < cmf_stored_size c \<and> rom_size_bytes meta \<noteq> cmf_stored_size c then
            [chunk_issue pid fid c (VerificationFinding_new RemoteAvailability VerificationSeverity.Error
               VerificationIssueCode.RemoteMetadataMismatch
               (''Remote size mismatch for chunk '' @ quoted (cmf_chunk_id c) @ '': remote reports ''
                  @ show_nat (unat (rom_size_bytes meta)) @ '' bytes, local catalog expects ''
                  @ show_nat (unat (cmf_stored_size c)) @ '' bytes'') Fatal)]
          else []
      | Inl (StorageError.NotFound msg) \<Rightarrow>
          [chunk_issue pid fid c (VerificationFinding_new RemoteAvailability VerificationSeverity.Critical
             VerificationIssueCode.ConfirmedMissing
             (''Chunk '' @ quoted (cmf_chunk_id c) @ '' (index '' @ show_nat (unat (cmf_index c))
                @ '') confirmed missing on remote storage: '' @ msg) Fatal)]
      | Inl (InvalidReference msg) \<Rightarrow>
          [chunk_issue pid fid c (VerificationFinding_new RemoteAvailability VerificationSeverity.Critical
             VerificationIssueCode.InvalidTelegramReference
             (''Chunk '' @ quoted (cmf_chunk_id c) @ '' storage reference is invalid: '' @ msg) Fatal)]
      | Inl other \<Rightarrow>
          [chunk_issue pid fid c (VerificationFinding_new RemoteAvailability VerificationSeverity.Warning
             VerificationIssueCode.RemoteUnavailable
             (''Remote storage query failed for chunk '' @ quoted (cmf_chunk_id c) @ '' (transient): ''
                @ StorageError_display other) Degraded)])"

fun query_chunks ::
  "'s verify_lib \<Rightarrow> 's \<Rightarrow> verify_env \<Rightarrow> ident_str \<Rightarrow> ident_str \<Rightarrow> VerificationLevel \<Rightarrow> nat \<Rightarrow> ChunkManifest list
     \<Rightarrow> VerificationFinding list" where
  "query_chunks lib s env pid fid level k [] = []"
| "query_chunks lib s env pid fid level k (c # cs) =
     (if vn_cancel_query env k then [create_cancelled_finding pid level]
      else query_findings lib s pid fid c @ query_chunks lib s env pid fid level (Suc k) cs)"

subsection \<open>Level 3: remote integrity\<close>

definition stream_request :: "ident_str \<Rightarrow> ChunkManifest \<Rightarrow> DownloadRequest" where
  "stream_request fid c =
     \<lparr>dr_file_id = fid, dr_chunk_id = cmf_chunk_id c, dr_storage_reference = cmf_storage_reference c,
      dr_expected_size_bytes = cmf_stored_size c, dr_expected_sha256 = None\<rparr>"

definition streamed_findings ::
  "'s verify_lib \<Rightarrow> ident_str \<Rightarrow> ident_str \<Rightarrow> ChunkManifest \<Rightarrow> NullHashWriter \<Rightarrow> VerificationFinding list" where
  "streamed_findings lib pid fid c w =
     (let (calculated, n) = NullHashWriter_finalize (vl_sha lib) w in
      (if 0 < cmf_stored_size c \<and> n \<noteq> cmf_stored_size c then
         [chunk_issue pid fid c (VerificationFinding_new RemoteIntegrity VerificationSeverity.Critical
            VerificationIssueCode.ChunkSizeMismatch
            (''Chunk '' @ quoted (cmf_chunk_id c) @ '' streamed '' @ show_nat (unat n) @ '' bytes, expected ''
               @ show_nat (unat (cmf_stored_size c)) @ '' stored bytes'') Fatal)]
       else [])
      @ (if \<not> eq_ignore_ascii_case calculated (im_digest (cmf_integrity c)) then
           [chunk_issue pid fid c (VerificationFinding_new RemoteIntegrity VerificationSeverity.Critical
              VerificationIssueCode.ChunkHashMismatch
              (''Payload hash mismatch for chunk '' @ quoted (cmf_chunk_id c) @ '': calculated '' @ quoted calculated
                 @ '', expected '' @ quoted (im_digest (cmf_integrity c))) Fatal)]
         else []))"

text \<open>The findings of a failed download; None ends the loop as cancelled.\<close>

definition download_error_finding ::
  "verify_env \<Rightarrow> nat \<Rightarrow> ident_str \<Rightarrow> ident_str \<Rightarrow> ChunkManifest \<Rightarrow> StorageError \<Rightarrow> VerificationFinding option" where
  "download_error_finding env k pid fid c e =
     (case e of
        StorageError.NotFound msg \<Rightarrow>
          Some (chunk_issue pid fid c (VerificationFinding_new RemoteIntegrity VerificationSeverity.Critical
            VerificationIssueCode.ConfirmedMissing
            (''Chunk '' @ quoted (cmf_chunk_id c) @ '' not found during stream verification: '' @ msg) Fatal))
      | StorageError.Io io \<Rightarrow>
          if io_kind io = Interrupted \<or> vn_cancel_error env k then None
          else Some (chunk_issue pid fid c (VerificationFinding_new RemoteIntegrity VerificationSeverity.Warning
            VerificationIssueCode.RemoteUnavailable
            (''Remote download failed for chunk '' @ quoted (cmf_chunk_id c) @ '': '' @ StorageError_display e) Degraded))
      | StorageError.VerificationFailed reason \<Rightarrow>
          Some (chunk_issue pid fid c (VerificationFinding_new RemoteIntegrity VerificationSeverity.Critical
            VerificationIssueCode.PayloadCorrupted
            (''Remote verification failed for chunk '' @ quoted (cmf_chunk_id c) @ '': '' @ reason) Fatal))
      | _ \<Rightarrow>
          Some (chunk_issue pid fid c (VerificationFinding_new RemoteIntegrity VerificationSeverity.Warning
            VerificationIssueCode.RemoteUnavailable
            (''Remote download failed for chunk '' @ quoted (cmf_chunk_id c) @ '': '' @ StorageError_display e) Degraded)))"

definition stream_chunk ::
  "'s verify_lib \<Rightarrow> 's \<Rightarrow> verify_env \<Rightarrow> nat \<Rightarrow> ident_str \<Rightarrow> ChunkManifest
     \<Rightarrow> (NullHashWriter cancelling \<times> (StorageError, DownloadResult) result) option" where
  "stream_chunk lib s env k fid c =
     vl_get lib s (stream_request fid c) (cancelling_write (vn_write_cancelled env k) NullHashWriter_write)
       \<lparr>cw_inner = NullHashWriter_new, cw_calls = 0\<rparr>"

fun stream_chunks ::
  "'s verify_lib \<Rightarrow> 's \<Rightarrow> verify_env \<Rightarrow> ident_str \<Rightarrow> ident_str \<Rightarrow> VerificationLevel \<Rightarrow> nat \<Rightarrow> ChunkManifest list
     \<Rightarrow> VerificationFinding list option" where
  "stream_chunks lib s env pid fid level k [] = Some []"
| "stream_chunks lib s env pid fid level k (c # cs) =
     (if vn_cancel_stream env k then Some [create_cancelled_finding pid level]
      else if cmf_storage_reference c = StorageReference.Pending then
        stream_chunks lib s env pid fid level (Suc k) cs
      else case stream_chunk lib s env k fid c of
        None \<Rightarrow> None
      | Some (w, Inr _) \<Rightarrow>
          map_option (\<lambda>fs. streamed_findings lib pid fid c (cw_inner w) @ fs)
            (stream_chunks lib s env pid fid level (Suc k) cs)
      | Some (w, Inl e) \<Rightarrow>
          (case download_error_finding env k pid fid c e of
             None \<Rightarrow> Some [create_cancelled_finding pid level]
           | Some f \<Rightarrow> map_option (\<lambda>fs. f # fs) (stream_chunks lib s env pid fid level (Suc k) cs)))"

subsection \<open>Verification runs\<close>

definition finish_run ::
  "'s verify_lib \<Rightarrow> verify_env \<Rightarrow> string \<Rightarrow> string \<Rightarrow> ident_str \<Rightarrow> VerificationLevel \<Rightarrow> u32 \<Rightarrow> u32 \<Rightarrow> u32
     \<Rightarrow> VerificationFinding list \<Rightarrow> Database \<Rightarrow> Database \<times> VerificationResult" where
  "finish_run lib env target_type target_id pid level n_files n_manifests n_chunks findings db =
     (let r = synthesize_result target_type target_id pid level (stamped (vn_clock env) findings) n_files n_manifests
                n_chunks (vn_elapsed_ms env) (vn_verified_at env)
      in (persist_history lib (vn_history_nanos env) r db, r))"

text \<open>The findings of a run over a manifest, level by level.\<close>

definition manifest_findings ::
  "'s verify_lib \<Rightarrow> 's \<Rightarrow> verify_env \<Rightarrow> Database \<Rightarrow> ident_str \<Rightarrow> ManifestV1 \<Rightarrow> VerificationOptions
     \<Rightarrow> VerificationFinding list option" where
  "manifest_findings lib s env db pid m options =
     (let level = vo_level options; fid = lf_file_id (logical_file m);
          cancelled = create_cancelled_finding pid level
      in case validate_profile db pid of
        Inl f \<Rightarrow> Some [f]
      | Inr _ \<Rightarrow>
          if vn_cancel_start env then Some [cancelled]
          else
            let f1 = local_findings lib db pid m in
            if level = MetadataOnly \<or> vn_cancel_local env
            then Some (f1 @ (if vn_cancel_local env then [cancelled] else []))
            else
              let f2 = f1 @ query_chunks lib s env pid fid level 0 (chunks m) in
              if level = RemoteAvailability \<or> vn_cancel_remote env
              then Some (f2 @ (if vn_cancel_remote env then [cancelled] else []))
              else if level_number RemoteIntegrity \<le> level_number level \<or> vo_full_hash_check options
              then map_option (\<lambda>f3. f2 @ f3) (stream_chunks lib s env pid fid level 0 (chunks m))
              else Some f2)"

definition verify_manifest ::
  "'s verify_lib \<Rightarrow> 's \<Rightarrow> verify_env \<Rightarrow> ident_str \<Rightarrow> ManifestV1 \<Rightarrow> VerificationOptions \<Rightarrow> Database
     \<Rightarrow> (Database \<times> VerificationResult) option" where
  "verify_manifest lib s env pid m options db =
     map_option (\<lambda>fs. finish_run lib env ''manifest'' (manifest_id m) pid (vo_level options) 1 1
        (of_nat (length (chunks m))) fs db)
       (manifest_findings lib s env db pid m options)"

text \<open>A file is verified through the last of the versions the catalog lists; the result of the manifest
  is recorded once more under the name of the file.\<close>

definition verify_file ::
  "'s verify_lib \<Rightarrow> 's \<Rightarrow> verify_env \<Rightarrow> verify_env \<Rightarrow> ident_str \<Rightarrow> ident_str \<Rightarrow> VerificationOptions \<Rightarrow> Database
     \<Rightarrow> (Database \<times> (BackupError, VerificationResult) result) option" where
  "verify_file lib s env env_manifest pid fid options db =
     (let fail = (\<lambda>f. let (db', r) = finish_run lib env ''file'' fid pid (vo_level options) 1 0 0 [f] db
                      in Some (db', Ok r))
      in case validate_profile db pid of
        Inl f \<Rightarrow> fail f
      | Inr _ \<Rightarrow>
          (case validate_file db pid fid of
             Inl f \<Rightarrow> fail f
           | Inr _ \<Rightarrow>
               let versions = list_versions_by_file db fid in
               if versions = [] then
                 fail (finding_with_file fid (finding_with_profile pid
                   (meta_issue VerificationSeverity.Error VerificationIssueCode.ManifestNotFound
                     (''File '' @ quoted fid @ '' has no backed up versions in catalog''))))
               else
                 (case get_manifest (vl_platform lib) (vl_serde lib) db (ver_manifest_id (last versions)) of
                    Inl e \<Rightarrow> Some (db, Err (BackupError_of_DbError e))
                  | Inr None \<Rightarrow>
                      fail (finding_with_file fid (finding_with_profile pid
                        (meta_issue VerificationSeverity.Critical VerificationIssueCode.ManifestNotFound
                          (''Manifest '' @ quoted (ver_manifest_id (last versions)) @ '' not found in catalog''))))
                  | Inr (Some m) \<Rightarrow>
                      map_option (\<lambda>(db', r).
                        let r' = r\<lparr>vres_target_type := ''file'', vres_target_id := fid\<rparr>
                        in (persist_history lib (vn_history_nanos env) r' db', Ok r'))
                       (verify_manifest lib s env_manifest pid m options db))))"

text \<open>The versions of a snapshot in turn: findings, manifests and chunks so far. \<open>env\<close> is the
  environment of the snapshot, \<open>envs\<close> those of its manifests.\<close>

definition stamp_one :: "string \<times> string \<Rightarrow> VerificationFinding \<Rightarrow> VerificationFinding" where
  "stamp_one t f = f\<lparr>vf_finding_id := ''find-'' @ fst t, vf_timestamp := snd t\<rparr>"

fun verify_versions ::
  "'s verify_lib \<Rightarrow> 's \<Rightarrow> verify_env \<Rightarrow> (nat \<Rightarrow> verify_env) \<Rightarrow> ident_str \<Rightarrow> ident_str \<Rightarrow> VerificationOptions \<Rightarrow> nat
     \<Rightarrow> VersionRecord list \<Rightarrow> VerificationFinding list \<times> u32 \<times> u32 \<Rightarrow> Database
     \<Rightarrow> (Database \<times> (BackupError, VerificationFinding list \<times> u32 \<times> u32) result) option" where
  "verify_versions lib s env envs pid sid options k [] acc db = Some (db, Ok acc)"
| "verify_versions lib s env envs pid sid options k (v # vs) (fs, nm, nc) db =
     (if vn_cancel_query env k then
        Some (db, Ok (fs @ [stamp_one (vn_clock env k) (create_cancelled_finding pid (vo_level options))], nm, nc))
      else case get_manifest (vl_platform lib) (vl_serde lib) db (ver_manifest_id v) of
        Inl e \<Rightarrow> Some (db, Err (BackupError_of_DbError e))
      | Inr None \<Rightarrow>
          verify_versions lib s env envs pid sid options (Suc k) vs
            (fs @ [stamp_one (vn_clock env k) (finding_with_file (ver_file_id v) (finding_with_snapshot sid
               (finding_with_profile pid (meta_issue VerificationSeverity.Critical VerificationIssueCode.ManifestNotFound
                 (''Manifest '' @ quoted (ver_manifest_id v) @ '' referenced by version ''
                    @ quoted (ver_version_id v) @ '' not found in catalog'')))))], nm, nc) db
      | Inr (Some m) \<Rightarrow>
          (case verify_manifest lib s (envs k) pid m options db of
             None \<Rightarrow> None
           | Some (db', r) \<Rightarrow>
               verify_versions lib s env envs pid sid options (Suc k) vs
                 (fs @ vres_findings r, nm + 1, nc + of_nat (length (chunks m))) db'))"

definition finish_stamped ::
  "'s verify_lib \<Rightarrow> verify_env \<Rightarrow> string \<Rightarrow> string \<Rightarrow> ident_str \<Rightarrow> VerificationLevel \<Rightarrow> u32 \<Rightarrow> u32 \<Rightarrow> u32
     \<Rightarrow> VerificationFinding list \<Rightarrow> Database \<Rightarrow> Database \<times> VerificationResult" where
  "finish_stamped lib env target_type target_id pid level n_files n_manifests n_chunks findings db =
     (let r = synthesize_result target_type target_id pid level findings n_files n_manifests n_chunks
                (vn_elapsed_ms env) (vn_verified_at env)
      in (persist_history lib (vn_history_nanos env) r db, r))"

definition verify_snapshot ::
  "'s verify_lib \<Rightarrow> 's \<Rightarrow> verify_env \<Rightarrow> (nat \<Rightarrow> verify_env) \<Rightarrow> ident_str \<Rightarrow> ident_str \<Rightarrow> VerificationOptions \<Rightarrow> Database
     \<Rightarrow> (Database \<times> (BackupError, VerificationResult) result) option" where
  "verify_snapshot lib s env envs pid sid options db =
     (let fail = (\<lambda>f. let (db', r) = finish_run lib env ''snapshot'' sid pid (vo_level options) 0 0 0 [f] db
                      in Some (db', Ok r))
      in case validate_profile db pid of
        Inl f \<Rightarrow> fail f
      | Inr _ \<Rightarrow>
          (case validate_snapshot db pid sid of
             Inl f \<Rightarrow> fail f
           | Inr _ \<Rightarrow>
               let versions = list_versions_by_snapshot db sid in
               (case verify_versions lib s env envs pid sid options 0 versions ([], 0, 0) db of
                  None \<Rightarrow> None
                | Some (db', Inl e) \<Rightarrow> Some (db', Err e)
                | Some (db', Inr (fs, nm, nc)) \<Rightarrow>
                    let (db2, r) = finish_stamped lib env ''snapshot'' sid pid (vo_level options)
                          (of_nat (length versions)) nm nc fs db'
                    in Some (db2, Ok r))))"

fun verify_snapshots ::
  "'s verify_lib \<Rightarrow> 's \<Rightarrow> verify_env \<Rightarrow> (nat \<Rightarrow> verify_env \<times> (nat \<Rightarrow> verify_env)) \<Rightarrow> ident_str \<Rightarrow> VerificationOptions \<Rightarrow> nat
     \<Rightarrow> SnapshotRecord list \<Rightarrow> VerificationFinding list \<times> u32 \<times> u32 \<times> u32 \<Rightarrow> Database
     \<Rightarrow> (Database \<times> (BackupError, VerificationFinding list \<times> u32 \<times> u32 \<times> u32) result) option" where
  "verify_snapshots lib s env envs pid options k [] acc db = Some (db, Ok acc)"
| "verify_snapshots lib s env envs pid options k (sn # sns) (fs, nf, nm, nc) db =
     (if vn_cancel_query env k then
        Some (db, Ok (fs @ [stamp_one (vn_clock env k) (create_cancelled_finding pid (vo_level options))], nf, nm, nc))
      else case verify_snapshot lib s (fst (envs k)) (snd (envs k)) pid (sr_snapshot_id sn) options db of
        None \<Rightarrow> None
      | Some (db', Inl e) \<Rightarrow> Some (db', Err e)
      | Some (db', Inr r) \<Rightarrow>
          verify_snapshots lib s env envs pid options (Suc k) sns
            (fs @ vres_findings r, nf + vs_total_files (vres_summary r), nm + vs_total_manifests (vres_summary r),
             nc + vs_total_chunks (vres_summary r)) db')"

definition verify_profile ::
  "'s verify_lib \<Rightarrow> 's \<Rightarrow> verify_env \<Rightarrow> (nat \<Rightarrow> verify_env \<times> (nat \<Rightarrow> verify_env)) \<Rightarrow> ident_str \<Rightarrow> VerificationOptions
     \<Rightarrow> Database \<Rightarrow> (Database \<times> (BackupError, VerificationResult) result) option" where
  "verify_profile lib s env envs pid options db =
     (case validate_profile db pid of
        Inl f \<Rightarrow>
          let (db', r) = finish_run lib env ''profile'' pid pid (vo_level options) 0 0 0 [f] db in Some (db', Ok r)
      | Inr _ \<Rightarrow>
          (case verify_snapshots lib s env envs pid options 0 (list_snapshots_by_profile db pid) ([], 0, 0, 0) db of
             None \<Rightarrow> None
           | Some (db', Inl e) \<Rightarrow> Some (db', Err e)
           | Some (db', Inr (fs, nf, nm, nc)) \<Rightarrow>
               let (db2, r) = finish_stamped lib env ''profile'' pid pid (vo_level options) nf nm nc fs db'
               in Some (db2, Ok r)))"

subsection \<open>Every finding is noticed\<close>

definition noticed :: "VerificationFinding \<Rightarrow> bool" where
  "noticed f \<longleftrightarrow> vf_severity f \<noteq> VerificationSeverity.Info"

lemma noticed_simps [simp]:
  "noticed (finding_with_profile i f) = noticed f" "noticed (finding_with_snapshot i f) = noticed f"
  "noticed (finding_with_file i f) = noticed f" "noticed (chunk_issue pid fid c f) = noticed f"
  "noticed (file_issue pid m f) = noticed f" "noticed (stamp_one t f) = noticed f"
  "noticed (meta_issue sev code d) \<longleftrightarrow> sev \<noteq> VerificationSeverity.Info"
  "noticed (VerificationFinding_new level sev code d impact) \<longleftrightarrow> sev \<noteq> VerificationSeverity.Info"
  "noticed (create_cancelled_finding pid level)"
  by (simp_all add: noticed_def finding_with_profile_def finding_with_snapshot_def finding_with_file_def chunk_issue_def
      finding_with_chunk_def file_issue_def meta_issue_def VerificationFinding_new_def create_cancelled_finding_def
      stamp_one_def)

lemma validate_noticed:
  "validate_profile db pid = Inl f \<Longrightarrow> noticed f" "validate_file db pid fid = Inl f \<Longrightarrow> noticed f"
  "validate_snapshot db pid sid = Inl f \<Longrightarrow> noticed f"
  by (auto simp: validate_profile_def ok_or_def validate_file_def validate_snapshot_def split: option.splits if_splits)

lemma chunk_findings_noticed:
  "f \<in> set (reference_findings to_json db pid fid c) \<Longrightarrow> noticed f"
  "f \<in> set (chunk_row_findings db pid fid c) \<Longrightarrow> noticed f"
  "f \<in> set (position_findings pid m i c) \<Longrightarrow> noticed f"
  subgoal by (cases "cmf_storage_reference c") (auto simp: reference_findings_def Let_def split: if_splits)
  subgoal by (auto simp: chunk_row_findings_def split: option.splits if_splits)
  subgoal by (auto simp: position_findings_def Let_def split: if_splits)
  done

lemma ownership_noticed:
  "f \<in> set (validate_manifest_ownership_chain to_json db pid m ef es) \<Longrightarrow> noticed f"
  unfolding validate_manifest_ownership_chain_def Let_def set_append Un_iff
  by (elim disjE)
    (auto split: sum.splits option.splits if_splits
      dest: validate_noticed validate_noticed(3) [OF sym] chunk_findings_noticed)

lemma local_findings_noticed: "f \<in> set (local_findings lib db pid m) \<Longrightarrow> noticed f"
  unfolding local_findings_def Let_def set_append Un_iff
  by (elim disjE) (auto split: sum.splits if_splits dest: ownership_noticed chunk_findings_noticed)

lemma query_findings_noticed: "f \<in> set (query_findings lib s pid fid c) \<Longrightarrow> noticed f"
  by (auto simp: query_findings_def split: if_splits sum.splits StorageError.splits)

lemma query_chunks_noticed: "f \<in> set (query_chunks lib s env pid fid level k cs) \<Longrightarrow> noticed f"
  by (induction cs arbitrary: k) (auto dest: query_findings_noticed split: if_splits)

lemma download_error_noticed: "download_error_finding env k pid fid c e = Some f \<Longrightarrow> noticed f"
  by (cases e) (auto simp: download_error_finding_def split: if_splits)

lemma streamed_findings_noticed: "f \<in> set (streamed_findings lib pid fid c w) \<Longrightarrow> noticed f"
  by (auto simp: streamed_findings_def Let_def split: prod.splits if_splits)

lemma stream_chunks_noticed:
  "\<lbrakk>stream_chunks lib s env pid fid level k cs = Some fs; f \<in> set fs\<rbrakk> \<Longrightarrow> noticed f"
  by (induction cs arbitrary: k fs)
    (auto split: if_splits option.splits sum.splits prod.splits dest: streamed_findings_noticed download_error_noticed)

lemma manifest_findings_noticed:
  assumes "manifest_findings lib s env db pid m options = Some fs" "f \<in> set fs"
  shows "noticed f"
  using assms
  by (auto simp: manifest_findings_def Let_def split: sum.splits if_splits
      dest: validate_noticed local_findings_noticed query_chunks_noticed stream_chunks_noticed)

lemma noticed_stamped: "(\<forall>f \<in> set (stamped clock fs). noticed f) \<longleftrightarrow> (\<forall>f \<in> set fs. noticed f)"
proof -
  have "set (map vf_severity (stamped clock fs)) = set (map vf_severity fs)" by (simp only: stamped_fields)
  then show ?thesis unfolding noticed_def by (metis (no_types, lifting) image_iff list.set_map)
qed

lemma synthesize_healthy:
  assumes "\<forall>f \<in> set fs. noticed f"
  shows "vres_status (synthesize_result tt ti pid level fs nf nm nc d now) = VerificationStatus.Healthy \<longleftrightarrow> fs = []"
proof (cases fs)
  case Nil
  then show ?thesis by (simp add: synthesize_result_def count_codes_def Let_def)
next
  case (Cons f gs)
  with assms have "vf_severity f \<noteq> VerificationSeverity.Info" by (simp add: noticed_def)
  then show ?thesis using Cons by (cases "vf_severity f") (auto simp: synthesize_result_def Let_def)
qed

lemma verify_manifest_healthy:
  assumes "verify_manifest lib s env pid m options db = Some (db', r)"
  shows "vres_status r = VerificationStatus.Healthy \<longleftrightarrow> manifest_findings lib s env db pid m options = Some []"
proof -
  from assms obtain fs where fs: "manifest_findings lib s env db pid m options = Some fs"
    and r: "r = snd (finish_run lib env ''manifest'' (manifest_id m) pid (vo_level options) 1 1 (of_nat (length (chunks m))) fs db)"
    by (auto simp: verify_manifest_def)
  have "\<forall>f \<in> set (stamped (vn_clock env) fs). noticed f"
    using manifest_findings_noticed [OF fs] by (simp add: noticed_stamped)
  moreover have "stamped (vn_clock env) fs = [] \<longleftrightarrow> fs = []" using stamped_fields(4) [of "vn_clock env" fs] by auto
  ultimately show ?thesis using fs r by (simp add: finish_run_def Let_def synthesize_healthy)
qed

subsection \<open>What a healthy manifest is\<close>

definition reference_sound :: "'s verify_lib \<Rightarrow> Database \<Rightarrow> ChunkManifest \<Rightarrow> bool" where
  "reference_sound lib db c \<longleftrightarrow>
     (case cmf_storage_reference c of
        StorageReference.Pending \<Rightarrow> False
      | Telegram chat message file \<Rightarrow> 0 < message \<and> trim file \<noteq> []
          \<and> (\<forall>r \<in> set (t_chunks db). cr_storage_reference r
                = (case vl_reference_json lib (cmf_storage_reference c) of Inr j \<Rightarrow> j | Inl _ \<Rightarrow> [])
              \<longrightarrow> cr_chunk_id r = cmf_chunk_id c)
      | LocalStaging rel \<Rightarrow> \<not> sublist ''..'' rel \<and> \<not> prefix ''/'' rel)"

definition manifest_sound :: "'s verify_lib \<Rightarrow> Database \<Rightarrow> ident_str \<Rightarrow> ManifestV1 \<Rightarrow> bool" where
  "manifest_sound lib db pid m \<longleftrightarrow>
     (\<exists>f. get_file db (lf_file_id (logical_file m)) = Some f \<and> (fr_profile_id f = None \<or> fr_profile_id f = Some pid))
     \<and> ManifestV1_validate (vl_platform lib) m = Inr ()
     \<and> of_nat (length (chunks m)) = calculate_expected_chunk_count (lf_original_size (logical_file m))
     \<and> (\<forall>i < length (chunks m). cmf_plaintext_size (chunks m ! i) = expected_chunk_size m i)
     \<and> (\<forall>c \<in> set (chunks m). reference_sound lib db c
          \<and> (\<forall>r. get_chunk db (cmf_chunk_id c) = Some r \<longrightarrow> cr_file_id r = lf_file_id (logical_file m)))"

definition chunk_delivered :: "'s verify_lib \<Rightarrow> 's \<Rightarrow> verify_env \<Rightarrow> nat \<Rightarrow> ident_str \<Rightarrow> ChunkManifest \<Rightarrow> bool" where
  "chunk_delivered lib s env k fid c \<longleftrightarrow>
     (\<exists>meta. vl_metadata lib s (cmf_storage_reference c) = Inr meta
        \<and> (0 < cmf_stored_size c \<longrightarrow> rom_size_bytes meta = cmf_stored_size c))
     \<and> (\<exists>w d. stream_chunk lib s env k fid c = Some (w, Inr d)
        \<and> (0 < cmf_stored_size c \<longrightarrow> nhw_bytes_written (cw_inner w) = cmf_stored_size c)
        \<and> eq_ignore_ascii_case (vl_sha lib (nhw_fed (cw_inner w))) (im_digest (cmf_integrity c)))"

lemma sum_plaintext: "sum_list (map cmf_plaintext_size cs) = of_nat (plaintext_total cs)"
  by (induction cs) simp_all

lemma validated_chunks:
  assumes "ManifestV1_validate pf m = Inr ()"
  shows "indexed_from 0 (chunks m)" "sum_list (map cmf_plaintext_size (chunks m)) = lf_original_size (logical_file m)"
proof -
  from assms obtain t where "validate_chunks 0 {} 0 (chunks m) = Inr t" "t = lf_original_size (logical_file m)"
    by (auto simp: ManifestV1_validate_def bind_res_Inr_iff split: if_splits)
  then show "indexed_from 0 (chunks m)" "sum_list (map cmf_plaintext_size (chunks m)) = lf_original_size (logical_file m)"
    unfolding validate_chunks_Inr_iff sum_plaintext by (auto simp: word_unat_eq_iff unat_of_nat take_bit_eq_mod)
qed

lemma indexed_from_nth: "\<lbrakk>indexed_from k cs; i < length cs\<rbrakk> \<Longrightarrow> cmf_index (cs ! i) = of_nat (k + i)"
  by (induction cs arbitrary: k i) (auto simp: nth_Cons split: nat.splits)

lemma reference_findings_empty:
  "reference_findings (vl_reference_json lib) db pid fid c = [] \<longleftrightarrow> reference_sound lib db c"
  by (auto simp: reference_findings_def reference_sound_def find_chunks_by_storage_reference_def filter_empty_conv
      Let_def split: StorageReference.splits)

lemma chunk_row_findings_empty:
  "chunk_row_findings db pid fid c = [] \<longleftrightarrow> (\<forall>r. get_chunk db (cmf_chunk_id c) = Some r \<longrightarrow> cr_file_id r = fid)"
  by (auto simp: chunk_row_findings_def split: option.splits)

lemma position_findings_empty:
  "position_findings pid m i c = [] \<longleftrightarrow> cmf_index c = of_nat i \<and> cmf_plaintext_size c = expected_chunk_size m i"
  by (simp add: position_findings_def Let_def)

lemma concat_enumerate_empty:
  "concat (map (\<lambda>(i, c). g i c) (enumerate n xs)) = [] \<longleftrightarrow> (\<forall>i < length xs. g (n + i) (xs ! i) = [])"
  by (induction xs arbitrary: n) (auto simp: All_less_Suc2)

lemma ownership_empty:
  "validate_manifest_ownership_chain (vl_reference_json lib) db pid m None None = [] \<longleftrightarrow>
     (\<exists>f. get_file db (lf_file_id (logical_file m)) = Some f \<and> (fr_profile_id f = None \<or> fr_profile_id f = Some pid))
     \<and> (\<forall>c \<in> set (chunks m). reference_sound lib db c
          \<and> (\<forall>r. get_chunk db (cmf_chunk_id c) = Some r \<longrightarrow> cr_file_id r = lf_file_id (logical_file m)))"
  by (auto simp: validate_manifest_ownership_chain_def Let_def reference_findings_empty chunk_row_findings_empty
      validate_file_def split: option.splits if_splits)

lemma local_findings_empty: "local_findings lib db pid m = [] \<longleftrightarrow> manifest_sound lib db pid m"
proof (cases "ManifestV1_validate (vl_platform lib) m = Inr ()")
  case True
  note chunks = validated_chunks [OF True]
  have positions: "concat (map (\<lambda>(i, c). position_findings pid m i c) (enumerate 0 (chunks m))) = []
      \<longleftrightarrow> (\<forall>i < length (chunks m). cmf_plaintext_size (chunks m ! i) = expected_chunk_size m i)"
    unfolding concat_enumerate_empty using indexed_from_nth [OF chunks(1)] by (simp add: position_findings_empty)
  show ?thesis
    using True chunks(2)
    by (simp add: local_findings_def manifest_sound_def Let_def ownership_empty positions del: concat_eq_Nil_conv) blast
next
  case False
  then show ?thesis by (auto simp: local_findings_def manifest_sound_def Let_def split: sum.splits)
qed

lemma query_findings_empty:
  assumes "cmf_storage_reference c \<noteq> StorageReference.Pending"
  shows "query_findings lib s pid fid c = [] \<longleftrightarrow>
    (\<exists>meta. vl_metadata lib s (cmf_storage_reference c) = Inr meta
        \<and> (0 < cmf_stored_size c \<longrightarrow> rom_size_bytes meta = cmf_stored_size c))"
  using assms by (auto simp: query_findings_def split: sum.splits StorageError.splits)

lemma streamed_findings_empty:
  "streamed_findings lib pid fid c w = [] \<longleftrightarrow>
     (0 < cmf_stored_size c \<longrightarrow> nhw_bytes_written w = cmf_stored_size c)
     \<and> eq_ignore_ascii_case (vl_sha lib (nhw_fed w)) (im_digest (cmf_integrity c))"
  by (auto simp: streamed_findings_def NullHashWriter_finalize_def)

lemma stream_chunks_empty:
  assumes "cmf_storage_reference c \<noteq> StorageReference.Pending" "\<not> vn_cancel_stream env k"
  shows "stream_chunks lib s env pid fid level k (c # cs) = Some [] \<longleftrightarrow>
    (\<exists>w d. stream_chunk lib s env k fid c = Some (w, Inr d) \<and> streamed_findings lib pid fid c (cw_inner w) = [])
    \<and> stream_chunks lib s env pid fid level (Suc k) cs = Some []"
  using assms by (auto split: option.splits sum.splits prod.splits)

lemma remote_findings_empty:
  assumes "\<forall>c \<in> set cs. cmf_storage_reference c \<noteq> StorageReference.Pending"
    "\<And>k. \<not> vn_cancel_query env k" "\<And>k. \<not> vn_cancel_stream env k"
  shows "query_chunks lib s env pid fid level k cs = [] \<and> stream_chunks lib s env pid fid level k cs = Some []
    \<longleftrightarrow> (\<forall>i < length cs. chunk_delivered lib s env (k + i) fid (cs ! i))"
  using assms(1)
proof (induction cs arbitrary: k)
  case (Cons c cs)
  have rest: "(\<forall>i < length (c # cs). chunk_delivered lib s env (k + i) fid ((c # cs) ! i))
      \<longleftrightarrow> chunk_delivered lib s env k fid c \<and> (\<forall>i < length cs. chunk_delivered lib s env (Suc k + i) fid (cs ! i))"
    by (auto simp: All_less_Suc2)
  have IH: "query_chunks lib s env pid fid level (Suc k) cs = [] \<and> stream_chunks lib s env pid fid level (Suc k) cs = Some []
      \<longleftrightarrow> (\<forall>i < length cs. chunk_delivered lib s env (Suc k + i) fid (cs ! i))"
    using Cons by simp
  have head: "chunk_delivered lib s env k fid c \<longleftrightarrow> query_findings lib s pid fid c = []
      \<and> (\<exists>w d. stream_chunk lib s env k fid c = Some (w, Inr d) \<and> streamed_findings lib pid fid c (cw_inner w) = [])"
    using Cons.prems by (simp add: chunk_delivered_def query_findings_empty streamed_findings_empty)
  show ?case
    unfolding rest IH [symmetric] head using Cons.prems assms(2,3)
    by (auto simp: stream_chunks_empty simp del: stream_chunks.simps)
qed simp

definition calm :: "verify_env \<Rightarrow> bool" where
  "calm env \<longleftrightarrow> \<not> vn_cancel_start env \<and> \<not> vn_cancel_local env \<and> \<not> vn_cancel_remote env
     \<and> (\<forall>k. \<not> vn_cancel_query env k) \<and> (\<forall>k. \<not> vn_cancel_stream env k)"

lemma manifest_sound_references:
  "\<lbrakk>manifest_sound lib db pid m; c \<in> set (chunks m)\<rbrakk> \<Longrightarrow> cmf_storage_reference c \<noteq> StorageReference.Pending"
  by (auto simp: manifest_sound_def reference_sound_def)

lemma manifest_findings_deep:
  assumes "calm env" "vo_level options = RemoteIntegrity \<or> vo_level options = RestoreReadiness" "get_profile db pid = Some p"
  shows "manifest_findings lib s env db pid m options =
    map_option ((@) (local_findings lib db pid m
        @ query_chunks lib s env pid (lf_file_id (logical_file m)) (vo_level options) 0 (chunks m)))
      (stream_chunks lib s env pid (lf_file_id (logical_file m)) (vo_level options) 0 (chunks m))"
  using assms by (auto simp: manifest_findings_def calm_def validate_profile_def ok_or_def Let_def)

lemma manifest_findings_sound:
  assumes "manifest_findings lib s env db pid m options = Some []"
  shows "(\<exists>p. get_profile db pid = Some p) \<and> manifest_sound lib db pid m"
  using assms
  by (auto simp: manifest_findings_def Let_def validate_profile_def ok_or_def local_findings_empty [symmetric]
      split: option.splits if_splits)

lemma complete_manifest_restorable:
  assumes valid: "ManifestV1_validate pf m = Inr ()"
    and count: "length (chunks m) = unat (calculate_expected_chunk_count (lf_original_size (logical_file m)))"
    and stored: "\<forall>c \<in> set (chunks m). cmf_storage_reference c \<noteq> StorageReference.Pending"
  shows "validate_manifest_for_restore pf m = Inr ()"
proof -
  have check: "check_references k cs = Inr ()"
    if "indexed_from k cs" "\<forall>c \<in> set cs. cmf_storage_reference c \<noteq> StorageReference.Pending" for k cs
    using that by (induction cs arbitrary: k) auto
  have "check_references 0 (chunks m) = Inr ()"
    using check validated_chunks(1) [OF valid] stored by blast
  moreover have "validate_safe_relative_path pf (pf_components pf (lf_relative_path (logical_file m))) = Inr ()"
    using valid by (auto simp: ManifestV1_validate_def LogicalFileMetadata_validate_def bind_res_Inr_iff split: if_splits)
  moreover have "manifest_version m = V1" by (cases "manifest_version m") simp
  ultimately show ?thesis using valid count by (simp add: validate_manifest_for_restore_def Let_def)
qed

lemma sound_restorable:
  assumes "manifest_sound lib db pid m" "length (chunks m) < 2 ^ 32"
  shows "validate_manifest_for_restore (vl_platform lib) m = Inr ()"
proof (rule complete_manifest_restorable)
  show "ManifestV1_validate (vl_platform lib) m = Inr ()" using assms(1) by (simp add: manifest_sound_def)
  have "of_nat (length (chunks m)) = calculate_expected_chunk_count (lf_original_size (logical_file m))"
    using assms(1) by (simp add: manifest_sound_def)
  then show "length (chunks m) = unat (calculate_expected_chunk_count (lf_original_size (logical_file m)))"
    using assms(2) by (simp add: unat_of_nat take_bit_nat_eq_self flip: \<open>of_nat (length (chunks m)) = _\<close>)
  show "\<forall>c \<in> set (chunks m). cmf_storage_reference c \<noteq> StorageReference.Pending"
    using manifest_sound_references [OF assms(1)] by blast
qed

subsection \<open>Runs write their history only\<close>

definition history_added :: "Database \<Rightarrow> Database \<Rightarrow> bool" where
  "history_added db db' \<longleftrightarrow> (catalog_ok db \<longrightarrow> catalog_ok db') \<and> (\<exists>hs. db' = db\<lparr>t_ver_hist := t_ver_hist db @ hs\<rparr>)"

interpretation hist: catalog_order history_added
proof
  show "history_added db db" for db by (auto simp: history_added_def intro: exI [where x = "[]"])
  show "history_added a c" if "history_added a b" "history_added b c" for a b c
    using that by (auto simp: history_added_def)
qed

lemma record_verification_history_adds:
  "\<exists>hs. fst (record_verification_history em h db) = db\<lparr>t_ver_hist := t_ver_hist db @ hs\<rparr>"
proof -
  have "fst (record_verification_history em h db)
      = db\<lparr>t_ver_hist := t_ver_hist db @ (if snd (record_verification_history em h db) = Ok () then [h] else [])\<rparr>"
    by (simp add: record_verification_history_def checked_def)
  then show ?thesis by (rule exI)
qed

lemma persist_history_added: "history_added db (persist_history lib n r db)"
proof -
  have "catalog_ok db \<longrightarrow> catalog_ok (persist_history lib n r db)"
    using record_verification_history_keeps by (simp add: persist_history_def cat.keeps_def)
  with record_verification_history_adds show ?thesis unfolding history_added_def persist_history_def by blast
qed

lemma finish_added:
  "history_added db (fst (finish_run lib env tt ti pid level nf nm nc fs db))"
  "history_added db (fst (finish_stamped lib env tt ti pid level nf nm nc fs db))"
  by (simp_all add: finish_run_def finish_stamped_def Let_def persist_history_added)

lemma verify_manifest_added:
  assumes "verify_manifest lib s env pid m options db = Some (db', r)"
  shows "history_added db db'"
proof -
  obtain fs where "finish_run lib env ''manifest'' (manifest_id m) pid (vo_level options) 1 1
      (of_nat (length (chunks m))) fs db = (db', r)"
    using assms by (auto simp: verify_manifest_def)
  with finish_added(1) show ?thesis by (metis fst_conv)
qed

lemma verify_versions_added:
  "verify_versions lib s env envs pid sid options k vs acc db = Some (db', r) \<Longrightarrow> history_added db db'"
proof (induction lib s env envs pid sid options k vs acc db rule: verify_versions.induct)
  case (2 lib s env envs pid sid options k v vs fs nm nc db)
  show ?case
  proof (cases "vn_cancel_query env k \<or> (\<exists>e. get_manifest (vl_platform lib) (vl_serde lib) db (ver_manifest_id v) = Inl e)")
    case True
    then have "db' = db" using "2.prems" by (auto split: if_splits)
    then show ?thesis by (simp add: hist.R_refl)
  next
    case False
    then obtain mo where mo: "get_manifest (vl_platform lib) (vl_serde lib) db (ver_manifest_id v) = Inr mo"
      by (cases "get_manifest (vl_platform lib) (vl_serde lib) db (ver_manifest_id v)") auto
    show ?thesis
    proof (cases mo)
      case None
      with "2.prems" False mo show ?thesis using "2.IH"(1) by simp
    next
      case (Some m)
      with "2.prems" False mo obtain db1 r1 where
        one: "verify_manifest lib s (envs k) pid m options db = Some (db1, r1)"
        and rest: "verify_versions lib s env envs pid sid options (Suc k) vs
                 (fs @ vres_findings r1, nm + 1, nc + of_nat (length (chunks m))) db1 = Some (db', r)"
        by (auto split: option.splits)
      have "history_added db1 db'" using "2.IH"(2) False mo Some one rest by simp
      with verify_manifest_added [OF one] show ?thesis by (rule hist.R_trans)
    qed
  qed
qed (simp add: hist.R_refl)

lemma verify_snapshot_added:
  assumes "verify_snapshot lib s env envs pid sid options db = Some (db', r)"
  shows "history_added db db'"
  using assms
  by (auto simp: verify_snapshot_def Let_def split_beta finish_added split: sum.splits option.splits
      dest!: verify_versions_added intro: hist.R_trans)

lemma verify_snapshots_added:
  "verify_snapshots lib s env envs pid options k sns acc db = Some (db', r) \<Longrightarrow> history_added db db'"
proof (induction lib s env envs pid options k sns acc db rule: verify_snapshots.induct)
  case (2 lib s env envs pid options k sn sns fs nf nm nc db)
  show ?case
  proof (cases "vn_cancel_query env k")
    case True
    then have "db' = db" using "2.prems" by simp
    then show ?thesis by (simp add: hist.R_refl)
  next
    case False
    with "2.prems" obtain db1 r1 where
      one: "verify_snapshot lib s (fst (envs k)) (snd (envs k)) pid (sr_snapshot_id sn) options db = Some (db1, r1)"
      by (auto split: option.splits)
    have "history_added db1 db'"
    proof (cases r1)
      case (Inl e)
      then show ?thesis using "2.prems" False one by (simp add: hist.R_refl)
    next
      case (Inr r2)
      then show ?thesis using "2.IH" "2.prems" False one by simp
    qed
    with verify_snapshot_added [OF one] show ?thesis by (rule hist.R_trans)
  qed
qed (simp add: hist.R_refl)

subsection \<open>Properties\<close>

text \<open>C4. A verification from the third level on that is not cancelled reports a healthy manifest exactly when the
  profile exists, the file belongs to it, the manifest is valid with the chunk count and chunk sizes of its
  file, every reference is allocated, well formed and used by no other chunk, and the provider knows and
  delivers every chunk with the recorded size and hash.\<close>

theorem verify_manifest_healthy_iff:
  assumes "verify_manifest lib s env pid m options db = Some (db', r)" "calm env"
    and "vo_level options = RemoteIntegrity \<or> vo_level options = RestoreReadiness"
  shows "vres_status r = VerificationStatus.Healthy \<longleftrightarrow>
    (\<exists>p. get_profile db pid = Some p) \<and> manifest_sound lib db pid m
    \<and> (\<forall>k < length (chunks m). chunk_delivered lib s env k (lf_file_id (logical_file m)) (chunks m ! k))"
proof (cases "\<exists>p. get_profile db pid = Some p")
  case True
  then obtain p where p: "get_profile db pid = Some p" by blast
  let ?fid = "lf_file_id (logical_file m)"
  have "manifest_findings lib s env db pid m options = Some [] \<longleftrightarrow> local_findings lib db pid m = []
      \<and> query_chunks lib s env pid ?fid (vo_level options) 0 (chunks m) = []
      \<and> stream_chunks lib s env pid ?fid (vo_level options) 0 (chunks m) = Some []"
    unfolding manifest_findings_deep [OF assms(2,3) p] by auto
  also have "\<dots> \<longleftrightarrow> manifest_sound lib db pid m \<and> (\<forall>k < length (chunks m). chunk_delivered lib s env k ?fid (chunks m ! k))"
  proof (cases "manifest_sound lib db pid m")
    case True
    have flags: "\<And>k. \<not> vn_cancel_query env k" "\<And>k. \<not> vn_cancel_stream env k" using assms(2) by (auto simp: calm_def)
    from True have "\<forall>c \<in> set (chunks m). cmf_storage_reference c \<noteq> StorageReference.Pending"
      by (blast dest: manifest_sound_references)
    from remote_findings_empty [OF this flags, where k = 0] True show ?thesis by (simp add: local_findings_empty)
  qed (simp add: local_findings_empty)
  finally show ?thesis using verify_manifest_healthy [OF assms(1)] p by simp
next
  case False
  then show ?thesis
    using verify_manifest_healthy [OF assms(1)] by (auto dest: manifest_findings_sound)
qed

definition sample_single :: ManifestV1 where
  "sample_single = sample_manifest\<lparr>chunks :=
     [\<lparr>cmf_chunk_id = ''c0'', cmf_index = 0, cmf_plaintext_size = 7, cmf_stored_size = 7,
       cmf_integrity = \<lparr>im_algorithm = Sha256, im_digest = sample_digest\<rparr>,
       cmf_storage_reference = Telegram (- 100) 7 ''f''\<rparr>]\<rparr>"

definition sample_verify_lib :: "unit verify_lib" where
  "sample_verify_lib =
     \<lparr>vl_platform = unix_platform, vl_sha = (\<lambda>_. sample_digest), vl_serde = (\<lambda>_. Inl ''e''),
      vl_reference_json = (\<lambda>_. Inr ''j''), vl_findings_json = (\<lambda>_. Inr ''[]''),
      vl_metadata = (\<lambda>_ ref. Inr \<lparr>rom_remote_id = ''x'', rom_size_bytes = 7, rom_sha256_hash = None,
         rom_storage_reference = ref, rom_created_at = None\<rparr>),
      vl_get = (\<lambda>_ req wr w. Some (fst (wr w [1, 2, 3, 4, 5, 6, 7]), Inr \<lparr>dres_bytes_downloaded = 7, dres_verified_sha256 = None\<rparr>)),
      vl_constraint_text = ''e''\<rparr>"

definition sample_verify_env :: verify_env where
  "sample_verify_env =
     \<lparr>vn_cancel_start = False, vn_cancel_local = False, vn_cancel_query = (\<lambda>_. False), vn_cancel_remote = False,
      vn_cancel_stream = (\<lambda>_. False), vn_write_cancelled = (\<lambda>_. None), vn_cancel_error = (\<lambda>_. False),
      vn_clock = (\<lambda>_. (''0'', ''t'')), vn_elapsed_ms = 0, vn_history_nanos = ''1'', vn_verified_at = ''t''\<rparr>"

lemma sample_single_sound: "manifest_sound sample_verify_lib sample_db ''p1'' sample_single"
proof -
  have "trim ''f'' \<noteq> []" by code_simp
  moreover have "ManifestV1_validate unix_platform sample_single = Inr ()"
    using sample_digest_valid sample_path_valid
    by (simp add: sample_single_def sample_manifest_def ManifestV1_validate_def LogicalFileMetadata_validate_def
        ChunkManifest_validate_def checked_add_def)
  ultimately show ?thesis
    by (simp add: manifest_sound_def sample_db_rows open_in_memory_def sample_file_def get_file_def get_chunk_def
        sample_verify_lib_def reference_sound_def sample_single_def sample_manifest_def expected_chunk_size_def
        calculate_expected_chunk_count_def CHUNK_THRESHOLD_BYTES_def)
qed

lemma sample_single_delivered: "chunk_delivered sample_verify_lib () sample_verify_env 0 ''f1'' (chunks sample_single ! 0)"
  by (simp add: chunk_delivered_def stream_chunk_def sample_verify_lib_def sample_verify_env_def sample_single_def
      cancelling_write_def NullHashWriter_write_def NullHashWriter_new_def eq_ignore_ascii_case_def)

theorem verify_manifest_healthy_iff_witness:
  "\<exists>db' r. verify_manifest sample_verify_lib () sample_verify_env ''p1'' sample_single restore_readiness sample_db = Some (db', r)
     \<and> vres_status r = VerificationStatus.Healthy"
proof -
  have calm: "calm sample_verify_env" by (simp add: calm_def sample_verify_env_def)
  have level: "vo_level restore_readiness = RemoteIntegrity \<or> vo_level restore_readiness = RestoreReadiness"
    by (simp add: restore_readiness_def)
  have p: "get_profile sample_db ''p1'' = Some sample_profile"
    by (simp add: get_profile_def sample_db_rows open_in_memory_def sample_profile_def)
  have fid: "lf_file_id (logical_file sample_single) = ''f1''" "length (chunks sample_single) = 1"
    by (simp_all add: sample_single_def sample_manifest_def)
  have "\<exists>fs. stream_chunks sample_verify_lib () sample_verify_env ''p1'' ''f1'' RestoreReadiness 0 (chunks sample_single) = Some fs"
    by (simp add: sample_single_def sample_verify_lib_def sample_verify_env_def stream_chunk_def)
  then obtain fs where "stream_chunks sample_verify_lib () sample_verify_env ''p1'' ''f1'' RestoreReadiness 0 (chunks sample_single) = Some fs" ..
  then obtain db' r where run: "verify_manifest sample_verify_lib () sample_verify_env ''p1'' sample_single restore_readiness sample_db
      = Some (db', r)"
    unfolding verify_manifest_def manifest_findings_deep [OF calm level p] fid
    by (cases "finish_run sample_verify_lib sample_verify_env ''manifest'' (manifest_id sample_single) ''p1'' RestoreReadiness 1 1 1
          (local_findings sample_verify_lib sample_db ''p1'' sample_single
            @ query_chunks sample_verify_lib () sample_verify_env ''p1'' ''f1'' RestoreReadiness 0 (chunks sample_single)
            @ fs) sample_db") (auto simp: restore_readiness_def)
  then show ?thesis
    using verify_manifest_healthy_iff [OF run calm level] p sample_single_sound sample_single_delivered fid by auto
qed

text \<open>C15. A manifest that any verification run found healthy, at whatever level, is accepted by the restore
  pipeline: it does not refuse it as invalid, unsafe, incomplete or not yet stored.\<close>

theorem healthy_manifest_restorable:
  assumes "verify_manifest lib s env pid m options db = Some (db', r)" "vres_status r = VerificationStatus.Healthy"
    and "length (chunks m) < 2 ^ 32"
  shows "validate_manifest_for_restore (vl_platform lib) m = Inr ()"
proof -
  have "manifest_findings lib s env db pid m options = Some []" using verify_manifest_healthy [OF assms(1)] assms(2) by simp
  then have "manifest_sound lib db pid m" by (blast dest: manifest_findings_sound)
  then show ?thesis using assms(3) by (rule sound_restorable)
qed

theorem healthy_manifest_restorable_witness:
  "validate_manifest_for_restore unix_platform sample_single = Inr ()"
proof -
  let ?opts = "restore_readiness\<lparr>vo_level := MetadataOnly\<rparr>"
  have "manifest_findings sample_verify_lib () sample_verify_env sample_db ''p1'' sample_single ?opts = Some []"
    using sample_single_sound
    by (simp add: manifest_findings_def Let_def sample_verify_env_def local_findings_empty validate_profile_def ok_or_def
        get_profile_def sample_db_rows open_in_memory_def sample_profile_def)
  moreover obtain db' r where run: "verify_manifest sample_verify_lib () sample_verify_env ''p1'' sample_single ?opts sample_db
      = Some (db', r)"
    using calculation by (cases "finish_run sample_verify_lib sample_verify_env ''manifest'' (manifest_id sample_single) ''p1''
      (vo_level ?opts) 1 1 (of_nat (length (chunks sample_single))) [] sample_db") (auto simp: verify_manifest_def)
  ultimately have "vres_status r = VerificationStatus.Healthy" using verify_manifest_healthy [OF run] by simp
  moreover have "length (chunks sample_single) < 2 ^ 32" by (simp add: sample_single_def)
  ultimately have "validate_manifest_for_restore (vl_platform sample_verify_lib) sample_single = Inr ()"
    by (rule healthy_manifest_restorable [OF run])
  then show ?thesis by (simp add: sample_verify_lib_def)
qed

text \<open>Verifying a profile changes nothing in the catalog but adds rows to the verification history, and keeps
  the catalog well-formed.\<close>

theorem verify_profile_adds_history_only:
  assumes "verify_profile lib s env envs pid options db = Some (db', r)" "catalog_ok db"
  shows "catalog_ok db' \<and> (\<exists>hs. db' = db\<lparr>t_ver_hist := t_ver_hist db @ hs\<rparr>)"
proof -
  have "history_added db db'"
    using assms(1)
    by (auto simp: verify_profile_def Let_def split_beta finish_added split: sum.splits option.splits
        dest!: verify_snapshots_added intro: hist.R_trans)
  then show ?thesis using assms(2) by (simp add: history_added_def)
qed

theorem verify_profile_adds_history_only_witness:
  "\<exists>db' r h. verify_profile sample_verify_lib () sample_verify_env (\<lambda>_. (sample_verify_env, \<lambda>_. sample_verify_env)) ''p1''
       metadata_only sample_db = Some (db', r)
     \<and> h \<in> set (t_ver_hist db') \<and> catalog_ok db'"
proof -
  have ok: "catalog_ok sample_db"
    by (simp add: sample_db_rows open_in_memory_def sample_profile_def
        sample_file_def sample_snapshot_def catalog_ok_defs table_simps keyed_def refs_def has_key_def slots_ok_def same_slot_def
        refs_opt_def ref_ok_def auth_refs_def)
  have "\<exists>db' r h. verify_profile sample_verify_lib () sample_verify_env (\<lambda>_. (sample_verify_env, \<lambda>_. sample_verify_env)) ''p1''
       metadata_only sample_db = Some (db', r) \<and> h \<in> set (t_ver_hist db')"
    by (simp add: verify_profile_def verify_snapshot_def validate_profile_def validate_snapshot_def ok_or_def get_profile_def
        get_snapshot_def list_snapshots_by_profile_def order_desc_def sample_db_rows open_in_memory_def sample_profile_def
        sample_snapshot_def sample_verify_env_def list_versions_by_snapshot_def order_asc_def finish_stamped_def
        persist_history_def record_verification_history_def checked_def has_key_def history_row_def synthesize_result_def
        Let_def)
  then obtain db' r h where run: "verify_profile sample_verify_lib () sample_verify_env
      (\<lambda>_. (sample_verify_env, \<lambda>_. sample_verify_env)) ''p1'' metadata_only sample_db = Some (db', r)"
    and h: "h \<in> set (t_ver_hist db')" by blast
  then show ?thesis using verify_profile_adds_history_only [OF run ok] by blast
qed


subsection \<open>Shortcomings\<close>

definition transient :: "VerificationFinding \<Rightarrow> bool" where
  "transient f \<longleftrightarrow> vf_code f = VerificationIssueCode.RemoteUnavailable \<and> vf_severity f = VerificationSeverity.Warning
     \<and> vf_restore_impact f = Degraded"

lemma synthesize_transient:
  assumes "\<forall>f \<in> set fs. transient f"
  shows "vres_is_restore_ready (synthesize_result tt ti pid level fs nf nm nc d now)"
proof -
  have none: "count_codes cs fs = 0" if "VerificationIssueCode.RemoteUnavailable \<notin> set cs" for cs
  proof -
    have "filter (\<lambda>f. vf_code f \<in> set cs) fs = []" using assms that by (auto simp: transient_def filter_empty_conv)
    then show ?thesis by (simp add: count_codes_def)
  qed
  have "count_codes corruption_codes fs = 0" "count_codes ownership_codes fs = 0"
    "count_codes [VerificationIssueCode.ConfirmedMissing] fs = 0"
    by (rule none; simp add: corruption_codes_def ownership_codes_def)+
  then show ?thesis using assms by (auto simp: synthesize_result_def Let_def transient_def)
qed

lemma transient_stamped: "\<forall>f \<in> set fs. transient f \<Longrightarrow> \<forall>f \<in> set (stamped clock fs). transient f"
  by (auto simp: stamped_def transient_def in_set_enumerate_eq)

lemma transient_new:
  "transient (chunk_issue pid fid c (VerificationFinding_new level VerificationSeverity.Warning
     VerificationIssueCode.RemoteUnavailable d Degraded))"
  by (simp add: transient_def chunk_issue_def finding_with_chunk_def finding_with_file_def finding_with_profile_def
      VerificationFinding_new_def)

text \<open>A manifest is reported ready for restore although nothing of it could be read: when the provider answers
  every query and every download with an error it calls temporary, the deepest verification still
  confirms readiness.\<close>

lemma unreachable_counts_as_ready:
  assumes "calm env" "vo_level options = RestoreReadiness" "get_profile db pid = Some p" "manifest_sound lib db pid m"
    and "\<And>ref. vl_metadata lib s ref = Inl (ProviderUnavailable x)"
    and "\<And>req wr w. vl_get lib s req wr w = Some (w, Inl (ProviderUnavailable x))"
  shows "\<exists>db' r. verify_manifest lib s env pid m options db = Some (db', r) \<and> vres_is_restore_ready r"
proof -
  have "\<forall>f \<in> set (query_chunks lib s env pid fid level k cs). transient f" for fid level k cs
    using assms(1,5) by (induction cs arbitrary: k) (auto simp: query_findings_def calm_def transient_new)
  then have query: "\<forall>f \<in> set (query_chunks lib s env pid (lf_file_id (logical_file m)) (vo_level options) 0 (chunks m)). transient f" .
  have "\<exists>fs. stream_chunks lib s env pid fid level k cs = Some fs \<and> (\<forall>f \<in> set fs. transient f)" for fid level k cs
  proof (induction cs arbitrary: k)
    case (Cons c cs)
    from Cons [of "Suc k"] show ?case
      using assms(1,6) by (auto simp: calm_def stream_chunk_def download_error_finding_def transient_new)
  qed simp
  then obtain gs where gs: "stream_chunks lib s env pid (lf_file_id (logical_file m)) (vo_level options) 0 (chunks m) = Some gs"
    "\<forall>f \<in> set gs. transient f" by blast
  have "local_findings lib db pid m = []" using assms(4) by (simp add: local_findings_empty)
  with gs query obtain fs where fs: "manifest_findings lib s env db pid m options = Some fs" "\<forall>f \<in> set fs. transient f"
    using manifest_findings_deep [OF assms(1) disjI2 [OF assms(2)] assms(3), of lib s m] by auto
  let ?out = "finish_run lib env ''manifest'' (manifest_id m) pid (vo_level options) 1 1 (of_nat (length (chunks m))) fs db"
  have "vres_is_restore_ready (snd ?out)"
    using fs(2) by (simp add: finish_run_def Let_def synthesize_transient transient_stamped)
  then show ?thesis using fs(1) by (cases ?out) (simp add: verify_manifest_def)
qed

text \<open>The versions of a file are listed from the newest to the oldest, and a file is verified through the last of
  them: the oldest, not the latest.\<close>

lemma verify_file_takes_oldest:
  assumes "v \<in> set (list_versions_by_file db fid)"
  shows "ver_created_at (last (list_versions_by_file db fid)) \<le> ver_created_at v"
proof -
  let ?s = "sort_key ver_created_at (rev (filter (\<lambda>v. ver_file_id v = fid) (t_versions db)))"
  have "v \<in> set ?s" using assms by (simp add: list_versions_by_file_def order_desc_def)
  moreover have "sorted (map ver_created_at ?s)" by simp
  ultimately have "ver_created_at (hd ?s) \<le> ver_created_at v" by (cases ?s) auto
  moreover have "last (list_versions_by_file db fid) = hd ?s"
    using \<open>v \<in> set ?s\<close> by (cases ?s) (simp_all add: list_versions_by_file_def order_desc_def)
  ultimately show ?thesis by simp
qed

end
