(* ===== verification/Repair_Engine.thy ===== *)
theory Repair_Engine
  imports Verify_Engine
begin

text \<open>
  Repair of damaged chunks (\<open>repair/\<close> of televault-backup): which findings may be repaired
  (\<open>eligibility.rs\<close>), the reconstruction of one chunk from the local file, its upload, check and the
  replacement in the catalog (\<open>pipeline.rs\<close>), and previews and repairs of files and snapshots
  (\<open>engine.rs\<close>), with the repair errors of \<open>error.rs\<close>.

  The record \<open>repair_lib\<close> holds the libraries and the provider, \<open>source_env\<close> the local source files and
  \<open>chunk_repair_env\<close> what the repair of one chunk meets. None stands for a verification whose download
  never returns.
\<close>

subsection \<open>error.rs\<close>

datatype RepairError =
    Ineligible string
  | OwnershipViolation string
  | SourceNotFound string
  | SourceUnreadable string string
  | SourceSizeMismatch string u64 u64
  | EncryptionKeyMissing string
  | Manifest ManifestError
  | NotFound string
  | Storage StorageError
  | Transfer TransferError
  | Crypto CryptoError
  | Database DbError
  | ProfileBusy string
  | RemoteVerificationFailed string string
  | Io string
  | Cancelled
  | Internal string

fun RepairError_display :: "RepairError \<Rightarrow> string" where
  "RepairError_display (RepairError.Ineligible reason) = ''Ineligible for repair: '' @ reason"
| "RepairError_display (RepairError.OwnershipViolation reason) = ''Ownership violation: '' @ reason"
| "RepairError_display (RepairError.SourceNotFound p) = ''Local source file not found at '' @ quoted p"
| "RepairError_display (RepairError.SourceUnreadable p reason) =
     ''Local source file unreadable at '' @ quoted p @ '': '' @ reason"
| "RepairError_display (RepairError.SourceSizeMismatch p expected actual) =
     ''Local source size mismatch for '' @ quoted p @ '': expected '' @ show_nat (unat expected)
       @ '' bytes, found '' @ show_nat (unat actual) @ '' bytes''"
| "RepairError_display (RepairError.EncryptionKeyMissing reason) = ''Encryption key unavailable: '' @ reason"
| "RepairError_display (RepairError.Manifest e) = ''Manifest error: '' @ ManifestError_display e"
| "RepairError_display (RepairError.NotFound m) = ''Not found in catalog: '' @ m"
| "RepairError_display (RepairError.Storage e) = ''Storage error: '' @ StorageError_display e"
| "RepairError_display (RepairError.Transfer e) = ''Transfer error: '' @ TransferError_display e"
| "RepairError_display (RepairError.Crypto e) = ''Cryptographic error: '' @ CryptoError_display e"
| "RepairError_display (RepairError.Database e) = ''Database error: '' @ DbError_display e"
| "RepairError_display (RepairError.ProfileBusy i) =
     ''Profile '' @ quoted i @ '' is busy with an active operation''"
| "RepairError_display (RepairError.RemoteVerificationFailed c reason) =
     ''Remote verification failed for chunk '' @ quoted c @ '': '' @ reason"
| "RepairError_display (RepairError.Io m) = ''I/O error: '' @ m"
| "RepairError_display RepairError.Cancelled = ''Repair operation was cancelled''"
| "RepairError_display (RepairError.Internal m) = ''Internal repair error: '' @ m"

definition RepairError_of_io :: "io_error \<Rightarrow> RepairError" where
  "RepairError_of_io e = RepairError.Io (io_message e)"

fun RepairError_to_AppError :: "RepairError \<Rightarrow> AppError" where
  "RepairError_to_AppError (RepairError.Ineligible reason) = AppError.Validation ''repair'' reason"
| "RepairError_to_AppError (RepairError.OwnershipViolation reason) = AppError.Conflict ''Ownership'' reason"
| "RepairError_to_AppError (RepairError.SourceNotFound p) = AppError.NotFound ''SourceFile'' p"
| "RepairError_to_AppError (RepairError.SourceUnreadable p reason) =
     AppError.Path (''Unreadable source '' @ quoted p @ '': '' @ reason)"
| "RepairError_to_AppError (RepairError.SourceSizeMismatch p expected actual) =
     AppError.Validation ''source_size'' (''Size mismatch for '' @ quoted p @ '': expected ''
       @ show_nat (unat expected) @ '', actual '' @ show_nat (unat actual))"
| "RepairError_to_AppError (RepairError.EncryptionKeyMissing reason) = AppError.Validation ''encryption_key'' reason"
| "RepairError_to_AppError (RepairError.NotFound m) = AppError.NotFound ''Entity'' m"
| "RepairError_to_AppError (RepairError.ProfileBusy m) = AppError.Conflict ''Profile'' m"
| "RepairError_to_AppError RepairError.Cancelled = AppError.Internal ''Repair operation was cancelled''"
| "RepairError_to_AppError e = AppError.Internal (RepairError_display e)"

fun BackupError_of_RepairError :: "RepairError \<Rightarrow> BackupError" where
  "BackupError_of_RepairError RepairError.Cancelled = BackupError.Cancelled"
| "BackupError_of_RepairError (RepairError.Database e) = BackupError.DatabaseError (DbError_display e)"
| "BackupError_of_RepairError (RepairError.Storage e) = BackupError.StorageError (StorageError_display e)"
| "BackupError_of_RepairError (RepairError.Transfer e) = BackupError.TransferError (TransferError_display e)"
| "BackupError_of_RepairError (RepairError.Crypto e) = BackupError.CryptoError (CryptoError_display e)"
| "BackupError_of_RepairError (RepairError.Manifest e) = BackupError.ManifestError (ManifestError_display e)"
| "BackupError_of_RepairError (RepairError.Io e) = BackupError.Io e"
| "BackupError_of_RepairError e = BackupError.StorageError (RepairError_display e)"

subsection \<open>types.rs\<close>

record RepairCandidate =
  rc_cand_profile_id :: ident_str
  rc_cand_snapshot_id :: "ident_str option"
  rc_cand_file_id :: ident_str
  rc_cand_manifest_id :: string
  rc_cand_chunk_id :: ident_str
  rc_cand_chunk_index :: u32
  rc_cand_total_chunks :: u32
  rc_cand_finding_code :: VerificationIssueCode
  rc_cand_old_storage_reference :: string
  rc_cand_plaintext_size :: u64
  rc_cand_stored_size :: u64
  rc_cand_source_path :: string

record RepairPreview =
  rpv_profile_id :: ident_str
  rpv_target_type :: string
  rpv_target_id :: string
  rpv_eligible_candidates :: "RepairCandidate list"
  rpv_ineligible_findings :: "VerificationFinding list"
  rpv_total_affected_chunks :: u32
  rpv_total_estimated_bytes :: u64
  rpv_is_repairable :: bool

record RepairChunkResult =
  rcr_chunk_id :: ident_str
  rcr_chunk_index :: u32
  rcr_status :: string
  rcr_old_storage_reference :: string
  rcr_new_storage_reference :: "string option"
  rcr_bytes_processed :: u64
  rcr_duration_ms :: u64
  rcr_error :: "string option"

record RepairExecutionResult =
  rex_profile_id :: ident_str
  rex_target_type :: string
  rex_target_id :: string
  rex_total_chunks_evaluated :: u32
  rex_repaired_chunks :: u32
  rex_skipped_healthy_chunks :: u32
  rex_failed_chunks :: u32
  rex_total_bytes_transferred :: u64
  rex_duration_ms :: u64
  rex_chunk_results :: "RepairChunkResult list"

subsection \<open>eligibility.rs\<close>

definition is_issue_repairable :: "VerificationIssueCode \<Rightarrow> bool" where
  "is_issue_repairable code \<longleftrightarrow> code \<in> set
     [VerificationIssueCode.ConfirmedMissing, VerificationIssueCode.ChunkHashMismatch,
      VerificationIssueCode.StoredHashMismatch, VerificationIssueCode.PayloadCorrupted,
      VerificationIssueCode.WrongMessageId, VerificationIssueCode.WrongFileId,
      VerificationIssueCode.InvalidTelegramReference, VerificationIssueCode.RemoteMetadataMismatch,
      VerificationIssueCode.PendingStorageAllocation]"

definition is_strict_barrier :: "VerificationIssueCode \<Rightarrow> bool" where
  "is_strict_barrier code \<longleftrightarrow> code \<in> set
     [VerificationIssueCode.ProfileMismatch, VerificationIssueCode.SnapshotOwnershipViolation,
      VerificationIssueCode.FileOwnershipViolation, VerificationIssueCode.ManifestOwnershipViolation,
      VerificationIssueCode.ChunkOwnershipViolation, VerificationIssueCode.RemoteReferenceOwnershipViolation,
      VerificationIssueCode.CrossProfileReference, VerificationIssueCode.ManifestInvalid,
      VerificationIssueCode.UnsupportedVersion, VerificationIssueCode.ChunkCountMismatch,
      VerificationIssueCode.ChunkIndexDiscontinuous, VerificationIssueCode.DuplicateChunkIndex,
      VerificationIssueCode.InvalidLogicalFileSize, VerificationIssueCode.InvalidRelativePath,
      VerificationIssueCode.ProfileNotFound, VerificationIssueCode.SnapshotNotFound,
      VerificationIssueCode.FileNotFound, VerificationIssueCode.ManifestNotFound]"

definition repair_validate_profile :: "Database \<Rightarrow> ident_str \<Rightarrow> (RepairError, ProfileRecord) result" where
  "repair_validate_profile db pid =
     ok_or (RepairError.Ineligible (''Profile '' @ quoted pid @ '' not found in local catalog'')) (get_profile db pid)"

definition validate_ownership_chain ::
  "(StorageReference \<Rightarrow> (string, string) result) \<Rightarrow> Database \<Rightarrow> ident_str \<Rightarrow> ManifestV1 \<Rightarrow> ident_str
     \<Rightarrow> ident_str option \<Rightarrow> (RepairError, unit) result" where
  "validate_ownership_chain to_json db pid m fid sid =
     (if lf_file_id (logical_file m) \<noteq> fid then
        Err (RepairError.OwnershipViolation (''Manifest file_id '' @ quoted (lf_file_id (logical_file m))
          @ '' does not match target file_id '' @ quoted fid))
      else
        bind_res (map_err (\<lambda>f. RepairError.OwnershipViolation (vf_description f)) (validate_file db pid fid)) (\<lambda>rec.
        bind_res (case fr_profile_id rec of
            Some owner \<Rightarrow>
              if owner \<noteq> pid then
                Err (RepairError.OwnershipViolation (''File '' @ quoted fid @ '' belongs to profile '' @ quoted owner
                  @ '', not expected profile '' @ quoted pid))
              else Ok ()
          | None \<Rightarrow> Ok ()) (\<lambda>_.
        bind_res (case sid of
            Some i \<Rightarrow> map_err (\<lambda>f. RepairError.OwnershipViolation (vf_description f))
              (bind_res (validate_snapshot db pid i) (\<lambda>_. Ok ()))
          | None \<Rightarrow> Ok ()) (\<lambda>_.
          case find_first (\<lambda>f. is_strict_barrier (vf_code f))
                 (validate_manifest_ownership_chain to_json db pid m (Some fid) sid) of
            Some f \<Rightarrow> Err (RepairError.OwnershipViolation
              (VerificationIssueCode_display (vf_code f) @ '': '' @ vf_description f))
          | None \<Rightarrow> Ok ()))))"

text \<open>The local files: whether a path exists, its metadata (a regular file, its length) and the error of
  opening it.\<close>

record source_env =
  sx_exists :: "string \<Rightarrow> bool"
  sx_metadata :: "string \<Rightarrow> (io_error, bool \<times> u64) result"
  sx_open :: "string \<Rightarrow> io_error option"

text \<open>\<open>PathBuf::join\<close> on the text of a path.\<close>

definition join_text :: "platform \<Rightarrow> char \<Rightarrow> string \<Rightarrow> string \<Rightarrow> string" where
  "join_text pf sep base rel =
     (if pf_is_absolute pf (pf_components pf rel) then rel
      else if base = [] \<or> last base = sep then base @ rel else base @ [sep] @ rel)"

definition validate_local_source ::
  "platform \<Rightarrow> char \<Rightarrow> source_env \<Rightarrow> ProfileRecord \<Rightarrow> ManifestV1 \<Rightarrow> (RepairError, string) result" where
  "validate_local_source pf sep src p m =
     (let rel = lf_relative_path (logical_file m); full = join_text pf sep (pr_source_path p) rel in
      bind_res (map_err (\<lambda>e. RepairError.Ineligible (''Unsafe relative path '' @ quoted rel @ '': '' @ AppError_display e))
        (validate_safe_relative_path pf (pf_components pf rel))) (\<lambda>_.
      if \<not> sx_exists src full then Err (RepairError.SourceNotFound full)
      else bind_res (map_err (\<lambda>e. RepairError.SourceUnreadable full (io_message e)) (sx_metadata src full)) (\<lambda>(regular, len).
        if \<not> regular then
          Err (RepairError.Ineligible (''Source path '' @ quoted full @ '' is not a regular file''))
        else if len \<noteq> lf_original_size (logical_file m) then
          Err (RepairError.SourceSizeMismatch full (lf_original_size (logical_file m)) len)
        else case sx_open src full of
          Some e \<Rightarrow> Err (RepairError.SourceUnreadable full (io_message e))
        | None \<Rightarrow> Ok full)))"

definition validate_crypto_prerequisites :: "EncryptionPolicy \<Rightarrow> ManifestV1 \<Rightarrow> (RepairError, unit) result" where
  "validate_crypto_prerequisites policy m =
     (if encryption m \<noteq> None \<and> \<not> EncryptionPolicy_is_enabled policy then
        Err (RepairError.EncryptionKeyMissing
          ''Manifest requires AES-256-GCM encryption but no encryption key is available'')
      else Ok ())"

definition finding_chunk :: "ManifestV1 \<Rightarrow> VerificationFinding \<Rightarrow> ChunkManifest option" where
  "finding_chunk m f =
     (case vf_chunk_id f of
        Some cid \<Rightarrow> find_first (\<lambda>c. cmf_chunk_id c = cid) (chunks m)
      | None \<Rightarrow>
          (case vf_chunk_index f of
             Some i \<Rightarrow> if unat i < length (chunks m) then Some (chunks m ! unat i) else None
           | None \<Rightarrow> None))"

definition repair_candidate ::
  "(StorageReference \<Rightarrow> (string, string) result) \<Rightarrow> ident_str \<Rightarrow> ident_str option \<Rightarrow> ManifestV1 \<Rightarrow> string
     \<Rightarrow> VerificationFinding \<Rightarrow> ChunkManifest \<Rightarrow> RepairCandidate" where
  "repair_candidate to_json pid sid m source f c =
     \<lparr>rc_cand_profile_id = pid, rc_cand_snapshot_id = sid, rc_cand_file_id = lf_file_id (logical_file m),
      rc_cand_manifest_id = manifest_id m, rc_cand_chunk_id = cmf_chunk_id c, rc_cand_chunk_index = cmf_index c,
      rc_cand_total_chunks = of_nat (length (chunks m)), rc_cand_finding_code = vf_code f,
      rc_cand_old_storage_reference = (case to_json (cmf_storage_reference c) of Inr s \<Rightarrow> s | Inl _ \<Rightarrow> []),
      rc_cand_plaintext_size = cmf_plaintext_size c, rc_cand_stored_size = cmf_stored_size c,
      rc_cand_source_path = source\<rparr>"

fun resolve_candidates ::
  "(StorageReference \<Rightarrow> (string, string) result) \<Rightarrow> ident_str \<Rightarrow> ident_str option \<Rightarrow> ManifestV1 \<Rightarrow> string
     \<Rightarrow> VerificationFinding list \<Rightarrow> RepairCandidate list \<Rightarrow> VerificationFinding list
     \<Rightarrow> (RepairError, RepairCandidate list \<times> VerificationFinding list) result" where
  "resolve_candidates to_json pid sid m source [] cands inel = Ok (cands, inel)"
| "resolve_candidates to_json pid sid m source (f # fs) cands inel =
     (if is_strict_barrier (vf_code f) then
        Err (RepairError.OwnershipViolation (''Strict invariant violation detected (''
          @ VerificationIssueCode_display (vf_code f) @ ''): '' @ vf_description f))
      else if \<not> is_issue_repairable (vf_code f) then
        resolve_candidates to_json pid sid m source fs cands (inel @ [f])
      else case finding_chunk m f of
        None \<Rightarrow> resolve_candidates to_json pid sid m source fs cands (inel @ [f])
      | Some c \<Rightarrow>
          if cmf_chunk_id c \<in> rc_cand_chunk_id ` set cands
          then resolve_candidates to_json pid sid m source fs cands inel
          else resolve_candidates to_json pid sid m source fs
                 (cands @ [repair_candidate to_json pid sid m source f c]) inel)"

subsection \<open>pipeline.rs\<close>

definition REPAIR_STREAM_BUFFER_SIZE :: nat where
  "REPAIR_STREAM_BUFFER_SIZE = 64 * 1024"

record 's repair_lib =
  rl_verify :: "'s verify_lib"
  rl_path_separator :: char
  rl_manifest_json :: "ManifestV1 \<Rightarrow> (string, string) result"
  rl_seal :: aead_fn
  rl_payload_json :: "EncryptedPayload \<Rightarrow> (string, bytes) result"
  rl_retry :: RetryPolicy
  rl_put :: "'s put_fn"
  rl_check :: "'s check_fn"
  rl_callback :: bool

record 'r chunk_repair_env =
  cx_cancel_start :: bool
  cx_open :: "string \<Rightarrow> (io_error, 'r) result"
  cx_seek :: "'r \<Rightarrow> u64 \<Rightarrow> (io_error, 'r) result"
  cx_read :: "'r read_fn"
  cx_stage :: stage_env
  cx_cancel_read :: "nat \<Rightarrow> bool"
  cx_cancel_sealed :: bool
  cx_cancel_staged :: bool
  cx_job_millis :: string
  cx_reopen :: "io_error option"
  cx_obs :: cancel_obs
  cx_cancel_uploaded :: bool
  cx_now :: string
  cx_history_nanos :: string
  cx_elapsed_ms :: u64
  cx_remove_ok :: bool

definition is_chunk_already_healthy :: "'s repair_lib \<Rightarrow> 's \<Rightarrow> StorageReference \<Rightarrow> u64 \<Rightarrow> string \<Rightarrow> bool" where
  "is_chunk_already_healthy lib s r expected_stored_size expected_hash =
     (r \<noteq> StorageReference.Pending
      \<and> rl_check lib s \<lparr>vr_storage_reference = r, vr_expected_size_bytes = expected_stored_size,
                        vr_expected_sha256 = Some expected_hash\<rparr> = Ok True
      \<and> (case vl_metadata (rl_verify lib) s r of
           Inl _ \<Rightarrow> False
         | Inr meta \<Rightarrow> rom_size_bytes meta = expected_stored_size
             \<and> (case rom_sha256_hash meta of Some h \<Rightarrow> eq_ignore_ascii_case h expected_hash | None \<Rightarrow> True)))"

text \<open>The read loop of a repair: like that of the payload pipeline, with a look at the cancellation flag
  before every read. \<open>stop\<close> and \<open>wfail\<close> are given the bytes read so far.\<close>

function read_slice ::
  "'r read_fn \<Rightarrow> (nat \<Rightarrow> bool) \<Rightarrow> (nat \<Rightarrow> io_error option) \<Rightarrow> nat \<Rightarrow> 'r \<Rightarrow> bytes \<Rightarrow> (RepairError, bytes) result" where
  "read_slice rd stop wfail expected r acc =
     (if length acc < expected then
        if stop (length acc) then Err RepairError.Cancelled
        else
          let to_read = min (expected - length acc) REPAIR_STREAM_BUFFER_SIZE in
          case rd r to_read of
            (r', Inl e) \<Rightarrow> Err (RepairError_of_io e)
          | (r', Inr bs) \<Rightarrow>
              let got = take to_read bs in
              if got = [] then Ok acc
              else (case wfail (length acc) of
                  Some e \<Rightarrow> Err (RepairError_of_io e)
                | None \<Rightarrow> read_slice rd stop wfail expected r' (acc @ got))
      else Ok acc)"
  by pat_completeness auto

termination read_slice
  by (relation "measure (\<lambda>(rd, stop, wfail, expected, r, acc). expected - length acc)")
    (auto simp: Let_def REPAIR_STREAM_BUFFER_SIZE_def min_def not_less length_greater_0_conv [symmetric]
        simp del: length_greater_0_conv)

declare read_slice.simps [simp del]

text \<open>Extraction and staging of the chunk: the plaintext read and the staged bytes.\<close>

definition stage_repair ::
  "'s repair_lib \<Rightarrow> 'r chunk_repair_env \<Rightarrow> EncryptionPolicy \<Rightarrow> RepairCandidate \<Rightarrow> 'r \<Rightarrow> (RepairError, bytes \<times> bytes) result" where
  "stage_repair lib env policy cand r =
     (let se = cx_stage env; expected = unat (rc_cand_plaintext_size cand);
          io = (\<lambda>x. map_err RepairError_of_io x)
      in bind_res
       (case policy of
          Disabled \<Rightarrow>
            bind_res (io (se_open se)) (\<lambda>_.
            bind_res (read_slice (cx_read env) (cx_cancel_read env) (se_write se) expected r []) (\<lambda>bs.
            bind_res (io (se_flush se)) (\<lambda>_. Ok (bs, bs))))
        | Enabled key \<Rightarrow>
            bind_res (read_slice (cx_read env) (cx_cancel_read env) (\<lambda>_. None) expected r []) (\<lambda>bs.
            if cx_cancel_sealed env then Err RepairError.Cancelled
            else
            bind_res (map_err RepairError.Crypto (encrypt_chunk (rl_seal lib) (se_nonce se) key bs
              (ChunkAad_new (rc_cand_file_id cand) (rc_cand_chunk_index cand) (rc_cand_total_chunks cand)) None)) (\<lambda>ep.
            bind_res (map_err (\<lambda>e. RepairError.Crypto (MalformedPayload e)) (rl_payload_json lib ep)) (\<lambda>stored.
            bind_res (io (se_open se)) (\<lambda>_.
            bind_res (case se_write se 0 of Some e \<Rightarrow> Err (RepairError_of_io e) | None \<Rightarrow> Ok ()) (\<lambda>_.
            bind_res (io (se_flush se)) (\<lambda>_. Ok (bs, stored))))))))
       (\<lambda>(bs, stored).
         if of_nat (length bs) \<noteq> rc_cand_plaintext_size cand then
           Err (RepairError.SourceSizeMismatch (rc_cand_source_path cand) (rc_cand_plaintext_size cand) (of_nat (length bs)))
         else Ok (bs, stored)))"

text \<open>Upload of the staged bytes through the transfer engine.\<close>

definition repair_job :: "'r chunk_repair_env \<Rightarrow> RepairCandidate \<Rightarrow> u64 \<Rightarrow> string \<Rightarrow> (RepairError, TransferJob) result" where
  "repair_job env cand sz sha256 =
     bind_res (map_err (\<lambda>e. RepairError.Transfer (InvalidJob (AppError_display e)))
       (id_new ''JobId'' (''rep-'' @ rc_cand_chunk_id cand @ ''-'' @ cx_job_millis env))) (\<lambda>jid.
     map_err RepairError.Transfer (new_upload
       ((UploadJobParams_new jid (rc_cand_file_id cand) (rc_cand_chunk_id cand) sz)
        \<lparr>up_chunk_index := rc_cand_chunk_index cand, up_total_chunks := rc_cand_total_chunks cand,
         up_expected_sha256 := Some sha256\<rparr>)))"

definition upload_repair ::
  "'s repair_lib \<Rightarrow> 'r chunk_repair_env \<Rightarrow> RepairCandidate \<Rightarrow> bytes \<Rightarrow> 's engine
     \<Rightarrow> 's engine \<times> (RepairError, StorageReference) result" where
  "upload_repair lib env cand stored en =
     (case repair_job env cand (of_nat (length stored)) (vl_sha (rl_verify lib) stored) of
        Inl e \<Rightarrow> (en, Err e)
      | Inr job \<Rightarrow>
          (case cx_reopen env of
             Some e \<Rightarrow> (en, Err (RepairError_of_io e))
           | None \<Rightarrow>
               let (en', job', r) = upload_stream (rl_retry lib) (rl_put lib) (rl_check lib) (rl_callback lib) (cx_obs env)
                     (blocks_reader (chunks_of STREAM_CHUNK_BUFFER_SIZE stored)) en job
               in (en', map_err RepairError.Transfer r)))"

text \<open>The check of the uploaded object.\<close>

definition check_replacement ::
  "'s repair_lib \<Rightarrow> 's \<Rightarrow> RepairCandidate \<Rightarrow> StorageReference \<Rightarrow> u64 \<Rightarrow> string \<Rightarrow> (RepairError, unit) result" where
  "check_replacement lib s cand r sz sha256 =
     (let failed = (\<lambda>reason. Err (RepairError.RemoteVerificationFailed (rc_cand_chunk_id cand) reason)) in
      bind_res (map_err RepairError.Storage (rl_check lib s
        \<lparr>vr_storage_reference = r, vr_expected_size_bytes = sz, vr_expected_sha256 = Some sha256\<rparr>)) (\<lambda>verified.
      if \<not> verified then failed ''Storage provider verify returned false for uploaded replacement''
      else
      bind_res (map_err RepairError.Storage (vl_metadata (rl_verify lib) s r)) (\<lambda>meta.
      if rom_size_bytes meta \<noteq> sz then
        failed (''Remote object size mismatch: expected '' @ show_nat (unat sz) @ '', remote reported ''
          @ show_nat (unat (rom_size_bytes meta)))
      else case rom_sha256_hash meta of
        Some h \<Rightarrow>
          if \<not> eq_ignore_ascii_case h sha256 then
            failed (''Remote object hash mismatch: expected '' @ sha256 @ '', remote reported '' @ h)
          else Ok ()
      | None \<Rightarrow> Ok ())))"

fun update_first :: "('a \<Rightarrow> bool) \<Rightarrow> ('a \<Rightarrow> 'a) \<Rightarrow> 'a list \<Rightarrow> 'a list" where
  \<comment> \<open>\<open>iter_mut().find(p)\<close> and an assignment to what it finds\<close>
  "update_first p f [] = []"
| "update_first p f (x # xs) = (if p x then f x # xs else x # update_first p f xs)"

definition replace_chunk :: "ident_str \<Rightarrow> u64 \<Rightarrow> string \<Rightarrow> StorageReference \<Rightarrow> ManifestV1 \<Rightarrow> ManifestV1" where
  "replace_chunk cid sz sha256 r m =
     m\<lparr>chunks := update_first (\<lambda>c. cmf_chunk_id c = cid)
        (\<lambda>c. c\<lparr>cmf_stored_size := sz, cmf_integrity := IntegrityMetadata_sha256 sha256,
               cmf_storage_reference := r\<rparr>) (chunks m)\<rparr>"

definition repair_history_row ::
  "'r chunk_repair_env \<Rightarrow> RepairCandidate \<Rightarrow> string \<Rightarrow> u64 \<Rightarrow> RepairHistoryRecord" where
  "repair_history_row env cand new_ref sz =
     \<lparr>rep_repair_id = ''rep-hist-'' @ cx_history_nanos env, rep_profile_id = rc_cand_profile_id cand,
      rep_snapshot_id = rc_cand_snapshot_id cand, rep_file_id = rc_cand_file_id cand,
      rep_manifest_id = rc_cand_manifest_id cand, rep_chunk_id = rc_cand_chunk_id cand,
      rep_chunk_index = rc_cand_chunk_index cand,
      rep_repair_type = to_lowercase (VerificationIssueCode_display (rc_cand_finding_code cand)),
      rep_finding_code = VerificationIssueCode_display (rc_cand_finding_code cand),
      rep_old_storage_reference = rc_cand_old_storage_reference cand, rep_new_storage_reference = new_ref,
      rep_status = ''success'', rep_bytes_processed = sz, rep_duration_ms = cx_elapsed_ms env,
      rep_error_message = None, rep_repaired_at = cx_now env\<rparr>"

definition chunk_result ::
  "RepairCandidate \<Rightarrow> string \<Rightarrow> string option \<Rightarrow> u64 \<Rightarrow> u64 \<Rightarrow> string option \<Rightarrow> RepairChunkResult" where
  "chunk_result cand status new_ref sz ms err =
     \<lparr>rcr_chunk_id = rc_cand_chunk_id cand, rcr_chunk_index = rc_cand_chunk_index cand, rcr_status = status,
      rcr_old_storage_reference = rc_cand_old_storage_reference cand, rcr_new_storage_reference = new_ref,
      rcr_bytes_processed = sz, rcr_duration_ms = ms, rcr_error = err\<rparr>"

text \<open>From the staged bytes to the catalog.\<close>

definition replace_remote ::
  "'s repair_lib \<Rightarrow> 'r chunk_repair_env \<Rightarrow> RepairCandidate \<Rightarrow> ManifestV1 \<Rightarrow> bytes \<Rightarrow> 's backup_state
     \<Rightarrow> 's backup_state \<times> (RepairError, RepairChunkResult) result" where
  "replace_remote lib env cand m stored st =
     (let vl = rl_verify lib; sz = of_nat (length stored); sha256 = vl_sha vl stored in
      if cx_cancel_staged env then (st, Err RepairError.Cancelled)
      else case upload_repair lib env cand stored (bst_engine st) of
        (en, Inl e) \<Rightarrow> (st\<lparr>bst_engine := en\<rparr>, Err e)
      | (en, Inr r) \<Rightarrow>
          let st1 = st\<lparr>bst_engine := en\<rparr> in
          if cx_cancel_uploaded env then (st1, Err RepairError.Cancelled)
          else case check_replacement lib (en_provider en) cand r sz sha256 of
            Inl e \<Rightarrow> (st1, Err e)
          | Inr _ \<Rightarrow>
              let new_ref = (case vl_reference_json vl r of Inr s \<Rightarrow> s | Inl _ \<Rightarrow> []) in
              (case atomic_apply_chunk_repair (vl_platform vl) (rl_manifest_json lib) (vl_constraint_text vl)
                      (rc_cand_chunk_id cand) new_ref sha256 sz (cx_now env)
                      (replace_chunk (rc_cand_chunk_id cand) sz sha256 r m)
                      (repair_history_row env cand new_ref sz) (bst_db st1) of
                 (db', Inl e) \<Rightarrow> (st1\<lparr>bst_db := db'\<rparr>, Err (RepairError.Database e))
               | (db', Inr _) \<Rightarrow>
                   (st1\<lparr>bst_db := db'\<rparr>, Ok (chunk_result cand ''success'' (Some new_ref) sz (cx_elapsed_ms env) None))))"

text \<open>The repair of one chunk. \<open>fs\<close> are the staging files.\<close>

definition chunk_offset :: "ManifestV1 \<Rightarrow> u32 \<Rightarrow> u64" where
  "chunk_offset m i = sum_list (map cmf_plaintext_size (take (unat i) (chunks m)))"

definition open_at_chunk ::
  "'r chunk_repair_env \<Rightarrow> RepairCandidate \<Rightarrow> ManifestV1 \<Rightarrow> (RepairError, 'r) result" where
  "open_at_chunk env cand m =
     (let p = rc_cand_source_path cand; offset = chunk_offset m (rc_cand_chunk_index cand) in
      bind_res (map_err (\<lambda>e. RepairError.SourceUnreadable p (io_message e)) (cx_open env p)) (\<lambda>r.
      map_err (\<lambda>e. RepairError.SourceUnreadable p
          (''Seek to offset '' @ show_nat (unat offset) @ '' failed: '' @ io_message e)) (cx_seek env r offset)))"

definition repair_single_chunk ::
  "'s repair_lib \<Rightarrow> 'r chunk_repair_env \<Rightarrow> EncryptionPolicy \<Rightarrow> RepairCandidate \<Rightarrow> ManifestV1 \<Rightarrow> string set
     \<Rightarrow> 's backup_state \<Rightarrow> string set \<times> 's backup_state \<times> (RepairError, RepairChunkResult) result" where
  "repair_single_chunk lib env policy cand m fs st =
     (if cx_cancel_start env then (fs, st, Err RepairError.Cancelled)
      else case find_first (\<lambda>c. cmf_chunk_id c = rc_cand_chunk_id cand) (chunks m) of
        None \<Rightarrow> (fs, st, Err (RepairError.NotFound (''Chunk '' @ quoted (rc_cand_chunk_id cand) @ '' not found in manifest'')))
      | Some c \<Rightarrow>
          if is_chunk_already_healthy lib (en_provider (bst_engine st)) (cmf_storage_reference c) (cmf_stored_size c)
               (im_digest (cmf_integrity c))
          then (fs, st, Ok (chunk_result cand ''skipped_healthy'' None 0 (cx_elapsed_ms env) None))
          else case open_at_chunk env cand m of
            Inl e \<Rightarrow> (fs, st, Err e)
          | Inr r \<Rightarrow>
              (case se_create (cx_stage env) of
                 Inl e \<Rightarrow> (fs, st, Err (RepairError.Storage e))
               | Inr path \<Rightarrow>
                   let staging = TempPayloadFile_new path; fs1 = insert path fs;
                       (st', res) = (case stage_repair lib env policy cand r of
                           Inl e \<Rightarrow> (st, Err e)
                         | Inr (bs, stored) \<Rightarrow> replace_remote lib env cand m stored st)
                   in (if is_ok res then fst (TempPayloadFile_cleanup (cx_remove_ok env) [] staging fs1)
                       else TempPayloadFile_drop (cx_remove_ok env) staging fs1, st', res)))"

subsection \<open>engine.rs\<close>

text \<open>The engine: catalog and transfer engine, the staging files, the profiles under repair with the
  message of a poisoned lock, and the encryption policy.\<close>

record 's RepairEngine =
  ren_backup :: "'s backup_state"
  ren_staging :: "string set"
  ren_active_profiles :: "ident_str set"
  ren_poisoned :: "string option"
  ren_policy :: EncryptionPolicy

abbreviation ren_db :: "'s RepairEngine \<Rightarrow> Database" where
  "ren_db st \<equiv> bst_db (ren_backup st)"

definition RepairEngine_new :: "'s backup_state \<Rightarrow> string set \<Rightarrow> 's RepairEngine" where
  "RepairEngine_new b fs =
     \<lparr>ren_backup = b, ren_staging = fs, ren_active_profiles = {}, ren_poisoned = None, ren_policy = Disabled\<rparr>"

definition with_encryption_policy :: "EncryptionPolicy \<Rightarrow> 's RepairEngine \<Rightarrow> 's RepairEngine" where
  "with_encryption_policy policy st = st\<lparr>ren_policy := policy\<rparr>"

definition try_acquire_profile :: "ident_str \<Rightarrow> 's RepairEngine \<Rightarrow> 's RepairEngine \<times> (RepairError, unit) result" where
  "try_acquire_profile pid st =
     (case ren_poisoned st of
        Some e \<Rightarrow> (st, Err (RepairError.Internal (''Lock poisoned: '' @ e)))
      | None \<Rightarrow>
          if pid \<in> ren_active_profiles st then (st, Err (RepairError.ProfileBusy pid))
          else (st\<lparr>ren_active_profiles := insert pid (ren_active_profiles st)\<rparr>, Ok ()))"

definition RepairGuard_drop :: "ident_str \<Rightarrow> 's RepairEngine \<Rightarrow> 's RepairEngine" where
  "RepairGuard_drop pid st =
     (case ren_poisoned st of
        Some _ \<Rightarrow> st
      | None \<Rightarrow> st\<lparr>ren_active_profiles := ren_active_profiles st - {pid}\<rparr>)"

definition is_profile_active :: "ident_str \<Rightarrow> 's RepairEngine \<Rightarrow> bool" where
  "is_profile_active pid st = (case ren_poisoned st of Some _ \<Rightarrow> False | None \<Rightarrow> pid \<in> ren_active_profiles st)"

definition repair_preview ::
  "ident_str \<Rightarrow> string \<Rightarrow> string \<Rightarrow> RepairCandidate list \<Rightarrow> VerificationFinding list \<Rightarrow> RepairPreview" where
  "repair_preview pid target_type target_id cands inel =
     (let n = of_nat (length cands) in
      \<lparr>rpv_profile_id = pid, rpv_target_type = target_type, rpv_target_id = target_id,
       rpv_eligible_candidates = cands, rpv_ineligible_findings = inel, rpv_total_affected_chunks = n,
       rpv_total_estimated_bytes = sum_list (map rc_cand_stored_size cands), rpv_is_repairable = (n > 0)\<rparr>)"

definition file_manifest ::
  "'s repair_lib \<Rightarrow> Database \<Rightarrow> ident_str \<Rightarrow> (RepairError, ManifestV1) result" where
  "file_manifest lib db fid =
     bind_res (map_err RepairError.Database (get_manifest_by_file_id (vl_platform (rl_verify lib)) (vl_serde (rl_verify lib)) db fid))
       (ok_or (RepairError.NotFound (''Manifest for file '' @ quoted fid @ '' not found in catalog'')))"

definition preview_file_repair ::
  "'s repair_lib \<Rightarrow> source_env \<Rightarrow> verify_env \<Rightarrow> verify_env \<Rightarrow> EncryptionPolicy \<Rightarrow> ident_str \<Rightarrow> ident_str
     \<Rightarrow> 's backup_state \<Rightarrow> ('s backup_state \<times> (RepairError, RepairPreview) result) option" where
  "preview_file_repair lib src env env_manifest policy pid fid st =
     (let vl = rl_verify lib; db = bst_db st;
          eligible =
            bind_res (repair_validate_profile db pid) (\<lambda>profile.
            bind_res (file_manifest lib db fid) (\<lambda>m.
            bind_res (validate_ownership_chain (vl_reference_json vl) db pid m fid None) (\<lambda>_.
            bind_res (validate_local_source (vl_platform vl) (rl_path_separator lib) src profile m) (\<lambda>p.
            bind_res (validate_crypto_prerequisites policy m) (\<lambda>_. Ok (m, p))))))
      in case eligible of
        Inl e \<Rightarrow> Some (st, Err e)
      | Inr (m, p) \<Rightarrow>
          map_option (\<lambda>(db', r).
             (st\<lparr>bst_db := db'\<rparr>,
              bind_res (map_err (\<lambda>e. RepairError.Internal (''Pre-repair verification failed: '' @ BackupError_display e)) r)
                (\<lambda>v. bind_res (resolve_candidates (vl_reference_json vl) pid None m p (vres_findings v) [] [])
                   (\<lambda>(cands, inel). Ok (repair_preview pid ''file'' fid cands inel)))))
           (verify_file vl (en_provider (bst_engine st)) env env_manifest pid fid restore_readiness db))"

text \<open>The versions of a snapshot: candidates and ineligible findings so far. \<open>t\<close> is the clock of the
  findings added here.\<close>

fun snapshot_candidates ::
  "'s repair_lib \<Rightarrow> source_env \<Rightarrow> (nat \<Rightarrow> string \<times> string) \<Rightarrow> Database \<Rightarrow> ProfileRecord \<Rightarrow> ident_str \<Rightarrow> ident_str
     \<Rightarrow> VerificationFinding list \<Rightarrow> nat \<Rightarrow> VersionRecord list \<Rightarrow> RepairCandidate list \<Rightarrow> VerificationFinding list
     \<Rightarrow> (RepairError, RepairCandidate list \<times> VerificationFinding list) result" where
  "snapshot_candidates lib src t db profile pid sid findings k [] cands inel = Ok (cands, inel)"
| "snapshot_candidates lib src t db profile pid sid findings k (v # vs) cands inel =
     (let vl = rl_verify lib in
      bind_res (map_err RepairError.Database (get_manifest (vl_platform vl) (vl_serde vl) db (ver_manifest_id v))) (\<lambda>found.
      case found of
        None \<Rightarrow> snapshot_candidates lib src t db profile pid sid findings (Suc k) vs cands inel
      | Some m \<Rightarrow>
          bind_res (validate_ownership_chain (vl_reference_json vl) db pid m (ver_file_id v) (Some sid)) (\<lambda>_.
          case validate_local_source (vl_platform vl) (rl_path_separator lib) src profile m of
            Inl e \<Rightarrow>
              snapshot_candidates lib src t db profile pid sid findings (Suc k) vs cands
                (inel @ [stamp_one (t k) (finding_with_file (ver_file_id v)
                   (VerificationFinding_new VerificationLevel.MetadataOnly VerificationSeverity.Critical
                     VerificationIssueCode.FileNotFound
                     (''Local source file validation failed: '' @ RepairError_display e) RestoreImpact.Fatal))])
          | Inr p \<Rightarrow>
              bind_res (resolve_candidates (vl_reference_json vl) pid (Some sid) m p findings [] []) (\<lambda>(c, i).
                snapshot_candidates lib src t db profile pid sid findings (Suc k) vs (cands @ c) (inel @ i)))))"

definition preview_snapshot_repair ::
  "'s repair_lib \<Rightarrow> source_env \<Rightarrow> (nat \<Rightarrow> string \<times> string) \<Rightarrow> verify_env \<Rightarrow> (nat \<Rightarrow> verify_env) \<Rightarrow> ident_str \<Rightarrow> ident_str
     \<Rightarrow> 's backup_state \<Rightarrow> ('s backup_state \<times> (RepairError, RepairPreview) result) option" where
  "preview_snapshot_repair lib src t env envs pid sid st =
     (let db = bst_db st;
          eligible =
            bind_res (repair_validate_profile db pid) (\<lambda>profile.
            bind_res (ok_or (RepairError.NotFound (''Snapshot '' @ quoted sid @ '' not found in catalog'')) (get_snapshot db sid)) (\<lambda>sn.
            if sr_profile_id sn \<noteq> pid then
              Err (RepairError.OwnershipViolation (''Snapshot '' @ quoted sid @ '' belongs to profile ''
                @ quoted (sr_profile_id sn) @ '', not '' @ quoted pid))
            else Ok profile))
      in case eligible of
        Inl e \<Rightarrow> Some (st, Err e)
      | Inr profile \<Rightarrow>
          map_option (\<lambda>(db', r).
             (st\<lparr>bst_db := db'\<rparr>,
              bind_res (map_err (\<lambda>e. RepairError.Internal (''Snapshot verification failed: '' @ BackupError_display e)) r)
                (\<lambda>v. bind_res (snapshot_candidates lib src t db' profile pid sid (vres_findings v) 0
                      (list_versions_by_snapshot db' sid) [] [])
                   (\<lambda>(cands, inel). Ok (repair_preview pid ''snapshot'' sid cands inel)))))
           (verify_snapshot (rl_verify lib) (en_provider (bst_engine st)) env envs pid sid restore_readiness db))"

record repair_counts =
  rct_repaired :: u32
  rct_skipped :: u32
  rct_failed :: u32
  rct_bytes :: u64

definition count_result :: "RepairChunkResult \<Rightarrow> repair_counts \<Rightarrow> repair_counts" where
  "count_result r n =
     (if rcr_status r = ''success''
      then n\<lparr>rct_repaired := rct_repaired n + 1, rct_bytes := rct_bytes n + rcr_bytes_processed r\<rparr>
      else if rcr_status r = ''skipped_healthy'' then n\<lparr>rct_skipped := rct_skipped n + 1\<rparr>
      else n)"

definition failed_result :: "RepairCandidate \<Rightarrow> string \<Rightarrow> RepairChunkResult" where
  "failed_result c e = chunk_result c ''failed'' None 0 0 (Some e)"

text \<open>The loop over the candidates, shared by both repairs: \<open>manifest_of\<close> gives the manifest of a candidate,
  None when the catalog has lost it, or the error that ends the run.\<close>

fun repair_candidates ::
  "'s repair_lib \<Rightarrow> (nat \<Rightarrow> bool) \<Rightarrow> (nat \<Rightarrow> 'r chunk_repair_env) \<Rightarrow> EncryptionPolicy
     \<Rightarrow> (Database \<Rightarrow> RepairCandidate \<Rightarrow> (RepairError, ManifestV1 option) result) \<Rightarrow> nat \<Rightarrow> RepairCandidate list
     \<Rightarrow> repair_counts \<times> RepairChunkResult list \<Rightarrow> string set \<Rightarrow> 's backup_state
     \<Rightarrow> string set \<times> 's backup_state \<times> (RepairError, repair_counts \<times> RepairChunkResult list) result" where
  "repair_candidates lib stop env policy manifest_of k [] acc fs st = (fs, st, Ok acc)"
| "repair_candidates lib stop env policy manifest_of k (c # cs) (n, rs) fs st =
     (if stop k then
        (fs, st, Ok (n, rs @ [chunk_result c ''cancelled'' None 0 0 (Some ''Operation cancelled'')]))
      else case manifest_of (bst_db st) c of
        Inl e \<Rightarrow> (fs, st, Err e)
      | Inr None \<Rightarrow>
          repair_candidates lib stop env policy manifest_of (Suc k) cs
            (n\<lparr>rct_failed := rct_failed n + 1\<rparr>,
             rs @ [failed_result c (''Manifest '' @ quoted (rc_cand_manifest_id c) @ '' not found'')]) fs st
      | Inr (Some m) \<Rightarrow>
          (case repair_single_chunk lib (env k) policy c m fs st of
             (fs', st', Inr r) \<Rightarrow>
               repair_candidates lib stop env policy manifest_of (Suc k) cs (count_result r n, rs @ [r]) fs' st'
           | (fs', st', Inl e) \<Rightarrow>
               repair_candidates lib stop env policy manifest_of (Suc k) cs
                 (n\<lparr>rct_failed := rct_failed n + 1\<rparr>, rs @ [failed_result c (RepairError_display e)]) fs' st'))"

definition no_counts :: repair_counts where
  "no_counts = \<lparr>rct_repaired = 0, rct_skipped = 0, rct_failed = 0, rct_bytes = 0\<rparr>"

definition execution_result ::
  "RepairPreview \<Rightarrow> u64 \<Rightarrow> repair_counts \<times> RepairChunkResult list \<Rightarrow> RepairExecutionResult" where
  "execution_result p ms = (\<lambda>(n, rs).
     \<lparr>rex_profile_id = rpv_profile_id p, rex_target_type = rpv_target_type p, rex_target_id = rpv_target_id p,
      rex_total_chunks_evaluated = rpv_total_affected_chunks p, rex_repaired_chunks = rct_repaired n,
      rex_skipped_healthy_chunks = rct_skipped n, rex_failed_chunks = rct_failed n,
      rex_total_bytes_transferred = rct_bytes n, rex_duration_ms = ms, rex_chunk_results = rs\<rparr>)"

definition dry_run_result :: "RepairPreview \<Rightarrow> u64 \<Rightarrow> RepairExecutionResult" where
  "dry_run_result p ms =
     execution_result p ms (no_counts, map (\<lambda>c. chunk_result c ''dry_run'' None 0 0 None) (rpv_eligible_candidates p))"

record 'r repair_env =
  rn_verify :: verify_env
  rn_verify_manifest :: "nat \<Rightarrow> verify_env"
  rn_clock :: "nat \<Rightarrow> string \<times> string"
  rn_stop :: "nat \<Rightarrow> bool"
  rn_chunk :: "nat \<Rightarrow> 'r chunk_repair_env"
  rn_elapsed_ms :: u64

text \<open>A run under the guard of the profile: the preview, and the candidates unless it is a dry run.\<close>

definition guarded_repair ::
  "'s repair_lib \<Rightarrow> 'r repair_env \<Rightarrow> ('s backup_state \<Rightarrow> ('s backup_state \<times> (RepairError, RepairPreview) result) option)
     \<Rightarrow> (Database \<Rightarrow> (RepairError, Database \<Rightarrow> RepairCandidate \<Rightarrow> (RepairError, ManifestV1 option) result) result)
     \<Rightarrow> ident_str \<Rightarrow> bool \<Rightarrow> 's RepairEngine \<Rightarrow> ('s RepairEngine \<times> (RepairError, RepairExecutionResult) result) option" where
  "guarded_repair lib env preview manifests pid dry_run st =
     (case try_acquire_profile pid st of
        (st0, Inl e) \<Rightarrow> Some (st0, Err e)
      | (st0, Inr _) \<Rightarrow>
          map_option (\<lambda>(b, r).
            let st1 = st0\<lparr>ren_backup := b\<rparr>;
                (st2, res) = (case r of
                    Inl e \<Rightarrow> (st1, Err e)
                  | Inr p \<Rightarrow>
                      if dry_run then (st1, Ok (dry_run_result p (rn_elapsed_ms env)))
                      else case manifests (ren_db st1) of
                        Inl e \<Rightarrow> (st1, Err e)
                      | Inr manifest_of \<Rightarrow>
                          let (fs, b', out) = repair_candidates lib (rn_stop env) (rn_chunk env) (ren_policy st1) manifest_of 0
                                (rpv_eligible_candidates p) (no_counts, []) (ren_staging st1) (ren_backup st1)
                          in (st1\<lparr>ren_backup := b', ren_staging := fs\<rparr>,
                              bind_res out (\<lambda>acc. Ok (execution_result p (rn_elapsed_ms env) acc))))
            in (RepairGuard_drop pid st2, res))
           (preview (ren_backup st0)))"

definition repair_file ::
  "'s repair_lib \<Rightarrow> source_env \<Rightarrow> 'r repair_env \<Rightarrow> ident_str \<Rightarrow> ident_str \<Rightarrow> bool \<Rightarrow> 's RepairEngine
     \<Rightarrow> ('s RepairEngine \<times> (RepairError, RepairExecutionResult) result) option" where
  "repair_file lib src env pid fid dry_run st =
     guarded_repair lib env
       (preview_file_repair lib src (rn_verify env) (rn_verify_manifest env 0) (ren_policy st) pid fid)
       (\<lambda>db. bind_res (file_manifest lib db fid) (\<lambda>m. Ok (\<lambda>_ _. Ok (Some m)))) pid dry_run st"

definition repair_snapshot ::
  "'s repair_lib \<Rightarrow> source_env \<Rightarrow> 'r repair_env \<Rightarrow> ident_str \<Rightarrow> ident_str \<Rightarrow> bool \<Rightarrow> 's RepairEngine
     \<Rightarrow> ('s RepairEngine \<times> (RepairError, RepairExecutionResult) result) option" where
  "repair_snapshot lib src env pid sid dry_run st =
     guarded_repair lib env
       (preview_snapshot_repair lib src (rn_clock env) (rn_verify env) (rn_verify_manifest env) pid sid)
       (\<lambda>_. Ok (\<lambda>db c. map_err RepairError.Database
          (get_manifest (vl_platform (rl_verify lib)) (vl_serde (rl_verify lib)) db (rc_cand_manifest_id c))))
       pid dry_run st"

definition engine_repair_history :: "ident_str \<Rightarrow> nat \<Rightarrow> 's RepairEngine \<Rightarrow> RepairHistoryRecord list" where
  "engine_repair_history pid limit st = list_repair_history (ren_db st) pid limit"

subsection \<open>What a repair stages\<close>

lemma read_slice_chunk:
  "read_slice rd stop wfl expected r acc = Inr bs \<Longrightarrow> \<exists>r'. read_chunk rd (\<lambda>_. None) expected r acc = (r', Inr bs)"
proof (induction rd stop wfl expected r acc rule: read_slice.induct)
  case (1 rd stop wfl expected r acc)
  show ?case
  proof (cases "length acc < expected")
    case False
    with "1.prems" show ?thesis by (simp add: read_chunk_full read_slice.simps [of rd])
  next
    case True
    let ?n = "min (expected - length acc) STREAM_CHUNK_BUFFER_SIZE"
    have same: "REPAIR_STREAM_BUFFER_SIZE = STREAM_CHUNK_BUFFER_SIZE"
      by (simp add: REPAIR_STREAM_BUFFER_SIZE_def STREAM_CHUNK_BUFFER_SIZE_def)
    obtain s b where rd: "rd r ?n = (s, Inr b)" and go: "\<not> stop (length acc)"
      using "1.prems" True
      by (subst (asm) read_slice.simps) (auto simp: Let_def same split: if_splits sum.splits prod.splits)
    note step = read_chunk_step [OF True refl, of rd r s]
    show ?thesis
    proof (cases "take ?n b = []")
      case eof: True
      have "bs = acc"
        using "1.prems" eof \<open>length acc < expected\<close> rd go by (subst (asm) read_slice.simps) (simp add: Let_def same del: take_eq_Nil)
      with step(2) [OF rd eof] show ?thesis by blast
    next
      case False
      have "read_slice rd stop wfl expected s (acc @ take ?n b) = Inr bs" "wfl (length acc) = None"
        using "1.prems" True rd go False
        by (subst (asm) read_slice.simps,
            simp add: Let_def same del: take_eq_Nil split: option.splits)+
      with "1.IH" [OF True go, of ?n] rd False step(3) [OF rd False, of "\<lambda>_. None"] same show ?thesis
        by (simp del: take_eq_Nil)
    qed
  qed
qed

lemma stage_repair_Ok:
  assumes "stage_repair lib env policy cand r = Inr (bs, stored)"
  shows "(\<exists>r'. read_chunk (cx_read env) (\<lambda>_. None) (unat (rc_cand_plaintext_size cand)) r [] = (r', Inr bs))
    \<and> of_nat (length bs) = rc_cand_plaintext_size cand
    \<and> staged_for (rl_seal lib) (rl_payload_json lib) policy (rc_cand_file_id cand) (rc_cand_chunk_index cand)
         (rc_cand_total_chunks cand) bs stored"
  using assms
  by (cases policy)
    (auto simp: stage_repair_def staged_for_def Let_def bind_res_Inr_iff dest: read_slice_chunk split: if_splits)

subsection \<open>A chunk is replaced whole or not at all\<close>

definition replacement_of :: "'s repair_lib \<Rightarrow> 'r chunk_repair_env \<Rightarrow> RepairCandidate \<Rightarrow> ManifestV1 \<Rightarrow> bytes \<Rightarrow> StorageReference
    \<Rightarrow> unit exec" where
  "replacement_of lib env cand m stored r =
     (let vl = rl_verify lib; sz = of_nat (length stored); sha256 = vl_sha vl stored;
          new_ref = (case vl_reference_json vl r of Inr s \<Rightarrow> s | Inl _ \<Rightarrow> [])
      in atomic_apply_chunk_repair (vl_platform vl) (rl_manifest_json lib) (vl_constraint_text vl)
           (rc_cand_chunk_id cand) new_ref sha256 sz (cx_now env)
           (replace_chunk (rc_cand_chunk_id cand) sz sha256 r m) (repair_history_row env cand new_ref sz))"

lemma replace_remote_cases:
  assumes "replace_remote lib env cand m stored st = (st', res)"
  shows "case res of
      Inl e \<Rightarrow> bst_db st' = bst_db st
    | Inr out \<Rightarrow> rcr_status out = ''success'' \<and>
        (\<exists>r. upload_repair lib env cand stored (bst_engine st) = (bst_engine st', Inr r)
          \<and> check_replacement lib (en_provider (bst_engine st')) cand r (of_nat (length stored))
              (vl_sha (rl_verify lib) stored) = Inr ()
          \<and> replacement_of lib env cand m stored r (bst_db st) = (bst_db st', Inr ()))"
proof (cases "cx_cancel_staged env")
  case True
  with assms show ?thesis by (auto simp: replace_remote_def Let_def)
next
  case go: False
  obtain en u where up: "upload_repair lib env cand stored (bst_engine st) = (en, u)" by fastforce
  show ?thesis
  proof (cases u)
    case (Inl e)
    with assms go up show ?thesis by (auto simp: replace_remote_def Let_def)
  next
    case (Inr r)
    obtain db' w where tx: "replacement_of lib env cand m stored r (bst_db st) = (db', w)" by fastforce
    have "w \<noteq> Inr () \<Longrightarrow> db' = bst_db st"
      using atomic_repair_cases tx
      by (cases w) (auto simp: replacement_of_def Let_def split: prod.splits; metis (mono_tags, lifting) old.sum.simps(5) old.prod.case)+
    with assms go up Inr tx show ?thesis
      by (auto simp: replace_remote_def Let_def replacement_of_def chunk_result_def
          split: if_splits sum.splits prod.splits)
  qed
qed

lemma repair_single_chunk_cases:
  assumes run: "repair_single_chunk lib env policy cand m fs st = (fs', st', res)"
  obtains (error) e where "res = Inl e" "bst_db st' = bst_db st"
  | (skipped) out where "res = Inr out" "rcr_status out = ''skipped_healthy''" "st' = st" "fs' = fs"
  | (replaced) out src bs stored r where "res = Inr out" "rcr_status out = ''success''"
      "open_at_chunk env cand m = Inr src" "stage_repair lib env policy cand src = Inr (bs, stored)"
      "has_key cmf_chunk_id (chunks m) (rc_cand_chunk_id cand)"
      "upload_repair lib env cand stored (bst_engine st) = (bst_engine st', Inr r)"
      "check_replacement lib (en_provider (bst_engine st')) cand r (of_nat (length stored))
         (vl_sha (rl_verify lib) stored) = Inr ()"
      "replacement_of lib env cand m stored r (bst_db st) = (bst_db st', Inr ())"
proof -
  consider (early) "cx_cancel_start env \<or> find_first (\<lambda>c. cmf_chunk_id c = rc_cand_chunk_id cand) (chunks m) = None"
    | (found) c where "\<not> cx_cancel_start env" "find_first (\<lambda>c. cmf_chunk_id c = rc_cand_chunk_id cand) (chunks m) = Some c"
    by auto
  then show thesis
  proof cases
    case early
    then have "\<exists>e. res = Inl e" "st' = st"
      using run by (auto simp: repair_single_chunk_def split: if_splits)
    then show thesis by (auto intro: error)
  next
    case (found c)
    then have key: "has_key cmf_chunk_id (chunks m) (rc_cand_chunk_id cand)" by (auto simp: find_first_has_key)
    show thesis
    proof (cases "is_chunk_already_healthy lib (en_provider (bst_engine st)) (cmf_storage_reference c)
        (cmf_stored_size c) (im_digest (cmf_integrity c))")
      case True
      with run found show thesis by (auto simp: repair_single_chunk_def chunk_result_def intro: skipped)
    next
      case damaged: False
      show thesis
      proof (cases "\<exists>src path bs stored. open_at_chunk env cand m = Inr src \<and> se_create (cx_stage env) = Inr path
          \<and> stage_repair lib env policy cand src = Inr (bs, stored)")
        case False
        with run found damaged show thesis
          by (auto simp: repair_single_chunk_def Let_def split: sum.splits intro: error)
      next
        case True
        then obtain src path bs stored where ok: "open_at_chunk env cand m = Inr src"
            "se_create (cx_stage env) = Inr path" "stage_repair lib env policy cand src = Inr (bs, stored)"
          by blast
        obtain st1 res1 where rr: "replace_remote lib env cand m stored st = (st1, res1)" by fastforce
        with run found damaged ok have "st' = st1" "res = res1" by (auto simp: repair_single_chunk_def Let_def)
        with replace_remote_cases [OF rr] show thesis
          by (cases res) (auto intro: error replaced [OF _ _ ok(1,3) key])
      qed
    qed
  qed
qed

lemma repair_staging_clean:
  assumes "repair_single_chunk lib env policy cand m fs st = (fs', st', res)" "cx_remove_ok env"
    and "\<And>p. se_create (cx_stage env) = Inr p \<Longrightarrow> p \<notin> fs"
  shows "fs' = fs"
  using assms
  by (auto simp: repair_single_chunk_def Let_def cleanup_cases TempPayloadFile_drop_def TempPayloadFile_new_def
      split: if_splits option.splits sum.splits prod.splits)

subsection \<open>What a repair writes in the catalog\<close>

definition chunk_identity :: "ChunkRecord \<Rightarrow> ident_str \<times> ident_str \<times> string \<times> u32 \<times> u64" where
  "chunk_identity c = (cr_chunk_id c, cr_file_id c, cr_manifest_id c, cr_chunk_index c, cr_plaintext_size c)"

definition manifest_identity :: "ManifestRecord \<Rightarrow> string \<times> ident_str \<times> string \<times> string" where
  "manifest_identity q = (mr_manifest_id q, mr_file_id q, mr_manifest_version q, mr_created_at q)"

definition repairs_only :: "Database \<Rightarrow> Database \<Rightarrow> bool" where
  "repairs_only db db' \<longleftrightarrow> (catalog_ok db \<longrightarrow> catalog_ok db')
   \<and> db' = db\<lparr>t_chunks := t_chunks db', t_manifests := t_manifests db', t_ver_hist := t_ver_hist db',
          t_rep_hist := t_rep_hist db'\<rparr>
   \<and> (\<exists>vs. t_ver_hist db' = t_ver_hist db @ vs) \<and> (\<exists>rs. t_rep_hist db' = t_rep_hist db @ rs)
   \<and> map chunk_identity (t_chunks db') = map chunk_identity (t_chunks db)
   \<and> map manifest_identity (t_manifests db') = map manifest_identity (t_manifests db)"

interpretation rep: catalog_order repairs_only
proof
  show "repairs_only db db" for db by (simp add: repairs_only_def)
  show "repairs_only a c" if ab: "repairs_only a b" and bc: "repairs_only b c" for a b c
  proof -
    have b: "b = a\<lparr>t_chunks := t_chunks b, t_manifests := t_manifests b, t_ver_hist := t_ver_hist b,
          t_rep_hist := t_rep_hist b\<rparr>" (is "b = ?b") using ab unfolding repairs_only_def by blast
    have c: "c = b\<lparr>t_chunks := t_chunks c, t_manifests := t_manifests c, t_ver_hist := t_ver_hist c,
          t_rep_hist := t_rep_hist c\<rparr>" using bc unfolding repairs_only_def by blast
    also have "\<dots> = ?b\<lparr>t_chunks := t_chunks c, t_manifests := t_manifests c, t_ver_hist := t_ver_hist c,
          t_rep_hist := t_rep_hist c\<rparr>" using b by argo
    also have "\<dots> = a\<lparr>t_chunks := t_chunks c, t_manifests := t_manifests c, t_ver_hist := t_ver_hist c,
          t_rep_hist := t_rep_hist c\<rparr>" by simp
    finally have "c = a\<lparr>t_chunks := t_chunks c, t_manifests := t_manifests c, t_ver_hist := t_ver_hist c,
          t_rep_hist := t_rep_hist c\<rparr>" .
    moreover have "\<exists>vs. t_ver_hist c = t_ver_hist a @ vs" "\<exists>rs. t_rep_hist c = t_rep_hist a @ rs"
      using ab bc unfolding repairs_only_def by (metis append_assoc)+
    ultimately show ?thesis using ab bc unfolding repairs_only_def by metis
  qed
qed

lemma history_repairs: "history_added db db' \<Longrightarrow> repairs_only db db'"
  by (auto simp: history_added_def repairs_only_def)

lemma applied_repairs:
  "(catalog_ok db \<longrightarrow> catalog_ok (repair_applied cid ref hsh sz at mid j h db))
     \<Longrightarrow> repairs_only db (repair_applied cid ref hsh sz at mid j h db)"
  by (simp add: repairs_only_def repair_applied_def update_rows_def chunk_identity_def manifest_identity_def)

lemma replacement_repairs:
  assumes "replacement_of lib env cand m stored r db = (db', Inr ())"
  shows "repairs_only db db'"
proof -
  from assms obtain pf ser em cid ref hsh sz at m' h where
    tx: "atomic_apply_chunk_repair pf ser em cid ref hsh sz at m' h db = (db', Inr ())"
    unfolding replacement_of_def Let_def by blast
  have "catalog_ok db \<longrightarrow> catalog_ok db'"
    using atomic_apply_chunk_repair_keeps [where pf = pf and ser = ser and em = em and cid = cid and ref = ref
        and hsh = hsh and sz = sz and at = at and m = m' and h = h] tx
    unfolding cat.keeps_def by (metis fst_conv)
  moreover obtain j where "db' = repair_applied cid ref hsh sz at (manifest_id m') j h db"
    using atomic_repair_cases [where pf = pf and ser = ser and em = em and cid = cid and ref = ref and hsh = hsh
        and sz = sz and at = at and m = m' and h = h and db = db] unfolding tx by auto
  ultimately show ?thesis using applied_repairs by simp
qed

lemma single_chunk_repairs:
  assumes "repair_single_chunk lib env policy cand m fs st = (fs', st', res)"
  shows "repairs_only (bst_db st) (bst_db st')"
  by (rule repair_single_chunk_cases [OF assms]) (auto simp: rep.R_refl dest: replacement_repairs)

lemma candidates_repairs:
  "repair_candidates lib stop env policy manifest_of k cs acc fs st = (fs', st', res) \<Longrightarrow> repairs_only (bst_db st) (bst_db st')"
proof (induction lib stop env policy manifest_of k cs acc fs st rule: repair_candidates.induct)
  case (2 lib stop env policy manifest_of k c cs n rs fs st)
  show ?case
  proof (cases "stop k \<or> (\<exists>e. manifest_of (bst_db st) c = Inl e)")
    case True
    with "2.prems" show ?thesis by (auto simp: rep.R_refl split: if_splits)
  next
    case False
    then obtain mo where mo: "manifest_of (bst_db st) c = Inr mo" by (cases "manifest_of (bst_db st) c") auto
    show ?thesis
    proof (cases mo)
      case None
      with "2.prems" "2.IH"(1) False mo show ?thesis by simp
    next
      case (Some m)
      obtain fs1 st1 r1 where one: "repair_single_chunk lib (env k) policy c m fs st = (fs1, st1, r1)"
        by (metis prod.exhaust)
      have "repairs_only (bst_db st1) (bst_db st')"
        using "2.prems" "2.IH"(2,3) False mo Some one by (cases r1) simp_all
      with single_chunk_repairs [OF one] show ?thesis by (rule rep.R_trans)
    qed
  qed
qed (simp add: rep.R_refl)

lemma verify_file_added:
  assumes "verify_file lib s env envm pid fid options db = Some (db', r)"
  shows "history_added db db'"
  using assms
  by (auto simp: verify_file_def Let_def split_beta finish_added hist.R_refl persist_history_added
      split: sum.splits option.splits if_splits dest!: verify_manifest_added intro: hist.R_trans)

lemma preview_file_history:
  assumes "preview_file_repair lib src env envm policy pid fid st = Some (st', r)"
  shows "history_added (bst_db st) (bst_db st') \<and> bst_engine st' = bst_engine st"
proof (cases "st' = st")
  case True
  then show ?thesis by (simp add: hist.R_refl)
next
  case False
  with assms obtain r1 where "verify_file (rl_verify lib) (en_provider (bst_engine st)) env envm pid fid restore_readiness
      (bst_db st) = Some (bst_db st', r1)" "bst_engine st' = bst_engine st"
    by (auto simp: preview_file_repair_def Let_def split: sum.splits)
  with verify_file_added [OF this(1)] show ?thesis by simp
qed

lemma preview_snapshot_history:
  assumes "preview_snapshot_repair lib src t env envs pid sid st = Some (st', r)"
  shows "history_added (bst_db st) (bst_db st') \<and> bst_engine st' = bst_engine st"
proof (cases "st' = st")
  case True
  then show ?thesis by (simp add: hist.R_refl)
next
  case False
  with assms obtain r1 where "verify_snapshot (rl_verify lib) (en_provider (bst_engine st)) env envs pid sid restore_readiness
      (bst_db st) = Some (bst_db st', r1)" "bst_engine st' = bst_engine st"
    by (auto simp: preview_snapshot_repair_def Let_def split: sum.splits)
  with verify_snapshot_added [OF this(1)] show ?thesis by simp
qed

lemma guarded_repair_scope:
  assumes run: "guarded_repair lib env preview manifests pid dry st = Some (st', res)"
    and preview: "\<And>b b' r. preview b = Some (b', r) \<Longrightarrow> history_added (bst_db b) (bst_db b') \<and> bst_engine b' = bst_engine b"
  shows "repairs_only (ren_db st) (ren_db st') \<and> ren_active_profiles st' = ren_active_profiles st
    \<and> (dry \<longrightarrow> history_added (ren_db st) (ren_db st') \<and> bst_engine (ren_backup st') = bst_engine (ren_backup st)
         \<and> ren_staging st' = ren_staging st)"
proof (cases "ren_poisoned st = None \<and> pid \<notin> ren_active_profiles st")
  case False
  then have "st' = st" using run by (auto simp: guarded_repair_def try_acquire_profile_def split: option.splits if_splits)
  then show ?thesis by (simp add: rep.R_refl hist.R_refl)
next
  case True
  let ?st0 = "st\<lparr>ren_active_profiles := insert pid (ren_active_profiles st)\<rparr>"
  from run True obtain b r where b: "preview (ren_backup st) = Some (b, r)"
    by (auto simp: guarded_repair_def try_acquire_profile_def)
  note h = preview [OF b]
  have stop: "(ren_db st' = bst_db b \<and> bst_engine (ren_backup st') = bst_engine b \<and> ren_staging st' = ren_staging st
      \<or> \<not> dry \<and> repairs_only (bst_db b) (ren_db st'))
      \<and> ren_active_profiles st' = ren_active_profiles st"
    using run True b
    by (auto simp: guarded_repair_def try_acquire_profile_def RepairGuard_drop_def Let_def
        split: sum.splits prod.splits if_splits dest: candidates_repairs)
  then have "repairs_only (bst_db b) (ren_db st')" using rep.R_refl by auto
  then have "repairs_only (ren_db st) (ren_db st')" using history_repairs h rep.R_trans by blast
  then show ?thesis using stop h by auto
qed

subsection \<open>Candidates\<close>

text \<open>The repairable findings with the chunks of the manifest they name.\<close>

definition damaged :: "ManifestV1 \<Rightarrow> VerificationFinding list \<Rightarrow> (VerificationFinding \<times> ChunkManifest) list" where
  "damaged m fs = List.map_filter
     (\<lambda>f. if is_issue_repairable (vf_code f) then map_option (Pair f) (finding_chunk m f) else None) fs"

lemma damaged_Cons:
  "\<not> (is_issue_repairable (vf_code f) \<and> finding_chunk m f \<noteq> None) \<Longrightarrow> damaged m (f # fs) = damaged m fs"
  "\<lbrakk>is_issue_repairable (vf_code f); finding_chunk m f = Some c\<rbrakk> \<Longrightarrow> damaged m (f # fs) = (f, c) # damaged m fs"
  by (auto simp: damaged_def)

lemma resolve_candidates_acc:
  assumes "resolve_candidates to_json pid sid m source fs cands inel = Inr (cs, is)"
    and "distinct (map rc_cand_chunk_id cands)"
  shows "distinct (map rc_cand_chunk_id cs)
    \<and> (\<forall>f \<in> set fs. \<not> is_strict_barrier (vf_code f))
    \<and> is = inel @ filter (\<lambda>f. \<not> (is_issue_repairable (vf_code f) \<and> finding_chunk m f \<noteq> None)) fs
    \<and> rc_cand_chunk_id ` set cs = rc_cand_chunk_id ` set cands
        \<union> (cmf_chunk_id \<circ> snd) ` set (damaged m fs)
    \<and> set cs \<subseteq> set cands \<union> (\<lambda>(f, c). repair_candidate to_json pid sid m source f c) ` set (damaged m fs)"
  using assms
proof (induction fs arbitrary: cands inel)
  case (Cons f fs)
  let ?ok = "is_issue_repairable (vf_code f) \<and> finding_chunk m f \<noteq> None"
  have nb: "\<not> is_strict_barrier (vf_code f)" using Cons.prems(1) by (auto split: if_splits)
  show ?case
  proof (cases ?ok)
    case False
    then have "resolve_candidates to_json pid sid m source fs cands (inel @ [f]) = Inr (cs, is)"
      using Cons.prems(1) nb by (auto split: if_splits option.splits)
    from Cons.IH [OF this Cons.prems(2)] nb False show ?thesis by (auto simp: damaged_Cons(1))
  next
    case True
    then obtain c where c: "finding_chunk m f = Some c" by blast
    show ?thesis
    proof (cases "cmf_chunk_id c \<in> rc_cand_chunk_id ` set cands")
      case seen: True
      then have "resolve_candidates to_json pid sid m source fs cands inel = Inr (cs, is)"
        using Cons.prems(1) nb True c by simp
      from Cons.IH [OF this Cons.prems(2)] nb True c seen show ?thesis by (auto simp: damaged_Cons(2))
    next
      case False
      let ?new = "repair_candidate to_json pid sid m source f c"
      have id: "rc_cand_chunk_id ?new = cmf_chunk_id c" by (simp add: repair_candidate_def)
      have step: "resolve_candidates to_json pid sid m source fs (cands @ [?new]) inel = Inr (cs, is)"
        using Cons.prems(1) nb True c False by simp
      have "distinct (map rc_cand_chunk_id (cands @ [?new]))" using Cons.prems(2) False id by auto
      from Cons.IH [OF step this] nb True c id show ?thesis by (auto simp: damaged_Cons(2))
    qed
  qed
qed (simp add: damaged_def)

subsection \<open>The replacement and the source\<close>

lemma upload_repair_Ok:
  assumes "upload_repair lib env cand stored en = (en', Inr r)"
  obtains job ures where
    "expected_size_bytes job = of_nat (length stored)"
    "rl_put lib (en_provider en) (upload_request job)
       (cancelling_reader (at_call (cx_obs env)) (blocks_reader (chunks_of STREAM_CHUNK_BUFFER_SIZE stored)))
     = (en_provider en', Inr ures)" "r = ures_storage_reference ures"
proof -
  from assms obtain job job' where job: "repair_job env cand (of_nat (length stored)) (vl_sha (rl_verify lib) stored) = Inr job"
    and up: "upload_stream (rl_retry lib) (rl_put lib) (rl_check lib) (rl_callback lib) (cx_obs env)
         (blocks_reader (chunks_of STREAM_CHUNK_BUFFER_SIZE stored)) en job = (en', job', Inr r)"
    by (auto simp: upload_repair_def Let_def map_err_def split: sum.splits option.splits prod.splits)
  have "expected_size_bytes job = of_nat (length stored)"
    using job by (auto simp: repair_job_def bind_res_Inr_iff new_upload_def Let_def UploadJobParams_new_def)
  with up that show thesis by (auto elim: upload_stream_Inr)
qed

context storage_contract
begin

lemma repair_stored:
  assumes "upload_repair lib env cand content en = (en', Inr r)" "rl_put lib = put" "inv (en_provider en)"
    and "\<And>job. expected_size_bytes job = of_nat (length content) \<Longrightarrow> exact (upload_request job)"
  shows "inv (en_provider en') \<and> stored (en_provider en') r = Some content"
proof -
  obtain job ures where job: "expected_size_bytes job = of_nat (length content)"
    and p: "put (en_provider en) (upload_request job)
       (cancelling_reader (at_call (cx_obs env)) (blocks_reader (chunks_of STREAM_CHUNK_BUFFER_SIZE content)))
     = (en_provider en', Inr ures)" "r = ures_storage_reference ures"
    using upload_repair_Ok [OF assms(1)] unfolding assms(2) by blast
  from put_stored [OF assms(3) assms(4) [OF job] p(1)] obtain bs where
    "read_loop (blocks_reader (chunks_of STREAM_CHUNK_BUFFER_SIZE content)) [] = Inr bs"
    "stored (en_provider en') r = Some bs"
    using p(2) read_loop_cancelling by blast
  then show ?thesis
    using put_inv [OF assms(3) p(1)] by (simp add: read_loop_blocks STREAM_CHUNK_BUFFER_SIZE_def)
qed

end

lemma replacement_recorded:
  assumes "replacement_of lib env cand m stored r db = (db', Inr ())"
    and "\<And>x j. rl_manifest_json lib x = Inr j \<Longrightarrow> vl_serde (rl_verify lib) j = Inr x"
  shows "get_manifest (vl_platform (rl_verify lib)) (vl_serde (rl_verify lib)) db' (manifest_id m)
      = Inr (Some (replace_chunk (rc_cand_chunk_id cand) (of_nat (length stored)) (vl_sha (rl_verify lib) stored) r m))"
    and "map_option (\<lambda>c. (cr_stored_size c, cr_integrity_hash c)) (get_chunk db' (rc_cand_chunk_id cand))
      = Some (of_nat (length stored), vl_sha (rl_verify lib) stored)"
proof -
  let ?ref = "case vl_reference_json (rl_verify lib) r of Inr s \<Rightarrow> s | Inl _ \<Rightarrow> []"
  note all = repaired_reads_back [where pf = "vl_platform (rl_verify lib)" and ser = "rl_manifest_json lib"
      and des = "vl_serde (rl_verify lib)" and em = "vl_constraint_text (rl_verify lib)" and cid = "rc_cand_chunk_id cand"
      and ref = ?ref and hsh = "vl_sha (rl_verify lib) stored" and sz = "of_nat (length stored)" and at = "cx_now env"
      and m = "replace_chunk (rc_cand_chunk_id cand) (of_nat (length stored)) (vl_sha (rl_verify lib) stored) r m"
      and h = "repair_history_row env cand ?ref (of_nat (length stored))" and db = db, OF assms(2)]
  have id: "manifest_id (replace_chunk c n h r m) = manifest_id m" for c n h by (simp add: replace_chunk_def)
  show "get_manifest (vl_platform (rl_verify lib)) (vl_serde (rl_verify lib)) db' (manifest_id m)
      = Inr (Some (replace_chunk (rc_cand_chunk_id cand) (of_nat (length stored)) (vl_sha (rl_verify lib) stored) r m))"
    using all assms(1) by (simp add: replacement_of_def Let_def id)
  show "map_option (\<lambda>c. (cr_stored_size c, cr_integrity_hash c)) (get_chunk db' (rc_cand_chunk_id cand))
      = Some (of_nat (length stored), vl_sha (rl_verify lib) stored)"
    using all assms(1) by (auto simp: replacement_of_def Let_def id)
qed

lemma find_replaced:
  "has_key cmf_chunk_id cs cid \<Longrightarrow> (\<And>c. cmf_chunk_id (f c) = cmf_chunk_id c) \<Longrightarrow>
     find_first (\<lambda>c. cmf_chunk_id c = cid) (update_first (\<lambda>c. cmf_chunk_id c = cid) f cs)
       = map_option f (find_first (\<lambda>c. cmf_chunk_id c = cid) cs)"
  by (induction cs) (auto simp: has_key_def)

lemma check_replacement_healthy:
  assumes "check_replacement lib s cand r sz sha256 = Inr ()" "r \<noteq> StorageReference.Pending"
  shows "is_chunk_already_healthy lib s r sz sha256"
  using assms
  by (auto simp: check_replacement_def is_chunk_already_healthy_def Let_def bind_res_Inr_iff map_err_def
      split: sum.splits if_splits option.splits)

subsection \<open>Properties\<close>

text \<open>C14. A repair run, of a file or of a snapshot, rewrites only the reference, hash and size columns of chunk rows and
  the text of manifests and appends to the verification and repair histories; every other table and the
  identity of every chunk and manifest stay, the catalog stays consistent, and the profile is free
  again afterwards whatever the outcome. A dry run only adds verification history: the provider, the
  transfer queue and the staging directory are as before.\<close>

theorem repair_run_scope:
  assumes "repair_file lib src env pid fid dry st = Some (st', res)
    \<or> repair_snapshot lib src env pid sid dry st = Some (st', res)"
  shows "repairs_only (ren_db st) (ren_db st') \<and> ren_active_profiles st' = ren_active_profiles st
    \<and> (dry \<longrightarrow> history_added (ren_db st) (ren_db st') \<and> bst_engine (ren_backup st') = bst_engine (ren_backup st)
         \<and> ren_staging st' = ren_staging st)"
  using assms
proof
  assume "repair_file lib src env pid fid dry st = Some (st', res)"
  from this [unfolded repair_file_def] show ?thesis
    by (rule guarded_repair_scope) (rule preview_file_history)
next
  assume "repair_snapshot lib src env pid sid dry st = Some (st', res)"
  from this [unfolded repair_snapshot_def] show ?thesis
    by (rule guarded_repair_scope) (rule preview_snapshot_history)
qed

text \<open>C6. A chunk reported as repaired holds the data of the local file: what was staged is the slice of the file at the
  chunk's offset, in clear or sealed for the chunk's position, and complete; the provider stores exactly the staged
  bytes under the new reference (the mock provider, which keeps payloads up to 4 MiB); the manifest in the
  catalog is the old one with the size, hash and reference of this chunk replaced, and the chunk row agrees.\<close>

theorem repair_uploads_source_slice:
  assumes run: "repair_single_chunk lib env policy cand m fs st = (fs', st', Inr out)" "rcr_status out = ''success''"
    and mock: "rl_put lib = mock_upload sha" "vl_sha (rl_verify lib) = sha" "mock_inv sha (en_provider (bst_engine st))"
    and source: "cx_open env (rc_cand_source_path cand) = Inr data" "cx_read env = slice_read"
      "\<And>off. cx_seek env data off = Inr (drop (unat off) data)"
    and serde_roundtrip: "\<And>x j. rl_manifest_json lib x = Inr j \<Longrightarrow> vl_serde (rl_verify lib) j = Inr x"
  shows "\<exists>slice content r.
      slice = take (unat (rc_cand_plaintext_size cand)) (drop (unat (chunk_offset m (rc_cand_chunk_index cand))) data)
    \<and> length slice = unat (rc_cand_plaintext_size cand)
    \<and> staged_for (rl_seal lib) (rl_payload_json lib) policy (rc_cand_file_id cand) (rc_cand_chunk_index cand)
         (rc_cand_total_chunks cand) slice content
    \<and> (length content \<le> 4 * 1024 * 1024 \<longrightarrow> mock_stored (en_provider (bst_engine st')) r = Some content)
    \<and> get_manifest (vl_platform (rl_verify lib)) (vl_serde (rl_verify lib)) (bst_db st') (manifest_id m)
        = Inr (Some (replace_chunk (rc_cand_chunk_id cand) (of_nat (length content)) (sha content) r m))
    \<and> map_option (\<lambda>c. (cr_stored_size c, cr_integrity_hash c)) (get_chunk (bst_db st') (rc_cand_chunk_id cand))
        = Some (of_nat (length content), sha content)"
proof (rule repair_single_chunk_cases [OF run(1)])
  fix out' src bs content r
  assume opened: "open_at_chunk env cand m = Inr src"
    and staged: "stage_repair lib env policy cand src = Inr (bs, content)"
    and up: "upload_repair lib env cand content (bst_engine st) = (bst_engine st', Inr r)"
    and tx: "replacement_of lib env cand m content r (bst_db st) = (bst_db st', Inr ())"
  let ?n = "unat (rc_cand_plaintext_size cand)" and ?off = "unat (chunk_offset m (rc_cand_chunk_index cand))"
  have "src = drop ?off data" using opened source by (auto simp: open_at_chunk_def Let_def)
  then have slice: "bs = take ?n (drop ?off data)"
    using stage_repair_Ok [OF staged] slice.read_chunk_exact [of ?n src "[]"] by (auto simp: source)
  have "length bs \<le> ?n" unfolding slice by simp
  also have "?n < 2 ^ LENGTH(64)" by (rule unsigned_less)
  finally have "unat (of_nat (length bs) :: u64) = length bs" by (simp add: unat_of_nat)
  then have full: "length bs = ?n" using stage_repair_Ok [OF staged] by simp
  have "mock_stored (en_provider (bst_engine st')) r = Some content" if "length content \<le> 4 * 1024 * 1024"
  proof -
    have "mock_exact (upload_request job)" if "expected_size_bytes job = of_nat (length content)" for job
      using that \<open>length content \<le> _\<close>
      by (simp add: mock_exact_def upload_request_def word_le_nat_alt unat_of_nat)
    then show ?thesis using mock.repair_stored [OF up mock(1,3)] by blast
  qed
  then show ?thesis
    using slice full stage_repair_Ok [OF staged] replacement_recorded [OF tx serde_roundtrip] mock(2) by blast
qed (use run(2) in auto)

text \<open>C16. Repair is idempotent: after a successful repair the manifest read back from the catalog has a healthy chunk, so
  a second repair of the same candidate, whatever it meets, uploads nothing, changes nothing and reports
  the chunk as skipped.\<close>

theorem repair_idempotent:
  assumes run: "repair_single_chunk lib env policy cand m fs st = (fs', st', Inr out)" "rcr_status out = ''success''"
    and allocated: "\<And>s req rd s' u. rl_put lib s req rd = (s', Inr u) \<Longrightarrow> ures_storage_reference u \<noteq> StorageReference.Pending"
    and serde_roundtrip: "\<And>x j. rl_manifest_json lib x = Inr j \<Longrightarrow> vl_serde (rl_verify lib) j = Inr x"
    and again: "\<not> cx_cancel_start env2"
  shows "\<exists>m'. get_manifest (vl_platform (rl_verify lib)) (vl_serde (rl_verify lib)) (bst_db st') (manifest_id m) = Inr (Some m')
    \<and> repair_single_chunk lib env2 policy2 cand m' fs2 st'
        = (fs2, st', Inr (chunk_result cand ''skipped_healthy'' None 0 (cx_elapsed_ms env2) None))"
proof (rule repair_single_chunk_cases [OF run(1)])
  fix out' src bs content r
  assume key: "has_key cmf_chunk_id (chunks m) (rc_cand_chunk_id cand)"
    and up: "upload_repair lib env cand content (bst_engine st) = (bst_engine st', Inr r)"
    and chk: "check_replacement lib (en_provider (bst_engine st')) cand r (of_nat (length content))
         (vl_sha (rl_verify lib) content) = Inr ()"
    and tx: "replacement_of lib env cand m content r (bst_db st) = (bst_db st', Inr ())"
  have "r \<noteq> StorageReference.Pending" using upload_repair_Ok [OF up] allocated by metis
  note ok = check_replacement_healthy [OF chk this]
  obtain c where "find_first (\<lambda>c. cmf_chunk_id c = rc_cand_chunk_id cand) (chunks m) = Some c"
    using key by (auto simp: find_first_has_key)
  then have "repair_single_chunk lib env2 policy2 cand
      (replace_chunk (rc_cand_chunk_id cand) (of_nat (length content)) (vl_sha (rl_verify lib) content) r m) fs2 st'
    = (fs2, st', Inr (chunk_result cand ''skipped_healthy'' None 0 (cx_elapsed_ms env2) None))"
    using again ok by (simp add: repair_single_chunk_def replace_chunk_def find_replaced [OF key] IntegrityMetadata_sha256_def)
  then show ?thesis using replacement_recorded(1) [OF tx serde_roundtrip] by blast
qed (use run(2) in auto)

definition sample_candidate :: RepairCandidate where
  "sample_candidate =
     \<lparr>rc_cand_profile_id = ''p1'', rc_cand_snapshot_id = None, rc_cand_file_id = ''f1'', rc_cand_manifest_id = ''m1'',
      rc_cand_chunk_id = ''c1'', rc_cand_chunk_index = 1, rc_cand_total_chunks = 2,
      rc_cand_finding_code = VerificationIssueCode.PendingStorageAllocation, rc_cand_old_storage_reference = ''r'',
      rc_cand_plaintext_size = 2, rc_cand_stored_size = 2, rc_cand_source_path = ''d/a.txt''\<rparr>"

definition sample_replaced :: ManifestV1 where
  "sample_replaced = replace_chunk ''c1'' 2 sample_digest
     (Telegram (- 1001234567890) 1000 (''tg_mock_file_'' @ show_int 1000)) sample_manifest"

definition sample_repair_lib :: "MockStorageProvider repair_lib" where
  "sample_repair_lib =
     \<lparr>rl_verify =
        \<lparr>vl_platform = unix_platform, vl_sha = (\<lambda>_. sample_digest),
         vl_serde = (\<lambda>j. if j = ''{}'' then Inr sample_replaced else Inl ''e''),
         vl_reference_json = (\<lambda>_. Inr ''j''), vl_findings_json = (\<lambda>_. Inr ''[]''), vl_metadata = mock_get_metadata,
         vl_get = (\<lambda>_ _ _ _. None), vl_constraint_text = ''e''\<rparr>,
      rl_path_separator = CHR ''/'',
      rl_manifest_json = (\<lambda>x. if x = sample_replaced then Inr ''{}'' else Inl ''e''),
      rl_seal = (\<lambda>_ _ _ _. None), rl_payload_json = (\<lambda>_. Inl ''e''), rl_retry = sample_policy,
      rl_put = mock_upload (\<lambda>_. sample_digest), rl_check = mock_verify, rl_callback = False\<rparr>"

definition sample_mend_env :: "bytes chunk_repair_env" where
  "sample_mend_env =
     \<lparr>cx_cancel_start = False, cx_open = (\<lambda>_. Inr [1, 2, 3, 4, 5, 6, 7]), cx_seek = (\<lambda>d off. Inr (drop (unat off) d)),
      cx_read = slice_read,
      cx_stage = \<lparr>se_create = Inr ''t'', se_open = Inr (), se_write = (\<lambda>_. None), se_flush = Inr (), se_nonce = Nonce (replicate 12 9)\<rparr>,
      cx_cancel_read = (\<lambda>_. False), cx_cancel_sealed = False, cx_cancel_staged = False, cx_job_millis = ''1'',
      cx_reopen = None, cx_obs = never_cancelled, cx_cancel_uploaded = False, cx_now = ''2'', cx_history_nanos = ''1'',
      cx_elapsed_ms = 0, cx_remove_ok = True\<rparr>"

lemma sample_stage: "stage_repair sample_repair_lib sample_mend_env Disabled sample_candidate [6, 7] = Inr ([6, 7], [6, 7])"
  by (simp add: stage_repair_def sample_mend_env_def sample_candidate_def Let_def read_slice.simps slice_read_def
      REPAIR_STREAM_BUFFER_SIZE_def)

lemma sample_replaced_valid: "ManifestV1_validate unix_platform sample_replaced = Inr ()"
proof -
  have "trim (''tg_mock_file_'' @ show_int 1000) \<noteq> []" by code_simp
  then show ?thesis
    using sample_digest_valid sample_path_valid
    by (simp add: sample_replaced_def replace_chunk_def IntegrityMetadata_sha256_def sample_manifest_def ManifestV1_validate_def LogicalFileMetadata_validate_def
      ChunkManifest_validate_def checked_add_def)
qed

lemma sample_repair_upload:
  "\<exists>en'. upload_repair sample_repair_lib sample_mend_env sample_candidate [6, 7] (sample_engine False)
     = (en', Inr (Telegram (- 1001234567890) 1000 (''tg_mock_file_'' @ show_int 1000)))
   \<and> check_replacement sample_repair_lib (en_provider en') sample_candidate
       (Telegram (- 1001234567890) 1000 (''tg_mock_file_'' @ show_int 1000)) 2 sample_digest = Inr ()"
proof -
  have "id_new ''JobId'' ''rep-c1-1'' = Inr ''rep-c1-1''" by code_simp
  moreover have "chunks_of STREAM_CHUNK_BUFFER_SIZE [6, 7 :: u8] = [[6, 7]]"
    by (simp add: chunks_of_def STREAM_CHUNK_BUFFER_SIZE_def)
  moreover have "\<not> (2 :: u32) \<le> 1" by (simp add: word_le_nat_alt)
  ultimately show ?thesis
    by (simp add: upload_repair_def repair_job_def sample_mend_env_def sample_candidate_def sample_repair_lib_def
        new_upload_def UploadJobParams_new_def TransferJob_validate_def Let_def blocks_reader_def upload_stream_def
        execute_upload_prepared sample_upload_defs bind_res_def check_replacement_def mock_get_metadata_def
        eq_ignore_ascii_case_def)
qed

lemma sample_repair_run:
  "\<exists>st' out. repair_single_chunk sample_repair_lib sample_mend_env Disabled sample_candidate sample_manifest {} sample_state
     = ({}, st', Inr out) \<and> rcr_status out = ''success''"
proof -
  let ?r = "Telegram (- 1001234567890) 1000 (''tg_mock_file_'' @ show_int 1000)"
  from sample_repair_upload obtain en' where
    up: "upload_repair sample_repair_lib sample_mend_env sample_candidate [6, 7] (sample_engine False) = (en', Inr ?r)"
    and chk: "check_replacement sample_repair_lib (en_provider en') sample_candidate ?r 2 sample_digest = Inr ()" by blast
  have find: "find_first (\<lambda>c. cmf_chunk_id c = rc_cand_chunk_id sample_candidate) (chunks sample_manifest) = Some (chunks sample_manifest ! 1)"
    "cmf_storage_reference (chunks sample_manifest ! 1) = StorageReference.Pending"
    by (simp_all add: sample_candidate_def sample_manifest_def)
  have opened: "open_at_chunk sample_mend_env sample_candidate sample_manifest = Inr [6, 7]"
    by (simp add: open_at_chunk_def sample_mend_env_def sample_candidate_def sample_manifest_def chunk_offset_def)
  have eq: "replacement_of sample_repair_lib sample_mend_env sample_candidate sample_manifest [6, 7] ?r
      = atomic_apply_chunk_repair unix_platform (\<lambda>x. if x = sample_replaced then Inr ''{}'' else Inl ''e'') ''e'' ''c1'' ''j''
          sample_digest 2 ''2'' sample_replaced (repair_history_row sample_mend_env sample_candidate ''j'' 2)"
    by (simp add: replacement_of_def sample_repair_lib_def sample_mend_env_def sample_candidate_def sample_replaced_def Let_def)
  have "manifest_id sample_replaced = ''m1''" by (simp add: sample_replaced_def replace_chunk_def sample_manifest_def)
  moreover have "manifest_id sample_manifest = ''m1''" by (simp add: sample_manifest_def)
  ultimately have "snd (replacement_of sample_repair_lib sample_mend_env sample_candidate sample_manifest [6, 7] ?r repair_sample_db) = Inr ()"
    unfolding eq using sample_replaced_valid
    by (simp add: atomic_apply_chunk_repair_def with_transaction_def bind_exec_def repair_chunk_row_def
        repair_manifest_row_def affecting_def record_repair_history_def checked_def has_key_def ref_ok_def
        update_rows_def ManifestV1_to_json_def repair_sample_db_def repair_history_row_def sample_candidate_def
        sample_db_rows open_in_memory_def sample_profile_def sample_file_def)
  then obtain db' where tx: "replacement_of sample_repair_lib sample_mend_env sample_candidate sample_manifest [6, 7] ?r repair_sample_db
      = (db', Inr ())" by (metis prod.collapse)
  have env: "\<not> cx_cancel_start sample_mend_env" "\<not> cx_cancel_staged sample_mend_env" "\<not> cx_cancel_uploaded sample_mend_env"
      "se_create (cx_stage sample_mend_env) = Inr ''t''" "cx_remove_ok sample_mend_env" "vl_sha (rl_verify sample_repair_lib) [6, 7] = sample_digest"
      "bst_engine sample_state = sample_engine False" "bst_db sample_state = repair_sample_db"
    by (simp_all add: sample_mend_env_def sample_repair_lib_def sample_state_def)
  show ?thesis
    using find opened sample_stage up chk tx
    by (simp add: repair_single_chunk_def is_chunk_already_healthy_def Let_def replace_remote_def env cleanup_cases
        TempPayloadFile_new_def replacement_of_def chunk_result_def)
qed

lemma sample_serde: "rl_manifest_json sample_repair_lib x = Inr j \<Longrightarrow> vl_serde (rl_verify sample_repair_lib) j = Inr x"
  by (auto simp: sample_repair_lib_def split: if_splits)

theorem repair_uploads_source_slice_witness:
  "\<exists>st' out r. repair_single_chunk sample_repair_lib sample_mend_env Disabled sample_candidate sample_manifest {} sample_state
     = ({}, st', Inr out) \<and> mock_stored (en_provider (bst_engine st')) r = Some [6, 7]"
proof -
  from sample_repair_run obtain st' out where
    run: "repair_single_chunk sample_repair_lib sample_mend_env Disabled sample_candidate sample_manifest {} sample_state
      = ({}, st', Inr out)" "rcr_status out = ''success''" by blast
  have lib: "rl_put sample_repair_lib = mock_upload (\<lambda>_. sample_digest)" "vl_sha (rl_verify sample_repair_lib) = (\<lambda>_. sample_digest)"
      "mock_inv (\<lambda>_. sample_digest) (en_provider (bst_engine sample_state))"
    by (simp_all add: sample_repair_lib_def sample_state_def sample_engine_def mock_inv_flags mock_new_inv)
  have src: "cx_open sample_mend_env (rc_cand_source_path sample_candidate) = Inr [1, 2, 3, 4, 5, 6, 7]"
      "cx_read sample_mend_env = slice_read"
      "cx_seek sample_mend_env [1, 2, 3, 4, 5, 6, 7] off = Inr (drop (unat off) [1, 2, 3, 4, 5, 6, 7])" for off
    by (simp_all add: sample_mend_env_def)
  show ?thesis
    using repair_uploads_source_slice [OF run lib src sample_serde] run(1)
    by (auto simp: staged_for_def sample_candidate_def sample_manifest_def chunk_offset_def)
qed

theorem repair_idempotent_witness:
  "\<exists>st' m'. get_manifest unix_platform (\<lambda>j. if j = ''{}'' then Inr sample_replaced else Inl ''e'') (bst_db st') ''m1'' = Inr (Some m')
    \<and> repair_single_chunk sample_repair_lib sample_mend_env Disabled sample_candidate m' {} st'
        = ({}, st', Inr (chunk_result sample_candidate ''skipped_healthy'' None 0 0 None))"
proof -
  from sample_repair_run obtain st' out where
    run: "repair_single_chunk sample_repair_lib sample_mend_env Disabled sample_candidate sample_manifest {} sample_state
      = ({}, st', Inr out)" "rcr_status out = ''success''" by blast
  have alloc: "ures_storage_reference u \<noteq> StorageReference.Pending" if "rl_put sample_repair_lib s req rd = (s', Inr u)" for s req rd s' u
    using that by (auto simp: sample_repair_lib_def dest!: mock_upload_Inr)
  have lib: "vl_platform (rl_verify sample_repair_lib) = unix_platform"
      "vl_serde (rl_verify sample_repair_lib) = (\<lambda>j. if j = ''{}'' then Inr sample_replaced else Inl ''e'')"
      "cx_elapsed_ms sample_mend_env = 0" "manifest_id sample_manifest = ''m1''"
    by (simp_all add: sample_repair_lib_def sample_mend_env_def sample_manifest_def)
  have "\<not> cx_cancel_start sample_mend_env" by (simp add: sample_mend_env_def)
  then have "\<exists>m'. get_manifest (vl_platform (rl_verify sample_repair_lib)) (vl_serde (rl_verify sample_repair_lib)) (bst_db st')
        (manifest_id sample_manifest) = Inr (Some m')
      \<and> repair_single_chunk sample_repair_lib sample_mend_env Disabled sample_candidate m' {} st'
        = ({}, st', Inr (chunk_result sample_candidate ''skipped_healthy'' None 0 (cx_elapsed_ms sample_mend_env) None))"
    by (intro repair_idempotent [OF run]) (use alloc sample_serde in blast)+
  then show ?thesis unfolding lib by blast
qed

definition sample_run_env :: "bytes repair_env" where
  "sample_run_env = \<lparr>rn_verify = sample_verify_env, rn_verify_manifest = (\<lambda>_. sample_verify_env),
     rn_clock = (\<lambda>_. (''0'', ''t'')), rn_stop = (\<lambda>_. False), rn_chunk = (\<lambda>_. sample_mend_env), rn_elapsed_ms = 0\<rparr>"

theorem repair_run_scope_witness:
  "\<exists>src st' res h. repair_snapshot sample_repair_lib src sample_run_env ''p1'' ''s1'' True (RepairEngine_new sample_state {})
      = Some (st', Inr res) \<and> h \<in> set (t_ver_hist (ren_db st')) \<and> ren_active_profiles st' = {}
      \<and> repairs_only (bst_db sample_state) (ren_db st') \<and> bst_engine (ren_backup st') = bst_engine sample_state"
proof -
  let ?src = "\<lparr>sx_exists = (\<lambda>_. True), sx_metadata = (\<lambda>_. Inr (True, 7)), sx_open = (\<lambda>_. None)\<rparr>"
  have "\<exists>st' res h. repair_snapshot sample_repair_lib ?src sample_run_env ''p1'' ''s1'' True (RepairEngine_new sample_state {})
      = Some (st', Inr res) \<and> h \<in> set (t_ver_hist (ren_db st'))"
    by (simp add: repair_snapshot_def guarded_repair_def try_acquire_profile_def RepairEngine_new_def RepairGuard_drop_def
        preview_snapshot_repair_def sample_run_env_def sample_repair_lib_def sample_state_def repair_validate_profile_def
        verify_snapshot_def validate_profile_def validate_snapshot_def ok_or_def get_profile_def
        get_snapshot_def repair_sample_db_def sample_db_rows open_in_memory_def sample_profile_def
        sample_snapshot_def sample_verify_env_def list_versions_by_snapshot_def order_asc_def finish_stamped_def
        persist_history_def record_verification_history_def checked_def has_key_def history_row_def synthesize_result_def
        Let_def)
  then obtain st' res h where run: "repair_snapshot sample_repair_lib ?src sample_run_env ''p1'' ''s1'' True (RepairEngine_new sample_state {})
      = Some (st', Inr res)" "h \<in> set (t_ver_hist (ren_db st'))" by blast
  from repair_run_scope [OF disjI2, OF run(1)] run show ?thesis by (auto simp: RepairEngine_new_def)
qed

definition chunk_issue_sample :: "ident_str \<Rightarrow> VerificationFinding" where
  "chunk_issue_sample c = (meta_issue VerificationSeverity.Critical VerificationIssueCode.ConfirmedMissing ''gone'')\<lparr>vf_chunk_id := Some c\<rparr>"

text \<open>C36. The candidates of a repair are exactly the damaged chunks: resolving the findings succeeds only when none of
  them is a barrier (an ownership violation or a broken manifest), gives one candidate per damaged chunk, each
  for a finding of a repairable kind on a chunk of this manifest, misses no such chunk, and hands back every
  other finding, in order, as ineligible.\<close>

theorem resolve_candidates_exact:
  assumes "resolve_candidates to_json pid sid m source fs [] [] = Inr (cs, is)"
  shows "distinct (map rc_cand_chunk_id cs)
    \<and> rc_cand_chunk_id ` set cs = (cmf_chunk_id \<circ> snd) ` set (damaged m fs)
    \<and> set cs \<subseteq> (\<lambda>(f, c). repair_candidate to_json pid sid m source f c) ` set (damaged m fs)
    \<and> is = filter (\<lambda>f. \<not> (is_issue_repairable (vf_code f) \<and> finding_chunk m f \<noteq> None)) fs
    \<and> filter (\<lambda>f. is_strict_barrier (vf_code f)) fs = []"
  using resolve_candidates_acc [OF assms] by (auto simp: filter_empty_conv)

theorem resolve_candidates_exact_witness:
  "\<exists>c. resolve_candidates (\<lambda>_. Inr ''j'') ''p1'' None sample_manifest ''p''
      [chunk_issue_sample ''c1'', chunk_issue_sample ''c1'', chunk_issue_sample ''c9''] [] []
      = Inr ([c], [chunk_issue_sample ''c9'']) \<and> rc_cand_chunk_id c = ''c1''"
proof -
  have "\<exists>c. resolve_candidates (\<lambda>_. Inr ''j'') ''p1'' None sample_manifest ''p''
      [chunk_issue_sample ''c1'', chunk_issue_sample ''c1'', chunk_issue_sample ''c9''] [] []
      = Inr ([c], [chunk_issue_sample ''c9''])"
    by (simp add: chunk_issue_sample_def meta_issue_def VerificationFinding_new_def is_strict_barrier_def
        is_issue_repairable_def finding_chunk_def sample_manifest_def repair_candidate_def)
  then obtain c where run: "resolve_candidates (\<lambda>_. Inr ''j'') ''p1'' None sample_manifest ''p''
      [chunk_issue_sample ''c1'', chunk_issue_sample ''c1'', chunk_issue_sample ''c9''] [] []
      = Inr ([c], [chunk_issue_sample ''c9''])" by blast
  have "(cmf_chunk_id \<circ> snd) ` set (damaged sample_manifest
      [chunk_issue_sample ''c1'', chunk_issue_sample ''c1'', chunk_issue_sample ''c9'']) = {''c1''}"
    by (simp add: damaged_def chunk_issue_sample_def meta_issue_def VerificationFinding_new_def
        finding_chunk_def sample_manifest_def is_issue_repairable_def)
  then have "rc_cand_chunk_id ` set [c] = {''c1''}" using resolve_candidates_exact [OF run] by argo
  with run show ?thesis by auto
qed

subsection \<open>Faults\<close>

text \<open>In clear, whatever the local file holds at the place of the chunk is staged: the plaintext hash is
  computed and not compared with anything, so a file changed since the backup, with the same size,
  replaces the backed up chunk.\<close>

lemma stage_repair_any_content:
  assumes "cx_read env = slice_read" "\<And>k. \<not> cx_cancel_read env k" "\<And>k. se_write (cx_stage env) k = None"
    "se_open (cx_stage env) = Inr ()" "se_flush (cx_stage env) = Inr ()"
    and "unat (rc_cand_plaintext_size cand) \<le> length data"
  shows "stage_repair lib env Disabled cand data
    = Inr (take (unat (rc_cand_plaintext_size cand)) data, take (unat (rc_cand_plaintext_size cand)) data)"
proof -
  have calm: "cx_cancel_read env = (\<lambda>_. False)" "se_write (cx_stage env) = (\<lambda>_. None)" using assms by auto
  have "read_slice slice_read (\<lambda>_. False) (\<lambda>_. None) n data acc = Inr (acc @ take (n - length acc) data)" for n acc
  proof (induction "n - length acc" arbitrary: data acc rule: less_induct)
    case less
    let ?k = "min (n - length acc) REPAIR_STREAM_BUFFER_SIZE"
    show ?case
    proof (cases "length acc < n \<and> data \<noteq> []")
      case False
      then show ?thesis by (subst read_slice.simps) (auto simp: Let_def slice_read_def)
    next
      case True
      then have "0 < ?k" by (simp add: REPAIR_STREAM_BUFFER_SIZE_def)
      with True have pos: "take ?k data \<noteq> []" by auto
      then have "0 < length (take ?k data)" by blast
      with True have "n - length (acc @ take ?k data) < n - length acc" unfolding length_append by arith
      note IH = less [OF this, of "drop ?k data"]
      have "take ?k data @ take (n - length (acc @ take ?k data)) (drop ?k data) = take (n - length acc) data"
        by (cases "?k \<le> length data") (auto simp: take_add [symmetric] min_def split: if_splits)
      with IH True pos show ?thesis by (subst read_slice.simps) (simp add: Let_def slice_read_def del: take_eq_Nil)
    qed
  qed
  from this [of "unat (rc_cand_plaintext_size cand)" "[]"] assms show ?thesis
    by (simp add: stage_repair_def Let_def calm min_absorb2)
qed

end
