(* ===== verification/Telegram_Provider.thy ===== *)
theory Telegram_Provider
  imports Transfer_Engine
begin

text \<open>
  The storage side of televault-telegram: errors (\<open>error.rs\<close>), references (\<open>reference.rs\<close>), the caption that
  tags a chunk (\<open>contracts.rs\<close>), the mock transport (\<open>transport.rs\<close>) and the provider over a transport
  (\<open>provider.rs\<close>).

  A transport is its state and its methods as functions. \<open>send_document\<close> also returns the bytes it read, which is
  what the hashing reader around the source has seen. None stands for a download that never returns,
  or that breaks the assertion of the provider on the number of bytes written. The message counter of the mock
  transport is unbounded here and a 64-bit integer in the source.
\<close>

subsection \<open>error.rs\<close>

datatype TelegramError =
    Transport string
  | Api int string "u64 option"
  | InvalidReference string
  | RateLimited u64
  | MessageNotFound int int
  | DocumentNotFound int int
  | AuthError string
  | PasswordRequired
  | ChannelSetupFailed string
  | SessionExpired
  | Unauthorized string
  | Io io_error
  | Storage StorageError

definition debug_option_u64 :: "u64 option \<Rightarrow> string" where
  "debug_option_u64 x = (case x of None \<Rightarrow> ''None'' | Some n \<Rightarrow> ''Some('' @ show_nat (unat n) @ '')'')"

fun TelegramError_display :: "TelegramError \<Rightarrow> string" where
  "TelegramError_display (TelegramError.Transport m) = ''Telegram transport error: '' @ m"
| "TelegramError_display (TelegramError.Api code description _) = ''Telegram API error '' @ show_int code @ '': '' @ description"
| "TelegramError_display (TelegramError.InvalidReference m) = ''Invalid Telegram storage reference: '' @ m"
| "TelegramError_display (TelegramError.RateLimited n) = ''Telegram rate limited, retry after '' @ show_nat (unat n) @ ''s''"
| "TelegramError_display (TelegramError.MessageNotFound chat msg) =
     ''Telegram message '' @ show_int msg @ '' not found in chat '' @ show_int chat"
| "TelegramError_display (TelegramError.DocumentNotFound chat msg) =
     ''Telegram message '' @ show_int msg @ '' in chat '' @ show_int chat @ '' does not contain a document''"
| "TelegramError_display (TelegramError.AuthError m) = ''Telegram authentication error: '' @ m"
| "TelegramError_display TelegramError.PasswordRequired = ''Two-step verification password is required''"
| "TelegramError_display (TelegramError.ChannelSetupFailed m) = ''Telegram channel setup failed: '' @ m"
| "TelegramError_display TelegramError.SessionExpired = ''Telegram session has expired or was revoked''"
| "TelegramError_display (TelegramError.Unauthorized m) = ''Unauthorized: '' @ m"
| "TelegramError_display (TelegramError.Io e) = ''I/O error: '' @ io_message e"
| "TelegramError_display (TelegramError.Storage e) = ''Storage error: '' @ StorageError_display e"

fun StorageError_of_TelegramError :: "TelegramError \<Rightarrow> StorageError" where
  "StorageError_of_TelegramError (TelegramError.Storage s) = s"
| "StorageError_of_TelegramError (TelegramError.Io e) = StorageError.Io e"
| "StorageError_of_TelegramError (TelegramError.InvalidReference m) = StorageError.InvalidReference m"
| "StorageError_of_TelegramError (TelegramError.MessageNotFound chat msg) =
     StorageError.NotFound (''Telegram message '' @ show_int msg @ '' not found in chat '' @ show_int chat)"
| "StorageError_of_TelegramError (TelegramError.DocumentNotFound chat msg) =
     StorageError.NotFound (''No document found in message '' @ show_int msg @ '' (chat '' @ show_int chat @ '')'')"
| "StorageError_of_TelegramError (TelegramError.RateLimited n) =
     UploadFailed (''Telegram rate limited (retry after '' @ show_nat (unat n) @ ''s)'') True"
| "StorageError_of_TelegramError (TelegramError.Api code description retry_after) =
     UploadFailed (''Telegram API error '' @ show_int code @ '': '' @ description @ '' (retry_after=''
       @ debug_option_u64 retry_after @ '')'') (code \<ge> 500 \<or> code = 429)"
| "StorageError_of_TelegramError (TelegramError.Transport m) = ProviderUnavailable m"
| "StorageError_of_TelegramError (TelegramError.AuthError m) = UploadFailed m False"
| "StorageError_of_TelegramError (TelegramError.Unauthorized m) = UploadFailed m False"
| "StorageError_of_TelegramError TelegramError.PasswordRequired = UploadFailed ''Two-step verification password required'' False"
| "StorageError_of_TelegramError (TelegramError.ChannelSetupFailed m) = UploadFailed m False"
| "StorageError_of_TelegramError TelegramError.SessionExpired = UploadFailed ''Telegram session expired'' False"

definition TelegramError_to_AppError :: "TelegramError \<Rightarrow> AppError" where
  "TelegramError_to_AppError e = StorageError_to_AppError (StorageError_of_TelegramError e)"

subsection \<open>reference.rs\<close>

record TelegramReference =
  tr_chat_id :: int
  tr_message_id :: int
  tr_file_id :: string

definition TelegramReference_new :: "int \<Rightarrow> int \<Rightarrow> string \<Rightarrow> (TelegramError, TelegramReference) result" where
  "TelegramReference_new chat msg fid =
     (if chat = 0 then Err (TelegramError.InvalidReference ''Telegram chat_id cannot be 0'')
      else if msg \<le> 0 then Err (TelegramError.InvalidReference ''Telegram message_id must be positive'')
      else if trim fid = [] then Err (TelegramError.InvalidReference ''Telegram file_id cannot be empty'')
      else Ok \<lparr>tr_chat_id = chat, tr_message_id = msg, tr_file_id = fid\<rparr>)"

definition to_storage_reference :: "TelegramReference \<Rightarrow> StorageReference" where
  "to_storage_reference r = Telegram (tr_chat_id r) (tr_message_id r) (tr_file_id r)"

fun from_storage_reference :: "StorageReference \<Rightarrow> (TelegramError, TelegramReference) result" where
  "from_storage_reference (Telegram chat msg fid) = TelegramReference_new chat msg fid"
| "from_storage_reference (LocalStaging _) =
     Err (TelegramError.InvalidReference ''Cannot parse local staging reference as Telegram storage coordinate'')"
| "from_storage_reference StorageReference.Pending =
     Err (TelegramError.InvalidReference ''Cannot parse pending reference as Telegram storage coordinate'')"

subsection \<open>contracts.rs\<close>

record TelegramStorageConfig =
  tsc_target_chat_id :: int
  tsc_chunk_upload_timeout_secs :: u64
  tsc_max_retries :: u32

definition TelegramStorageConfig_default :: TelegramStorageConfig where
  "TelegramStorageConfig_default =
     \<lparr>tsc_target_chat_id = 0, tsc_chunk_upload_timeout_secs = 300, tsc_max_retries = 3\<rparr>"

definition TelegramStorageConfig_validate :: "TelegramStorageConfig \<Rightarrow> (TelegramError, unit) result" where
  "TelegramStorageConfig_validate c =
     (if tsc_target_chat_id c = 0 then Err (TelegramError.InvalidReference ''target_chat_id cannot be 0'')
      else if tsc_chunk_upload_timeout_secs c = 0 then
        Err (TelegramError.Transport ''chunk_upload_timeout_secs must be positive'')
      else Ok ())"

record TelegramDocumentMessage =
  tdm_chat_id :: int
  tdm_message_id :: int
  tdm_file_id :: string
  tdm_size_bytes :: u64
  tdm_mime_type :: "string option"
  tdm_file_name :: "string option"
  tdm_caption :: "string option"

record TelegramChunkHeader =
  tch_format_version :: u32
  tch_file_id :: ident_str
  tch_chunk_id :: ident_str
  tch_chunk_index :: u32
  tch_total_chunks :: u32
  tch_size_bytes :: u64

definition to_caption :: "TelegramChunkHeader \<Rightarrow> string" where
  "to_caption h =
     ''TELEVAULT:v='' @ show_nat (unat (tch_format_version h)) @ '':fid='' @ tch_file_id h @ '':cid='' @ tch_chunk_id h
       @ '':cidx='' @ show_nat (unat (tch_chunk_index h)) @ '':tot='' @ show_nat (unat (tch_total_chunks h))
       @ '':sz='' @ show_nat (unat (tch_size_bytes h))"

text \<open>The fields of a caption found so far; the version starts at 1.\<close>

record caption_fields =
  cf_v :: u32
  cf_fid :: "ident_str option"
  cf_cid :: "ident_str option"
  cf_cidx :: "u32 option"
  cf_tot :: "u32 option"
  cf_sz :: "u64 option"

definition no_fields :: caption_fields where
  "no_fields = \<lparr>cf_v = 1, cf_fid = None, cf_cid = None, cf_cidx = None, cf_tot = None, cf_sz = None\<rparr>"

definition strip_prefix :: "string \<Rightarrow> string \<Rightarrow> string option" where
  "strip_prefix p s = (if take (length p) s = p then Some (drop (length p) s) else None)"

definition result_ok :: "('e, 'a) result \<Rightarrow> 'a option" where
  "result_ok r = (case r of Inl _ \<Rightarrow> None | Inr a \<Rightarrow> Some a)"

definition caption_part :: "string \<Rightarrow> caption_fields \<Rightarrow> caption_fields option" where
  "caption_part part f =
     (case strip_prefix ''v='' part of
        Some val \<Rightarrow> map_option (\<lambda>n. f\<lparr>cf_v := of_nat n\<rparr>) (parse_u32 val)
      | None \<Rightarrow> (case strip_prefix ''fid='' part of
        Some val \<Rightarrow> map_option (\<lambda>i. f\<lparr>cf_fid := Some i\<rparr>) (result_ok (id_new ''FileId'' val))
      | None \<Rightarrow> (case strip_prefix ''cid='' part of
        Some val \<Rightarrow> map_option (\<lambda>i. f\<lparr>cf_cid := Some i\<rparr>) (result_ok (id_new ''ChunkId'' val))
      | None \<Rightarrow> (case strip_prefix ''cidx='' part of
        Some val \<Rightarrow> map_option (\<lambda>n. f\<lparr>cf_cidx := Some (of_nat n)\<rparr>) (parse_u32 val)
      | None \<Rightarrow> (case strip_prefix ''tot='' part of
        Some val \<Rightarrow> map_option (\<lambda>n. f\<lparr>cf_tot := Some (of_nat n)\<rparr>) (parse_u32 val)
      | None \<Rightarrow> (case strip_prefix ''sz='' part of
        Some val \<Rightarrow> map_option (\<lambda>n. f\<lparr>cf_sz := Some (of_nat n)\<rparr>) (parse_u64 val)
      | None \<Rightarrow> Some f))))))"

fun caption_parts :: "string list \<Rightarrow> caption_fields \<Rightarrow> caption_fields option" where
  "caption_parts [] f = Some f"
| "caption_parts (p # ps) f = (case caption_part p f of None \<Rightarrow> None | Some f' \<Rightarrow> caption_parts ps f')"

definition parse_caption :: "string \<Rightarrow> TelegramChunkHeader option" where
  "parse_caption caption =
     (let trimmed = trim caption in
      if strip_prefix ''TELEVAULT:'' trimmed = None then None
      else
        let parts = split_on CHR '':'' trimmed in
        if length parts \<noteq> 7 then None
        else case caption_parts (tl parts) no_fields of
          None \<Rightarrow> None
        | Some f \<Rightarrow>
            (case (cf_fid f, cf_cid f, cf_cidx f, cf_tot f, cf_sz f) of
               (Some fid, Some cid, Some cidx, Some tot, Some sz) \<Rightarrow>
                 Some \<lparr>tch_format_version = cf_v f, tch_file_id = fid, tch_chunk_id = cid, tch_chunk_index = cidx,
                       tch_total_chunks = tot, tch_size_bytes = sz\<rparr>
             | _ \<Rightarrow> None))"

subsection \<open>transport.rs\<close>

record TelegramConnectionInfo =
  tci_bot_id :: int
  tci_bot_username :: "string option"
  tci_first_name :: string
  tci_chat_title :: "string option"

record MockTelegramTransport =
  tm_messages :: "int \<times> int \<Rightarrow> (TelegramDocumentMessage \<times> bytes) option"
  tm_next_message_id :: int
  tm_upload_failures :: int
  tm_download_failures :: int
  tm_unreachable :: bool
  tm_rate_limit :: u64

definition MockTelegramTransport_new :: MockTelegramTransport where
  "MockTelegramTransport_new =
     \<lparr>tm_messages = (\<lambda>_. None), tm_next_message_id = 500, tm_upload_failures = 0, tm_download_failures = 0,
      tm_unreachable = False, tm_rate_limit = 0\<rparr>"

definition set_simulated_upload_failures :: "int \<Rightarrow> MockTelegramTransport \<Rightarrow> MockTelegramTransport" where
  "set_simulated_upload_failures n t = t\<lparr>tm_upload_failures := n\<rparr>"

definition set_simulated_download_failures :: "int \<Rightarrow> MockTelegramTransport \<Rightarrow> MockTelegramTransport" where
  "set_simulated_download_failures n t = t\<lparr>tm_download_failures := n\<rparr>"

definition set_simulate_unreachable :: "bool \<Rightarrow> MockTelegramTransport \<Rightarrow> MockTelegramTransport" where
  "set_simulate_unreachable b t = t\<lparr>tm_unreachable := b\<rparr>"

definition set_simulate_rate_limit :: "u64 \<Rightarrow> MockTelegramTransport \<Rightarrow> MockTelegramTransport" where
  "set_simulate_rate_limit n t = t\<lparr>tm_rate_limit := n\<rparr>"

definition corrupt_message ::
  "int \<Rightarrow> int \<Rightarrow> MockTelegramTransport \<Rightarrow> MockTelegramTransport \<times> (TelegramError, unit) result" where
  "corrupt_message chat msg t =
     (case tm_messages t (chat, msg) of
        None \<Rightarrow> (t, Err (TelegramError.MessageNotFound chat msg))
      | Some (doc, []) \<Rightarrow> (t, Err (TelegramError.Transport ''Empty payload cannot be corrupted''))
      | Some (doc, b # bs) \<Rightarrow>
          (t\<lparr>tm_messages := (tm_messages t)((chat, msg) \<mapsto> (doc, Bit_Operations.xor b 0xFF # bs))\<rparr>, Ok ()))"

definition unreachable_error :: TelegramError where
  "unreachable_error = TelegramError.Transport ''Simulated network timeout: Telegram service unreachable''"

definition mock_test_connection :: "MockTelegramTransport \<Rightarrow> int \<Rightarrow> (TelegramError, TelegramConnectionInfo) result" where
  "mock_test_connection t chat =
     (if tm_unreachable t then Err unreachable_error
      else if chat = 0 then Err (TelegramError.InvalidReference ''Target chat ID cannot be 0'')
      else Ok \<lparr>tci_bot_id = 123456789, tci_bot_username = Some ''TeleVaultMockBot'',
               tci_first_name = ''TELEVAULT Mock Bot'',
               tci_chat_title = Some (''Vault Channel ('' @ show_int chat @ '')'')\<rparr>)"

definition mock_send_document ::
  "MockTelegramTransport \<Rightarrow> int \<Rightarrow> string \<Rightarrow> string \<Rightarrow> reader
     \<Rightarrow> MockTelegramTransport \<times> (TelegramError, TelegramDocumentMessage \<times> bytes) result" where
  "mock_send_document t chat caption file_name rd =
     (if tm_unreachable t then (t, Err unreachable_error)
      else
        let t1 = t\<lparr>tm_rate_limit := 0\<rparr> in
        if tm_rate_limit t > 0 then (t1, Err (TelegramError.RateLimited (tm_rate_limit t)))
        else if tm_upload_failures t1 > 0 then
          (t1\<lparr>tm_upload_failures := tm_upload_failures t1 - 1\<rparr>,
           Err (TelegramError.Transport ''Simulated upload network interruption (connection reset)''))
        else case read_loop rd [] of
          Inl e \<Rightarrow> (t1, Err (TelegramError.Io e))
        | Inr bs \<Rightarrow>
            let msg = tm_next_message_id t1;
                doc = \<lparr>tdm_chat_id = chat, tdm_message_id = msg, tdm_file_id = ''BAADBAAD_file_'' @ show_int msg,
                       tdm_size_bytes = of_nat (length bs), tdm_mime_type = Some ''application/octet-stream'',
                       tdm_file_name = Some file_name, tdm_caption = Some caption\<rparr>
            in (t1\<lparr>tm_next_message_id := msg + 1, tm_messages := (tm_messages t1)((chat, msg) \<mapsto> (doc, bs))\<rparr>,
                Ok (doc, bs)))"

definition mock_get_document_stream ::
  "MockTelegramTransport \<Rightarrow> int \<Rightarrow> int \<Rightarrow> string \<Rightarrow> 'w write_fn \<Rightarrow> 'w
     \<Rightarrow> (MockTelegramTransport \<times> 'w \<times> (TelegramError, u64) result) option" where
  "mock_get_document_stream t chat msg fid wr w =
     (if tm_unreachable t then Some (t, w, Err unreachable_error)
      else if tm_download_failures t > 0 then
        Some (t\<lparr>tm_download_failures := tm_download_failures t - 1\<rparr>, w,
              Err (TelegramError.Transport ''Simulated download network interruption (peer closed stream)''))
      else case tm_messages t (chat, msg) of
        None \<Rightarrow> Some (t, w, Err (TelegramError.MessageNotFound chat msg))
      | Some (doc, bs) \<Rightarrow>
          map_option (\<lambda>(w', r). (t, w', bind_res (map_err TelegramError.Io r) (\<lambda>_. Ok (of_nat (length bs)))))
            (write_blocks wr w (chunks_of STREAM_CHUNK_BUFFER_SIZE bs)))"

definition mock_get_message_metadata ::
  "MockTelegramTransport \<Rightarrow> int \<Rightarrow> int \<Rightarrow> string \<Rightarrow> (TelegramError, TelegramDocumentMessage) result" where
  "mock_get_message_metadata t chat msg fid =
     (if tm_unreachable t then Err unreachable_error
      else map_err (\<lambda>_. TelegramError.MessageNotFound chat msg) (map_sum id fst (ok_or () (tm_messages t (chat, msg)))))"

definition mock_delete_message ::
  "MockTelegramTransport \<Rightarrow> int \<Rightarrow> int \<Rightarrow> MockTelegramTransport \<times> (TelegramError, unit) result" where
  "mock_delete_message t chat msg =
     (if tm_unreachable t then (t, Err unreachable_error)
      else (t\<lparr>tm_messages := (tm_messages t)((chat, msg) := None)\<rparr>, Ok ()))"

subsection \<open>provider.rs\<close>

record 't TelegramStorageProvider =
  tsp_transport :: 't
  tsp_config :: TelegramStorageConfig

record 'w HashingWriter =
  hwt_inner :: 'w
  hwt_fed :: bytes
  hwt_total_bytes :: u64

definition HashingWriter_new :: "'w \<Rightarrow> 'w HashingWriter" where
  "HashingWriter_new w = \<lparr>hwt_inner = w, hwt_fed = [], hwt_total_bytes = 0\<rparr>"

definition HashingWriter_write :: "'w write_fn \<Rightarrow> 'w HashingWriter write_fn" where
  "HashingWriter_write wr w buf =
     (case wr (hwt_inner w) buf of
        (i, Inl e) \<Rightarrow> (w\<lparr>hwt_inner := i\<rparr>, Inl e)
      | (i, Inr n) \<Rightarrow>
          (w\<lparr>hwt_inner := i, hwt_fed := hwt_fed w @ take n buf, hwt_total_bytes := hwt_total_bytes w + of_nat n\<rparr>, Inr n))"

definition sink_write :: "unit write_fn" where
  "sink_write w buf = ((), Inr (length buf))"

type_synonym 't send_fn = "'t \<Rightarrow> int \<Rightarrow> string \<Rightarrow> string \<Rightarrow> reader
  \<Rightarrow> 't \<times> (TelegramError, TelegramDocumentMessage \<times> bytes) result"
type_synonym ('t, 'w) stream_fn = "'t \<Rightarrow> int \<Rightarrow> int \<Rightarrow> string \<Rightarrow> 'w write_fn \<Rightarrow> 'w
  \<Rightarrow> ('t \<times> 'w \<times> (TelegramError, u64) result) option"
type_synonym 't info_fn = "'t \<Rightarrow> int \<Rightarrow> int \<Rightarrow> string \<Rightarrow> (TelegramError, TelegramDocumentMessage) result"

definition provider_test_connection ::
  "('t \<Rightarrow> int \<Rightarrow> (TelegramError, TelegramConnectionInfo) result) \<Rightarrow> 't TelegramStorageProvider
     \<Rightarrow> (StorageError, TelegramConnectionInfo) result" where
  "provider_test_connection test p =
     map_err StorageError_of_TelegramError (test (tsp_transport p) (tsc_target_chat_id (tsp_config p)))"

definition chunk_header :: "UploadRequest \<Rightarrow> TelegramChunkHeader" where
  "chunk_header req =
     \<lparr>tch_format_version = 1, tch_file_id = ur_file_id req, tch_chunk_id = ur_chunk_id req,
      tch_chunk_index = ur_chunk_index req, tch_total_chunks = ur_total_chunks req,
      tch_size_bytes = ur_expected_size_bytes req\<rparr>"

definition tg_upload ::
  "(bytes \<Rightarrow> string) \<Rightarrow> 't send_fn \<Rightarrow> 't TelegramStorageProvider \<Rightarrow> UploadRequest \<Rightarrow> reader
     \<Rightarrow> 't TelegramStorageProvider \<times> (StorageError, UploadResult) result" where
  "tg_upload sha send p req rd =
     (case send (tsp_transport p) (tsc_target_chat_id (tsp_config p)) (to_caption (chunk_header req))
             (ur_file_id req @ ''_'' @ show_nat (unat (ur_chunk_index req)) @ ''.chunk'') rd of
        (t', Inl e) \<Rightarrow> (p\<lparr>tsp_transport := t'\<rparr>, Err (StorageError_of_TelegramError e))
      | (t', Inr (doc, data)) \<Rightarrow>
          let bytes_read = of_nat (length data); calculated = sha data in
          (p\<lparr>tsp_transport := t'\<rparr>,
           if ur_expected_size_bytes req > 0 \<and> bytes_read \<noteq> ur_expected_size_bytes req then
             Err (UploadFailed (''Uploaded bytes mismatch: read '' @ show_nat (unat bytes_read) @ '', expected ''
               @ show_nat (unat (ur_expected_size_bytes req))) False)
           else if (case ur_expected_sha256 req of Some h \<Rightarrow> \<not> eq_ignore_ascii_case calculated h | None \<Rightarrow> False) then
             Err (StorageError.VerificationFailed (''Upload SHA-256 mismatch: calculated '' @ [CHR 0x27] @ calculated
               @ [CHR 0x27] @ '', expected '' @ [CHR 0x27] @ the (ur_expected_sha256 req) @ [CHR 0x27]))
           else
             bind_res (map_err StorageError_of_TelegramError
               (TelegramReference_new (tdm_chat_id doc) (tdm_message_id doc) (tdm_file_id doc))) (\<lambda>r.
             Ok \<lparr>ures_storage_reference = to_storage_reference r, ures_bytes_uploaded = bytes_read,
                 ures_verified_sha256 = Some calculated, ures_remote_status = StorageStatus.Verified\<rparr>)))"

definition tg_download ::
  "(bytes \<Rightarrow> string) \<Rightarrow> ('t, 'w HashingWriter) stream_fn \<Rightarrow> 't TelegramStorageProvider \<Rightarrow> DownloadRequest \<Rightarrow> 'w write_fn \<Rightarrow> 'w
     \<Rightarrow> ('t TelegramStorageProvider \<times> 'w \<times> (StorageError, DownloadResult) result) option" where
  "tg_download sha stream p req wr w =
     (case from_storage_reference (dr_storage_reference req) of
        Inl e \<Rightarrow> Some (p, w, Err (StorageError_of_TelegramError e))
      | Inr r \<Rightarrow>
          (case stream (tsp_transport p) (tr_chat_id r) (tr_message_id r) (tr_file_id r) (HashingWriter_write wr)
                  (HashingWriter_new w) of
             None \<Rightarrow> None
           | Some (t', hw, Inl e) \<Rightarrow> Some (p\<lparr>tsp_transport := t'\<rparr>, hwt_inner hw, Err (StorageError_of_TelegramError e))
           | Some (t', hw, Inr n) \<Rightarrow>
               if n \<noteq> hwt_total_bytes hw then None
               else
                 let calculated = sha (hwt_fed hw) in
                 Some (p\<lparr>tsp_transport := t'\<rparr>, hwt_inner hw,
                   if dr_expected_size_bytes req > 0 \<and> n \<noteq> dr_expected_size_bytes req then
                     Err (DownloadFailed (''Downloaded size mismatch: received '' @ show_nat (unat n) @ '', expected ''
                       @ show_nat (unat (dr_expected_size_bytes req))) False)
                   else if (case dr_expected_sha256 req of Some h \<Rightarrow> \<not> eq_ignore_ascii_case calculated h | None \<Rightarrow> False) then
                     Err (StorageError.VerificationFailed (''Download SHA-256 mismatch: calculated '' @ [CHR 0x27] @ calculated
                       @ [CHR 0x27] @ '', expected '' @ [CHR 0x27] @ the (dr_expected_sha256 req) @ [CHR 0x27]))
                   else Ok \<lparr>dres_bytes_downloaded = n, dres_verified_sha256 = Some calculated\<rparr>)))"

definition tg_verify ::
  "(bytes \<Rightarrow> string) \<Rightarrow> 't info_fn \<Rightarrow> ('t, unit HashingWriter) stream_fn \<Rightarrow> 't TelegramStorageProvider
     \<Rightarrow> VerificationRequest \<Rightarrow> ('t TelegramStorageProvider \<times> (StorageError, bool) result) option" where
  "tg_verify sha info stream p req =
     (case from_storage_reference (vr_storage_reference req) of
        Inl _ \<Rightarrow> Some (p, Ok False)
      | Inr r \<Rightarrow>
          (case info (tsp_transport p) (tr_chat_id r) (tr_message_id r) (tr_file_id r) of
             Inl (TelegramError.MessageNotFound _ _) \<Rightarrow> Some (p, Ok False)
           | Inl (TelegramError.DocumentNotFound _ _) \<Rightarrow> Some (p, Ok False)
           | Inl e \<Rightarrow> Some (p, Err (StorageError_of_TelegramError e))
           | Inr doc \<Rightarrow>
               if vr_expected_size_bytes req > 0 \<and> tdm_size_bytes doc \<noteq> vr_expected_size_bytes req then Some (p, Ok False)
               else case vr_expected_sha256 req of
                 None \<Rightarrow> Some (p, Ok True)
               | Some h \<Rightarrow>
                   (case stream (tsp_transport p) (tr_chat_id r) (tr_message_id r) (tr_file_id r)
                           (HashingWriter_write sink_write) (HashingWriter_new ()) of
                      None \<Rightarrow> None
                    | Some (t', hw, Inl _) \<Rightarrow> Some (p\<lparr>tsp_transport := t'\<rparr>, Ok False)
                    | Some (t', hw, Inr _) \<Rightarrow>
                        Some (p\<lparr>tsp_transport := t'\<rparr>, Ok (eq_ignore_ascii_case (sha (hwt_fed hw)) h)))))"

definition tg_get_metadata ::
  "'t info_fn \<Rightarrow> 't TelegramStorageProvider \<Rightarrow> StorageReference \<Rightarrow> (StorageError, RemoteObjectMetadata) result" where
  "tg_get_metadata info p ref =
     bind_res (map_err StorageError_of_TelegramError (from_storage_reference ref)) (\<lambda>r.
     bind_res (map_err StorageError_of_TelegramError
       (info (tsp_transport p) (tr_chat_id r) (tr_message_id r) (tr_file_id r))) (\<lambda>doc.
     Ok \<lparr>rom_remote_id = show_int (tdm_chat_id doc) @ '':'' @ show_int (tdm_message_id doc),
         rom_size_bytes = tdm_size_bytes doc, rom_sha256_hash = None, rom_storage_reference = ref,
         rom_created_at = None\<rparr>))"

definition tg_delete ::
  "('t \<Rightarrow> int \<Rightarrow> int \<Rightarrow> 't \<times> (TelegramError, unit) result) \<Rightarrow> 't TelegramStorageProvider \<Rightarrow> StorageReference
     \<Rightarrow> 't TelegramStorageProvider \<times> (StorageError, unit) result" where
  "tg_delete del p ref =
     (case from_storage_reference ref of
        Inl e \<Rightarrow> (p, Err (StorageError_of_TelegramError e))
      | Inr r \<Rightarrow>
          let (t', res) = del (tsp_transport p) (tr_chat_id r) (tr_message_id r)
          in (p\<lparr>tsp_transport := t'\<rparr>, map_err StorageError_of_TelegramError res))"

subsection \<open>Captions\<close>

lemma caption_part_simps:
  "caption_part (''v='' @ x) f = map_option (\<lambda>n. f\<lparr>cf_v := of_nat n\<rparr>) (parse_u32 x)"
  "caption_part (''fid='' @ x) f = map_option (\<lambda>i. f\<lparr>cf_fid := Some i\<rparr>) (result_ok (id_new ''FileId'' x))"
  "caption_part (''cid='' @ x) f = map_option (\<lambda>i. f\<lparr>cf_cid := Some i\<rparr>) (result_ok (id_new ''ChunkId'' x))"
  "caption_part (''cidx='' @ x) f = map_option (\<lambda>n. f\<lparr>cf_cidx := Some (of_nat n)\<rparr>) (parse_u32 x)"
  "caption_part (''tot='' @ x) f = map_option (\<lambda>n. f\<lparr>cf_tot := Some (of_nat n)\<rparr>) (parse_u32 x)"
  "caption_part (''sz='' @ x) f = map_option (\<lambda>n. f\<lparr>cf_sz := Some (of_nat n)\<rparr>) (parse_u64 x)"
  by (simp_all add: caption_part_def strip_prefix_def)

lemma parse_u32_show: "parse_u32 (show_nat (unat (n :: u32))) = Some (unat n)"
  unfolding parse_u32_def by (rule parse_unsigned_show_nat) (simp add: less_Suc_eq_le [symmetric])

lemma parse_u64_show: "parse_u64 (show_nat (unat (n :: u64))) = Some (unat n)"
  unfolding parse_u64_def by (rule parse_unsigned_show_nat) (simp add: less_Suc_eq_le [symmetric])

lemma plain_no_colon: "plain_id s \<Longrightarrow> CHR '':'' \<notin> set s"
  by (auto simp: plain_id_def is_ascii_alphanumeric_def is_ascii_digit_def)

lemma plain_id_trimmed:
  "\<lbrakk>id_new entity s = Inr s; trim s = s\<rbrakk> \<Longrightarrow> plain_id s"
  by (simp add: id_new_ok_iff validate_identifier_string_ok_iff plain_id_def)

text \<open>The six tagged fields of a caption, without the leading mark.\<close>

definition caption_tags :: "TelegramChunkHeader \<Rightarrow> string list" where
  "caption_tags h =
     [''v='' @ show_nat (unat (tch_format_version h)), ''fid='' @ tch_file_id h, ''cid='' @ tch_chunk_id h,
      ''cidx='' @ show_nat (unat (tch_chunk_index h)), ''tot='' @ show_nat (unat (tch_total_chunks h)),
      ''sz='' @ show_nat (unat (tch_size_bytes h))]"

lemma split_caption:
  assumes "plain_id (tch_file_id h)" "plain_id (tch_chunk_id h)"
  shows "split_on CHR '':'' (to_caption h) = ''TELEVAULT'' # caption_tags h"
proof -
  have cut: "split_on CHR '':'' (a @ b @ CHR '':'' # t) = (a @ b) # split_on CHR '':'' t"
    if "CHR '':'' \<notin> set a" "CHR '':'' \<notin> set b" for a b t
    using split_on_append [of "CHR '':''" "a @ b" t] that by simp
  have num: "CHR '':'' \<notin> set (show_nat n)" for n by (rule plain_no_colon) simp
  have caption: "to_caption h = ''TELEVAULT'' @ '':'' @ ''v='' @ show_nat (unat (tch_format_version h)) @ CHR '':'' #
      ''fid='' @ tch_file_id h @ CHR '':'' # ''cid='' @ tch_chunk_id h @ CHR '':'' #
      ''cidx='' @ show_nat (unat (tch_chunk_index h)) @ CHR '':'' #
      ''tot='' @ show_nat (unat (tch_total_chunks h)) @ CHR '':'' # ''sz='' @ show_nat (unat (tch_size_bytes h))"
    by (simp add: to_caption_def)
  have last_part: "split_on CHR '':'' (''sz='' @ show_nat n) = [''sz='' @ show_nat n]" for n
    by (rule split_on_no_delim) (simp add: num)
  have first: "split_on CHR '':'' (''TELEVAULT'' @ '':'' @ t) = ''TELEVAULT'' # split_on CHR '':'' t" for t
    using split_on_append [of "CHR '':''" "''TELEVAULT''" t] by simp
  show ?thesis
    unfolding caption first caption_tags_def
    by (subst cut, simp, (simp add: num plain_no_colon assms; fail))+ (subst last_part, rule refl)
qed

lemma trim_caption:
  assumes "plain_id (tch_file_id h)" "plain_id (tch_chunk_id h)"
  shows "trim (to_caption h) = to_caption h"
proof (rule trim_ascii, rule ballI)
  fix c
  assume "c \<in> set (to_caption h)"
  then consider "is_ascii_alphanumeric c \<or> c = CHR ''-'' \<or> c = CHR ''_''" | "c = CHR '':''" | "c = CHR ''=''"
    using assms plain_id_show_nat
    by (auto simp: to_caption_def plain_id_def is_ascii_alphanumeric_def is_ascii_digit_def)
  then show "byte_of c < 128 \<and> \<not> is_ws [c]"
    using plain_char by cases (auto simp: is_ws_def ws_chars_def)
qed

text \<open>The caption that tags an uploaded chunk reads back to the header it was made of, for identifiers the
  constructors accept and that have no white space around them.\<close>

theorem caption_roundtrip:
  assumes "id_new ''FileId'' (tch_file_id h) = Inr (tch_file_id h)" "trim (tch_file_id h) = tch_file_id h"
    and "id_new ''ChunkId'' (tch_chunk_id h) = Inr (tch_chunk_id h)" "trim (tch_chunk_id h) = tch_chunk_id h"
  shows "parse_caption (to_caption h) = Some h"
proof -
  have plain: "plain_id (tch_file_id h)" "plain_id (tch_chunk_id h)"
    using assms by (blast intro: plain_id_trimmed)+
  have "strip_prefix ''TELEVAULT:'' (to_caption h) \<noteq> None"
    by (simp add: strip_prefix_def to_caption_def)
  moreover have "caption_parts (caption_tags h) no_fields = Some \<lparr>cf_v = tch_format_version h,
      cf_fid = Some (tch_file_id h), cf_cid = Some (tch_chunk_id h), cf_cidx = Some (tch_chunk_index h),
      cf_tot = Some (tch_total_chunks h), cf_sz = Some (tch_size_bytes h)\<rparr>"
    unfolding caption_tags_def
    by (simp only: caption_parts.simps caption_part_simps parse_u32_show parse_u64_show assms(1,3) result_ok_def
        sum.case option.map option.case)
      (simp add: no_fields_def)
  ultimately show ?thesis
    by (simp add: parse_caption_def trim_caption [OF plain] split_caption [OF plain] Let_def)
      (simp add: caption_tags_def)
qed

definition sample_header :: TelegramChunkHeader where
  "sample_header = \<lparr>tch_format_version = 1, tch_file_id = ''file-7'', tch_chunk_id = ''file-7-chk-0'', tch_chunk_index = 0,
     tch_total_chunks = 2, tch_size_bytes = 4096\<rparr>"

theorem caption_roundtrip_witness: "parse_caption (to_caption sample_header) = Some sample_header"
proof (rule caption_roundtrip)
  have plain: "plain_id ''file-7''" "plain_id ''file-7-chk-0''"
    by (simp_all add: plain_id_def is_ascii_alphanumeric_def is_ascii_digit_def)
  show "id_new ''FileId'' (tch_file_id sample_header) = Inr (tch_file_id sample_header)"
    "id_new ''ChunkId'' (tch_chunk_id sample_header) = Inr (tch_chunk_id sample_header)"
    "trim (tch_file_id sample_header) = tch_file_id sample_header"
    "trim (tch_chunk_id sample_header) = tch_chunk_id sample_header"
    using plain by (simp_all add: sample_header_def id_new_plain trim_plain)
qed

subsection \<open>The provider over the mock transport keeps the contract\<close>

lemma write_all_hashing:
  "write_all (HashingWriter_write vec_write) w buf =
     Some (w\<lparr>hwt_inner := hwt_inner w @ buf, hwt_fed := hwt_fed w @ buf,
             hwt_total_bytes := hwt_total_bytes w + of_nat (length buf)\<rparr>, Inr ())"
  by (subst write_all.simps) (simp add: HashingWriter_write_def vec_write_def write_all.simps)

lemma write_blocks_hashing:
  "write_blocks (HashingWriter_write vec_write) w bs =
     Some (w\<lparr>hwt_inner := hwt_inner w @ concat bs, hwt_fed := hwt_fed w @ concat bs,
             hwt_total_bytes := hwt_total_bytes w + of_nat (length (concat bs))\<rparr>, Inr ())"
  by (induction bs arbitrary: w) (simp_all add: write_all_hashing algebra_simps)

lemma write_all_hashing_sink:
  "write_all (HashingWriter_write sink_write) w buf =
     Some (w\<lparr>hwt_fed := hwt_fed w @ buf, hwt_total_bytes := hwt_total_bytes w + of_nat (length buf)\<rparr>, Inr ())"
  by (subst write_all.simps) (simp add: HashingWriter_write_def sink_write_def write_all.simps)

lemma write_blocks_hashing_sink:
  "write_blocks (HashingWriter_write sink_write) w bs =
     Some (w\<lparr>hwt_fed := hwt_fed w @ concat bs,
             hwt_total_bytes := hwt_total_bytes w + of_nat (length (concat bs))\<rparr>, Inr ())"
  by (induction bs arbitrary: w) (simp_all add: write_all_hashing_sink algebra_simps)

lemmas stream_blocks = concat_chunks_of STREAM_CHUNK_BUFFER_SIZE_def

definition tg_stored :: "MockTelegramTransport TelegramStorageProvider \<Rightarrow> StorageReference \<Rightarrow> bytes option" where
  "tg_stored p ref =
     (case from_storage_reference ref of
        Inl _ \<Rightarrow> None
      | Inr r \<Rightarrow> map_option snd (tm_messages (tsp_transport p) (tr_chat_id r, tr_message_id r)))"

definition tg_inv :: "MockTelegramTransport TelegramStorageProvider \<Rightarrow> bool" where
  "tg_inv p \<longleftrightarrow>
     (\<forall>chat. \<forall>m \<ge> tm_next_message_id (tsp_transport p). tm_messages (tsp_transport p) (chat, m) = None)
     \<and> (\<forall>key doc bs. tm_messages (tsp_transport p) key = Some (doc, bs) \<longrightarrow> tdm_size_bytes doc = of_nat (length bs))"

definition tg_up :: "MockTelegramTransport TelegramStorageProvider \<Rightarrow> bool" where
  "tg_up p \<longleftrightarrow> \<not> tm_unreachable (tsp_transport p) \<and> tm_download_failures (tsp_transport p) \<le> 0"

definition tg_get ::
  "(bytes \<Rightarrow> string) \<Rightarrow> MockTelegramTransport TelegramStorageProvider \<Rightarrow> DownloadRequest \<Rightarrow> bytes write_fn \<Rightarrow> bytes
     \<Rightarrow> (bytes \<times> (StorageError, DownloadResult) result) option" where
  "tg_get sha p d wr w = map_option snd (tg_download sha mock_get_document_stream p d wr w)"

text \<open>The check the transfer engine makes. What it changes in the transport, a count of failures to come, is dropped: nothing
  while the transport is up.\<close>

definition tg_check ::
  "(bytes \<Rightarrow> string) \<Rightarrow> MockTelegramTransport TelegramStorageProvider \<Rightarrow> VerificationRequest \<Rightarrow> (StorageError, bool) result" where
  "tg_check sha p v = snd (the (tg_verify sha mock_get_message_metadata mock_get_document_stream p v))"

lemma mock_stream_pure:
  "\<lbrakk>\<not> tm_unreachable t; tm_download_failures t \<le> 0; tm_messages t (chat, msg) = Some (doc, bs)\<rbrakk> \<Longrightarrow>
     mock_get_document_stream t chat msg fid (HashingWriter_write vec_write) (HashingWriter_new w) =
       Some (t, \<lparr>hwt_inner = w @ bs, hwt_fed = bs, hwt_total_bytes = of_nat (length bs)\<rparr>, Inr (of_nat (length bs)))"
  "\<lbrakk>\<not> tm_unreachable t; tm_download_failures t \<le> 0; tm_messages t (chat, msg) = Some (doc, bs)\<rbrakk> \<Longrightarrow>
     mock_get_document_stream t chat msg fid (HashingWriter_write sink_write) (HashingWriter_new ()) =
       Some (t, \<lparr>hwt_inner = (), hwt_fed = bs, hwt_total_bytes = of_nat (length bs)\<rparr>, Inr (of_nat (length bs)))"
  by (simp_all add: mock_get_document_stream_def write_blocks_hashing write_blocks_hashing_sink stream_blocks
      HashingWriter_new_def)

lemma mock_stream_sink:
  "\<exists>t' hw res. mock_get_document_stream t chat msg fid (HashingWriter_write sink_write) (HashingWriter_new ()) =
     Some (t', hw, res)
   \<and> (\<forall>n. res = Inr n \<longrightarrow> (\<exists>doc. tm_messages t (chat, msg) = Some (doc, hwt_fed hw)))"
  by (auto simp: mock_get_document_stream_def write_blocks_hashing_sink stream_blocks HashingWriter_new_def
      split: option.splits)

lemma tg_get_stored:
  assumes "tg_up p" "tg_stored p (dr_storage_reference d) = Some bs"
    and "dr_expected_size_bytes d > 0 \<longrightarrow> dr_expected_size_bytes d = of_nat (length bs)"
    and "case dr_expected_sha256 d of None \<Rightarrow> True | Some h \<Rightarrow> eq_ignore_ascii_case (sha bs) h"
  shows "tg_get sha p d vec_write w =
    Some (w @ bs, Inr \<lparr>dres_bytes_downloaded = of_nat (length bs), dres_verified_sha256 = Some (sha bs)\<rparr>)"
proof -
  obtain r doc where r: "from_storage_reference (dr_storage_reference d) = Inr r"
    "tm_messages (tsp_transport p) (tr_chat_id r, tr_message_id r) = Some (doc, bs)"
    using assms(2) by (auto simp: tg_stored_def split: sum.splits)
  show ?thesis
    using assms(1,3,4) r
    by (simp add: tg_get_def tg_download_def tg_up_def mock_stream_pure(1) [OF _ _ r(2)] Let_def split: option.splits)
qed

lemma tg_check_stored:
  assumes "tg_inv p" "tg_stored p (vr_storage_reference v) = Some bs" "tg_check sha p v = Inr True"
  shows "(vr_expected_size_bytes v > 0 \<longrightarrow> of_nat (length bs) = vr_expected_size_bytes v)
    \<and> (\<forall>h. vr_expected_sha256 v = Some h \<longrightarrow> eq_ignore_ascii_case (sha bs) h)"
proof -
  obtain r doc where r: "from_storage_reference (vr_storage_reference v) = Inr r"
    "tm_messages (tsp_transport p) (tr_chat_id r, tr_message_id r) = Some (doc, bs)"
    using assms(2) by (auto simp: tg_stored_def split: sum.splits)
  have sz: "tdm_size_bytes doc = of_nat (length bs)" using assms(1) r(2) unfolding tg_inv_def by blast
  obtain t' hw res where st: "mock_get_document_stream (tsp_transport p) (tr_chat_id r) (tr_message_id r) (tr_file_id r)
      (HashingWriter_write sink_write) (HashingWriter_new ()) = Some (t', hw, res)"
    "\<forall>n. res = Inr n \<longrightarrow> hwt_fed hw = bs"
    using mock_stream_sink [of "tsp_transport p" "tr_chat_id r" "tr_message_id r" "tr_file_id r"] r(2) by auto
  show ?thesis
    using assms(3) r sz st
    by (cases "vr_expected_sha256 v"; cases res)
      (auto simp: tg_check_def tg_verify_def mock_get_message_metadata_def unreachable_error_def split: if_splits)
qed

lemma tg_verify_pure:
  assumes "tg_up p"
  shows "tg_verify sha mock_get_message_metadata mock_get_document_stream p v = Some (p, tg_check sha p v)"
proof (cases "from_storage_reference (vr_storage_reference v)")
  case (Inr r)
  then show ?thesis
    using assms
    by (cases "tm_messages (tsp_transport p) (tr_chat_id r, tr_message_id r)"; cases "vr_expected_sha256 v")
      (auto simp: tg_check_def tg_verify_def tg_up_def mock_get_message_metadata_def mock_stream_pure(2))
qed (simp add: tg_check_def tg_verify_def)

lemma mock_send_document_cases:
  assumes "mock_send_document t chat caption name rd = (t', out)"
  shows "(\<exists>e. out = Inl e \<and> tm_messages t' = tm_messages t \<and> tm_next_message_id t' = tm_next_message_id t)
    \<or> (\<exists>doc bs. out = Inr (doc, bs) \<and> read_loop rd [] = Inr bs
        \<and> tdm_chat_id doc = chat \<and> tdm_message_id doc = tm_next_message_id t \<and> tdm_size_bytes doc = of_nat (length bs)
        \<and> tm_messages t' = (tm_messages t)((chat, tm_next_message_id t) \<mapsto> (doc, bs))
        \<and> tm_next_message_id t' = tm_next_message_id t + 1)"
  using assms by (auto simp: mock_send_document_def Let_def split: if_splits sum.splits)

lemma mock_send_document_flags:
  "mock_send_document t chat caption name rd = (t', out) \<Longrightarrow>
     tm_unreachable t' = tm_unreachable t \<and> tm_download_failures t' = tm_download_failures t"
  by (auto simp: mock_send_document_def Let_def split: if_splits sum.splits)

text \<open>What \<open>send_document\<close> is called with.\<close>

definition send_upload ::
  "'t send_fn \<Rightarrow> 't TelegramStorageProvider \<Rightarrow> UploadRequest \<Rightarrow> reader
     \<Rightarrow> 't \<times> (TelegramError, TelegramDocumentMessage \<times> bytes) result" where
  "send_upload send p req rd = send (tsp_transport p) (tsc_target_chat_id (tsp_config p)) (to_caption (chunk_header req))
     (ur_file_id req @ ''_'' @ show_nat (unat (ur_chunk_index req)) @ ''.chunk'') rd"

lemma tg_upload_transport:
  "tg_upload sha send p req rd = (p', out) \<Longrightarrow> p' = p\<lparr>tsp_transport := fst (send_upload send p req rd)\<rparr>"
  by (auto simp: tg_upload_def send_upload_def Let_def split: prod.splits sum.splits)

lemma tg_upload_Inr:
  assumes "tg_upload sha send p req rd = (p', Inr res)"
  obtains doc bs where "snd (send_upload send p req rd) = Inr (doc, bs)"
    and "from_storage_reference (ures_storage_reference res)
       = Inr \<lparr>tr_chat_id = tdm_chat_id doc, tr_message_id = tdm_message_id doc, tr_file_id = tdm_file_id doc\<rparr>"
    and "ures_bytes_uploaded res = of_nat (length bs)" "ures_verified_sha256 res = Some (sha bs)"
  using assms
  by (auto simp: tg_upload_def send_upload_def Let_def bind_res_Inr_iff TelegramReference_new_def to_storage_reference_def
      split: prod.splits sum.splits if_splits option.splits)

lemma tg_upload_accepts:
  assumes "tg_upload sha send p req rd = (p', Inr res)" "snd (send_upload send p req rd) = Inr (doc, bs)"
  shows "(ur_expected_size_bytes req > 0 \<longrightarrow> of_nat (length bs) = ur_expected_size_bytes req)
    \<and> (\<forall>h. ur_expected_sha256 req = Some h \<longrightarrow> eq_ignore_ascii_case (sha bs) h)"
proof -
  obtain t' where "send_upload send p req rd = (t', Inr (doc, bs))" using assms(2) by (metis prod.collapse)
  then show ?thesis
    using assms(1) by (auto simp: tg_upload_def send_upload_def Let_def split: if_splits option.splits)
qed

lemma tg_upload_inv:
  assumes "tg_inv p" "tg_upload sha mock_send_document p req rd = (p', out)"
  shows "tg_inv p'"
proof -
  obtain t' sent where t': "send_upload mock_send_document p req rd = (t', sent)" by fastforce
  have p': "p' = p\<lparr>tsp_transport := t'\<rparr>" using tg_upload_transport [OF assms(2)] t' by simp
  from mock_send_document_cases [OF t' [unfolded send_upload_def]] show ?thesis
    using assms(1) by (elim disjE exE conjE) (auto simp: p' tg_inv_def)
qed

lemma tg_upload_keeps:
  assumes "tg_inv p" "tg_upload sha mock_send_document p req rd = (p', out)" "tg_stored p r = Some bs"
  shows "tg_stored p' r = Some bs"
proof -
  obtain t' sent where t': "send_upload mock_send_document p req rd = (t', sent)" by fastforce
  have p': "p' = p\<lparr>tsp_transport := t'\<rparr>" using tg_upload_transport [OF assms(2)] t' by simp
  have "tm_messages (tsp_transport p) (chat, tm_next_message_id (tsp_transport p)) = None" for chat
    using assms(1) by (simp add: tg_inv_def)
  with mock_send_document_cases [OF t' [unfolded send_upload_def]] assms(3) show ?thesis
    by (elim disjE exE conjE) (auto simp: p' tg_stored_def split: sum.splits)
qed

lemma tg_upload_stored:
  assumes "tg_upload sha mock_send_document p req rd = (p', Inr res)"
  shows "\<exists>bs. read_loop rd [] = Inr bs \<and> tg_stored p' (ures_storage_reference res) = Some bs
    \<and> ures_verified_sha256 res = Some (sha bs) \<and> ures_bytes_uploaded res = of_nat (length bs)"
proof -
  obtain doc bs where sent: "snd (send_upload mock_send_document p req rd) = Inr (doc, bs)"
    and res: "from_storage_reference (ures_storage_reference res)
        = Inr \<lparr>tr_chat_id = tdm_chat_id doc, tr_message_id = tdm_message_id doc, tr_file_id = tdm_file_id doc\<rparr>"
      "ures_bytes_uploaded res = of_nat (length bs)" "ures_verified_sha256 res = Some (sha bs)"
    using assms by (rule tg_upload_Inr)
  obtain t' where t': "send_upload mock_send_document p req rd = (t', Inr (doc, bs))"
    using sent by (metis prod.collapse)
  have p': "p' = p\<lparr>tsp_transport := t'\<rparr>" using tg_upload_transport [OF assms] t' by simp
  have "read_loop rd [] = Inr bs" "tm_messages t' (tdm_chat_id doc, tdm_message_id doc) = Some (doc, bs)"
    using mock_send_document_cases [OF t' [unfolded send_upload_def]] by auto
  then show ?thesis using res by (simp add: p' tg_stored_def)
qed

lemma tg_upload_up:
  assumes "tg_up p" "tg_upload sha mock_send_document p req rd = (p', out)"
  shows "tg_up p'"
proof -
  obtain t' sent where t': "send_upload mock_send_document p req rd = (t', sent)" by fastforce
  have p': "p' = p\<lparr>tsp_transport := t'\<rparr>" using tg_upload_transport [OF assms(2)] t' by simp
  from mock_send_document_flags [OF t' [unfolded send_upload_def]] show ?thesis
    using assms(1) by (simp add: p' tg_up_def)
qed

interpretation tg: storage_contract
  "tg_upload sha mock_send_document" "tg_get sha" "tg_check sha" sha tg_stored "\<lambda>_. True" tg_up tg_inv
  for sha :: "bytes \<Rightarrow> string"
  by unfold_locales (assumption | rule tg_upload_inv tg_upload_up tg_upload_stored tg_upload_keeps tg_get_stored tg_check_stored)+


subsection \<open>Properties\<close>

text \<open>C18. The transfer engine over the Telegram provider with the mock transport, while that transport is up (reachable, no
  failing download queued): a staged upload that reports success has stored the file in
  the target chat, whatever its size; the job is completed and carries the reference, and a download under the reference through the provider gives
  back exactly the bytes one of the attempts read from the staging file.\<close>

theorem telegram_staged_upload:
  assumes "tg_inv (en_provider en)" "tg_up (en_provider en)"
    and "execute_staged_upload pol (tg_upload sha mock_send_document) (tg_check sha) cb env del io f fs en job = out"
    and "so_result out = Inr ref"
  shows "\<exists>k rd bs. ae_open (env k) = Inr rd \<and> read_loop rd [] = Inr bs
    \<and> state (so_job out) = TransferState.Completed \<and> storage_reference (so_job out) = Some ref
    \<and> (expected_size_bytes job > 0 \<longrightarrow> of_nat (length bs) = expected_size_bytes job)
    \<and> tg_get sha (en_provider (so_engine out))
        \<lparr>dr_file_id = i, dr_chunk_id = c, dr_storage_reference = ref, dr_expected_size_bytes = of_nat (length bs),
         dr_expected_sha256 = Some (sha bs)\<rparr> vec_write w
      = Some (w @ bs, Inr \<lparr>dres_bytes_downloaded = of_nat (length bs), dres_verified_sha256 = Some (sha bs)\<rparr>)"
proof -
  obtain k rd bs where "ae_open (env k) = Inr rd" "read_loop rd [] = Inr bs"
    and st: "tg_inv (en_provider (so_engine out)) \<and> tg_up (en_provider (so_engine out))"
      "tg_stored (en_provider (so_engine out)) ref = Some bs"
    and "state (so_job out) = TransferState.Completed" "storage_reference (so_job out) = Some ref"
      "expected_size_bytes job > 0 \<longrightarrow> of_nat (length bs) = expected_size_bytes job"
    using tg.staged_upload_stored [where en = en and job = job and sha = sha and out = out and ref = ref and n = 0] assms
    unfolding execute_staged_upload_def by blast
  moreover have "eq_ignore_ascii_case (sha bs) (sha bs)" by (simp add: eq_ignore_ascii_case_def)
  ultimately show ?thesis
    by (intro exI [of _ k] exI [of _ rd] exI [of _ bs]) (simp add: tg_get_stored)
qed

definition sample_tg :: "MockTelegramTransport TelegramStorageProvider" where
  "sample_tg = \<lparr>tsp_transport = MockTelegramTransport_new,
     tsp_config = TelegramStorageConfig_default\<lparr>tsc_target_chat_id := - 100\<rparr>\<rparr>"

lemma sample_tg_ok: "tg_inv sample_tg" "tg_up sample_tg"
  by (simp_all add: sample_tg_def tg_inv_def tg_up_def MockTelegramTransport_new_def)

definition sample_tg_engine :: "MockTelegramTransport TelegramStorageProvider engine" where
  "sample_tg_engine = \<lparr>en_provider = sample_tg, en_queue = TransferQueue_new 2\<rparr>"

lemma mock_file_id_plain:
  "trim (CHR ''B'' # CHR ''A'' # CHR ''A'' # CHR ''D'' # ''BAAD_file_'' @ show_int 500) \<noteq> []"
proof -
  have "plain_id (''BAADBAAD_file_'' @ show_nat 500)"
    unfolding plain_id_append by (rule conjI) (simp_all add: plain_id_def is_ascii_alphanumeric_def show_nat_digits)
  from trim_plain [OF this] show ?thesis by (simp add: show_int_def)
qed

lemma sample_tg_upload:
  "\<exists>p'. tg_upload (\<lambda>_. ''ab'') mock_send_document sample_tg (upload_request sample_job)
       (cancelling_reader (at_call never_cancelled) [RData [1, 2], RData [3]]) =
     (p', Inr \<lparr>ures_storage_reference = Telegram (- 100) 500 (''BAADBAAD_file_'' @ show_int 500), ures_bytes_uploaded = 3,
               ures_verified_sha256 = Some ''ab'', ures_remote_status = StorageStatus.Verified\<rparr>)
   \<and> tg_check (\<lambda>_. ''ab'') p' (upload_verification sample_job
       \<lparr>ures_storage_reference = Telegram (- 100) 500 (''BAADBAAD_file_'' @ show_int 500), ures_bytes_uploaded = 3,
               ures_verified_sha256 = Some ''ab'', ures_remote_status = StorageStatus.Verified\<rparr>) = Inr True"
  by (simp add: tg_upload_def sample_tg_def mock_send_document_def MockTelegramTransport_new_def sample_job_def
      TelegramStorageConfig_default_def Let_def upload_request_def cancelling_reader_def never_cancelled_def
      TelegramReference_new_def mock_file_id_plain [simplified] to_storage_reference_def upload_verification_def tg_check_def tg_verify_def
      mock_get_message_metadata_def mock_get_document_stream_def write_blocks_hashing_sink stream_blocks HashingWriter_new_def
      eq_ignore_ascii_case_def)

theorem telegram_staged_upload_witness:
  "\<exists>out ref bs. execute_staged_upload sample_policy (tg_upload (\<lambda>_. ''ab'') mock_send_document) (tg_check (\<lambda>_. ''ab'')) False
       sample_env True [] (TempPayloadFile_new ''p'') {''p''} sample_tg_engine sample_job = out
   \<and> so_result out = Inr ref
   \<and> tg_get (\<lambda>_. ''ab'') (en_provider (so_engine out))
        \<lparr>dr_file_id = ''f'', dr_chunk_id = ''c'', dr_storage_reference = ref,
         dr_expected_size_bytes = of_nat (length bs), dr_expected_sha256 = Some ''ab''\<rparr> vec_write []
      = Some (bs, Inr \<lparr>dres_bytes_downloaded = of_nat (length bs), dres_verified_sha256 = Some ''ab''\<rparr>)"
proof -
  define out where "out = execute_staged_upload sample_policy (tg_upload (\<lambda>_. ''ab'') mock_send_document)
    (tg_check (\<lambda>_. ''ab'')) False sample_env True [] (TempPayloadFile_new ''p'') {''p''} sample_tg_engine sample_job"
  let ?ref = "Telegram (- 100) 500 (''BAADBAAD_file_'' @ show_int 500)"
  obtain en' job' where up: "upload_stream sample_policy (tg_upload (\<lambda>_. ''ab'') mock_send_document)
     (tg_check (\<lambda>_. ''ab'')) False (ae_obs (sample_env 0)) [RData [1, 2], RData [3]] sample_tg_engine sample_job
     = (en', job', Inr ?ref)"
    using sample_tg_upload
    by (auto simp: upload_stream_def execute_upload_prepared sample_tg_engine_def sample_job_def never_cancelled_def
        Let_def bind_res_def)
  have "so_result out = Inr ?ref"
    unfolding out_def execute_staged_upload_def
    by (subst staged_loop_upload [where env = sample_env and n = 0, OF _ _ up]) (simp_all add: cleanup_cases)
  moreover have "tg_inv (en_provider sample_tg_engine)" "tg_up (en_provider sample_tg_engine)"
    by (simp_all add: sample_tg_engine_def sample_tg_ok)
  ultimately show ?thesis
    using telegram_staged_upload [of sample_tg_engine sample_policy "\<lambda>_. ''ab''" False sample_env True "[]"
      "TempPayloadFile_new ''p''" "{''p''}" sample_job out ?ref "''f''" "''c''" "[]"] out_def
    by (metis append_Nil)
qed

text \<open>The document stays in the chat when the bytes read do not match what was announced: the checks come after sending,
  and the reference is not returned.\<close>

lemma rejected_upload_left_behind:
  "\<exists>p' e doc. tg_upload (\<lambda>_. ''ab'') mock_send_document sample_tg sample_upload [RData [1, 2]] = (p', Inl e)
     \<and> tm_messages (tsp_transport p') (- 100, 500) = Some (doc, [1, 2])"
  by (simp add: tg_upload_def sample_tg_def mock_send_document_def MockTelegramTransport_new_def sample_upload_def
      TelegramStorageConfig_default_def Let_def)

text \<open>Deleting removes exactly the addressed document, and doing it again is no error: afterwards a download under
  the reference reports that it is not found, and every other document is as before.\<close>

theorem telegram_delete_exact:
  assumes "tg_up p" "from_storage_reference ref = Inr r"
  shows "\<exists>p'. tg_delete mock_delete_message p ref = (p', Inr ())
    \<and> tg_delete mock_delete_message p' ref = (p', Inr ())
    \<and> tg_get sha p' \<lparr>dr_file_id = i, dr_chunk_id = c, dr_storage_reference = ref, dr_expected_size_bytes = n,
                      dr_expected_sha256 = h\<rparr> vec_write w
      = Some (w, Inl (StorageError.NotFound (''Telegram message '' @ show_int (tr_message_id r)
          @ '' not found in chat '' @ show_int (tr_chat_id r))))
    \<and> (\<forall>ref' r'. from_storage_reference ref' = Inr r'
          \<and> (tr_chat_id r', tr_message_id r') \<noteq> (tr_chat_id r, tr_message_id r) \<longrightarrow> tg_stored p' ref' = tg_stored p ref')"
proof -
  let ?p = "p\<lparr>tsp_transport := (tsp_transport p)\<lparr>tm_messages :=
      (tm_messages (tsp_transport p))((tr_chat_id r, tr_message_id r) := None)\<rparr>\<rparr>"
  have "tg_delete mock_delete_message p ref = (?p, Inr ())" "tg_delete mock_delete_message ?p ref = (?p, Inr ())"
    using assms by (simp_all add: tg_delete_def mock_delete_message_def tg_up_def)
  moreover have "tg_get sha ?p \<lparr>dr_file_id = i, dr_chunk_id = c, dr_storage_reference = ref, dr_expected_size_bytes = n,
                      dr_expected_sha256 = h\<rparr> vec_write w
      = Some (w, Inl (StorageError.NotFound (''Telegram message '' @ show_int (tr_message_id r)
          @ '' not found in chat '' @ show_int (tr_chat_id r))))"
    using assms by (simp add: tg_get_def tg_download_def mock_get_document_stream_def tg_up_def HashingWriter_new_def)
  moreover have "tg_stored ?p ref' = tg_stored p ref'"
    if "from_storage_reference ref' = Inr r' \<and> (tr_chat_id r', tr_message_id r') \<noteq> (tr_chat_id r, tr_message_id r)" for ref' r'
    using that by (auto simp: tg_stored_def)
  ultimately show ?thesis by blast
qed

theorem telegram_delete_exact_witness:
  "\<exists>p'. tg_delete mock_delete_message sample_tg (Telegram (- 100) 500 ''doc'') = (p', Inr ())"
proof -
  have "from_storage_reference (Telegram (- 100) 500 ''doc'')
      = Inr \<lparr>tr_chat_id = - 100, tr_message_id = 500, tr_file_id = ''doc''\<rparr>"
    by (simp add: TelegramReference_new_def trim_plain plain_id_def is_ascii_alphanumeric_def is_ascii_digit_def)
  from telegram_delete_exact [OF sample_tg_ok(2) this] show ?thesis by blast
qed

end
