(* ===== verification/Telegram_Auth.thy ===== *)
theory Telegram_Auth
  imports Telegram_Provider
begin

text \<open>
  Credentials (\<open>credentials.rs\<close>) and the personal login of televault-telegram (\<open>mtproto.rs\<close>): the authorization states,
  the mock and the live driver, and the manager that gates every protected command.

  The grammers client is the record \<open>grammers\<close>: its calls as functions of the session and the API
  identifier the client was built with. A driver call returns the driver and its result, None being a
  panic (slicing a phone number inside a character). The manager takes its locks several times in one
  operation; the sections between are the steps of \<open>section_step\<close>, and operations are sequences
  of sections.
\<close>

subsection \<open>credentials.rs\<close>

record TelegramCredentials =
  tcr_bot_token :: string
  tcr_target_chat_id :: int
  tcr_api_endpoint :: "string option"

definition TelegramCredentials_display :: "TelegramCredentials \<Rightarrow> string" where
  "TelegramCredentials_display c =
     ''TelegramCredentials(chat_id: '' @ show_int (tcr_target_chat_id c) @ '', bot_token: [REDACTED])''"

definition TelegramCredentials_validate :: "TelegramCredentials \<Rightarrow> (TelegramError, unit) result" where
  "TelegramCredentials_validate c =
     (let token = trim (tcr_bot_token c) in
      if token = [] then Err (TelegramError.Transport ''Telegram bot token cannot be empty'')
      else if CHR '':'' \<notin> set token \<or> length token < 15 then
        Err (TelegramError.Transport (''Invalid Telegram bot token format. Expected format: '' @ [CHR 0x27]
          @ ''<bot_id>:<token>'' @ [CHR 0x27]))
      else if tcr_target_chat_id c = 0 then
        Err (TelegramError.InvalidReference ''Telegram target chat ID cannot be 0'')
      else case tcr_api_endpoint c of
        None \<Rightarrow> Ok ()
      | Some endpoint \<Rightarrow>
          let ep = trim endpoint in
          if ep = [] \<or> (strip_prefix ''http://'' ep = None \<and> strip_prefix ''https://'' ep = None) then
            Err (TelegramError.Transport (''Custom API endpoint must start with '' @ [CHR 0x27] @ ''http://'' @ [CHR 0x27]
              @ '' or '' @ [CHR 0x27] @ ''https://'' @ [CHR 0x27]))
          else Ok ())"

definition TelegramCredentials_new ::
  "string \<Rightarrow> int \<Rightarrow> string option \<Rightarrow> (TelegramError, TelegramCredentials) result" where
  "TelegramCredentials_new token chat endpoint =
     (let c = \<lparr>tcr_bot_token = token, tcr_target_chat_id = chat, tcr_api_endpoint = endpoint\<rparr>
      in bind_res (TelegramCredentials_validate c) (\<lambda>_. Ok c))"

definition safe_masked_token :: "TelegramCredentials \<Rightarrow> string" where
  "safe_masked_token c =
     (if CHR '':'' \<in> set (tcr_bot_token c)
      then takeWhile (\<lambda>ch. ch \<noteq> CHR '':'') (tcr_bot_token c) @ '':[REDACTED]''
      else ''[REDACTED]'')"

text \<open>What persisting a file meets, and the files as a map from paths to contents. The content goes to a
  temporary path first.\<close>

record file_io =
  fio_create_dir :: "io_error option"
  fio_write :: "io_error option"
  fio_rename :: "io_error option"

type_synonym file_map = "string \<Rightarrow> string option"

definition or_io :: "io_error option \<Rightarrow> (TelegramError, unit) result" where
  "or_io e = (case e of Some x \<Rightarrow> Err (TelegramError.Io x) | None \<Rightarrow> Ok ())"

definition write_then_rename :: "file_io \<Rightarrow> string \<Rightarrow> string \<Rightarrow> string \<Rightarrow> file_map \<Rightarrow> file_map \<times> (TelegramError, unit) result" where
  "write_then_rename fio tmp path content fs =
     (case fio_write fio of
        Some e \<Rightarrow> (fs, Err (TelegramError.Io e))
      | None \<Rightarrow>
          let fs1 = fs(tmp \<mapsto> content) in
          (case fio_rename fio of
             Some e \<Rightarrow> (fs1, Err (TelegramError.Io e))
           | None \<Rightarrow> ((fs1(tmp := None))(path \<mapsto> content), Ok ())))"

definition TelegramCredentials_save ::
  "(TelegramCredentials \<Rightarrow> (string, string) result) \<Rightarrow> file_io \<Rightarrow> string \<Rightarrow> string \<Rightarrow> TelegramCredentials \<Rightarrow> file_map
     \<Rightarrow> file_map \<times> (TelegramError, unit) result" where
  "TelegramCredentials_save to_json fio tmp path c fs =
     (case bind_res (TelegramCredentials_validate c) (\<lambda>_. bind_res (or_io (fio_create_dir fio)) (\<lambda>_.
             map_err (\<lambda>e. TelegramError.Transport (''Failed to serialize credentials: '' @ e)) (to_json c))) of
        Inl e \<Rightarrow> (fs, Err e)
      | Inr content \<Rightarrow> write_then_rename fio tmp path content fs)"

definition TelegramCredentials_load ::
  "(string \<Rightarrow> (string, TelegramCredentials) result) \<Rightarrow> io_error option \<Rightarrow> string \<Rightarrow> file_map
     \<Rightarrow> (TelegramError, TelegramCredentials) result" where
  "TelegramCredentials_load of_json read_error path fs =
     (case fs path of
        None \<Rightarrow> Err (TelegramError.Transport (''Credentials file not found at '' @ path))
      | Some content \<Rightarrow>
          bind_res (or_io read_error) (\<lambda>_.
          bind_res (map_err (\<lambda>e. TelegramError.Transport (''Invalid credentials JSON: '' @ e)) (of_json content)) (\<lambda>c.
          bind_res (TelegramCredentials_validate c) (\<lambda>_. Ok c))))"

definition TelegramCredentials_remove ::
  "io_error option \<Rightarrow> string \<Rightarrow> file_map \<Rightarrow> file_map \<times> (TelegramError, unit) result" where
  "TelegramCredentials_remove remove_error path fs =
     (if fs path = None then (fs, Ok ())
      else case remove_error of Some e \<Rightarrow> (fs, Err (TelegramError.Io e)) | None \<Rightarrow> (fs(path := None), Ok ()))"

record TelegramApiCredentials =
  tac_api_id :: int
  tac_api_hash :: string

definition TelegramApiCredentials_display :: "TelegramApiCredentials \<Rightarrow> string" where
  "TelegramApiCredentials_display c =
     ''TelegramApiCredentials(api_id: '' @ show_int (tac_api_id c) @ '', api_hash: [REDACTED])''"

definition TelegramApiCredentials_validate :: "TelegramApiCredentials \<Rightarrow> (TelegramError, unit) result" where
  "TelegramApiCredentials_validate c =
     (if tac_api_id c \<le> 0 then Err (TelegramError.AuthError ''Telegram API ID must be a positive integer'')
      else if trim (tac_api_hash c) = [] \<or> length (trim (tac_api_hash c)) < 10 then
        Err (TelegramError.AuthError ''Telegram API Hash must be a valid hex string of at least 10 characters'')
      else Ok ())"

definition TelegramApiCredentials_new :: "int \<Rightarrow> string \<Rightarrow> (TelegramError, TelegramApiCredentials) result" where
  "TelegramApiCredentials_new i h =
     (let c = \<lparr>tac_api_id = i, tac_api_hash = h\<rparr> in bind_res (TelegramApiCredentials_validate c) (\<lambda>_. Ok c))"

definition parse_i32 :: "string \<Rightarrow> int option" where
  "parse_i32 s = (case parse_i64 s of Some v \<Rightarrow> if - (2 ^ 31) \<le> v \<and> v < 2 ^ 31 then Some v else None | None \<Rightarrow> None)"

text \<open>\<open>env_id\<close> and \<open>env_hash\<close> are the two environment variables, \<open>content\<close> the configuration file as far as it can
  be read.\<close>

definition api_from_env :: "string option \<Rightarrow> string option \<Rightarrow> TelegramApiCredentials option" where
  "api_from_env env_id env_hash =
     (case (env_id, env_hash) of
        (Some i, Some h) \<Rightarrow>
          (case parse_i32 (trim i) of
             Some n \<Rightarrow> if n > 0 \<and> length (trim h) \<ge> 10 then Some \<lparr>tac_api_id = n, tac_api_hash = trim h\<rparr> else None
           | None \<Rightarrow> None)
      | _ \<Rightarrow> None)"

definition load_from_env_or_file ::
  "(string \<Rightarrow> (string, TelegramApiCredentials) result) \<Rightarrow> string option \<Rightarrow> string option \<Rightarrow> string option
     \<Rightarrow> TelegramApiCredentials option" where
  "load_from_env_or_file of_json env_id env_hash content =
     (case api_from_env env_id env_hash of
        Some c \<Rightarrow> Some c
      | None \<Rightarrow>
          (case content of
             None \<Rightarrow> None
           | Some t \<Rightarrow>
               (case of_json t of
                  Inl _ \<Rightarrow> None
                | Inr c \<Rightarrow> if is_ok (TelegramApiCredentials_validate c) then Some c else None)))"

definition TelegramApiCredentials_save ::
  "(TelegramApiCredentials \<Rightarrow> (string, string) result) \<Rightarrow> file_io \<Rightarrow> string \<Rightarrow> string \<Rightarrow> TelegramApiCredentials \<Rightarrow> file_map
     \<Rightarrow> file_map \<times> (TelegramError, unit) result" where
  "TelegramApiCredentials_save to_json fio tmp path c fs =
     (case bind_res (TelegramApiCredentials_validate c) (\<lambda>_. bind_res (or_io (fio_create_dir fio)) (\<lambda>_.
             map_err (\<lambda>e. TelegramError.AuthError (''Failed to serialize API credentials: '' @ e)) (to_json c))) of
        Inl e \<Rightarrow> (fs, Err e)
      | Inr content \<Rightarrow> write_then_rename fio tmp path content fs)"

subsection \<open>States and accounts of mtproto.rs\<close>

datatype AuthState =
  Initializing | AuthenticationRequired | Authenticating | AuthenticationFailed | Authenticated | ChannelSetupRequired
  | ChannelSetupInProgress | ChannelVerificationFailed | Ready | SessionExpired | LoggingOut | RecoverableError

fun AuthState_debug :: "AuthState \<Rightarrow> string" where
  "AuthState_debug Initializing = ''Initializing''"
| "AuthState_debug AuthenticationRequired = ''AuthenticationRequired''"
| "AuthState_debug Authenticating = ''Authenticating''"
| "AuthState_debug AuthenticationFailed = ''AuthenticationFailed''"
| "AuthState_debug Authenticated = ''Authenticated''"
| "AuthState_debug ChannelSetupRequired = ''ChannelSetupRequired''"
| "AuthState_debug ChannelSetupInProgress = ''ChannelSetupInProgress''"
| "AuthState_debug ChannelVerificationFailed = ''ChannelVerificationFailed''"
| "AuthState_debug Ready = ''Ready''"
| "AuthState_debug AuthState.SessionExpired = ''SessionExpired''"
| "AuthState_debug LoggingOut = ''LoggingOut''"
| "AuthState_debug RecoverableError = ''RecoverableError''"

definition is_unlocked :: "AuthState \<Rightarrow> bool" where
  "is_unlocked s \<longleftrightarrow> s = Ready"

record TelegramAccountInfo =
  tai_user_id :: int
  tai_first_name :: string
  tai_last_name :: "string option"
  tai_username :: "string option"
  tai_phone_number :: string

record TelegramChannelInfo =
  tch_channel_id :: int
  tch_channel_title :: string
  tch_is_private :: bool
  tch_verified :: bool
  tch_created_by_televault :: bool

record TelegramAuthStatus =
  tas_state :: AuthState
  tas_account :: "TelegramAccountInfo option"
  tas_channel :: "TelegramChannelInfo option"
  tas_requires_password :: bool
  tas_error_message :: "string option"

record PersistedTelegramSession =
  pts_account :: TelegramAccountInfo
  pts_channel :: "TelegramChannelInfo option"
  pts_session_bytes :: bytes
  pts_api_id :: int
  pts_api_hash :: string
  pts_updated_at :: string

datatype AuthCodeResult = Success TelegramAccountInfo | PasswordRequired

definition is_char_boundary :: "string \<Rightarrow> nat \<Rightarrow> bool" where
  "is_char_boundary s k \<longleftrightarrow> k = 0 \<or> k = length s
     \<or> k < length s \<and> \<not> (128 \<le> byte_of (s ! k) \<and> byte_of (s ! k) < 192)"

definition redact_phone_number :: "string \<Rightarrow> string option" where
  "redact_phone_number phone =
     (let clean = trim phone in
      if length clean \<le> 6 then Some clean
      else if \<not> is_char_boundary clean 3 \<or> \<not> is_char_boundary clean (length clean - 4) then None
      else Some (take 3 clean @ '' *** *** '' @ drop (length clean - 4) clean))"

subsection \<open>The mock driver\<close>

record MockMtprotoDriver =
  mmd_pending_phone :: "string option"
  mmd_pending_api_id :: "int option"
  mmd_pending_api_hash :: "string option"
  mmd_authenticated_user :: "TelegramAccountInfo option"
  mmd_configured_channel :: "TelegramChannelInfo option"
  mmd_session_data :: bytes
  mmd_fail_channel_creation :: bool

definition MockMtprotoDriver_new :: MockMtprotoDriver where
  "MockMtprotoDriver_new =
     \<lparr>mmd_pending_phone = None, mmd_pending_api_id = None, mmd_pending_api_hash = None, mmd_authenticated_user = None,
      mmd_configured_channel = None, mmd_session_data = [], mmd_fail_channel_creation = False\<rparr>"

definition set_fail_channel_creation :: "bool \<Rightarrow> MockMtprotoDriver \<Rightarrow> MockMtprotoDriver" where
  "set_fail_channel_creation b d = d\<lparr>mmd_fail_channel_creation := b\<rparr>"

definition bytes_of :: "string \<Rightarrow> bytes" where
  "bytes_of s = map (\<lambda>c. of_nat (byte_of c)) s"

type_synonym ('d, 'a) driver_call = "'d \<times> (TelegramError, 'a) result option"

definition phone_error :: TelegramError where
  "phone_error = TelegramError.AuthError (''Please enter a valid international phone number starting with '' @ [CHR 0x27]
     @ ''+'' @ [CHR 0x27] @ '' (e.g. +1234567890)'')"

definition bad_phone :: "string \<Rightarrow> bool" where
  "bad_phone trimmed \<longleftrightarrow> trimmed = [] \<or> hd trimmed \<noteq> CHR ''+'' \<or> length trimmed < 8"

definition mock_request_login_code ::
  "string \<Rightarrow> int \<Rightarrow> string \<Rightarrow> MockMtprotoDriver \<Rightarrow> (MockMtprotoDriver, unit) driver_call" where
  "mock_request_login_code phone api_id api_hash d =
     (let trimmed = trim phone in
      if bad_phone trimmed then (d, Some (Err phone_error))
      else if api_id \<le> 0 \<or> trim api_hash = [] then
        (d, Some (Err (TelegramError.AuthError ''Valid Telegram API ID and API Hash are required'')))
      else (d\<lparr>mmd_pending_phone := Some trimmed, mmd_pending_api_id := Some api_id,
              mmd_pending_api_hash := Some api_hash\<rparr>, Some (Ok ())))"

definition mock_user :: "string \<Rightarrow> TelegramAccountInfo" where
  "mock_user redacted = \<lparr>tai_user_id = 987654321, tai_first_name = ''MockUser'', tai_last_name = Some ''Tester'',
     tai_username = Some ''mock_tester'', tai_phone_number = redacted\<rparr>"

definition mock_phone :: "MockMtprotoDriver \<Rightarrow> string" where
  "mock_phone d = (case mmd_pending_phone d of Some p \<Rightarrow> p | None \<Rightarrow> ''+15551234567'')"

definition ends_with :: "string \<Rightarrow> string \<Rightarrow> bool" where
  "ends_with s t \<longleftrightarrow> length t \<le> length s \<and> drop (length s - length t) s = t"

definition mock_submit_code :: "string \<Rightarrow> MockMtprotoDriver \<Rightarrow> (MockMtprotoDriver, AuthCodeResult) driver_call" where
  "mock_submit_code code d =
     (let phone = mock_phone d; trimmed = trim code in
      if trimmed = ''99999'' then (d, Some (Err (TelegramError.AuthError ''Invalid verification code entered'')))
      else if trimmed = ''2fa123'' \<or> ends_with phone ''2222'' then (d, Some (Ok AuthCodeResult.PasswordRequired))
      else if length trimmed < 5 then
        (d, Some (Err (TelegramError.AuthError ''Verification code must be at least 5 digits'')))
      else case redact_phone_number phone of
        None \<Rightarrow> (d, None)
      | Some p \<Rightarrow>
          (d\<lparr>mmd_authenticated_user := Some (mock_user p), mmd_session_data := bytes_of ''MOCK_SESSION_BYTES''\<rparr>,
           Some (Ok (Success (mock_user p)))))"

definition mock_submit_password :: "string \<Rightarrow> MockMtprotoDriver \<Rightarrow> (MockMtprotoDriver, TelegramAccountInfo) driver_call" where
  "mock_submit_password password d =
     (if password = ''wrong'' then
        (d, Some (Err (TelegramError.AuthError ''Incorrect Two-Step Verification password'')))
      else case redact_phone_number (mock_phone d) of
        None \<Rightarrow> (d, None)
      | Some p \<Rightarrow>
          (d\<lparr>mmd_authenticated_user := Some (mock_user p), mmd_session_data := bytes_of ''MOCK_SESSION_BYTES_2FA''\<rparr>,
           Some (Ok (mock_user p))))"

definition mock_create_backup_channel :: "string \<Rightarrow> MockMtprotoDriver \<Rightarrow> (MockMtprotoDriver, TelegramChannelInfo) driver_call" where
  "mock_create_backup_channel title d =
     (if mmd_fail_channel_creation d then
        (d, Some (Err (TelegramError.ChannelSetupFailed
          ''Automatic channel creation was restricted by Telegram for this account. Please use manual channel setup.'')))
      else
        let ch = \<lparr>tch_channel_id = - 1001999888777,
                  tch_channel_title = (if trim title = [] then ''TELEVAULT Backup Vault'' else title),
                  tch_is_private = True, tch_verified = True, tch_created_by_televault = True\<rparr>
        in (d\<lparr>mmd_configured_channel := Some ch\<rparr>, Some (Ok ch)))"

definition mock_verify_channel :: "int \<Rightarrow> MockMtprotoDriver \<Rightarrow> (MockMtprotoDriver, TelegramChannelInfo) driver_call" where
  "mock_verify_channel cid d =
     (if cid = 0 then (d, Some (Err (TelegramError.ChannelSetupFailed ''Invalid channel ID specified'')))
      else
        let ch = \<lparr>tch_channel_id = cid, tch_channel_title = ''Configured Backup Vault'', tch_is_private = True,
                  tch_verified = True, tch_created_by_televault = False\<rparr>
        in (d\<lparr>mmd_configured_channel := Some ch\<rparr>, Some (Ok ch)))"

definition mock_get_me :: "MockMtprotoDriver \<Rightarrow> (MockMtprotoDriver, TelegramAccountInfo) driver_call" where
  "mock_get_me d = (d, Some (ok_or (TelegramError.Unauthorized ''Not authenticated'') (mmd_authenticated_user d)))"

definition mock_sign_out :: "MockMtprotoDriver \<Rightarrow> (MockMtprotoDriver, unit) driver_call" where
  "mock_sign_out d =
     (d\<lparr>mmd_authenticated_user := None, mmd_configured_channel := None, mmd_session_data := [],
        mmd_pending_phone := None\<rparr>, Some (Ok ()))"

subsection \<open>The live driver\<close>

datatype invocation_error = Rpc string "nat option" | RpcIo string | RpcOther string

datatype 'p sign_in_error = SiPasswordRequired 'p | SiInvalidCode | SiSignUpRequired | SiInvalidPassword | SiOther string

datatype tl_user = TlUser int "string option" "string option" "string option" "string option" | TlEmpty int

datatype tl_chat = TlChannel int string | TlOtherChat

datatype tl_chats = TlChats "tl_chat list" | TlOther

text \<open>The client: \<open>'ss\<close> is the session, \<open>'t\<close> and \<open>'p\<close> the login and password tokens. The errors of the raw calls
  are their texts.\<close>

record ('ss, 't, 'p) grammers =
  gm_fresh :: 'ss
  gm_restore :: "bytes \<Rightarrow> 'ss"
  gm_request_code :: "'ss \<Rightarrow> int \<Rightarrow> string \<Rightarrow> string \<Rightarrow> 'ss \<times> (invocation_error, 't) result"
  gm_sign_in :: "'ss \<Rightarrow> int \<Rightarrow> 't \<Rightarrow> string \<Rightarrow> 'ss \<times> ('p sign_in_error, tl_user) result"
  gm_check_password :: "'ss \<Rightarrow> int \<Rightarrow> 'p \<Rightarrow> string \<Rightarrow> 'ss \<times> ('p sign_in_error, tl_user) result"
  gm_create_channel :: "'ss \<Rightarrow> int \<Rightarrow> string \<Rightarrow> 'ss \<times> (string, tl_chats) result"
  gm_get_channels :: "'ss \<Rightarrow> int \<Rightarrow> int \<Rightarrow> 'ss \<times> (string, tl_chats) result"
  gm_get_me :: "'ss \<Rightarrow> int \<Rightarrow> 'ss \<times> (string, tl_user) result"
  gm_export :: "'ss \<Rightarrow> bytes"
  gm_sign_in_text :: "'p sign_in_error \<Rightarrow> string"

definition map_invocation_error :: "invocation_error \<Rightarrow> TelegramError" where
  "map_invocation_error err =
     (case err of
        Rpc name val \<Rightarrow>
          TelegramError.AuthError
           (if name = ''API_ID_INVALID'' then
              ''Invalid Telegram API ID or API Hash. Please verify your credentials from https://my.telegram.org.''
            else if name = ''API_ID_PUBLISHED_FLOOD'' then
              ''This Telegram API ID is restricted due to public flood limits. Please use your personal API ID from https://my.telegram.org.''
            else if name = ''PHONE_NUMBER_INVALID'' then
              ''The phone number entered is invalid. Please enter a valid international number starting with ''
                @ [CHR 0x27] @ ''+'' @ [CHR 0x27] @ '' (e.g. +1234567890).''
            else if name = ''PHONE_NUMBER_BANNED'' then ''This phone number has been banned by Telegram.''
            else if name = ''PHONE_NUMBER_FLOOD'' then
              ''Too many login code requests for this phone number. Please wait before trying again.''
            else if name = ''PHONE_CODE_EXPIRED'' then ''The verification code has expired. Please request a new code.''
            else if name = ''PHONE_CODE_INVALID'' then ''Invalid verification code entered.''
            else if name = ''FLOOD_WAIT'' then
              ''Telegram rate limit: please wait '' @ show_nat (case val of Some n \<Rightarrow> n | None \<Rightarrow> 60)
                @ '' seconds before trying again.''
            else if name = ''AUTH_RESTART'' then ''Telegram authentication was restarted. Please try again.''
            else ''Telegram error: '' @ name)
      | RpcIo e \<Rightarrow> TelegramError.AuthError (''Network connection error connecting to Telegram: '' @ e)
      | RpcOther e \<Rightarrow> TelegramError.AuthError (''Telegram request failed: '' @ e))"

text \<open>\<open>gd_client\<close> is the API identifier the client was built with, None before the first call.\<close>

record ('ss, 't, 'p) GrammersMtprotoDriver =
  gd_client :: "int option"
  gd_login_token :: "'t option"
  gd_password_token :: "'p option"
  gd_api_id :: int
  gd_api_hash :: string
  gd_session :: 'ss
  gd_authenticated_user :: "TelegramAccountInfo option"
  gd_configured_channel :: "TelegramChannelInfo option"

definition GrammersMtprotoDriver_new ::
  "('ss, 't, 'p) grammers \<Rightarrow> int \<Rightarrow> string \<Rightarrow> ('ss, 't, 'p) GrammersMtprotoDriver" where
  "GrammersMtprotoDriver_new gm api_id api_hash =
     \<lparr>gd_client = None, gd_login_token = None, gd_password_token = None, gd_api_id = api_id, gd_api_hash = api_hash,
      gd_session = gm_fresh gm, gd_authenticated_user = None, gd_configured_channel = None\<rparr>"

definition from_session_bytes ::
  "('ss, 't, 'p) grammers \<Rightarrow> int \<Rightarrow> string \<Rightarrow> bytes \<Rightarrow> ('ss, 't, 'p) GrammersMtprotoDriver" where
  "from_session_bytes gm api_id api_hash bs =
     (GrammersMtprotoDriver_new gm api_id api_hash)\<lparr>gd_session := gm_restore gm bs\<rparr>"

definition ensure_client :: "('ss, 't, 'p) GrammersMtprotoDriver \<Rightarrow> ('ss, 't, 'p) GrammersMtprotoDriver \<times> int" where
  "ensure_client d =
     (case gd_client d of
        Some i \<Rightarrow> (d, i)
      | None \<Rightarrow> (d\<lparr>gd_client := Some (gd_api_id d)\<rparr>, gd_api_id d))"

definition real_request_login_code ::
  "('ss, 't, 'p) grammers \<Rightarrow> string \<Rightarrow> int \<Rightarrow> string \<Rightarrow> ('ss, 't, 'p) GrammersMtprotoDriver
     \<Rightarrow> (('ss, 't, 'p) GrammersMtprotoDriver, unit) driver_call" where
  "real_request_login_code gm phone api_id api_hash d =
     (let trimmed = trim phone in
      if bad_phone trimmed then (d, Some (Err phone_error))
      else if api_id \<le> 0 \<or> trim api_hash = [] then
        (d, Some (Err (TelegramError.AuthError
          ''Valid Telegram API ID and API Hash are required from https://my.telegram.org'')))
      else
        let (d1, client) = ensure_client (d\<lparr>gd_api_id := api_id, gd_api_hash := api_hash, gd_client := None\<rparr>);
            (s', r) = gm_request_code gm (gd_session d1) client trimmed api_hash;
            d2 = d1\<lparr>gd_session := s'\<rparr>
        in case r of
          Inl e \<Rightarrow> (d2, Some (Err (map_invocation_error e)))
        | Inr t \<Rightarrow> (d2\<lparr>gd_login_token := Some t\<rparr>, Some (Ok ())))"

fun user_id :: "tl_user \<Rightarrow> int" where
  "user_id (TlUser i _ _ _ _) = i"
| "user_id (TlEmpty i) = i"

text \<open>The account of a user, None when redacting the phone number panics.\<close>

fun account_of :: "tl_user \<Rightarrow> TelegramAccountInfo option" where
  "account_of (TlUser i first_name last_name username phone) =
     map_option (\<lambda>p. \<lparr>tai_user_id = i, tai_first_name = (case first_name of Some n \<Rightarrow> n | None \<Rightarrow> ''Telegram User''),
         tai_last_name = last_name, tai_username = username, tai_phone_number = p\<rparr>)
       (redact_phone_number (case phone of Some p \<Rightarrow> p | None \<Rightarrow> show_int i))"
| "account_of (TlEmpty i) =
     map_option (\<lambda>p. \<lparr>tai_user_id = i, tai_first_name = ''Telegram User'', tai_last_name = None, tai_username = None,
         tai_phone_number = p\<rparr>) (redact_phone_number (show_int i))"

definition real_submit_code ::
  "('ss, 't, 'p) grammers \<Rightarrow> string \<Rightarrow> ('ss, 't, 'p) GrammersMtprotoDriver
     \<Rightarrow> (('ss, 't, 'p) GrammersMtprotoDriver, AuthCodeResult) driver_call" where
  "real_submit_code gm code d =
     (let (d1, client) = ensure_client d in
      case gd_login_token d1 of
        None \<Rightarrow> (d1, Some (Err (TelegramError.AuthError ''No pending login token; please request a code first'')))
      | Some t \<Rightarrow>
          let (s', r) = gm_sign_in gm (gd_session d1) client t code; d2 = d1\<lparr>gd_session := s'\<rparr> in
          (case r of
             Inr user \<Rightarrow>
               (case account_of user of
                  None \<Rightarrow> (d2, None)
                | Some a \<Rightarrow> (d2\<lparr>gd_authenticated_user := Some a, gd_login_token := None\<rparr>, Some (Ok (Success a))))
           | Inl (SiPasswordRequired p) \<Rightarrow>
               (d2\<lparr>gd_password_token := Some p\<rparr>, Some (Ok AuthCodeResult.PasswordRequired))
           | Inl SiInvalidCode \<Rightarrow>
               (d2, Some (Err (TelegramError.AuthError ''Invalid verification code. Please check and try again.'')))
           | Inl SiSignUpRequired \<Rightarrow>
               (d2, Some (Err (TelegramError.AuthError ''This phone number is not registered on Telegram. Please sign up using the official Telegram mobile app first.'')))
           | Inl e \<Rightarrow> (d2, Some (Err (TelegramError.AuthError (''Sign in failed: '' @ gm_sign_in_text gm e))))))"

definition real_submit_password ::
  "('ss, 't, 'p) grammers \<Rightarrow> string \<Rightarrow> ('ss, 't, 'p) GrammersMtprotoDriver
     \<Rightarrow> (('ss, 't, 'p) GrammersMtprotoDriver, TelegramAccountInfo) driver_call" where
  "real_submit_password gm password d =
     (case gd_password_token d of
        None \<Rightarrow> (d, Some (Err (TelegramError.AuthError ''No pending two-factor password challenge'')))
      | Some p \<Rightarrow>
          let (d1, client) = ensure_client (d\<lparr>gd_password_token := None\<rparr>);
              (s', r) = gm_check_password gm (gd_session d1) client p password; d2 = d1\<lparr>gd_session := s'\<rparr>
          in (case r of
                Inl SiInvalidPassword \<Rightarrow>
                  (d2, Some (Err (TelegramError.AuthError ''Incorrect Two-Step Verification (2FA) cloud password.'')))
              | Inl e \<Rightarrow> (d2, Some (Err (TelegramError.AuthError (''2FA verification failed: '' @ gm_sign_in_text gm e))))
              | Inr user \<Rightarrow>
                  (case account_of user of
                     None \<Rightarrow> (d2, None)
                   | Some a \<Rightarrow> (d2\<lparr>gd_authenticated_user := Some a\<rparr>, Some (Ok a)))))"

fun first_channel :: "tl_chat list \<Rightarrow> int" where
  "first_channel [] = 0"
| "first_channel (TlChannel i _ # cs) = i"
| "first_channel (TlOtherChat # cs) = first_channel cs"

definition real_create_backup_channel ::
  "('ss, 't, 'p) grammers \<Rightarrow> string \<Rightarrow> ('ss, 't, 'p) GrammersMtprotoDriver
     \<Rightarrow> (('ss, 't, 'p) GrammersMtprotoDriver, TelegramChannelInfo) driver_call" where
  "real_create_backup_channel gm title d =
     (let (d1, client) = ensure_client d;
          (s', r) = gm_create_channel gm (gd_session d1) client
             (if trim title = [] then ''TELEVAULT Backup Vault'' else title);
          d2 = d1\<lparr>gd_session := s'\<rparr>
      in case r of
        Inl e \<Rightarrow> (d2, Some (Err (TelegramError.ChannelSetupFailed (''Channel creation failed: '' @ e))))
      | Inr updates \<Rightarrow>
          let cid = (case updates of TlChats cs \<Rightarrow> first_channel cs | TlOther \<Rightarrow> 0) in
          if cid = 0 then
            (d2, Some (Err (TelegramError.ChannelSetupFailed
              ''Channel was created but its identifier could not be resolved from Telegram response'')))
          else
            let ch = \<lparr>tch_channel_id = cid, tch_channel_title = title, tch_is_private = True, tch_verified = True,
                      tch_created_by_televault = True\<rparr>
            in (d2\<lparr>gd_configured_channel := Some ch\<rparr>, Some (Ok ch)))"

definition real_verify_channel ::
  "('ss, 't, 'p) grammers \<Rightarrow> int \<Rightarrow> ('ss, 't, 'p) GrammersMtprotoDriver
     \<Rightarrow> (('ss, 't, 'p) GrammersMtprotoDriver, TelegramChannelInfo) driver_call" where
  "real_verify_channel gm cid d =
     (let (d1, client) = ensure_client d;
          (s', r) = gm_get_channels gm (gd_session d1) client cid; d2 = d1\<lparr>gd_session := s'\<rparr>
      in case r of
        Inl e \<Rightarrow> (d2, Some (Err (TelegramError.ChannelSetupFailed (''Channel verification failed: '' @ e))))
      | Inr found \<Rightarrow>
          let title = (case found of TlChats (TlChannel _ t # _) \<Rightarrow> t | _ \<Rightarrow> ''Telegram Channel'');
              ch = \<lparr>tch_channel_id = cid, tch_channel_title = title, tch_is_private = True, tch_verified = True,
                    tch_created_by_televault = False\<rparr>
          in (d2\<lparr>gd_configured_channel := Some ch\<rparr>, Some (Ok ch)))"

definition real_get_me ::
  "('ss, 't, 'p) grammers \<Rightarrow> ('ss, 't, 'p) GrammersMtprotoDriver
     \<Rightarrow> (('ss, 't, 'p) GrammersMtprotoDriver, TelegramAccountInfo) driver_call" where
  "real_get_me gm d =
     (let (d1, client) = ensure_client d;
          (s', r) = gm_get_me gm (gd_session d1) client; d2 = d1\<lparr>gd_session := s'\<rparr>
      in case r of
        Inl e \<Rightarrow> (d2, Some (Err (TelegramError.AuthError (''Failed to retrieve user: '' @ e))))
      | Inr user \<Rightarrow>
          (case account_of user of
             None \<Rightarrow> (d2, None)
           | Some a \<Rightarrow> (d2\<lparr>gd_authenticated_user := Some a\<rparr>, Some (Ok a))))"

definition real_sign_out ::
  "('ss, 't, 'p) grammers \<Rightarrow> ('ss, 't, 'p) GrammersMtprotoDriver \<Rightarrow> (('ss, 't, 'p) GrammersMtprotoDriver, unit) driver_call" where
  "real_sign_out gm d =
     (d\<lparr>gd_client := None, gd_authenticated_user := None, gd_configured_channel := None, gd_session := gm_fresh gm\<rparr>,
      Some (Ok ()))"

subsection \<open>The driver\<close>

datatype ('ss, 't, 'p) MtprotoDriver = Mock MockMtprotoDriver | Real "('ss, 't, 'p) GrammersMtprotoDriver"

definition on_mock :: "(MockMtprotoDriver, 'a) driver_call \<Rightarrow> (('ss, 't, 'p) MtprotoDriver, 'a) driver_call" where
  "on_mock c = (Mock (fst c), snd c)"

definition on_real ::
  "(('ss, 't, 'p) GrammersMtprotoDriver, 'a) driver_call \<Rightarrow> (('ss, 't, 'p) MtprotoDriver, 'a) driver_call" where
  "on_real c = (Real (fst c), snd c)"

fun driver_request_login_code ::
  "('ss, 't, 'p) grammers \<Rightarrow> string \<Rightarrow> int \<Rightarrow> string \<Rightarrow> ('ss, 't, 'p) MtprotoDriver \<Rightarrow> (('ss, 't, 'p) MtprotoDriver, unit) driver_call" where
  "driver_request_login_code gm phone i h (Mock m) = on_mock (mock_request_login_code phone i h m)"
| "driver_request_login_code gm phone i h (Real r) = on_real (real_request_login_code gm phone i h r)"

fun driver_submit_code ::
  "('ss, 't, 'p) grammers \<Rightarrow> string \<Rightarrow> ('ss, 't, 'p) MtprotoDriver \<Rightarrow> (('ss, 't, 'p) MtprotoDriver, AuthCodeResult) driver_call" where
  "driver_submit_code gm code (Mock m) = on_mock (mock_submit_code code m)"
| "driver_submit_code gm code (Real r) = on_real (real_submit_code gm code r)"

fun driver_submit_password ::
  "('ss, 't, 'p) grammers \<Rightarrow> string \<Rightarrow> ('ss, 't, 'p) MtprotoDriver \<Rightarrow> (('ss, 't, 'p) MtprotoDriver, TelegramAccountInfo) driver_call" where
  "driver_submit_password gm pw (Mock m) = on_mock (mock_submit_password pw m)"
| "driver_submit_password gm pw (Real r) = on_real (real_submit_password gm pw r)"

fun driver_create_backup_channel ::
  "('ss, 't, 'p) grammers \<Rightarrow> string \<Rightarrow> ('ss, 't, 'p) MtprotoDriver \<Rightarrow> (('ss, 't, 'p) MtprotoDriver, TelegramChannelInfo) driver_call" where
  "driver_create_backup_channel gm title (Mock m) = on_mock (mock_create_backup_channel title m)"
| "driver_create_backup_channel gm title (Real r) = on_real (real_create_backup_channel gm title r)"

fun driver_verify_channel ::
  "('ss, 't, 'p) grammers \<Rightarrow> int \<Rightarrow> ('ss, 't, 'p) MtprotoDriver \<Rightarrow> (('ss, 't, 'p) MtprotoDriver, TelegramChannelInfo) driver_call" where
  "driver_verify_channel gm cid (Mock m) = on_mock (mock_verify_channel cid m)"
| "driver_verify_channel gm cid (Real r) = on_real (real_verify_channel gm cid r)"

fun driver_get_me ::
  "('ss, 't, 'p) grammers \<Rightarrow> ('ss, 't, 'p) MtprotoDriver \<Rightarrow> (('ss, 't, 'p) MtprotoDriver, TelegramAccountInfo) driver_call" where
  "driver_get_me gm (Mock m) = on_mock (mock_get_me m)"
| "driver_get_me gm (Real r) = on_real (real_get_me gm r)"

fun export_session_bytes :: "('ss, 't, 'p) grammers \<Rightarrow> ('ss, 't, 'p) MtprotoDriver \<Rightarrow> bytes" where
  "export_session_bytes gm (Mock m) = mmd_session_data m"
| "export_session_bytes gm (Real r) = gm_export gm (gd_session r)"

fun driver_sign_out ::
  "('ss, 't, 'p) grammers \<Rightarrow> ('ss, 't, 'p) MtprotoDriver \<Rightarrow> (('ss, 't, 'p) MtprotoDriver, unit) driver_call" where
  "driver_sign_out gm (Mock m) = on_mock (mock_sign_out m)"
| "driver_sign_out gm (Real r) = on_real (real_sign_out gm r)"

subsection \<open>The manager\<close>

record InnerState =
  is_state :: AuthState
  is_account :: "TelegramAccountInfo option"
  is_channel :: "TelegramChannelInfo option"
  is_requires_password :: bool
  is_last_error :: "string option"
  is_api_id :: int
  is_api_hash :: string

text \<open>\<open>am_file\<close> is the content of the session file, None when there is none.\<close>

record ('ss, 't, 'p) MtprotoAuthManager =
  am_driver :: "('ss, 't, 'p) MtprotoDriver"
  am_inner :: InnerState
  am_file :: "string option"

record ('ss, 't, 'p) auth_lib =
  al_grammers :: "('ss, 't, 'p) grammers"
  al_session_json :: "PersistedTelegramSession \<Rightarrow> (string, string) result"
  al_session_parse :: "string \<Rightarrow> (string, PersistedTelegramSession) result"

record auth_env =
  aq_mock_env :: bool
  aq_now :: string
  aq_read_error :: bool
  aq_write_error :: "io_error option"
  aq_remove_ok :: bool

definition fresh_inner :: InnerState where
  "fresh_inner = \<lparr>is_state = AuthenticationRequired, is_account = None, is_channel = None, is_requires_password = False,
     is_last_error = None, is_api_id = 0, is_api_hash = []\<rparr>"

definition inner_of_session :: "PersistedTelegramSession \<Rightarrow> InnerState" where
  "inner_of_session s =
     \<lparr>is_state = (if (case pts_channel s of Some c \<Rightarrow> tch_verified c | None \<Rightarrow> False) then Ready else ChannelSetupRequired),
      is_account = Some (pts_account s), is_channel = pts_channel s, is_requires_password = False,
      is_last_error = None, is_api_id = pts_api_id s, is_api_hash = pts_api_hash s\<rparr>"

definition MtprotoAuthManager_new ::
  "('ss, 't, 'p) auth_lib \<Rightarrow> auth_env \<Rightarrow> string option \<Rightarrow> ('ss, 't, 'p) MtprotoDriver \<Rightarrow> ('ss, 't, 'p) MtprotoAuthManager" where
  "MtprotoAuthManager_new lib env session_file driver =
     \<lparr>am_driver = driver,
      am_inner = (case session_file of
          Some content \<Rightarrow>
            (if aq_read_error env then fresh_inner
             else case al_session_parse lib content of Inl _ \<Rightarrow> fresh_inner | Inr s \<Rightarrow> inner_of_session s)
        | None \<Rightarrow> fresh_inner),
      am_file = session_file\<rparr>"

definition new_mock :: "('ss, 't, 'p) auth_lib \<Rightarrow> auth_env \<Rightarrow> string option \<Rightarrow> ('ss, 't, 'p) MtprotoAuthManager" where
  "new_mock lib env session_file = MtprotoAuthManager_new lib env session_file (Mock MockMtprotoDriver_new)"

definition ready_account :: TelegramAccountInfo where
  "ready_account = \<lparr>tai_user_id = 12345678, tai_first_name = ''Mock'', tai_last_name = Some ''User'',
     tai_username = Some ''mockuser'', tai_phone_number = ''+1 555 *** 1234''\<rparr>"

definition ready_channel :: TelegramChannelInfo where
  "ready_channel = \<lparr>tch_channel_id = - 1001234567890, tch_channel_title = ''TELEVAULT Backup Vault'',
     tch_is_private = True, tch_verified = True, tch_created_by_televault = True\<rparr>"

definition ready_inner :: InnerState where
  "ready_inner = \<lparr>is_state = Ready, is_account = Some ready_account, is_channel = Some ready_channel,
     is_requires_password = False, is_last_error = None, is_api_id = 12345, is_api_hash = ''mockapi_hash''\<rparr>"

definition new_mock_ready :: "string option \<Rightarrow> ('ss, 't, 'p) MtprotoAuthManager" where
  "new_mock_ready session_file =
     \<lparr>am_driver = Mock (MockMtprotoDriver_new\<lparr>mmd_authenticated_user := Some ready_account,
        mmd_configured_channel := Some ready_channel\<rparr>),
      am_inner = ready_inner, am_file = session_file\<rparr>"

definition new_live ::
  "('ss, 't, 'p) auth_lib \<Rightarrow> auth_env \<Rightarrow> string option \<Rightarrow> int \<Rightarrow> string \<Rightarrow> ('ss, 't, 'p) MtprotoAuthManager" where
  "new_live lib env session_file api_id api_hash =
     MtprotoAuthManager_new lib env session_file (Real (GrammersMtprotoDriver_new (al_grammers lib) api_id api_hash))"

definition auth_status :: "('ss, 't, 'p) MtprotoAuthManager \<Rightarrow> TelegramAuthStatus" where
  "auth_status m =
     (let i = am_inner m in
      \<lparr>tas_state = is_state i, tas_account = is_account i, tas_channel = is_channel i,
       tas_requires_password = is_requires_password i, tas_error_message = is_last_error i\<rparr>)"

definition check_auth_gate :: "('ss, 't, 'p) MtprotoAuthManager \<Rightarrow> (TelegramError, unit) result" where
  "check_auth_gate m =
     (if is_state (am_inner m) \<noteq> Ready then
        Err (TelegramError.Unauthorized (''Operation blocked: Application is in '' @ [CHR 0x27]
          @ AuthState_debug (is_state (am_inner m)) @ [CHR 0x27]
          @ '' state. Personal Telegram authentication and verified private backup channel are required.''))
      else Ok ())"

text \<open>The sections of an operation, between taking and releasing the lock of the state.\<close>

definition begin_auth :: "int \<Rightarrow> string \<Rightarrow> InnerState \<Rightarrow> InnerState" where
  "begin_auth api_id api_hash i =
     i\<lparr>is_state := Authenticating, is_requires_password := False, is_last_error := None, is_api_id := api_id,
       is_api_hash := api_hash\<rparr>"

definition auth_failed :: "string \<Rightarrow> InnerState \<Rightarrow> InnerState" where
  "auth_failed msg i = i\<lparr>is_state := AuthenticationFailed, is_last_error := Some msg\<rparr>"

definition auth_succeeded :: "TelegramAccountInfo \<Rightarrow> InnerState \<Rightarrow> InnerState" where
  "auth_succeeded a i =
     i\<lparr>is_account := Some a, is_requires_password := False, is_last_error := None,
       is_state := (case is_channel i of Some c \<Rightarrow> (if tch_verified c then Ready else ChannelSetupRequired)
                    | None \<Rightarrow> ChannelSetupRequired)\<rparr>"

definition password_needed :: "InnerState \<Rightarrow> InnerState" where
  "password_needed i = i\<lparr>is_state := Authenticating, is_requires_password := True, is_last_error := None\<rparr>"

definition auth_cancelled :: "InnerState \<Rightarrow> InnerState" where
  "auth_cancelled i = i\<lparr>is_state := AuthenticationRequired, is_requires_password := False, is_last_error := None\<rparr>"

definition begin_channel :: "InnerState \<Rightarrow> InnerState" where
  "begin_channel i = i\<lparr>is_state := ChannelSetupInProgress, is_last_error := None\<rparr>"

definition channel_ready :: "TelegramChannelInfo \<Rightarrow> InnerState \<Rightarrow> InnerState" where
  "channel_ready c i = i\<lparr>is_channel := Some c, is_state := Ready, is_last_error := None\<rparr>"

definition channel_failed :: "string \<Rightarrow> InnerState \<Rightarrow> InnerState" where
  "channel_failed msg i = i\<lparr>is_state := ChannelVerificationFailed, is_last_error := Some msg\<rparr>"

definition begin_logout :: "InnerState \<Rightarrow> InnerState" where
  "begin_logout i = i\<lparr>is_state := LoggingOut\<rparr>"

definition logged_out :: "InnerState \<Rightarrow> InnerState" where
  "logged_out i = i\<lparr>is_state := AuthenticationRequired, is_account := None, is_channel := None,
     is_requires_password := False, is_last_error := None\<rparr>"

definition persist_session ::
  "('ss, 't, 'p) auth_lib \<Rightarrow> auth_env \<Rightarrow> ('ss, 't, 'p) MtprotoAuthManager
     \<Rightarrow> ('ss, 't, 'p) MtprotoAuthManager \<times> (TelegramError, unit) result" where
  "persist_session lib env m =
     (case is_account (am_inner m) of
        None \<Rightarrow> (m, Ok ())
      | Some acc \<Rightarrow>
          (case al_session_json lib \<lparr>pts_account = acc, pts_channel = is_channel (am_inner m),
                  pts_session_bytes = export_session_bytes (al_grammers lib) (am_driver m),
                  pts_api_id = is_api_id (am_inner m), pts_api_hash = is_api_hash (am_inner m),
                  pts_updated_at = aq_now env\<rparr> of
             Inl e \<Rightarrow> (m, Err (TelegramError.AuthError (''Failed to serialize session: '' @ e)))
           | Inr content \<Rightarrow>
               (case aq_write_error env of
                  Some e \<Rightarrow> (m, Err (TelegramError.Io e))
                | None \<Rightarrow> (m\<lparr>am_file := Some content\<rparr>, Ok ()))))"

definition use_mock :: "auth_env \<Rightarrow> string \<Rightarrow> string \<Rightarrow> bool" where
  "use_mock env phone api_hash \<longleftrightarrow> api_hash = ''mockhash123'' \<or> api_hash = ''mock_hash'' \<or> phone = ''+1 555 123 4567''
     \<or> aq_mock_env env"

definition choose_driver ::
  "('ss, 't, 'p) grammers \<Rightarrow> bool \<Rightarrow> int \<Rightarrow> string \<Rightarrow> ('ss, 't, 'p) MtprotoDriver \<Rightarrow> ('ss, 't, 'p) MtprotoDriver" where
  "choose_driver gm is_mock api_id api_hash d =
     (case d of
        Mock m \<Rightarrow> if is_mock then d else Real (GrammersMtprotoDriver_new gm api_id api_hash)
      | Real r \<Rightarrow> if is_mock then Mock MockMtprotoDriver_new else d)"

text \<open>An operation returns the manager and its outcome, None when the driver panics.\<close>

type_synonym ('ss, 't, 'p) auth_op =
  "('ss, 't, 'p) MtprotoAuthManager \<times> (TelegramError, TelegramAuthStatus) result option"

definition start_auth ::
  "('ss, 't, 'p) auth_lib \<Rightarrow> auth_env \<Rightarrow> string \<Rightarrow> int \<Rightarrow> string \<Rightarrow> ('ss, 't, 'p) MtprotoAuthManager \<Rightarrow> ('ss, 't, 'p) auth_op" where
  "start_auth lib env phone api_id api_hash m =
     (let m1 = m\<lparr>am_driver := choose_driver (al_grammers lib) (use_mock env phone api_hash) api_id api_hash (am_driver m)\<rparr>;
          m2 = m1\<lparr>am_inner := begin_auth api_id api_hash (am_inner m1)\<rparr>;
          (d, r) = driver_request_login_code (al_grammers lib) phone api_id api_hash (am_driver m2);
          m3 = m2\<lparr>am_driver := d\<rparr>
      in case r of
        None \<Rightarrow> (m3, None)
      | Some (Inr _) \<Rightarrow> (m3, Some (Ok (auth_status m3)))
      | Some (Inl e) \<Rightarrow> (m3\<lparr>am_inner := auth_failed (TelegramError_display e) (am_inner m3)\<rparr>, Some (Err e)))"

definition submit_code ::
  "('ss, 't, 'p) auth_lib \<Rightarrow> auth_env \<Rightarrow> string \<Rightarrow> ('ss, 't, 'p) MtprotoAuthManager \<Rightarrow> ('ss, 't, 'p) auth_op" where
  "submit_code lib env code m =
     (let (d, r) = driver_submit_code (al_grammers lib) code (am_driver m); m1 = m\<lparr>am_driver := d\<rparr> in
      case r of
        None \<Rightarrow> (m1, None)
      | Some (Inr (Success a)) \<Rightarrow>
          let m2 = fst (persist_session lib env (m1\<lparr>am_inner := auth_succeeded a (am_inner m1)\<rparr>))
          in (m2, Some (Ok (auth_status m2)))
      | Some (Inr AuthCodeResult.PasswordRequired) \<Rightarrow>
          let m2 = m1\<lparr>am_inner := password_needed (am_inner m1)\<rparr> in (m2, Some (Ok (auth_status m2)))
      | Some (Inl e) \<Rightarrow> (m1\<lparr>am_inner := auth_failed (TelegramError_display e) (am_inner m1)\<rparr>, Some (Err e)))"

definition submit_password ::
  "('ss, 't, 'p) auth_lib \<Rightarrow> auth_env \<Rightarrow> string \<Rightarrow> ('ss, 't, 'p) MtprotoAuthManager \<Rightarrow> ('ss, 't, 'p) auth_op" where
  "submit_password lib env password m =
     (let (d, r) = driver_submit_password (al_grammers lib) password (am_driver m); m1 = m\<lparr>am_driver := d\<rparr> in
      case r of
        None \<Rightarrow> (m1, None)
      | Some (Inr a) \<Rightarrow>
          let m2 = fst (persist_session lib env (m1\<lparr>am_inner := auth_succeeded a (am_inner m1)\<rparr>))
          in (m2, Some (Ok (auth_status m2)))
      | Some (Inl e) \<Rightarrow> (m1\<lparr>am_inner := auth_failed (TelegramError_display e) (am_inner m1)\<rparr>, Some (Err e)))"

definition cancel_auth :: "('ss, 't, 'p) MtprotoAuthManager \<Rightarrow> ('ss, 't, 'p) MtprotoAuthManager \<times> TelegramAuthStatus" where
  "cancel_auth m = (let m1 = m\<lparr>am_inner := auth_cancelled (am_inner m)\<rparr> in (m1, auth_status m1))"

text \<open>The end of both channel operations.\<close>

definition finish_channel ::
  "('ss, 't, 'p) auth_lib \<Rightarrow> auth_env \<Rightarrow> (('ss, 't, 'p) MtprotoDriver, TelegramChannelInfo) driver_call
     \<Rightarrow> ('ss, 't, 'p) MtprotoAuthManager \<Rightarrow> ('ss, 't, 'p) auth_op" where
  "finish_channel lib env call m =
     (let m1 = m\<lparr>am_driver := fst call\<rparr> in
      case snd call of
        None \<Rightarrow> (m1, None)
      | Some (Inr c) \<Rightarrow>
          let m2 = fst (persist_session lib env (m1\<lparr>am_inner := channel_ready c (am_inner m1)\<rparr>))
          in (m2, Some (Ok (auth_status m2)))
      | Some (Inl e) \<Rightarrow> (m1\<lparr>am_inner := channel_failed (TelegramError_display e) (am_inner m1)\<rparr>, Some (Err e)))"

definition setup_backup_channel ::
  "('ss, 't, 'p) auth_lib \<Rightarrow> auth_env \<Rightarrow> int option \<Rightarrow> ('ss, 't, 'p) MtprotoAuthManager \<Rightarrow> ('ss, 't, 'p) auth_op" where
  "setup_backup_channel lib env manual m =
     (let m1 = m\<lparr>am_inner := begin_channel (am_inner m)\<rparr> in
      finish_channel lib env
        (case manual of
           Some cid \<Rightarrow> driver_verify_channel (al_grammers lib) cid (am_driver m1)
         | None \<Rightarrow> driver_create_backup_channel (al_grammers lib) ''TELEVAULT Backup Vault'' (am_driver m1)) m1)"

definition verify_backup_channel ::
  "('ss, 't, 'p) auth_lib \<Rightarrow> auth_env \<Rightarrow> ('ss, 't, 'p) MtprotoAuthManager \<Rightarrow> ('ss, 't, 'p) auth_op" where
  "verify_backup_channel lib env m =
     (case is_channel (am_inner m) of
        None \<Rightarrow> (m, Some (Err (TelegramError.ChannelSetupFailed ''No backup channel configured to verify'')))
      | Some c \<Rightarrow> finish_channel lib env (driver_verify_channel (al_grammers lib) (tch_channel_id c) (am_driver m)) m)"

definition logout ::
  "('ss, 't, 'p) auth_lib \<Rightarrow> auth_env \<Rightarrow> ('ss, 't, 'p) MtprotoAuthManager \<Rightarrow> ('ss, 't, 'p) auth_op" where
  "logout lib env m =
     (let m1 = m\<lparr>am_inner := begin_logout (am_inner m)\<rparr>;
          m2 = m1\<lparr>am_driver := fst (driver_sign_out (al_grammers lib) (am_driver m1))\<rparr>;
          m3 = (if am_file m2 \<noteq> None \<and> aq_remove_ok env then m2\<lparr>am_file := None\<rparr> else m2);
          m4 = m3\<lparr>am_inner := logged_out (am_inner m3)\<rparr>
      in (m4, Some (Ok (auth_status m4))))"

subsection \<open>Interleaved sections\<close>

text \<open>Commands run concurrently: the state changes by sections of any of them in any order. A channel is
  reported by a driver in whatever state the driver was then.\<close>

inductive section_step :: "('ss, 't, 'p) grammers \<Rightarrow> InnerState \<Rightarrow> InnerState \<Rightarrow> bool" for gm where
  begin_auth: "section_step gm i (begin_auth api_id api_hash i)"
| auth_failed: "section_step gm i (auth_failed msg i)"
| auth_succeeded: "section_step gm i (auth_succeeded a i)"
| password_needed: "section_step gm i (password_needed i)"
| auth_cancelled: "section_step gm i (auth_cancelled i)"
| begin_channel: "section_step gm i (begin_channel i)"
| verified: "snd (driver_verify_channel gm cid d) = Some (Inr c) \<Longrightarrow> section_step gm i (channel_ready c i)"
| created: "snd (driver_create_backup_channel gm title d) = Some (Inr c) \<Longrightarrow> section_step gm i (channel_ready c i)"
| channel_failed: "section_step gm i (channel_failed msg i)"
| begin_logout: "section_step gm i (begin_logout i)"
| logged_out: "section_step gm i (logged_out i)"

text \<open>The states reached from a fresh start, one of the given stored sessions or the ready mock.\<close>

inductive auth_reachable ::
  "('ss, 't, 'p) grammers \<Rightarrow> PersistedTelegramSession set \<Rightarrow> InnerState \<Rightarrow> bool" for gm stored where
  fresh: "auth_reachable gm stored fresh_inner"
| loaded: "s \<in> stored \<Longrightarrow> auth_reachable gm stored (inner_of_session s)"
| mock_ready: "auth_reachable gm stored ready_inner"
| step: "\<lbrakk>auth_reachable gm stored i; section_step gm i i'\<rbrakk> \<Longrightarrow> auth_reachable gm stored i'"

definition gate_ok :: "InnerState \<Rightarrow> bool" where
  "gate_ok i \<longleftrightarrow> (is_state i = Ready \<longrightarrow> (case is_channel i of Some c \<Rightarrow> tch_verified c | None \<Rightarrow> False))"

lemmas section_defs = begin_auth_def auth_failed_def auth_succeeded_def password_needed_def auth_cancelled_def
  begin_channel_def channel_ready_def channel_failed_def begin_logout_def logged_out_def

lemma verified_channel: "snd (driver_verify_channel gm cid d) = Some (Inr c) \<Longrightarrow> tch_verified c"
  by (cases d) (auto simp: on_mock_def on_real_def mock_verify_channel_def real_verify_channel_def Let_def split_beta
      split: if_splits sum.splits)

lemma created_channel: "snd (driver_create_backup_channel gm title d) = Some (Inr c) \<Longrightarrow> tch_verified c"
  by (cases d) (auto simp: on_mock_def on_real_def mock_create_backup_channel_def real_create_backup_channel_def Let_def
      split_beta split: if_splits sum.splits)

lemma section_gate: "section_step gm i i' \<Longrightarrow> gate_ok i \<Longrightarrow> gate_ok i'"
  by (induction rule: section_step.induct)
    (auto simp: gate_ok_def section_defs verified_channel created_channel split: option.splits if_splits)

lemma reachable_gate: "auth_reachable gm stored i \<Longrightarrow> gate_ok i"
proof (induction rule: auth_reachable.induct)
  case (step i i')
  then show ?case by (blast intro: section_gate)
qed (auto simp: gate_ok_def fresh_inner_def inner_of_session_def ready_inner_def ready_channel_def split: option.splits if_splits)

text \<open>Where a channel comes from: the answer of a driver, a stored session, or the ready mock.\<close>

definition channel_origin ::
  "('ss, 't, 'p) grammers \<Rightarrow> PersistedTelegramSession set \<Rightarrow> TelegramChannelInfo \<Rightarrow> bool" where
  "channel_origin gm stored c \<longleftrightarrow>
     (\<exists>cid d. snd (driver_verify_channel gm cid d) = Some (Inr c))
     \<or> (\<exists>title d. snd (driver_create_backup_channel gm title d) = Some (Inr c))
     \<or> (\<exists>s \<in> stored. pts_channel s = Some c) \<or> c = ready_channel"

lemma section_origin:
  assumes "section_step gm i i'" "is_channel i' = Some c"
  shows "is_channel i = Some c \<or> channel_origin gm stored c"
  using assms by (cases rule: section_step.cases) (auto simp: section_defs channel_origin_def)

lemma reachable_origin: "\<lbrakk>auth_reachable gm stored i; is_channel i = Some c\<rbrakk> \<Longrightarrow> channel_origin gm stored c"
proof (induction arbitrary: c rule: auth_reachable.induct)
  case (step i i')
  then show ?case by (blast dest: section_origin)
qed (auto simp: channel_origin_def fresh_inner_def inner_of_session_def ready_inner_def)

text \<open>Every operation is a sequence of sections.\<close>

lemma persist_frame [simp]:
  "am_inner (fst (persist_session lib env m)) = am_inner m" "am_driver (fst (persist_session lib env m)) = am_driver m"
  by (auto simp: persist_session_def split: option.splits sum.splits)

lemma finish_channel_sections:
  assumes "\<And>c. snd call = Some (Inr c) \<Longrightarrow> section_step gm i (channel_ready c i)" "am_inner m = i"
  shows "(section_step gm)\<^sup>*\<^sup>* i (am_inner (fst (finish_channel lib env call m)))"
  using assms
  by (auto simp: finish_channel_def Let_def r_into_rtranclp section_step.channel_failed
      split: option.splits sum.splits)

lemma start_auth_sections:
  "(section_step gm)\<^sup>*\<^sup>* (am_inner m) (am_inner (fst (start_auth lib env phone api_id api_hash m)))"
proof -
  have "section_step gm (am_inner m) (begin_auth api_id api_hash (am_inner m))" by (rule section_step.begin_auth)
  then show ?thesis
    by (auto simp: start_auth_def Let_def split_beta r_into_rtranclp split: option.splits sum.splits
        intro: rtranclp.rtrancl_into_rtrancl section_step.auth_failed)
qed

lemma submit_sections:
  "(section_step gm)\<^sup>*\<^sup>* (am_inner m) (am_inner (fst (submit_code lib env code m)))"
  "(section_step gm)\<^sup>*\<^sup>* (am_inner m) (am_inner (fst (submit_password lib env password m)))"
  by (auto simp: submit_code_def submit_password_def Let_def split_beta
      split: option.splits sum.splits AuthCodeResult.splits
      intro: r_into_rtranclp section_step.auth_failed section_step.auth_succeeded section_step.password_needed)

lemma channel_sections:
  "(section_step (al_grammers lib))\<^sup>*\<^sup>* (am_inner m) (am_inner (fst (setup_backup_channel lib env manual m)))"
  "(section_step (al_grammers lib))\<^sup>*\<^sup>* (am_inner m) (am_inner (fst (verify_backup_channel lib env m)))"
proof -
  let ?gm = "al_grammers lib" and ?i = "begin_channel (am_inner m)"
  have "(section_step ?gm)\<^sup>*\<^sup>* ?i (am_inner (fst (setup_backup_channel lib env manual m)))"
    unfolding setup_backup_channel_def Let_def
    by (rule finish_channel_sections) (auto split: option.splits intro: section_step.verified section_step.created)
  then show "(section_step ?gm)\<^sup>*\<^sup>* (am_inner m) (am_inner (fst (setup_backup_channel lib env manual m)))"
    by (rule converse_rtranclp_into_rtranclp [where r = "section_step ?gm", OF section_step.begin_channel])
  show "(section_step ?gm)\<^sup>*\<^sup>* (am_inner m) (am_inner (fst (verify_backup_channel lib env m)))"
  proof (cases "is_channel (am_inner m)")
    case (Some c)
    then show ?thesis
      unfolding verify_backup_channel_def by (auto intro!: finish_channel_sections intro: section_step.verified)
  qed (simp add: verify_backup_channel_def)
qed

lemma end_sections:
  "(section_step gm)\<^sup>*\<^sup>* (am_inner m) (am_inner (fst (cancel_auth m)))"
  "(section_step gm)\<^sup>*\<^sup>* (am_inner m) (am_inner (fst (logout lib env m)))"
proof -
  show "(section_step gm)\<^sup>*\<^sup>* (am_inner m) (am_inner (fst (cancel_auth m)))"
    by (auto simp: cancel_auth_def Let_def intro: r_into_rtranclp section_step.auth_cancelled)
  have "(section_step gm)\<^sup>*\<^sup>* (am_inner m) (logged_out (begin_logout (am_inner m)))"
    by (meson converse_rtranclp_into_rtranclp r_into_rtranclp section_step.begin_logout section_step.logged_out)
  then show "(section_step gm)\<^sup>*\<^sup>* (am_inner m) (am_inner (fst (logout lib env m)))"
    by (simp add: logout_def Let_def)
qed

lemma sections_reachable: "\<lbrakk>(section_step gm)\<^sup>*\<^sup>* i i'; auth_reachable gm stored i\<rbrakk> \<Longrightarrow> auth_reachable gm stored i'"
  by (induction rule: rtranclp_induct) (auto intro: auth_reachable.step)

text \<open>The commands of the manager, one after the other.\<close>

datatype auth_command =
    StartAuth string int string
  | SubmitCode string
  | SubmitPassword string
  | CancelAuth
  | SetupChannel "int option"
  | VerifyChannel
  | Logout

fun run_command ::
  "('ss, 't, 'p) auth_lib \<Rightarrow> auth_env \<Rightarrow> auth_command \<Rightarrow> ('ss, 't, 'p) MtprotoAuthManager \<Rightarrow> ('ss, 't, 'p) MtprotoAuthManager" where
  "run_command lib env (StartAuth phone i h) m = fst (start_auth lib env phone i h m)"
| "run_command lib env (SubmitCode code) m = fst (submit_code lib env code m)"
| "run_command lib env (SubmitPassword pw) m = fst (submit_password lib env pw m)"
| "run_command lib env CancelAuth m = fst (cancel_auth m)"
| "run_command lib env (SetupChannel manual) m = fst (setup_backup_channel lib env manual m)"
| "run_command lib env VerifyChannel m = fst (verify_backup_channel lib env m)"
| "run_command lib env Logout m = fst (logout lib env m)"

fun run_commands ::
  "('ss, 't, 'p) auth_lib \<Rightarrow> (auth_env \<times> auth_command) list \<Rightarrow> ('ss, 't, 'p) MtprotoAuthManager \<Rightarrow> ('ss, 't, 'p) MtprotoAuthManager" where
  "run_commands lib [] m = m"
| "run_commands lib ((env, c) # cs) m = run_commands lib cs (run_command lib env c m)"

lemma run_command_sections: "(section_step (al_grammers lib))\<^sup>*\<^sup>* (am_inner m) (am_inner (run_command lib env c m))"
  by (cases c) (simp_all add: start_auth_sections submit_sections channel_sections end_sections)

lemma run_commands_reachable:
  "auth_reachable (al_grammers lib) stored (am_inner m) \<Longrightarrow> auth_reachable (al_grammers lib) stored (am_inner (run_commands lib cs m))"
proof (induction cs arbitrary: m)
  case (Cons ec cs)
  obtain env c where ec: "ec = (env, c)" by (cases ec)
  have "auth_reachable (al_grammers lib) stored (am_inner (run_command lib env c m))"
    using run_command_sections Cons.prems by (rule sections_reachable)
  then show ?case by (simp add: ec Cons.IH)
qed simp

text \<open>The session a manager is started with, if its file has one.\<close>

definition sessions_of :: "('ss, 't, 'p) auth_lib \<Rightarrow> string option \<Rightarrow> PersistedTelegramSession set" where
  "sessions_of lib f = {s. \<exists>j. f = Some j \<and> al_session_parse lib j = Inr s}"

lemma new_reachable: "auth_reachable gm (sessions_of lib f) (am_inner (MtprotoAuthManager_new lib env f d))"
  by (auto simp: MtprotoAuthManager_new_def auth_reachable.fresh sessions_of_def intro: auth_reachable.loaded
      split: option.splits sum.splits)

subsection \<open>Properties\<close>

text \<open>C21. What an open gate means: in every state reachable by sections of concurrent commands in any order, from a fresh
  start, one of the given stored sessions or the ready mock, and after any further sequence of commands, the gate is open
  only with a configured channel whose flag is set and that a driver answered for without an error when it was asked to
  create it or to look it up, or that came from one of those sessions or is the channel of the ready mock. The flag is no
  more than that: no permission is asked for, see \<open>empty_answer_verifies\<close>.\<close>

theorem auth_gate_sound:
  assumes "auth_reachable (al_grammers lib) stored (am_inner m)" "check_auth_gate (run_commands lib cs m) = Inr ()"
  shows "\<exists>c. is_channel (am_inner (run_commands lib cs m)) = Some c \<and> tch_verified c
    \<and> channel_origin (al_grammers lib) stored c"
proof -
  let ?i = "am_inner (run_commands lib cs m)"
  have reach: "auth_reachable (al_grammers lib) stored ?i" by (rule run_commands_reachable [OF assms(1)])
  from assms(2) have "is_state ?i = Ready" by (auto simp: check_auth_gate_def split: if_splits)
  with reachable_gate [OF reach] obtain c where "is_channel ?i = Some c" "tch_verified c"
    by (auto simp: gate_ok_def split: option.splits)
  with reachable_origin [OF reach] show ?thesis by blast
qed

text \<open>A look-up that finds no chat at all still yields a channel with the flag set, so the gate opens for an identifier
  that names nothing.\<close>

lemma empty_answer_verifies:
  assumes "\<And>s client. gm_get_channels gm s client cid = (s, Inr (TlChats []))"
  shows "\<exists>d'. real_verify_channel gm cid d = (d', Some (Ok \<lparr>tch_channel_id = cid, tch_channel_title = ''Telegram Channel'',
    tch_is_private = True, tch_verified = True, tch_created_by_televault = False\<rparr>))"
  using assms by (simp add: real_verify_channel_def Let_def split_beta)

definition sample_grammers :: "(unit, unit, unit) grammers" where
  "sample_grammers =
     \<lparr>gm_fresh = (), gm_restore = (\<lambda>_. ()), gm_request_code = (\<lambda>_ _ _ _. ((), Inr ())),
      gm_sign_in = (\<lambda>_ _ _ _. ((), Inl SiInvalidCode)), gm_check_password = (\<lambda>_ _ _ _. ((), Inl SiInvalidPassword)),
      gm_create_channel = (\<lambda>_ _ _. ((), Inl ''e'')), gm_get_channels = (\<lambda>_ _ _. ((), Inl ''e'')),
      gm_get_me = (\<lambda>_ _. ((), Inl ''e'')), gm_export = (\<lambda>_. []), gm_sign_in_text = (\<lambda>_. ''e'')\<rparr>"

definition sample_session :: PersistedTelegramSession where
  "sample_session = \<lparr>pts_account = ready_account, pts_channel = Some ready_channel, pts_session_bytes = bytes_of ''MOCK'',
     pts_api_id = 1, pts_api_hash = ''h'', pts_updated_at = ''t''\<rparr>"

definition sample_auth_lib :: "(unit, unit, unit) auth_lib" where
  "sample_auth_lib = \<lparr>al_grammers = sample_grammers,
     al_session_json = (\<lambda>s. if s = sample_session then Inr ''{}'' else Inl ''e''),
     al_session_parse = (\<lambda>j. if j = ''{}'' then Inr sample_session else Inl ''e'')\<rparr>"

definition sample_auth_env :: auth_env where
  "sample_auth_env = \<lparr>aq_mock_env = False, aq_now = ''t'', aq_read_error = False, aq_write_error = None, aq_remove_ok = True\<rparr>"

text \<open>A live installation restored from a session of the mock account, a login through the mock number and a new
  channel.\<close>

definition sample_commands :: "(auth_env \<times> auth_command) list" where
  "sample_commands = map (Pair sample_auth_env)
     [Logout, StartAuth ''+1 555 123 4567'' 1 ''hash'', SubmitCode ''12345'', SetupChannel None]"

lemma sample_run_gate:
  "check_auth_gate (run_commands sample_auth_lib sample_commands (new_live sample_auth_lib sample_auth_env None 1 ''hash'')) = Inr ()"
proof -
  have "trim ''12345'' = ''12345''" "trim ''+1 555 123 4567'' = ''+1 555 123 4567''" "trim ''hash'' = ''hash''" by code_simp+
  moreover have "redact_phone_number ''+1 555 123 4567'' = Some ''+1  *** *** 4567''" by code_simp
  ultimately show ?thesis
    by (simp add: sample_commands_def new_live_def MtprotoAuthManager_new_def logout_def start_auth_def use_mock_def
        choose_driver_def on_real_def on_mock_def real_sign_out_def mock_request_login_code_def bad_phone_def submit_code_def
        mock_submit_code_def mock_phone_def ends_with_def setup_backup_channel_def finish_channel_def
        mock_create_backup_channel_def MockMtprotoDriver_new_def check_auth_gate_def section_defs Let_def)
qed

theorem auth_gate_sound_witness:
  "\<exists>c. is_channel (am_inner (run_commands sample_auth_lib sample_commands
      (new_live sample_auth_lib sample_auth_env None 1 ''hash''))) = Some c \<and> tch_verified c
    \<and> channel_origin (al_grammers sample_auth_lib) {} c"
proof -
  have "auth_reachable (al_grammers sample_auth_lib) {} (am_inner (new_live sample_auth_lib sample_auth_env None 1 ''hash''))"
    using new_reachable [where f = None] unfolding new_live_def by (simp add: sessions_of_def)
  from auth_gate_sound [OF this sample_run_gate] show ?thesis .
qed

text \<open>A stored session restores the login: when the file could be written and the JSON library reads back what it
  wrote, a manager started from the file has the account, channel and API credentials of the one that wrote it, is
  unlocked exactly when the channel was verified, and asks for channel setup otherwise.\<close>

theorem session_restores_login:
  assumes "persist_session lib env m = (m', Inr ())" "is_account (am_inner m) = Some a" "\<not> aq_read_error env'"
    and serde_roundtrip: "\<And>x j. al_session_json lib x = Inr j \<Longrightarrow> al_session_parse lib j = Inr x"
  shows "am_inner (MtprotoAuthManager_new lib env' (am_file m') d)
    = (am_inner m)\<lparr>is_state := (case is_channel (am_inner m) of
          Some c \<Rightarrow> (if tch_verified c then Ready else ChannelSetupRequired) | None \<Rightarrow> ChannelSetupRequired),
        is_requires_password := False, is_last_error := None\<rparr>"
proof -
  let ?s = "\<lparr>pts_account = a, pts_channel = is_channel (am_inner m),
      pts_session_bytes = export_session_bytes (al_grammers lib) (am_driver m),
      pts_api_id = is_api_id (am_inner m), pts_api_hash = is_api_hash (am_inner m), pts_updated_at = aq_now env\<rparr>"
  from assms(1,2) obtain j where "al_session_json lib ?s = Inr j" "am_file m' = Some j"
    by (auto simp: persist_session_def split: sum.splits option.splits)
  then have "am_inner (MtprotoAuthManager_new lib env' (am_file m') d) = inner_of_session ?s"
    using serde_roundtrip assms(3) by (simp add: MtprotoAuthManager_new_def)
  then show ?thesis using assms(2) by (cases "am_inner m") (auto simp: inner_of_session_def split: option.splits)
qed

theorem session_restores_login_witness:
  "check_auth_gate (MtprotoAuthManager_new sample_auth_lib sample_auth_env
     (am_file (fst (persist_session sample_auth_lib sample_auth_env
        \<lparr>am_driver = Mock (MockMtprotoDriver_new\<lparr>mmd_session_data := bytes_of ''MOCK''\<rparr>),
         am_inner = ready_inner\<lparr>is_api_id := 1, is_api_hash := ''h''\<rparr>, am_file = None\<rparr>)))
     (Mock MockMtprotoDriver_new)) = Inr ()"
proof -
  let ?m = "\<lparr>am_driver = Mock (MockMtprotoDriver_new\<lparr>mmd_session_data := bytes_of ''MOCK''\<rparr>),
         am_inner = ready_inner\<lparr>is_api_id := 1, is_api_hash := ''h''\<rparr>, am_file = None\<rparr>
       :: (unit, unit, unit) MtprotoAuthManager"
  have "snd (persist_session sample_auth_lib sample_auth_env ?m) = Inr ()"
    by (simp add: persist_session_def sample_auth_lib_def sample_auth_env_def ready_inner_def sample_session_def)
  then obtain m' where run: "persist_session sample_auth_lib sample_auth_env ?m = (m', Inr ())" by (metis prod.collapse)
  have rt: "al_session_parse sample_auth_lib j = Inr x" if "al_session_json sample_auth_lib x = Inr j" for x j
    using that by (auto simp: sample_auth_lib_def split: if_splits)
  have "am_inner (MtprotoAuthManager_new sample_auth_lib sample_auth_env (am_file m') (Mock MockMtprotoDriver_new))
      = (am_inner ?m)\<lparr>is_state := (case is_channel (am_inner ?m) of
          Some c \<Rightarrow> (if tch_verified c then Ready else ChannelSetupRequired) | None \<Rightarrow> ChannelSetupRequired),
        is_requires_password := False, is_last_error := None\<rparr>"
    by (rule session_restores_login [OF run _ _ rt]) (auto simp: ready_inner_def sample_auth_env_def)
  then have gate: "check_auth_gate (MtprotoAuthManager_new sample_auth_lib sample_auth_env (am_file m')
      (Mock MockMtprotoDriver_new)) = Inr ()"
    by (simp add: check_auth_gate_def ready_inner_def ready_channel_def)
  show ?thesis unfolding run fst_conv by (rule gate)
qed

subsection \<open>Faults\<close>

text \<open>The gate asks for a channel, not for an account: setting up a channel without any login opens it when the driver
  is the mock, and the mock is chosen by a phone number.\<close>

lemma gate_without_login:
  "check_auth_gate (fst (setup_backup_channel lib env None (new_mock lib env None))) = Inr ()"
  "is_account (am_inner (fst (setup_backup_channel lib env None (new_mock lib env None)))) = None"
  by (simp_all add: setup_backup_channel_def finish_channel_def new_mock_def MtprotoAuthManager_new_def on_mock_def
      mock_create_backup_channel_def MockMtprotoDriver_new_def check_auth_gate_def section_defs fresh_inner_def Let_def)

lemma mock_number_unlocks:
  "\<exists>m'. am_driver (run_command lib env (StartAuth ''+1 555 123 4567'' 1 ''hash'') m) = Mock m'
    \<and> (am_driver m = Real r \<longrightarrow> check_auth_gate (run_commands lib
          [(env, StartAuth ''+1 555 123 4567'' 1 ''hash''), (env, SetupChannel None)] m) = Inr ())"
proof -
  have t: "trim ''+1 555 123 4567'' = ''+1 555 123 4567''" "trim ''hash'' = ''hash''" by code_simp+
  show ?thesis
    by (cases "am_driver m")
      (simp_all add: start_auth_def use_mock_def choose_driver_def on_mock_def mock_request_login_code_def bad_phone_def t
        setup_backup_channel_def finish_channel_def mock_create_backup_channel_def MockMtprotoDriver_new_def
        check_auth_gate_def section_defs Let_def)
qed

text \<open>A session that Telegram revoked is never noticed: the states for it are not reachable.\<close>

lemma never_expired:
  "auth_reachable gm stored i \<Longrightarrow> is_state i \<notin> {AuthState.SessionExpired, RecoverableError, Authenticated, Initializing}"
proof (induction rule: auth_reachable.induct)
  case (step i i')
  from step.hyps(2) step.IH show ?case
    by (induction rule: section_step.induct) (auto simp: section_defs split: option.splits)
qed (auto simp: fresh_inner_def inner_of_session_def ready_inner_def split: option.splits)

text \<open>A restarted live manager is unlocked from the file while its driver has a fresh session: the stored session bytes
  are not read.\<close>

lemma restart_forgets_session:
  assumes "al_session_parse lib j = Inr s" "pts_channel s = Some c" "tch_verified c" "\<not> aq_read_error env"
  shows "check_auth_gate (new_live lib env (Some j) api_id api_hash) = Inr ()"
    and "am_driver (new_live lib env (Some j) api_id api_hash)
      = Real ((GrammersMtprotoDriver_new (al_grammers lib) api_id api_hash)\<lparr>gd_session := gm_fresh (al_grammers lib)\<rparr>)"
  using assms
  by (simp_all add: new_live_def MtprotoAuthManager_new_def check_auth_gate_def inner_of_session_def
      GrammersMtprotoDriver_new_def)

text \<open>Redacting a phone number panics when a character outside ASCII lies across the third byte.\<close>

lemma redact_panics: "redact_phone_number (''+1'' @ [CHR 0xC3, CHR 0xA9] @ ''23456'') = None"
  by code_simp

end
