(* ===== verification/Telegram_Http.thy ===== *)
theory Telegram_Http
  imports Telegram_Auth
begin

text \<open>
  The transport over the Bot API (\<open>http.rs\<close>), and the provider over it.

  The HTTP client and the JSON reader are not part of the sources: they are the record \<open>http_lib\<close>. A POST may change the
  remote side, which is the state \<open>'n\<close>; a GET does not. The body of a response is given both as the text
  the client would collect and as the reads a stream of it would give. The spool file is written
  block by block; what the operating system answers is the record \<open>spool_env\<close>.
\<close>

subsection \<open>Requests and responses\<close>

datatype http_request =
    PostJson string "(string \<times> int) list"
  | PostForm string "(string \<times> string) list" string bytes

record net_error =
  ne_message :: string
  ne_timeout :: bool

record Response =
  rs_status :: nat
  rs_status_text :: string
  rs_text :: "string option"
  rs_body :: reader

definition is_success :: "Response \<Rightarrow> bool" where
  "is_success r \<longleftrightarrow> 200 \<le> rs_status r \<and> rs_status r < 300"

record 'a ApiEnvelope =
  ae_ok :: bool
  ae_result :: "'a option"
  ae_description :: "string option"
  ae_error_code :: "int option"
  ae_retry_after :: "u64 option option" \<comment> \<open>\<open>parameters\<close>, whose only field is \<open>retry_after\<close>\<close>

record UserDto =
  ud_id :: int
  ud_first_name :: string
  ud_username :: "string option"

record ChatDto =
  cd_title :: "string option"
  cd_username :: "string option"
  cd_first_name :: "string option"

record DocumentDto =
  dd_file_id :: string
  dd_file_name :: "string option"
  dd_mime_type :: "string option"
  dd_file_size :: "u64 option"

record MessageDto =
  md_message_id :: int
  md_document :: "DocumentDto option"
  md_caption :: "string option"

record FileDto =
  fd_file_size :: "u64 option"
  fd_file_path :: "string option"

record 'n http_lib =
  hl_build :: "string option"
  hl_get :: "'n \<Rightarrow> string \<Rightarrow> (net_error, Response) result"
  hl_post :: "'n \<Rightarrow> http_request \<Rightarrow> 'n \<times> (net_error, Response) result"
  hl_mime :: "string option"
  hl_value :: "string \<Rightarrow> unit ApiEnvelope option"
  hl_user :: "Response \<Rightarrow> (string, UserDto ApiEnvelope) result"
  hl_chat :: "Response \<Rightarrow> (string, ChatDto ApiEnvelope) result"
  hl_message :: "Response \<Rightarrow> (string, MessageDto ApiEnvelope) result"
  hl_file :: "Response \<Rightarrow> (string, FileDto ApiEnvelope) result"

record spool_env =
  sp_path :: string
  sp_create :: "io_error option"
  sp_write :: "nat \<Rightarrow> io_error option"
  sp_flush :: "io_error option"
  sp_open :: "io_error option"
  sp_removed :: bool

record 'n HttpTelegramTransport =
  ht_credentials :: TelegramCredentials
  ht_base_url :: string
  ht_net :: 'n
  ht_files :: "string \<Rightarrow> bytes option"

subsection \<open>http.rs\<close>

definition DEFAULT_TELEGRAM_API_BASE :: string where
  "DEFAULT_TELEGRAM_API_BASE = ''https://api.telegram.org''"

definition HttpTelegramTransport_new ::
  "'n http_lib \<Rightarrow> 'n \<Rightarrow> (string \<Rightarrow> bytes option) \<Rightarrow> TelegramCredentials
     \<Rightarrow> (TelegramError, 'n HttpTelegramTransport) result" where
  "HttpTelegramTransport_new lib net fs c =
     bind_res (TelegramCredentials_validate c) (\<lambda>_.
       case hl_build lib of
         Some e \<Rightarrow> Err (TelegramError.Transport (''Failed to build HTTP client: '' @ e))
       | None \<Rightarrow> Ok \<lparr>ht_credentials = c,
                     ht_base_url = (case tcr_api_endpoint c of Some u \<Rightarrow> u | None \<Rightarrow> DEFAULT_TELEGRAM_API_BASE),
                     ht_net = net, ht_files = fs\<rparr>)"

definition ht_target_chat_id :: "'n HttpTelegramTransport \<Rightarrow> int" where
  "ht_target_chat_id t = tcr_target_chat_id (ht_credentials t)"

definition bot_url :: "'n HttpTelegramTransport \<Rightarrow> string \<Rightarrow> string" where
  "bot_url t method = ht_base_url t @ ''/bot'' @ tcr_bot_token (ht_credentials t) @ ''/'' @ method"

definition file_download_url :: "'n HttpTelegramTransport \<Rightarrow> string \<Rightarrow> string" where
  "file_download_url t file_path = ht_base_url t @ ''/file/bot'' @ tcr_bot_token (ht_credentials t) @ ''/'' @ file_path"

definition get_file_url :: "'n HttpTelegramTransport \<Rightarrow> string \<Rightarrow> string" where
  "get_file_url t fid = bot_url t ''getFile'' @ ''?file_id='' @ fid"

definition body_text :: "Response \<Rightarrow> string" where
  "body_text r = (case rs_text r of Some b \<Rightarrow> b | None \<Rightarrow> [])"

definition api_error :: "'n http_lib \<Rightarrow> Response \<Rightarrow> TelegramError" where
  "api_error lib r =
     (case hl_value lib (body_text r) of
        None \<Rightarrow> TelegramError.Transport (''HTTP request failed with status '' @ rs_status_text r @ '': '' @ body_text r)
      | Some err \<Rightarrow>
          let retry_after = (case ae_retry_after err of None \<Rightarrow> None | Some x \<Rightarrow> x) in
          if rs_status r = 429 \<or> retry_after \<noteq> None then
            TelegramError.RateLimited (case retry_after of Some n \<Rightarrow> n | None \<Rightarrow> 30)
          else
            TelegramError.Api (case ae_error_code err of Some c \<Rightarrow> c | None \<Rightarrow> int (rs_status r))
              (case ae_description err of Some d \<Rightarrow> d | None \<Rightarrow> rs_status_text r) retry_after)"

definition handle_api_error :: "'n http_lib \<Rightarrow> Response \<Rightarrow> (TelegramError, 'a) result" where
  "handle_api_error lib r = Err (api_error lib r)"

definition or_else :: "'a option \<Rightarrow> 'a option \<Rightarrow> 'a option" where
  "or_else x y = (case x of Some a \<Rightarrow> Some a | None \<Rightarrow> y)"

definition http_test_connection ::
  "'n http_lib \<Rightarrow> 'n HttpTelegramTransport \<Rightarrow> int
     \<Rightarrow> 'n HttpTelegramTransport \<times> (TelegramError, TelegramConnectionInfo) result" where
  "http_test_connection lib t chat =
     (case hl_get lib (ht_net t) (bot_url t ''getMe'') of
        Inl e \<Rightarrow> (t, Err (TelegramError.Transport (''Connection test failed: '' @ ne_message e)))
      | Inr me \<Rightarrow>
          if \<not> is_success me then (t, handle_api_error lib me)
          else case bind_res (map_err (\<lambda>e. TelegramError.Transport (''Failed to parse getMe response: '' @ e)) (hl_user lib me))
              (\<lambda>env. ok_or (TelegramError.Transport ''Invalid response: missing bot user info'') (ae_result env)) of
            Inl e \<Rightarrow> (t, Err e)
          | Inr user \<Rightarrow>
              (case hl_post lib (ht_net t) (PostJson (bot_url t ''getChat'') [(''chat_id'', chat)]) of
                 (n', Inl e) \<Rightarrow>
                   (t\<lparr>ht_net := n'\<rparr>, Err (TelegramError.Transport (''Chat verification failed: '' @ ne_message e)))
               | (n', Inr resp) \<Rightarrow>
                   let title =
                     (if is_success resp then
                        (case hl_chat lib resp of
                           Inl _ \<Rightarrow> None
                         | Inr env \<Rightarrow>
                             (case ae_result env of
                                None \<Rightarrow> None
                              | Some c \<Rightarrow>
                                  or_else (or_else (cd_title c) (map_option (\<lambda>u. ''@'' @ u) (cd_username c)))
                                    (cd_first_name c)))
                      else None) in
                   (t\<lparr>ht_net := n'\<rparr>,
                    Ok \<lparr>tci_bot_id = ud_id user, tci_bot_username = ud_username user, tci_first_name = ud_first_name user,
                        tci_chat_title = title\<rparr>)))"

text \<open>The spool loop: the blocks written to the file, all the bytes read, and the error that
  ended it, if any. \<open>k\<close> counts the writes.\<close>

fun spool_loop :: "(nat \<Rightarrow> io_error option) \<Rightarrow> nat \<Rightarrow> reader \<Rightarrow> bytes \<Rightarrow> bytes \<times> (io_error, bytes) result" where
  "spool_loop wr k [] acc = (acc, Ok acc)"
| "spool_loop wr k (RErr e # evs) acc = (acc, Err e)"
| "spool_loop wr k (RData bs # evs) acc =
     (if bs = [] then (acc, Ok acc)
      else case wr k of
        Some e \<Rightarrow> (acc, Err e)
      | None \<Rightarrow> spool_loop wr (Suc k) evs (acc @ bs))"

definition remove_spool :: "spool_env \<Rightarrow> 'n HttpTelegramTransport \<Rightarrow> 'n HttpTelegramTransport" where
  "remove_spool env t = (if sp_removed env then t\<lparr>ht_files := (ht_files t)(sp_path env := None)\<rparr> else t)"

definition spool ::
  "spool_env \<Rightarrow> reader \<Rightarrow> 'n HttpTelegramTransport \<Rightarrow> 'n HttpTelegramTransport \<times> (TelegramError, bytes) result" where
  "spool env rd t =
     (case sp_create env of
        Some e \<Rightarrow> (t, Err (TelegramError.Io e))
      | None \<Rightarrow>
          let (content, r) = spool_loop (sp_write env) 0 rd [];
              t1 = t\<lparr>ht_files := (ht_files t)(sp_path env \<mapsto> content)\<rparr> in
          (case r of
             Inl e \<Rightarrow> (t1, Err (TelegramError.Io e))
           | Inr data \<Rightarrow>
               (case sp_flush env of
                  Some e \<Rightarrow> (t1, Err (TelegramError.Io e))
                | None \<Rightarrow>
                    (case sp_open env of
                       Some e \<Rightarrow> (remove_spool env t1, Err (TelegramError.Io e))
                     | None \<Rightarrow>
                         (t1, Ok data)))))"

definition document_form :: "'n HttpTelegramTransport \<Rightarrow> int \<Rightarrow> string \<Rightarrow> string \<Rightarrow> bytes \<Rightarrow> http_request" where
  "document_form t chat caption file_name content =
     PostForm (bot_url t ''sendDocument'') [(''chat_id'', show_int chat), (''caption'', caption)] file_name content"

definition sent_message ::
  "'n http_lib \<Rightarrow> int \<Rightarrow> string \<Rightarrow> string \<Rightarrow> u64 \<Rightarrow> (net_error, Response) result
     \<Rightarrow> (TelegramError, TelegramDocumentMessage) result" where
  "sent_message lib chat caption file_name total_bytes response =
     bind_res (map_err (\<lambda>e. TelegramError.Transport
       (if ne_timeout e then ''Upload timed out: '' @ ne_message e
        else ''Network error during sendDocument: '' @ ne_message e)) response) (\<lambda>resp.
     if \<not> is_success resp then handle_api_error lib resp
     else
       bind_res (map_err (\<lambda>e. TelegramError.Transport (''Failed to parse sendDocument response: '' @ e))
         (hl_message lib resp)) (\<lambda>env.
       bind_res (ok_or (TelegramError.Transport ''sendDocument succeeded but result message is missing'')
         (ae_result env)) (\<lambda>msg.
       bind_res (ok_or (TelegramError.DocumentNotFound chat (md_message_id msg)) (md_document msg)) (\<lambda>doc.
       Ok \<lparr>tdm_chat_id = chat, tdm_message_id = md_message_id msg, tdm_file_id = dd_file_id doc,
           tdm_size_bytes = (case dd_file_size doc of Some n \<Rightarrow> n | None \<Rightarrow> total_bytes),
           tdm_mime_type = dd_mime_type doc, tdm_file_name = or_else (dd_file_name doc) (Some file_name),
           tdm_caption = or_else (md_caption msg) (Some caption)\<rparr>))))"

definition http_send_document ::
  "'n http_lib \<Rightarrow> spool_env \<Rightarrow> 'n HttpTelegramTransport send_fn" where
  "http_send_document lib env t chat caption file_name rd =
     (case spool env rd t of
        (t1, Inl e) \<Rightarrow> (t1, Err e)
      | (t1, Inr data) \<Rightarrow>
          (case hl_mime lib of
             Some e \<Rightarrow> (remove_spool env t1, Err (TelegramError.Transport (''Failed to build multipart part: '' @ e)))
           | None \<Rightarrow>
               let (n', response) = hl_post lib (ht_net t1) (document_form t1 chat caption file_name data) in
               (remove_spool env (t1\<lparr>ht_net := n'\<rparr>),
                map_sum id (\<lambda>doc. (doc, data))
                  (sent_message lib chat caption file_name (of_nat (length data)) response))))"

definition resolve_file ::
  "'n http_lib \<Rightarrow> string \<Rightarrow> 'n HttpTelegramTransport \<Rightarrow> int \<Rightarrow> int \<Rightarrow> string \<Rightarrow> (TelegramError, FileDto) result" where
  \<comment> \<open>the request \<open>getFile\<close> that a download and a metadata query begin with\<close>
  "resolve_file lib what t chat msg fid =
     bind_res (map_err (\<lambda>e. TelegramError.Transport (what @ ne_message e)) (hl_get lib (ht_net t) (get_file_url t fid)))
       (\<lambda>resp.
         if \<not> is_success resp then
           (if rs_status resp = 400 \<or> rs_status resp = 404 then Err (TelegramError.DocumentNotFound chat msg)
            else handle_api_error lib resp)
         else
           bind_res (map_err (\<lambda>e. TelegramError.Transport (''Failed to parse getFile response: '' @ e)) (hl_file lib resp))
             (\<lambda>env. ok_or (TelegramError.DocumentNotFound chat msg) (ae_result env)))"

fun copy_loop :: "'w write_fn \<Rightarrow> 'w \<Rightarrow> reader \<Rightarrow> u64 \<Rightarrow> ('w \<times> (io_error, u64) result) option" where
  "copy_loop wr w [] n = Some (w, Ok n)"
| "copy_loop wr w (RErr e # evs) n = Some (w, Err e)"
| "copy_loop wr w (RData bs # evs) n =
     (if bs = [] then Some (w, Ok n)
      else case write_all wr w bs of
        None \<Rightarrow> None
      | Some (w', Inl e) \<Rightarrow> Some (w', Err e)
      | Some (w', Inr _) \<Rightarrow> copy_loop wr w' evs (n + of_nat (length bs)))"

definition http_get_document_stream ::
  "'n http_lib \<Rightarrow> io_error option \<Rightarrow> ('n HttpTelegramTransport, 'w) stream_fn" where
  "http_get_document_stream lib flush_error t chat msg fid wr w =
     (case bind_res (resolve_file lib ''getFile failed: '' t chat msg fid) (\<lambda>info.
             ok_or (TelegramError.Transport ''Telegram returned empty file_path (file may exceed download limits)'')
               (fd_file_path info)) of
        Inl e \<Rightarrow> Some (t, w, Err e)
      | Inr file_path \<Rightarrow>
          (case hl_get lib (ht_net t) (file_download_url t file_path) of
             Inl e \<Rightarrow> Some (t, w, Err (TelegramError.Transport (''Download request failed: '' @ ne_message e)))
           | Inr resp \<Rightarrow>
               if \<not> is_success resp then Some (t, w, handle_api_error lib resp)
               else
                 map_option (\<lambda>(w', r). (t, w', bind_res (map_err TelegramError.Io r) (\<lambda>n.
                     case flush_error of Some e \<Rightarrow> Err (TelegramError.Io e) | None \<Rightarrow> Ok n)))
                   (copy_loop wr w (rs_body resp) 0)))"

definition http_get_message_metadata :: "'n http_lib \<Rightarrow> 'n HttpTelegramTransport info_fn" where
  "http_get_message_metadata lib t chat msg fid =
     bind_res (resolve_file lib ''getFile metadata check failed: '' t chat msg fid) (\<lambda>info.
     Ok \<lparr>tdm_chat_id = chat, tdm_message_id = msg, tdm_file_id = fid,
         tdm_size_bytes = (case fd_file_size info of Some n \<Rightarrow> n | None \<Rightarrow> 0),
         tdm_mime_type = Some ''application/octet-stream'', tdm_file_name = None, tdm_caption = None\<rparr>)"

definition str_contains :: "string \<Rightarrow> string \<Rightarrow> bool" where
  "str_contains s p \<longleftrightarrow> list_ex (\<lambda>i. take (length p) (drop i s) = p) [0..<Suc (length s)]"

definition http_delete_message ::
  "'n http_lib \<Rightarrow> 'n HttpTelegramTransport \<Rightarrow> int \<Rightarrow> int
     \<Rightarrow> 'n HttpTelegramTransport \<times> (TelegramError, unit) result" where
  "http_delete_message lib t chat msg =
     (let (n', r) = hl_post lib (ht_net t)
            (PostJson (bot_url t ''deleteMessage'') [(''chat_id'', chat), (''message_id'', msg)]) in
      (t\<lparr>ht_net := n'\<rparr>,
       bind_res (map_err (\<lambda>e. TelegramError.Transport (''deleteMessage failed: '' @ ne_message e)) r) (\<lambda>resp.
         if is_success resp \<or> str_contains (body_text resp) ''message to delete not found'' then Ok ()
         else Err (TelegramError.Transport (''Failed to delete Telegram message: HTTP '' @ rs_status_text resp @ '' ''
                @ body_text resp)))))"

subsection \<open>The loops\<close>

lemma spool_loop_ok: "spool_loop wr k rd acc = (content, Inr data) \<Longrightarrow> content = data \<and> read_loop rd acc = Inr data"
  by (induction wr k rd acc rule: spool_loop.induct) (auto split: if_splits option.splits)

lemma spool_loop_read_error: "read_loop rd acc = Inl e \<Longrightarrow> \<exists>content e'. spool_loop wr k rd acc = (content, Inl e')"
  by (induction wr k rd acc rule: spool_loop.induct) (auto split: if_splits option.splits)

text \<open>Copying through the hashing writer into memory: what was hashed is what was written and
  counted.\<close>

lemma copy_loop_hashing:
  "copy_loop (HashingWriter_write vec_write) w rd n = Some (w', r) \<Longrightarrow>
     \<exists>bs. hwt_inner w' = hwt_inner w @ bs \<and> hwt_fed w' = hwt_fed w @ bs
       \<and> (\<forall>m. r = Inr m \<longrightarrow> m = n + of_nat (length bs) \<and> hwt_total_bytes w' = hwt_total_bytes w + of_nat (length bs))"
proof (induction "HashingWriter_write vec_write" w rd n rule: copy_loop.induct)
  case (3 w bs evs n)
  show ?case
  proof (cases "bs = []")
    case False
    let ?w1 = "w\<lparr>hwt_inner := hwt_inner w @ bs, hwt_fed := hwt_fed w @ bs,
      hwt_total_bytes := hwt_total_bytes w + of_nat (length bs)\<rparr>"
    have "copy_loop (HashingWriter_write vec_write) ?w1 evs (n + of_nat (length bs)) = Some (w', r)"
      using "3.prems" False by (simp add: write_all_hashing)
    from "3.hyps" [OF False write_all_hashing refl refl this] obtain cs where
      "hwt_inner w' = hwt_inner w @ bs @ cs" "hwt_fed w' = hwt_fed w @ bs @ cs"
      "\<forall>m. r = Inr m \<longrightarrow> m = n + of_nat (length (bs @ cs))
        \<and> hwt_total_bytes w' = hwt_total_bytes w + of_nat (length (bs @ cs))"
      by (auto simp: algebra_simps)
    then show ?thesis by blast
  qed (use "3.prems" in auto)
qed auto

lemma read_loop_prefix: "read_loop rd acc = Inr bs \<Longrightarrow> \<exists>cs. bs = acc @ cs"
  by (induction rd acc rule: read_loop.induct) (auto split: if_splits)

lemma copy_loop_reads:
  "read_loop rd acc = Inr (acc @ bs) \<Longrightarrow> copy_loop (HashingWriter_write vec_write) w rd n =
     Some (w\<lparr>hwt_inner := hwt_inner w @ bs, hwt_fed := hwt_fed w @ bs,
             hwt_total_bytes := hwt_total_bytes w + of_nat (length bs)\<rparr>, Inr (n + of_nat (length bs)))"
proof (induction "HashingWriter_write vec_write" w rd n arbitrary: acc bs rule: copy_loop.induct)
  case (3 w b evs n)
  show ?case
  proof (cases "b = []")
    case False
    then obtain cs where cs: "bs = b @ cs"
      using "3.prems" read_loop_prefix by fastforce
    from "3.hyps" [OF False write_all_hashing refl refl, of "acc @ b" cs] "3.prems" False show ?thesis
      by (simp add: write_all_hashing cs algebra_simps)
  qed (use "3.prems" in auto)
qed auto


subsection \<open>Sending\<close>

lemma spool_Inr:
  "spool env rd t = (t', Inr data) \<Longrightarrow>
     read_loop rd [] = Inr data \<and> t' = t\<lparr>ht_files := (ht_files t)(sp_path env \<mapsto> data)\<rparr>"
  by (auto simp: spool_def Let_def dest!: spool_loop_ok split: option.splits prod.splits sum.splits)

lemma sent_message_Inr:
  "sent_message lib chat caption name n resp = Inr doc \<Longrightarrow>
     tdm_chat_id doc = chat \<and> (\<exists>r. resp = Inr r \<and> is_success r)"
  by (auto simp: sent_message_def bind_res_Inr_iff handle_api_error_def split: if_splits)

text \<open>C20. An upload over the Bot API that reports success has posted exactly the bytes it read: one form, addressed to the
  target chat, with the caption of the chunk, was accepted by the server, its document is what the
  reader gave, and the digest and the size in the result and those asked for are those of these bytes. The spool file is gone when it can be
  removed.\<close>

theorem http_upload_posts_payload:
  assumes "tg_upload sha (http_send_document lib env) p req rd = (p', Inr res)"
  shows "\<exists>bs resp. read_loop rd [] = Inr bs
    \<and> hl_post lib (ht_net (tsp_transport p)) (document_form (tsp_transport p) (tsc_target_chat_id (tsp_config p))
         (to_caption (chunk_header req)) (ur_file_id req @ ''_'' @ show_nat (unat (ur_chunk_index req)) @ ''.chunk'') bs)
       = (ht_net (tsp_transport p'), Inr resp) \<and> is_success resp
    \<and> ures_bytes_uploaded res = of_nat (length bs) \<and> ures_verified_sha256 res = Some (sha bs)
    \<and> (ur_expected_size_bytes req > 0 \<longrightarrow> of_nat (length bs) = ur_expected_size_bytes req)
    \<and> (\<forall>h. ur_expected_sha256 req = Some h \<longrightarrow> eq_ignore_ascii_case (sha bs) h)
    \<and> (sp_removed env \<longrightarrow> ht_files (tsp_transport p') = (ht_files (tsp_transport p))(sp_path env := None))"
proof -
  obtain doc bs where snt: "snd (send_upload (http_send_document lib env) p req rd) = Inr (doc, bs)"
    and res: "ures_bytes_uploaded res = of_nat (length bs)" "ures_verified_sha256 res = Some (sha bs)"
    using assms by (rule tg_upload_Inr)
  have accepted: "ur_expected_size_bytes req > 0 \<longrightarrow> of_nat (length bs) = ur_expected_size_bytes req"
    "\<forall>h. ur_expected_sha256 req = Some h \<longrightarrow> eq_ignore_ascii_case (sha bs) h"
    using tg_upload_accepts [OF assms snt] by blast+
  let ?t = "tsp_transport p"
  obtain t1 data where sp: "spool env rd ?t = (t1, Inr data)" "hl_mime lib = None"
    using snt by (auto simp: send_upload_def http_send_document_def split: prod.splits sum.splits option.splits)
  note data = spool_Inr [OF sp(1)]
  obtain n' r where post: "hl_post lib (ht_net t1) (document_form t1 (tsc_target_chat_id (tsp_config p))
      (to_caption (chunk_header req)) (ur_file_id req @ ''_'' @ show_nat (unat (ur_chunk_index req)) @ ''.chunk'') data) = (n', r)"
    by fastforce
  have run: "send_upload (http_send_document lib env) p req rd
    = (remove_spool env (t1\<lparr>ht_net := n'\<rparr>), map_sum id (\<lambda>doc. (doc, data))
        (sent_message lib (tsc_target_chat_id (tsp_config p)) (to_caption (chunk_header req))
           (ur_file_id req @ ''_'' @ show_nat (unat (ur_chunk_index req)) @ ''.chunk'') (of_nat (length data)) r))"
    by (simp add: send_upload_def http_send_document_def sp post [simplified])
  obtain resp where "r = Inr resp" "is_success resp" and same: "data = bs"
    using snt unfolding run by (auto simp: map_sum_def dest!: sent_message_Inr split: sum.splits)
  moreover have "document_form t1 = document_form ?t" "ht_net t1 = ht_net ?t"
    using data by (auto simp: document_form_def bot_url_def fun_eq_iff)
  moreover have "p' = p\<lparr>tsp_transport := remove_spool env (t1\<lparr>ht_net := n'\<rparr>)\<rparr>"
    using tg_upload_transport [OF assms] by (simp add: run)
  ultimately show ?thesis
    using data post res accepted by (intro exI [of _ bs] exI [of _ resp]) (auto simp: remove_spool_def)
qed

text \<open>The spool file of an upload outlives it, on a system that lets it be removed, exactly when reading the source, writing the
  file or flushing it failed: the guarantee of the cleanup does not cover the early returns.\<close>

theorem http_spool_left_iff:
  assumes "sp_removed env" "ht_files t (sp_path env) = None"
  shows "ht_files (fst (http_send_document lib env t chat caption name rd)) (sp_path env) \<noteq> None
    \<longleftrightarrow> sp_create env = None \<and> ((\<exists>e. snd (spool_loop (sp_write env) 0 rd []) = Inl e) \<or> sp_flush env \<noteq> None)"
proof (cases "snd (spool_loop (sp_write env) 0 rd [])")
  case (Inl e)
  then show ?thesis
    using assms by (auto simp: http_send_document_def spool_def Let_def split: option.splits prod.splits)
next
  case (Inr data)
  then show ?thesis
    using assms
    by (cases "sp_create env"; cases "sp_flush env"; cases "sp_open env"; cases "hl_mime lib")
      (auto simp: http_send_document_def spool_def Let_def remove_spool_def split: prod.splits)
qed

subsection \<open>Receiving\<close>

lemma resolve_file_Inr:
  "resolve_file lib what t chat msg fid = Inr info \<longleftrightarrow>
     (\<exists>resp env. hl_get lib (ht_net t) (get_file_url t fid) = Inr resp \<and> is_success resp
        \<and> hl_file lib resp = Inr env \<and> ae_result env = Some info)"
  by (cases "hl_get lib (ht_net t) (get_file_url t fid)") (auto simp: resolve_file_def bind_res_Inr_iff handle_api_error_def)

text \<open>C19. Whatever the server answers, a download over the Bot API that reports success has
  written bytes with the expected digest and, when one is given, the expected size.\<close>

theorem http_download_verified:
  assumes "tg_download sha (http_get_document_stream lib fl) p req vec_write w = Some (p', w', Inr res)"
  shows "\<exists>bs. w' = w @ bs \<and> dres_bytes_downloaded res = of_nat (length bs) \<and> dres_verified_sha256 res = Some (sha bs)
    \<and> (dr_expected_size_bytes req > 0 \<longrightarrow> of_nat (length bs) = dr_expected_size_bytes req)
    \<and> (\<forall>h. dr_expected_sha256 req = Some h \<longrightarrow> eq_ignore_ascii_case (sha bs) h)"
proof -
  obtain r t' hw n where st: "from_storage_reference (dr_storage_reference req) = Inr r"
    "http_get_document_stream lib fl (tsp_transport p) (tr_chat_id r) (tr_message_id r) (tr_file_id r)
       (HashingWriter_write vec_write) (HashingWriter_new w) = Some (t', hw, Inr n)"
    using assms by (auto simp: tg_download_def split: sum.splits option.splits prod.splits if_splits)
  obtain rd where copy: "copy_loop (HashingWriter_write vec_write) (HashingWriter_new w) rd 0 = Some (hw, Inr n)"
    using st(2) by (auto simp: http_get_document_stream_def handle_api_error_def bind_res_Inr_iff
        split: sum.splits option.splits if_splits)
  from copy_loop_hashing [OF copy] obtain bs where "hwt_inner hw = w @ bs" "hwt_fed hw = bs" "n = of_nat (length bs)"
    by (auto simp: HashingWriter_new_def)
  then show ?thesis
    using assms st by (intro exI [of _ bs]) (auto simp: tg_download_def Let_def split: if_splits option.splits)
qed


subsection \<open>A server that answers\<close>

text \<open>A server with one chat and the document posted last.\<close>

definition sample_response :: "bytes \<Rightarrow> Response" where
  "sample_response bs = \<lparr>rs_status = 200, rs_status_text = ''200 OK'', rs_text = None, rs_body = [RData bs]\<rparr>"

definition sample_http_lib :: "bytes http_lib" where
  "sample_http_lib =
     \<lparr>hl_build = None, hl_get = (\<lambda>n url. Ok (sample_response n)),
      hl_post = (\<lambda>n q. (case q of PostForm _ _ _ bs \<Rightarrow> bs | _ \<Rightarrow> n, Ok (sample_response []))),
      hl_mime = None, hl_value = (\<lambda>_. None), hl_user = (\<lambda>_. Err []), hl_chat = (\<lambda>_. Err []),
      hl_message = (\<lambda>_. Ok \<lparr>ae_ok = True,
         ae_result = Some \<lparr>md_message_id = 7, md_document = Some \<lparr>dd_file_id = ''doc'', dd_file_name = None,
           dd_mime_type = None, dd_file_size = None\<rparr>, md_caption = None\<rparr>,
         ae_description = None, ae_error_code = None, ae_retry_after = None\<rparr>),
      hl_file = (\<lambda>_. Ok \<lparr>ae_ok = True, ae_result = Some \<lparr>fd_file_size = None, fd_file_path = Some ''f''\<rparr>,
         ae_description = None, ae_error_code = None, ae_retry_after = None\<rparr>)\<rparr>"

definition sample_spool :: spool_env where
  "sample_spool = \<lparr>sp_path = ''spool'', sp_create = None, sp_write = (\<lambda>_. None), sp_flush = None, sp_open = None,
     sp_removed = True\<rparr>"

definition sample_http :: "bytes HttpTelegramTransport TelegramStorageProvider" where
  "sample_http = \<lparr>tsp_transport = \<lparr>ht_credentials = \<lparr>tcr_bot_token = ''1:t'', tcr_target_chat_id = - 100,
       tcr_api_endpoint = None\<rparr>, ht_base_url = ''http://h'', ht_net = [], ht_files = (\<lambda>_. None)\<rparr>,
     tsp_config = TelegramStorageConfig_default\<lparr>tsc_target_chat_id := - 100\<rparr>\<rparr>"

lemmas sample_http_defs = sample_http_lib_def sample_spool_def sample_http_def sample_response_def
  TelegramStorageConfig_default_def is_success_def

lemma doc_plain: "trim ''doc'' = ''doc''"
  by (rule trim_plain) (simp add: plain_id_def is_ascii_alphanumeric_def)

theorem http_upload_posts_payload_witness:
  "\<exists>p' res bs. tg_upload (\<lambda>_. ''ab'') (http_send_document sample_http_lib sample_spool) sample_http sample_upload
       [RData [1, 2], RData [3]] = (p', Inr res)
     \<and> read_loop [RData [1, 2], RData [3]] [] = Inr bs \<and> ht_net (tsp_transport p') = bs
     \<and> ht_files (tsp_transport p') ''spool'' = None"
proof -
  obtain p' res where up: "tg_upload (\<lambda>_. ''ab'') (http_send_document sample_http_lib sample_spool) sample_http sample_upload
       [RData [1, 2], RData [3]] = (p', Inr res)"
    by (simp add: tg_upload_def http_send_document_def spool_def sample_http_defs sample_upload_def sent_message_def Let_def
        TelegramReference_new_def doc_plain)
  from http_upload_posts_payload [OF up] up show ?thesis
    by (auto simp: sample_http_lib_def sample_spool_def document_form_def sample_http_def)
qed

theorem http_spool_left_iff_witness:
  "ht_files (fst (http_send_document sample_http_lib sample_spool (tsp_transport sample_http) 1 [] []
     [RData [1], RErr (IoError TimedOut ''gone'')])) ''spool'' \<noteq> None"
proof -
  have "sp_removed sample_spool" "ht_files (tsp_transport sample_http) (sp_path sample_spool) = None"
    by (simp_all add: sample_spool_def sample_http_def)
  from http_spool_left_iff [OF this, of sample_http_lib 1 "[]" "[]" "[RData [1], RErr (IoError TimedOut ''gone'')]"]
  show ?thesis by (simp add: sample_spool_def)
qed

theorem http_download_verified_witness:
  "\<exists>p' w' res. tg_download (\<lambda>_. ''ab'') (http_get_document_stream sample_http_lib None) sample_http
       \<lparr>dr_file_id = ''f'', dr_chunk_id = ''c'', dr_storage_reference = Telegram (- 100) 7 ''doc'', dr_expected_size_bytes = 0,
        dr_expected_sha256 = Some ''ab''\<rparr> vec_write [5] = Some (p', w', Inr res)
     \<and> (\<exists>bs. w' = [5] @ bs \<and> dres_bytes_downloaded res = of_nat (length bs))"
proof -
  obtain p' w' res where dl: "tg_download (\<lambda>_. ''ab'') (http_get_document_stream sample_http_lib None) sample_http
       \<lparr>dr_file_id = ''f'', dr_chunk_id = ''c'', dr_storage_reference = Telegram (- 100) 7 ''doc'', dr_expected_size_bytes = 0,
        dr_expected_sha256 = Some ''ab''\<rparr> vec_write [5] = Some (p', w', Inr res)"
    by (simp add: tg_download_def http_get_document_stream_def resolve_file_def sample_http_defs TelegramReference_new_def
        doc_plain HashingWriter_new_def eq_ignore_ascii_case_def)
  from http_download_verified [OF dl] dl show ?thesis by blast
qed

subsection \<open>Faults\<close>

text \<open>The metadata query does not look at the message: any message number is answered from the document identifier, so
  a deleted message passes for present as long as the file is served, and a file without a known
  size is reported as empty.\<close>

lemma metadata_ignores_message:
  "http_get_message_metadata lib t chat msg fid = Inr doc \<Longrightarrow>
     http_get_message_metadata lib t chat' msg' fid = Inr (doc\<lparr>tdm_chat_id := chat', tdm_message_id := msg'\<rparr>)"
  by (fastforce simp: http_get_message_metadata_def resolve_file_Inr bind_res_Inr_iff)

lemma metadata_unknown_size:
  "http_get_message_metadata lib t chat msg fid = Inr doc \<and> resolve_file lib w t chat msg fid = Inr info \<and> fd_file_size info = None
     \<Longrightarrow> tdm_size_bytes doc = 0"
  by (fastforce simp: http_get_message_metadata_def resolve_file_Inr bind_res_Inr_iff)

text \<open>An error answer that is not JSON is a transport error, and so retried, whatever its status.\<close>

lemma unreadable_error_retried:
  "hl_value lib (body_text r) = None \<Longrightarrow> storage_retryable (StorageError_of_TelegramError (api_error lib r))"
  by (simp add: api_error_def)

text \<open>A failure that says how long to wait is retried, and the time to wait is kept.\<close>

lemma rate_limit_kept:
  "hl_value lib (body_text r) = Some err \<and> ae_retry_after err = Some (Some n) \<Longrightarrow>
     api_error lib r = TelegramError.RateLimited n \<and> storage_retryable (StorageError_of_TelegramError (api_error lib r))"
  by (simp add: api_error_def)

end
