(* ===== verification/Backup_Checker.thy ===== *)
theory Backup_Checker
  imports Restore_Engine Verify_Engine
begin

text \<open>
  The status checker (\<open>checker.rs\<close> of televault-backup, the reports of \<open>restore/types.rs\<close>): the state of one file in the
  catalog, whether a backup is needed, the check of a manifest against the metadata of the provider
  and the trial restore.

  The local file of \<open>check_file_status\<close> is the argument \<open>local_len\<close>: None when the path does not exist, else the length
  or the failure of the query. The trial restore runs on the same file system as every restore; its
  file is created before and removed after it.
\<close>

record FileBackupStatus =
  fbs_is_tracked :: bool
  fbs_file_id :: "ident_str option"
  fbs_latest_version_id :: "ident_str option"
  fbs_latest_snapshot_id :: "ident_str option"
  fbs_is_backed_up :: bool
  fbs_is_modified_locally :: bool
  fbs_manifest_available :: bool
  fbs_all_chunks_verified :: bool
  fbs_total_chunks :: nat
  fbs_verified_chunks :: nat

definition untracked_status :: FileBackupStatus where
  "untracked_status =
     \<lparr>fbs_is_tracked = False, fbs_file_id = None, fbs_latest_version_id = None, fbs_latest_snapshot_id = None,
      fbs_is_backed_up = False, fbs_is_modified_locally = True, fbs_manifest_available = False,
      fbs_all_chunks_verified = False, fbs_total_chunks = 0, fbs_verified_chunks = 0\<rparr>"

definition last_row :: "'r list \<Rightarrow> 'r option" where
  "last_row t = (if t = [] then None else Some (last t))"

definition check_file_status ::
  "platform \<Rightarrow> (string \<Rightarrow> (string, ManifestV1) result) \<Rightarrow> (string \<Rightarrow> (io_error, u64) result option) \<Rightarrow> Database
     \<Rightarrow> ident_str \<Rightarrow> string \<Rightarrow> (BackupError, FileBackupStatus) result" where
  "check_file_status pf serde local_len db pid relative_path =
     (case get_file_by_relative_path db pid relative_path of
        None \<Rightarrow> Ok untracked_status
      | Some f \<Rightarrow>
          let latest_ver = last_row (list_versions_by_file db (fr_file_id f)) in
          bind_res (case latest_ver of
              Some v \<Rightarrow> map_err BackupError_of_DbError
                (bind_res (get_manifest pf serde db (ver_manifest_id v)) (\<lambda>m. Ok (m \<noteq> None)))
            | None \<Rightarrow> Ok False) (\<lambda>manifest_available.
            let chunks = list_chunks_by_file db (fr_file_id f);
                total_chunks = length chunks;
                verified_chunks = length (filter (\<lambda>c. cr_status c = ''verified'') chunks);
                all_chunks_verified = (total_chunks > 0 \<and> verified_chunks = total_chunks);
                is_modified_locally = (case local_len relative_path of
                  Some (Inr n) \<Rightarrow> n \<noteq> fr_original_size f | Some (Inl _) \<Rightarrow> False | None \<Rightarrow> False) in
            Ok \<lparr>fbs_is_tracked = True, fbs_file_id = Some (fr_file_id f),
                fbs_latest_version_id = map_option ver_version_id latest_ver,
                fbs_latest_snapshot_id = map_option ver_snapshot_id latest_ver,
                fbs_is_backed_up = (manifest_available \<and> all_chunks_verified),
                fbs_is_modified_locally = is_modified_locally, fbs_manifest_available = manifest_available,
                fbs_all_chunks_verified = all_chunks_verified, fbs_total_chunks = total_chunks,
                fbs_verified_chunks = verified_chunks\<rparr>))"

definition is_incremental_backup_needed ::
  "(bytes \<Rightarrow> string) \<Rightarrow> platform \<Rightarrow> scan_root \<Rightarrow> Database \<Rightarrow> BackupProfile \<Rightarrow> (BackupError, bool) result" where
  "is_incremental_backup_needed sha pf source db p =
     bind_res (scan_directory pf source (bp_source_path p) p) (\<lambda>scan.
       case get_latest_snapshot db (bp_profile_id p) of
         None \<Rightarrow> Ok (scan_files scan \<noteq> [])
       | Some snap \<Rightarrow>
           Ok (has_mutations (detect_changes sha (scan_files scan) (list_files_by_snapshot db (sr_snapshot_id snap)))))"

definition checker_get_file_versions :: "Database \<Rightarrow> ident_str \<Rightarrow> VersionRecord list" where
  "checker_get_file_versions db fid = list_versions_by_file db fid"

record ManifestVerificationReport =
  mvr_manifest_id :: string
  mvr_file_id :: ident_str
  mvr_relative_path :: string
  mvr_is_restorable :: bool
  mvr_total_chunks :: nat
  mvr_original_size :: u64
  mvr_issues :: "string list"
  mvr_remote_objects_verified :: bool

text \<open>The issues of one chunk, and whether its remote object answered.\<close>

definition chunk_issues ::
  "(StorageReference \<Rightarrow> (StorageError, RemoteObjectMetadata) result) option \<Rightarrow> ChunkManifest \<Rightarrow> string list \<times> bool" where
  "chunk_issues provider c =
     (if cmf_storage_reference c = StorageReference.Pending then
        ([''Chunk '' @ cmf_chunk_id c @ '' (index '' @ show_nat (unat (cmf_index c)) @ '') has pending storage allocation''], False)
      else case provider of
        None \<Rightarrow> ([], False)
      | Some get_metadata \<Rightarrow>
          (case get_metadata (cmf_storage_reference c) of
             Inr meta \<Rightarrow>
               (if rom_size_bytes meta \<noteq> cmf_stored_size c then
                  [''Chunk '' @ cmf_chunk_id c @ '' size mismatch on remote: expected ''
                     @ show_nat (unat (cmf_stored_size c)) @ '' bytes, remote reports ''
                     @ show_nat (unat (rom_size_bytes meta)) @ '' bytes'']
                else [], True)
           | Inl e \<Rightarrow>
               ([''Remote object unavailable for chunk '' @ cmf_chunk_id c @ '': '' @ StorageError_display e], False)))"

definition checker_verify_manifest_metadata ::
  "platform \<Rightarrow> ManifestV1 \<Rightarrow> (StorageReference \<Rightarrow> (StorageError, RemoteObjectMetadata) result) option
     \<Rightarrow> ManifestVerificationReport" where
  "checker_verify_manifest_metadata pf m provider =
     (let expected = unat (calculate_expected_chunk_count (lf_original_size (logical_file m)));
          issues =
            (case ManifestV1_validate pf m of
               Inl e \<Rightarrow> [''Manifest validation error: '' @ ManifestError_display e] | Inr _ \<Rightarrow> [])
            @ (if manifest_version m \<noteq> V1 then
                 [''Unsupported manifest version: '' @ ManifestVersion_display (manifest_version m)] else [])
            @ (if length (chunks m) \<noteq> expected then
                 [''Chunk count mismatch: expected '' @ show_nat expected @ '', found '' @ show_nat (length (chunks m))] else [])
            @ concat (map (\<lambda>c. fst (chunk_issues provider c)) (chunks m)) in
      \<lparr>mvr_manifest_id = manifest_id m, mvr_file_id = lf_file_id (logical_file m),
       mvr_relative_path = lf_relative_path (logical_file m), mvr_is_restorable = (issues = []),
       mvr_total_chunks = length (chunks m), mvr_original_size = lf_original_size (logical_file m),
       mvr_issues = issues,
       mvr_remote_objects_verified = list_ex (\<lambda>c. snd (chunk_issues provider c)) (chunks m)\<rparr>)"

record FullVerificationReport =
  fvr_manifest_id :: string
  fvr_file_id :: ident_str
  fvr_is_valid :: bool
  fvr_total_chunks :: nat
  fvr_original_size :: u64
  fvr_calculated_sha256 :: "string option"
  fvr_expected_sha256 :: string
  fvr_elapsed_ms :: u64
  fvr_error :: "string option"

record trial_env =
  te_create :: "(StorageError, string) result"
  te_restore :: restore_env
  te_remove_ok :: bool
  te_elapsed_ms :: u64

definition full_report ::
  "ManifestV1 \<Rightarrow> u64 \<Rightarrow> (string, string option) result \<Rightarrow> FullVerificationReport" where
  "full_report m elapsed r =
     \<lparr>fvr_manifest_id = manifest_id m, fvr_file_id = lf_file_id (logical_file m), fvr_is_valid = is_ok r,
      fvr_total_chunks = length (chunks m), fvr_original_size = lf_original_size (logical_file m),
      fvr_calculated_sha256 = (case r of Inr h \<Rightarrow> h | Inl _ \<Rightarrow> None),
      fvr_expected_sha256 = im_digest (integrity m), fvr_elapsed_ms = elapsed,
      fvr_error = (case r of Inr _ \<Rightarrow> None | Inl e \<Rightarrow> Some e)\<rparr>"

definition remove_trial :: "bool \<Rightarrow> path \<Rightarrow> local_fs \<Rightarrow> local_fs" where
  "remove_trial removed p fs = (if removed then fs\<lparr>fs_files := (fs_files fs)(p := None)\<rparr> else fs)"

definition checker_verify_full_restore ::
  "platform \<Rightarrow> (bytes \<Rightarrow> string) \<Rightarrow> aead_fn \<Rightarrow> (bytes \<Rightarrow> (string, EncryptedPayload) result) \<Rightarrow> (StorageReference \<Rightarrow> string)
     \<Rightarrow> RetryPolicy \<Rightarrow> ('s, bytes cancelling) get_fn \<Rightarrow> bool \<Rightarrow> trial_env \<Rightarrow> ManifestV1 \<Rightarrow> EncryptionPolicy \<Rightarrow> local_fs
     \<Rightarrow> string set \<Rightarrow> 's engine \<Rightarrow> (local_fs \<times> string set \<times> 's engine \<times> FullVerificationReport) option" where
  "checker_verify_full_restore pf sha open_sealed parse dbg pol get cb env m policy fs tmp en =
     (case te_create env of
        Inl e \<Rightarrow> Some (fs, tmp, en, full_report m (te_elapsed_ms env)
                   (Err (''Failed to create temporary staging file: '' @ StorageError_display e)))
      | Inr p \<Rightarrow>
          let target = pf_components pf p in
          map_option (\<lambda>out.
              (remove_trial (te_remove_ok env) target (ro_fs out), ro_tmp out, ro_engine out,
               full_report m (te_elapsed_ms env)
                 (case ro_result out of Inr r \<Rightarrow> Ok (rr_verified_sha256 r) | Inl e \<Rightarrow> Err (RestoreError_display dbg e))))
            (restore_file pf sha open_sealed parse pol get cb (te_restore env) m target Overwrite policy
              (write_file target [] fs) tmp en))"


subsection \<open>Checking the metadata\<close>

lemma chunk_issues_empty:
  "fst (chunk_issues provider c) = [] \<longleftrightarrow>
     cmf_storage_reference c \<noteq> StorageReference.Pending
     \<and> (\<forall>get. provider = Some get \<longrightarrow> (\<exists>meta. get (cmf_storage_reference c) = Inr meta \<and> rom_size_bytes meta = cmf_stored_size c))"
  by (auto simp: chunk_issues_def split: option.splits sum.splits)

text \<open>The quick check calls a manifest restorable exactly when it is valid, has the number of chunks its size asks for,
  every chunk is stored, and, when a provider is given, every remote object answers with the size of
  the chunk; such a manifest is accepted by the restore pipeline.\<close>

theorem metadata_restorable_iff:
  assumes "r = checker_verify_manifest_metadata pf m provider"
  shows "(mvr_is_restorable r \<longleftrightarrow>
      ManifestV1_validate pf m = Inr ()
      \<and> length (chunks m) = unat (calculate_expected_chunk_count (lf_original_size (logical_file m)))
      \<and> (\<forall>c \<in> set (chunks m). cmf_storage_reference c \<noteq> StorageReference.Pending
           \<and> (\<forall>get. provider = Some get \<longrightarrow>
                (\<exists>meta. get (cmf_storage_reference c) = Inr meta \<and> rom_size_bytes meta = cmf_stored_size c))))
    \<and> (mvr_is_restorable r \<longrightarrow> validate_manifest_for_restore pf m = Inr ())"
proof -
  have "manifest_version m = V1" by (cases "manifest_version m") simp
  then have "mvr_is_restorable r \<longleftrightarrow> ManifestV1_validate pf m = Inr ()
      \<and> length (chunks m) = unat (calculate_expected_chunk_count (lf_original_size (logical_file m)))
      \<and> (\<forall>c \<in> set (chunks m). fst (chunk_issues provider c) = [])"
    by (auto simp: assms checker_verify_manifest_metadata_def Let_def split: sum.splits)
  then show ?thesis unfolding chunk_issues_empty using complete_manifest_restorable by blast
qed

theorem metadata_restorable_iff_witness:
  "validate_manifest_for_restore unix_platform sample_single = Inr ()"
proof -
  let ?r = "checker_verify_manifest_metadata unix_platform sample_single None"
  have "ManifestV1_validate unix_platform sample_single = Inr ()"
    "of_nat (length (chunks sample_single)) = calculate_expected_chunk_count (lf_original_size (logical_file sample_single))"
    using sample_single_sound by (simp_all add: manifest_sound_def sample_verify_lib_def)
  moreover have "\<forall>c \<in> set (chunks sample_single). cmf_storage_reference c \<noteq> StorageReference.Pending"
    using manifest_sound_references [OF sample_single_sound] by blast
  ultimately have "mvr_is_restorable ?r"
    using metadata_restorable_iff [OF refl, of unix_platform sample_single None]
    by (auto simp: sample_single_def unat_of_nat simp flip: \<open>of_nat (length (chunks sample_single)) = _\<close>)
  then show ?thesis using metadata_restorable_iff [OF refl, of unix_platform sample_single None] by blast
qed

subsection \<open>The trial restore\<close>

lemma trial_run:
  assumes "checker_verify_full_restore pf sha os parse dbg pol get cb env m policy fs tmp en = Some (fs', tmp', en', r)"
    and "te_create env = Inr p"
  obtains out where
    "restore_file pf sha os parse pol get cb (te_restore env) m (pf_components pf p) Overwrite policy
       (write_file (pf_components pf p) [] fs) tmp en = Some out"
    "fs' = remove_trial (te_remove_ok env) (pf_components pf p) (ro_fs out)"
    "r = full_report m (te_elapsed_ms env)
       (case ro_result out of Inr r \<Rightarrow> Ok (rr_verified_sha256 r) | Inl e \<Rightarrow> Err (RestoreError_display dbg e))"
  using assms by (auto simp: checker_verify_full_restore_def Let_def)

lemma trial_changes:
  assumes "restore_file pf sha os parse pol get cb env m target Overwrite policy fs tmp en = Some out"
  shows "fs_files (ro_fs out) = fs_files fs \<or> (\<exists>w. fs_files (ro_fs out) = (fs_files fs)(target \<mapsto> w))"
proof (cases "fs_files (ro_fs out) = fs_files fs")
  case False
  from restore_file_changes [OF assms this] obtain final w where
    "resolve_collision pf (rv_nanos env) fs target Overwrite = Apply final" "fs_files (ro_fs out) = (fs_files fs)(final \<mapsto> w)"
    by blast
  then show ?thesis by (auto simp: resolve_collision_def split: if_splits)
qed simp

lemma overwrite_runs:
  assumes "restore_file pf sha os parse pol get cb env m target Overwrite policy fs tmp en = Some out" "ro_result out = Inr r"
  shows "validate_manifest_for_restore pf m = Inr ()
    \<and> restore_to sha os parse pol get cb env m target (restore_outcome (fs_exists fs target) Overwrite) policy fs tmp en = Some out"
  using assms by (cases "validate_manifest_for_restore pf m")
    (auto simp: restore_file_def resolve_collision_def split: if_splits)

lemma trial_restored:
  assumes "restore_file pf sha os parse pol get cb env m target Overwrite policy fs tmp en = Some out" "ro_result out = Inr r"
  shows "\<exists>data. verified_content sha m data \<and> rr_verified_sha256 r = Some (sha data)"
proof -
  note run = overwrite_runs [OF assms]
  from conjunct2 [OF run] show ?thesis
  proof (cases rule: restore_to_run)
    case (moved en' tmp2 p data fin)
    have "verified_content sha m data"
      using check_restored_Inr [OF moved(2)] validated_digest [OF conjunct1 [OF run]] by (simp add: verified_content_def)
    then show ?thesis using moved(4) assms(2) by (auto split: sum.splits)
  qed (use assms(2) in simp)
qed

text \<open>C24. A trial restore that reports a valid backup has downloaded, opened and put together a content of the size and with the
  digest of the manifest; and, valid or not, it leaves every file as it was, given a fresh name for its
  file and that it can be removed.\<close>

theorem full_restore_check_sound:
  assumes "checker_verify_full_restore pf sha os parse dbg pol get cb env m policy fs tmp en = Some (fs', tmp', en', r)"
    and "\<And>p. te_create env = Inr p \<Longrightarrow> fs_files fs (pf_components pf p) = None" "te_remove_ok env"
  shows "fs_files fs' = fs_files fs
    \<and> (fvr_is_valid r \<longleftrightarrow> fvr_error r = None)
    \<and> (fvr_is_valid r \<longrightarrow> (\<exists>data. verified_content sha m data \<and> fvr_calculated_sha256 r = Some (sha data)
         \<and> eq_ignore_ascii_case (sha data) (fvr_expected_sha256 r)))"
proof (cases "te_create env")
  case (Inl e)
  then show ?thesis using assms(1) by (auto simp: checker_verify_full_restore_def full_report_def)
next
  case (Inr p)
  let ?p = "pf_components pf p"
  obtain out where out: "restore_file pf sha os parse pol get cb (te_restore env) m ?p Overwrite policy
       (write_file ?p [] fs) tmp en = Some out" "fs' = remove_trial True ?p (ro_fs out)"
    "r = full_report m (te_elapsed_ms env)
       (case ro_result out of Inr r \<Rightarrow> Ok (rr_verified_sha256 r) | Inl e \<Rightarrow> Err (RestoreError_display dbg e))"
    using trial_run [OF assms(1) Inr] assms(3) by auto
  have fresh: "(fs_files fs)(?p := None) = fs_files fs" using assms(2) [OF Inr] by auto
  have "(fs_files (ro_fs out))(?p := None) = fs_files fs"
    using trial_changes [OF out(1)] fresh by (auto simp: write_file_def)
  moreover have "\<exists>data. verified_content sha m data \<and> rr_verified_sha256 q = Some (sha data)" if "ro_result out = Inr q" for q
    by (rule trial_restored [OF out(1) that])
  ultimately show ?thesis
    by (auto simp: out(2,3) remove_trial_def full_report_def verified_content_def split: sum.splits)
qed

definition sample_trial :: trial_env where
  "sample_trial = \<lparr>te_create = Inr ''t'', te_restore = sample_restore_env, te_remove_ok = True, te_elapsed_ms = 0\<rparr>"

text \<open>The trial of a manifest whose object the provider does not have.\<close>

theorem full_restore_check_sound_witness:
  "\<exists>fs' tmp' en' r. checker_verify_full_restore unix_platform (\<lambda>_. sample_digest) (\<lambda>_ _ _ _. None) (\<lambda>_. Inl []) (\<lambda>_. [])
       sample_policy (mock_download (\<lambda>_. sample_digest)) False sample_trial sample_restorable Disabled sample_disk {}
       (sample_engine False) = Some (fs', tmp', en', r)
     \<and> \<not> fvr_is_valid r \<and> fvr_error r \<noteq> None \<and> fs_files fs' = fs_files sample_disk"
proof -
  have jid: "id_new ''JobId'' ''restore-dl-c0'' = Inr ''restore-dl-c0''" by code_simp
  have "\<exists>out e. restore_file unix_platform (\<lambda>_. sample_digest) (\<lambda>_ _ _ _. None) (\<lambda>_. Inl []) sample_policy
       (mock_download (\<lambda>_. sample_digest)) False sample_restore_env sample_restorable (pf_components unix_platform ''t'') Overwrite
       Disabled (write_file (pf_components unix_platform ''t'') [] sample_disk) {} (sample_engine False) = Some out
       \<and> ro_result out = Inl e"
    by (simp add: restore_file_def sample_restorable_valid)
      (simp add: sample_restorable_def sample_manifest_def sample_disk_def resolve_collision_def fs_exists_def
        restore_to_def sample_restore_env_def sample_chunk_env_def restore_chunk_def fetch_chunk_def jid
        new_download_def DownloadJobParams_new_def TransferJob_validate_def download_stream_def
        execute_download_def never_cancelled_def transition_def transition_to_def mock_download_def
        sample_engine_def set_fail_uploads_def MockStorageProvider_new_def stream_failure_def ret_def Let_def restored_def)
  then obtain fs' tmp' en' r where run: "checker_verify_full_restore unix_platform (\<lambda>_. sample_digest) (\<lambda>_ _ _ _. None)
       (\<lambda>_. Inl []) (\<lambda>_. []) sample_policy (mock_download (\<lambda>_. sample_digest)) False sample_trial sample_restorable Disabled
       sample_disk {} (sample_engine False) = Some (fs', tmp', en', r)" "\<not> fvr_is_valid r"
    by (auto simp: checker_verify_full_restore_def sample_trial_def full_report_def is_ok_def Let_def)
  have other: "pf_components unix_platform ''t'' \<noteq> [Normal ''a.txt'']" by code_simp
  have fresh: "fs_files sample_disk (pf_components unix_platform p) = None" if "te_create sample_trial = Inr p" for p
    using that other by (simp add: sample_trial_def sample_disk_def)
  have "te_remove_ok sample_trial" by (simp add: sample_trial_def)
  from full_restore_check_sound [OF run(1) fresh this] run show ?thesis by blast
qed

subsection \<open>The state of a file\<close>

text \<open>What the status calls the latest version is the oldest one recorded: the versions come newest first and the last is
  taken.\<close>

lemma file_status_takes_oldest:
  assumes "get_file_by_relative_path db pid rel = Some f" "check_file_status pf serde len db pid rel = Ok s"
    and "v \<in> set (list_versions_by_file db (fr_file_id f))"
  shows "\<exists>w \<in> set (list_versions_by_file db (fr_file_id f)). fbs_latest_version_id s = Some (ver_version_id w)
    \<and> ver_created_at w \<le> ver_created_at v"
proof -
  let ?l = "list_versions_by_file db (fr_file_id f)"
  have "?l \<noteq> []" using assms(3) by auto
  then have "fbs_latest_version_id s = Some (ver_version_id (last ?l))"
    using assms(1,2) by (auto simp: check_file_status_def Let_def last_row_def bind_res_Inr_iff)
  then show ?thesis using verify_file_takes_oldest [OF assms(3)] last_in_set [OF \<open>?l \<noteq> []\<close>] by blast
qed

text \<open>A file counts as backed up only with a manifest that parses and is valid under its version and with every one of its
  chunks verified in the catalog, of which there is at least one.\<close>

theorem backed_up_status:
  assumes "check_file_status pf serde len db pid rel = Ok s" "fbs_is_backed_up s"
  shows "\<exists>f v m. get_file_by_relative_path db pid rel = Some f \<and> v \<in> set (list_versions_by_file db (fr_file_id f))
    \<and> get_manifest pf serde db (ver_manifest_id v) = Ok (Some m)
    \<and> list_chunks_by_file db (fr_file_id f) \<noteq> []
    \<and> (\<forall>c \<in> set (list_chunks_by_file db (fr_file_id f)). cr_status c = ''verified'')"
proof (cases "get_file_by_relative_path db pid rel")
  case None
  then show ?thesis using assms by (auto simp: check_file_status_def untracked_status_def)
next
  case (Some f)
  let ?vs = "list_versions_by_file db (fr_file_id f)" and ?cs = "list_chunks_by_file db (fr_file_id f)"
  from assms Some have m: "?vs \<noteq> []" "\<exists>m. get_manifest pf serde db (ver_manifest_id (last ?vs)) = Ok (Some m)"
    and c: "?cs \<noteq> []" "length (filter (\<lambda>c. cr_status c = ''verified'') ?cs) = length ?cs"
    by (auto simp: check_file_status_def Let_def last_row_def bind_res_Inr_iff map_err_Inr_iff split: if_splits)
  then show ?thesis using Some last_in_set [OF m(1)] by (fastforce simp: filter_id_conv dest: length_filter_less)
qed

text \<open>When no backup is needed, the scan agrees with the last snapshot and nothing would be transferred.\<close>

lemma no_backup_needed_iff:
  assumes "scan_directory pf source (bp_source_path p) p = Ok scan"
  shows "is_incremental_backup_needed sha pf source db p = Ok False \<longleftrightarrow>
    \<not> has_mutations (diff_against_latest_snapshot sha db (bp_profile_id p) (scan_files scan))"
proof (cases "get_latest_snapshot db (bp_profile_id p)")
  case None
  have "has_mutations (detect_changes sha (scan_files scan) []) \<longleftrightarrow> scan_files scan \<noteq> []"
    by (auto simp: has_mutations_def detect_changes_def classify_def prev_by_path_def Let_def ex_in_conv)
  then show ?thesis using None by (simp add: is_incremental_backup_needed_def diff_against_latest_snapshot_def assms)
next
  case (Some s)
  then show ?thesis by (simp add: is_incremental_backup_needed_def diff_against_latest_snapshot_def assms)
qed

end
