(* ===== verification/Desktop_Error.thy ===== *)
theory Desktop_Error
  imports Schedule_Service Restore_Engine Retention_Engine Repair_Engine
begin

text \<open>
  The errors the desktop application hands to its user interface (\<open>apps/desktop/src/error.rs\<close>): a code, a message and an
  optional detail, and the conversions from the error types of the crates. The derived \<open>Debug\<close> rendering of a storage
  reference is the argument \<open>dbg\<close>.
\<close>

record IpcError =
  ipc_code :: string
  ipc_message :: string
  ipc_details :: "string option"

type_synonym 'a ipc = "(IpcError, 'a) result"

definition IpcError_display :: "IpcError \<Rightarrow> string" where
  "IpcError_display e = ''['' @ ipc_code e @ ''] '' @ ipc_message e"

definition IpcError_new :: "string \<Rightarrow> string \<Rightarrow> IpcError" where
  "IpcError_new c m = \<lparr>ipc_code = c, ipc_message = m, ipc_details = None\<rparr>"

definition with_details :: "IpcError \<Rightarrow> string \<Rightarrow> IpcError" where
  "with_details e d = e\<lparr>ipc_details := Some d\<rparr>"

definition ipc_validation :: "string \<Rightarrow> IpcError" where
  "ipc_validation = IpcError_new ''VALIDATION_ERROR''"

definition ipc_not_found :: "string \<Rightarrow> IpcError" where
  "ipc_not_found = IpcError_new ''NOT_FOUND''"

definition ipc_conflict :: "string \<Rightarrow> IpcError" where
  "ipc_conflict = IpcError_new ''CONFLICT''"

definition ipc_cancelled :: IpcError where
  "ipc_cancelled = IpcError_new ''CANCELLED'' ''The operation was cancelled by user request''"

definition ipc_unsafe_path :: "string \<Rightarrow> string \<Rightarrow> IpcError" where
  "ipc_unsafe_path p reason = with_details (IpcError_new ''UNSAFE_PATH'' reason) p"

definition ipc_unauthorized :: "string \<Rightarrow> IpcError" where
  "ipc_unauthorized = IpcError_new ''UNAUTHORIZED''"

definition ipc_internal :: "string \<Rightarrow> IpcError" where
  "ipc_internal = IpcError_new ''INTERNAL_ERROR''"

definition ipc_missing :: "string \<Rightarrow> string \<Rightarrow> IpcError" where
  "ipc_missing entity i = with_details (IpcError_new ''NOT_FOUND'' (entity @ '' with id '' @ quoted i @ '' not found'')) i"

fun ipc_of_app :: "AppError \<Rightarrow> IpcError" where
  "ipc_of_app (AppError.NotFound entity i) = ipc_missing entity i"
| "ipc_of_app (AppError.InvalidState current expected) =
     IpcError_new ''INVALID_STATE'' (''Expected state '' @ quoted expected @ '', but was '' @ quoted current)"
| "ipc_of_app (AppError.Io e) = IpcError_new ''FILESYSTEM_ERROR'' (io_message e)"
| "ipc_of_app (AppError.Path p) = with_details (IpcError_new ''UNSAFE_PATH'' ''Path error'') p"
| "ipc_of_app e = IpcError_new ''INTERNAL_ERROR'' (AppError_display e)"

fun ipc_of_backup :: "BackupError \<Rightarrow> IpcError" where
  "ipc_of_backup (BackupError.ProfileNotFound i) =
     with_details (IpcError_new ''NOT_FOUND'' (''Backup profile '' @ quoted i @ '' not found'')) i"
| "ipc_of_backup (InvalidProfile m) = IpcError_new ''VALIDATION_ERROR'' m"
| "ipc_of_backup BackupError.Cancelled = ipc_cancelled"
| "ipc_of_backup (PathError m) = IpcError_new ''UNSAFE_PATH'' m"
| "ipc_of_backup (InaccessibleFile p reason) = with_details (IpcError_new ''FILESYSTEM_ERROR'' reason) p"
| "ipc_of_backup (ScanError m) = IpcError_new ''FILESYSTEM_ERROR'' m"
| "ipc_of_backup (SnapshotError m) = IpcError_new ''SNAPSHOT_ERROR'' m"
| "ipc_of_backup (BackupError.Io e) = IpcError_new ''FILESYSTEM_ERROR'' e"
| "ipc_of_backup (DatabaseError e) = IpcError_new ''DATABASE_ERROR'' e"
| "ipc_of_backup (BackupError.ManifestError e) = IpcError_new ''MANIFEST_ERROR'' e"
| "ipc_of_backup (BackupError.CryptoError e) = IpcError_new ''CRYPTO_ERROR'' e"
| "ipc_of_backup (BackupError.TransferError e) = IpcError_new ''TRANSFER_ERROR'' e"
| "ipc_of_backup (BackupError.StorageError e) = IpcError_new ''STORAGE_ERROR'' e"

fun ipc_of_db :: "DbError \<Rightarrow> IpcError" where
  "ipc_of_db (DbError.NotFound entity i) = ipc_missing entity i"
| "ipc_of_db (Constraint m) = IpcError_new ''CONFLICT'' m"
| "ipc_of_db (Sql e) = IpcError_new ''DATABASE_ERROR'' (sqlite_text e)"
| "ipc_of_db (Connection e) = IpcError_new ''DATABASE_ERROR'' e"
| "ipc_of_db (Migration e) = IpcError_new ''DATABASE_ERROR'' e"
| "ipc_of_db (DbError.Serialization e) = IpcError_new ''SERIALIZATION_ERROR'' e"
| "ipc_of_db (DbError.Manifest e) = IpcError_new ''MANIFEST_ERROR'' (ManifestError_display e)"
| "ipc_of_db (InvalidData e) = IpcError_new ''DATABASE_ERROR'' e"
| "ipc_of_db (Transaction e) = IpcError_new ''DATABASE_ERROR'' e"
| "ipc_of_db (LockPoisoned e) = IpcError_new ''INTERNAL_ERROR'' e"

fun ipc_of_transfer :: "TransferError \<Rightarrow> IpcError" where
  "ipc_of_transfer TransferError.Cancelled = ipc_cancelled"
| "ipc_of_transfer (InvalidJob m) = IpcError_new ''VALIDATION_ERROR'' m"
| "ipc_of_transfer (TransferError.VerificationFailed m) = IpcError_new ''INTEGRITY_MISMATCH'' m"
| "ipc_of_transfer (TransferError.Storage e) = IpcError_new ''STORAGE_ERROR'' (StorageError_display e)"
| "ipc_of_transfer (TransferError.Io e) = IpcError_new ''FILESYSTEM_ERROR'' (io_message e)"
| "ipc_of_transfer (RetriesExhausted n m) =
     IpcError_new ''RETRIES_EXHAUSTED'' (''Failed after '' @ show_nat n @ '' attempts: '' @ m)"
| "ipc_of_transfer (TransferError.Database e) = ipc_of_db e"
| "ipc_of_transfer e = IpcError_new ''TRANSFER_ERROR'' (TransferError_display e)"

definition ipc_about :: "string \<Rightarrow> string \<Rightarrow> string \<Rightarrow> IpcError" where
  "ipc_about c d m = with_details (IpcError_new c m) d"

fun ipc_of_restore :: "(StorageReference \<Rightarrow> string) \<Rightarrow> RestoreError \<Rightarrow> IpcError" where
  "ipc_of_restore dbg RestoreError.Cancelled = ipc_cancelled"
| "ipc_of_restore dbg (RestoreError.DecryptionFailed c reason) =
     ipc_about ''DECRYPTION_FAILED'' c (''Decryption failed for chunk '' @ c @ '': '' @ reason)"
| "ipc_of_restore dbg (RestoreError.DecompressionFailed c reason) =
     ipc_about ''DECOMPRESSION_FAILED'' c (''Decompression failed for chunk '' @ c @ '': '' @ reason)"
| "ipc_of_restore dbg (RestoreError.IntegrityMismatch f expected actual) =
     ipc_about ''INTEGRITY_MISMATCH'' f (''Integrity check failed: expected '' @ expected @ '', calculated '' @ actual)"
| "ipc_of_restore dbg (RestoreError.ChunkIntegrityMismatch c expected actual) =
     ipc_about ''CHUNK_INTEGRITY_MISMATCH'' c (''Chunk integrity failed: expected '' @ expected @ '', calculated '' @ actual)"
| "ipc_of_restore dbg (RestoreError.SizeMismatch f expected actual) =
     ipc_about ''SIZE_MISMATCH'' f (''Size mismatch: expected '' @ show_nat (unat expected) @ '' bytes, calculated ''
       @ show_nat (unat actual) @ '' bytes'')"
| "ipc_of_restore dbg (RestoreError.IncompleteBackup reason) = IpcError_new ''INCOMPLETE_BACKUP'' reason"
| "ipc_of_restore dbg (RestoreError.PendingChunk c i) =
     ipc_about ''INCOMPLETE_BACKUP'' c (''Chunk '' @ show_nat (unat i) @ '' ('' @ c @ '') is still pending'')"
| "ipc_of_restore dbg (RestoreError.MissingChunk c i) =
     ipc_about ''MISSING_CHUNK'' c (''Chunk '' @ show_nat (unat i) @ '' ('' @ c @ '') is missing'')"
| "ipc_of_restore dbg (RestoreError.RemoteObjectUnavailable r) =
     IpcError_new ''STORAGE_ERROR'' (''Remote object unavailable: '' @ dbg r)"
| "ipc_of_restore dbg (RestoreError.DestinationConflict p) =
     ipc_about ''DESTINATION_CONFLICT'' p (''Target file already exists: '' @ p)"
| "ipc_of_restore dbg (RestoreError.UnsafePath p reason) = ipc_about ''UNSAFE_PATH'' p reason"
| "ipc_of_restore dbg (RestoreError.FileNotFound f) = ipc_about ''NOT_FOUND'' f (''File '' @ quoted f @ '' not found in catalog'')"
| "ipc_of_restore dbg (RestoreError.VersionNotFound v) = ipc_about ''NOT_FOUND'' v (''Version '' @ quoted v @ '' not found in catalog'')"
| "ipc_of_restore dbg (RestoreError.SnapshotNotFound s) =
     ipc_about ''NOT_FOUND'' s (''Snapshot '' @ quoted s @ '' not found in catalog'')"
| "ipc_of_restore dbg (RestoreError.EncryptionMismatch reason) = IpcError_new ''ENCRYPTION_MISMATCH'' reason"
| "ipc_of_restore dbg (RestoreError.Io e) = IpcError_new ''FILESYSTEM_ERROR'' e"
| "ipc_of_restore dbg (RestoreError.Manifest e) = IpcError_new ''MANIFEST_ERROR'' (ManifestError_display e)"
| "ipc_of_restore dbg (RestoreError.Database e) = ipc_of_db e"
| "ipc_of_restore dbg (RestoreError.Storage e) = IpcError_new ''STORAGE_ERROR'' (StorageError_display e)"
| "ipc_of_restore dbg (RestoreError.Transfer e) = ipc_of_transfer e"
| "ipc_of_restore dbg (RestoreError.Crypto e) = IpcError_new ''CRYPTO_ERROR'' (CryptoError_display e)"

fun ipc_of_scheduler :: "SchedulerError \<Rightarrow> IpcError" where
  "ipc_of_scheduler (SchedulerError.Database e) = ipc_of_db e"
| "ipc_of_scheduler (Backup e) = ipc_of_backup e"
| "ipc_of_scheduler (Core e) = ipc_of_app e"
| "ipc_of_scheduler (ScheduleNotFound i) =
     ipc_about ''SCHEDULE_NOT_FOUND'' i (''Schedule with ID '' @ quoted i @ '' was not found'')"
| "ipc_of_scheduler (SchedulerError.ProfileNotFound i) =
     ipc_about ''PROFILE_NOT_FOUND'' i (''Profile with ID '' @ quoted i @ '' was not found'')"
| "ipc_of_scheduler (InvalidSchedule m) = IpcError_new ''INVALID_SCHEDULE'' m"
| "ipc_of_scheduler (InvalidExpression m) = IpcError_new ''INVALID_EXPRESSION'' m"
| "ipc_of_scheduler (ScheduleConflict m) = IpcError_new ''SCHEDULE_CONFLICT'' m"
| "ipc_of_scheduler (ProfileAlreadyRunning i) =
     ipc_about ''SCHEDULE_ALREADY_RUNNING'' i (''Backup for profile '' @ quoted i @ '' is already running'')"
| "ipc_of_scheduler SchedulerError.Cancelled = ipc_cancelled"
| "ipc_of_scheduler (Unavailable m) = IpcError_new ''SCHEDULER_UNAVAILABLE'' m"
| "ipc_of_scheduler (SchedulerError.Internal m) = ipc_internal m"

fun ipc_of_retention :: "RetentionError \<Rightarrow> IpcError" where
  "ipc_of_retention (RetentionError.ProfileNotFound i) =
     ipc_about ''PROFILE_NOT_FOUND'' i (''Profile with ID '' @ quoted i @ '' was not found'')"
| "ipc_of_retention (RetentionError.SnapshotNotFound i) =
     ipc_about ''SNAPSHOT_NOT_FOUND'' i (''Snapshot with ID '' @ quoted i @ '' was not found'')"
| "ipc_of_retention (InvalidPolicy m) = IpcError_new ''INVALID_POLICY'' m"
| "ipc_of_retention (RetentionError.ProfileBusy m) = IpcError_new ''OPERATION_CONFLICT'' m"
| "ipc_of_retention (SnapshotProtected i reason) =
     ipc_about ''SNAPSHOT_PROTECTED'' i (''Snapshot '' @ quoted i @ '' is protected: '' @ reason)"
| "ipc_of_retention (RetentionError.Database e) = IpcError_new ''DATABASE_ERROR'' e"
| "ipc_of_retention RetentionError.Cancelled = ipc_cancelled"
| "ipc_of_retention (RetentionError.Internal m) = ipc_internal m"

fun ipc_of_repair :: "RepairError \<Rightarrow> IpcError" where
  "ipc_of_repair (RepairError.Ineligible reason) = IpcError_new ''REPAIR_INELIGIBLE'' reason"
| "ipc_of_repair (RepairError.OwnershipViolation reason) = IpcError_new ''OWNERSHIP_VIOLATION'' reason"
| "ipc_of_repair (RepairError.SourceNotFound p) = ipc_about ''SOURCE_NOT_FOUND'' p (''Source file not found at '' @ quoted p)"
| "ipc_of_repair (RepairError.SourceUnreadable p reason) =
     ipc_about ''SOURCE_UNREADABLE'' p (''Source file '' @ quoted p @ '' is unreadable: '' @ reason)"
| "ipc_of_repair (RepairError.SourceSizeMismatch p expected actual) =
     ipc_about ''SOURCE_SIZE_MISMATCH'' p (''Source file '' @ quoted p @ '' size mismatch: expected ''
       @ show_nat (unat expected) @ '', actual '' @ show_nat (unat actual))"
| "ipc_of_repair (RepairError.EncryptionKeyMissing reason) = IpcError_new ''ENCRYPTION_KEY_MISSING'' reason"
| "ipc_of_repair (RepairError.Manifest e) = IpcError_new ''MANIFEST_ERROR'' (ManifestError_display e)"
| "ipc_of_repair (RepairError.NotFound i) = IpcError_new ''NOT_FOUND'' i"
| "ipc_of_repair (RepairError.Storage e) = IpcError_new ''STORAGE_ERROR'' (StorageError_display e)"
| "ipc_of_repair (RepairError.Transfer e) = ipc_of_transfer e"
| "ipc_of_repair (RepairError.Crypto e) = IpcError_new ''CRYPTO_ERROR'' (CryptoError_display e)"
| "ipc_of_repair (RepairError.Database e) = ipc_of_db e"
| "ipc_of_repair (RepairError.ProfileBusy m) = IpcError_new ''OPERATION_CONFLICT'' m"
| "ipc_of_repair (RepairError.RemoteVerificationFailed c reason) =
     ipc_about ''REMOTE_VERIFICATION_FAILED'' c (''Chunk '' @ quoted c @ '': '' @ reason)"
| "ipc_of_repair (RepairError.Io e) = IpcError_new ''FILESYSTEM_ERROR'' e"
| "ipc_of_repair RepairError.Cancelled = ipc_cancelled"
| "ipc_of_repair (RepairError.Internal m) = ipc_internal m"


subsection \<open>What the codes say\<close>

lemmas ipc_defs = IpcError_new_def with_details_def ipc_about_def ipc_missing_def ipc_cancelled_def ipc_internal_def
  ipc_validation_def ipc_not_found_def ipc_conflict_def ipc_unauthorized_def ipc_unsafe_path_def

named_theorems ipc_code_simps

lemma ipc_code_constructors [simp, ipc_code_simps]:
  "ipc_code (IpcError_new c m) = c" "ipc_code (with_details e d) = ipc_code e" "ipc_code (ipc_about c d m) = c"
  "ipc_code (ipc_missing a i) = ''NOT_FOUND''" "ipc_code ipc_cancelled = ''CANCELLED''"
  "ipc_code (ipc_internal m) = ''INTERNAL_ERROR''" "ipc_code (ipc_validation m) = ''VALIDATION_ERROR''"
  "ipc_code (ipc_not_found m) = ''NOT_FOUND''" "ipc_code (ipc_conflict m) = ''CONFLICT''"
  "ipc_code (ipc_unauthorized m) = ''UNAUTHORIZED''"
  by (simp_all add: ipc_defs)

lemma ipc_of_app_code: "ipc_code (ipc_of_app e) \<noteq> ''CANCELLED''"
  by (cases e) simp_all

lemma ipc_of_db_code: "ipc_code (ipc_of_db e) \<noteq> ''CANCELLED''"
  by (cases e) simp_all

lemma ipc_of_backup_code: "ipc_code (ipc_of_backup e) = ''CANCELLED'' \<longleftrightarrow> e = BackupError.Cancelled"
  by (cases e) simp_all

lemma ipc_of_transfer_code: "ipc_code (ipc_of_transfer e) = ''CANCELLED'' \<longleftrightarrow> e = TransferError.Cancelled"
  by (cases e) (simp_all add: ipc_of_db_code)

lemmas ipc_nested_codes = ipc_of_app_code ipc_of_db_code ipc_of_backup_code ipc_of_transfer_code

lemma cancelled_record: "ipc_cancelled = \<lparr>ipc_code = ''CANCELLED'', ipc_message = ''The operation was cancelled by user request'', ipc_details = None\<rparr>"
  by (simp add: ipc_defs)

text \<open>C37. The conversions of the errors of the crates to errors of the interface report a cancellation as such: of the
  operation itself, or of the transfer or backup that its error wraps. Exactly these give the code CANCELLED, and then
  the whole error is one fixed record: the same message, no detail. A cancellation that was first turned into an
  application error is no longer recognised: the seven conversions to \<open>AppError\<close> that meet one make it INTERNAL_ERROR.\<close>

theorem cancelled_code_exact:
  "(ipc_code (ipc_of_backup b) = ''CANCELLED'' \<longleftrightarrow> b = BackupError.Cancelled)
   \<and> (ipc_code (ipc_of_transfer t) = ''CANCELLED'' \<longleftrightarrow> t = TransferError.Cancelled)
   \<and> (ipc_code (ipc_of_restore dbg r) = ''CANCELLED'' \<longleftrightarrow>
        r \<in> {RestoreError.Cancelled, RestoreError.Transfer TransferError.Cancelled})
   \<and> (ipc_code (ipc_of_scheduler s) = ''CANCELLED'' \<longleftrightarrow>
        s \<in> {SchedulerError.Cancelled, Backup BackupError.Cancelled})
   \<and> (ipc_code (ipc_of_retention n) = ''CANCELLED'' \<longleftrightarrow> n = RetentionError.Cancelled)
   \<and> (ipc_code (ipc_of_repair p) = ''CANCELLED'' \<longleftrightarrow>
        p \<in> {RepairError.Cancelled, RepairError.Transfer TransferError.Cancelled})
   \<and> ipc_code (ipc_of_db d) \<noteq> ''CANCELLED'' \<and> ipc_code (ipc_of_app a) \<noteq> ''CANCELLED''
   \<and> {ipc_of_backup BackupError.Cancelled, ipc_of_transfer TransferError.Cancelled, ipc_of_restore dbg RestoreError.Cancelled,
       ipc_of_restore dbg (RestoreError.Transfer TransferError.Cancelled), ipc_of_scheduler SchedulerError.Cancelled,
       ipc_of_scheduler (Backup BackupError.Cancelled), ipc_of_retention RetentionError.Cancelled,
       ipc_of_repair RepairError.Cancelled, ipc_of_repair (RepairError.Transfer TransferError.Cancelled)}
      = {\<lparr>ipc_code = ''CANCELLED'', ipc_message = ''The operation was cancelled by user request'', ipc_details = None\<rparr>}
   \<and> ipc_code ` ipc_of_app ` {TransferError_to_AppError TransferError.Cancelled, BackupError_to_AppError BackupError.Cancelled,
       RestoreError_to_AppError dbg RestoreError.Cancelled, RetentionError_to_AppError RetentionError.Cancelled,
       RepairError_to_AppError RepairError.Cancelled, SchedulerError_to_AppError SchedulerError.Cancelled,
       IntegrityError_to_AppError IntegrityError.Cancelled}
      = {''INTERNAL_ERROR''}"
proof (intro conjI)
  show "ipc_code (ipc_of_restore dbg r) = ''CANCELLED'' \<longleftrightarrow>
      r \<in> {RestoreError.Cancelled, RestoreError.Transfer TransferError.Cancelled}"
    by (cases r) (simp_all add: ipc_nested_codes)
  show "ipc_code (ipc_of_scheduler s) = ''CANCELLED'' \<longleftrightarrow> s \<in> {SchedulerError.Cancelled, Backup BackupError.Cancelled}"
    by (cases s) (simp_all add: ipc_nested_codes)
  show "ipc_code (ipc_of_retention n) = ''CANCELLED'' \<longleftrightarrow> n = RetentionError.Cancelled"
    by (cases n) simp_all
  show "ipc_code (ipc_of_repair p) = ''CANCELLED'' \<longleftrightarrow>
      p \<in> {RepairError.Cancelled, RepairError.Transfer TransferError.Cancelled}"
    by (cases p) (simp_all add: ipc_nested_codes)
qed (simp_all add: ipc_nested_codes flip: cancelled_record)

text \<open>The codes of \<open>AppError\<close> itself are lost for six of its nine variants: a validation error, an invalid identifier, a
  configuration error and a conflict become INTERNAL_ERROR, and an I/O or path error changes its name.\<close>

lemma app_code_kept_iff:
  "ipc_code (ipc_of_app e) = error_code e \<longleftrightarrow>
     (case e of AppError.NotFound _ _ \<Rightarrow> True | AppError.InvalidState _ _ \<Rightarrow> True | AppError.Internal _ \<Rightarrow> True | _ \<Rightarrow> False)"
  by (cases e) simp_all

end
