(* ===== verification/Desktop_State.thy ===== *)
theory Desktop_State
  imports Desktop_Error Backup_Checker Telegram_Http "HOL-Library.AList"
begin

text \<open>
  The shared state of the desktop application (\<open>apps/desktop/src/state.rs\<close>, the Telegram and startup records of
  \<open>dto/telegram.rs\<close> and \<open>dto/common.rs\<close>) and the clean-up of stale staging files (\<open>temp.rs\<close> of televault-storage): the
  provider the application routes to, start-up with its recovery, the Telegram settings, and the registry of
  running operations.

  The catalog and the transfer engine are those of the schedule service. \<open>das_config\<close> holds the files of the
  configuration directory by name. A cancellation token is a number: \<open>das_registry\<close> says which token an operation was
  registered with, \<open>das_signalled\<close> which tokens were cancelled.
\<close>

subsection \<open>Staging files left behind\<close>

record temp_entry =
  tpe_path :: string
  tpe_is_file :: bool
  tpe_modified :: "int option" \<comment> \<open>None when the metadata cannot be read\<close>
  tpe_removable :: bool

definition stale :: "int \<Rightarrow> int \<Rightarrow> temp_entry \<Rightarrow> bool" where
  "stale now max_age e \<longleftrightarrow> tpe_is_file e
     \<and> (case tpe_modified e of None \<Rightarrow> False | Some t \<Rightarrow> t \<le> now \<and> max_age \<le> now - t) \<and> tpe_removable e"

definition cleanup_stale_staging_files ::
  "bool \<Rightarrow> string \<Rightarrow> (string, temp_entry list) result \<Rightarrow> int \<Rightarrow> int \<Rightarrow> string set \<Rightarrow> string set \<times> (StorageError, nat) result" where
  "cleanup_stale_staging_files dir_exists dir entries now max_age tmp =
     (if \<not> dir_exists then (tmp, Ok 0)
      else case entries of
        Inl e \<Rightarrow> (tmp, Err (StorageError.TempStorage (''Failed to read temp directory '' @ quoted dir @ '': '' @ e)))
      | Inr es \<Rightarrow>
          let purged = filter (stale now max_age) es
          in (tmp - tpe_path ` set purged, Ok (length purged)))"

subsection \<open>The provider in use\<close>

datatype 'n backend =
    MockBackend MockStorageProvider
  | TelegramBackend "'n HttpTelegramTransport TelegramStorageProvider"

fun active_name :: "'n backend \<Rightarrow> string" where
  "active_name (MockBackend _) = ''mock-storage-provider''"
| "active_name (TelegramBackend _) = ''telegram-cloud-storage''"

fun dyn_upload :: "(bytes \<Rightarrow> string) \<Rightarrow> 'n http_lib \<Rightarrow> spool_env \<Rightarrow> 'n backend put_fn" where
  "dyn_upload sha lib env (MockBackend s) req rd = (let (s', r) = mock_upload sha s req rd in (MockBackend s', r))"
| "dyn_upload sha lib env (TelegramBackend p) req rd =
     (let (p', r) = tg_upload sha (http_send_document lib env) p req rd in (TelegramBackend p', r))"

fun dyn_download :: "(bytes \<Rightarrow> string) \<Rightarrow> 'n http_lib \<Rightarrow> io_error option \<Rightarrow> ('n backend, 'w) get_fn" where
  "dyn_download sha lib flush (MockBackend s) req wr w = mock_download sha s req wr w"
| "dyn_download sha lib flush (TelegramBackend p) req wr w =
     map_option (\<lambda>(p', w', r). (w', r)) (tg_download sha (http_get_document_stream lib flush) p req wr w)"

fun dyn_verify ::
  "(bytes \<Rightarrow> string) \<Rightarrow> 'n http_lib \<Rightarrow> io_error option \<Rightarrow> 'n backend \<Rightarrow> VerificationRequest
     \<Rightarrow> (StorageError, bool) result option" where
  "dyn_verify sha lib flush (MockBackend s) req = Some (mock_verify s req)"
| "dyn_verify sha lib flush (TelegramBackend p) req =
     map_option snd (tg_verify sha (http_get_message_metadata lib) (http_get_document_stream lib flush) p req)"

fun dyn_get_metadata ::
  "'n http_lib \<Rightarrow> 'n backend \<Rightarrow> StorageReference \<Rightarrow> (StorageError, RemoteObjectMetadata) result" where
  "dyn_get_metadata lib (MockBackend s) ref = mock_get_metadata s ref"
| "dyn_get_metadata lib (TelegramBackend p) ref = tg_get_metadata (http_get_message_metadata lib) p ref"

fun dyn_delete ::
  "'n http_lib \<Rightarrow> 'n backend \<Rightarrow> StorageReference \<Rightarrow> 'n backend \<times> (StorageError, unit) result" where
  "dyn_delete lib (MockBackend s) ref = (let (s', r) = mock_delete s ref in (MockBackend s', r))"
| "dyn_delete lib (TelegramBackend p) ref =
     (let (p', r) = tg_delete (http_delete_message lib) p ref in (TelegramBackend p', r))"

subsection \<open>Records of the interface\<close>

record StartupRecoveryReportDto =
  srd_database_integrity_ok :: bool
  srd_database_integrity_details :: "string list"
  srd_foreign_key_violations :: u32
  srd_foreign_key_violation_details :: "string list"
  srd_reconciled_snapshots_count :: u32
  srd_reconciled_transfers_count :: u32
  srd_purged_staging_files_count :: u32
  srd_recovered_at :: string

datatype TelegramConnectionStatus =
  NotConfigured | Configured | Connecting | Connected | ConnectionFailed | Reconnecting

record TelegramStatusDto =
  tsd_is_configured :: bool
  tsd_status :: TelegramConnectionStatus
  tsd_target_chat_id :: "int option"
  tsd_bot_username :: "string option"
  tsd_last_tested_at :: "string option"
  tsd_last_error :: "string option"
  tsd_active_backend :: string

record SaveTelegramConfigDto =
  sgd_bot_token :: string
  sgd_target_chat_id :: int
  sgd_api_endpoint :: "string option"

record TelegramConnectionTestResultDto =
  ctd_success :: bool
  ctd_bot_username :: "string option"
  ctd_bot_id :: "int option"
  ctd_chat_title :: "string option"
  ctd_error_message :: "string option"

datatype AuthStateDto =
    InitializingDto | AuthenticationRequiredDto | AuthenticatingDto | AuthenticationFailedDto | AuthenticatedDto
  | ChannelSetupRequiredDto | ChannelSetupInProgressDto | ChannelVerificationFailedDto | ReadyDto | SessionExpiredDto
  | LoggingOutDto | RecoverableErrorDto

fun AuthStateDto_of :: "AuthState \<Rightarrow> AuthStateDto" where
  "AuthStateDto_of AuthState.Initializing = InitializingDto"
| "AuthStateDto_of AuthState.AuthenticationRequired = AuthenticationRequiredDto"
| "AuthStateDto_of AuthState.Authenticating = AuthenticatingDto"
| "AuthStateDto_of AuthState.AuthenticationFailed = AuthenticationFailedDto"
| "AuthStateDto_of AuthState.Authenticated = AuthenticatedDto"
| "AuthStateDto_of AuthState.ChannelSetupRequired = ChannelSetupRequiredDto"
| "AuthStateDto_of AuthState.ChannelSetupInProgress = ChannelSetupInProgressDto"
| "AuthStateDto_of AuthState.ChannelVerificationFailed = ChannelVerificationFailedDto"
| "AuthStateDto_of AuthState.Ready = ReadyDto"
| "AuthStateDto_of AuthState.SessionExpired = SessionExpiredDto"
| "AuthStateDto_of AuthState.LoggingOut = LoggingOutDto"
| "AuthStateDto_of AuthState.RecoverableError = RecoverableErrorDto"

record TelegramAccountInfoDto =
  tad_user_id :: int
  tad_first_name :: string
  tad_last_name :: "string option"
  tad_username :: "string option"
  tad_phone_number :: string

record TelegramChannelInfoDto =
  tcd_channel_id :: int
  tcd_channel_title :: string
  tcd_is_private :: bool
  tcd_verified :: bool
  tcd_created_by_televault :: bool

record TelegramAuthStatusDto =
  asd_state :: AuthStateDto
  asd_account :: "TelegramAccountInfoDto option"
  asd_channel :: "TelegramChannelInfoDto option"
  asd_requires_password :: bool
  asd_error_message :: "string option"

definition TelegramAccountInfoDto_of :: "TelegramAccountInfo \<Rightarrow> TelegramAccountInfoDto" where
  "TelegramAccountInfoDto_of a =
     \<lparr>tad_user_id = tai_user_id a, tad_first_name = tai_first_name a, tad_last_name = tai_last_name a,
      tad_username = tai_username a, tad_phone_number = tai_phone_number a\<rparr>"

definition TelegramChannelInfoDto_of :: "TelegramChannelInfo \<Rightarrow> TelegramChannelInfoDto" where
  "TelegramChannelInfoDto_of c =
     \<lparr>tcd_channel_id = tch_channel_id c, tcd_channel_title = tch_channel_title c, tcd_is_private = tch_is_private c,
      tcd_verified = tch_verified c, tcd_created_by_televault = tch_created_by_televault c\<rparr>"

definition TelegramAuthStatusDto_of :: "TelegramAuthStatus \<Rightarrow> TelegramAuthStatusDto" where
  "TelegramAuthStatusDto_of s =
     \<lparr>asd_state = AuthStateDto_of (tas_state s), asd_account = map_option TelegramAccountInfoDto_of (tas_account s),
      asd_channel = map_option TelegramChannelInfoDto_of (tas_channel s),
      asd_requires_password = tas_requires_password s, asd_error_message = tas_error_message s\<rparr>"

subsection \<open>The state\<close>

record TelegramTestCache =
  ttc_status :: TelegramConnectionStatus
  ttc_bot_username :: "string option"
  ttc_last_error :: "string option"

record ('s, 'ss, 't, 'p) DesktopAppState =
  das_paths :: PathManager
  das_service :: "'s SchedulerService"
  das_repairing :: "ident_str set"
  das_repair_poisoned :: "string option"
  das_fs :: local_fs
  das_staging :: "string set"
  das_config :: file_map
  das_registry :: "(string \<times> nat) list"
  das_next_token :: nat
  das_signalled :: "nat set"
  das_cache :: "TelegramTestCache option"
  das_report :: StartupRecoveryReportDto
  das_auth :: "('ss, 't, 'p) MtprotoAuthManager"

abbreviation das_db :: "('s, 'ss, 't, 'p) DesktopAppState \<Rightarrow> Database" where
  "das_db st \<equiv> svc_db (das_service st)"

abbreviation das_guard :: "('s, 'ss, 't, 'p) DesktopAppState \<Rightarrow> ExecutionGuard" where
  "das_guard st \<equiv> svc_guard (das_service st)"

abbreviation das_engine :: "('s, 'ss, 't, 'p) DesktopAppState \<Rightarrow> 's engine" where
  "das_engine st \<equiv> bst_engine (svc_backup (das_service st))"

abbreviation das_provider :: "('s, 'ss, 't, 'p) DesktopAppState \<Rightarrow> 's" where
  "das_provider st \<equiv> en_provider (das_engine st)"

definition put_backup :: "'s backup_state \<Rightarrow> ('s, 'ss, 't, 'p) DesktopAppState \<Rightarrow> ('s, 'ss, 't, 'p) DesktopAppState" where
  "put_backup b st = st\<lparr>das_service := (das_service st)\<lparr>svc_backup := b\<rparr>\<rparr>"

definition put_catalog :: "Database \<Rightarrow> ('s, 'ss, 't, 'p) DesktopAppState \<Rightarrow> ('s, 'ss, 't, 'p) DesktopAppState" where
  "put_catalog db st = st\<lparr>das_service := put_db db (das_service st)\<rparr>"

definition set_active :: "'s \<Rightarrow> ('s, 'ss, 't, 'p) DesktopAppState \<Rightarrow> ('s, 'ss, 't, 'p) DesktopAppState" where
  "set_active p st =
     put_backup ((svc_backup (das_service st))\<lparr>bst_engine := (das_engine st)\<lparr>en_provider := p\<rparr>\<rparr>) st"

subsection \<open>Start-up\<close>

definition CREDENTIALS_FILE :: string where
  "CREDENTIALS_FILE = ''telegram_credentials.json''"

record 'n desk_lib =
  dl_http :: "'n http_lib"
  dl_credentials_json :: "TelegramCredentials \<Rightarrow> (string, string) result"
  dl_credentials_parse :: "string \<Rightarrow> (string, TelegramCredentials) result"
  dl_api_parse :: "string \<Rightarrow> (string, TelegramApiCredentials) result"
  dl_failure_note :: "string \<Rightarrow> string option"
  dl_sql_text :: string

text \<open>What the configuration files and the network look like at a call.\<close>

record 'n desk_env =
  dn_net :: 'n
  dn_spool :: "string \<Rightarrow> bytes option"
  dn_io :: file_io
  dn_read_error :: "io_error option"
  dn_remove_error :: "io_error option"

record startup_env =
  su_create_dirs :: "io_error option"
  su_open :: "(DbError, Database) result"
  su_integrity :: "(DbError, string list) result"
  su_foreign_keys :: "(DbError, string list) result"
  su_db_now :: string
  su_temp_entries :: "(string, temp_entry list) result"
  su_now :: int
  su_recovered_at :: string
  su_api_id :: "string option"
  su_api_hash :: "string option"

definition bot_config :: "TelegramCredentials \<Rightarrow> TelegramStorageConfig" where
  "bot_config c = \<lparr>tsc_target_chat_id = tcr_target_chat_id c, tsc_chunk_upload_timeout_secs = 300, tsc_max_retries = 3\<rparr>"

definition initial_provider ::
  "'n desk_lib \<Rightarrow> 'n desk_env \<Rightarrow> 'n backend option \<Rightarrow> file_map \<Rightarrow> 'n backend" where
  "initial_provider lib env custom files =
     (case custom of
        Some p \<Rightarrow> p
      | None \<Rightarrow>
          if files CREDENTIALS_FILE = None then MockBackend MockStorageProvider_new
          else case TelegramCredentials_load (dl_credentials_parse lib) (dn_read_error env) CREDENTIALS_FILE files of
            Inl _ \<Rightarrow> MockBackend MockStorageProvider_new
          | Inr c \<Rightarrow>
              (case HttpTelegramTransport_new (dl_http lib) (dn_net env) (dn_spool env) c of
                 Inl _ \<Rightarrow> MockBackend MockStorageProvider_new
               | Inr t \<Rightarrow> TelegramBackend \<lparr>tsp_transport = t, tsp_config = bot_config c\<rparr>))"

definition all_ok :: "string list \<Rightarrow> bool" where
  "all_ok details \<longleftrightarrow> list_all (\<lambda>s. eq_ignore_ascii_case s ''ok'') details"

definition initial_auth ::
  "('ss, 't, 'p) auth_lib \<Rightarrow> 'n desk_lib \<Rightarrow> auth_env \<Rightarrow> startup_env \<Rightarrow> string option \<Rightarrow> file_map
     \<Rightarrow> ('ss, 't, 'p) MtprotoAuthManager" where
  "initial_auth alib lib aenv env session files =
     (if aq_mock_env aenv then new_mock alib aenv session
      else case load_from_env_or_file (dl_api_parse lib) (su_api_id env) (su_api_hash env) (files ''telegram_api.json'') of
        Some c \<Rightarrow> new_live alib aenv session (tac_api_id c) (tac_api_hash c)
      | None \<Rightarrow> new_live alib aenv session 0 [])"

definition startup_report ::
  "startup_env \<Rightarrow> nat \<times> nat \<Rightarrow> nat \<Rightarrow> StartupRecoveryReportDto" where
  "startup_report env reconciled purged =
     (let details = (case su_integrity env of Inr d \<Rightarrow> d | Inl e \<Rightarrow> [''Integrity check error: '' @ DbError_display e]);
          violations = (case su_foreign_keys env of Inr v \<Rightarrow> v | Inl _ \<Rightarrow> []) in
      \<lparr>srd_database_integrity_ok = all_ok details, srd_database_integrity_details = details,
       srd_foreign_key_violations = of_nat (length violations), srd_foreign_key_violation_details = violations,
       srd_reconciled_snapshots_count = of_nat (fst reconciled), srd_reconciled_transfers_count = of_nat (snd reconciled),
       srd_purged_staging_files_count = of_nat purged, srd_recovered_at = su_recovered_at env\<rparr>)"

definition DesktopAppState_new ::
  "platform \<Rightarrow> 'n desk_lib \<Rightarrow> ('ss, 't, 'p) auth_lib \<Rightarrow> 'n desk_env \<Rightarrow> auth_env \<Rightarrow> startup_env \<Rightarrow> path \<Rightarrow> 'n backend option
     \<Rightarrow> local_fs \<Rightarrow> string set \<Rightarrow> file_map \<Rightarrow> string option
     \<Rightarrow> (AppError, ('n backend, 'ss, 't, 'p) DesktopAppState) result" where
  "DesktopAppState_new pf lib alib denv aenv env base custom fs staging files session =
     (case su_create_dirs env of
        Some e \<Rightarrow> Err (AppError.Io e)
      | None \<Rightarrow>
          (case su_open env of
             Inl e \<Rightarrow> Err (AppError.Io (IoError (OtherKind ''Other'') (DbError_display e)))
           | Inr db \<Rightarrow>
               let (db1, reconciled) = reconcile_interrupted_operations (dl_failure_note lib) (dl_sql_text lib) (su_db_now env) db;
                   (staging1, purged) = cleanup_stale_staging_files True [] (su_temp_entries env) (su_now env) 0 staging;
                   counts = (case reconciled of Inr c \<Rightarrow> c | Inl _ \<Rightarrow> (0, 0));
                   removed = (case purged of Inr n \<Rightarrow> n | Inl _ \<Rightarrow> 0)
               in Ok \<lparr>das_paths = \<lparr>base_dir = base\<rparr>,
                 das_service = SchedulerService_new \<lparr>bst_db = db1, bst_engine =
                   \<lparr>en_provider = initial_provider lib denv custom files, en_queue = TransferQueue_new 2\<rparr>\<rparr>,
                 das_repairing = {}, das_repair_poisoned = None, das_fs = fs, das_staging = staging1, das_config = files,
                 das_registry = [], das_next_token = 0, das_signalled = {}, das_cache = None,
                 das_report = startup_report env counts removed,
                 das_auth = initial_auth alib lib aenv env session files\<rparr>))"

definition mock_ready :: "string option \<Rightarrow> ('s, 'ss, 't, 'p) DesktopAppState \<Rightarrow> ('s, 'ss, 't, 'p) DesktopAppState" where
  "mock_ready session st = st\<lparr>das_auth := new_mock_ready session\<rparr>"

definition new_in_memory :: "path \<Rightarrow> Database \<Rightarrow> string \<Rightarrow> ('n backend, 'ss, 't, 'p) DesktopAppState" where
  "new_in_memory base db now =
     \<lparr>das_paths = \<lparr>base_dir = base\<rparr>,
      das_service = SchedulerService_new \<lparr>bst_db = db, bst_engine =
        \<lparr>en_provider = MockBackend MockStorageProvider_new, en_queue = TransferQueue_new 2\<rparr>\<rparr>,
      das_repairing = {}, das_repair_poisoned = None, das_fs = \<lparr>fs_files = (\<lambda>_. None), fs_dirs = {}\<rparr>, das_staging = {},
      das_config = (\<lambda>_. None), das_registry = [], das_next_token = 0, das_signalled = {}, das_cache = None,
      das_report = \<lparr>srd_database_integrity_ok = True, srd_database_integrity_details = [''ok''],
        srd_foreign_key_violations = 0, srd_foreign_key_violation_details = [], srd_reconciled_snapshots_count = 0,
        srd_reconciled_transfers_count = 0, srd_purged_staging_files_count = 0, srd_recovered_at = now\<rparr>,
      das_auth = new_mock_ready None\<rparr>"

subsection \<open>Telegram settings\<close>

definition get_telegram_status ::
  "'n desk_lib \<Rightarrow> 'n desk_env \<Rightarrow> ('n backend, 'ss, 't, 'p) DesktopAppState \<Rightarrow> TelegramStatusDto" where
  "get_telegram_status lib env st =
     (let status = (\<lambda>configured s chat user err.
        \<lparr>tsd_is_configured = configured, tsd_status = s, tsd_target_chat_id = chat, tsd_bot_username = user,
         tsd_last_tested_at = None, tsd_last_error = err, tsd_active_backend = active_name (das_provider st)\<rparr>) in
      if das_config st CREDENTIALS_FILE = None then status False NotConfigured None None None
      else case TelegramCredentials_load (dl_credentials_parse lib) (dn_read_error env) CREDENTIALS_FILE (das_config st) of
        Inl e \<Rightarrow> status False ConnectionFailed None None (Some (''Failed to load credentials: '' @ TelegramError_display e))
      | Inr c \<Rightarrow>
          (case das_cache st of
             Some k \<Rightarrow> status True (ttc_status k) (Some (tcr_target_chat_id c)) (ttc_bot_username k) (ttc_last_error k)
           | None \<Rightarrow> status True Configured (Some (tcr_target_chat_id c)) None None))"

definition telegram_invalid :: "string \<Rightarrow> AppError" where
  "telegram_invalid m = AppError.Validation ''telegram'' m"

definition use_bot ::
  "'n HttpTelegramTransport \<Rightarrow> TelegramCredentials \<Rightarrow> TelegramTestCache \<Rightarrow> ('n backend, 'ss, 't, 'p) DesktopAppState
     \<Rightarrow> ('n backend, 'ss, 't, 'p) DesktopAppState" where
  "use_bot t c k st =
     (set_active (TelegramBackend \<lparr>tsp_transport = t, tsp_config = bot_config c\<rparr>) st)\<lparr>das_cache := Some k\<rparr>"

definition save_telegram_config ::
  "'n desk_lib \<Rightarrow> 'n desk_env \<Rightarrow> SaveTelegramConfigDto \<Rightarrow> ('n backend, 'ss, 't, 'p) DesktopAppState
     \<Rightarrow> ('n backend, 'ss, 't, 'p) DesktopAppState \<times> (AppError, TelegramStatusDto) result" where
  "save_telegram_config lib env req st =
     (case TelegramCredentials_new (sgd_bot_token req) (sgd_target_chat_id req) (sgd_api_endpoint req) of
        Inl e \<Rightarrow> (st, Err (telegram_invalid (TelegramError_display e)))
      | Inr c \<Rightarrow>
          (case HttpTelegramTransport_new (dl_http lib) (dn_net env) (dn_spool env) c of
             Inl e \<Rightarrow> (st, Err (telegram_invalid (TelegramError_display e)))
           | Inr t \<Rightarrow>
               (case TelegramCredentials_save (dl_credentials_json lib) (dn_io env) ''telegram_credentials.tmp''
                       CREDENTIALS_FILE c (das_config st) of
                  (files, Inl e) \<Rightarrow> (st\<lparr>das_config := files\<rparr>, Err (AppError.Io (IoError (OtherKind ''Other'') (TelegramError_display e))))
                | (files, Inr _) \<Rightarrow>
                    let st1 = use_bot t c \<lparr>ttc_status = Configured, ttc_bot_username = None, ttc_last_error = None\<rparr>
                                (st\<lparr>das_config := files\<rparr>)
                    in (st1, Ok (get_telegram_status lib env st1)))))"

definition test_result :: "TelegramConnectionInfo option \<Rightarrow> string option \<Rightarrow> TelegramConnectionTestResultDto" where
  "test_result info err =
     \<lparr>ctd_success = (info \<noteq> None), ctd_bot_username = Option.bind info tci_bot_username, ctd_bot_id = map_option tci_bot_id info,
      ctd_chat_title = Option.bind info tci_chat_title, ctd_error_message = err\<rparr>"

definition test_telegram_connection ::
  "'n desk_lib \<Rightarrow> 'n desk_env \<Rightarrow> ('n backend, 'ss, 't, 'p) DesktopAppState
     \<Rightarrow> ('n backend, 'ss, 't, 'p) DesktopAppState \<times> (AppError, TelegramConnectionTestResultDto) result" where
  "test_telegram_connection lib env st =
     (if das_config st CREDENTIALS_FILE = None then
        (st, Ok (test_result None (Some ''Telegram credentials are not configured'')))
      else case TelegramCredentials_load (dl_credentials_parse lib) (dn_read_error env) CREDENTIALS_FILE (das_config st) of
        Inl e \<Rightarrow> (st, Err (telegram_invalid (''Failed to load credentials: '' @ TelegramError_display e)))
      | Inr c \<Rightarrow>
          (case HttpTelegramTransport_new (dl_http lib) (dn_net env) (dn_spool env) c of
             Inl e \<Rightarrow> (st, Err (telegram_invalid (''Failed to initialize transport: '' @ TelegramError_display e)))
           | Inr t \<Rightarrow>
               (case http_test_connection (dl_http lib) t (tcr_target_chat_id c) of
                  (t', Inr info) \<Rightarrow>
                    (use_bot t' c \<lparr>ttc_status = Connected, ttc_bot_username = tci_bot_username info, ttc_last_error = None\<rparr> st,
                     Ok (test_result (Some info) None))
                | (t', Inl e) \<Rightarrow>
                    (st\<lparr>das_cache := Some \<lparr>ttc_status = ConnectionFailed, ttc_bot_username = None,
                          ttc_last_error = Some (TelegramError_display e)\<rparr>\<rparr>,
                     Ok (test_result None (Some (TelegramError_display e)))))))"

definition disconnect_telegram ::
  "'n desk_lib \<Rightarrow> 'n desk_env \<Rightarrow> ('n backend, 'ss, 't, 'p) DesktopAppState
     \<Rightarrow> ('n backend, 'ss, 't, 'p) DesktopAppState \<times> (AppError, TelegramStatusDto) result" where
  "disconnect_telegram lib env st =
     (case TelegramCredentials_remove (dn_remove_error env) CREDENTIALS_FILE (das_config st) of
        (files, Inl e) \<Rightarrow> (st\<lparr>das_config := files\<rparr>, Err (AppError.Io (IoError (OtherKind ''Other'') (TelegramError_display e))))
      | (files, Inr _) \<Rightarrow>
          let st1 = (set_active (MockBackend MockStorageProvider_new) (st\<lparr>das_config := files\<rparr>))\<lparr>das_cache := None\<rparr>
          in (st1, Ok (get_telegram_status lib env st1)))"

subsection \<open>Running operations\<close>

definition active_snapshots :: "('s, 'ss, 't, 'p) DesktopAppState \<Rightarrow> ident_str set" where
  "active_snapshots st =
     set (List.map_filter (\<lambda>k. Option.bind (strip_prefix ''snap-'' k) (\<lambda>s. result_ok (id_new ''SnapshotId'' s)))
       (map fst (das_registry st)))"

definition register_cancellation ::
  "string \<Rightarrow> ('s, 'ss, 't, 'p) DesktopAppState \<Rightarrow> ('s, 'ss, 't, 'p) DesktopAppState \<times> nat" where
  "register_cancellation op st =
     (st\<lparr>das_registry := AList.update op (das_next_token st) (das_registry st), das_next_token := Suc (das_next_token st)\<rparr>,
      das_next_token st)"

definition cancel_operation ::
  "string \<Rightarrow> ('s, 'ss, 't, 'p) DesktopAppState \<Rightarrow> ('s, 'ss, 't, 'p) DesktopAppState \<times> bool" where
  "cancel_operation op st =
     (case map_of (das_registry st) op of
        Some t \<Rightarrow> (st\<lparr>das_registry := AList.delete op (das_registry st), das_signalled := insert t (das_signalled st)\<rparr>, True)
      | None \<Rightarrow> (st, False))"

definition unregister_cancellation :: "string \<Rightarrow> ('s, 'ss, 't, 'p) DesktopAppState \<Rightarrow> ('s, 'ss, 't, 'p) DesktopAppState" where
  "unregister_cancellation op st = st\<lparr>das_registry := AList.delete op (das_registry st)\<rparr>"

subsection \<open>Personal login\<close>

definition desktop_auth_gate :: "('s, 'ss, 't, 'p) DesktopAppState \<Rightarrow> unit ipc" where
  "desktop_auth_gate st = map_err (\<lambda>e. ipc_unauthorized (TelegramError_display e)) (check_auth_gate (das_auth st))"

definition account_row :: "string \<Rightarrow> TelegramAccountInfo \<Rightarrow> TelegramAccountRecord" where
  "account_row now a =
     \<lparr>tga_user_id = tai_user_id a, tga_first_name = tai_first_name a, tga_last_name = tai_last_name a,
      tga_username = tai_username a, tga_phone_redacted = tai_phone_number a, tga_authenticated_at = now, tga_last_seen_at = now\<rparr>"

definition channel_row :: "string \<Rightarrow> TelegramAccountInfo \<Rightarrow> TelegramChannelInfo \<Rightarrow> TelegramChannelRecord" where
  "channel_row now a c =
     \<lparr>tgc_channel_id = tch_channel_id c, tgc_user_id = tai_user_id a, tgc_title = tch_channel_title c,
      tgc_is_private = tch_is_private c, tgc_verified = tch_verified c,
      tgc_created_by_televault = tch_created_by_televault c, tgc_created_at = now,
      tgc_verified_at = (if tch_verified c then Some now else None)\<rparr>"

definition get_telegram_auth_status ::
  "string \<Rightarrow> string \<Rightarrow> string \<Rightarrow> string \<Rightarrow> ('s, 'ss, 't, 'p) DesktopAppState
     \<Rightarrow> ('s, 'ss, 't, 'p) DesktopAppState \<times> TelegramAuthStatusDto" where
  "get_telegram_auth_status em now now2 db_now st =
     (let s = auth_status (das_auth st);
          db1 = (case tas_account s of
                   Some a \<Rightarrow> fst (save_telegram_account (account_row now a) (das_db st)) | None \<Rightarrow> das_db st);
          db2 = (case (tas_account s, tas_channel s) of
                   (Some a, Some c) \<Rightarrow> fst (save_telegram_channel em (channel_row now2 a c) db1) | _ \<Rightarrow> db1);
          db3 = fst (update_telegram_auth_state em db_now (to_lowercase (AuthState_debug (tas_state s)))
                  (map_option tai_user_id (tas_account s)) (map_option tch_channel_id (tas_channel s)) db2)
      in (put_catalog db3 st, TelegramAuthStatusDto_of s))"


subsection \<open>Start-up leaves nothing running\<close>

lemmas das_update_defs = put_backup_def put_catalog_def set_active_def put_db_def

lemma cleanup_removes:
  assumes "cleanup_stale_staging_files True dir (Inr es) now 0 tmp = (tmp', r)"
  shows "r = Ok (length (filter (stale now 0) es)) \<and> tmp' \<subseteq> tmp
    \<and> (\<forall>e \<in> set es. tpe_is_file e \<and> tpe_removable e \<and> (\<exists>t. tpe_modified e = Some t \<and> t \<le> now) \<longrightarrow> tpe_path e \<notin> tmp')"
  using assms by (auto simp: cleanup_stale_staging_files_def stale_def)

lemma sort_key_Nil_iff [simp]: "sort_key f xs = [] \<longleftrightarrow> xs = []"
  by (metis length_0_conv length_sort)

lemma reconcile_clean:
  assumes "reconcile_interrupted_operations nt em now db = (db', Ok c)"
  shows "(\<forall>s \<in> set (t_snapshots db'). \<not> snapshot_active s)
    \<and> (\<forall>j \<in> set (t_jobs db'). tjr_status j \<noteq> TransferStatus.Transferring)"
  using reconcile_recovers [of db nt nt em now em now] assms
  by (cases c) (auto simp: filter_empty_conv list_transfer_jobs_by_status_def order_asc_def)

text \<open>C27. Start-up begins with a clean slate: no operation is registered, no profile is held by a backup or a repair, the
  scheduler is stopped; and unless the reconciliation itself failed, no snapshot is left scanning or backing up and no
  transfer job transferring, however the last run ended.\<close>

theorem startup_clean:
  assumes "DesktopAppState_new pf lib alib denv aenv env base custom fs staging files session = Ok st" "su_open env = Inr db"
  shows "das_registry st = [] \<and> active_snapshots st = {} \<and> eg_active (das_guard st) = {} \<and> das_repairing st = {}
    \<and> svc_status (das_service st) = Stopped \<and> das_staging st \<subseteq> staging
    \<and> (is_ok (snd (reconcile_interrupted_operations (dl_failure_note lib) (dl_sql_text lib) (su_db_now env) db)) \<longrightarrow>
         (\<forall>s \<in> set (t_snapshots (das_db st)). \<not> snapshot_active s)
         \<and> (\<forall>j \<in> set (t_jobs (das_db st)). tjr_status j \<noteq> TransferStatus.Transferring))"
proof -
  obtain db1 r where rec: "reconcile_interrupted_operations (dl_failure_note lib) (dl_sql_text lib) (su_db_now env) db = (db1, r)"
    by fastforce
  obtain tmp1 n where clean: "cleanup_stale_staging_files True [] (su_temp_entries env) (su_now env) 0 staging = (tmp1, n)"
    by fastforce
  have tmp: "tmp1 \<subseteq> staging"
    using clean by (auto simp: cleanup_stale_staging_files_def Let_def split: sum.splits)
  have st: "das_db st = db1" "das_registry st = []" "das_guard st = ExecutionGuard_new" "das_repairing st = {}"
      "svc_status (das_service st) = Stopped" "das_staging st = tmp1"
    using assms rec clean
    by (auto simp: DesktopAppState_new_def Let_def SchedulerService_new_def split: option.splits sum.splits)
  show ?thesis
  proof (cases r)
    case (Inr c)
    then show ?thesis using reconcile_clean [of "dl_failure_note lib" "dl_sql_text lib" "su_db_now env" db db1 c] rec tmp
      by (simp add: st active_snapshots_def map_filter_def ExecutionGuard_new_def)
  qed (use rec tmp in \<open>simp add: st active_snapshots_def map_filter_def ExecutionGuard_new_def\<close>)
qed

definition sample_grammers :: "(unit, unit, unit) grammers" where
  "sample_grammers = \<lparr>gm_fresh = (), gm_restore = (\<lambda>_. ()), gm_request_code = (\<lambda>s _ _ _. (s, Inr ())),
     gm_sign_in = (\<lambda>s _ _ _. (s, Inl SiInvalidCode)), gm_check_password = (\<lambda>s _ _ _. (s, Inl SiInvalidPassword)),
     gm_create_channel = (\<lambda>s _ _. (s, Inl [])), gm_get_channels = (\<lambda>s _ _. (s, Inl [])), gm_get_me = (\<lambda>s _. (s, Inl [])),
     gm_export = (\<lambda>_. []), gm_sign_in_text = (\<lambda>_. [])\<rparr>"

definition sample_auth_lib :: "(unit, unit, unit) auth_lib" where
  "sample_auth_lib = \<lparr>al_grammers = sample_grammers, al_session_json = (\<lambda>_. Inl []), al_session_parse = (\<lambda>_. Inl [])\<rparr>"

definition sample_auth_env :: auth_env where
  "sample_auth_env = \<lparr>aq_mock_env = False, aq_now = ''n'', aq_read_error = False, aq_write_error = None, aq_remove_ok = True\<rparr>"

definition sample_http :: "unit http_lib" where
  "sample_http = \<lparr>hl_build = None, hl_get = (\<lambda>_ _. Inl \<lparr>ne_message = [], ne_timeout = True\<rparr>),
     hl_post = (\<lambda>n _. (n, Inl \<lparr>ne_message = [], ne_timeout = True\<rparr>)), hl_mime = None, hl_value = (\<lambda>_. None),
     hl_user = (\<lambda>_. Inl []), hl_chat = (\<lambda>_. Inl []), hl_message = (\<lambda>_. Inl []), hl_file = (\<lambda>_. Inl [])\<rparr>"

text \<open>A library whose credentials file is the token of a bot for the chat -100; others it cannot write.\<close>

definition sample_desk_lib :: "unit desk_lib" where
  "sample_desk_lib = \<lparr>dl_http = sample_http, dl_credentials_json =
       (\<lambda>c. if tcr_target_chat_id c = - 100 \<and> tcr_api_endpoint c = None then Ok (tcr_bot_token c) else Err ''other''),
     dl_credentials_parse = (\<lambda>s. Ok \<lparr>tcr_bot_token = s, tcr_target_chat_id = - 100, tcr_api_endpoint = None\<rparr>),
     dl_api_parse = (\<lambda>_. Inl []), dl_failure_note = Some, dl_sql_text = ''e''\<rparr>"

definition sample_desk_env :: "unit desk_env" where
  "sample_desk_env = \<lparr>dn_net = (), dn_spool = (\<lambda>_. None),
     dn_io = \<lparr>fio_create_dir = None, fio_write = None, fio_rename = None\<rparr>, dn_read_error = None, dn_remove_error = None\<rparr>"

definition sample_startup :: "Database \<Rightarrow> startup_env" where
  "sample_startup db = \<lparr>su_create_dirs = None, su_open = Inr db, su_integrity = Inr [''ok''], su_foreign_keys = Inr [],
     su_db_now = ''n'', su_temp_entries = Inr [], su_now = 0, su_recovered_at = ''n'', su_api_id = None, su_api_hash = None\<rparr>"

lemma sample_startup_runs:
  "\<exists>st. DesktopAppState_new unix_platform sample_desk_lib sample_auth_lib sample_desk_env sample_auth_env (sample_startup db)
     [Normal ''b''] custom sample_disk {''t''} files None = Ok st
     \<and> das_config st = files \<and> das_provider st = initial_provider sample_desk_lib sample_desk_env custom files"
  by (simp add: DesktopAppState_new_def sample_startup_def Let_def SchedulerService_new_def split: prod.split)

theorem startup_clean_witness:
  "\<exists>st. DesktopAppState_new unix_platform sample_desk_lib sample_auth_lib sample_desk_env sample_auth_env
       (sample_startup sample_db) [Normal ''b''] None sample_disk {''t''} (\<lambda>_. None) None = Ok st \<and> das_registry st = []
     \<and> eg_active (das_guard st) = {}"
proof -
  obtain st where "DesktopAppState_new unix_platform sample_desk_lib sample_auth_lib sample_desk_env sample_auth_env
       (sample_startup sample_db) [Normal ''b''] None sample_disk {''t''} (\<lambda>_. None) None = Ok st"
    using sample_startup_runs by blast
  moreover from startup_clean [OF this, of sample_db] have "das_registry st = [] \<and> eg_active (das_guard st) = {}"
    by (simp add: sample_startup_def)
  ultimately show ?thesis by blast
qed

subsection \<open>The provider over a restart\<close>

lemma saved_credentials_load:
  assumes "TelegramCredentials_save to_json fio tmp path c files = (files', Ok ())" "TelegramCredentials_new tok chat ep = Inr c"
    and "\<And>s. to_json c = Ok s \<Longrightarrow> of_json s = Ok c"
  shows "files' path \<noteq> None \<and> TelegramCredentials_load of_json None path files' = Inr c"
  using assms
  by (auto simp: TelegramCredentials_save_def TelegramCredentials_load_def TelegramCredentials_new_def write_then_rename_def
      or_io_def Let_def bind_res_Inr_iff map_err_def split: sum.splits option.splits if_splits)

text \<open>C38. Telegram settings that were saved survive a restart: the application started next on the same files routes to the
  same bot and chat, given that the credentials file is readable and parses back to what was written.\<close>

theorem saved_settings_survive_restart:
  assumes "save_telegram_config lib env req st = (st1, Ok dto)"
    and "DesktopAppState_new pf lib alib denv aenv senv base None fs staging (das_config st1) session = Ok st2"
    and "\<And>c s. dl_credentials_json lib c = Ok s \<Longrightarrow> dl_credentials_parse lib s = Ok c" "dn_read_error denv = None"
  shows "\<exists>p q. das_provider st1 = TelegramBackend p \<and> das_provider st2 = TelegramBackend q
    \<and> ht_credentials (tsp_transport q) = ht_credentials (tsp_transport p) \<and> tsp_config q = tsp_config p
    \<and> tcr_bot_token (ht_credentials (tsp_transport q)) = sgd_bot_token req
    \<and> tsc_target_chat_id (tsp_config q) = sgd_target_chat_id req
    \<and> tsd_active_backend dto = ''telegram-cloud-storage''"
proof -
  obtain c t files where c: "TelegramCredentials_new (sgd_bot_token req) (sgd_target_chat_id req) (sgd_api_endpoint req) = Inr c"
    and t: "HttpTelegramTransport_new (dl_http lib) (dn_net env) (dn_spool env) c = Inr t"
    and save: "TelegramCredentials_save (dl_credentials_json lib) (dn_io env) ''telegram_credentials.tmp'' CREDENTIALS_FILE c
        (das_config st) = (files, Ok ())"
    and st1: "das_provider st1 = TelegramBackend \<lparr>tsp_transport = t, tsp_config = bot_config c\<rparr>" "das_config st1 = files"
    and dto: "tsd_active_backend dto = ''telegram-cloud-storage''"
    using assms(1)
    by (auto simp: save_telegram_config_def use_bot_def das_update_defs get_telegram_status_def Let_def
        split: sum.splits prod.splits if_splits option.splits)
  have load: "files CREDENTIALS_FILE \<noteq> None" "TelegramCredentials_load (dl_credentials_parse lib) None CREDENTIALS_FILE files = Inr c"
    using saved_credentials_load [OF save c] assms(3) by blast+
  obtain t2 where t2: "HttpTelegramTransport_new (dl_http lib) (dn_net denv) (dn_spool denv) c = Inr t2" "ht_credentials t2 = c"
    using t by (auto simp: HttpTelegramTransport_new_def bind_res_Inr_iff split: option.splits)
  have "das_provider st2 = initial_provider lib denv None files"
    using assms(2) by (auto simp: DesktopAppState_new_def Let_def SchedulerService_new_def st1
        split: option.splits sum.splits prod.splits)
  then have st2: "das_provider st2 = TelegramBackend \<lparr>tsp_transport = t2, tsp_config = bot_config c\<rparr>"
    using load assms(4) t2 by (simp add: initial_provider_def)
  moreover have "ht_credentials t = c" using t by (auto simp: HttpTelegramTransport_new_def bind_res_Inr_iff split: option.splits)
  moreover have "tcr_bot_token c = sgd_bot_token req" "tcr_target_chat_id c = sgd_target_chat_id req"
    using c by (auto simp: TelegramCredentials_new_def Let_def bind_res_Inr_iff)
  ultimately show ?thesis using st1 t2 dto by (simp add: bot_config_def)
qed

definition sample_request :: SaveTelegramConfigDto where
  "sample_request = \<lparr>sgd_bot_token = ''123456789:ABCDEFGH'', sgd_target_chat_id = - 100, sgd_api_endpoint = None\<rparr>"

theorem saved_settings_survive_restart_witness:
  "\<exists>st1 st2 dto q. save_telegram_config sample_desk_lib sample_desk_env sample_request
       (new_in_memory [] sample_db [] :: (unit backend, unit, unit, unit) DesktopAppState) = (st1, Ok dto)
     \<and> DesktopAppState_new unix_platform sample_desk_lib sample_auth_lib sample_desk_env sample_auth_env
         (sample_startup sample_db) [Normal ''b''] None sample_disk {''t''} (das_config st1) None = Ok st2
     \<and> das_provider st2 = TelegramBackend q \<and> tsc_target_chat_id (tsp_config q) = - 100"
proof -
  have valid: "TelegramCredentials_new ''123456789:ABCDEFGH'' (- 100) None =
      Inr \<lparr>tcr_bot_token = ''123456789:ABCDEFGH'', tcr_target_chat_id = - 100, tcr_api_endpoint = None\<rparr>" by code_simp
  then have "TelegramCredentials_validate
      \<lparr>tcr_bot_token = ''123456789:ABCDEFGH'', tcr_target_chat_id = - 100, tcr_api_endpoint = None\<rparr> = Inr ()"
    by (auto simp: TelegramCredentials_new_def Let_def bind_res_Inr_iff)
  with valid have "\<exists>st1 dto. save_telegram_config sample_desk_lib sample_desk_env sample_request
       (new_in_memory [] sample_db [] :: (unit backend, unit, unit, unit) DesktopAppState) = (st1, Ok dto)"
    by (simp add: save_telegram_config_def sample_request_def sample_desk_lib_def sample_desk_env_def sample_http_def
        HttpTelegramTransport_new_def TelegramCredentials_save_def write_then_rename_def or_io_def Let_def)
  then obtain st1 dto where save: "save_telegram_config sample_desk_lib sample_desk_env sample_request
       (new_in_memory [] sample_db [] :: (unit backend, unit, unit, unit) DesktopAppState) = (st1, Ok dto)" by blast
  obtain st2 where new: "DesktopAppState_new unix_platform sample_desk_lib sample_auth_lib sample_desk_env sample_auth_env
         (sample_startup sample_db) [Normal ''b''] None sample_disk {''t''} (das_config st1) None = Ok st2"
    using sample_startup_runs by blast
  have json: "dl_credentials_parse sample_desk_lib s = Ok c" if "dl_credentials_json sample_desk_lib c = Ok s" for c s
    using that by (simp add: sample_desk_lib_def split: if_splits)
  have "dn_read_error sample_desk_env = None" by (simp add: sample_desk_env_def)
  from saved_settings_survive_restart [OF save new json this] save new show ?thesis
    by (auto simp: sample_request_def)
qed

text \<open>Without a readable credentials file the application does not fail but keeps its objects in memory: the next start
  has lost them.\<close>

lemma unreadable_credentials_fall_back:
  assumes "files CREDENTIALS_FILE = Some s" "dn_read_error env \<noteq> None \<or> dl_credentials_parse lib s = Inl e"
  shows "initial_provider lib env None files = MockBackend MockStorageProvider_new"
  using assms by (auto simp: initial_provider_def TelegramCredentials_load_def or_io_def map_err_def split: option.splits)

subsection \<open>The registry\<close>

lemma strip_prefix_Some_iff: "strip_prefix p k = Some s \<longleftrightarrow> k = p @ s"
proof
  assume "strip_prefix p k = Some s"
  then have "take (length p) k = p" "drop (length p) k = s" by (simp_all add: strip_prefix_def split: if_splits)
  then show "k = p @ s" by (metis append_take_drop_id)
qed (simp add: strip_prefix_def)

lemma in_map_filter_iff: "y \<in> set (List.map_filter f xs) \<longleftrightarrow> (\<exists>x \<in> set xs. f x = Some y)"
  by (induction xs) (auto simp: map_filter_simps split: option.splits)

lemma active_snapshots_iff:
  "sid \<in> active_snapshots st \<longleftrightarrow> map_of (das_registry st) (''snap-'' @ sid) \<noteq> None \<and> id_new ''SnapshotId'' sid = Ok sid"
proof -
  have r: "result_ok r = Some x \<longleftrightarrow> r = Ok x" for r :: "(AppError, ident_str) result" and x
    by (cases r) (auto simp: result_ok_def)
  have i: "id_new ''SnapshotId'' s = Ok sid \<longleftrightarrow> s = sid \<and> id_new ''SnapshotId'' sid = Ok sid" for s
    by (auto simp: id_new_ok_iff)
  have "Option.bind (strip_prefix p k) (\<lambda>s. result_ok (id_new ''SnapshotId'' s)) = Some sid \<longleftrightarrow>
      k = p @ sid \<and> id_new ''SnapshotId'' sid = Ok sid" for p k
    unfolding bind_eq_Some_conv strip_prefix_Some_iff r using i by blast
  then show ?thesis unfolding active_snapshots_def in_map_filter_iff map_of_eq_None_iff by auto
qed

text \<open>The steps of concurrent commands, as far as the registry goes.\<close>

inductive registry_step ::
  "('s, 'ss, 't, 'p) DesktopAppState \<Rightarrow> ('s, 'ss, 't, 'p) DesktopAppState \<Rightarrow> bool" where
  register: "registry_step st (fst (register_cancellation op st))"
| cancelled: "registry_step st (fst (cancel_operation op st))"
| unregister: "registry_step st (unregister_cancellation op st)"
| elsewhere: "\<lbrakk>das_registry st' = das_registry st; das_next_token st' = das_next_token st; das_signalled st' = das_signalled st\<rbrakk>
    \<Longrightarrow> registry_step st st'"

definition fresh_registry :: "('s, 'ss, 't, 'p) DesktopAppState \<Rightarrow> bool" where
  "fresh_registry st \<longleftrightarrow> das_registry st = [] \<and> das_next_token st = 0 \<and> das_signalled st = {}"

definition tokens_ok :: "(string \<rightharpoonup> nat) \<Rightarrow> nat \<Rightarrow> nat set \<Rightarrow> bool" where
  "tokens_ok m n S \<longleftrightarrow> (\<forall>a b t. m a = Some t \<and> m b = Some t \<longrightarrow> a = b)
     \<and> (\<forall>a t. m a = Some t \<longrightarrow> t < n \<and> t \<notin> S) \<and> (\<forall>t \<in> S. t < n)"

lemma tokens_ok_register: "tokens_ok m n S \<Longrightarrow> tokens_ok (m(a \<mapsto> n)) (Suc n) S"
  unfolding tokens_ok_def by (auto simp: less_Suc_eq)

lemma tokens_ok_cancel: "\<lbrakk>tokens_ok m n S; m a = Some t\<rbrakk> \<Longrightarrow> tokens_ok (m(a := None)) n (insert t S)"
  unfolding tokens_ok_def by auto

lemma tokens_ok_unregister: "tokens_ok m n S \<Longrightarrow> tokens_ok (m(a := None)) n S"
  unfolding tokens_ok_def by auto

definition registry_ok :: "('s, 'ss, 't, 'p) DesktopAppState \<Rightarrow> bool" where
  "registry_ok st \<longleftrightarrow> tokens_ok (map_of (das_registry st)) (das_next_token st) (das_signalled st)"

lemma map_of_delete: "map_of (AList.delete k al) = (map_of al)(k := None)"
  by (rule ext) (simp add: delete_conv')

lemma registry_ok_step:
  assumes "registry_step st st'" "registry_ok st"
  shows "registry_ok st'"
  using assms
proof cases
  case (register op)
  then show ?thesis using assms(2) by (simp add: registry_ok_def register_cancellation_def update_conv' tokens_ok_register)
next
  case (cancelled op)
  then show ?thesis using assms(2)
    by (auto simp: registry_ok_def cancel_operation_def map_of_delete tokens_ok_cancel split: option.splits)
next
  case (unregister op)
  then show ?thesis using assms(2) by (simp add: registry_ok_def unregister_cancellation_def map_of_delete tokens_ok_unregister)
next
  case elsewhere
  then show ?thesis using assms(2) by (simp add: registry_ok_def)
qed

lemma registry_ok_reachable:
  assumes "registry_step\<^sup>*\<^sup>* st st'" "fresh_registry st"
  shows "registry_ok st'"
  using assms(1)
proof (induction rule: rtranclp_induct)
  case base
  show ?case using assms(2) by (simp add: registry_ok_def tokens_ok_def fresh_registry_def)
qed (rule registry_ok_step)

text \<open>C39. Whatever commands ran before: registering an operation gives it a token never signalled, which the registry
  then has for it; cancelling an operation answers whether it is registered, signals its token and no token of
  another running operation, and removes it from the registry, while the others stay registered.\<close>

theorem cancel_signals_own_token:
  assumes "registry_step\<^sup>*\<^sup>* st0 st" "fresh_registry st0"
  shows "(case register_cancellation op st of (st1, t) \<Rightarrow> map_of (das_registry st1) op = Some t \<and> t \<notin> das_signalled st1)
    \<and> (case cancel_operation op st of (st2, b) \<Rightarrow>
         (b \<longleftrightarrow> map_of (das_registry st) op \<noteq> None)
         \<and> das_signalled st2 = das_signalled st \<union> set_option (map_of (das_registry st) op)
         \<and> map_of (das_registry st2) = (map_of (das_registry st))(op := None)
         \<and> (\<forall>q t. map_of (das_registry st2) q = Some t \<longrightarrow> t \<notin> das_signalled st2))"
proof -
  have ok: "registry_ok st" using registry_ok_reachable assms .
  then have fresh: "das_next_token st \<notin> das_signalled st" unfolding registry_ok_def tokens_ok_def by blast
  obtain st2 b where c: "cancel_operation op st = (st2, b)" by fastforce
  have "registry_ok st2" using registry_ok_step [OF cancelled [of st op] ok] by (simp add: c)
  then have "\<forall>q t. map_of (das_registry st2) q = Some t \<longrightarrow> t \<notin> das_signalled st2"
    unfolding registry_ok_def tokens_ok_def by blast
  moreover have "(b \<longleftrightarrow> map_of (das_registry st) op \<noteq> None)
      \<and> das_signalled st2 = das_signalled st \<union> set_option (map_of (das_registry st) op)
      \<and> map_of (das_registry st2) = (map_of (das_registry st))(op := None)"
    using c by (cases "map_of (das_registry st) op") (auto simp: cancel_operation_def map_of_delete)
  ultimately show ?thesis using fresh by (simp add: c register_cancellation_def update_conv')
qed

theorem cancel_signals_own_token_witness:
  "\<not> snd (cancel_operation ''op'' (new_in_memory [] sample_db [] :: (unit backend, unit, unit, unit) DesktopAppState))"
proof -
  let ?st = "new_in_memory [] sample_db [] :: (unit backend, unit, unit, unit) DesktopAppState"
  have "fresh_registry ?st" by (simp add: fresh_registry_def new_in_memory_def)
  from cancel_signals_own_token [OF rtranclp.rtrancl_refl this, of "''op''"] show ?thesis
    by (auto simp: new_in_memory_def)
qed

text \<open>Registering a second operation under an identifier in use hides the token of the first: from then on no
  cancellation reaches it.\<close>

lemma overwritten_token_lost:
  assumes "registry_ok st" "map_of (das_registry st) op = Some t"
  shows "\<forall>q. map_of (das_registry (fst (register_cancellation op st))) q \<noteq> Some t"
  using assms by (auto simp: registry_ok_def tokens_ok_def register_cancellation_def update_conv')

end
