(* ===== verification/Desktop_Records.thy ===== *)
theory Desktop_Records
  imports Core_Model
begin

text \<open>
  The records the commands of the desktop application take and return (\<open>apps/desktop/src/dto\<close>), in the order of the
  files there. Their conversions are in \<open>Desktop_Dto\<close>. A path keeps its components; counts that the records of the crates
  hold as natural numbers are narrowed where the source narrows them.
\<close>

subsection \<open>Backups\<close>

record CreateProfileRequest =
  cpr_profile_id :: string
  cpr_name :: string
  cpr_description :: "string option"
  cpr_source_path :: string

record UpdateProfileRequest =
  upr_profile_id :: string
  upr_name :: "string option"
  upr_description :: "string option"
  upr_source_path :: "string option"
  upr_enabled :: "bool option"

record BackupProfileDto =
  bpd_profile_id :: string
  bpd_name :: string
  bpd_description :: "string option"
  bpd_source_path :: string
  bpd_enabled :: bool
  bpd_created_at :: string
  bpd_updated_at :: string

record StartBackupRequest =
  sbr_profile_id :: string
  sbr_passphrase :: "string option"

record BackupSummaryDto =
  bsd_snapshot_id :: string
  bsd_profile_id :: string
  bsd_status :: string
  bsd_new_files :: nat
  bsd_modified_files :: nat
  bsd_unchanged_files :: nat
  bsd_deleted_files :: nat
  bsd_transferred_chunks :: nat
  bsd_transferred_bytes :: u64
  bsd_reused_bytes :: u64
  bsd_elapsed_ms :: u64
  bsd_error_message :: "string option"

record SnapshotDto =
  snd_snapshot_id :: string
  snd_profile_id :: string
  snd_status :: string
  snd_metadata :: "string option"
  snd_created_at :: string

record SnapshotFileDto =
  sfd_file_id :: string
  sfd_relative_path :: string
  sfd_size_bytes :: u64
  sfd_status :: string
  sfd_mime_type :: "string option"

subsection \<open>Status checks\<close>

record CheckFileStatusRequest =
  cfr_profile_id :: string
  cfr_relative_path :: string

record FileStatusDto =
  fsd_profile_id :: string
  fsd_relative_path :: string
  fsd_is_backed_up :: bool
  fsd_file_id :: "string option"
  fsd_latest_version_id :: "string option"
  fsd_incremental_needed :: bool

record FileVersionDto =
  fvd_version_id :: string
  fvd_file_id :: string
  fvd_snapshot_id :: string
  fvd_manifest_id :: string
  fvd_status :: string
  fvd_created_at :: string

record ManifestVerificationReportDto =
  mvd_file_id :: string
  mvd_relative_path :: string
  mvd_is_restorable :: bool
  mvd_total_chunks :: nat
  mvd_original_size :: u64
  mvd_remote_objects_verified :: bool
  mvd_issues :: "string list"

record FullVerificationReportDto =
  frd_file_id :: string
  frd_verified :: bool
  frd_sha256_match :: bool
  frd_size_match :: bool
  frd_duration_ms :: u64
  frd_error :: "string option"

subsection \<open>Restores\<close>

datatype CollisionPolicyDto = OverwriteDto | SkipDto | KeepBothDto

datatype FileRestoreOutcomeDto = RestoredDto | OverwrittenDto | SkippedDto | KeptBothDto | CancelledDto | FailedDto

record RestoreFileRequest =
  rfq_file_id :: string
  rfq_destination_path :: string
  rfq_collision_policy :: CollisionPolicyDto
  rfq_passphrase :: "string option"

record RestoreManifestRequest =
  rmq_manifest_json :: string
  rmq_destination_path :: string
  rmq_collision_policy :: CollisionPolicyDto
  rmq_passphrase :: "string option"

record RestoreSnapshotRequest =
  rsq_snapshot_id :: string
  rsq_destination_directory :: string
  rsq_collision_policy :: CollisionPolicyDto
  rsq_passphrase :: "string option"

record RestoreResultDto =
  rrd_file_id :: string
  rrd_target_path :: path
  rrd_bytes_restored :: u64
  rrd_duration_ms :: u64
  rrd_outcome :: FileRestoreOutcomeDto

record SnapshotRestoreResultDto =
  srx_snapshot_id :: string
  srx_target_directory :: string
  srx_total_files :: nat
  srx_restored_files :: nat
  srx_skipped_files :: nat
  srx_failed_files :: nat
  srx_total_bytes :: u64
  srx_duration_ms :: u64

subsection \<open>Retention\<close>

record SetRetentionPolicyRequest =
  spr_profile_id :: string
  spr_keep_latest_n :: "nat option"
  spr_keep_newer_than_secs :: "nat option"
  spr_keep_latest_successful :: "bool option"
  spr_keep_latest_always :: "bool option"
  spr_prune_failed :: "bool option"
  spr_prune_empty :: "bool option"
  spr_enabled :: "bool option"

record RetentionPolicyDto =
  rpd_profile_id :: string
  rpd_keep_latest_n :: "nat option"
  rpd_keep_newer_than_secs :: "nat option"
  rpd_keep_latest_successful :: bool
  rpd_keep_latest_always :: bool
  rpd_prune_failed :: bool
  rpd_prune_empty :: bool
  rpd_enabled :: bool

record RetentionDecisionDto =
  rdd_snapshot_id :: string
  rdd_action :: string
  rdd_reason :: string
  rdd_description :: string
  rdd_snapshot_status :: string
  rdd_snapshot_created_at :: string
  rdd_age_secs :: nat
  rdd_version_count :: u32

record RetentionEvaluationDto =
  red_profile_id :: string
  red_evaluated_at :: string
  red_policy :: RetentionPolicyDto
  red_decisions :: "RetentionDecisionDto list"
  red_snapshots_evaluated :: u32
  red_snapshots_kept :: u32
  red_snapshots_pruned :: u32

record RetentionResultDto =
  rtd_profile_id :: string
  rtd_executed_at :: string
  rtd_dry_run :: bool
  rtd_evaluation :: RetentionEvaluationDto
  rtd_pruned_snapshots :: "string list"
  rtd_pruned_versions_count :: u32
  rtd_success :: bool
  rtd_error_message :: "string option"

record RetentionHistoryDto =
  rhd_history_id :: string
  rhd_profile_id :: string
  rhd_executed_at :: string
  rhd_dry_run :: bool
  rhd_snapshots_evaluated :: u32
  rhd_snapshots_kept :: u32
  rhd_snapshots_pruned :: u32
  rhd_pruned_snapshot_ids :: "string list"
  rhd_status :: string
  rhd_error_message :: "string option"

subsection \<open>Schedules\<close>

record CreateScheduleRequest =
  csq_profile_id :: string
  csq_schedule_type :: string
  csq_expression :: string
  csq_timezone :: "string option"
  csq_enabled :: "bool option"

record UpdateScheduleRequest =
  usq_schedule_id :: string
  usq_schedule_type :: "string option"
  usq_expression :: "string option"
  usq_timezone :: "string option"
  usq_enabled :: "bool option"

record ScheduleDto =
  scd_schedule_id :: string
  scd_profile_id :: string
  scd_schedule_type :: string
  scd_expression :: string
  scd_timezone :: string
  scd_enabled :: bool
  scd_next_run_at :: "string option"
  scd_last_run_at :: "string option"
  scd_last_status :: "string option"
  scd_last_error_code :: "string option"
  scd_created_at :: string
  scd_updated_at :: string

record ScheduleHistoryDto =
  shd_history_id :: string
  shd_schedule_id :: string
  shd_profile_id :: string
  shd_started_at :: string
  shd_completed_at :: "string option"
  shd_status :: string
  shd_snapshot_id :: "string option"
  shd_files_processed :: u64
  shd_bytes_transferred :: u64
  shd_error_code :: "string option"
  shd_error_message :: "string option"

record SchedulerStatusDto =
  sst_status :: string
  sst_active_schedules_count :: u32
  sst_running_profiles :: "ident_str set"

subsection \<open>Transfers\<close>

record TransferJobDto =
  tjd_job_id :: string
  tjd_file_id :: string
  tjd_chunk_id :: "string option"
  tjd_direction :: string
  tjd_status :: string
  tjd_progress :: u64
  tjd_retry_count :: nat
  tjd_error_message :: "string option"
  tjd_created_at :: string
  tjd_updated_at :: string

record TransferStatusDto =
  tsx_active_count :: nat
  tsx_queued_count :: nat
  tsx_completed_count :: nat
  tsx_failed_count :: nat

subsection \<open>Verification\<close>

record VerifyTargetRequest =
  vtr_profile_id :: string
  vtr_target_id :: "string option"
  vtr_level :: "nat option"
  vtr_full_hash_check :: "bool option"
  vtr_decrypt_check :: "bool option"
  vtr_operation_id :: "string option"

record VerificationFindingDto =
  vfd_level :: string
  vfd_severity :: string
  vfd_code :: string
  vfd_description :: string
  vfd_restore_impact :: string
  vfd_profile_id :: "string option"
  vfd_snapshot_id :: "string option"
  vfd_file_id :: "string option"
  vfd_chunk_id :: "string option"
  vfd_chunk_index :: "u32 option"

record VerificationSummaryDto =
  vsd_total_files :: u32
  vsd_total_manifests :: u32
  vsd_total_chunks :: u32
  vsd_healthy_chunks :: u32
  vsd_missing_chunks :: u32
  vsd_corrupted_chunks :: u32
  vsd_ownership_violations :: u32
  vsd_is_restore_ready :: bool
  vsd_status :: string
  vsd_duration_ms :: u64

record VerificationResultDto =
  vrd_target_type :: string
  vrd_target_id :: string
  vrd_profile_id :: string
  vrd_level :: string
  vrd_status :: string
  vrd_is_restore_ready :: bool
  vrd_findings :: "VerificationFindingDto list"
  vrd_summary :: VerificationSummaryDto
  vrd_verified_at :: string

record VerificationHistoryRecordDto =
  vhd_history_id :: string
  vhd_profile_id :: string
  vhd_target_type :: string
  vhd_target_id :: string
  vhd_level :: u32
  vhd_status :: string
  vhd_is_restore_ready :: bool
  vhd_total_files :: u32
  vhd_total_manifests :: u32
  vhd_total_chunks :: u32
  vhd_healthy_chunks :: u32
  vhd_missing_chunks :: u32
  vhd_corrupted_chunks :: u32
  vhd_ownership_violations :: u32
  vhd_findings_json :: string
  vhd_duration_ms :: u64
  vhd_verified_at :: string

subsection \<open>Repairs\<close>

record PreviewRepairRequest =
  prq_profile_id :: string
  prq_target_type :: string
  prq_target_id :: string
  prq_passphrase :: "string option"
  prq_operation_id :: "string option"

record RepairFileRequest =
  rfr_profile_id :: string
  rfr_file_id :: string
  rfr_dry_run :: "bool option"
  rfr_passphrase :: "string option"
  rfr_operation_id :: "string option"

record RepairSnapshotRequest =
  rsr_profile_id :: string
  rsr_snapshot_id :: string
  rsr_dry_run :: "bool option"
  rsr_passphrase :: "string option"
  rsr_operation_id :: "string option"

record RepairCandidateDto =
  rcd_chunk_id :: string
  rcd_chunk_index :: u32
  rcd_total_chunks :: u32
  rcd_finding_code :: string
  rcd_old_storage_reference :: string
  rcd_plaintext_size :: u64
  rcd_stored_size :: u64
  rcd_source_path :: string

record RepairPreviewDto =
  rpw_profile_id :: string
  rpw_target_type :: string
  rpw_target_id :: string
  rpw_eligible_candidates :: "RepairCandidateDto list"
  rpw_ineligible_findings_count :: u32
  rpw_total_affected_chunks :: u32
  rpw_total_estimated_bytes :: u64
  rpw_is_repairable :: bool

record RepairChunkResultDto =
  rkd_chunk_id :: string
  rkd_chunk_index :: u32
  rkd_status :: string
  rkd_old_storage_reference :: string
  rkd_new_storage_reference :: "string option"
  rkd_bytes_processed :: u64
  rkd_duration_ms :: u64
  rkd_error :: "string option"

record RepairExecutionResultDto =
  rxd_profile_id :: string
  rxd_target_type :: string
  rxd_target_id :: string
  rxd_total_chunks_evaluated :: u32
  rxd_repaired_chunks :: u32
  rxd_skipped_healthy_chunks :: u32
  rxd_failed_chunks :: u32
  rxd_total_bytes_transferred :: u64
  rxd_duration_ms :: u64
  rxd_chunk_results :: "RepairChunkResultDto list"

record RepairHistoryRecordDto =
  rhx_repair_id :: string
  rhx_profile_id :: string
  rhx_snapshot_id :: "string option"
  rhx_file_id :: string
  rhx_manifest_id :: string
  rhx_chunk_id :: string
  rhx_chunk_index :: u32
  rhx_repair_type :: string
  rhx_finding_code :: string
  rhx_old_storage_reference :: string
  rhx_new_storage_reference :: string
  rhx_status :: string
  rhx_bytes_processed :: u64
  rhx_duration_ms :: u64
  rhx_error_message :: "string option"
  rhx_repaired_at :: string

subsection \<open>Settings and system\<close>

record GeneralConfigDto =
  gcd_theme :: string
  gcd_language :: string
  gcd_check_updates :: bool

record StorageConfigDto =
  stc_max_cache_size_mb :: u32
  stc_temp_retention_hours :: u32

record TransferConfigDto =
  tfc_chunk_size_kb :: u32
  tfc_max_concurrent_transfers :: u8
  tfc_upload_limit_kbps :: u32

record BackupPreferencesDto =
  bpf_default_compression :: string
  bpf_retention_days :: u32
  bpf_verify_after_backup :: bool

record AppConfigDto =
  acd_general :: GeneralConfigDto
  acd_storage :: StorageConfigDto
  acd_transfer :: TransferConfigDto
  acd_backup :: BackupPreferencesDto

record SystemPathsDto =
  spd_base_dir :: path
  spd_database_path :: path
  spd_temp_dir :: path
  spd_logs_dir :: path
  spd_config_dir :: path

record StartTelegramAuthDto =
  sta_phone_number :: string
  sta_api_id :: "int option"
  sta_api_hash :: "string option"

record TelegramApiConfigStatusDto =
  tpc_is_configured :: bool
  tpc_api_id :: "int option"

end
