(* ===== verification/Desktop_Dto.thy ===== *)
theory Desktop_Dto
  imports Desktop_State Desktop_Records
begin

text \<open>
  The conversions of the records of the crates to and from the records of the interface (\<open>apps/desktop/src/dto\<close> and the
  helpers of the commands).
\<close>

subsection \<open>Backups\<close>

definition BackupProfileDto_of :: "ProfileRecord \<Rightarrow> BackupProfileDto" where
  "BackupProfileDto_of r =
     \<lparr>bpd_profile_id = pr_profile_id r, bpd_name = pr_name r, bpd_description = pr_description r,
      bpd_source_path = pr_source_path r, bpd_enabled = pr_enabled r, bpd_created_at = pr_created_at r,
      bpd_updated_at = pr_updated_at r\<rparr>"

definition BackupSummaryDto_of :: "BackupSummary \<Rightarrow> BackupSummaryDto" where
  "BackupSummaryDto_of s =
     \<lparr>bsd_snapshot_id = bs_snapshot_id s, bsd_profile_id = bs_profile_id s,
      bsd_status = BackupStatus_display (bs_status s), bsd_new_files = bs_new_files s,
      bsd_modified_files = bs_modified_files s, bsd_unchanged_files = bs_unchanged_files s,
      bsd_deleted_files = bs_deleted_files s, bsd_transferred_chunks = bs_transferred_chunks s,
      bsd_transferred_bytes = bs_transferred_bytes s, bsd_reused_bytes = bs_reused_bytes s,
      bsd_elapsed_ms = bs_elapsed_ms s, bsd_error_message = bs_error_message s\<rparr>"

definition SnapshotDto_of :: "SnapshotRecord \<Rightarrow> SnapshotDto" where
  "SnapshotDto_of r =
     \<lparr>snd_snapshot_id = sr_snapshot_id r, snd_profile_id = sr_profile_id r,
      snd_status = BackupStatus_display (sr_status r), snd_metadata = sr_metadata r,
      snd_created_at = sr_created_at r\<rparr>"

definition SnapshotFileDto_of :: "FileRecord \<times> VersionRecord \<Rightarrow> SnapshotFileDto" where
  "SnapshotFileDto_of p = (case p of (f, v) \<Rightarrow>
     \<lparr>sfd_file_id = fr_file_id f, sfd_relative_path = fr_relative_path f, sfd_size_bytes = fr_original_size f,
      sfd_status = ver_status v, sfd_mime_type = fr_mime_type f\<rparr>)"

subsection \<open>Status checks\<close>

definition FileVersionDto_of :: "VersionRecord \<Rightarrow> FileVersionDto" where
  "FileVersionDto_of r =
     \<lparr>fvd_version_id = ver_version_id r, fvd_file_id = ver_file_id r, fvd_snapshot_id = ver_snapshot_id r,
      fvd_manifest_id = ver_manifest_id r, fvd_status = ver_status r, fvd_created_at = ver_created_at r\<rparr>"

definition ManifestVerificationReportDto_of :: "ManifestVerificationReport \<Rightarrow> ManifestVerificationReportDto" where
  "ManifestVerificationReportDto_of r =
     \<lparr>mvd_file_id = mvr_file_id r, mvd_relative_path = mvr_relative_path r,
      mvd_is_restorable = mvr_is_restorable r, mvd_total_chunks = mvr_total_chunks r,
      mvd_original_size = mvr_original_size r, mvd_remote_objects_verified = mvr_remote_objects_verified r,
      mvd_issues = mvr_issues r\<rparr>"

definition FullVerificationReportDto_of :: "FullVerificationReport \<Rightarrow> FullVerificationReportDto" where
  "FullVerificationReportDto_of r =
     \<lparr>frd_file_id = fvr_file_id r, frd_verified = fvr_is_valid r,
      frd_sha256_match = (fvr_calculated_sha256 r = Some (fvr_expected_sha256 r)),
      frd_size_match = (fvr_error r = None), frd_duration_ms = fvr_elapsed_ms r, frd_error = fvr_error r\<rparr>"

subsection \<open>Restores\<close>

fun CollisionPolicy_of :: "CollisionPolicyDto \<Rightarrow> CollisionPolicy" where
  "CollisionPolicy_of OverwriteDto = Overwrite"
| "CollisionPolicy_of SkipDto = CollisionPolicy.Skip"
| "CollisionPolicy_of KeepBothDto = KeepBoth"

fun FileRestoreOutcomeDto_of :: "FileRestoreOutcome \<Rightarrow> FileRestoreOutcomeDto" where
  "FileRestoreOutcomeDto_of Restored = RestoredDto"
| "FileRestoreOutcomeDto_of Overwritten = OverwrittenDto"
| "FileRestoreOutcomeDto_of Skipped = SkippedDto"
| "FileRestoreOutcomeDto_of KeptBoth = KeptBothDto"
| "FileRestoreOutcomeDto_of OutcomeCancelled = CancelledDto"
| "FileRestoreOutcomeDto_of OutcomeFailed = FailedDto"

definition RestoreResultDto_of :: "RestoreResult \<Rightarrow> RestoreResultDto" where
  "RestoreResultDto_of r =
     \<lparr>rrd_file_id = rr_file_id r, rrd_target_path = rr_target_path r,
      rrd_bytes_restored = rr_bytes_restored r, rrd_duration_ms = rr_elapsed_ms r,
      rrd_outcome = FileRestoreOutcomeDto_of (rr_outcome r)\<rparr>"

definition SnapshotRestoreResultDto_of :: "string \<Rightarrow> SnapshotRestoreResult \<Rightarrow> SnapshotRestoreResultDto" where
  "SnapshotRestoreResultDto_of dest r =
     \<lparr>srx_snapshot_id = srr_snapshot_id r, srx_target_directory = dest, srx_total_files = srr_total_files r,
      srx_restored_files = srr_restored_files r, srx_skipped_files = srr_skipped_files r,
      srx_failed_files = srr_failed_files r, srx_total_bytes = srr_total_bytes_restored r,
      srx_duration_ms = srr_elapsed_ms r\<rparr>"

subsection \<open>Retention\<close>

fun RetentionAction_display :: "RetentionAction \<Rightarrow> string" where
  "RetentionAction_display Keep = ''KEEP''"
| "RetentionAction_display Prune = ''PRUNE''"

fun RetentionReason_display :: "RetentionReason \<Rightarrow> string" where
  "RetentionReason_display KeepLatest = ''KEEP_LATEST''"
| "RetentionReason_display KeepWithinRetentionWindow = ''KEEP_WITHIN_RETENTION_WINDOW''"
| "RetentionReason_display KeepLatestSuccessful = ''KEEP_LATEST_SUCCESSFUL''"
| "RetentionReason_display KeepCountLimit = ''KEEP_COUNT_LIMIT''"
| "RetentionReason_display ProtectedActive = ''PROTECTED_ACTIVE''"
| "RetentionReason_display ProtectedSoleSnapshot = ''PROTECTED_SOLE_SNAPSHOT''"
| "RetentionReason_display PruneExpired = ''PRUNE_EXPIRED''"
| "RetentionReason_display PruneExcessSnapshot = ''PRUNE_EXCESS_SNAPSHOT''"
| "RetentionReason_display PruneFailedSnapshot = ''PRUNE_FAILED_SNAPSHOT''"
| "RetentionReason_display PruneIncompleteSnapshot = ''PRUNE_INCOMPLETE_SNAPSHOT''"
| "RetentionReason_display PruneEmpty = ''PRUNE_EMPTY''"

text \<open>\<open>s.min(u32::MAX as u64) as u32\<close>.\<close>

definition clamp_u32 :: "nat \<Rightarrow> nat" where
  "clamp_u32 n = min n (2 ^ 32 - 1)"

definition RetentionPolicyDto_of :: "RetentionPolicy \<Rightarrow> RetentionPolicyDto" where
  "RetentionPolicyDto_of p =
     \<lparr>rpd_profile_id = rp_profile_id p, rpd_keep_latest_n = keep_latest_n p,
      rpd_keep_newer_than_secs = map_option clamp_u32 (keep_newer_than_secs p),
      rpd_keep_latest_successful = keep_latest_successful p, rpd_keep_latest_always = keep_latest_always p,
      rpd_prune_failed = prune_failed p, rpd_prune_empty = prune_empty p, rpd_enabled = rp_enabled p\<rparr>"

definition RetentionPolicy_of :: "ident_str \<Rightarrow> SetRetentionPolicyRequest \<Rightarrow> RetentionPolicy" where
  "RetentionPolicy_of pid q =
     (let or = (\<lambda>x d. case x of Some b \<Rightarrow> b | None \<Rightarrow> d) in
      \<lparr>rp_profile_id = pid, keep_latest_n = spr_keep_latest_n q, keep_newer_than_secs = spr_keep_newer_than_secs q,
       keep_latest_successful = or (spr_keep_latest_successful q) True, keep_latest_always = or (spr_keep_latest_always q) True,
       prune_failed = or (spr_prune_failed q) False, prune_empty = or (spr_prune_empty q) False,
       rp_enabled = or (spr_enabled q) True\<rparr>)"

definition RetentionDecisionDto_of :: "RetentionDecision \<Rightarrow> RetentionDecisionDto" where
  "RetentionDecisionDto_of d =
     \<lparr>rdd_snapshot_id = rd_snapshot_id d, rdd_action = RetentionAction_display (rd_action d),
      rdd_reason = RetentionReason_display (rd_reason d), rdd_description = rd_description d,
      rdd_snapshot_status = BackupStatus_display (rd_snapshot_status d),
      rdd_snapshot_created_at = rd_snapshot_created_at d, rdd_age_secs = clamp_u32 (rd_age_secs d),
      rdd_version_count = of_nat (rd_version_count d)\<rparr>"

definition RetentionEvaluationDto_of :: "RetentionEvaluation \<Rightarrow> RetentionEvaluationDto" where
  "RetentionEvaluationDto_of e =
     \<lparr>red_profile_id = re_profile_id e, red_evaluated_at = re_evaluated_at e,
      red_policy = RetentionPolicyDto_of (re_policy e),
      red_decisions = map RetentionDecisionDto_of (re_decisions e),
      red_snapshots_evaluated = of_nat (re_snapshots_evaluated e),
      red_snapshots_kept = of_nat (re_snapshots_kept e),
      red_snapshots_pruned = of_nat (re_snapshots_pruned e)\<rparr>"

definition RetentionResultDto_of :: "RetentionResult \<Rightarrow> RetentionResultDto" where
  "RetentionResultDto_of r =
     \<lparr>rtd_profile_id = rr_profile_id r, rtd_executed_at = rr_executed_at r, rtd_dry_run = rr_dry_run r,
      rtd_evaluation = RetentionEvaluationDto_of (rr_evaluation r),
      rtd_pruned_snapshots = rr_pruned_snapshots r,
      rtd_pruned_versions_count = of_nat (rr_pruned_versions_count r), rtd_success = rr_success r,
      rtd_error_message = rr_error_message r\<rparr>"

definition RetentionHistoryDto_of :: "(string \<Rightarrow> string list option) \<Rightarrow> RetentionHistoryRecord \<Rightarrow> RetentionHistoryDto" where
  "RetentionHistoryDto_of parse r =
     \<lparr>rhd_history_id = rhr_history_id r, rhd_profile_id = rhr_profile_id r, rhd_executed_at = rhr_executed_at r,
      rhd_dry_run = rhr_dry_run r, rhd_snapshots_evaluated = rhr_snapshots_evaluated r,
      rhd_snapshots_kept = rhr_snapshots_kept r, rhd_snapshots_pruned = rhr_snapshots_pruned r,
      rhd_pruned_snapshot_ids = (case parse (rhr_pruned_snapshot_ids r) of Some l \<Rightarrow> l | None \<Rightarrow> []),
      rhd_status = rhr_status r, rhd_error_message = rhr_error_message r\<rparr>"

subsection \<open>Schedules\<close>

definition domain_to_dto :: "sched_lib \<Rightarrow> Schedule \<Rightarrow> ScheduleDto" where
  "domain_to_dto lib s =
     \<lparr>scd_schedule_id = sch_schedule_id s, scd_profile_id = sch_profile_id s,
      scd_schedule_type = ScheduleType_display (sch_schedule_type s), scd_expression = sch_expression s,
      scd_timezone = TimezoneStrategy_display (sch_timezone s), scd_enabled = sch_enabled s,
      scd_next_run_at = map_option (sl_to_rfc3339 lib) (sch_next_run_at s),
      scd_last_run_at = map_option (sl_to_rfc3339 lib) (sch_last_run_at s), scd_last_status = sch_last_status s,
      scd_last_error_code = sch_last_error_code s, scd_created_at = sl_to_rfc3339 lib (sch_created_at s),
      scd_updated_at = sl_to_rfc3339 lib (sch_updated_at s)\<rparr>"

definition ScheduleHistoryDto_of :: "ScheduleHistoryRecord \<Rightarrow> ScheduleHistoryDto" where
  "ScheduleHistoryDto_of r =
     \<lparr>shd_history_id = shr_history_id r, shd_schedule_id = shr_schedule_id r,
      shd_profile_id = shr_profile_id r, shd_started_at = shr_started_at r,
      shd_completed_at = shr_completed_at r, shd_status = shr_status r, shd_snapshot_id = shr_snapshot_id r,
      shd_files_processed = shr_files_processed r, shd_bytes_transferred = shr_bytes_transferred r,
      shd_error_code = shr_error_code r, shd_error_message = shr_error_message r\<rparr>"

subsection \<open>Transfers\<close>

definition TransferJobDto_of :: "TransferJobRecord \<Rightarrow> TransferJobDto" where
  "TransferJobDto_of r =
     \<lparr>tjd_job_id = tjr_job_id r, tjd_file_id = tjr_file_id r, tjd_chunk_id = tjr_chunk_id r,
      tjd_direction = TransferDirection_display (tjr_direction r),
      tjd_status = TransferStatus_display (tjr_status r), tjd_progress = tjr_progress r,
      tjd_retry_count = tjr_retry_count r, tjd_error_message = tjr_error_message r,
      tjd_created_at = tjr_created_at r, tjd_updated_at = tjr_updated_at r\<rparr>"

subsection \<open>Verification\<close>

definition VerificationFindingDto_of :: "VerificationFinding \<Rightarrow> VerificationFindingDto" where
  "VerificationFindingDto_of f =
     \<lparr>vfd_level = VerificationLevel_display (vf_level f),
      vfd_severity = VerificationSeverity_display (vf_severity f),
      vfd_code = VerificationIssueCode_display (vf_code f), vfd_description = vf_description f,
      vfd_restore_impact = RestoreImpact_display (vf_restore_impact f), vfd_profile_id = vf_profile_id f,
      vfd_snapshot_id = vf_snapshot_id f, vfd_file_id = vf_file_id f, vfd_chunk_id = vf_chunk_id f,
      vfd_chunk_index = vf_chunk_index f\<rparr>"

definition VerificationSummaryDto_of :: "VerificationSummary \<Rightarrow> VerificationSummaryDto" where
  "VerificationSummaryDto_of s =
     \<lparr>vsd_total_files = vs_total_files s, vsd_total_manifests = vs_total_manifests s,
      vsd_total_chunks = vs_total_chunks s, vsd_healthy_chunks = vs_healthy_chunks s,
      vsd_missing_chunks = vs_missing_chunks s, vsd_corrupted_chunks = vs_corrupted_chunks s,
      vsd_ownership_violations = vs_ownership_violations s, vsd_is_restore_ready = vs_is_restore_ready s,
      vsd_status = VerificationStatus_display (vs_status s), vsd_duration_ms = vs_duration_ms s\<rparr>"

definition VerificationResultDto_of :: "VerificationResult \<Rightarrow> VerificationResultDto" where
  "VerificationResultDto_of r =
     \<lparr>vrd_target_type = vres_target_type r, vrd_target_id = vres_target_id r,
      vrd_profile_id = vres_profile_id r, vrd_level = VerificationLevel_display (vres_level r),
      vrd_status = VerificationStatus_display (vres_status r),
      vrd_is_restore_ready = vres_is_restore_ready r,
      vrd_findings = map VerificationFindingDto_of (vres_findings r),
      vrd_summary = VerificationSummaryDto_of (vres_summary r), vrd_verified_at = vres_verified_at r\<rparr>"

definition VerificationHistoryRecordDto_of :: "VerificationHistoryRecord \<Rightarrow> VerificationHistoryRecordDto" where
  "VerificationHistoryRecordDto_of r =
     \<lparr>vhd_history_id = vhr_history_id r, vhd_profile_id = vhr_profile_id r,
      vhd_target_type = vhr_target_type r, vhd_target_id = vhr_target_id r, vhd_level = vhr_level r,
      vhd_status = vhr_status r, vhd_is_restore_ready = vhr_is_restore_ready r,
      vhd_total_files = vhr_total_files r, vhd_total_manifests = vhr_total_manifests r,
      vhd_total_chunks = vhr_total_chunks r, vhd_healthy_chunks = vhr_healthy_chunks r,
      vhd_missing_chunks = vhr_missing_chunks r, vhd_corrupted_chunks = vhr_corrupted_chunks r,
      vhd_ownership_violations = vhr_ownership_violations r, vhd_findings_json = vhr_findings_json r,
      vhd_duration_ms = vhr_duration_ms r, vhd_verified_at = vhr_verified_at r\<rparr>"

subsection \<open>Repairs\<close>

definition RepairCandidateDto_of :: "RepairCandidate \<Rightarrow> RepairCandidateDto" where
  "RepairCandidateDto_of c =
     \<lparr>rcd_chunk_id = rc_cand_chunk_id c, rcd_chunk_index = rc_cand_chunk_index c,
      rcd_total_chunks = rc_cand_total_chunks c,
      rcd_finding_code = VerificationIssueCode_display (rc_cand_finding_code c),
      rcd_old_storage_reference = rc_cand_old_storage_reference c,
      rcd_plaintext_size = rc_cand_plaintext_size c, rcd_stored_size = rc_cand_stored_size c,
      rcd_source_path = rc_cand_source_path c\<rparr>"

definition RepairPreviewDto_of :: "RepairPreview \<Rightarrow> RepairPreviewDto" where
  "RepairPreviewDto_of p =
     \<lparr>rpw_profile_id = rpv_profile_id p, rpw_target_type = rpv_target_type p,
      rpw_target_id = rpv_target_id p,
      rpw_eligible_candidates = map RepairCandidateDto_of (rpv_eligible_candidates p),
      rpw_ineligible_findings_count = of_nat (length (rpv_ineligible_findings p)),
      rpw_total_affected_chunks = rpv_total_affected_chunks p,
      rpw_total_estimated_bytes = rpv_total_estimated_bytes p, rpw_is_repairable = rpv_is_repairable p\<rparr>"

definition RepairChunkResultDto_of :: "RepairChunkResult \<Rightarrow> RepairChunkResultDto" where
  "RepairChunkResultDto_of r =
     \<lparr>rkd_chunk_id = rcr_chunk_id r, rkd_chunk_index = rcr_chunk_index r, rkd_status = rcr_status r,
      rkd_old_storage_reference = rcr_old_storage_reference r,
      rkd_new_storage_reference = rcr_new_storage_reference r, rkd_bytes_processed = rcr_bytes_processed r,
      rkd_duration_ms = rcr_duration_ms r, rkd_error = rcr_error r\<rparr>"

definition RepairExecutionResultDto_of :: "RepairExecutionResult \<Rightarrow> RepairExecutionResultDto" where
  "RepairExecutionResultDto_of r =
     \<lparr>rxd_profile_id = rex_profile_id r, rxd_target_type = rex_target_type r,
      rxd_target_id = rex_target_id r, rxd_total_chunks_evaluated = rex_total_chunks_evaluated r,
      rxd_repaired_chunks = rex_repaired_chunks r, rxd_skipped_healthy_chunks = rex_skipped_healthy_chunks r,
      rxd_failed_chunks = rex_failed_chunks r, rxd_total_bytes_transferred = rex_total_bytes_transferred r,
      rxd_duration_ms = rex_duration_ms r,
      rxd_chunk_results = map RepairChunkResultDto_of (rex_chunk_results r)\<rparr>"

definition RepairHistoryRecordDto_of :: "RepairHistoryRecord \<Rightarrow> RepairHistoryRecordDto" where
  "RepairHistoryRecordDto_of r =
     \<lparr>rhx_repair_id = rep_repair_id r, rhx_profile_id = rep_profile_id r,
      rhx_snapshot_id = rep_snapshot_id r, rhx_file_id = rep_file_id r, rhx_manifest_id = rep_manifest_id r,
      rhx_chunk_id = rep_chunk_id r, rhx_chunk_index = rep_chunk_index r,
      rhx_repair_type = rep_repair_type r, rhx_finding_code = rep_finding_code r,
      rhx_old_storage_reference = rep_old_storage_reference r,
      rhx_new_storage_reference = rep_new_storage_reference r, rhx_status = rep_status r,
      rhx_bytes_processed = rep_bytes_processed r, rhx_duration_ms = rep_duration_ms r,
      rhx_error_message = rep_error_message r, rhx_repaired_at = rep_repaired_at r\<rparr>"

subsection \<open>Settings and system\<close>

definition AppConfigDto_of :: "AppConfig \<Rightarrow> AppConfigDto" where
  "AppConfigDto_of c =
     \<lparr>acd_general = \<lparr>gcd_theme = theme (general c), gcd_language = language (general c),
        gcd_check_updates = check_updates (general c)\<rparr>,
      acd_storage = \<lparr>stc_max_cache_size_mb = max_cache_size_mb (storage c),
        stc_temp_retention_hours = temp_retention_hours (storage c)\<rparr>,
      acd_transfer = \<lparr>tfc_chunk_size_kb = chunk_size_kb (transfer c),
        tfc_max_concurrent_transfers = max_concurrent_transfers (transfer c),
        tfc_upload_limit_kbps = upload_limit_kbps (transfer c)\<rparr>,
      acd_backup = \<lparr>bpf_default_compression =
          (case default_compression (backup c) of CompressionAlgorithm.NoCompression \<Rightarrow> ''None'' | CompressionAlgorithm.Zstd \<Rightarrow> ''Zstd''),
        bpf_retention_days = retention_days (backup c), bpf_verify_after_backup = verify_after_backup (backup c)\<rparr>\<rparr>"

definition parse_compression :: "string \<Rightarrow> (IpcError, CompressionAlgorithm) result" where
  "parse_compression s =
     (let t = to_lowercase (trim s) in
      if t = ''none'' then Ok CompressionAlgorithm.NoCompression
      else if t = ''zstd'' then Ok CompressionAlgorithm.Zstd
      else Err (ipc_validation (''Unsupported compression algorithm '' @ quoted t @ ''. Supported values: '' @ quoted ''None''
        @ '', '' @ quoted ''Zstd'')))"

definition AppConfig_try_from :: "AppConfigDto \<Rightarrow> (IpcError, AppConfig) result" where
  "AppConfig_try_from d =
     bind_res (parse_compression (bpf_default_compression (acd_backup d))) (\<lambda>comp.
       Ok \<lparr>general = \<lparr>theme = gcd_theme (acd_general d), language = gcd_language (acd_general d),
             check_updates = gcd_check_updates (acd_general d)\<rparr>,
           storage = \<lparr>max_cache_size_mb = stc_max_cache_size_mb (acd_storage d),
             temp_retention_hours = stc_temp_retention_hours (acd_storage d)\<rparr>,
           transfer = \<lparr>chunk_size_kb = tfc_chunk_size_kb (acd_transfer d),
             max_concurrent_transfers = tfc_max_concurrent_transfers (acd_transfer d),
             upload_limit_kbps = tfc_upload_limit_kbps (acd_transfer d)\<rparr>,
           backup = \<lparr>default_compression = comp, retention_days = bpf_retention_days (acd_backup d),
             verify_after_backup = bpf_verify_after_backup (acd_backup d)\<rparr>\<rparr>)"

subsection \<open>Settings survive the interface\<close>

lemma parse_compression_names:
  "parse_compression ''None'' = Ok CompressionAlgorithm.NoCompression"
  "parse_compression ''Zstd'' = Ok CompressionAlgorithm.Zstd"
  by code_simp+

lemma config_dto_roundtrip: "AppConfig_try_from (AppConfigDto_of c) = Ok c"
  by (cases "default_compression (backup c)") (simp_all add: AppConfig_try_from_def AppConfigDto_of_def parse_compression_names)

text \<open>A retention window longer than 136 years is shown shorter than it is.\<close>

lemma window_clamped:
  "keep_newer_than_secs p = Some s \<Longrightarrow> rpd_keep_newer_than_secs (RetentionPolicyDto_of p) = Some s \<longleftrightarrow> s < 2 ^ 32"
  by (auto simp: RetentionPolicyDto_of_def clamp_u32_def)

text \<open>The report of a trial restore says the digests match only for equal strings; the check itself ignores case.\<close>

lemma uppercase_digest_shown_as_mismatch:
  "\<lbrakk>fvr_is_valid r; fvr_calculated_sha256 r = Some h; h \<noteq> fvr_expected_sha256 r\<rbrakk> \<Longrightarrow>
     frd_verified (FullVerificationReportDto_of r) \<and> \<not> frd_sha256_match (FullVerificationReportDto_of r)"
  by (simp add: FullVerificationReportDto_of_def)

end
