(* ===== verification/Desktop_Clock.thy ===== *)
theory Desktop_Clock
  imports Core_Model
begin

text \<open>
  The time stamps the desktop application writes (\<open>format_rfc3339\<close> of \<open>commands/backup.rs\<close>) and the calendar they are
  checked against. The year is a 32-bit signed integer that wraps, as in a build without overflow checks; the days and
  seconds are unsigned and only ever decrease, so they are read as natural numbers.
\<close>

subsection \<open>backup.rs\<close>

type_synonym i32 = "32 word"

fun month_loop :: "nat \<Rightarrow> nat list \<Rightarrow> nat \<Rightarrow> nat \<times> nat" where
  "month_loop m [] rem_days = (12, 31)"
| "month_loop m (d # ds) rem_days = (if rem_days < d then (m, rem_days + 1) else month_loop (Suc m) ds (rem_days - d))"

definition leap :: "i32 \<Rightarrow> bool" where
  "leap y \<longleftrightarrow> (sint y mod 4 = 0 \<and> sint y mod 100 \<noteq> 0) \<or> sint y mod 400 = 0"

definition days_in_year :: "i32 \<Rightarrow> nat" where
  "days_in_year y = (if leap y then 366 else 365)"

definition month_days :: "i32 \<Rightarrow> nat list" where
  "month_days y = [31, if leap y then 29 else 28, 31, 30, 31, 30, 31, 31, 30, 31, 30, 31]"

function year_loop :: "i32 \<Rightarrow> nat \<Rightarrow> i32 \<times> nat \<times> nat" where
  "year_loop y rem_days =
     (if rem_days < days_in_year y then (y, month_loop 1 (month_days y) rem_days)
      else year_loop (y + 1) (rem_days - days_in_year y))"
  by pat_completeness auto
termination
  by (relation "measure snd") (auto simp: days_in_year_def)

declare year_loop.simps [simp del]

definition pad :: "nat \<Rightarrow> nat \<Rightarrow> string" where
  "pad w n = replicate (w - length (show_nat n)) CHR ''0'' @ show_nat n"

text \<open>The sign of a negative number counts for the width.\<close>

definition pad_i32 :: "nat \<Rightarrow> i32 \<Rightarrow> string" where
  "pad_i32 w y = (if sint y < 0 then CHR ''-'' # pad (w - 1) (nat (- sint y)) else pad w (nat (sint y)))"

text \<open>\<open>secs\<close> is the system time in seconds since the epoch.\<close>

definition format_rfc3339 :: "u64 \<Rightarrow> string" where
  "format_rfc3339 secs =
     (let day_secs = unat secs mod 86400; (y, m, d) = year_loop 1970 (unat secs div 86400) in
      pad_i32 4 y @ ''-'' @ pad 2 m @ ''-'' @ pad 2 d @ ''T'' @ pad 2 (day_secs div 3600) @ '':''
        @ pad 2 (day_secs mod 3600 div 60) @ '':'' @ pad 2 (day_secs mod 60) @ ''Z'')"

subsection \<open>The Gregorian calendar\<close>

text \<open>
  The calendar in closed form, with no table of months and no loop over years: the length of a month, and the number of
  a day counted from the first of January of the year 1, which has number 1. The first of January 1970 has number 719163.
\<close>

definition gregorian_leap :: "nat \<Rightarrow> bool" where
  "gregorian_leap y \<longleftrightarrow> 4 dvd y \<and> (100 dvd y \<longrightarrow> 400 dvd y)"

definition month_length :: "nat \<Rightarrow> nat \<Rightarrow> nat" where
  "month_length y m =
     (if m = 2 then if gregorian_leap y then 29 else 28 else 30 + (m + m div 8) mod 2)"

definition fixed_day :: "nat \<Rightarrow> nat \<Rightarrow> nat \<Rightarrow> int" where
  "fixed_day y m d =
     int (365 * (y - 1) + (y - 1) div 4 + (y - 1) div 400 + (367 * m - 362) div 12 + d) - int ((y - 1) div 100)
     - (if m \<le> 2 then 0 else if gregorian_leap y then 1 else 2)"

lemma sint_year: "y < 2 ^ 31 \<Longrightarrow> sint (of_nat y :: i32) = int y"
  by (simp add: signed_of_nat signed_take_bit_int_eq_self)

lemma leap_gregorian: "y < 2 ^ 31 \<Longrightarrow> leap (of_nat y) \<longleftrightarrow> gregorian_leap y"
proof -
  assume y: "y < 2 ^ 31"
  have zero: "int y mod int k = 0 \<longleftrightarrow> k dvd y" for k by (simp flip: dvd_eq_mod_eq_0)
  have "leap (of_nat y) \<longleftrightarrow> (4 dvd y \<and> \<not> 100 dvd y) \<or> 400 dvd y"
    using zero [of 4] zero [of 100] zero [of 400] by (simp only: leap_def sint_year [OF y] of_nat_numeral)
  moreover have "400 dvd y \<Longrightarrow> 4 dvd y" by (rule dvd_trans [of 4 400]) simp_all
  ultimately show ?thesis by (auto simp: gregorian_leap_def)
qed

lemma div_step: "1 \<le> y \<Longrightarrow> y div k = (y - 1) div k + of_bool (k dvd y)" for y k :: nat
  by (cases y) (simp_all add: div_Suc dvd_eq_mod_eq_0)

lemma next_year: "1 \<le> y \<Longrightarrow> fixed_day (Suc y) 1 1 = fixed_day y 1 1 + (if gregorian_leap y then 366 else 365)"
proof -
  assume y: "1 \<le> y"
  have nested: "400 dvd y \<Longrightarrow> 100 dvd y" "100 dvd y \<Longrightarrow> 4 dvd y"
    by (erule dvd_trans [rotated], simp)+
  have bools: "\<lbrakk>C \<Longrightarrow> B; B \<Longrightarrow> A\<rbrakk> \<Longrightarrow> of_bool A + of_bool C - of_bool B = (of_bool (A \<and> (B \<longrightarrow> C)) :: int)" for A B C
    by (cases A; cases B; cases C) simp_all
  have days: "365 * y = 365 * (y - 1) + 365" using y by simp
  have sum: "int (p + 365 + (a + of_bool A) + (b + of_bool B) + 1) - int (c + of_bool C)
      = int (p + a + b + 1) - int c + (365 + (of_bool A + of_bool B - of_bool C))" for p a b c A B C by simp
  have closed: "fixed_day z 1 1 = int (365 * (z - 1) + (z - 1) div 4 + (z - 1) div 400 + 1) - int ((z - 1) div 100)" for z
    by (simp add: fixed_day_def)
  have "fixed_day (Suc y) 1 1 = int (365 * y + y div 4 + y div 400 + 1) - int (y div 100)"
    using closed [of "Suc y"] by (simp only: diff_Suc_1)
  also have "\<dots> = int (365 * (y - 1) + 365 + ((y - 1) div 4 + of_bool (4 dvd y)) + ((y - 1) div 400 + of_bool (400 dvd y)) + 1)
      - int ((y - 1) div 100 + of_bool (100 dvd y))"
    by (simp only: days [symmetric] div_step [OF y, symmetric])
  also have "\<dots> = fixed_day y 1 1 + (365 + (of_bool (4 dvd y) + of_bool (400 dvd y) - of_bool (100 dvd y)))"
    unfolding sum closed ..
  also have "of_bool (4 dvd y) + of_bool (400 dvd y) - of_bool (100 dvd y) = (of_bool (gregorian_leap y) :: int)"
    unfolding gregorian_leap_def by (rule bools [OF nested])
  finally show ?thesis by simp
qed

text \<open>The table of the code agrees with the closed form.\<close>

lemma month_table:
  assumes "y < 2 ^ 31" "i < 12"
  shows "month_days (of_nat y) ! i = month_length y (Suc i)"
    and "fixed_day y (Suc i) (Suc k) = fixed_day y 1 1 + int (sum_list (take i (month_days (of_nat y))) + k)"
proof -
  have i: "i = 0 \<or> i = 1 \<or> i = 2 \<or> i = 3 \<or> i = 4 \<or> i = 5 \<or> i = 6 \<or> i = 7 \<or> i = 8 \<or> i = 9 \<or> i = 10 \<or> i = 11"
    using assms(2) by presburger
  show "month_days (of_nat y) ! i = month_length y (Suc i)"
    using i by (elim disjE) (simp_all add: month_days_def month_length_def leap_gregorian [OF assms(1)])
  show "fixed_day y (Suc i) (Suc k) = fixed_day y 1 1 + int (sum_list (take i (month_days (of_nat y))) + k)"
    using i by (elim disjE) (simp_all add: month_days_def fixed_day_def leap_gregorian [OF assms(1)])
qed

subsection \<open>The loops\<close>

lemma month_loop_spec:
  assumes "n < sum_list ds"
  shows "\<exists>i k. month_loop m ds n = (m + i, Suc k) \<and> i < length ds \<and> k < ds ! i \<and> n = sum_list (take i ds) + k"
  using assms
proof (induction ds arbitrary: m n)
  case (Cons d ds)
  show ?case
  proof (cases "n < d")
    case False
    then have "n - d < sum_list ds" using Cons.prems by simp
    from Cons.IH [OF this, of "Suc m"] obtain i k where
      "month_loop (Suc m) ds (n - d) = (Suc m + i, Suc k)" "i < length ds" "k < ds ! i" "n - d = sum_list (take i ds) + k"
      by blast
    with False show ?thesis by (intro exI [of _ "Suc i"] exI [of _ k]) simp
  qed (intro exI [of _ 0] exI [of _ n], simp)
qed simp

lemma year_months: "sum_list (month_days y) = days_in_year y" "length (month_days y) = 12"
  by (simp_all add: month_days_def days_in_year_def)

definition real_date :: "nat \<Rightarrow> nat \<Rightarrow> nat \<Rightarrow> bool" where
  "real_date y m d \<longleftrightarrow> 1970 \<le> y \<and> 1 \<le> m \<and> m \<le> 12 \<and> 1 \<le> d \<and> d \<le> month_length y m"

lemma year_loop_spec:
  assumes "1970 \<le> y" "y + n div 365 < 2 ^ 31"
  shows "\<exists>y' m d. year_loop (of_nat y) n = (of_nat y', m, d) \<and> y' < 2 ^ 31 \<and> real_date y' m d
    \<and> fixed_day y' m d = fixed_day y 1 1 + int n"
  using assms
proof (induction n arbitrary: y rule: less_induct)
  case (less n)
  let ?w = "of_nat y :: i32"
  have y: "y < 2 ^ 31" using less.prems by simp
  show ?case
  proof (cases "n < days_in_year ?w")
    case True
    then have "n < sum_list (month_days ?w)" by (simp only: year_months)
    from month_loop_spec [OF this, of 1] obtain i k where loop: "month_loop 1 (month_days ?w) n = (Suc i, Suc k)"
      and k: "i < 12" "k < month_days ?w ! i" and n: "n = sum_list (take i (month_days ?w)) + k"
      by (auto simp: year_months)
    have "year_loop ?w n = (?w, Suc i, Suc k)" using True loop by (subst year_loop.simps) simp
    moreover have "real_date y (Suc i) (Suc k)"
      using less.prems(1) k month_table(1) [OF y k(1)] by (simp add: real_date_def)
    moreover have "fixed_day y (Suc i) (Suc k) = fixed_day y 1 1 + int n" unfolding n by (rule month_table(2) [OF y k(1)])
    ultimately show ?thesis using y by blast
  next
    case False
    let ?n = "n - days_in_year ?w"
    have long: "365 \<le> days_in_year ?w" by (simp add: days_in_year_def)
    then have "?n div 365 \<le> (n - 365) div 365" by (intro div_le_mono) simp
    moreover have "Suc ((n - 365) div 365) = n div 365" using False long by (simp add: le_div_geq)
    ultimately have "Suc y + ?n div 365 < 2 ^ 31" using less.prems(2) by simp
    moreover have "?n < n" using False long by simp
    ultimately obtain y' m d where
      "year_loop (of_nat (Suc y)) ?n = (of_nat y', m, d)" "y' < 2 ^ 31" "real_date y' m d"
      "fixed_day y' m d = fixed_day (Suc y) 1 1 + int ?n"
      using less.IH [of ?n "Suc y"] less.prems(1) by auto
    moreover have "year_loop ?w n = year_loop (of_nat (Suc y)) ?n"
      using False by (subst year_loop.simps) (simp add: add.commute)
    moreover have "fixed_day (Suc y) 1 1 + int ?n = fixed_day y 1 1 + int n"
      using next_year [of y] less.prems(1) False leap_gregorian [OF y] by (simp add: days_in_year_def)
    ultimately show ?thesis by metis
  qed
qed

lemma clock_parts: "n = n div 3600 * 3600 + n mod 3600 div 60 * 60 + n mod 60" for n :: nat
proof -
  have "n mod 3600 mod 60 = n mod 60" by (simp add: mod_mod_cancel)
  then show ?thesis by (metis add.assoc div_mult_mod_eq)
qed

subsection \<open>Time stamps\<close>

text \<open>C40. The time stamps of the application are right: for a system time in seconds since the epoch, at least for the first
  thousand million years, the text is that of a date of the Gregorian calendar, month and day in range, whose number in the
  closed form above is that of the first of January 1970 plus the whole days elapsed, and of the hour, minute and second
  of the rest. The fall-back to the 31st of December is never taken.\<close>

theorem format_rfc3339_date:
  assumes "unat secs < 2 ^ 54"
  shows "\<exists>y m d hh mm ss. real_date y m d \<and> fixed_day y m d = 719163 + int (unat secs div 86400)
     \<and> hh < 24 \<and> mm < 60 \<and> ss < 60 \<and> unat secs mod 86400 = hh * 3600 + mm * 60 + ss
     \<and> format_rfc3339 secs = pad 4 y @ ''-'' @ pad 2 m @ ''-'' @ pad 2 d @ ''T'' @ pad 2 hh @ '':'' @ pad 2 mm @ '':'' @ pad 2 ss @ ''Z''"
proof -
  let ?n = "unat secs div 86400" and ?t = "unat secs mod 86400"
  have "?n div 365 \<le> 2 ^ 54 div 86400 div 365" using assms by (intro div_le_mono) simp
  then have "1970 + ?n div 365 < 2 ^ 31" by simp
  from year_loop_spec [OF order_refl this] obtain y m d where
    loop: "year_loop 1970 ?n = (of_nat y, m, d)" "y < 2 ^ 31" and date: "real_date y m d" "fixed_day y m d = fixed_day 1970 1 1 + int ?n"
    by auto
  have "pad_i32 4 (of_nat y) = pad 4 y" using loop(2) by (simp add: pad_i32_def sint_year)
  then have "format_rfc3339 secs = pad 4 y @ ''-'' @ pad 2 m @ ''-'' @ pad 2 d @ ''T'' @ pad 2 (?t div 3600) @ '':''
      @ pad 2 (?t mod 3600 div 60) @ '':'' @ pad 2 (?t mod 60) @ ''Z''"
    by (simp add: format_rfc3339_def Let_def loop(1))
  moreover have "?t div 3600 < 24" "?t mod 3600 div 60 < 60" "?t mod 60 < 60" by (simp_all add: less_mult_imp_div_less)
  moreover have "?t = ?t div 3600 * 3600 + ?t mod 3600 div 60 * 60 + ?t mod 60"
    by (rule clock_parts)
  moreover have "fixed_day 1970 1 1 = 719163" by (simp add: fixed_day_def)
  ultimately show ?thesis using date by metis
qed

theorem format_rfc3339_date_witness:
  "format_rfc3339 5097600 = ''1970-03-01T00:00:00Z'' \<and> fixed_day 1970 3 1 = 719163 + 59
   \<and> (\<exists>y m d. real_date y m d \<and> fixed_day y m d = 719163 + int (unat (5097600 :: u64) div 86400))"
proof -
  have "unat (5097600 :: u64) < 2 ^ 54" by simp
  from format_rfc3339_date [OF this]
  have "\<exists>y m d. real_date y m d \<and> fixed_day y m d = 719163 + int (unat (5097600 :: u64) div 86400)" by blast
  moreover have "year_loop 1970 59 = (1970, 3, 1)"
    by (simp add: year_loop.simps days_in_year_def leap_def month_days_def)
  then have "format_rfc3339 5097600 = pad 4 1970 @ ''-'' @ pad 2 3 @ ''-'' @ pad 2 1 @ ''T'' @ pad 2 0 @ '':'' @ pad 2 0 @ '':'' @ pad 2 0 @ ''Z''"
    by (simp add: format_rfc3339_def pad_i32_def)
  moreover have "pad 4 1970 = ''1970''" "pad 2 3 = ''03''" "pad 2 1 = ''01''" "pad 2 0 = ''00''"
    by code_simp+
  moreover have "fixed_day 1970 3 1 = 719163 + 59" by (simp add: fixed_day_def gregorian_leap_def)
  ultimately show ?thesis by simp
qed

text \<open>Past the range of the year the count goes on from the smallest one.\<close>

lemma year_wraps: "fst (year_loop 2147483647 365) = - 2147483648"
  by (simp add: year_loop.simps days_in_year_def leap_def)

end
