(* ===== verification/Desktop_Commands.thy ===== *)
theory Desktop_Commands
  imports Desktop_Dto Desktop_Clock
begin

text \<open>
  The commands of the desktop application (\<open>apps/desktop/src/commands\<close>), each over the state of the application and the
  records of the interface: what it checks, which engine it runs with which key, and what it does to the state on
  every path. A command that runs an engine is None when the engine never returns. An engine runs in a task of its own;
  how the task ended is an argument of the command: joined, or failed (a panic, a runtime that is shutting down) with
  whatever the engine had done by then to the catalog, the transfer engine and the files. A failed task never leaves the
  profile guards changed: they are given back on unwinding.

  The key of an encrypted operation is derived from the passphrase with Argon2, a parameter as in televault-crypto, and
  a salt: the SHA-256 digest of a text with an identifier in it.
\<close>

type_synonym ('st, 'a) command = "'st \<Rightarrow> ('st \<times> 'a ipc) option"

subsection \<open>Shared steps\<close>

definition parse_id :: "string \<Rightarrow> string \<Rightarrow> string \<Rightarrow> ident_str ipc" where
  "parse_id entity label s =
     map_err (\<lambda>e. ipc_validation (''Invalid '' @ label @ '' ID: '' @ AppError_display e)) (id_new entity s)"

abbreviation profile_id_of :: "string \<Rightarrow> ident_str ipc" where
  "profile_id_of \<equiv> parse_id ''ProfileId'' ''profile''"

abbreviation file_id_of :: "string \<Rightarrow> ident_str ipc" where
  "file_id_of \<equiv> parse_id ''FileId'' ''file''"

abbreviation snapshot_id_of :: "string \<Rightarrow> ident_str ipc" where
  "snapshot_id_of \<equiv> parse_id ''SnapshotId'' ''snapshot''"

abbreviation schedule_id_of :: "string \<Rightarrow> ident_str ipc" where
  "schedule_id_of \<equiv> parse_id ''ScheduleId'' ''schedule''"

definition missing :: "string \<Rightarrow> string \<Rightarrow> IpcError" where
  "missing what i = ipc_not_found (what @ '' '' @ quoted i @ '' not found'')"

definition on_catalog ::
  "'a exec \<Rightarrow> ('s, 'ss, 't, 'p) DesktopAppState \<Rightarrow> ('s, 'ss, 't, 'p) DesktopAppState \<times> 'a ipc" where
  "on_catalog f st = (let (db, r) = f (das_db st) in (put_catalog db st, map_err ipc_of_db r))"

definition gated ::
  "(('s, 'ss, 't, 'p) DesktopAppState, 'a) command \<Rightarrow> (('s, 'ss, 't, 'p) DesktopAppState, 'a) command" where
  "gated f st = (case desktop_auth_gate st of Inl e \<Rightarrow> Some (st, Err e) | Inr _ \<Rightarrow> f st)"

definition check_then :: "'x ipc \<Rightarrow> ('x \<Rightarrow> ('st, 'a) command) \<Rightarrow> ('st, 'a) command" where
  "check_then r f st = (case r of Inl e \<Rightarrow> Some (st, Err e) | Inr x \<Rightarrow> f x st)"

text \<open>What a failed task left of the state its engine works on, and the end of a task.\<close>

record 's task_left =
  tl_backup :: "'s backup_state"
  tl_fs :: local_fs
  tl_staging :: "string set"

datatype 's task_end = Joined | TaskFailed string "'s task_left"

definition left_by :: "'s task_left \<Rightarrow> ('s, 'ss, 't, 'p) DesktopAppState \<Rightarrow> ('s, 'ss, 't, 'p) DesktopAppState" where
  "left_by w st = (put_backup (tl_backup w) st)\<lparr>das_fs := tl_fs w, das_staging := tl_staging w\<rparr>"

text \<open>The error of a failed task is returned before the operation is unregistered.\<close>

definition registered ::
  "string \<Rightarrow> 's task_end \<Rightarrow> string \<Rightarrow> (('s, 'ss, 't, 'p) DesktopAppState, 'a) command
     \<Rightarrow> (('s, 'ss, 't, 'p) DesktopAppState, 'a) command" where
  "registered failed t op f st =
     (let st1 = fst (register_cancellation op st) in
      case t of
        Joined \<Rightarrow> map_option (\<lambda>(st', r). (unregister_cancellation op st', r)) (f st1)
      | TaskFailed e w \<Rightarrow> Some (left_by w st1, Err (ipc_internal (failed @ e))))"

text \<open>The verification commands return on any error before they unregister.\<close>

definition registered_if_ok ::
  "string \<Rightarrow> 's task_end \<Rightarrow> string \<Rightarrow> (('s, 'ss, 't, 'p) DesktopAppState, 'a) command
     \<Rightarrow> (('s, 'ss, 't, 'p) DesktopAppState, 'a) command" where
  "registered_if_ok failed t op f st =
     (let st1 = fst (register_cancellation op st) in
      case t of
        Joined \<Rightarrow> map_option (\<lambda>(st', r). (if is_ok r then unregister_cancellation op st' else st', r)) (f st1)
      | TaskFailed e w \<Rightarrow> Some (left_by w st1, Err (ipc_internal (failed @ e))))"

fun SchedulerError_display :: "SchedulerError \<Rightarrow> string" where
  "SchedulerError_display (SchedulerError.Database e) = ''Database error: '' @ DbError_display e"
| "SchedulerError_display (Backup e) = ''Backup engine error: '' @ BackupError_display e"
| "SchedulerError_display (Core e) = ''Core domain error: '' @ AppError_display e"
| "SchedulerError_display (ScheduleNotFound i) = ''Schedule '' @ quoted i @ '' not found''"
| "SchedulerError_display (SchedulerError.ProfileNotFound i) = ''Profile '' @ quoted i @ '' not found''"
| "SchedulerError_display (InvalidSchedule m) = ''Invalid schedule definition: '' @ m"
| "SchedulerError_display (InvalidExpression m) = ''Invalid schedule expression: '' @ m"
| "SchedulerError_display (ScheduleConflict m) = ''Schedule conflict: '' @ m"
| "SchedulerError_display (ProfileAlreadyRunning i) = ''Backup for profile '' @ quoted i @ '' is already running''"
| "SchedulerError_display SchedulerError.Cancelled = ''Scheduler operation cancelled''"
| "SchedulerError_display (Unavailable m) = ''Scheduler service is unavailable: '' @ m"
| "SchedulerError_display (SchedulerError.Internal m) = ''Internal scheduler error: '' @ m"

definition put_guard :: "ExecutionGuard \<Rightarrow> ('s, 'ss, 't, 'p) DesktopAppState \<Rightarrow> ('s, 'ss, 't, 'p) DesktopAppState" where
  "put_guard g st = st\<lparr>das_service := (das_service st)\<lparr>svc_guard := g\<rparr>\<rparr>"

definition holding ::
  "ident_str \<Rightarrow> string \<Rightarrow> (('s, 'ss, 't, 'p) DesktopAppState, 'a) command \<Rightarrow> (('s, 'ss, 't, 'p) DesktopAppState, 'a) command" where
  "holding pid busy f st =
     (case try_acquire pid (das_guard st) of
        (g, Inl e) \<Rightarrow> Some (put_guard g st, Err (ipc_conflict (busy @ SchedulerError_display e)))
      | (g, Inr h) \<Rightarrow>
          map_option (\<lambda>(st', r). (put_guard (drop_guard h (das_guard st')) st', r)) (f (put_guard g st)))"

subsection \<open>Keys\<close>

record key_lib =
  kl_sha256 :: "bytes \<Rightarrow> bytes"
  kl_params :: "KdfParams \<Rightarrow> (string, unit) result"
  kl_argon2 :: "KdfParams \<Rightarrow> string \<Rightarrow> bytes \<Rightarrow> (string, bytes) result"

definition salt_of :: "key_lib \<Rightarrow> string \<Rightarrow> (CryptoError, Salt) result" where
  "salt_of kl scope = Salt_from_slice (take 32 (kl_sha256 kl (bytes_of (''salt:'' @ scope))))"

definition derive_policy :: "key_lib \<Rightarrow> string \<Rightarrow> string \<Rightarrow> EncryptionPolicy ipc" where
  "derive_policy kl scope passphrase =
     bind_res (map_err (\<lambda>e. ipc_internal (CryptoError_display e)) (salt_of kl scope)) (\<lambda>salt.
     bind_res (map_err (\<lambda>e. ipc_internal (''Key derivation failed: '' @ CryptoError_display e))
       (derive_key (kl_params kl) (kl_argon2 kl) passphrase salt KdfParams_default)) (\<lambda>k. Ok (Enabled k)))"

definition derive_encryption_policy :: "key_lib \<Rightarrow> ident_str \<Rightarrow> string option \<Rightarrow> EncryptionPolicy ipc" where
  "derive_encryption_policy kl scope passphrase =
     (case passphrase of
        Some pw \<Rightarrow> if pw \<noteq> [] then derive_policy kl scope pw else Ok Disabled
      | None \<Rightarrow> Ok Disabled)"

definition manifest_policy :: "key_lib \<Rightarrow> string \<Rightarrow> ManifestV1 \<Rightarrow> string option \<Rightarrow> EncryptionPolicy ipc" where
  "manifest_policy kl purpose m passphrase =
     (if encryption m \<noteq> None then
        let pw = (case passphrase of Some p \<Rightarrow> p | None \<Rightarrow> []) in
        if pw = [] then Err (ipc_validation (''Passphrase required for encrypted '' @ purpose))
        else derive_policy kl (lf_file_id (logical_file m)) pw
      else Ok Disabled)"

subsection \<open>backup.rs: profiles\<close>

definition cmd_list_backup_profiles :: "('s, 'ss, 't, 'p) DesktopAppState \<Rightarrow> BackupProfileDto list ipc" where
  "cmd_list_backup_profiles st = Ok (map BackupProfileDto_of (list_profiles (das_db st)))"

definition profile_row :: "string \<Rightarrow> ('s, 'ss, 't, 'p) DesktopAppState \<Rightarrow> (ident_str \<times> ProfileRecord) ipc" where
  "profile_row s st =
     bind_res (profile_id_of s) (\<lambda>pid.
     bind_res (ok_or (missing ''Profile'' s) (get_profile (das_db st) pid)) (\<lambda>r. Ok (pid, r)))"

definition cmd_get_backup_profile :: "string \<Rightarrow> ('s, 'ss, 't, 'p) DesktopAppState \<Rightarrow> BackupProfileDto ipc" where
  "cmd_get_backup_profile s st = bind_res (profile_row s st) (\<lambda>(pid, r). Ok (BackupProfileDto_of r))"

definition cmd_create_backup_profile ::
  "string \<Rightarrow> (string \<Rightarrow> bool) \<Rightarrow> u64 \<Rightarrow> CreateProfileRequest \<Rightarrow> ('s, 'ss, 't, 'p) DesktopAppState
     \<Rightarrow> ('s, 'ss, 't, 'p) DesktopAppState \<times> BackupProfileDto ipc" where
  "cmd_create_backup_profile em is_dir now q st =
     (case profile_id_of (cpr_profile_id q) of
        Inl e \<Rightarrow> (st, Err e)
      | Inr pid \<Rightarrow>
          if \<not> is_dir (cpr_source_path q) then
            (st, Err (ipc_validation (''Source path '' @ quoted (cpr_source_path q) @ '' does not exist or is not a directory'')))
          else
            let r = \<lparr>pr_profile_id = pid, pr_name = cpr_name q, pr_description = cpr_description q,
                     pr_source_path = cpr_source_path q, pr_enabled = True, pr_created_at = format_rfc3339 now,
                     pr_updated_at = format_rfc3339 now\<rparr>;
                (st', res) = on_catalog (create_profile em r) st
            in (st', bind_res res (\<lambda>_. Ok (BackupProfileDto_of r))))"

definition updated_profile ::
  "(string \<Rightarrow> bool) \<Rightarrow> u64 \<Rightarrow> UpdateProfileRequest \<Rightarrow> ProfileRecord \<Rightarrow> ProfileRecord ipc" where
  "updated_profile is_dir now q r =
     (let r1 = (case upr_name q of Some n \<Rightarrow> r\<lparr>pr_name := n\<rparr> | None \<Rightarrow> r);
          r2 = (case upr_description q of Some d \<Rightarrow> r1\<lparr>pr_description := Some d\<rparr> | None \<Rightarrow> r1) in
      bind_res (case upr_source_path q of
          Some src \<Rightarrow> if \<not> is_dir src then Err (ipc_validation (''Source path '' @ quoted src @ '' is not a valid directory''))
                     else Ok (r2\<lparr>pr_source_path := src\<rparr>)
        | None \<Rightarrow> Ok r2) (\<lambda>r3.
      let r4 = (case upr_enabled q of Some b \<Rightarrow> r3\<lparr>pr_enabled := b\<rparr> | None \<Rightarrow> r3)
      in Ok (r4\<lparr>pr_updated_at := format_rfc3339 now\<rparr>)))"

definition cmd_update_backup_profile ::
  "string \<Rightarrow> (string \<Rightarrow> bool) \<Rightarrow> u64 \<Rightarrow> UpdateProfileRequest \<Rightarrow> ('s, 'ss, 't, 'p) DesktopAppState
     \<Rightarrow> ('s, 'ss, 't, 'p) DesktopAppState \<times> BackupProfileDto ipc" where
  "cmd_update_backup_profile em is_dir now q st =
     (case bind_res (profile_row (upr_profile_id q) st) (\<lambda>(pid, r). updated_profile is_dir now q r) of
        Inl e \<Rightarrow> (st, Err e)
      | Inr r \<Rightarrow>
          let (st', res) = on_catalog (update_profile em r) st in (st', bind_res res (\<lambda>_. Ok (BackupProfileDto_of r))))"

definition cmd_delete_backup_profile ::
  "string \<Rightarrow> string \<Rightarrow> ('s, 'ss, 't, 'p) DesktopAppState \<Rightarrow> ('s, 'ss, 't, 'p) DesktopAppState \<times> bool ipc" where
  "cmd_delete_backup_profile em s st =
     (case profile_id_of s of
        Inl e \<Rightarrow> (st, Err e)
      | Inr pid \<Rightarrow> let (st', res) = on_catalog (delete_profile em pid) st in (st', bind_res res (\<lambda>_. Ok True)))"

definition cmd_list_snapshots :: "string \<Rightarrow> ('s, 'ss, 't, 'p) DesktopAppState \<Rightarrow> SnapshotDto list ipc" where
  "cmd_list_snapshots s st =
     bind_res (profile_id_of s) (\<lambda>pid. Ok (map SnapshotDto_of (list_snapshots_by_profile (das_db st) pid)))"

definition cmd_get_snapshot_files :: "string \<Rightarrow> ('s, 'ss, 't, 'p) DesktopAppState \<Rightarrow> SnapshotFileDto list ipc" where
  "cmd_get_snapshot_files s st =
     bind_res (snapshot_id_of s) (\<lambda>sid. Ok (map SnapshotFileDto_of (list_files_by_snapshot (das_db st) sid)))"

subsection \<open>backup.rs: starting a backup\<close>

definition run_backup ::
  "('s, 'r) backup_env \<Rightarrow> scan_root \<Rightarrow> string \<Rightarrow> BackupProfile \<Rightarrow> (('s, 'ss, 't, 'p) DesktopAppState, BackupSummaryDto) command" where
  "run_backup env root stamp profile st =
     (let (b, r) = execute_profile_backup env root stamp profile (svc_backup (das_service st))
      in Some (put_backup b st, map_sum ipc_of_backup BackupSummaryDto_of r))"

definition cmd_start_backup ::
  "key_lib \<Rightarrow> ('s, 'r) backup_env \<Rightarrow> scan_root \<Rightarrow> string \<Rightarrow> 's task_end \<Rightarrow> StartBackupRequest
     \<Rightarrow> (('s, 'ss, 't, 'p) DesktopAppState, BackupSummaryDto) command" where
  "cmd_start_backup kl env root stamp tk q =
     gated (\<lambda>st. check_then (profile_row (sbr_profile_id q) st) (\<lambda>(pid, r).
       check_then (derive_encryption_policy kl (pr_profile_id r) (sbr_passphrase q)) (\<lambda>policy.
         holding pid ''Backup for profile is already in progress: ''
           (registered ''Task spawn failed: '' tk (sbr_profile_id q)
             (run_backup env root stamp (BackupProfile_from_db_record r None policy))))) st)"

subsection \<open>restore.rs\<close>

definition make_dir :: "io_error option \<Rightarrow> path \<Rightarrow> local_fs \<Rightarrow> local_fs \<times> unit ipc" where
  "make_dir failure p fs =
     (if fs_exists fs p then (fs, Ok ())
      else case failure of
        Some e \<Rightarrow> (fs, Err (IpcError_new ''FILESYSTEM_ERROR'' (''Failed to create destination directory: '' @ io_message e)))
      | None \<Rightarrow> (create_dir_all p fs, Ok ()))"

definition make_parent :: "io_error option \<Rightarrow> path \<Rightarrow> local_fs \<Rightarrow> local_fs \<times> unit ipc" where
  "make_parent failure p fs =
     (case path_parent p of
        Some q \<Rightarrow> if q \<noteq> [] then make_dir failure q fs else (fs, Ok ())
      | None \<Rightarrow> (fs, Ok ()))"

definition on_disk ::
  "(local_fs \<Rightarrow> local_fs \<times> unit ipc) \<Rightarrow> (('s, 'ss, 't, 'p) DesktopAppState, 'a) command
     \<Rightarrow> (('s, 'ss, 't, 'p) DesktopAppState, 'a) command" where
  "on_disk f g st =
     (let (fs, r) = f (das_fs st); st' = st\<lparr>das_fs := fs\<rparr>
      in case r of Inl e \<Rightarrow> Some (st', Err e) | Inr _ \<Rightarrow> g st')"

definition world_of :: "('s, 'ss, 't, 'p) DesktopAppState \<Rightarrow> 's restore_world" where
  "world_of st = \<lparr>rw_fs = das_fs st, rw_tmp = das_staging st, rw_engine = das_engine st\<rparr>"

definition put_world :: "'s restore_world \<Rightarrow> ('s, 'ss, 't, 'p) DesktopAppState \<Rightarrow> ('s, 'ss, 't, 'p) DesktopAppState" where
  "put_world w st =
     (put_backup ((svc_backup (das_service st))\<lparr>bst_engine := rw_engine w\<rparr>) st)\<lparr>das_fs := rw_fs w, das_staging := rw_tmp w\<rparr>"

definition run_restore ::
  "(StorageReference \<Rightarrow> string) \<Rightarrow> ('x \<Rightarrow> 'a) \<Rightarrow> ('s, 'x) restore_op \<Rightarrow> (('s, 'ss, 't, 'p) DesktopAppState, 'a) command" where
  "run_restore dbg conv f st =
     map_option (\<lambda>(w, r). (put_world w st, map_sum (ipc_of_restore dbg) conv r)) (f (world_of st))"

definition manifest_row ::
  "platform \<Rightarrow> (string \<Rightarrow> (string, ManifestV1) result) \<Rightarrow> Database \<Rightarrow> string \<Rightarrow> ident_str \<Rightarrow> ManifestV1 ipc" where
  "manifest_row pf serde db s fid =
     bind_res (map_err ipc_of_db (get_manifest_by_file_id pf serde db fid)) (ok_or (missing ''Manifest for file'' s))"

definition cmd_restore_file ::
  "key_lib \<Rightarrow> 's restore_lib \<Rightarrow> io_error option \<Rightarrow> bool \<Rightarrow> restore_env \<Rightarrow> 's task_end \<Rightarrow> RestoreFileRequest
     \<Rightarrow> (('s, 'ss, 't, 'p) DesktopAppState, RestoreResultDto) command" where
  "cmd_restore_file kl lib failure cancelled env tk q =
     gated (check_then (file_id_of (rfq_file_id q)) (\<lambda>fid.
       on_disk (make_parent failure (pf_components (rl_platform lib) (rfq_destination_path q)))
         (\<lambda>st. check_then (manifest_row (rl_platform lib) (rl_serde lib) (das_db st) (rfq_file_id q) fid) (\<lambda>m.
           check_then (manifest_policy kl ''file restore'' m (rfq_passphrase q)) (\<lambda>policy.
             registered ''Task spawn failed: '' tk (rfq_file_id q)
               (\<lambda>st. run_restore (rl_debug lib) RestoreResultDto_of
                 (engine_restore_file lib cancelled env (das_db st)
                   (request_with_encryption_policy policy
                     (request_with_collision_policy (CollisionPolicy_of (rfq_collision_policy q))
                       (RestoreRequest_new fid (rfq_destination_path q))))) st))) st)))"

definition cmd_restore_manifest ::
  "key_lib \<Rightarrow> 's restore_lib \<Rightarrow> io_error option \<Rightarrow> restore_env \<Rightarrow> 's task_end \<Rightarrow> RestoreManifestRequest
     \<Rightarrow> (('s, 'ss, 't, 'p) DesktopAppState, RestoreResultDto) command" where
  "cmd_restore_manifest kl lib failure env tk q =
     gated (check_then (map_err (\<lambda>e. ipc_validation (''Invalid manifest JSON: '' @ ManifestError_display e))
         (ManifestV1_from_json (rl_platform lib) (rl_serde lib) (rmq_manifest_json q))) (\<lambda>m.
       on_disk (make_parent failure (pf_components (rl_platform lib) (rmq_destination_path q)))
         (check_then (manifest_policy kl ''manifest restore'' m (rmq_passphrase q)) (\<lambda>policy.
           registered ''Task spawn failed: '' tk (''man-'' @ lf_file_id (logical_file m))
             (run_restore (rl_debug lib) RestoreResultDto_of
               (restore_manifest lib env m (rmq_destination_path q) (CollisionPolicy_of (rmq_collision_policy q)) policy))))))"

definition cmd_restore_snapshot ::
  "key_lib \<Rightarrow> 's restore_lib \<Rightarrow> io_error option \<Rightarrow> bool \<Rightarrow> (nat \<Rightarrow> bool) \<Rightarrow> (nat \<Rightarrow> restore_env) \<Rightarrow> u64
     \<Rightarrow> 's task_end \<Rightarrow> RestoreSnapshotRequest \<Rightarrow> (('s, 'ss, 't, 'p) DesktopAppState, SnapshotRestoreResultDto) command" where
  "cmd_restore_snapshot kl lib failure cancelled_start cancelled env elapsed tk q =
     gated (check_then (snapshot_id_of (rsq_snapshot_id q)) (\<lambda>sid.
       on_disk (make_dir failure (pf_components (rl_platform lib) (rsq_destination_directory q)))
         (check_then (derive_encryption_policy kl sid (rsq_passphrase q)) (\<lambda>policy.
           registered ''Task spawn failed: '' tk (''snap-'' @ rsq_snapshot_id q)
             (\<lambda>st. run_restore (rl_debug lib) (SnapshotRestoreResultDto_of (rsq_destination_directory q))
               (restore_snapshot lib cancelled_start cancelled env elapsed (das_db st)
                 (snapshot_with_encryption_policy policy
                   (snapshot_with_collision_policy (CollisionPolicy_of (rsq_collision_policy q))
                     (SnapshotRestoreRequest_new sid (rsq_destination_directory q))))) st)))))"

definition cmd_verify_manifest_metadata ::
  "platform \<Rightarrow> (string \<Rightarrow> (string, ManifestV1) result)
     \<Rightarrow> ('s \<Rightarrow> StorageReference \<Rightarrow> (StorageError, RemoteObjectMetadata) result) \<Rightarrow> string
     \<Rightarrow> ('s, 'ss, 't, 'p) DesktopAppState \<Rightarrow> ManifestVerificationReportDto ipc" where
  "cmd_verify_manifest_metadata pf serde get_metadata s st =
     bind_res (file_id_of s) (\<lambda>fid.
     bind_res (manifest_row pf serde (das_db st) s fid) (\<lambda>m.
     Ok (ManifestVerificationReportDto_of
           (checker_verify_manifest_metadata pf m (Some (get_metadata (das_provider st)))))))"

definition run_trial ::
  "'s restore_lib \<Rightarrow> trial_env \<Rightarrow> ManifestV1 \<Rightarrow> EncryptionPolicy
     \<Rightarrow> (('s, 'ss, 't, 'p) DesktopAppState, FullVerificationReportDto) command" where
  "run_trial lib env m policy st =
     map_option (\<lambda>(fs, tmp, en, r).
        (put_world \<lparr>rw_fs = fs, rw_tmp = tmp, rw_engine = en\<rparr> st, Ok (FullVerificationReportDto_of r)))
       (checker_verify_full_restore (rl_platform lib) (rl_sha lib) (rl_open_sealed lib) (rl_parse lib) (rl_debug lib)
          (restore_lib.rl_retry lib) (rl_get lib) (restore_lib.rl_callback lib) env m policy (das_fs st) (das_staging st) (das_engine st))"

definition cmd_verify_full_restore ::
  "key_lib \<Rightarrow> 's restore_lib \<Rightarrow> trial_env \<Rightarrow> 's task_end \<Rightarrow> RestoreFileRequest
     \<Rightarrow> (('s, 'ss, 't, 'p) DesktopAppState, FullVerificationReportDto) command" where
  "cmd_verify_full_restore kl lib env tk q =
     gated (check_then (file_id_of (rfq_file_id q)) (\<lambda>fid st.
       check_then (manifest_row (rl_platform lib) (rl_serde lib) (das_db st) (rfq_file_id q) fid) (\<lambda>m.
         check_then (manifest_policy kl ''file verification'' m (rfq_passphrase q)) (\<lambda>policy.
           registered ''Task spawn failed: '' tk (''verify-'' @ rfq_file_id q) (run_trial lib env m policy))) st))"

subsection \<open>checker.rs\<close>

definition cmd_check_file_status ::
  "platform \<Rightarrow> (string \<Rightarrow> (string, ManifestV1) result) \<Rightarrow> (string \<Rightarrow> (io_error, u64) result option) \<Rightarrow> CheckFileStatusRequest
     \<Rightarrow> ('s, 'ss, 't, 'p) DesktopAppState \<Rightarrow> FileStatusDto ipc" where
  "cmd_check_file_status pf serde local_len q st =
     bind_res (profile_id_of (cfr_profile_id q)) (\<lambda>pid.
     bind_res (map_err ipc_of_backup (check_file_status pf serde local_len (das_db st) pid (cfr_relative_path q))) (\<lambda>s.
     Ok \<lparr>fsd_profile_id = cfr_profile_id q, fsd_relative_path = cfr_relative_path q, fsd_is_backed_up = fbs_is_backed_up s,
         fsd_file_id = fbs_file_id s, fsd_latest_version_id = fbs_latest_version_id s,
         fsd_incremental_needed = (fbs_is_modified_locally s \<or> \<not> fbs_is_backed_up s)\<rparr>))"

definition cmd_is_incremental_backup_needed ::
  "(bytes \<Rightarrow> string) \<Rightarrow> platform \<Rightarrow> scan_root \<Rightarrow> string option \<Rightarrow> string \<Rightarrow> ('s, 'ss, 't, 'p) DesktopAppState \<Rightarrow> bool ipc" where
  "cmd_is_incremental_backup_needed sha pf root task_failed s st =
     bind_res (profile_row s st) (\<lambda>(pid, r).
       case task_failed of
         Some e \<Rightarrow> Err (ipc_internal (''Worker failed: '' @ e))
       | None \<Rightarrow>
           map_err ipc_of_backup
             (is_incremental_backup_needed sha pf root (das_db st)
               (BackupProfile_from_db_record r None EncryptionPolicy.Disabled)))"

definition cmd_get_file_versions :: "string \<Rightarrow> ('s, 'ss, 't, 'p) DesktopAppState \<Rightarrow> FileVersionDto list ipc" where
  "cmd_get_file_versions s st =
     bind_res (file_id_of s) (\<lambda>fid. Ok (map FileVersionDto_of (list_versions_by_file (das_db st) fid)))"


subsection \<open>Locks and registrations are given back\<close>

definition op_names :: "('s, 'ss, 't, 'p) DesktopAppState \<Rightarrow> string set" where
  "op_names st = fst ` set (das_registry st)"

text \<open>No token was handed out and no operation came or went.\<close>

definition never_registered ::
  "('s, 'ss, 't, 'p) DesktopAppState \<Rightarrow> ('s, 'ss, 't, 'p) DesktopAppState \<Rightarrow> bool" where
  "never_registered st st' \<longleftrightarrow> das_registry st' = das_registry st \<and> das_next_token st' = das_next_token st"

text \<open>A quiet step leaves the profiles in backup, the profiles under repair and the registry as they are: the engines do.\<close>

definition quiet :: "(('s, 'ss, 't, 'p) DesktopAppState, 'a) command \<Rightarrow> bool" where
  "quiet f \<longleftrightarrow> (\<forall>st st' r. f st = Some (st', r) \<longrightarrow>
     das_guard st' = das_guard st \<and> das_repairing st' = das_repairing st \<and> never_registered st st')"

text \<open>What a command that runs as the operation \<open>op\<close> has given back when it returns. The profiles in backup and under
  repair are those of before. Where its task was joined, either the request was refused before the operation was
  registered, or its name, and no other, is gone from the registry. Where the task failed, the command reports an error
  and its name stays registered.\<close>

definition gives_back :: "'s task_end \<Rightarrow> string \<Rightarrow> (('s, 'ss, 't, 'p) DesktopAppState, 'a) command \<Rightarrow> bool" where
  "gives_back t op f \<longleftrightarrow> (\<forall>st st' r. f st = Some (st', r) \<longrightarrow>
     das_guard st' = das_guard st \<and> das_repairing st' = das_repairing st
     \<and> (case t of
          Joined \<Rightarrow> never_registered st st' \<and> \<not> is_ok r \<or> op_names st' = op_names st - {op}
        | TaskFailed _ _ \<Rightarrow> \<not> is_ok r \<and> (never_registered st st' \<or> op_names st' = insert op (op_names st))))"

named_theorems quiet_intros
named_theorems gives_back_intros

lemma quietI:
  "\<lbrakk>\<And>st st' r. f st = Some (st', r) \<Longrightarrow> das_guard st' = das_guard st \<and> das_repairing st' = das_repairing st
      \<and> das_registry st' = das_registry st \<and> das_next_token st' = das_next_token st\<rbrakk> \<Longrightarrow> quiet f"
  by (simp add: quiet_def never_registered_def)

lemma never_registered_refl [simp]: "never_registered st st"
  by (simp add: never_registered_def)

lemma gives_back_early [simp]:
  "gives_back t op (\<lambda>st. Some (st, Inl e))"
  by (simp add: gives_back_def split: task_end.split)

lemma gives_back_gated [gives_back_intros]: "gives_back t op f \<Longrightarrow> gives_back t op (gated f)"
  by (auto simp: gives_back_def gated_def split: sum.splits task_end.splits)

lemma gives_back_check [gives_back_intros]:
  "(\<And>x. r = Inr x \<Longrightarrow> gives_back t op (f x)) \<Longrightarrow> gives_back t op (check_then r f)"
  by (cases r) (simp_all add: gives_back_def check_then_def split: task_end.split)

lemma gives_back_check_state [gives_back_intros]:
  "(\<And>x. gives_back t op (f x)) \<Longrightarrow> gives_back t op (\<lambda>st. check_then (r st) f st)"
  by (auto simp: gives_back_def check_then_def split: sum.splits task_end.splits)

lemma gives_back_prod [gives_back_intros]: "(\<And>x y. gives_back t op (f x y)) \<Longrightarrow> gives_back t op (case p of (x, y) \<Rightarrow> f x y)"
  by (cases p) simp

lemma das_fs_keeps [simp]:
  "op_names (st\<lparr>das_fs := fs\<rparr>) = op_names st" "never_registered (st\<lparr>das_fs := fs\<rparr>) = never_registered st"
  "never_registered st (st\<lparr>das_fs := fs\<rparr>)"
  by (simp_all add: op_names_def never_registered_def fun_eq_iff)

lemma gives_back_on_disk [gives_back_intros]:
  assumes "gives_back t op g"
  shows "gives_back t op (on_disk f g)"
  unfolding gives_back_def
proof (intro allI impI)
  fix st st' r
  assume run: "on_disk f g st = Some (st', r)"
  obtain fs res where f: "f (das_fs st) = (fs, res)" by fastforce
  from run have "st' = st\<lparr>das_fs := fs\<rparr> \<and> \<not> is_ok r \<or> g (st\<lparr>das_fs := fs\<rparr>) = Some (st', r)"
    by (auto simp: on_disk_def f Let_def split: sum.splits)
  with assms show "das_guard st' = das_guard st \<and> das_repairing st' = das_repairing st
     \<and> (case t of
          Joined \<Rightarrow> never_registered st st' \<and> \<not> is_ok r \<or> op_names st' = op_names st - {op}
        | TaskFailed _ _ \<Rightarrow> \<not> is_ok r \<and> (never_registered st st' \<or> op_names st' = insert op (op_names st)))"
    unfolding gives_back_def by (fastforce split: task_end.splits)
qed

lemma op_names_register [simp]: "op_names (fst (register_cancellation op st)) = insert op (op_names st)"
proof -
  have "fst ` set (das_registry (fst (register_cancellation op st))) = set (map fst (AList.update op (das_next_token st) (das_registry st)))"
    by (simp add: register_cancellation_def)
  also have "\<dots> = insert op (fst ` set (das_registry st))" by (auto simp: update_keys)
  finally show ?thesis by (simp add: op_names_def)
qed

lemma op_names_unregister [simp]: "op_names (unregister_cancellation op st) = op_names st - {op}"
proof -
  have "fst ` set (das_registry (unregister_cancellation op st)) = set (map fst (AList.delete op (das_registry st)))"
    by (simp add: unregister_cancellation_def)
  also have "\<dots> = fst ` set (das_registry st) - {op}" by (simp add: delete_keys)
  finally show ?thesis by (simp add: op_names_def)
qed

lemma register_keeps [simp]:
  "das_service (fst (register_cancellation op st)) = das_service st"
  "das_repairing (fst (register_cancellation op st)) = das_repairing st"
  "das_service (unregister_cancellation op st) = das_service st"
  "das_repairing (unregister_cancellation op st) = das_repairing st"
  by (simp_all add: register_cancellation_def unregister_cancellation_def)

lemma left_by_keeps [simp]:
  "das_guard (left_by w st) = das_guard st" "das_repairing (left_by w st) = das_repairing st"
  "op_names (left_by w st) = op_names st"
  by (simp_all add: left_by_def put_backup_def op_names_def)

lemma gives_back_registered [gives_back_intros]:
  assumes "quiet f" "name = op"
  shows "gives_back t op (registered failed t name f)"
  unfolding gives_back_def
proof (intro allI impI)
  fix st st' r
  assume run: "registered failed t name f st = Some (st', r)"
  let ?st1 = "fst (register_cancellation op st)"
  show "das_guard st' = das_guard st \<and> das_repairing st' = das_repairing st
     \<and> (case t of
          Joined \<Rightarrow> never_registered st st' \<and> \<not> is_ok r \<or> op_names st' = op_names st - {op}
        | TaskFailed _ _ \<Rightarrow> \<not> is_ok r \<and> (never_registered st st' \<or> op_names st' = insert op (op_names st)))"
  proof (cases t)
    case Joined
    with run assms(2) obtain st2 where "f ?st1 = Some (st2, r)" and st': "st' = unregister_cancellation op st2"
      by (auto simp: registered_def Let_def)
    with assms(1) have "das_guard st2 = das_guard ?st1 \<and> das_repairing st2 = das_repairing ?st1 \<and> op_names st2 = op_names ?st1"
      unfolding quiet_def never_registered_def op_names_def by metis
    then show ?thesis by (simp add: Joined st')
  next
    case (TaskFailed e w)
    with run assms(2) have "st' = left_by w ?st1" "\<not> is_ok r" by (auto simp: registered_def Let_def)
    then show ?thesis by (simp add: TaskFailed)
  qed
qed

lemma put_guard_keeps [simp]:
  "das_guard (put_guard g st) = g" "das_repairing (put_guard g st) = das_repairing st"
  "op_names (put_guard g st) = op_names st" "never_registered (put_guard g st) = never_registered st"
  "never_registered st (put_guard g st') = never_registered st st'"
  by (simp_all add: put_guard_def op_names_def never_registered_def fun_eq_iff)

lemma gives_back_holding [gives_back_intros]:
  assumes "gives_back t op f"
  shows "gives_back t op (holding pid busy f)"
  unfolding gives_back_def
proof (intro allI impI)
  fix st st' r
  assume run: "holding pid busy f st = Some (st', r)"
  show "das_guard st' = das_guard st \<and> das_repairing st' = das_repairing st
     \<and> (case t of
          Joined \<Rightarrow> never_registered st st' \<and> \<not> is_ok r \<or> op_names st' = op_names st - {op}
        | TaskFailed _ _ \<Rightarrow> \<not> is_ok r \<and> (never_registered st st' \<or> op_names st' = insert op (op_names st)))"
  proof (cases "eg_poisoned (das_guard st) = None \<and> pid \<notin> eg_active (das_guard st)")
    case False
    then have "st' = put_guard (das_guard st) st" "\<not> is_ok r"
      using run by (auto simp: holding_def try_acquire_def split: option.splits if_splits)
    then show ?thesis by (simp split: task_end.split)
  next
    case True
    let ?g = "(das_guard st)\<lparr>eg_active := insert pid (eg_active (das_guard st))\<rparr>"
    from run True obtain st1 where f: "f (put_guard ?g st) = Some (st1, r)"
      and st': "st' = put_guard (drop_guard \<lparr>pg_profile_id = pid\<rparr> (das_guard st1)) st1"
      by (auto simp: holding_def try_acquire_def)
    have given: "drop_guard \<lparr>pg_profile_id = pid\<rparr> ?g = das_guard st" using True by (simp add: drop_guard_def)
    from assms [unfolded gives_back_def, rule_format, OF f] show ?thesis by (cases t) (simp_all add: st' given)
  qed
qed

lemma parse_id_same: "parse_id entity label s = Inr x \<Longrightarrow> x = s"
  by (auto simp: parse_id_def map_err_Inr_iff id_new_ok_iff)

lemma quiet_run_backup [quiet_intros]: "quiet (run_backup env root stamp profile)"
  by (rule quietI) (auto simp: run_backup_def put_backup_def split: prod.splits)

lemma quiet_run_restore [quiet_intros]: "quiet (\<lambda>st. run_restore dbg conv (f st) st)" "quiet (run_restore dbg conv g)"
  by (rule quietI; auto simp: run_restore_def put_world_def put_backup_def)+

lemma quiet_run_trial [quiet_intros]: "quiet (run_trial lib env m policy)"
  by (rule quietI) (auto simp: run_trial_def put_world_def put_backup_def)

lemma start_backup_gives_back: "gives_back tk (sbr_profile_id q) (cmd_start_backup kl env root stamp tk q)"
  unfolding cmd_start_backup_def by (intro gives_back_intros quiet_intros refl)

text \<open>A second backup of a profile is refused and changes nothing.\<close>

lemma busy_profile_conflict:
  assumes "desktop_auth_gate st = Inr ()" "profile_row (sbr_profile_id q) st = Inr (pid, r)"
    "derive_encryption_policy kl (pr_profile_id r) (sbr_passphrase q) = Inr policy" "is_running pid (das_guard st)"
  shows "\<exists>m. cmd_start_backup kl env root stamp tk q st = Some (st, Err (ipc_conflict m))"
proof -
  have "put_guard (das_guard st) st = st" by (simp add: put_guard_def)
  then show ?thesis using assms
    by (auto simp: cmd_start_backup_def gated_def check_then_def holding_def try_acquire_def is_running_def split: option.splits)
qed

lemma restore_file_gives_back: "gives_back tk (rfq_file_id q) (cmd_restore_file kl lib failure cancelled env tk q)"
  unfolding cmd_restore_file_def by (intro gives_back_intros quiet_intros refl)

text \<open>The operation of a restore from a manifest is named by the file of the manifest.\<close>

definition manifest_op :: "'s restore_lib \<Rightarrow> RestoreManifestRequest \<Rightarrow> string" where
  "manifest_op lib q =
     ''man-'' @ (case ManifestV1_from_json (rl_platform lib) (rl_serde lib) (rmq_manifest_json q) of
        Inr m \<Rightarrow> lf_file_id (logical_file m) | Inl _ \<Rightarrow> [])"

lemma restore_manifest_gives_back: "gives_back tk (manifest_op lib q) (cmd_restore_manifest kl lib failure env tk q)"
  unfolding cmd_restore_manifest_def
  by (intro gives_back_intros quiet_intros) (simp add: manifest_op_def map_err_Inr_iff)

lemma restore_snapshot_gives_back:
  "gives_back tk (''snap-'' @ rsq_snapshot_id q) (cmd_restore_snapshot kl lib failure cancelled_start cancelled env elapsed tk q)"
  unfolding cmd_restore_snapshot_def by (intro gives_back_intros quiet_intros refl)

lemma verify_full_restore_gives_back:
  "gives_back tk (''verify-'' @ rfq_file_id q) (cmd_verify_full_restore kl lib env tk q)"
  unfolding cmd_verify_full_restore_def by (intro gives_back_intros quiet_intros refl)

text \<open>A restore whose task failed stays registered for as long as the application runs, and pruning goes on sparing
  its snapshot.\<close>

lemma failed_restore_stays_registered:
  assumes "desktop_auth_gate st = Inr ()" "snapshot_id_of (rsq_snapshot_id q) = Inr sid"
    "make_dir failure (pf_components (rl_platform lib) (rsq_destination_directory q)) (das_fs st) = (fs, Inr ())"
    "derive_encryption_policy kl sid (rsq_passphrase q) = Inr policy"
  shows "\<exists>st' e. cmd_restore_snapshot kl lib failure cancelled_start cancelled env elapsed (TaskFailed txt w) q st = Some (st', Inl e)
    \<and> ''snap-'' @ rsq_snapshot_id q \<in> op_names st' \<and> sid \<in> active_snapshots st'"
proof -
  let ?op = "''snap-'' @ rsq_snapshot_id q"
  let ?st' = "left_by w (fst (register_cancellation ?op (st\<lparr>das_fs := fs\<rparr>)))"
  have "cmd_restore_snapshot kl lib failure cancelled_start cancelled env elapsed (TaskFailed txt w) q st
      = Some (?st', Inl (ipc_internal (''Task spawn failed: '' @ txt)))"
    using assms by (simp add: cmd_restore_snapshot_def gated_def check_then_def on_disk_def registered_def)
  moreover have op: "?op \<in> op_names ?st'" by simp
  moreover have "sid \<in> active_snapshots ?st'"
  proof -
    from op have "map_of (das_registry ?st') ?op \<noteq> None" by (simp add: op_names_def map_of_eq_None_iff)
    moreover have "rsq_snapshot_id q = sid" "id_new ''SnapshotId'' sid = Ok sid"
      using assms(2) by (auto simp: parse_id_def map_err_Inr_iff id_new_ok_iff)
    ultimately show ?thesis by (auto simp: active_snapshots_iff)
  qed
  ultimately show ?thesis by blast
qed

subsection \<open>Keys of backup and restore\<close>

text \<open>A backup derives its key with the salt of the profile, a restore with the salt of the file: when the hash and the
  derivation keep different salts apart, the keys differ, and what the application encrypts it cannot decrypt.\<close>

lemma restore_key_differs:
  assumes backup: "derive_encryption_policy kl pid (Some pw) = Ok (Enabled k)"
    and restore: "manifest_policy kl purpose m (Some pw) = Ok (Enabled k')"
    and sha: "\<And>x y. take 32 (kl_sha256 kl x) = take 32 (kl_sha256 kl y) \<Longrightarrow> x = y"
    and argon: "\<And>s s' k. \<lbrakk>derive_key (kl_params kl) (kl_argon2 kl) pw s KdfParams_default = Inr k;
         derive_key (kl_params kl) (kl_argon2 kl) pw s' KdfParams_default = Inr k\<rbrakk> \<Longrightarrow> s = s'"
    and scopes: "bytes_of pid \<noteq> bytes_of (lf_file_id (logical_file m))"
  shows "k \<noteq> k'"
proof
  assume "k = k'"
  from backup obtain s where s: "salt_of kl pid = Inr s" "derive_key (kl_params kl) (kl_argon2 kl) pw s KdfParams_default = Inr k"
    by (auto simp: derive_encryption_policy_def derive_policy_def bind_res_Inr_iff map_err_Inr_iff split: if_splits)
  from restore obtain s' where s': "salt_of kl (lf_file_id (logical_file m)) = Inr s'"
      "derive_key (kl_params kl) (kl_argon2 kl) pw s' KdfParams_default = Inr k'"
    by (auto simp: manifest_policy_def derive_policy_def Let_def bind_res_Inr_iff map_err_Inr_iff split: if_splits)
  from argon [OF s(2)] s'(2) \<open>k = k'\<close> have "s = s'" by simp
  with s(1) s'(1) have "take 32 (kl_sha256 kl (bytes_of (''salt:'' @ pid)))
      = take 32 (kl_sha256 kl (bytes_of (''salt:'' @ lf_file_id (logical_file m))))"
    by (auto simp: salt_of_def Salt_from_slice_def split: if_splits)
  from sha [OF this] scopes show False by (simp add: bytes_of_def)
qed

end
