(* ===== verification/Desktop_Audit.thy ===== *)
theory Desktop_Audit
  imports Desktop_Commands
begin

text \<open>
  The commands that audit, repair and prune backups (\<open>commands/verification.rs\<close>, \<open>commands/repair.rs\<close>,
  \<open>commands/retention.rs\<close> of the desktop application). The engine of a repair is a copy of the one in the state with
  the policy of the request: they share the catalog, the transfer engine, the staging files and the profiles under
  repair.
\<close>

subsection \<open>verification.rs\<close>

definition or_default :: "'a option \<Rightarrow> 'a \<Rightarrow> 'a" where
  "or_default x d = (case x of Some v \<Rightarrow> v | None \<Rightarrow> d)"

definition parse_options :: "VerifyTargetRequest \<Rightarrow> VerificationOptions" where
  "parse_options q =
     (let level = or_default (vtr_level q) 4;
          o1 = (if level = 1 then metadata_only else if level = 2 then remote_availability
                else if level = 3 then full_integrity else restore_readiness);
          o2 = (case vtr_full_hash_check q of Some f \<Rightarrow> o1\<lparr>vo_full_hash_check := f\<rparr> | None \<Rightarrow> o1)
      in case vtr_decrypt_check q of Some d \<Rightarrow> o2\<lparr>vo_decrypt_check := d\<rparr> | None \<Rightarrow> o2)"

definition target_of :: "string \<Rightarrow> VerifyTargetRequest \<Rightarrow> string ipc" where
  "target_of what q = ok_or (ipc_validation (''Target '' @ what @ '' ID is required'')) (vtr_target_id q)"

definition run_verification ::
  "('s \<Rightarrow> Database \<Rightarrow> (Database \<times> (BackupError, VerificationResult) result) option)
     \<Rightarrow> (('s, 'ss, 't, 'p) DesktopAppState, VerificationResultDto) command" where
  "run_verification f st =
     map_option (\<lambda>(db, r). (put_catalog db st, map_sum ipc_of_backup VerificationResultDto_of r))
       (f (das_provider st) (das_db st))"

definition cmd_verify_file_backup ::
  "'s verify_lib \<Rightarrow> verify_env \<Rightarrow> verify_env \<Rightarrow> 's task_end \<Rightarrow> VerifyTargetRequest
     \<Rightarrow> (('s, 'ss, 't, 'p) DesktopAppState, VerificationResultDto) command" where
  "cmd_verify_file_backup lib env env_manifest tk q =
     gated (check_then (profile_id_of (vtr_profile_id q)) (\<lambda>pid.
       check_then (bind_res (target_of ''file'' q) file_id_of) (\<lambda>fid.
         registered_if_ok ''Worker thread failed: '' tk (or_default (vtr_operation_id q) (''verify-file-'' @ fid))
           (run_verification (\<lambda>s. verify_file lib s env env_manifest pid fid (parse_options q))))))"

definition cmd_verify_manifest ::
  "'s verify_lib \<Rightarrow> verify_env \<Rightarrow> 's task_end \<Rightarrow> VerifyTargetRequest
     \<Rightarrow> (('s, 'ss, 't, 'p) DesktopAppState, VerificationResultDto) command" where
  "cmd_verify_manifest lib env tk q =
     gated (\<lambda>st. check_then (profile_id_of (vtr_profile_id q)) (\<lambda>pid.
       check_then (bind_res (target_of ''manifest'' q) (\<lambda>mid.
           bind_res (map_err ipc_of_db (get_manifest (vl_platform lib) (vl_serde lib) (das_db st) mid)) (\<lambda>found.
           bind_res (ok_or (ipc_not_found (''Manifest '' @ quoted mid @ '' not found in catalog'')) found) (\<lambda>m.
           Ok (mid, m))))) (\<lambda>(mid, m).
         registered_if_ok ''Worker thread failed: '' tk (or_default (vtr_operation_id q) (''verify-manifest-'' @ mid))
           (run_verification (\<lambda>s db.
              map_option (\<lambda>(db', r). (db', Ok r)) (verify_manifest lib s env pid m (parse_options q) db))))) st)"

definition cmd_verify_snapshot ::
  "'s verify_lib \<Rightarrow> verify_env \<Rightarrow> (nat \<Rightarrow> verify_env) \<Rightarrow> 's task_end \<Rightarrow> VerifyTargetRequest
     \<Rightarrow> (('s, 'ss, 't, 'p) DesktopAppState, VerificationResultDto) command" where
  "cmd_verify_snapshot lib env envs tk q =
     gated (check_then (profile_id_of (vtr_profile_id q)) (\<lambda>pid.
       check_then (bind_res (target_of ''snapshot'' q) snapshot_id_of) (\<lambda>sid.
         registered_if_ok ''Worker thread failed: '' tk (or_default (vtr_operation_id q) (''verify-snapshot-'' @ sid))
           (run_verification (\<lambda>s. verify_snapshot lib s env envs pid sid (parse_options q))))))"

definition cmd_verify_profile ::
  "'s verify_lib \<Rightarrow> verify_env \<Rightarrow> (nat \<Rightarrow> verify_env \<times> (nat \<Rightarrow> verify_env)) \<Rightarrow> 's task_end \<Rightarrow> VerifyTargetRequest
     \<Rightarrow> (('s, 'ss, 't, 'p) DesktopAppState, VerificationResultDto) command" where
  "cmd_verify_profile lib env envs tk q =
     gated (check_then (profile_id_of (vtr_profile_id q)) (\<lambda>pid.
       registered_if_ok ''Worker thread failed: '' tk (or_default (vtr_operation_id q) (''verify-profile-'' @ pid))
         (run_verification (\<lambda>s. verify_profile lib s env envs pid (parse_options q)))))"

definition cmd_get_verification_history ::
  "string \<Rightarrow> nat option \<Rightarrow> ('s, 'ss, 't, 'p) DesktopAppState \<Rightarrow> VerificationHistoryRecordDto list ipc" where
  "cmd_get_verification_history s limit st =
     bind_res (profile_id_of s) (\<lambda>pid.
       Ok (map VerificationHistoryRecordDto_of (list_verification_history (das_db st) pid (or_default limit 50))))"

subsection \<open>repair.rs\<close>

definition repair_engine_of :: "EncryptionPolicy \<Rightarrow> ('s, 'ss, 't, 'p) DesktopAppState \<Rightarrow> 's RepairEngine" where
  "repair_engine_of policy st =
     with_encryption_policy policy
       \<lparr>ren_backup = svc_backup (das_service st), ren_staging = das_staging st, ren_active_profiles = das_repairing st,
        ren_poisoned = das_repair_poisoned st, ren_policy = Disabled\<rparr>"

definition put_repair :: "'s RepairEngine \<Rightarrow> ('s, 'ss, 't, 'p) DesktopAppState \<Rightarrow> ('s, 'ss, 't, 'p) DesktopAppState" where
  "put_repair e st =
     (put_backup (ren_backup e) st)\<lparr>das_staging := ren_staging e, das_repairing := ren_active_profiles e,
       das_repair_poisoned := ren_poisoned e\<rparr>"

text \<open>The task of a preview: the kind of its target, then the preview of the engine.\<close>

definition run_preview ::
  "'s repair_lib \<Rightarrow> source_env \<Rightarrow> (nat \<Rightarrow> string \<times> string) \<Rightarrow> verify_env \<Rightarrow> (nat \<Rightarrow> verify_env) \<Rightarrow> EncryptionPolicy
     \<Rightarrow> ident_str \<Rightarrow> string \<Rightarrow> string \<Rightarrow> (('s, 'ss, 't, 'p) DesktopAppState, RepairPreviewDto) command" where
  "run_preview lib src t env envs policy pid target_type target_id st =
     (let back = map_option (\<lambda>(b, r). (put_backup b st, map_sum ipc_of_repair RepairPreviewDto_of r)) in
      if target_type = ''file'' then
        (case file_id_of target_id of
           Inl e \<Rightarrow> Some (st, Err e)
         | Inr fid \<Rightarrow> back (preview_file_repair lib src env (envs 0) policy pid fid (svc_backup (das_service st))))
      else if target_type = ''snapshot'' then
        (case snapshot_id_of target_id of
           Inl e \<Rightarrow> Some (st, Err e)
         | Inr sid \<Rightarrow> back (preview_snapshot_repair lib src t env envs pid sid (svc_backup (das_service st))))
      else Some (st, Err (ipc_validation (''Unsupported target type '' @ quoted target_type @ '', expected '' @ quoted ''file''
        @ '' or '' @ quoted ''snapshot''))))"

definition cmd_preview_repair ::
  "key_lib \<Rightarrow> 's repair_lib \<Rightarrow> source_env \<Rightarrow> (nat \<Rightarrow> string \<times> string) \<Rightarrow> verify_env \<Rightarrow> (nat \<Rightarrow> verify_env)
     \<Rightarrow> 's task_end \<Rightarrow> PreviewRepairRequest \<Rightarrow> (('s, 'ss, 't, 'p) DesktopAppState, RepairPreviewDto) command" where
  "cmd_preview_repair kl lib src t env envs tk q =
     gated (check_then (profile_id_of (prq_profile_id q)) (\<lambda>pid.
       check_then (derive_encryption_policy kl pid (prq_passphrase q)) (\<lambda>policy.
         registered ''Worker thread failed: '' tk (or_default (prq_operation_id q) (''preview-repair-'' @ pid @ ''-'' @ prq_target_id q))
           (run_preview lib src t env envs policy pid (prq_target_type q) (prq_target_id q)))))"

definition run_repair ::
  "EncryptionPolicy \<Rightarrow> ('s RepairEngine \<Rightarrow> ('s RepairEngine \<times> (RepairError, RepairExecutionResult) result) option)
     \<Rightarrow> (('s, 'ss, 't, 'p) DesktopAppState, RepairExecutionResultDto) command" where
  "run_repair policy f st =
     map_option (\<lambda>(e, r). (put_repair e st, map_sum ipc_of_repair RepairExecutionResultDto_of r))
       (f (repair_engine_of policy st))"

definition cmd_repair_file ::
  "key_lib \<Rightarrow> 's repair_lib \<Rightarrow> source_env \<Rightarrow> 'r repair_env \<Rightarrow> 's task_end \<Rightarrow> RepairFileRequest
     \<Rightarrow> (('s, 'ss, 't, 'p) DesktopAppState, RepairExecutionResultDto) command" where
  "cmd_repair_file kl lib src env tk q =
     gated (check_then (profile_id_of (rfr_profile_id q)) (\<lambda>pid. check_then (file_id_of (rfr_file_id q)) (\<lambda>fid.
       holding pid ''Profile is currently busy: ''
         (check_then (derive_encryption_policy kl pid (rfr_passphrase q)) (\<lambda>policy.
           registered ''Worker thread failed: '' tk (or_default (rfr_operation_id q) (''repair-file-'' @ fid))
             (run_repair policy (repair_file lib src env pid fid (or_default (rfr_dry_run q) False))))))))"

definition cmd_repair_snapshot ::
  "key_lib \<Rightarrow> 's repair_lib \<Rightarrow> source_env \<Rightarrow> 'r repair_env \<Rightarrow> 's task_end \<Rightarrow> RepairSnapshotRequest
     \<Rightarrow> (('s, 'ss, 't, 'p) DesktopAppState, RepairExecutionResultDto) command" where
  "cmd_repair_snapshot kl lib src env tk q =
     gated (check_then (profile_id_of (rsr_profile_id q)) (\<lambda>pid. check_then (snapshot_id_of (rsr_snapshot_id q)) (\<lambda>sid.
       holding pid ''Profile is currently busy: ''
         (check_then (derive_encryption_policy kl pid (rsr_passphrase q)) (\<lambda>policy.
           registered ''Worker thread failed: '' tk (or_default (rsr_operation_id q) (''repair-snapshot-'' @ sid))
             (run_repair policy (repair_snapshot lib src env pid sid (or_default (rsr_dry_run q) False))))))))"

definition cmd_get_repair_history ::
  "string \<Rightarrow> nat option \<Rightarrow> ('s, 'ss, 't, 'p) DesktopAppState \<Rightarrow> RepairHistoryRecordDto list ipc" where
  "cmd_get_repair_history s limit st =
     bind_res (profile_id_of s) (\<lambda>pid.
       Ok (map RepairHistoryRecordDto_of (list_repair_history (das_db st) pid (or_default limit 50))))"

subsection \<open>retention.rs\<close>

definition cmd_get_retention_policy :: "string \<Rightarrow> ('s, 'ss, 't, 'p) DesktopAppState \<Rightarrow> RetentionPolicyDto ipc" where
  "cmd_get_retention_policy s st =
     bind_res (profile_id_of s) (\<lambda>pid. Ok (RetentionPolicyDto_of (engine_get_policy (das_db st) pid)))"

definition cmd_set_retention_policy ::
  "retention_env \<Rightarrow> int \<Rightarrow> SetRetentionPolicyRequest \<Rightarrow> ('s, 'ss, 't, 'p) DesktopAppState
     \<Rightarrow> ('s, 'ss, 't, 'p) DesktopAppState \<times> RetentionPolicyDto ipc" where
  "cmd_set_retention_policy env now q st =
     (case profile_id_of (spr_profile_id q) of
        Inl e \<Rightarrow> (st, Err e)
      | Inr pid \<Rightarrow>
          let p = RetentionPolicy_of pid q; (db, r) = engine_save_policy env p now (das_db st)
          in (put_catalog db st, map_sum ipc_of_retention (\<lambda>_. RetentionPolicyDto_of p) r))"

definition cmd_preview_retention ::
  "retention_env \<Rightarrow> int \<Rightarrow> string \<Rightarrow> ('s, 'ss, 't, 'p) DesktopAppState \<Rightarrow> RetentionEvaluationDto ipc" where
  "cmd_preview_retention env now s st =
     bind_res (profile_id_of s) (\<lambda>pid.
       map_sum ipc_of_retention RetentionEvaluationDto_of
         (evaluate_retention env (das_db st) pid None (active_snapshots st) now))"

definition cmd_execute_retention ::
  "retention_env \<Rightarrow> int \<Rightarrow> string \<Rightarrow> ('s, 'ss, 't, 'p) DesktopAppState
     \<Rightarrow> ('s, 'ss, 't, 'p) DesktopAppState \<times> RetentionResultDto ipc" where
  "cmd_execute_retention env now s st =
     (case profile_id_of s of
        Inl e \<Rightarrow> (st, Err e)
      | Inr pid \<Rightarrow>
          if is_running pid (das_guard st) then
            (st, Err (ipc_conflict (''Backup for profile '' @ quoted s @ '' is currently running; retention pruning deferred'')))
          else
            let (db, r) = execute_retention env pid None (active_snapshots st) False now (das_db st)
            in (put_catalog db st, map_sum ipc_of_retention RetentionResultDto_of r))"

definition cmd_get_retention_history ::
  "(string \<Rightarrow> string list option) \<Rightarrow> string \<Rightarrow> nat option \<Rightarrow> ('s, 'ss, 't, 'p) DesktopAppState \<Rightarrow> RetentionHistoryDto list ipc" where
  "cmd_get_retention_history parse s limit st =
     bind_res (profile_id_of s) (\<lambda>pid.
       Ok (map (RetentionHistoryDto_of parse) (list_retention_history (das_db st) pid (or_default limit 20))))"

subsection \<open>Locks and registrations\<close>

lemma quiet_run_preview [quiet_intros]: "quiet (run_preview lib src t env envs policy pid target_type target_id)"
  by (rule quietI) (auto simp: run_preview_def put_backup_def Let_def split: if_splits sum.splits)

lemma put_repair_keeps [simp]:
  "das_guard (put_repair e st) = das_guard st" "das_repairing (put_repair e st) = ren_active_profiles e"
  "das_registry (put_repair e st) = das_registry st" "das_next_token (put_repair e st) = das_next_token st"
  by (simp_all add: put_repair_def put_backup_def)

lemma repair_engine_of_active [simp]: "ren_active_profiles (repair_engine_of policy st) = das_repairing st"
  by (simp add: repair_engine_of_def with_encryption_policy_def)

lemma quiet_run_repair:
  assumes "\<And>e e' r. f e = Some (e', r) \<Longrightarrow> ren_active_profiles e' = ren_active_profiles e"
  shows "quiet (run_repair policy f)"
proof (rule quietI)
  fix st st' r
  assume "run_repair policy f st = Some (st', r)"
  then obtain e' x where "f (repair_engine_of policy st) = Some (e', x)" "st' = put_repair e' st"
    by (auto simp: run_repair_def)
  with assms show "das_guard st' = das_guard st \<and> das_repairing st' = das_repairing st \<and> das_registry st' = das_registry st
      \<and> das_next_token st' = das_next_token st"
    by fastforce
qed

text \<open>The names under which previews and repairs run.\<close>

definition preview_op :: "PreviewRepairRequest \<Rightarrow> string" where
  "preview_op q = or_default (prq_operation_id q) (''preview-repair-'' @ prq_profile_id q @ ''-'' @ prq_target_id q)"

definition repair_file_op :: "RepairFileRequest \<Rightarrow> string" where
  "repair_file_op q = or_default (rfr_operation_id q) (''repair-file-'' @ rfr_file_id q)"

definition repair_snapshot_op :: "RepairSnapshotRequest \<Rightarrow> string" where
  "repair_snapshot_op q = or_default (rsr_operation_id q) (''repair-snapshot-'' @ rsr_snapshot_id q)"

lemma preview_repair_gives_back: "gives_back tk (preview_op q) (cmd_preview_repair kl lib src t env envs tk q)"
  unfolding cmd_preview_repair_def
  by (intro gives_back_intros quiet_intros) (auto dest!: parse_id_same simp: preview_op_def)

lemma repair_file_active:
  "repair_file lib src env pid fid dry e = Some (e', r) \<Longrightarrow> ren_active_profiles e' = ren_active_profiles e"
  unfolding repair_file_def by (drule guarded_repair_scope) (erule preview_file_history, simp)

lemma repair_snapshot_active:
  "repair_snapshot lib src env pid sid dry e = Some (e', r) \<Longrightarrow> ren_active_profiles e' = ren_active_profiles e"
  unfolding repair_snapshot_def by (drule guarded_repair_scope) (erule preview_snapshot_history, simp)

lemma repair_file_gives_back: "gives_back tk (repair_file_op q) (cmd_repair_file kl lib src env tk q)"
  unfolding cmd_repair_file_def
  by (intro gives_back_intros quiet_run_repair) (erule repair_file_active, auto dest!: parse_id_same simp: repair_file_op_def)

lemma repair_snapshot_gives_back: "gives_back tk (repair_snapshot_op q) (cmd_repair_snapshot kl lib src env tk q)"
  unfolding cmd_repair_snapshot_def
  by (intro gives_back_intros quiet_run_repair) (erule repair_snapshot_active, auto dest!: parse_id_same simp: repair_snapshot_op_def)

text \<open>A verification that ends in an error, of the catalog or of its task, stays registered: its name keeps a token that nobody holds.\<close>

lemma failed_verification_stays_registered:
  assumes "desktop_auth_gate st = Inr ()" "profile_id_of (vtr_profile_id q) = Inr pid"
    and run: "cmd_verify_profile lib env envs tk q st = Some (st', Inl e)"
  shows "or_default (vtr_operation_id q) (''verify-profile-'' @ pid) \<in> op_names st'"
proof -
  let ?op = "or_default (vtr_operation_id q) (''verify-profile-'' @ pid)"
  from run assms(1,2) have "(\<exists>db. st' = put_catalog db (fst (register_cancellation ?op st)))
      \<or> (\<exists>w. st' = left_by w (fst (register_cancellation ?op st)))"
    by (auto simp: cmd_verify_profile_def gated_def check_then_def registered_if_ok_def run_verification_def Let_def
        split: if_splits task_end.splits)
  then have "op_names st' = op_names (fst (register_cancellation ?op st))" by (auto simp: op_names_def put_catalog_def left_by_def put_backup_def)
  then show ?thesis by simp
qed

subsection \<open>Pruning and running restores\<close>

lemma approved_not_active:
  "approved_for_pruning busy ds = Inr ids \<Longrightarrow> set ids \<inter> busy = {}"
  by (induction ds arbitrary: ids) (auto simp: bind_res_Inr_iff split: if_splits)

lemma pruned_get_snapshot: "sid \<notin> set ids \<Longrightarrow> get_snapshot (pruned ids db) sid = get_snapshot db sid"
proof -
  assume "sid \<notin> set ids"
  then have "find_first (\<lambda>s. sr_snapshot_id s = sid) (filter (\<lambda>s. sr_snapshot_id s \<notin> set ids) t)
      = find_first (\<lambda>s. sr_snapshot_id s = sid) t" for t :: "SnapshotRecord list"
    by (induction t) auto
  then show ?thesis by (simp add: get_snapshot_def pruned_def)
qed

lemma pruned_versions: "sid \<notin> set ids \<Longrightarrow> list_versions_by_snapshot (pruned ids db) sid = list_versions_by_snapshot db sid"
proof -
  assume "sid \<notin> set ids"
  then have "filter (\<lambda>v. ver_snapshot_id v = sid) (filter (\<lambda>v. ver_snapshot_id v \<notin> set ids) t)
      = filter (\<lambda>v. ver_snapshot_id v = sid) t" for t :: "VersionRecord list"
    by (auto intro!: filter_cong)
  then show ?thesis by (simp add: list_versions_by_snapshot_def pruned_def)
qed

lemma execute_retention_cases:
  assumes "execute_retention env pid custom busy False now db = (db', r)"
  obtains (same) h where "db' = db\<lparr>t_ret_hist := h\<rparr>"
    | (pruned) ds ids h where "approved_for_pruning busy ds = Inr ids" "db' = (pruned ids db)\<lparr>t_ret_hist := h\<rparr>"
proof (cases "get_profile db pid = None \<or> (\<exists>e. evaluate_retention env db pid custom busy now = Inl e)")
  case True
  then have "db' = db" using assms by (auto simp: execute_retention_def split: if_splits)
  then show ?thesis using same [of "t_ret_hist db"] by simp
next
  case False
  then obtain ev where ev: "get_profile db pid \<noteq> None" "evaluate_retention env db pid custom busy now = Inr ev"
    by (cases "evaluate_retention env db pid custom busy now") auto
  show ?thesis
  proof (cases "approved_for_pruning busy (re_decisions ev)")
    case (Inl e)
    then have "db' = db" using assms ev by (simp add: execute_retention_def)
    then show ?thesis using same [of "t_ret_hist db"] by simp
  next
    case ids: (Inr ids)
    let ?h = "Retention_Engine.history_record env pid (rv_rfc3339 env now) False ev (''rethist-'' @ rv_stamp env)
        (length ids) (rv_ids_json env ids)"
    show ?thesis
    proof (cases "ids = []")
      case True
      then have "\<exists>h. db' = db\<lparr>t_ret_hist := h\<rparr>" using assms ev ids
        by (auto simp: execute_retention_def Let_def record_retention_history_def checked_def intro: exI [of _ "t_ret_hist db"] split: if_splits)
      then show ?thesis using same by blast
    next
      case nonempty: False
      with assms ev ids obtain n where run: "prune_snapshots_transactional (rv_em env) ids (Some ?h) db = (db', n)"
        by (auto simp: execute_retention_def Let_def split: prod.splits)
      from prune_transaction_cases [where em = "rv_em env" and sids = ids and history = "Some ?h" and db = db]
      have "db' = db \<or> db' = (pruned ids db)\<lparr>t_ret_hist := t_ret_hist db @ [?h]\<rparr>"
        unfolding run by (cases n) auto
      then show ?thesis using same [of "t_ret_hist db"] pruned [OF ids] by auto
    qed
  qed
qed

lemma retention_keeps_busy:
  assumes "sid \<in> busy" "execute_retention env pid custom busy False now db = (db', r)"
  shows "get_snapshot db' sid = get_snapshot db sid \<and> list_versions_by_snapshot db' sid = list_versions_by_snapshot db sid"
proof -
  have hist: "get_snapshot (d\<lparr>t_ret_hist := h\<rparr>) sid = get_snapshot d sid"
      "list_versions_by_snapshot (d\<lparr>t_ret_hist := h\<rparr>) sid = list_versions_by_snapshot d sid" for d h
    by (simp_all add: get_snapshot_def list_versions_by_snapshot_def)
  show ?thesis
  proof (rule execute_retention_cases [OF assms(2)])
    fix ds ids h
    assume ids: "approved_for_pruning busy ds = Inr ids" and db': "db' = (pruned ids db)\<lparr>t_ret_hist := h\<rparr>"
    from approved_not_active [OF ids] assms(1) have "sid \<notin> set ids" by blast
    from pruned_get_snapshot [OF this, of db] pruned_versions [OF this, of db] show ?thesis by (simp only: db' hist simp_thms)
  qed (simp only: hist)
qed

text \<open>C25. Pruning by hand never takes a snapshot from under a running restore: while an operation is registered as the
  restore of a snapshot, executing retention on any profile leaves the row of that snapshot and its versions as they are,
  whatever the policy says; and it is refused with a conflict, changing nothing, while a backup of the profile runs.\<close>

theorem restoring_snapshot_kept:
  assumes "map_of (das_registry st) (''snap-'' @ s) = Some token" "snapshot_id_of s = Inr sid"
    and run: "cmd_execute_retention env now p st = (st', r)"
  shows "get_snapshot (das_db st') sid = get_snapshot (das_db st) sid
    \<and> list_versions_by_snapshot (das_db st') sid = list_versions_by_snapshot (das_db st) sid
    \<and> (\<forall>pid. profile_id_of p = Inr pid \<and> is_running pid (das_guard st) \<longrightarrow> st' = st \<and> \<not> is_ok r)"
proof -
  have sid: "s = sid" "id_new ''SnapshotId'' sid = Ok sid"
    using assms(2) by (auto simp: parse_id_def id_new_ok_iff)
  then have busy: "sid \<in> active_snapshots st" using assms(1) by (simp add: active_snapshots_iff)
  show ?thesis
  proof (cases "\<exists>pid. profile_id_of p = Inr pid \<and> \<not> is_running pid (das_guard st)")
    case True
    then obtain pid where pid: "profile_id_of p = Inr pid" "\<not> is_running pid (das_guard st)" by blast
    obtain db x where x: "execute_retention env pid None (active_snapshots st) False now (das_db st) = (db, x)" by fastforce
    then have "das_db st' = db" using run pid by (auto simp: cmd_execute_retention_def put_catalog_def put_db_def)
    then show ?thesis using retention_keeps_busy [OF busy x] pid by simp
  next
    case False
    then have "st' = st \<and> \<not> is_ok r" using run by (auto simp: cmd_execute_retention_def split: sum.splits if_splits)
    then show ?thesis by simp
  qed
qed

text \<open>Pruning is done for anyone: the command does not look at the login.\<close>

lemma retention_ignores_login:
  "cmd_execute_retention env now p (st\<lparr>das_auth := a\<rparr>)
     = map_prod (\<lambda>s. s\<lparr>das_auth := a\<rparr>) id (cmd_execute_retention env now p st)"
  by (simp add: cmd_execute_retention_def active_snapshots_def put_catalog_def split: sum.split prod.split)

definition restoring_state :: "(unit backend, unit, unit, unit) DesktopAppState" where
  "restoring_state = (new_in_memory [Normal ''b''] retention_sample_db ''n'')\<lparr>das_registry := [(''snap-s1'', 0)], das_next_token := 1\<rparr>"

theorem restoring_snapshot_kept_witness:
  "get_snapshot (das_db (fst (cmd_execute_retention Retention_Engine.sample_env 0 ''p1'' restoring_state))) ''s1''
     = get_snapshot retention_sample_db ''s1'' \<and> get_snapshot retention_sample_db ''s1'' \<noteq> None"
proof -
  have "id_new ''SnapshotId'' ''s1'' = Inr ''s1''" by code_simp
  then have "snapshot_id_of ''s1'' = Inr ''s1''" by (simp add: parse_id_def)
  moreover have "map_of (das_registry restoring_state) (''snap-'' @ ''s1'') = Some 0" by (simp add: restoring_state_def)
  moreover obtain st' r where "cmd_execute_retention Retention_Engine.sample_env 0 ''p1'' restoring_state = (st', r)" by fastforce
  ultimately have "get_snapshot (das_db (fst (cmd_execute_retention Retention_Engine.sample_env 0 ''p1'' restoring_state))) ''s1''
     = get_snapshot (das_db restoring_state) ''s1''"
    using restoring_snapshot_kept [of restoring_state "''s1''" 0 "''s1''" Retention_Engine.sample_env 0 "''p1''" st' r] by simp
  moreover have "das_db restoring_state = retention_sample_db"
    by (simp add: restoring_state_def new_in_memory_def SchedulerService_new_def)
  moreover have "get_snapshot retention_sample_db ''s1'' \<noteq> None"
    by (simp add: get_snapshot_def retention_sample_db_def sample_snapshot_def)
  ultimately show ?thesis by simp
qed

end
