(* ===== verification/Desktop_Control.thy ===== *)
theory Desktop_Control
  imports Desktop_Commands
begin

text \<open>
  The commands for transfers, schedules, settings and the Telegram account (\<open>commands/transfer.rs\<close>,
  \<open>commands/scheduler.rs\<close>, \<open>commands/system.rs\<close>, \<open>commands/telegram.rs\<close>, \<open>commands/telegram_auth.rs\<close> of the desktop
  application). An outcome None is a panic: of the service while it plans a run, or of the driver of the login.
\<close>

subsection \<open>transfer.rs\<close>

definition cmd_list_transfer_jobs :: "nat option \<Rightarrow> ('s, 'ss, 't, 'p) DesktopAppState \<Rightarrow> TransferJobDto list ipc" where
  "cmd_list_transfer_jobs limit st =
     (let lim = max 1 (min 500 (case limit of Some n \<Rightarrow> n | None \<Rightarrow> 50))
      in Ok (map TransferJobDto_of (list_recent_transfer_jobs (das_db st) lim)))"

definition cmd_get_transfer_job :: "string \<Rightarrow> ('s, 'ss, 't, 'p) DesktopAppState \<Rightarrow> TransferJobDto ipc" where
  "cmd_get_transfer_job s st =
     bind_res (parse_id ''JobId'' ''job'' s) (\<lambda>jid.
     bind_res (ok_or (missing ''Transfer job'' s) (get_transfer_job (das_db st) jid)) (\<lambda>r. Ok (TransferJobDto_of r)))"

definition cmd_get_transfer_status :: "('s, 'ss, 't, 'p) DesktopAppState \<Rightarrow> TransferStatusDto ipc" where
  "cmd_get_transfer_status st =
     (let count = (\<lambda>s. length (list_transfer_jobs_by_status (das_db st) s)) in
      Ok \<lparr>tsx_active_count = count TransferStatus.Transferring, tsx_queued_count = count TransferStatus.Pending,
          tsx_completed_count = count TransferStatus.Completed, tsx_failed_count = count TransferStatus.Failed\<rparr>)"

text \<open>\<open>millis\<close> is the time of the call in milliseconds, as text.\<close>

definition cmd_cancel_operation ::
  "string \<Rightarrow> string \<Rightarrow> ('s, 'ss, 't, 'p) DesktopAppState \<Rightarrow> ('s, 'ss, 't, 'p) DesktopAppState \<times> bool ipc" where
  "cmd_cancel_operation millis op st =
     (let (st1, cancelled) = cancel_operation op st in
      if cancelled then (st1, Ok True)
      else case id_new ''JobId'' op of
        Inl _ \<Rightarrow> (st1, Ok False)
      | Inr jid \<Rightarrow>
          (put_catalog (fst (update_transfer_job_status jid TransferStatus.Cancelled (Some ''Cancelled by user'') millis
             (das_db st1))) st1, Ok False))"

subsection \<open>scheduler.rs\<close>

type_synonym ('st, 'a) panicking = "'st \<Rightarrow> ('st \<times> 'a ipc option) option"

definition on_service ::
  "('x \<Rightarrow> 'a) \<Rightarrow> ('s SchedulerService \<Rightarrow> ('s SchedulerService \<times> 'x run) option)
     \<Rightarrow> (('s, 'ss, 't, 'p) DesktopAppState, 'a) panicking" where
  "on_service conv f st =
     map_option (\<lambda>(svc, r). (st\<lparr>das_service := svc\<rparr>, map_option (map_sum ipc_of_scheduler conv) r)) (f (das_service st))"

definition check_or_panic :: "'x ipc \<Rightarrow> ('x \<Rightarrow> ('st, 'a) panicking) \<Rightarrow> ('st, 'a) panicking" where
  "check_or_panic r f st = (case r of Inl e \<Rightarrow> Some (st, Some (Err e)) | Inr x \<Rightarrow> f x st)"

definition cmd_list_schedules :: "sched_lib \<Rightarrow> instant \<Rightarrow> ('s, 'ss, 't, 'p) DesktopAppState \<Rightarrow> ScheduleDto list ipc" where
  "cmd_list_schedules lib fallback st =
     map_sum ipc_of_scheduler (map (domain_to_dto lib)) (service_list_schedules lib fallback (das_service st))"

definition cmd_get_schedule :: "sched_lib \<Rightarrow> instant \<Rightarrow> string \<Rightarrow> ('s, 'ss, 't, 'p) DesktopAppState \<Rightarrow> ScheduleDto ipc" where
  "cmd_get_schedule lib fallback s st =
     bind_res (schedule_id_of s) (\<lambda>sid.
       map_sum ipc_of_scheduler (domain_to_dto lib) (service_get_schedule lib fallback sid (das_service st)))"

definition schedule_type_of :: "string \<Rightarrow> ScheduleType ipc" where
  "schedule_type_of s =
     map_err (\<lambda>e. ipc_validation (''Invalid schedule type: '' @ SchedulerError_display e)) (ScheduleType_from_str s)"

definition timezone_of :: "string \<Rightarrow> TimezoneStrategy ipc" where
  "timezone_of s =
     map_err (\<lambda>e. ipc_validation (''Invalid timezone: '' @ SchedulerError_display e)) (TimezoneStrategy_from_str s)"

definition parse_opt :: "(string \<Rightarrow> 'a ipc) \<Rightarrow> string option \<Rightarrow> 'a option ipc" where
  "parse_opt f x = (case x of Some s \<Rightarrow> bind_res (f s) (\<lambda>v. Ok (Some v)) | None \<Rightarrow> Ok None)"

definition create_params :: "CreateScheduleRequest \<Rightarrow> CreateScheduleParams ipc" where
  "create_params q =
     bind_res (profile_id_of (csq_profile_id q)) (\<lambda>pid.
     bind_res (schedule_type_of (csq_schedule_type q)) (\<lambda>ty.
     bind_res (parse_opt timezone_of (csq_timezone q)) (\<lambda>tz.
     Ok \<lparr>csp_schedule_id = None, csp_profile_id = pid, csp_schedule_type = ty, csp_expression = csq_expression q,
         csp_timezone = tz, csp_enabled = csq_enabled q\<rparr>)))"

definition cmd_create_schedule ::
  "sched_lib \<Rightarrow> instant \<Rightarrow> instant \<Rightarrow> string \<Rightarrow> CreateScheduleRequest
     \<Rightarrow> (('s, 'ss, 't, 'p) DesktopAppState, ScheduleDto) panicking" where
  "cmd_create_schedule lib now fallback stamp q =
     check_or_panic (create_params q) (\<lambda>p.
       on_service (domain_to_dto lib) (service_create_schedule lib now fallback stamp p))"

definition update_params :: "UpdateScheduleRequest \<Rightarrow> UpdateScheduleParams ipc" where
  "update_params q =
     bind_res (schedule_id_of (usq_schedule_id q)) (\<lambda>sid.
     bind_res (parse_opt schedule_type_of (usq_schedule_type q)) (\<lambda>ty.
     bind_res (parse_opt timezone_of (usq_timezone q)) (\<lambda>tz.
     Ok \<lparr>usp_schedule_id = sid, usp_schedule_type = ty, usp_expression = usq_expression q, usp_timezone = tz,
         usp_enabled = usq_enabled q\<rparr>)))"

definition cmd_update_schedule ::
  "sched_lib \<Rightarrow> instant \<Rightarrow> instant \<Rightarrow> UpdateScheduleRequest
     \<Rightarrow> (('s, 'ss, 't, 'p) DesktopAppState, ScheduleDto) panicking" where
  "cmd_update_schedule lib now fallback q =
     check_or_panic (update_params q) (\<lambda>p. on_service (domain_to_dto lib) (service_update_schedule lib now fallback p))"

definition cmd_delete_schedule :: "string \<Rightarrow> (('s, 'ss, 't, 'p) DesktopAppState, bool) panicking" where
  "cmd_delete_schedule s =
     check_or_panic (schedule_id_of s) (\<lambda>sid. on_service (\<lambda>b. b) (\<lambda>svc. Some (service_delete_schedule sid svc)))"

definition cmd_enable_schedule ::
  "sched_lib \<Rightarrow> instant \<Rightarrow> instant \<Rightarrow> string \<Rightarrow> (('s, 'ss, 't, 'p) DesktopAppState, ScheduleDto) panicking" where
  "cmd_enable_schedule lib now fallback s =
     check_or_panic (schedule_id_of s) (\<lambda>sid. on_service (domain_to_dto lib) (enable_schedule lib now fallback sid))"

definition cmd_disable_schedule ::
  "sched_lib \<Rightarrow> instant \<Rightarrow> instant \<Rightarrow> string \<Rightarrow> (('s, 'ss, 't, 'p) DesktopAppState, ScheduleDto) panicking" where
  "cmd_disable_schedule lib now fallback s =
     check_or_panic (schedule_id_of s) (\<lambda>sid. on_service (domain_to_dto lib) (disable_schedule lib now fallback sid))"

text \<open>A panic of the worker thread comes back as an error of the task, with the text of the library.\<close>

definition joined :: "string \<Rightarrow> ('st, 'a) panicking \<Rightarrow> ('st, 'a) command" where
  "joined text f st =
     map_option (\<lambda>(st', r). (st', case r of Some x \<Rightarrow> x | None \<Rightarrow> Err (ipc_internal (''Task spawn failed: '' @ text)))) (f st)"

definition cmd_run_schedule_now ::
  "sched_lib \<Rightarrow> string \<Rightarrow> instant \<Rightarrow> ('s, 'r) exec_env \<Rightarrow> string
     \<Rightarrow> (('s, 'ss, 't, 'p) DesktopAppState, string option) command" where
  "cmd_run_schedule_now lib text fallback env s =
     gated (check_then (schedule_id_of s) (\<lambda>sid.
       joined text (on_service (\<lambda>r. r) (trigger_schedule_now lib fallback env sid))))"

definition cmd_get_scheduler_status ::
  "sched_lib \<Rightarrow> instant \<Rightarrow> ('s, 'ss, 't, 'p) DesktopAppState \<Rightarrow> SchedulerStatusDto ipc" where
  "cmd_get_scheduler_status lib fallback st =
     bind_res (map_err ipc_of_scheduler (service_list_schedules lib fallback (das_service st))) (\<lambda>ss.
       Ok \<lparr>sst_status = SchedulerServiceStatus_display (svc_status (das_service st)),
           sst_active_schedules_count = of_nat (length (filter sch_enabled ss)),
           sst_running_profiles = active_profiles (das_guard st)\<rparr>)"

definition cmd_get_schedule_history ::
  "string \<Rightarrow> nat option \<Rightarrow> ('s, 'ss, 't, 'p) DesktopAppState \<Rightarrow> ScheduleHistoryDto list ipc" where
  "cmd_get_schedule_history s limit st =
     bind_res (schedule_id_of s) (\<lambda>sid.
       Ok (map ScheduleHistoryDto_of (get_history sid (case limit of Some n \<Rightarrow> n | None \<Rightarrow> 50) (das_service st))))"

subsection \<open>system.rs\<close>

definition cmd_get_system_paths :: "platform \<Rightarrow> ('s, 'ss, 't, 'p) DesktopAppState \<Rightarrow> SystemPathsDto ipc" where
  "cmd_get_system_paths pf st =
     Ok \<lparr>spd_base_dir = base_dir (das_paths st), spd_database_path = db_file pf (das_paths st),
         spd_temp_dir = temp_dir pf (das_paths st), spd_logs_dir = logs_dir pf (das_paths st),
         spd_config_dir = config_dir pf (das_paths st)\<rparr>"

definition CONFIG_FILE :: string where
  "CONFIG_FILE = ''televault.json''"

definition filesystem_error :: "string \<Rightarrow> io_error \<Rightarrow> IpcError" where
  "filesystem_error what e = IpcError_new ''FILESYSTEM_ERROR'' (what @ io_message e)"

definition cmd_get_app_config ::
  "(string \<Rightarrow> (string, AppConfig) result) \<Rightarrow> io_error option \<Rightarrow> ('s, 'ss, 't, 'p) DesktopAppState \<Rightarrow> AppConfigDto ipc" where
  "cmd_get_app_config parse read_error st =
     (case das_config st CONFIG_FILE of
        None \<Rightarrow> Ok (AppConfigDto_of AppConfig_default)
      | Some content \<Rightarrow>
          (case read_error of
             Some e \<Rightarrow> Err (filesystem_error ''Failed to read config file: '' e)
           | None \<Rightarrow>
               map_sum (\<lambda>e. ipc_internal (''Failed to parse config file: '' @ e)) AppConfigDto_of (parse content)))"

definition valid_config :: "AppConfigDto \<Rightarrow> AppConfig ipc" where
  "valid_config d =
     bind_res (AppConfig_try_from d) (\<lambda>c.
     bind_res (map_err (\<lambda>e. ipc_validation (AppError_display e)) (AppConfig_validate c)) (\<lambda>_. Ok c))"

definition write_config ::
  "file_io \<Rightarrow> bool \<Rightarrow> string \<Rightarrow> file_map \<Rightarrow> file_map \<times> unit ipc" where
  "write_config fio remove_ok content files =
     (case fio_write fio of
        Some e \<Rightarrow> (files, Err (filesystem_error ''Failed to write temporary config file: '' e))
      | None \<Rightarrow>
          let files1 = files(''televault.tmp'' \<mapsto> content) in
          (case fio_rename fio of
             Some e \<Rightarrow> (if remove_ok then files1(''televault.tmp'' := None) else files1,
                       Err (filesystem_error ''Failed to commit config file atomically: '' e))
           | None \<Rightarrow> ((files1(''televault.tmp'' := None))(CONFIG_FILE \<mapsto> content), Ok ())))"

definition cmd_update_app_config ::
  "(AppConfig \<Rightarrow> (string, string) result) \<Rightarrow> file_io \<Rightarrow> bool \<Rightarrow> AppConfigDto \<Rightarrow> ('s, 'ss, 't, 'p) DesktopAppState
     \<Rightarrow> ('s, 'ss, 't, 'p) DesktopAppState \<times> AppConfigDto ipc" where
  "cmd_update_app_config to_json fio remove_ok d st =
     (case bind_res (valid_config d) (\<lambda>c.
             bind_res (case fio_create_dir fio of
                 Some e \<Rightarrow> Err (filesystem_error ''Failed to create config directory: '' e) | None \<Rightarrow> Ok ()) (\<lambda>_.
             bind_res (map_err (\<lambda>e. ipc_internal (''Failed to serialize config: '' @ e)) (to_json c)) (\<lambda>s. Ok (c, s)))) of
        Inl e \<Rightarrow> (st, Err e)
      | Inr (c, s) \<Rightarrow>
          let (files, r) = write_config fio remove_ok s (das_config st)
          in (st\<lparr>das_config := files\<rparr>, bind_res r (\<lambda>_. Ok (AppConfigDto_of c))))"

definition cmd_get_startup_recovery_report :: "('s, 'ss, 't, 'p) DesktopAppState \<Rightarrow> StartupRecoveryReportDto ipc" where
  "cmd_get_startup_recovery_report st = Ok (das_report st)"

subsection \<open>telegram.rs\<close>

definition cmd_get_telegram_status ::
  "'n desk_lib \<Rightarrow> 'n desk_env \<Rightarrow> ('n backend, 'ss, 't, 'p) DesktopAppState \<Rightarrow> TelegramStatusDto ipc" where
  "cmd_get_telegram_status lib env st = Ok (get_telegram_status lib env st)"

definition cmd_save_telegram_config ::
  "'n desk_lib \<Rightarrow> 'n desk_env \<Rightarrow> SaveTelegramConfigDto \<Rightarrow> ('n backend, 'ss, 't, 'p) DesktopAppState
     \<Rightarrow> ('n backend, 'ss, 't, 'p) DesktopAppState \<times> TelegramStatusDto ipc" where
  "cmd_save_telegram_config lib env q st =
     map_prod id (map_err (\<lambda>e. ipc_validation (AppError_display e))) (save_telegram_config lib env q st)"

text \<open>A failed task is its error with the state it left.\<close>

definition cmd_test_telegram_connection ::
  "'n desk_lib \<Rightarrow> 'n desk_env \<Rightarrow> (string \<times> ('n backend, 'ss, 't, 'p) DesktopAppState) option
     \<Rightarrow> ('n backend, 'ss, 't, 'p) DesktopAppState
     \<Rightarrow> ('n backend, 'ss, 't, 'p) DesktopAppState \<times> TelegramConnectionTestResultDto ipc" where
  "cmd_test_telegram_connection lib env failed st =
     (case failed of
        Some (e, st') \<Rightarrow> (st', Err (ipc_internal (''Task execution failed: '' @ e)))
      | None \<Rightarrow> map_prod id (map_err (\<lambda>e. ipc_internal (AppError_display e))) (test_telegram_connection lib env st))"

definition cmd_disconnect_telegram ::
  "'n desk_lib \<Rightarrow> 'n desk_env \<Rightarrow> ('n backend, 'ss, 't, 'p) DesktopAppState
     \<Rightarrow> ('n backend, 'ss, 't, 'p) DesktopAppState \<times> TelegramStatusDto ipc" where
  "cmd_disconnect_telegram lib env st =
     map_prod id (map_err (\<lambda>e. ipc_internal (AppError_display e))) (disconnect_telegram lib env st)"

subsection \<open>telegram\_auth.rs\<close>

text \<open>What a command of the login meets: the answers of the files, the variables of the environment and the clock
  readings of the status it returns.\<close>

record login_env =
  lg_auth :: auth_env
  lg_api_id :: "string option"
  lg_api_hash :: "string option"
  lg_io :: file_io
  lg_constraint_text :: string
  lg_account_now :: string
  lg_channel_now :: string
  lg_db_now :: string

definition status_dto ::
  "login_env \<Rightarrow> ('s, 'ss, 't, 'p) DesktopAppState \<Rightarrow> ('s, 'ss, 't, 'p) DesktopAppState \<times> TelegramAuthStatusDto" where
  "status_dto env = get_telegram_auth_status (lg_constraint_text env) (lg_account_now env) (lg_channel_now env) (lg_db_now env)"

definition login_step ::
  "login_env \<Rightarrow> (string \<Rightarrow> IpcError) \<Rightarrow> (('ss, 't, 'p) MtprotoAuthManager \<Rightarrow> ('ss, 't, 'p) auth_op)
     \<Rightarrow> ('s, 'ss, 't, 'p) DesktopAppState \<Rightarrow> ('s, 'ss, 't, 'p) DesktopAppState \<times> TelegramAuthStatusDto ipc option" where
  "login_step env failure f st =
     (let (m, r) = f (das_auth st); st1 = st\<lparr>das_auth := m\<rparr> in
      case r of
        None \<Rightarrow> (st1, None)
      | Some (Inl e) \<Rightarrow> (st1, Some (Err (failure (TelegramError_display e))))
      | Some (Inr _) \<Rightarrow> let (st2, d) = status_dto env st1 in (st2, Some (Ok d)))"

definition cmd_get_telegram_auth_status ::
  "login_env \<Rightarrow> ('s, 'ss, 't, 'p) DesktopAppState \<Rightarrow> ('s, 'ss, 't, 'p) DesktopAppState \<times> TelegramAuthStatusDto ipc" where
  "cmd_get_telegram_auth_status env st = map_prod id Ok (status_dto env st)"

definition stored_api ::
  "'n desk_lib \<Rightarrow> login_env \<Rightarrow> ('s, 'ss, 't, 'p) DesktopAppState \<Rightarrow> TelegramApiCredentials option" where
  "stored_api lib env st =
     load_from_env_or_file (dl_api_parse lib) (lg_api_id env) (lg_api_hash env) (das_config st ''telegram_api.json'')"

definition cmd_get_telegram_api_config ::
  "'n desk_lib \<Rightarrow> login_env \<Rightarrow> ('s, 'ss, 't, 'p) DesktopAppState \<Rightarrow> TelegramApiConfigStatusDto ipc" where
  "cmd_get_telegram_api_config lib env st =
     (let c = stored_api lib env st in
      Ok \<lparr>tpc_is_configured = (c \<noteq> None), tpc_api_id = map_option tac_api_id c\<rparr>)"

definition resolve_api ::
  "'n desk_lib \<Rightarrow> (TelegramApiCredentials \<Rightarrow> (string, string) result) \<Rightarrow> login_env \<Rightarrow> StartTelegramAuthDto
     \<Rightarrow> ('s, 'ss, 't, 'p) DesktopAppState \<Rightarrow> ('s, 'ss, 't, 'p) DesktopAppState \<times> (int \<times> string) ipc" where
  "resolve_api lib to_json env q st =
     (let otherwise =
        (st, case stored_api lib env st of
           Some c \<Rightarrow> Ok (tac_api_id c, tac_api_hash c)
         | None \<Rightarrow>
             if sta_api_id q \<noteq> None \<and> sta_api_hash q = None then
               Err (ipc_validation ''Telegram API Hash is required when specifying custom API ID.'')
             else Err (ipc_validation (''Telegram API ID and API Hash are required to connect via MTProto. Please enter your ''
               @ ''credentials from https://my.telegram.org in the API Credentials section, or set TELEGRAM_API_ID and ''
               @ ''TELEGRAM_API_HASH.'')))
      in case (sta_api_id q, sta_api_hash q) of
        (Some i, Some h) \<Rightarrow>
          if i > 0 \<and> trim h \<noteq> [] then
            (st\<lparr>das_config := fst (TelegramApiCredentials_save to_json (lg_io env) ''telegram_api.tmp'' ''telegram_api.json''
                \<lparr>tac_api_id = i, tac_api_hash = trim h\<rparr> (das_config st))\<rparr>, Ok (i, trim h))
          else otherwise
      | _ \<Rightarrow> otherwise)"

definition cmd_start_telegram_auth ::
  "'n desk_lib \<Rightarrow> (TelegramApiCredentials \<Rightarrow> (string, string) result) \<Rightarrow> ('ss, 't, 'p) auth_lib \<Rightarrow> login_env
     \<Rightarrow> StartTelegramAuthDto \<Rightarrow> ('s, 'ss, 't, 'p) DesktopAppState
     \<Rightarrow> ('s, 'ss, 't, 'p) DesktopAppState \<times> TelegramAuthStatusDto ipc option" where
  "cmd_start_telegram_auth lib to_json alib env q st =
     (let phone = trim (sta_phone_number q) in
      if phone = [] \<or> \<not> prefix ''+'' phone \<or> length phone < 8 then
        (st, Some (Err (ipc_validation (''Please enter a valid international phone number starting with '' @ quoted ''+''
          @ '' (e.g. +1234567890)''))))
      else case resolve_api lib to_json env q st of
        (st1, Inl e) \<Rightarrow> (st1, Some (Err e))
      | (st1, Inr (i, h)) \<Rightarrow> login_step env ipc_validation (start_auth alib (lg_auth env) phone i h) st1)"

definition cmd_submit_telegram_auth_code ::
  "('ss, 't, 'p) auth_lib \<Rightarrow> login_env \<Rightarrow> string \<Rightarrow> ('s, 'ss, 't, 'p) DesktopAppState
     \<Rightarrow> ('s, 'ss, 't, 'p) DesktopAppState \<times> TelegramAuthStatusDto ipc option" where
  "cmd_submit_telegram_auth_code alib env code = login_step env ipc_validation (submit_code alib (lg_auth env) code)"

definition cmd_submit_telegram_auth_password ::
  "('ss, 't, 'p) auth_lib \<Rightarrow> login_env \<Rightarrow> string \<Rightarrow> ('s, 'ss, 't, 'p) DesktopAppState
     \<Rightarrow> ('s, 'ss, 't, 'p) DesktopAppState \<times> TelegramAuthStatusDto ipc option" where
  "cmd_submit_telegram_auth_password alib env password =
     login_step env ipc_validation (submit_password alib (lg_auth env) password)"

definition cmd_cancel_telegram_auth ::
  "login_env \<Rightarrow> ('s, 'ss, 't, 'p) DesktopAppState \<Rightarrow> ('s, 'ss, 't, 'p) DesktopAppState \<times> TelegramAuthStatusDto ipc" where
  "cmd_cancel_telegram_auth env st =
     map_prod id Ok (status_dto env (st\<lparr>das_auth := fst (cancel_auth (das_auth st))\<rparr>))"

definition cmd_setup_backup_channel ::
  "('ss, 't, 'p) auth_lib \<Rightarrow> login_env \<Rightarrow> int option \<Rightarrow> ('s, 'ss, 't, 'p) DesktopAppState
     \<Rightarrow> ('s, 'ss, 't, 'p) DesktopAppState \<times> TelegramAuthStatusDto ipc option" where
  "cmd_setup_backup_channel alib env cid = login_step env ipc_validation (setup_backup_channel alib (lg_auth env) cid)"

definition cmd_verify_backup_channel ::
  "('ss, 't, 'p) auth_lib \<Rightarrow> login_env \<Rightarrow> ('s, 'ss, 't, 'p) DesktopAppState
     \<Rightarrow> ('s, 'ss, 't, 'p) DesktopAppState \<times> TelegramAuthStatusDto ipc option" where
  "cmd_verify_backup_channel alib env = login_step env ipc_validation (verify_backup_channel alib (lg_auth env))"

definition cmd_logout_telegram ::
  "('ss, 't, 'p) auth_lib \<Rightarrow> login_env \<Rightarrow> string \<Rightarrow> ('s, 'ss, 't, 'p) DesktopAppState
     \<Rightarrow> ('s, 'ss, 't, 'p) DesktopAppState \<times> TelegramAuthStatusDto ipc option" where
  "cmd_logout_telegram alib env cleared_at st =
     login_step env ipc_internal (logout alib (lg_auth env))
       (put_catalog (fst (clear_telegram_auth_data cleared_at (das_db st))) st)"

definition cmd_get_account_info :: "('s, 'ss, 't, 'p) DesktopAppState \<Rightarrow> TelegramAccountInfoDto option ipc" where
  "cmd_get_account_info st = Ok (map_option TelegramAccountInfoDto_of (tas_account (auth_status (das_auth st))))"

subsection \<open>Cancelling by the name of a job\<close>

text \<open>A request to cancel an operation that is not registered marks the job of that name as cancelled, whatever its status:
  a completed job becomes a cancelled one, and the command answers that nothing was cancelled.\<close>

lemma cancel_rewrites_finished_job:
  assumes "map_of (das_registry st) op = None" "id_new ''JobId'' op = Inr op" "get_transfer_job (das_db st) op = Some j"
  shows "snd (cmd_cancel_operation millis op st) = Ok False
    \<and> map_option tjr_status (get_transfer_job (das_db (fst (cmd_cancel_operation millis op st))) op) = Some TransferStatus.Cancelled"
proof -
  have key: "has_key tjr_job_id (t_jobs (das_db st)) op"
    using assms(3) by (auto simp: get_transfer_job_def find_first_has_key)
  then show ?thesis
    using assms find_first_update_rows [OF key, of "\<lambda>j. j\<lparr>tjr_status := TransferStatus.Cancelled,
        tjr_error_message := Some ''Cancelled by user'', tjr_updated_at := millis\<rparr>"]
    by (simp add: cmd_cancel_operation_def cancel_operation_def update_transfer_job_status_def affecting_job_def
        affecting_def update_jobs_def get_transfer_job_def put_catalog_def put_db_def)
qed

subsection \<open>Settings on disk\<close>

text \<open>Settings that were accepted are read back: when the update of the settings succeeds, reading them afterwards gives
  exactly the record the update returned, for any serialization that reads back what it writes; a refused update leaves
  the stored settings as they were, and nothing invalid is ever stored.\<close>

theorem settings_read_back:
  assumes serde: "\<And>c s. to_json c = Inr s \<Longrightarrow> parse s = Inr c"
    and run: "cmd_update_app_config to_json fio remove_ok d st = (st', r)"
  shows "case r of
      Inr d' \<Rightarrow> cmd_get_app_config parse None st' = Ok d' \<and> (\<exists>c. AppConfig_try_from d = Inr c \<and> AppConfig_validate c = Inr () \<and> d' = AppConfigDto_of c)
    | Inl e \<Rightarrow> das_config st' CONFIG_FILE = das_config st CONFIG_FILE"
proof (cases "\<exists>c s. valid_config d = Inr c \<and> fio_create_dir fio = None \<and> to_json c = Inr s")
  case False
  then have "st' = st \<and> \<not> is_ok r" using run
    by (cases "valid_config d"; cases "fio_create_dir fio"; cases "to_json (projr (valid_config d))")
      (auto simp: cmd_update_app_config_def)
  then show ?thesis by (cases r) auto
next
  case True
  then obtain c s where c: "valid_config d = Inr c" "fio_create_dir fio = None" "to_json c = Inr s" by blast
  obtain files w where w: "write_config fio remove_ok s (das_config st) = (files, w)" by fastforce
  have r: "st' = st\<lparr>das_config := files\<rparr>" "r = bind_res w (\<lambda>_. Ok (AppConfigDto_of c))"
    using run c w by (simp_all add: cmd_update_app_config_def)
  have valid: "AppConfig_try_from d = Inr c \<and> AppConfig_validate c = Inr ()"
    using c(1) by (auto simp: valid_config_def bind_res_Inr_iff)
  show ?thesis
  proof (cases w)
    case (Inl e)
    then have "files CONFIG_FILE = das_config st CONFIG_FILE"
      using w by (auto simp: write_config_def Let_def CONFIG_FILE_def split: option.splits if_splits)
    then show ?thesis by (simp add: r Inl)
  next
    case (Inr u)
    then have "files CONFIG_FILE = Some s" using w by (auto simp: write_config_def Let_def split: option.splits)
    then show ?thesis using serde [OF c(3)] valid by (simp add: r Inr cmd_get_app_config_def)
  qed
qed

definition sample_config_json :: "AppConfig \<Rightarrow> (string, string) result" where
  "sample_config_json c = (if c = AppConfig_default then Ok ''default'' else Err ''other'')"

theorem settings_read_back_witness:
  "\<exists>st'. cmd_update_app_config sample_config_json \<lparr>fio_create_dir = None, fio_write = None, fio_rename = None\<rparr> True
       (AppConfigDto_of AppConfig_default) (new_in_memory [Normal ''b''] sample_db ''n'' :: (unit backend, unit, unit, unit) DesktopAppState)
     = (st', Ok (AppConfigDto_of AppConfig_default))
     \<and> cmd_get_app_config (\<lambda>_. Ok AppConfig_default) None st' = Ok (AppConfigDto_of AppConfig_default)"
proof -
  let ?fio = "\<lparr>fio_create_dir = None, fio_write = None, fio_rename = None\<rparr>"
  let ?st = "new_in_memory [Normal ''b''] sample_db ''n'' :: (unit backend, unit, unit, unit) DesktopAppState"
  have "trim ''dark'' = ''dark''" "trim ''en-US'' = ''en-US''" by code_simp+
  then have "AppConfig_validate AppConfig_default = Inr ()"
    by (simp add: core_validates core_defaults)
  then have "valid_config (AppConfigDto_of AppConfig_default) = Inr AppConfig_default"
    by (simp add: valid_config_def config_dto_roundtrip)
  then obtain st' where run: "cmd_update_app_config sample_config_json ?fio True (AppConfigDto_of AppConfig_default) ?st
      = (st', Ok (AppConfigDto_of AppConfig_default))"
    by (simp add: cmd_update_app_config_def sample_config_json_def write_config_def)
  have "sample_config_json c = Inr s \<Longrightarrow> (\<lambda>_. Ok AppConfig_default) s = (Inr c :: (string, AppConfig) result)" for c s
    by (simp add: sample_config_json_def split: if_splits)
  from settings_read_back [OF this run] show ?thesis using run by auto
qed

subsection \<open>Logging out\<close>

lemma status_dto_keeps_auth [simp]: "das_auth (fst (status_dto env st)) = das_auth st"
  by (simp add: status_dto_def get_telegram_auth_status_def Let_def put_catalog_def)

lemma logout_closes_gate:
  "is_state (am_inner (das_auth (fst (cmd_logout_telegram alib env cleared_at st)))) \<noteq> AuthState.Ready"
  by (simp add: cmd_logout_telegram_def login_step_def logout_def Let_def logged_out_def case_prod_unfold)

end
