(* ===== verification/Catalog_Rows.thy ===== *)
theory Catalog_Rows
  imports Catalog
begin

text \<open>
  The rows of the catalog as SQLite holds them (\<open>db.rs\<close> of televault-db): the parameters an INSERT binds, the columns a
  SELECT asks for, and the functions that turn a row into a record. The other theories take a table to be a list of
  records; here it is shown what that rests on. Also the diagnostics of the database and the search of files, whose
  index is SQLite's own: the rows a MATCH finds are a parameter, as are the answers of the pragmas.

  A 64-bit count is bound as a signed integer, two's complement, and read back as an unsigned one.
\<close>

named_theorems row_codec \<open>columns, parameters and readers of the tables\<close>

subsection \<open>Values and columns\<close>

datatype sql_value = SqlNull | SqlInteger int | SqlText string

type_synonym sql_row = "sql_value list"

datatype row_error =
    InvalidColumnIndex nat
  | InvalidColumnType nat
  | FromSqlConversionFailure nat string

definition column :: "nat \<Rightarrow> sql_row \<Rightarrow> (row_error, sql_value) result" where
  "column i r = (if i < length r then Ok (r ! i) else Err (InvalidColumnIndex i))"

definition get_string :: "nat \<Rightarrow> sql_row \<Rightarrow> (row_error, string) result" where
  "get_string i r = bind_res (column i r) (\<lambda>v. case v of SqlText s \<Rightarrow> Ok s | _ \<Rightarrow> Err (InvalidColumnType i))"

definition get_string_opt :: "nat \<Rightarrow> sql_row \<Rightarrow> (row_error, string option) result" where
  "get_string_opt i r =
     bind_res (column i r) (\<lambda>v. case v of SqlNull \<Rightarrow> Ok None | SqlText s \<Rightarrow> Ok (Some s) | _ \<Rightarrow> Err (InvalidColumnType i))"

definition get_i64 :: "nat \<Rightarrow> sql_row \<Rightarrow> (row_error, int) result" where
  "get_i64 i r = bind_res (column i r) (\<lambda>v. case v of SqlInteger n \<Rightarrow> Ok n | _ \<Rightarrow> Err (InvalidColumnType i))"

definition get_i64_opt :: "nat \<Rightarrow> sql_row \<Rightarrow> (row_error, int option) result" where
  "get_i64_opt i r =
     bind_res (column i r) (\<lambda>v. case v of SqlNull \<Rightarrow> Ok None | SqlInteger n \<Rightarrow> Ok (Some n) | _ \<Rightarrow> Err (InvalidColumnType i))"

definition id_at :: "string \<Rightarrow> nat \<Rightarrow> string \<Rightarrow> (row_error, ident_str) result" where
  "id_at entity i s = map_err (\<lambda>e. FromSqlConversionFailure i (AppError_display e)) (id_new entity s)"

definition id_opt_at :: "string \<Rightarrow> nat \<Rightarrow> string option \<Rightarrow> (row_error, ident_str option) result" where
  "id_opt_at entity i x =
     (case x of Some s \<Rightarrow> bind_res (id_at entity i s) (\<lambda>v. Ok (Some v)) | None \<Rightarrow> Ok None)"

definition status_at :: "string \<Rightarrow> (string \<Rightarrow> 'a option) \<Rightarrow> nat \<Rightarrow> string \<Rightarrow> (row_error, 'a) result" where
  "status_at ty of_text i s =
     ok_or (FromSqlConversionFailure i (''unknown '' @ ty @ '': '' @ quoted s)) (of_text s)"

definition sql_opt :: "('a \<Rightarrow> sql_value) \<Rightarrow> 'a option \<Rightarrow> sql_value" where
  "sql_opt f x = (case x of Some v \<Rightarrow> f v | None \<Rightarrow> SqlNull)"

definition sql_bool :: "bool \<Rightarrow> sql_value" where
  "sql_bool b = SqlInteger (if b then 1 else 0)"

text \<open>What an INSERT stores and a SELECT returns.\<close>

definition stored :: "string list \<Rightarrow> sql_value list \<Rightarrow> (string \<times> sql_value) list" where
  "stored cols vals = zip cols vals"

definition selected :: "string list \<Rightarrow> (string \<times> sql_value) list \<Rightarrow> sql_row" where
  "selected cols r = map (\<lambda>c. case map_of r c of Some v \<Rightarrow> v | None \<Rightarrow> SqlNull) cols"

text \<open>The loop over the rows of a query stops at the first one that does not convert.\<close>

fun read_rows :: "(sql_row \<Rightarrow> ('e, 'a) result) \<Rightarrow> sql_row list \<Rightarrow> ('e, 'a list) result" where
  "read_rows f [] = Ok []"
| "read_rows f (r # rs) = bind_res (f r) (\<lambda>x. bind_res (read_rows f rs) (\<lambda>xs. Ok (x # xs)))"

text \<open>An error of a row leaves the operation as an error of rusqlite, whose text \<open>show\<close> is rusqlite's.\<close>

definition row_db_error :: "(row_error \<Rightarrow> string) \<Rightarrow> row_error \<Rightarrow> DbError" where
  "row_db_error show e = Sql (SqliteError False (show e))"

definition fetch_rows ::
  "(row_error \<Rightarrow> string) \<Rightarrow> (sql_row \<Rightarrow> (row_error, 'a) result) \<Rightarrow> sql_row list \<Rightarrow> (DbError, 'a list) result" where
  "fetch_rows show f rows = map_err (row_db_error show) (read_rows f rows)"

subsection \<open>The tables\<close>

definition file_insert_columns :: "string list" where [row_codec]:
  "file_insert_columns =
     [''file_id'', ''profile_id'', ''file_name'', ''relative_path'', ''original_size'', ''mime_type'', ''status'',
      ''logical_file_hash'', ''created_at'', ''modified_at'', ''created_timestamp'', ''updated_timestamp'']"

definition file_params :: "FileRecord \<Rightarrow> sql_value list" where [row_codec]:
  "file_params x =
     [SqlText (fr_file_id x), sql_opt SqlText (fr_profile_id x), SqlText (fr_file_name x),
      SqlText (fr_relative_path x), SqlInteger (sint (fr_original_size x)), sql_opt SqlText (fr_mime_type x),
      SqlText (fr_status x), sql_opt SqlText (fr_logical_file_hash x), SqlText (fr_created_at x),
      sql_opt SqlText (fr_modified_at x), SqlText (fr_created_timestamp x), SqlText (fr_updated_timestamp x)]"

definition file_select_columns :: "string list" where [row_codec]:
  "file_select_columns =
     [''file_id'', ''profile_id'', ''file_name'', ''relative_path'', ''original_size'', ''mime_type'', ''status'',
      ''logical_file_hash'', ''created_at'', ''modified_at'', ''created_timestamp'', ''updated_timestamp'']"

definition map_file_row :: "sql_row \<Rightarrow> (row_error, FileRecord) result" where [row_codec]:
  "map_file_row r =
     bind_res (get_string 0 r) (\<lambda>c0.
     bind_res (get_string_opt 1 r) (\<lambda>c1.
     bind_res (get_i64 4 r) (\<lambda>c4.
     bind_res (id_at ''FileId'' 0 c0) (\<lambda>v0.
     bind_res (id_opt_at ''ProfileId'' 1 c1) (\<lambda>v1.
     bind_res (get_string 2 r) (\<lambda>c2.
     bind_res (get_string 3 r) (\<lambda>c3.
     bind_res (get_string_opt 5 r) (\<lambda>c5.
     bind_res (get_string 6 r) (\<lambda>c6.
     bind_res (get_string_opt 7 r) (\<lambda>c7.
     bind_res (get_string 8 r) (\<lambda>c8.
     bind_res (get_string_opt 9 r) (\<lambda>c9.
     bind_res (get_string 10 r) (\<lambda>c10.
     bind_res (get_string 11 r) (\<lambda>c11.
     Ok \<lparr>fr_file_id = v0, fr_profile_id = v1, fr_file_name = c2, fr_relative_path = c3, fr_original_size = of_int c4,
         fr_mime_type = c5, fr_status = c6, fr_logical_file_hash = c7, fr_created_at = c8, fr_modified_at = c9,
         fr_created_timestamp = c10, fr_updated_timestamp = c11\<rparr>))))))))))))))"

definition chunk_insert_columns :: "string list" where [row_codec]:
  "chunk_insert_columns =
     [''chunk_id'', ''file_id'', ''manifest_id'', ''chunk_index'', ''plaintext_size'', ''stored_size'',
      ''integrity_hash'', ''storage_reference'', ''status'', ''created_at'', ''updated_at'']"

definition chunk_params :: "ChunkRecord \<Rightarrow> sql_value list" where [row_codec]:
  "chunk_params x =
     [SqlText (cr_chunk_id x), SqlText (cr_file_id x), SqlText (cr_manifest_id x),
      SqlInteger (uint (cr_chunk_index x)), SqlInteger (sint (cr_plaintext_size x)),
      SqlInteger (sint (cr_stored_size x)), SqlText (cr_integrity_hash x), SqlText (cr_storage_reference x),
      SqlText (cr_status x), SqlText (cr_created_at x), SqlText (cr_updated_at x)]"

definition chunk_select_columns :: "string list" where [row_codec]:
  "chunk_select_columns =
     [''chunk_id'', ''file_id'', ''manifest_id'', ''chunk_index'', ''plaintext_size'', ''stored_size'',
      ''integrity_hash'', ''storage_reference'', ''status'', ''created_at'', ''updated_at'']"

definition map_chunk_row :: "sql_row \<Rightarrow> (row_error, ChunkRecord) result" where [row_codec]:
  "map_chunk_row r =
     bind_res (get_string 0 r) (\<lambda>c0.
     bind_res (get_string 1 r) (\<lambda>c1.
     bind_res (get_string 2 r) (\<lambda>c2.
     bind_res (get_i64 3 r) (\<lambda>c3.
     bind_res (get_i64 4 r) (\<lambda>c4.
     bind_res (get_i64 5 r) (\<lambda>c5.
     bind_res (get_string 6 r) (\<lambda>c6.
     bind_res (get_string 7 r) (\<lambda>c7.
     bind_res (get_string 8 r) (\<lambda>c8.
     bind_res (get_string 9 r) (\<lambda>c9.
     bind_res (get_string 10 r) (\<lambda>c10.
     bind_res (id_at ''ChunkId'' 0 c0) (\<lambda>v0.
     bind_res (id_at ''FileId'' 1 c1) (\<lambda>v1.
     Ok \<lparr>cr_chunk_id = v0, cr_file_id = v1, cr_manifest_id = c2, cr_chunk_index = of_int c3,
         cr_plaintext_size = of_int c4, cr_stored_size = of_int c5, cr_integrity_hash = c6,
         cr_storage_reference = c7, cr_status = c8, cr_created_at = c9, cr_updated_at = c10\<rparr>)))))))))))))"

definition snapshot_insert_columns :: "string list" where [row_codec]:
  "snapshot_insert_columns =
     [''snapshot_id'', ''profile_id'', ''status'', ''metadata'', ''created_at'']"

definition snapshot_params :: "SnapshotRecord \<Rightarrow> sql_value list" where [row_codec]:
  "snapshot_params x =
     [SqlText (sr_snapshot_id x), SqlText (sr_profile_id x), SqlText (BackupStatus_display (sr_status x)),
      sql_opt SqlText (sr_metadata x), SqlText (sr_created_at x)]"

definition snapshot_select_columns :: "string list" where [row_codec]:
  "snapshot_select_columns =
     [''snapshot_id'', ''profile_id'', ''status'', ''metadata'', ''created_at'']"

definition map_snapshot_row :: "sql_row \<Rightarrow> (row_error, SnapshotRecord) result" where [row_codec]:
  "map_snapshot_row r =
     bind_res (get_string 0 r) (\<lambda>c0.
     bind_res (get_string 1 r) (\<lambda>c1.
     bind_res (get_string 2 r) (\<lambda>c2.
     bind_res (get_string_opt 3 r) (\<lambda>c3.
     bind_res (get_string 4 r) (\<lambda>c4.
     bind_res (id_at ''SnapshotId'' 0 c0) (\<lambda>v0.
     bind_res (id_at ''ProfileId'' 1 c1) (\<lambda>v1.
     bind_res (status_at ''BackupStatus'' BackupStatus_of_text 2 c2) (\<lambda>v2.
     Ok \<lparr>sr_snapshot_id = v0, sr_profile_id = v1, sr_status = v2, sr_metadata = c3, sr_created_at = c4\<rparr>))))))))"

definition version_insert_columns :: "string list" where [row_codec]:
  "version_insert_columns =
     [''version_id'', ''file_id'', ''snapshot_id'', ''manifest_id'', ''status'', ''created_at'']"

definition version_params :: "VersionRecord \<Rightarrow> sql_value list" where [row_codec]:
  "version_params x =
     [SqlText (ver_version_id x), SqlText (ver_file_id x), SqlText (ver_snapshot_id x), SqlText (ver_manifest_id x),
      SqlText (ver_status x), SqlText (ver_created_at x)]"

definition version_select_columns :: "string list" where [row_codec]:
  "version_select_columns =
     [''version_id'', ''file_id'', ''snapshot_id'', ''manifest_id'', ''status'', ''created_at'']"

definition map_version_row :: "sql_row \<Rightarrow> (row_error, VersionRecord) result" where [row_codec]:
  "map_version_row r =
     bind_res (get_string 0 r) (\<lambda>c0.
     bind_res (get_string 1 r) (\<lambda>c1.
     bind_res (get_string 2 r) (\<lambda>c2.
     bind_res (get_string 3 r) (\<lambda>c3.
     bind_res (get_string 4 r) (\<lambda>c4.
     bind_res (get_string 5 r) (\<lambda>c5.
     bind_res (id_at ''VersionId'' 0 c0) (\<lambda>v0.
     bind_res (id_at ''FileId'' 1 c1) (\<lambda>v1.
     bind_res (id_at ''SnapshotId'' 2 c2) (\<lambda>v2.
     Ok \<lparr>ver_version_id = v0, ver_file_id = v1, ver_snapshot_id = v2, ver_manifest_id = c3, ver_status = c4,
         ver_created_at = c5\<rparr>)))))))))"

definition transfer_job_insert_columns :: "string list" where [row_codec]:
  "transfer_job_insert_columns =
     [''job_id'', ''file_id'', ''chunk_id'', ''direction'', ''status'', ''progress'', ''retry_count'',
      ''error_message'', ''created_at'', ''updated_at'']"

definition transfer_job_params :: "TransferJobRecord \<Rightarrow> sql_value list" where [row_codec]:
  "transfer_job_params x =
     [SqlText (tjr_job_id x), SqlText (tjr_file_id x), sql_opt SqlText (tjr_chunk_id x),
      SqlText (TransferDirection_display (tjr_direction x)), SqlText (TransferStatus_display (tjr_status x)),
      SqlInteger (sint (tjr_progress x)), SqlInteger (int (tjr_retry_count x)),
      sql_opt SqlText (tjr_error_message x), SqlText (tjr_created_at x), SqlText (tjr_updated_at x)]"

definition transfer_job_select_columns :: "string list" where [row_codec]:
  "transfer_job_select_columns =
     [''job_id'', ''file_id'', ''chunk_id'', ''direction'', ''status'', ''progress'', ''retry_count'',
      ''error_message'', ''created_at'', ''updated_at'']"

definition map_transfer_job_row :: "sql_row \<Rightarrow> (row_error, TransferJobRecord) result" where [row_codec]:
  "map_transfer_job_row r =
     bind_res (get_string 0 r) (\<lambda>c0.
     bind_res (get_string 1 r) (\<lambda>c1.
     bind_res (get_string_opt 2 r) (\<lambda>c2.
     bind_res (get_string 3 r) (\<lambda>c3.
     bind_res (get_string 4 r) (\<lambda>c4.
     bind_res (get_i64 5 r) (\<lambda>c5.
     bind_res (get_i64 6 r) (\<lambda>c6.
     bind_res (get_string_opt 7 r) (\<lambda>c7.
     bind_res (get_string 8 r) (\<lambda>c8.
     bind_res (get_string 9 r) (\<lambda>c9.
     bind_res (id_at ''JobId'' 0 c0) (\<lambda>v0.
     bind_res (id_at ''FileId'' 1 c1) (\<lambda>v1.
     bind_res (id_opt_at ''ChunkId'' 2 c2) (\<lambda>v2.
     bind_res (status_at ''TransferDirection'' TransferDirection_of_text 3 c3) (\<lambda>v3.
     bind_res (status_at ''TransferStatus'' TransferStatus_of_text 4 c4) (\<lambda>v4.
     Ok \<lparr>tjr_job_id = v0, tjr_file_id = v1, tjr_chunk_id = v2, tjr_direction = v3, tjr_status = v4,
         tjr_progress = of_int c5, tjr_retry_count = nat (c6 mod 2 ^ 32), tjr_error_message = c7,
         tjr_created_at = c8, tjr_updated_at = c9\<rparr>)))))))))))))))"

definition schedule_insert_columns :: "string list" where [row_codec]:
  "schedule_insert_columns =
     [''schedule_id'', ''profile_id'', ''schedule_type'', ''expression'', ''timezone'', ''enabled'', ''next_run_at'',
      ''last_run_at'', ''last_status'', ''last_error_code'', ''created_at'', ''updated_at'']"

definition schedule_params :: "ScheduleRecord \<Rightarrow> sql_value list" where [row_codec]:
  "schedule_params x =
     [SqlText (scr_schedule_id x), SqlText (scr_profile_id x), SqlText (scr_schedule_type x),
      SqlText (scr_expression x), SqlText (scr_timezone x), sql_bool (scr_enabled x),
      sql_opt SqlText (scr_next_run_at x), sql_opt SqlText (scr_last_run_at x), sql_opt SqlText (scr_last_status x),
      sql_opt SqlText (scr_last_error_code x), SqlText (scr_created_at x), SqlText (scr_updated_at x)]"

definition schedule_select_columns :: "string list" where [row_codec]:
  "schedule_select_columns =
     [''schedule_id'', ''profile_id'', ''schedule_type'', ''expression'', ''timezone'', ''enabled'', ''next_run_at'',
      ''last_run_at'', ''last_status'', ''last_error_code'', ''created_at'', ''updated_at'']"

definition map_schedule_row :: "sql_row \<Rightarrow> (row_error, ScheduleRecord) result" where [row_codec]:
  "map_schedule_row r =
     bind_res (get_string 0 r) (\<lambda>c0.
     bind_res (get_string 1 r) (\<lambda>c1.
     bind_res (get_string 2 r) (\<lambda>c2.
     bind_res (get_string 3 r) (\<lambda>c3.
     bind_res (get_string 4 r) (\<lambda>c4.
     bind_res (get_i64 5 r) (\<lambda>c5.
     bind_res (get_string_opt 6 r) (\<lambda>c6.
     bind_res (get_string_opt 7 r) (\<lambda>c7.
     bind_res (get_string_opt 8 r) (\<lambda>c8.
     bind_res (get_string_opt 9 r) (\<lambda>c9.
     bind_res (get_string 10 r) (\<lambda>c10.
     bind_res (get_string 11 r) (\<lambda>c11.
     bind_res (id_at ''ScheduleId'' 0 c0) (\<lambda>v0.
     bind_res (id_at ''ProfileId'' 1 c1) (\<lambda>v1.
     Ok \<lparr>scr_schedule_id = v0, scr_profile_id = v1, scr_schedule_type = c2, scr_expression = c3, scr_timezone = c4,
         scr_enabled = (c5 \<noteq> 0), scr_next_run_at = c6, scr_last_run_at = c7, scr_last_status = c8,
         scr_last_error_code = c9, scr_created_at = c10, scr_updated_at = c11\<rparr>))))))))))))))"

definition schedule_history_insert_columns :: "string list" where [row_codec]:
  "schedule_history_insert_columns =
     [''history_id'', ''schedule_id'', ''profile_id'', ''started_at'', ''completed_at'', ''status'', ''snapshot_id'',
      ''files_processed'', ''bytes_transferred'', ''error_code'', ''error_message'']"

definition schedule_history_params :: "ScheduleHistoryRecord \<Rightarrow> sql_value list" where [row_codec]:
  "schedule_history_params x =
     [SqlText (shr_history_id x), SqlText (shr_schedule_id x), SqlText (shr_profile_id x),
      SqlText (shr_started_at x), sql_opt SqlText (shr_completed_at x), SqlText (shr_status x),
      sql_opt SqlText (shr_snapshot_id x), SqlInteger (sint (shr_files_processed x)),
      SqlInteger (sint (shr_bytes_transferred x)), sql_opt SqlText (shr_error_code x),
      sql_opt SqlText (shr_error_message x)]"

definition schedule_history_select_columns :: "string list" where [row_codec]:
  "schedule_history_select_columns =
     [''history_id'', ''schedule_id'', ''profile_id'', ''started_at'', ''completed_at'', ''status'', ''snapshot_id'',
      ''files_processed'', ''bytes_transferred'', ''error_code'', ''error_message'']"

definition map_schedule_history_row :: "sql_row \<Rightarrow> (row_error, ScheduleHistoryRecord) result" where [row_codec]:
  "map_schedule_history_row r =
     bind_res (get_string 0 r) (\<lambda>c0.
     bind_res (get_string 1 r) (\<lambda>c1.
     bind_res (get_string 2 r) (\<lambda>c2.
     bind_res (get_string 3 r) (\<lambda>c3.
     bind_res (get_string_opt 4 r) (\<lambda>c4.
     bind_res (get_string 5 r) (\<lambda>c5.
     bind_res (get_string_opt 6 r) (\<lambda>c6.
     bind_res (get_i64 7 r) (\<lambda>c7.
     bind_res (get_i64 8 r) (\<lambda>c8.
     bind_res (get_string_opt 9 r) (\<lambda>c9.
     bind_res (get_string_opt 10 r) (\<lambda>c10.
     bind_res (id_at ''ScheduleId'' 1 c1) (\<lambda>v1.
     bind_res (id_at ''ProfileId'' 2 c2) (\<lambda>v2.
     bind_res (id_opt_at ''SnapshotId'' 6 c6) (\<lambda>v6.
     Ok \<lparr>shr_history_id = c0, shr_schedule_id = v1, shr_profile_id = v2, shr_started_at = c3, shr_completed_at = c4,
         shr_status = c5, shr_snapshot_id = v6, shr_files_processed = of_int c7, shr_bytes_transferred = of_int c8,
         shr_error_code = c9, shr_error_message = c10\<rparr>))))))))))))))"

definition retention_policy_insert_columns :: "string list" where [row_codec]:
  "retention_policy_insert_columns =
     [''policy_id'', ''profile_id'', ''keep_latest_n'', ''keep_newer_than_secs'', ''keep_latest_successful'',
      ''keep_latest_always'', ''prune_failed'', ''prune_empty'', ''enabled'', ''created_at'', ''updated_at'']"

definition retention_policy_params :: "RetentionPolicyRecord \<Rightarrow> sql_value list" where [row_codec]:
  "retention_policy_params x =
     [SqlText (rpr_policy_id x), SqlText (rpr_profile_id x),
      sql_opt (\<lambda>n. SqlInteger (int n)) (rpr_keep_latest_n x),
      sql_opt (\<lambda>n. SqlInteger (sint (of_nat n :: u64))) (rpr_keep_newer_than_secs x),
      sql_bool (rpr_keep_latest_successful x), sql_bool (rpr_keep_latest_always x), sql_bool (rpr_prune_failed x),
      sql_bool (rpr_prune_empty x), sql_bool (rpr_enabled x), SqlText (rpr_created_at x), SqlText (rpr_updated_at x)]"

definition retention_policy_select_columns :: "string list" where [row_codec]:
  "retention_policy_select_columns =
     [''policy_id'', ''profile_id'', ''keep_latest_n'', ''keep_newer_than_secs'', ''keep_latest_successful'',
      ''keep_latest_always'', ''prune_failed'', ''prune_empty'', ''enabled'', ''created_at'', ''updated_at'']"

definition map_retention_policy_row :: "sql_row \<Rightarrow> (row_error, RetentionPolicyRecord) result" where [row_codec]:
  "map_retention_policy_row r =
     bind_res (get_string 0 r) (\<lambda>c0.
     bind_res (get_string 1 r) (\<lambda>c1.
     bind_res (get_i64_opt 2 r) (\<lambda>c2.
     bind_res (get_i64_opt 3 r) (\<lambda>c3.
     bind_res (get_i64 4 r) (\<lambda>c4.
     bind_res (get_i64 5 r) (\<lambda>c5.
     bind_res (get_i64 6 r) (\<lambda>c6.
     bind_res (get_i64 7 r) (\<lambda>c7.
     bind_res (get_i64 8 r) (\<lambda>c8.
     bind_res (get_string 9 r) (\<lambda>c9.
     bind_res (get_string 10 r) (\<lambda>c10.
     bind_res (id_at ''ProfileId'' 1 c1) (\<lambda>v1.
     Ok \<lparr>rpr_policy_id = c0, rpr_profile_id = v1, rpr_keep_latest_n = map_option (\<lambda>n. nat (n mod 2 ^ 32)) c2,
         rpr_keep_newer_than_secs = map_option (\<lambda>n. nat (n mod 2 ^ 64)) c3,
         rpr_keep_latest_successful = (c4 \<noteq> 0), rpr_keep_latest_always = (c5 \<noteq> 0),
         rpr_prune_failed = (c6 \<noteq> 0), rpr_prune_empty = (c7 \<noteq> 0), rpr_enabled = (c8 \<noteq> 0),
         rpr_created_at = c9, rpr_updated_at = c10\<rparr>))))))))))))"

definition retention_history_insert_columns :: "string list" where [row_codec]:
  "retention_history_insert_columns =
     [''history_id'', ''profile_id'', ''executed_at'', ''dry_run'', ''snapshots_evaluated'', ''snapshots_kept'',
      ''snapshots_pruned'', ''pruned_snapshot_ids'', ''decisions_summary'', ''status'', ''error_message'']"

definition retention_history_params :: "RetentionHistoryRecord \<Rightarrow> sql_value list" where [row_codec]:
  "retention_history_params x =
     [SqlText (rhr_history_id x), SqlText (rhr_profile_id x), SqlText (rhr_executed_at x), sql_bool (rhr_dry_run x),
      SqlInteger (uint (rhr_snapshots_evaluated x)), SqlInteger (uint (rhr_snapshots_kept x)),
      SqlInteger (uint (rhr_snapshots_pruned x)), SqlText (rhr_pruned_snapshot_ids x),
      SqlText (rhr_decisions_summary x), SqlText (rhr_status x), sql_opt SqlText (rhr_error_message x)]"

definition retention_history_select_columns :: "string list" where [row_codec]:
  "retention_history_select_columns =
     [''history_id'', ''profile_id'', ''executed_at'', ''dry_run'', ''snapshots_evaluated'', ''snapshots_kept'',
      ''snapshots_pruned'', ''pruned_snapshot_ids'', ''decisions_summary'', ''status'', ''error_message'']"

definition map_retention_history_row :: "sql_row \<Rightarrow> (row_error, RetentionHistoryRecord) result" where [row_codec]:
  "map_retention_history_row r =
     bind_res (get_string 0 r) (\<lambda>c0.
     bind_res (get_string 1 r) (\<lambda>c1.
     bind_res (get_string 2 r) (\<lambda>c2.
     bind_res (get_i64 3 r) (\<lambda>c3.
     bind_res (get_i64 4 r) (\<lambda>c4.
     bind_res (get_i64 5 r) (\<lambda>c5.
     bind_res (get_i64 6 r) (\<lambda>c6.
     bind_res (get_string 7 r) (\<lambda>c7.
     bind_res (get_string 8 r) (\<lambda>c8.
     bind_res (get_string 9 r) (\<lambda>c9.
     bind_res (get_string_opt 10 r) (\<lambda>c10.
     bind_res (id_at ''ProfileId'' 1 c1) (\<lambda>v1.
     Ok \<lparr>rhr_history_id = c0, rhr_profile_id = v1, rhr_executed_at = c2, rhr_dry_run = (c3 \<noteq> 0),
         rhr_snapshots_evaluated = of_int c4, rhr_snapshots_kept = of_int c5, rhr_snapshots_pruned = of_int c6,
         rhr_pruned_snapshot_ids = c7, rhr_decisions_summary = c8, rhr_status = c9, rhr_error_message = c10\<rparr>))))))))))))"

definition verification_history_insert_columns :: "string list" where [row_codec]:
  "verification_history_insert_columns =
     [''history_id'', ''profile_id'', ''target_type'', ''target_id'', ''level'', ''status'', ''is_restore_ready'',
      ''total_files'', ''total_manifests'', ''total_chunks'', ''healthy_chunks'', ''corrupted_chunks'',
      ''missing_chunks'', ''ownership_violations'', ''duration_ms'', ''findings_json'', ''verified_at'']"

definition verification_history_params :: "VerificationHistoryRecord \<Rightarrow> sql_value list" where [row_codec]:
  "verification_history_params x =
     [SqlText (vhr_history_id x), SqlText (vhr_profile_id x), SqlText (vhr_target_type x), SqlText (vhr_target_id x),
      SqlInteger (uint (vhr_level x)), SqlText (vhr_status x), sql_bool (vhr_is_restore_ready x),
      SqlInteger (uint (vhr_total_files x)), SqlInteger (uint (vhr_total_manifests x)),
      SqlInteger (uint (vhr_total_chunks x)), SqlInteger (uint (vhr_healthy_chunks x)),
      SqlInteger (uint (vhr_corrupted_chunks x)), SqlInteger (uint (vhr_missing_chunks x)),
      SqlInteger (uint (vhr_ownership_violations x)), SqlInteger (sint (vhr_duration_ms x)),
      SqlText (vhr_findings_json x), SqlText (vhr_verified_at x)]"

definition verification_history_select_columns :: "string list" where [row_codec]:
  "verification_history_select_columns =
     [''history_id'', ''profile_id'', ''target_type'', ''target_id'', ''level'', ''status'', ''is_restore_ready'',
      ''total_files'', ''total_manifests'', ''total_chunks'', ''healthy_chunks'', ''corrupted_chunks'',
      ''missing_chunks'', ''ownership_violations'', ''duration_ms'', ''findings_json'', ''verified_at'']"

definition map_verification_history_row :: "sql_row \<Rightarrow> (row_error, VerificationHistoryRecord) result" where [row_codec]:
  "map_verification_history_row r =
     bind_res (get_string 0 r) (\<lambda>c0.
     bind_res (get_string 1 r) (\<lambda>c1.
     bind_res (get_string 2 r) (\<lambda>c2.
     bind_res (get_string 3 r) (\<lambda>c3.
     bind_res (get_i64 4 r) (\<lambda>c4.
     bind_res (get_string 5 r) (\<lambda>c5.
     bind_res (get_i64 6 r) (\<lambda>c6.
     bind_res (get_i64 7 r) (\<lambda>c7.
     bind_res (get_i64 8 r) (\<lambda>c8.
     bind_res (get_i64 9 r) (\<lambda>c9.
     bind_res (get_i64 10 r) (\<lambda>c10.
     bind_res (get_i64 11 r) (\<lambda>c11.
     bind_res (get_i64 12 r) (\<lambda>c12.
     bind_res (get_i64 13 r) (\<lambda>c13.
     bind_res (get_i64 14 r) (\<lambda>c14.
     bind_res (get_string 15 r) (\<lambda>c15.
     bind_res (get_string 16 r) (\<lambda>c16.
     bind_res (id_at ''ProfileId'' 1 c1) (\<lambda>v1.
     Ok \<lparr>vhr_history_id = c0, vhr_profile_id = v1, vhr_target_type = c2, vhr_target_id = c3, vhr_level = of_int c4,
         vhr_status = c5, vhr_is_restore_ready = (c6 \<noteq> 0), vhr_total_files = of_int c7,
         vhr_total_manifests = of_int c8, vhr_total_chunks = of_int c9, vhr_healthy_chunks = of_int c10,
         vhr_corrupted_chunks = of_int c11, vhr_missing_chunks = of_int c12, vhr_ownership_violations = of_int c13,
         vhr_duration_ms = of_int c14, vhr_findings_json = c15, vhr_verified_at = c16\<rparr>))))))))))))))))))"

definition repair_history_insert_columns :: "string list" where [row_codec]:
  "repair_history_insert_columns =
     [''repair_id'', ''profile_id'', ''snapshot_id'', ''file_id'', ''manifest_id'', ''chunk_id'', ''chunk_index'',
      ''repair_type'', ''finding_code'', ''old_storage_reference'', ''new_storage_reference'', ''status'',
      ''bytes_processed'', ''duration_ms'', ''error_message'', ''repaired_at'']"

definition repair_history_params :: "RepairHistoryRecord \<Rightarrow> sql_value list" where [row_codec]:
  "repair_history_params x =
     [SqlText (rep_repair_id x), SqlText (rep_profile_id x), sql_opt SqlText (rep_snapshot_id x),
      SqlText (rep_file_id x), SqlText (rep_manifest_id x), SqlText (rep_chunk_id x),
      SqlInteger (uint (rep_chunk_index x)), SqlText (rep_repair_type x), SqlText (rep_finding_code x),
      SqlText (rep_old_storage_reference x), SqlText (rep_new_storage_reference x), SqlText (rep_status x),
      SqlInteger (sint (rep_bytes_processed x)), SqlInteger (sint (rep_duration_ms x)),
      sql_opt SqlText (rep_error_message x), SqlText (rep_repaired_at x)]"

definition repair_history_select_columns :: "string list" where [row_codec]:
  "repair_history_select_columns =
     [''repair_id'', ''profile_id'', ''snapshot_id'', ''file_id'', ''manifest_id'', ''chunk_id'', ''chunk_index'',
      ''repair_type'', ''finding_code'', ''old_storage_reference'', ''new_storage_reference'', ''status'',
      ''bytes_processed'', ''duration_ms'', ''error_message'', ''repaired_at'']"

definition map_repair_history_row :: "sql_row \<Rightarrow> (row_error, RepairHistoryRecord) result" where [row_codec]:
  "map_repair_history_row r =
     bind_res (get_string 0 r) (\<lambda>c0.
     bind_res (get_string 1 r) (\<lambda>c1.
     bind_res (get_string_opt 2 r) (\<lambda>c2.
     bind_res (get_string 3 r) (\<lambda>c3.
     bind_res (get_string 4 r) (\<lambda>c4.
     bind_res (get_string 5 r) (\<lambda>c5.
     bind_res (get_i64 6 r) (\<lambda>c6.
     bind_res (get_string 7 r) (\<lambda>c7.
     bind_res (get_string 8 r) (\<lambda>c8.
     bind_res (get_string 9 r) (\<lambda>c9.
     bind_res (get_string 10 r) (\<lambda>c10.
     bind_res (get_string 11 r) (\<lambda>c11.
     bind_res (get_i64 12 r) (\<lambda>c12.
     bind_res (get_i64 13 r) (\<lambda>c13.
     bind_res (get_string_opt 14 r) (\<lambda>c14.
     bind_res (get_string 15 r) (\<lambda>c15.
     bind_res (id_at ''ProfileId'' 1 c1) (\<lambda>v1.
     bind_res (id_opt_at ''SnapshotId'' 2 c2) (\<lambda>v2.
     bind_res (id_at ''FileId'' 3 c3) (\<lambda>v3.
     bind_res (id_at ''ChunkId'' 5 c5) (\<lambda>v5.
     Ok \<lparr>rep_repair_id = c0, rep_profile_id = v1, rep_snapshot_id = v2, rep_file_id = v3, rep_manifest_id = c4,
         rep_chunk_id = v5, rep_chunk_index = of_int c6, rep_repair_type = c7, rep_finding_code = c8,
         rep_old_storage_reference = c9, rep_new_storage_reference = c10, rep_status = c11,
         rep_bytes_processed = of_int c12, rep_duration_ms = of_int c13, rep_error_message = c14,
         rep_repaired_at = c15\<rparr>))))))))))))))))))))"

text \<open>The readers of profiles and of manifest rows take the columns first; an identifier that is not valid is then an
  error of the catalog, not of the row.\<close>

definition id_data :: "string \<Rightarrow> string \<Rightarrow> (DbError, ident_str) result" where
  "id_data entity s = map_err (\<lambda>e. InvalidData (AppError_display e)) (id_new entity s)"

definition profile_insert_columns :: "string list" where [row_codec]:
  "profile_insert_columns =
     [''profile_id'', ''name'', ''description'', ''source_path'', ''enabled'', ''created_at'', ''updated_at'']"

definition profile_params :: "ProfileRecord \<Rightarrow> sql_value list" where [row_codec]:
  "profile_params x =
     [SqlText (pr_profile_id x), SqlText (pr_name x), sql_opt SqlText (pr_description x), SqlText (pr_source_path x),
      sql_bool (pr_enabled x), SqlText (pr_created_at x), SqlText (pr_updated_at x)]"

definition profile_select_columns :: "string list" where [row_codec]:
  "profile_select_columns =
     [''profile_id'', ''name'', ''description'', ''source_path'', ''enabled'', ''created_at'', ''updated_at'']"

definition profile_columns :: "sql_row \<Rightarrow> (row_error, ProfileRecord) result" where [row_codec]:
  "profile_columns r =
     bind_res (get_string 0 r) (\<lambda>c0.
     bind_res (get_i64 4 r) (\<lambda>c4.
     bind_res (get_string 1 r) (\<lambda>c1.
     bind_res (get_string_opt 2 r) (\<lambda>c2.
     bind_res (get_string 3 r) (\<lambda>c3.
     bind_res (get_string 5 r) (\<lambda>c5.
     bind_res (get_string 6 r) (\<lambda>c6.
     Ok \<lparr>pr_profile_id = c0, pr_name = c1, pr_description = c2, pr_source_path = c3, pr_enabled = (c4 \<noteq> 0),
         pr_created_at = c5, pr_updated_at = c6\<rparr>)))))))"

definition map_profile_row :: "(row_error \<Rightarrow> string) \<Rightarrow> sql_row \<Rightarrow> (DbError, ProfileRecord) result" where [row_codec]:
  "map_profile_row show r =
     bind_res (map_err (row_db_error show) (profile_columns r)) (\<lambda>x.
     bind_res (id_data ''ProfileId'' (pr_profile_id x)) (\<lambda>pid. Ok (x\<lparr>pr_profile_id := pid\<rparr>)))"

definition manifest_insert_columns :: "string list" where [row_codec]:
  "manifest_insert_columns =
     [''manifest_id'', ''file_id'', ''manifest_version'', ''serialized_manifest'', ''created_at'', ''updated_at'']"

definition manifest_params :: "ManifestRecord \<Rightarrow> sql_value list" where [row_codec]:
  "manifest_params x =
     [SqlText (mr_manifest_id x), SqlText (mr_file_id x), SqlText (mr_manifest_version x),
      SqlText (mr_serialized_manifest x), SqlText (mr_created_at x), SqlText (mr_updated_at x)]"

definition manifest_select_columns :: "string list" where [row_codec]:
  "manifest_select_columns =
     [''manifest_id'', ''file_id'', ''manifest_version'', ''serialized_manifest'', ''created_at'', ''updated_at'']"

definition manifest_columns :: "sql_row \<Rightarrow> (row_error, ManifestRecord) result" where [row_codec]:
  "manifest_columns r =
     bind_res (get_string 0 r) (\<lambda>c0.
     bind_res (get_string 1 r) (\<lambda>c1.
     bind_res (get_string 2 r) (\<lambda>c2.
     bind_res (get_string 3 r) (\<lambda>c3.
     bind_res (get_string 4 r) (\<lambda>c4.
     bind_res (get_string 5 r) (\<lambda>c5.
     Ok \<lparr>mr_manifest_id = c0, mr_file_id = c1, mr_manifest_version = c2, mr_serialized_manifest = c3,
         mr_created_at = c4, mr_updated_at = c5\<rparr>))))))"

definition map_manifest_row :: "(row_error \<Rightarrow> string) \<Rightarrow> sql_row \<Rightarrow> (DbError, ManifestRecord) result" where [row_codec]:
  "map_manifest_row show r =
     bind_res (map_err (row_db_error show) (manifest_columns r)) (\<lambda>x.
     bind_res (id_data ''FileId'' (mr_file_id x)) (\<lambda>fid. Ok (x\<lparr>mr_file_id := fid\<rparr>)))"

text \<open>The Telegram tables are read one row at a time.\<close>

definition account_insert_columns :: "string list" where [row_codec]:
  "account_insert_columns =
     [''user_id'', ''first_name'', ''last_name'', ''username'', ''phone_redacted'', ''authenticated_at'', ''last_seen_at'']"

definition account_params :: "TelegramAccountRecord \<Rightarrow> sql_value list" where [row_codec]:
  "account_params x =
     [SqlInteger (tga_user_id x), SqlText (tga_first_name x), sql_opt SqlText (tga_last_name x),
      sql_opt SqlText (tga_username x), SqlText (tga_phone_redacted x), SqlText (tga_authenticated_at x),
      SqlText (tga_last_seen_at x)]"

definition account_select_columns :: "string list" where [row_codec]:
  "account_select_columns =
     [''user_id'', ''first_name'', ''last_name'', ''username'', ''phone_redacted'', ''authenticated_at'', ''last_seen_at'']"

definition map_account_row :: "sql_row \<Rightarrow> (row_error, TelegramAccountRecord) result" where [row_codec]:
  "map_account_row r =
     bind_res (get_i64 0 r) (\<lambda>c0.
     bind_res (get_string 1 r) (\<lambda>c1.
     bind_res (get_string_opt 2 r) (\<lambda>c2.
     bind_res (get_string_opt 3 r) (\<lambda>c3.
     bind_res (get_string 4 r) (\<lambda>c4.
     bind_res (get_string 5 r) (\<lambda>c5.
     bind_res (get_string 6 r) (\<lambda>c6.
     Ok \<lparr>tga_user_id = c0, tga_first_name = c1, tga_last_name = c2, tga_username = c3, tga_phone_redacted = c4,
         tga_authenticated_at = c5, tga_last_seen_at = c6\<rparr>)))))))"

definition channel_insert_columns :: "string list" where [row_codec]:
  "channel_insert_columns =
     [''channel_id'', ''user_id'', ''title'', ''is_private'', ''verified'', ''created_by_televault'', ''created_at'',
      ''verified_at'']"

definition channel_params :: "TelegramChannelRecord \<Rightarrow> sql_value list" where [row_codec]:
  "channel_params x =
     [SqlInteger (tgc_channel_id x), SqlInteger (tgc_user_id x), SqlText (tgc_title x), sql_bool (tgc_is_private x),
      sql_bool (tgc_verified x), sql_bool (tgc_created_by_televault x), SqlText (tgc_created_at x),
      sql_opt SqlText (tgc_verified_at x)]"

definition channel_select_columns :: "string list" where [row_codec]:
  "channel_select_columns =
     [''channel_id'', ''user_id'', ''title'', ''is_private'', ''verified'', ''created_by_televault'', ''created_at'',
      ''verified_at'']"

definition map_channel_row :: "sql_row \<Rightarrow> (row_error, TelegramChannelRecord) result" where [row_codec]:
  "map_channel_row r =
     bind_res (get_i64 3 r) (\<lambda>c3.
     bind_res (get_i64 4 r) (\<lambda>c4.
     bind_res (get_i64 5 r) (\<lambda>c5.
     bind_res (get_i64 0 r) (\<lambda>c0.
     bind_res (get_i64 1 r) (\<lambda>c1.
     bind_res (get_string 2 r) (\<lambda>c2.
     bind_res (get_string 6 r) (\<lambda>c6.
     bind_res (get_string_opt 7 r) (\<lambda>c7.
     Ok \<lparr>tgc_channel_id = c0, tgc_user_id = c1, tgc_title = c2, tgc_is_private = (c3 \<noteq> 0), tgc_verified = (c4 \<noteq> 0),
         tgc_created_by_televault = (c5 \<noteq> 0), tgc_created_at = c6, tgc_verified_at = c7\<rparr>))))))))"

definition auth_state_insert_columns :: "string list" where [row_codec]:
  "auth_state_insert_columns =
     [''singleton_id'', ''current_state'', ''active_user_id'', ''active_channel_id'', ''updated_at'']"

definition auth_state_params :: "TelegramAuthStateRecord \<Rightarrow> sql_value list" where [row_codec]:
  "auth_state_params x =
     [SqlInteger 1, SqlText (tgs_current_state x), sql_opt SqlInteger (tgs_active_user_id x),
      sql_opt SqlInteger (tgs_active_channel_id x), SqlText (tgs_updated_at x)]"

definition auth_state_select_columns :: "string list" where [row_codec]:
  "auth_state_select_columns = [''current_state'', ''active_user_id'', ''active_channel_id'', ''updated_at'']"

definition map_auth_state_row :: "sql_row \<Rightarrow> (row_error, TelegramAuthStateRecord) result" where [row_codec]:
  "map_auth_state_row r =
     bind_res (get_string 0 r) (\<lambda>c0.
     bind_res (get_i64_opt 1 r) (\<lambda>c1.
     bind_res (get_i64_opt 2 r) (\<lambda>c2.
     bind_res (get_string 3 r) (\<lambda>c3.
     Ok \<lparr>tgs_current_state = c0, tgs_active_user_id = c1, tgs_active_channel_id = c2, tgs_updated_at = c3\<rparr>))))"

subsection \<open>Diagnostics and search\<close>

record HealthStatus =
  hs_is_healthy :: bool
  hs_applied_migrations :: nat
  hs_total_profiles :: nat
  hs_total_files :: nat
  hs_total_chunks :: nat
  hs_integrity_check :: string
  hs_foreign_keys_enabled :: bool

text \<open>\<open>fk\<close>, \<open>quick\<close> and \<open>migrations\<close> are the answers of the pragmas and of the history of migrations.\<close>

definition health_check ::
  "(DbError, int) result \<Rightarrow> (DbError, string) result \<Rightarrow> nat option \<Rightarrow> Database \<Rightarrow> (DbError, HealthStatus) result" where
  "health_check fk quick migrations db =
     bind_res fk (\<lambda>fk_enabled. bind_res quick (\<lambda>integrity.
     Ok \<lparr>hs_is_healthy = (eq_ignore_ascii_case integrity ''ok'' \<and> fk_enabled = 1),
         hs_applied_migrations = (case migrations of Some n \<Rightarrow> n | None \<Rightarrow> 0),
         hs_total_profiles = length (t_profiles db), hs_total_files = length (t_files db),
         hs_total_chunks = length (t_chunks db), hs_integrity_check = integrity,
         hs_foreign_keys_enabled = (fk_enabled = 1)\<rparr>))"

definition violation_text :: "sql_row \<Rightarrow> (row_error, string) result" where
  "violation_text r =
     bind_res (get_string 0 r) (\<lambda>table. bind_res (get_i64 1 r) (\<lambda>rowid. bind_res (get_string 2 r) (\<lambda>parent.
     bind_res (get_i64 3 r) (\<lambda>fkid.
     Ok (''Foreign key violation: table '' @ quoted table @ '' rowid '' @ show_int rowid @ '' references parent ''
         @ quoted parent @ '' (fkid '' @ show_int fkid @ '')'')))))"

definition foreign_key_check :: "(row_error \<Rightarrow> string) \<Rightarrow> sql_row list \<Rightarrow> (DbError, string list) result" where
  "foreign_key_check show rows = fetch_rows show violation_text rows"

definition full_integrity_check :: "(row_error \<Rightarrow> string) \<Rightarrow> sql_row list \<Rightarrow> (DbError, string list) result" where
  "full_integrity_check show rows = fetch_rows show (get_string 0) rows"

record SearchResult =
  sres_file_id :: ident_str
  sres_file_name :: string
  sres_relative_path :: string

definition map_search_row :: "sql_row \<Rightarrow> (row_error, SearchResult) result" where [row_codec]:
  "map_search_row r =
     bind_res (get_string 0 r) (\<lambda>c0. bind_res (get_string 1 r) (\<lambda>c1. bind_res (get_string 2 r) (\<lambda>c2.
     bind_res (id_at ''FileId'' 0 c0) (\<lambda>v0.
     Ok \<lparr>sres_file_id = v0, sres_file_name = c1, sres_relative_path = c2\<rparr>))))"

definition search_files ::
  "(row_error \<Rightarrow> string) \<Rightarrow> (string \<Rightarrow> bool) \<Rightarrow> (string \<Rightarrow> sql_row list) \<Rightarrow> string
     \<Rightarrow> (DbError, SearchResult list) result" where
  "search_files show alnum fts_match query =
     (let sanitized = sanitize_fts5_query alnum query in
      if sanitized = [] then Ok [] else fetch_rows show map_search_row (fts_match sanitized))"

subsection \<open>A record that was stored is read back\<close>

definition valid_id :: "string \<Rightarrow> string \<Rightarrow> bool" where
  "valid_id entity s \<longleftrightarrow> validate_identifier_string entity s = Ok ()"

lemma id_at_iff [simp]: "id_at entity i s = Inr v \<longleftrightarrow> v = s \<and> valid_id entity s"
  by (auto simp: id_at_def id_new_ok_iff valid_id_def)

lemma id_opt_at_iff [simp]: "id_opt_at entity i x = Inr v \<longleftrightarrow> v = x \<and> pred_option (valid_id entity) x"
  by (cases x) (auto simp: id_opt_at_def bind_res_Inr_iff)

lemma status_at_iff [simp]: "status_at ty f i s = Inr v \<longleftrightarrow> f s = Some v"
  by (auto simp: status_at_def)

lemma column_nth [simp]: "i < length r \<Longrightarrow> column i r = Ok (r ! i)"
  by (simp add: column_def)

lemma get_values [simp]:
  "\<lbrakk>i < length r; r ! i = SqlText s\<rbrakk> \<Longrightarrow> get_string i r = Ok s"
  "\<lbrakk>i < length r; r ! i = sql_opt SqlText x\<rbrakk> \<Longrightarrow> get_string_opt i r = Ok x"
  "\<lbrakk>i < length r; r ! i = SqlInteger n\<rbrakk> \<Longrightarrow> get_i64 i r = Ok n"
  "\<lbrakk>i < length r; r ! i = sql_bool b\<rbrakk> \<Longrightarrow> get_i64 i r = Ok (of_bool b)"
  "\<lbrakk>i < length r; r ! i = sql_opt (\<lambda>n. SqlInteger (f n)) y\<rbrakk> \<Longrightarrow> get_i64_opt i r = Ok (map_option f y)"
  by (auto simp: get_string_def get_string_opt_def get_i64_def get_i64_opt_def sql_opt_def sql_bool_def split: option.split)

lemma selected_stored:
  assumes "distinct cols" "length cols = length vals"
  shows "selected cols (stored cols vals) = vals"
proof (rule nth_equalityI)
  fix i assume "i < length (selected cols (stored cols vals))"
  then have i: "i < length cols" by (simp add: selected_def)
  have "map_of (zip cols vals) (cols ! i) = Some (vals ! i)" using assms i by (intro map_of_zip_nth) simp_all
  then show "selected cols (stored cols vals) ! i = vals ! i" using i by (simp add: selected_def stored_def)
qed (simp add: selected_def assms)

lemma cast_nat_u32: "nat (int n mod 4294967296) = n \<longleftrightarrow> n < 4294967296"
  by (auto simp: nat_mod_as_int zmod_int [symmetric])

lemma cast_nat_u64: "nat (sint (of_nat n :: u64) mod 18446744073709551616) = n \<longleftrightarrow> n < 18446744073709551616"
proof -
  have "sint (of_nat n :: u64) mod 18446744073709551616 = uint (of_nat n :: u64)"
    by (simp add: uint_sint take_bit_eq_mod)
  also have "nat (uint (of_nat n :: u64)) = n mod 18446744073709551616"
    by (simp add: unsigned_of_nat take_bit_eq_mod nat_int)
  finally show ?thesis by auto
qed

lemma map_option_same: "map_option f x = x \<longleftrightarrow> pred_option (\<lambda>v. f v = v) x"
  by (cases x) auto

lemmas row_read =
  selected_stored bind_res_Inr_iff status_text_roundtrip option.map_comp comp_def map_option_same cast_nat_u32
  cast_nat_u64

subsection \<open>What a table promises\<close>

text \<open>
  A table is its two lists of columns, the parameters it binds and the reader of its rows. The promise: a record that was
  inserted is read back exactly when it is one the reader accepts. The listing of a table, which stops at the first row it
  cannot convert, then returns what was inserted exactly when every record is acceptable.
\<close>

definition table_row :: "string list \<Rightarrow> string list \<Rightarrow> ('a \<Rightarrow> sql_value list) \<Rightarrow> 'a \<Rightarrow> sql_row" where [row_codec]:
  "table_row ins sel params x = selected sel (stored ins (params x))"

locale sql_table =
  fixes ins sel :: "string list"
    and params :: "'a \<Rightarrow> sql_value list"
    and reader :: "sql_row \<Rightarrow> ('e, 'a) result"
    and acceptable :: "'a \<Rightarrow> bool"
  assumes reads: "reader (table_row ins sel params x) = Ok x \<longleftrightarrow> acceptable x"
begin

lemma listed_iff: "read_rows reader (map (table_row ins sel params) xs) = Ok xs \<longleftrightarrow> list_all acceptable xs"
  by (induction xs) (auto simp: bind_res_Inr_iff reads)

end

text \<open>Where no field is narrowed on the way, a row never reads as another record: a listing returns the records or fails.\<close>

locale exact_table = sql_table +
  assumes reads_only: "reader (table_row ins sel params x) = Ok y \<Longrightarrow> y = x"
begin

lemma listed_only:
  "read_rows reader (map (table_row ins sel params) xs) = Ok ys \<longleftrightarrow> ys = xs \<and> list_all acceptable xs"
proof -
  have "read_rows reader (map (table_row ins sel params) xs) = Ok ys \<Longrightarrow> ys = xs"
    by (induction xs arbitrary: ys) (auto simp: bind_res_Inr_iff dest: reads_only)
  then show ?thesis using listed_iff [of xs] by blast
qed

lemma read_one: "reader (table_row ins sel params x) = Ok y \<longleftrightarrow> y = x \<and> acceptable x"
  using reads reads_only by blast

end

definition file_acceptable :: "FileRecord \<Rightarrow> bool" where [row_codec]:
  "file_acceptable x \<longleftrightarrow> valid_id ''FileId'' (fr_file_id x) \<and>
     pred_option (valid_id ''ProfileId'') (fr_profile_id x)"

definition chunk_acceptable :: "ChunkRecord \<Rightarrow> bool" where [row_codec]:
  "chunk_acceptable x \<longleftrightarrow> valid_id ''ChunkId'' (cr_chunk_id x) \<and> valid_id ''FileId'' (cr_file_id x)"

definition snapshot_acceptable :: "SnapshotRecord \<Rightarrow> bool" where [row_codec]:
  "snapshot_acceptable x \<longleftrightarrow> valid_id ''SnapshotId'' (sr_snapshot_id x) \<and> valid_id ''ProfileId'' (sr_profile_id x)"

definition version_acceptable :: "VersionRecord \<Rightarrow> bool" where [row_codec]:
  "version_acceptable x \<longleftrightarrow> valid_id ''VersionId'' (ver_version_id x) \<and>
     valid_id ''FileId'' (ver_file_id x) \<and>
     valid_id ''SnapshotId'' (ver_snapshot_id x)"

definition transfer_job_acceptable :: "TransferJobRecord \<Rightarrow> bool" where [row_codec]:
  "transfer_job_acceptable x \<longleftrightarrow> valid_id ''JobId'' (tjr_job_id x) \<and>
     valid_id ''FileId'' (tjr_file_id x) \<and>
     pred_option (valid_id ''ChunkId'') (tjr_chunk_id x) \<and>
     tjr_retry_count x < 2 ^ 32"

definition schedule_acceptable :: "ScheduleRecord \<Rightarrow> bool" where [row_codec]:
  "schedule_acceptable x \<longleftrightarrow> valid_id ''ScheduleId'' (scr_schedule_id x) \<and>
     valid_id ''ProfileId'' (scr_profile_id x)"

definition schedule_history_acceptable :: "ScheduleHistoryRecord \<Rightarrow> bool" where [row_codec]:
  "schedule_history_acceptable x \<longleftrightarrow> valid_id ''ScheduleId'' (shr_schedule_id x) \<and>
     valid_id ''ProfileId'' (shr_profile_id x) \<and>
     pred_option (valid_id ''SnapshotId'') (shr_snapshot_id x)"

definition retention_policy_acceptable :: "RetentionPolicyRecord \<Rightarrow> bool" where [row_codec]:
  "retention_policy_acceptable x \<longleftrightarrow> valid_id ''ProfileId'' (rpr_profile_id x) \<and>
     pred_option (\<lambda>n. n < 2 ^ 32) (rpr_keep_latest_n x) \<and>
     pred_option (\<lambda>n. n < 2 ^ 64) (rpr_keep_newer_than_secs x)"

definition retention_history_acceptable :: "RetentionHistoryRecord \<Rightarrow> bool" where [row_codec]:
  "retention_history_acceptable x \<longleftrightarrow> valid_id ''ProfileId'' (rhr_profile_id x)"

definition verification_history_acceptable :: "VerificationHistoryRecord \<Rightarrow> bool" where [row_codec]:
  "verification_history_acceptable x \<longleftrightarrow> valid_id ''ProfileId'' (vhr_profile_id x)"

definition repair_history_acceptable :: "RepairHistoryRecord \<Rightarrow> bool" where [row_codec]:
  "repair_history_acceptable x \<longleftrightarrow> valid_id ''ProfileId'' (rep_profile_id x) \<and>
     pred_option (valid_id ''SnapshotId'') (rep_snapshot_id x) \<and>
     valid_id ''FileId'' (rep_file_id x) \<and>
     valid_id ''ChunkId'' (rep_chunk_id x)"

definition profile_acceptable :: "ProfileRecord \<Rightarrow> bool" where [row_codec]:
  "profile_acceptable x \<longleftrightarrow> valid_id ''ProfileId'' (pr_profile_id x)"

definition manifest_acceptable :: "ManifestRecord \<Rightarrow> bool" where [row_codec]:
  "manifest_acceptable x \<longleftrightarrow> valid_id ''FileId'' (mr_file_id x)"

lemma fetch_rows_Ok [simp]: "fetch_rows show f rows = Ok xs \<longleftrightarrow> read_rows f rows = Ok xs"
  by (cases "read_rows f rows") (simp_all add: fetch_rows_def)

lemma id_data_iff [simp]: "id_data entity s = Inr v \<longleftrightarrow> v = s \<and> valid_id entity s"
  by (auto simp: id_data_def id_new_ok_iff valid_id_def)

lemma get_i64_opt_plain [simp]: "\<lbrakk>i < length r; r ! i = sql_opt SqlInteger y\<rbrakk> \<Longrightarrow> get_i64_opt i r = Ok y"
  by (auto simp: get_i64_opt_def sql_opt_def split: option.split)

interpretation profile_table: exact_table
  profile_insert_columns profile_select_columns profile_params "map_profile_row msg" profile_acceptable for msg
  by (unfold_locales; case_tac x) (auto simp: row_codec row_read)

interpretation manifest_table: exact_table
  manifest_insert_columns manifest_select_columns manifest_params "map_manifest_row msg" manifest_acceptable for msg
  by (unfold_locales; case_tac x) (auto simp: row_codec row_read)

interpretation account_table: exact_table
  account_insert_columns account_select_columns account_params map_account_row "\<lambda>_. True"
  by (unfold_locales; case_tac x) (auto simp: row_codec row_read)

interpretation channel_table: exact_table
  channel_insert_columns channel_select_columns channel_params map_channel_row "\<lambda>_. True"
  by (unfold_locales; case_tac x) (auto simp: row_codec row_read)

interpretation auth_state_table: exact_table
  auth_state_insert_columns auth_state_select_columns auth_state_params map_auth_state_row "\<lambda>_. True"
  by (unfold_locales; case_tac x) (auto simp: row_codec row_read selected_def stored_def option.pred_True)

interpretation file_table: exact_table
  file_insert_columns file_select_columns file_params
  map_file_row file_acceptable
  by (unfold_locales; case_tac x) (auto simp: row_codec row_read)

interpretation chunk_table: exact_table
  chunk_insert_columns chunk_select_columns chunk_params
  map_chunk_row chunk_acceptable
  by (unfold_locales; case_tac x) (auto simp: row_codec row_read)

interpretation snapshot_table: exact_table
  snapshot_insert_columns snapshot_select_columns snapshot_params
  map_snapshot_row snapshot_acceptable
  by (unfold_locales; case_tac x) (auto simp: row_codec row_read)

interpretation version_table: exact_table
  version_insert_columns version_select_columns version_params
  map_version_row version_acceptable
  by (unfold_locales; case_tac x) (auto simp: row_codec row_read)

interpretation transfer_job_table: sql_table
  transfer_job_insert_columns transfer_job_select_columns transfer_job_params
  map_transfer_job_row transfer_job_acceptable
  by (unfold_locales; case_tac x) (auto simp: row_codec row_read)

interpretation schedule_table: exact_table
  schedule_insert_columns schedule_select_columns schedule_params
  map_schedule_row schedule_acceptable
  by (unfold_locales; case_tac x) (auto simp: row_codec row_read)

interpretation schedule_history_table: exact_table
  schedule_history_insert_columns schedule_history_select_columns schedule_history_params
  map_schedule_history_row schedule_history_acceptable
  by (unfold_locales; case_tac x) (auto simp: row_codec row_read)

interpretation retention_policy_table: sql_table
  retention_policy_insert_columns retention_policy_select_columns retention_policy_params
  map_retention_policy_row retention_policy_acceptable
  by (unfold_locales; case_tac x) (auto simp: row_codec row_read)

interpretation retention_history_table: exact_table
  retention_history_insert_columns retention_history_select_columns retention_history_params
  map_retention_history_row retention_history_acceptable
  by (unfold_locales; case_tac x) (auto simp: row_codec row_read)

interpretation verification_history_table: exact_table
  verification_history_insert_columns verification_history_select_columns verification_history_params
  map_verification_history_row verification_history_acceptable
  by (unfold_locales; case_tac x) (auto simp: row_codec row_read)

interpretation repair_history_table: exact_table
  repair_history_insert_columns repair_history_select_columns repair_history_params
  map_repair_history_row repair_history_acceptable
  by (unfold_locales; case_tac x) (auto simp: row_codec row_read)

subsection \<open>Listings of the catalog\<close>

lemma search_results_valid:
  assumes "search_files show alnum fts_match query = Ok rs"
  shows "list_all (\<lambda>r. valid_id ''FileId'' (sres_file_id r)) rs"
proof -
  have "read_rows map_search_row rows = Ok rs \<Longrightarrow> list_all (\<lambda>r. valid_id ''FileId'' (sres_file_id r)) rs" for rows
    by (induction rows arbitrary: rs) (auto simp: bind_res_Inr_iff map_search_row_def)
  then show ?thesis
    using assms by (cases "read_rows map_search_row (fts_match (sanitize_fts5_query alnum query))")
      (auto simp: search_files_def fetch_rows_def Let_def split: if_splits)
qed


end
