(* ===== verification/Spec2Isabelle.thy ===== *)
theory Spec2Isabelle
  imports TV_Prelude Core_Model Path_Syntax Manifest Storage_Model Transfer_Job Transfer_Queue Transfer_Engine Error_Types
    Schedule_Expr Retention_Eval Catalog_Inv Retention_Engine Crypto_Model Backup_Change Backup_Pipeline
    Restore_Pipeline Restore_Roundtrip Backup_Engine Schedule_Service Restore_Engine Integrity Verify_Engine
    Repair_Engine Telegram_Provider Telegram_Auth Telegram_Http Db_Error Backup_Checker Desktop_Error Desktop_State
    Desktop_Dto Desktop_Clock Desktop_Commands Desktop_Audit Desktop_Control Catalog_Rows Desktop_Records
begin

text \<open>
  A verification library for TELEVAULT, a desktop backup system that cuts files into chunks, seals
  them, stores them with a remote provider and keeps a catalog of manifests, snapshots and versions
  in SQLite. Paths below are under \<open>src/crates/\<close>; the desktop application is \<open>src/apps/desktop/src/\<close>.

  \<^bold>\<open>The parts and their theories.\<close>
  \<^item> \<open>TV_Prelude\<close>: results (\<open>Ok\<close>, \<open>Err\<close>), checked and saturating word arithmetic, UTF-8 strings
    as byte lists with the trimming, splitting and number parsing of the standard library.
  \<^item> \<open>Core_Model\<close> (televault-core): the application error, status enumerations, identifiers,
    path safety, \<open>PathManager\<close>, configuration. Shown: accepted identifiers and configurations
    exactly, accepted subpaths stay below their base.
  \<^item> \<open>Path_Syntax\<close>: the path syntax of the standard library on Windows, beside that of Unix in \<open>Core_Model\<close>. The locale
    \<open>path_syntax\<close> states what the restore engine relies on and is interpreted on both platforms.
  \<^item> \<open>Manifest\<close> (televault-manifest): the manifest, its validation loop, the chunk count. Shown:
    exactly which manifests validate, the chunk count is the least possible.
  \<^item> \<open>Storage_Model\<close> (televault-storage): requests, results and the mock provider; the locale
    \<open>storage_contract\<close> states what a provider promises and is interpreted on the mock. Shown:
    uploads are given back, the invariant, the meaning of verify.
  \<^item> \<open>Transfer_Job\<close>, \<open>Transfer_Queue\<close>, \<open>Transfer_Engine\<close> (televault-transfer): the job state
    machine, cancelling and progress streams, the bounded queue as a step relation, the workers and
    the staged upload with its retry loop. Shown: bounded concurrency, FIFO order, cancelled jobs are
    never handed out, the loop ends and the staging file is removed, a reported success stored the
    bytes; and the error paths that go wrong.
  \<^item> \<open>Db_Error\<close>, \<open>Error_Types\<close>: the error types of televault-db, televault-crypto and televault-backup.
  \<^item> \<open>Schedule_Expr\<close> (televault-scheduler, \<open>expression.rs\<close>): parsing and the next run. Shown: the
    next run in UTC is the first admissible instant, and the faults of the local-time search.
  \<^item> \<open>Catalog\<close>, \<open>Catalog_Inv\<close> (televault-db): the tables as lists of rows, the constraints and
    delete actions of the schema, every writing operation; the locale \<open>exec_invariant\<close> carries an
    invariant through sequences of operations. Shown: every reachable database is well-formed,
    pruning, repair and reconciliation are all or nothing.
  \<^item> \<open>Catalog_Rows\<close> (televault-db): the rows behind those lists, the parameters of each INSERT and the readers of the rows,
    the diagnostics and the search. The locales \<open>sql_table\<close> and \<open>exact_table\<close> state what a table promises and are interpreted
    on all sixteen tables. Shown: a listing gives back what was inserted exactly when the identifiers are valid.
  \<^item> \<open>Retention_Eval\<close>, \<open>Retention_Engine\<close> (televault-backup, \<open>retention/\<close>): Shown: the evaluator
    prunes exactly what the rules let go, never a protected recovery point, and the engine deletes
    exactly that.
  \<^item> \<open>Crypto_Model\<close> (televault-crypto): keys, key derivation, associated data, payloads. Shown:
    the associated data determine the place of a chunk.
  \<^item> \<open>Backup_Change\<close>, \<open>Backup_Pipeline\<close> (televault-backup): profiles, the scan of a directory tree,
    change detection, snapshots, and the pipeline that cuts, seals and stages a file. The locale
    \<open>byte_source\<close> is the contract of a reader, interpreted on slices. Shown: change detection is
    exact, the chunks make up the file.
  \<^item> \<open>Restore_Pipeline\<close>, \<open>Restore_Roundtrip\<close> (\<open>restore/\<close>): manifest checks, collisions, download,
    decryption and the move to the destination. Shown: only verified content reaches the
    destination, and backup followed by restore gives the file back.
  \<^item> \<open>Backup_Engine\<close>: planning and executing a backup over the catalog and the transfer engine. The
    locales \<open>catalog_order\<close> and \<open>catalog_run\<close> state what a run never undoes and are interpreted for
    every engine above the catalog. Shown: a run closes its snapshot, completed or failed.
  \<^item> \<open>Schedule_Service\<close> (televault-scheduler): the guard registry as a step relation, the schedule
    operations, one scheduled execution and the body of the service loop. Shown: at most one run per
    profile, every execution is recorded and frees its profile, and a restarted service is dead.
  \<^item> \<open>Restore_Engine\<close> (\<open>restore/mod.rs\<close>): the choice of the manifest and the destination, single files
    and snapshots. Shown, for the paths of Windows and of Unix: a snapshot restore changes nothing outside its destination,
    and the names of files to keep both for which it would.
  \<^item> \<open>Integrity\<close> (televault-integrity), \<open>Verify_Engine\<close> (\<open>verification/\<close>): findings and results, hashing
    streams, ownership checks and the four levels of verification. Shown: healthy means exactly
    owned, valid, complete and delivered; a healthy manifest is accepted by restore; a run writes its
    history only.
  \<^item> \<open>Repair_Engine\<close> (\<open>repair/\<close>): eligibility, the replacement of one chunk, previews and repairs under
    the profile guard. Shown: a repaired chunk is the slice of the local file, repair is all or
    nothing, idempotent, confined to its columns, and its candidates are the damaged chunks.
  \<^item> \<open>Telegram_Provider\<close> (televault-telegram: \<open>error.rs\<close>, \<open>reference.rs\<close>, \<open>contracts.rs\<close>, \<open>transport.rs\<close>,
    \<open>provider.rs\<close>): the provider over any transport, and the mock transport, on which \<open>storage_contract\<close> is
    interpreted again. Shown: what the transfer engine stores through it is given back, captions
    read back, deleting is exact.
  \<^item> \<open>Telegram_Auth\<close> (\<open>credentials.rs\<close>, \<open>mtproto.rs\<close>): credential files, the login drivers and the manager, whose
    critical sections are a step relation. Shown: an open gate has a channel that a driver answered for or that came from
    a stored session, a stored session restores the login; how little the flag of the channel says, and the ways around the gate.
  \<^item> \<open>Telegram_Http\<close> (\<open>http.rs\<close>): the transport over the Bot API. Shown: a successful upload posted what it
    read, a successful download has the expected digest whatever the server answers, and when the
    spool file is left behind.

  \<^item> \<open>Backup_Checker\<close> (televault-backup, \<open>checker.rs\<close>): the status of a file, whether a backup is due, the check of a
    manifest and the trial restore. Shown: a manifest called restorable is accepted by restore, and a trial
    restore that succeeds has the digest of the manifest.
  \<^item> \<open>Desktop_Error\<close> (desktop \<open>error.rs\<close>), \<open>Desktop_Records\<close>, \<open>Desktop_Dto\<close> (\<open>dto/\<close>): the errors and records of the interface and the
    conversions to them. Shown: which errors are reported as a cancellation, and which
    cancellations are not; settings survive the conversion.
  \<^item> \<open>Desktop_State\<close> (\<open>state.rs\<close>, and the clean-up of televault-storage \<open>temp.rs\<close>): the shared state with the provider in
    use, start-up and recovery, the Telegram settings, and the registry of running operations as a step relation.
    Shown: start-up begins clean, saved settings choose the provider again after a restart, a cancellation signals
    the token of the operation it names.
  \<^item> \<open>Desktop_Clock\<close> (\<open>format_rfc3339\<close> of \<open>commands/backup.rs\<close>): the time stamps. Shown: they name the right date of the
    Gregorian calendar, given in closed form.
  \<^item> \<open>Desktop_Commands\<close> (\<open>commands/backup.rs\<close>, \<open>restore.rs\<close>, \<open>checker.rs\<close>), \<open>Desktop_Audit\<close> (\<open>verification.rs\<close>, \<open>repair.rs\<close>,
    \<open>retention.rs\<close>), \<open>Desktop_Control\<close> (\<open>transfer.rs\<close>, \<open>scheduler.rs\<close>, \<open>system.rs\<close>, \<open>telegram.rs\<close>, \<open>telegram_auth.rs\<close>): every
    command over the state, from the gate and the checks of its request to the engine it runs and the record it returns.
    The steps the commands share (\<open>gated\<close>, \<open>check_then\<close>, \<open>registered\<close>, \<open>holding\<close>) are combinators, and what they keep is
    proved once for each. Shown: pruning spares a snapshot that is being restored, accepted settings are read back, and
    below, that the gate stops every command it guards, that the profile locks are always given back, and the
    registration of an operation when its task was joined; when the task fails it is not.

  \<^bold>\<open>Conventions.\<close> Machine integers are words; a panic is a value where the code can reach one.
  Files, clocks, random numbers and other processes enter as arguments (records named \<open>..._env\<close>)
  that say what each operation meets. SHA-256, AES-256-GCM, Argon2id, serde_json, the HTTP and MTProto clients and time zones are
  parameters; theorems that need something of them name it as a hypothesis. A retry loop ends by a
  measure on the retries left; a loop that may run forever is a partial function whose value is
  None, and no other fuel is used.

  Each command of the desktop application runs alone in the model; what other threads do to it meanwhile, a
  cancellation above all, comes in through its environment. The end of the task an engine runs in is an argument too
  (\<open>task_end\<close>): a failed task leaves the catalog, the transfer engine and the files in any state.

  \<^bold>\<open>Where the model is coarser than the code.\<close> The counters of the two mock back ends are unbounded, a failed
  write leaves none of its bytes, letters outside ASCII are not folded to lower case in error texts, retry counts are
  natural numbers bounded by the limit of the policy.

  \<^bold>\<open>Not modelled.\<close> The clients that speak to Telegram (grammers, reqwest), which are parameters; the user interface, the
  registration of the commands with Tauri and the event emitter, the command line, SQL migrations and pragmas.
\<close>

text \<open>C22. The gate stops what it guards: while the personal login is not ready, every command that moves data between the
  machine and the remote storage - backups, restores, trial restores, verifications, repairs and their previews, scheduled
  backups run by hand - answers UNAUTHORIZED and leaves the whole state as it is; and logging out closes the gate.\<close>

theorem gate_guards_commands:
  assumes "is_state (am_inner (das_auth st)) \<noteq> AuthState.Ready"
  shows "\<exists>e. ipc_code e = ''UNAUTHORIZED''
    \<and> cmd_start_backup kl benv root stamp t1 q1 st = Some (st, Err e)
    \<and> cmd_restore_file kl rlib mk cf renv t2 q2 st = Some (st, Err e)
    \<and> cmd_restore_manifest kl rlib mk renv t3 q3 st = Some (st, Err e)
    \<and> cmd_restore_snapshot kl rlib mk c0 cs renvs ms t4 q4 st = Some (st, Err e)
    \<and> cmd_verify_full_restore kl rlib tenv t2 q2 st = Some (st, Err e)
    \<and> cmd_verify_file_backup vlib venv venv' t5 q5 st = Some (st, Err e)
    \<and> cmd_verify_manifest vlib venv t5 q5 st = Some (st, Err e)
    \<and> cmd_verify_snapshot vlib venv venvs t5 q5 st = Some (st, Err e)
    \<and> cmd_verify_profile vlib venv venvss t5 q5 st = Some (st, Err e)
    \<and> cmd_preview_repair kl plib src t venv venvs t6 q6 st = Some (st, Err e)
    \<and> cmd_repair_file kl plib src penv t7 q7 st = Some (st, Err e)
    \<and> cmd_repair_snapshot kl plib src penv t8 q8 st = Some (st, Err e)
    \<and> cmd_run_schedule_now slib txt fallback xenv s st = Some (st, Err e)
    \<and> is_state (am_inner (das_auth (fst (cmd_logout_telegram alib lenv cleared_at st2)))) \<noteq> AuthState.Ready"
proof -
  from assms obtain e where closed: "desktop_auth_gate st = Inl e" and code: "ipc_code e = ''UNAUTHORIZED''"
    by (auto simp: desktop_auth_gate_def check_auth_gate_def ipc_unauthorized_def IpcError_new_def)
  show ?thesis
    using code logout_closes_gate
    unfolding cmd_start_backup_def cmd_restore_file_def cmd_restore_manifest_def cmd_restore_snapshot_def
      cmd_verify_full_restore_def cmd_verify_file_backup_def cmd_verify_manifest_def cmd_verify_snapshot_def
      cmd_verify_profile_def cmd_preview_repair_def cmd_repair_file_def cmd_repair_snapshot_def cmd_run_schedule_now_def
    by (intro exI [of _ e]) (simp add: gated_def closed)
qed

definition sample_login :: login_env where
  "sample_login = \<lparr>lg_auth = Desktop_State.sample_auth_env, lg_api_id = None, lg_api_hash = None,
     lg_io = \<lparr>fio_create_dir = None, fio_write = None, fio_rename = None\<rparr>, lg_constraint_text = ''e'', lg_account_now = ''n'',
     lg_channel_now = ''n'', lg_db_now = ''n''\<rparr>"

definition signed_out :: "(unit backend, unit, unit, unit) DesktopAppState" where
  "signed_out = fst (cmd_logout_telegram Desktop_State.sample_auth_lib sample_login ''n'' (new_in_memory [Normal ''b''] sample_db ''n''))"

theorem gate_guards_commands_witness:
  "(\<forall>kl (benv :: (unit backend, unit) backup_env) root stamp tk q. \<exists>e. ipc_code e = ''UNAUTHORIZED''
      \<and> cmd_start_backup kl benv root stamp tk q signed_out = Some (signed_out, Err e))
   \<and> (\<forall>kl rlib mk c env tk q. \<exists>e. ipc_code e = ''UNAUTHORIZED''
      \<and> cmd_restore_file kl rlib mk c env tk q signed_out = Some (signed_out, Err e))"
proof -
  have closed: "is_state (am_inner (das_auth signed_out)) \<noteq> AuthState.Ready"
    unfolding signed_out_def by (rule logout_closes_gate)
  have "\<exists>e. ipc_code e = ''UNAUTHORIZED'' \<and> cmd_start_backup kl benv root stamp tk q signed_out = Some (signed_out, Err e)"
    for kl root stamp tk q and benv :: "(unit backend, unit) backup_env"
    by (rule exE [OF gate_guards_commands [OF closed, where kl = kl and benv = benv and root = root and stamp = stamp and ?t1.0 = tk and ?q1.0 = q]])
      (elim conjE, intro exI conjI, assumption+)
  moreover have "\<exists>e. ipc_code e = ''UNAUTHORIZED'' \<and> cmd_restore_file kl rlib mk c env tk q signed_out = Some (signed_out, Err e)"
    for kl mk c env tk q and rlib :: "unit backend restore_lib"
    by (rule exE [OF gate_guards_commands [OF closed, where kl = kl and rlib = rlib and mk = mk and cf = c and renv = env and ?t2.0 = tk and ?q2.0 = q]])
      (elim conjE, intro exI conjI, assumption+)
  ultimately show ?thesis by blast
qed

text \<open>C23. Whatever a backup, a restore, a trial restore, a repair or its preview returns, success or any error, the profiles
  in backup and under repair are those of before. When its task was joined, whatever the engine answered, the operation
  has also given back its registration: either the request was refused before anything was registered, or its name, and
  no other, is gone from the registry, so that it no longer shields a snapshot from pruning. When the task itself failed
  the command reports an error and, unless it was refused before, its name stays registered.\<close>

theorem operations_given_back:
  "gives_back t1 (sbr_profile_id q1) (cmd_start_backup kl benv root stamp t1 q1)
     \<and> gives_back t2 (rfq_file_id q2) (cmd_restore_file kl rlib mk cf renv t2 q2)
     \<and> gives_back t3 (manifest_op rlib q3) (cmd_restore_manifest kl rlib mk renv t3 q3)
     \<and> gives_back t4 (''snap-'' @ rsq_snapshot_id q4) (cmd_restore_snapshot kl rlib mk c0 cs renvs ms t4 q4)
     \<and> gives_back t5 (''verify-'' @ rfq_file_id q5) (cmd_verify_full_restore kl rlib tenv t5 q5)
     \<and> gives_back t6 (preview_op q6) (cmd_preview_repair kl plib src stamps venv venvs t6 q6)
     \<and> gives_back t7 (repair_file_op q7) (cmd_repair_file kl plib src penv t7 q7)
     \<and> gives_back t8 (repair_snapshot_op q8) (cmd_repair_snapshot kl plib src penv t8 q8)"
  by (intro conjI start_backup_gives_back restore_file_gives_back restore_manifest_gives_back restore_snapshot_gives_back
      verify_full_restore_gives_back preview_repair_gives_back repair_file_gives_back repair_snapshot_gives_back)

end
